(* ===== verification/Prelude.thy ===== *)
theory Prelude
  imports Complex_Main "HOL-Library.Sublist"
begin

text \<open>
  What every component of the development shares: the exceptions of the backend as values,
  the error result and its sequencing, SQL tables as lists of rows (insertion order), the Python
  string operations the sources call, Python's \<open>round\<close> of a quotient, reachability of a
  component's states with the invariant rule as a locale, and the theorem collections the
  component proofs use.

  Time stamps are \<open>real\<close> (Python floats; rounding is not modelled). Strings are lists of
  characters; code points beyond the first 256 are not modelled.
\<close>

section \<open>Theorem collections\<close>

named_theorems res_iff \<open>when a fallible computation returns a given value\<close>
named_theorems table_simps \<open>what table updates do to the rows\<close>
named_theorems inv_intros \<open>operations keep the invariant of their component\<close>

section \<open>Exceptions and fallible results\<close>

datatype py_exn =
    HTTPException nat string
  | IntegrityError string
  | ValueError string
  | KeyError string
  | LookupError string
  | TypeError
  | RuntimeError string
  | InterruptedError string
  | PermissionError string
  | OSError string
  | FileNotFoundError string
  | PolicyError string
  | SubprocessError string

type_synonym 'a res = "py_exn + 'a"
type_synonym time = real

text \<open>\<^verbatim>\<open>str(e)\<close>, the class name, and the families \<^verbatim>\<open>except\<close> clauses name.\<close>

fun exn_message :: "py_exn \<Rightarrow> string" where
  "exn_message (HTTPException _ m) = m"
| "exn_message (IntegrityError m) = m"
| "exn_message (ValueError m) = m"
| "exn_message (KeyError m) = m"
| "exn_message (LookupError m) = m"
| "exn_message TypeError = []"
| "exn_message (RuntimeError m) = m"
| "exn_message (InterruptedError m) = m"
| "exn_message (PermissionError m) = m"
| "exn_message (OSError m) = m"
| "exn_message (FileNotFoundError m) = m"
| "exn_message (PolicyError m) = m"
| "exn_message (SubprocessError m) = m"

fun exn_type :: "py_exn \<Rightarrow> string" where
  "exn_type (HTTPException _ m) = ''HTTPException''"
| "exn_type (IntegrityError m) = ''IntegrityError''"
| "exn_type (ValueError m) = ''ValueError''"
| "exn_type (KeyError m) = ''KeyError''"
| "exn_type (LookupError m) = ''LookupError''"
| "exn_type TypeError = ''TypeError''"
| "exn_type (RuntimeError m) = ''RuntimeError''"
| "exn_type (InterruptedError m) = ''InterruptedError''"
| "exn_type (PermissionError m) = ''PermissionError''"
| "exn_type (OSError m) = ''OSError''"
| "exn_type (FileNotFoundError m) = ''FileNotFoundError''"
| "exn_type (PolicyError m) = ''PolicyError''"
| "exn_type (SubprocessError m) = ''TimeoutExpired''"

fun is_policy_error :: "py_exn \<Rightarrow> bool" where
  "is_policy_error (PolicyError _) = True"
| "is_policy_error _ = False"

fun is_os_error :: "py_exn \<Rightarrow> bool" where
  "is_os_error (OSError _) = True"
| "is_os_error (PermissionError _) = True"
| "is_os_error (InterruptedError _) = True"
| "is_os_error (FileNotFoundError _) = True"
| "is_os_error _ = False"

fun is_runtime_error :: "py_exn \<Rightarrow> bool" where
  "is_runtime_error (RuntimeError _) = True"
| "is_runtime_error _ = False"

fun is_subprocess_error :: "py_exn \<Rightarrow> bool" where
  "is_subprocess_error (SubprocessError _) = True"
| "is_subprocess_error _ = False"

definition rbind :: "'a res \<Rightarrow> ('a \<Rightarrow> 'b res) \<Rightarrow> 'b res" where
  "rbind m f = (case m of Inl e \<Rightarrow> Inl e | Inr x \<Rightarrow> f x)"

lemma rbind_simps [simp]:
  "rbind (Inl e) f = Inl e"
  "rbind (Inr x) f = f x"
  by (simp_all add: rbind_def)

lemma rbind_Inr_iff [res_iff]: "rbind m f = Inr y \<longleftrightarrow> (\<exists>x. m = Inr x \<and> f x = Inr y)"
  by (cases m) auto

lemma rbind_Inl_iff: "rbind m f = Inl e \<longleftrightarrow> m = Inl e \<or> (\<exists>x. m = Inr x \<and> f x = Inl e)"
  by (cases m) auto

lemma if_Inl_Inr_iff [res_iff]:
  "(if b then Inl e else m) = Inr y \<longleftrightarrow> \<not> b \<and> m = Inr y"
  "(if b then m else Inl e) = Inr y \<longleftrightarrow> b \<and> m = Inr y"
  by auto

lemma case_option_Inl_iff [res_iff]:
  "(case z of None \<Rightarrow> Inl e | Some x \<Rightarrow> f x) = Inr y \<longleftrightarrow> (\<exists>x. z = Some x \<and> f x = Inr y)"
  by (cases z) auto

lemma Let_Inr_iff [res_iff]: "(let x = v in f x) = Inr w \<longleftrightarrow> f v = Inr w"
  by simp

text \<open>A loop over a list that may raise, threading a state: \<open>for x in xs: s = f(x, s)\<close>.\<close>

fun rfold :: "('x \<Rightarrow> 's \<Rightarrow> 's res) \<Rightarrow> 'x list \<Rightarrow> 's \<Rightarrow> 's res" where
  "rfold f [] s = Inr s"
| "rfold f (x # xs) s = rbind (f x s) (rfold f xs)"

lemma rfold_invariant:
  assumes "rfold f xs s = Inr t" and "P s"
    and "\<And>x s t. x \<in> set xs \<Longrightarrow> P s \<Longrightarrow> f x s = Inr t \<Longrightarrow> P t"
  shows "P t"
  using assms
proof (induction xs arbitrary: s)
  case Nil
  then show ?case by simp
next
  case (Cons x xs)
  from Cons.prems(1) obtain u where u: "f x s = Inr u" "rfold f xs u = Inr t"
    by (auto simp: res_iff)
  have "P u"
    using Cons.prems(2,3) u(1) by (auto intro: Cons.prems(3))
  with u(2) show ?case
    using Cons.prems(3) by (auto intro: Cons.IH)
qed

text \<open>\<open>[f(x) for x in xs]\<close> for an \<open>f\<close> that may raise.\<close>

fun rmap :: "('x \<Rightarrow> 'y res) \<Rightarrow> 'x list \<Rightarrow> 'y list res" where
  "rmap f [] = Inr []"
| "rmap f (x # xs) = rbind (f x) (\<lambda>y. rbind (rmap f xs) (\<lambda>ys. Inr (y # ys)))"

lemma rmap_map: "(\<And>x. x \<in> set xs \<Longrightarrow> f x = Inr (g x)) \<Longrightarrow> rmap f xs = Inr (map g xs)"
  by (induction xs) auto

section \<open>Tables as lists of rows\<close>

text \<open>
  \<open>UPDATE t SET .. WHERE p\<close>, \<open>DELETE FROM t WHERE p\<close>, \<open>INSERT\<close> under a primary or unique key
  (raising \<open>sqlite3.IntegrityError\<close>) and \<open>INSERT OR IGNORE\<close>.
\<close>

definition upd_rows :: "('r \<Rightarrow> bool) \<Rightarrow> ('r \<Rightarrow> 'r) \<Rightarrow> 'r list \<Rightarrow> 'r list" where
  "upd_rows p f rows = map (\<lambda>r. if p r then f r else r) rows"

definition del_rows :: "('r \<Rightarrow> bool) \<Rightarrow> 'r list \<Rightarrow> 'r list" where
  "del_rows p rows = filter (\<lambda>r. \<not> p r) rows"

definition insert_row :: "('r \<Rightarrow> 'k) \<Rightarrow> string \<Rightarrow> 'r \<Rightarrow> 'r list \<Rightarrow> 'r list res" where
  "insert_row key what r rows =
     (if list_ex (\<lambda>x. key x = key r) rows then Inl (IntegrityError what) else Inr (rows @ [r]))"

definition insert_ignore :: "('r \<Rightarrow> 'k) \<Rightarrow> 'r \<Rightarrow> 'r list \<Rightarrow> 'r list" where
  "insert_ignore key r rows = (if list_ex (\<lambda>x. key x = key r) rows then rows else rows @ [r])"

definition keyed :: "('r \<Rightarrow> 'k) \<Rightarrow> 'r list \<Rightarrow> bool" where
  "keyed key rows \<longleftrightarrow> distinct (map key rows)"

lemma set_del_rows [simp]: "set (del_rows p rows) = {r \<in> set rows. \<not> p r}"
  by (auto simp: del_rows_def)

lemma set_upd_rows: "set (upd_rows p f rows) = (\<lambda>r. if p r then f r else r) ` set rows"
  by (simp add: upd_rows_def)

lemma upd_rows_Nil [simp]: "upd_rows p f [] = []"
  and upd_rows_Cons [simp]:
    "upd_rows p f (r # rows) = (if p r then f r else r) # upd_rows p f rows"
  and upd_rows_append [simp]: "upd_rows p f (xs @ ys) = upd_rows p f xs @ upd_rows p f ys"
  by (simp_all add: upd_rows_def)

lemma del_rows_Nil [simp]: "del_rows p [] = []"
  and del_rows_Cons [simp]:
    "del_rows p (r # rows) = (if p r then del_rows p rows else r # del_rows p rows)"
  and del_rows_append [simp]: "del_rows p (xs @ ys) = del_rows p xs @ del_rows p ys"
  by (simp_all add: del_rows_def)

lemma map_upd_rows_frame: "(\<And>r. g (f r) = g r) \<Longrightarrow> map g (upd_rows p f rows) = map g rows"
  by (simp add: upd_rows_def)

lemma length_upd_rows [simp]: "length (upd_rows p f rows) = length rows"
  by (simp add: upd_rows_def)

lemma keyed_Nil [simp]: "keyed key []"
  by (simp add: keyed_def)

lemma keyed_del_rows [inv_intros]: "keyed key rows \<Longrightarrow> keyed key (del_rows p rows)"
  by (simp add: keyed_def del_rows_def distinct_map_filter)

lemma keyed_upd_rows [inv_intros]:
  "keyed key rows \<Longrightarrow> (\<And>r. key (f r) = key r) \<Longrightarrow> keyed key (upd_rows p f rows)"
  by (simp add: keyed_def map_upd_rows_frame)

lemma keyed_snoc: "keyed key (rows @ [r]) \<longleftrightarrow> keyed key rows \<and> key r \<notin> key ` set rows"
  by (auto simp: keyed_def)

lemma insert_row_Inr_iff [res_iff]:
  "insert_row key w r rows = Inr rows' \<longleftrightarrow> key r \<notin> key ` set rows \<and> rows' = rows @ [r]"
  by (auto simp: insert_row_def list_ex_iff image_iff eq_commute [of "key r"])

lemma insert_row_Inl_iff:
  "insert_row key w r rows = Inl e \<longleftrightarrow> key r \<in> key ` set rows \<and> e = IntegrityError w"
  by (auto simp: insert_row_def list_ex_iff image_iff eq_commute [of "key r"])

lemma keyed_insert_ignore [inv_intros]:
  "keyed key rows \<Longrightarrow> keyed key (insert_ignore key r rows)"
  by (auto simp: insert_ignore_def keyed_snoc list_ex_iff)

lemma insert_ignore_alt:
  "insert_ignore key r rows = (if key r \<in> key ` set rows then rows else rows @ [r])"
  by (auto simp: insert_ignore_def list_ex_iff image_iff eq_commute [of "key r"])

lemma set_insert_ignore:
  "set (insert_ignore key r rows)
     = (if key r \<in> key ` set rows then set rows else insert r (set rows))"
  by (auto simp: insert_ignore_def list_ex_iff image_iff)

lemma keyed_eqI: "keyed key rows \<Longrightarrow> a \<in> set rows \<Longrightarrow> b \<in> set rows \<Longrightarrow> key a = key b \<Longrightarrow> a = b"
  by (auto simp: keyed_def distinct_map dest: inj_onD)

lemma find_keyed:
  "keyed key rows \<Longrightarrow> find (\<lambda>r. key r = k) rows = Some r \<longleftrightarrow> r \<in> set rows \<and> key r = k"
  by (induction rows) (auto simp: keyed_def)

lemma find_Some_D: "find p rows = Some r \<Longrightarrow> r \<in> set rows \<and> p r"
  by (induction rows) (auto split: if_splits)

section \<open>Python strings\<close>

definition ascii_lower :: "string \<Rightarrow> string" where
  "ascii_lower s = map (\<lambda>c. if of_char c \<in> {65..90::nat} then char_of (of_char c + 32 :: nat) else c) s"

text \<open>\<open>str.isspace\<close> on the first 256 code points.\<close>

definition is_space :: "char \<Rightarrow> bool" where
  "is_space c = (let n = of_char c :: nat in
     9 \<le> n \<and> n \<le> 13 \<or> 28 \<le> n \<and> n \<le> 32 \<or> n = 133 \<or> n = 160)"

definition is_digit :: "char \<Rightarrow> bool" where
  "is_digit c = (48 \<le> (of_char c :: nat) \<and> of_char c \<le> (57::nat))"

definition py_strip :: "string \<Rightarrow> string" where
  "py_strip s = rev (dropWhile is_space (rev (dropWhile is_space s)))"

text \<open>\<open>s.rstrip(c)\<close> for a one-character argument.\<close>

definition rstrip_char :: "char \<Rightarrow> string \<Rightarrow> string" where
  "rstrip_char c s = rev (dropWhile (\<lambda>x. x = c) (rev s))"

lemma rstrip_char_id: "s = [] \<or> last s \<noteq> c \<Longrightarrow> rstrip_char c s = s"
  by (cases s rule: rev_cases) (auto simp: rstrip_char_def)

text \<open>\<open>s.split(c)\<close> for a one-character separator: never empty.\<close>

fun py_split :: "char \<Rightarrow> string \<Rightarrow> string list" where
  "py_split c [] = [[]]"
| "py_split c (x # xs) =
     (if x = c then [] # py_split c xs
      else (case py_split c xs of [] \<Rightarrow> [[x]] | w # ws \<Rightarrow> (x # w) # ws))"

lemma py_split_not_Nil [simp]: "py_split c s \<noteq> []"
  by (cases s) (auto split: list.splits)

lemma py_split_no_sep: "w \<in> set (py_split c s) \<Longrightarrow> c \<notin> set w"
  by (induction c s arbitrary: w rule: py_split.induct) (auto split: if_splits list.splits)

text \<open>\<open>s.split()\<close>: maximal runs of non-space characters.\<close>

fun split_ws_from :: "string \<Rightarrow> string \<Rightarrow> string list" where
  "split_ws_from w [] = (if w = [] then [] else [w])"
| "split_ws_from w (x # xs) =
     (if is_space x then (if w = [] then split_ws_from [] xs else w # split_ws_from [] xs)
      else split_ws_from (w @ [x]) xs)"

definition py_split_ws :: "string \<Rightarrow> string list" where
  "py_split_ws s = split_ws_from [] s"

text \<open>\<open>sep.join(words)\<close> for a one-character separator.\<close>

fun py_join :: "char \<Rightarrow> string list \<Rightarrow> string" where
  "py_join c [] = []"
| "py_join c [w] = w"
| "py_join c (w # v # ws) = w @ c # py_join c (v # ws)"

text \<open>\<open>s.partition(c)\<close>, as (head, found, tail).\<close>

fun py_partition :: "char \<Rightarrow> string \<Rightarrow> string \<times> bool \<times> string" where
  "py_partition c [] = ([], False, [])"
| "py_partition c (x # xs) =
     (if x = c then ([], True, xs)
      else (case py_partition c xs of (h, f, t) \<Rightarrow> (x # h, f, t)))"

definition digit_value :: "char \<Rightarrow> nat" where
  "digit_value c = of_char c - 48"

text \<open>\<open>int(s)\<close> for a string of decimal digits.\<close>

definition nat_of_digits :: "string \<Rightarrow> nat" where
  "nat_of_digits s = foldl (\<lambda>n c. 10 * n + digit_value c) 0 s"

text \<open>\<open>str.isdigit\<close> on the first 256 code points: also the superscripts, which \<open>int\<close> refuses.\<close>

definition py_isdigit :: "string \<Rightarrow> bool" where
  "py_isdigit s \<longleftrightarrow> s \<noteq> [] \<and> list_all (\<lambda>c. is_digit c \<or> of_char c \<in> {178, 179, 185 :: nat}) s"

definition py_int :: "string \<Rightarrow> nat res" where
  "py_int s = (if list_all is_digit s then Inr (nat_of_digits s)
     else Inl (ValueError ''invalid literal for int()''))"

lemma split_ws_from_words:
  assumes "\<forall>c \<in> set w. \<not> is_space c" and "v \<in> set (split_ws_from w s)"
  shows "v \<noteq> [] \<and> (\<forall>c \<in> set v. \<not> is_space c)"
  using assms
proof (induction s arbitrary: w)
  case Nil
  then show ?case by (cases "w = []") auto
next
  case (Cons x s)
  show ?case
  proof (cases "is_space x")
    case True
    with Cons.prems have "v = w \<and> w \<noteq> [] \<or> v \<in> set (split_ws_from [] s)"
      by (cases "w = []") auto
    then show ?thesis using Cons.IH [of "[]"] Cons.prems(1) by fastforce
  next
    case False
    with Cons.prems have "v \<in> set (split_ws_from (w @ [x]) s)" by simp
    then show ?thesis using False Cons.prems(1) by (intro Cons.IH) auto
  qed
qed

lemma py_split_ws_words: "v \<in> set (py_split_ws s) \<Longrightarrow> v \<noteq> [] \<and> (\<forall>c \<in> set v. \<not> is_space c)"
  unfolding py_split_ws_def by (rule split_ws_from_words) auto

lemma split_ws_from_run:
  "\<forall>c \<in> set v. \<not> is_space c \<Longrightarrow> split_ws_from w (v @ s) = split_ws_from (w @ v) s"
  by (induction v arbitrary: w) auto

lemma split_ws_join:
  assumes "\<forall>w \<in> set ws. w \<noteq> [] \<and> (\<forall>c \<in> set w. \<not> is_space c)"
  shows "py_split_ws (py_join CHR '' '' ws) = ws"
proof -
  have sp: "is_space CHR '' ''" by (simp add: is_space_def)
  have "split_ws_from [] (py_join CHR '' '' ws) = ws"
    using assms
  proof (induction "CHR '' ''" ws rule: py_join.induct)
    case 1
    then show ?case by simp
  next
    case (2 w)
    then show ?case using split_ws_from_run [of w "[]" "[]"] by simp
  next
    case (3 w v ws)
    then show ?case
      using split_ws_from_run [of w "[]" "CHR '' '' # py_join CHR '' '' (v # ws)"] sp
      by simp
  qed
  then show ?thesis by (simp add: py_split_ws_def)
qed

section \<open>Python's \<open>round\<close> on a quotient\<close>

text \<open>\<open>round(a / b)\<close> for \<open>0 < b\<close>: to the nearest integer, ties to the even one.\<close>

definition round_div :: "nat \<Rightarrow> nat \<Rightarrow> nat" where
  "round_div a b = (let q = a div b; r = a mod b in
     if 2 * r < b then q else if b < 2 * r then q + 1 else if even q then q else q + 1)"

lemma round_div_bounds:
  assumes "0 < b"
  shows "2 * (b * round_div a b) \<le> 2 * a + b" and "2 * a \<le> 2 * (b * round_div a b) + b"
proof -
  define q where "q = a div b"
  define r where "r = a mod b"
  have a: "a = b * q + r" and r: "r < b"
    using assms by (simp_all add: q_def r_def)
  have "round_div a b = q \<and> 2 * r \<le> b \<or> round_div a b = q + 1 \<and> b \<le> 2 * r"
    by (auto simp: round_div_def Let_def q_def [symmetric] r_def [symmetric])
  then show "2 * (b * round_div a b) \<le> 2 * a + b" and "2 * a \<le> 2 * (b * round_div a b) + b"
    using r by (auto simp: a distrib_left)
qed

text \<open>\<open>round(x, 3)\<close>, to the nearest multiple of a thousandth, ties to the even one.\<close>

definition py_round3 :: "real \<Rightarrow> real" where
  "py_round3 x = (let f = \<lfloor>x * 1000\<rfloor>; d = x * 1000 - of_int f
     in of_int (if d < 1 / 2 then f else if 1 / 2 < d then f + 1 else if even f then f else f + 1) / 1000)"

text \<open>\<open>str(n)\<close> for a natural number.\<close>

fun show_nat :: "nat \<Rightarrow> string" where
  "show_nat n = (if n < 10 then [char_of (48 + n)] else show_nat (n div 10) @ [char_of (48 + n mod 10)])"

declare show_nat.simps [simp del]

lemma show_nat_digits: "c \<in> set (show_nat n) \<Longrightarrow> is_digit c"
proof (induction n rule: show_nat.induct)
  case (1 n)
  have "is_digit (char_of (48 + k))" if "k < 10" for k :: nat
    using that by (simp add: is_digit_def)
  then show ?case
    using 1 by (auto simp: show_nat.simps [of n] split: if_splits)
qed

section \<open>State machines\<close>

text \<open>
  The states a component can reach from its initial states, and the contract that gives an
  invariant: it holds initially and every step keeps it.
\<close>

inductive reaches :: "('s \<Rightarrow> bool) \<Rightarrow> ('s \<Rightarrow> 's \<Rightarrow> bool) \<Rightarrow> 's \<Rightarrow> bool"
  for init :: "'s \<Rightarrow> bool" and step :: "'s \<Rightarrow> 's \<Rightarrow> bool" where
  reaches_init: "init s \<Longrightarrow> reaches init step s"
| reaches_step: "reaches init step s \<Longrightarrow> step s t \<Longrightarrow> reaches init step t"

locale machine_invariant =
  fixes init :: "'s \<Rightarrow> bool"
    and step :: "'s \<Rightarrow> 's \<Rightarrow> bool"
    and inv :: "'s \<Rightarrow> bool"
  assumes inv_init: "init s \<Longrightarrow> inv s"
    and inv_step: "inv s \<Longrightarrow> step s t \<Longrightarrow> inv t"
begin

lemma inv_reaches: "reaches init step s \<Longrightarrow> inv s"
  by (induction rule: reaches.induct) (auto intro: inv_init inv_step)

lemma inv_steps: "step\<^sup>*\<^sup>* s t \<Longrightarrow> inv s \<Longrightarrow> inv t"
  by (induction rule: rtranclp_induct) (auto intro: inv_step)

end

end
