(* ===== verification/Rate_Limiter.thy ===== *)
theory Rate_Limiter
  imports Prelude
begin

text \<open>
  \<^verbatim>\<open>LoginRateLimiter\<close> of \<^verbatim>\<open>backend/app/security.py\<close>: one queue of failure times
  per key (a \<^verbatim>\<open>defaultdict(deque)\<close>, a total function with the empty queue as default),
  pruned at the left end to the last minute. It is compared with the plain log of failures.
\<close>

section \<open>The limiter\<close>

type_synonym limiter = "string \<Rightarrow> time list"

definition new_limiter :: limiter where
  "new_limiter = (\<lambda>_. [])"

fun prune_window :: "time \<Rightarrow> time list \<Rightarrow> time list" where
  "prune_window now [] = []"
| "prune_window now (x # window) = (if x < now - 60 then prune_window now window else x # window)"

definition limiter_window :: "string \<Rightarrow> time \<Rightarrow> limiter \<Rightarrow> limiter" where
  "limiter_window key now l = l(key := prune_window now (l key))"

definition limiter_check :: "nat \<Rightarrow> string \<Rightarrow> time \<Rightarrow> limiter \<Rightarrow> unit res \<times> limiter" where
  "limiter_check limit key now l =
     (let l' = limiter_window key now l
      in (if length (l' key) \<ge> limit then Inl (HTTPException 429 ''Too many login attempts'')
          else Inr (), l'))"

definition limiter_record_failure :: "string \<Rightarrow> time \<Rightarrow> limiter \<Rightarrow> limiter" where
  "limiter_record_failure key now l =
     (let l' = limiter_window key now l in l'(key := l' key @ [now]))"

definition limiter_clear :: "string \<Rightarrow> limiter \<Rightarrow> limiter" where
  "limiter_clear key l = l(key := [])"

section \<open>Runs, and the log of failures\<close>

datatype limiter_event = Lim_check string time | Lim_failure string time | Lim_clear string

fun apply_limiter_event :: "nat \<Rightarrow> limiter_event \<Rightarrow> limiter \<Rightarrow> limiter" where
  "apply_limiter_event limit (Lim_check key now) l = snd (limiter_check limit key now l)"
| "apply_limiter_event limit (Lim_failure key now) l = limiter_record_failure key now l"
| "apply_limiter_event limit (Lim_clear key) l = limiter_clear key l"

fun limiter_run :: "nat \<Rightarrow> limiter_event list \<Rightarrow> limiter \<Rightarrow> limiter" where
  "limiter_run limit [] l = l"
| "limiter_run limit (ev # evs) l = limiter_run limit evs (apply_limiter_event limit ev l)"

text \<open>The failures of a key since it was last cleared, oldest first.\<close>

fun failure_log :: "string \<Rightarrow> limiter_event list \<Rightarrow> time list \<Rightarrow> time list" where
  "failure_log key [] flog = flog"
| "failure_log key (Lim_check k t # evs) flog = failure_log key evs flog"
| "failure_log key (Lim_failure k t # evs) flog =
     failure_log key evs (if k = key then flog @ [t] else flog)"
| "failure_log key (Lim_clear k # evs) flog = failure_log key evs (if k = key then [] else flog)"

fun event_time :: "limiter_event \<Rightarrow> time option" where
  "event_time (Lim_check k t) = Some t"
| "event_time (Lim_failure k t) = Some t"
| "event_time (Lim_clear k) = None"

text \<open>The clock readings of a run, from \<open>t\<close> on, never go back and end at or before \<open>u\<close>.\<close>

fun clocked :: "time \<Rightarrow> limiter_event list \<Rightarrow> time \<Rightarrow> bool" where
  "clocked t [] u \<longleftrightarrow> t \<le> u"
| "clocked t (ev # evs) u \<longleftrightarrow>
     (case event_time ev of None \<Rightarrow> clocked t evs u | Some v \<Rightarrow> t \<le> v \<and> clocked v evs u)"

definition recent :: "time \<Rightarrow> time list \<Rightarrow> time list" where
  "recent now flog = filter (\<lambda>x. now - 60 \<le> x) flog"

section \<open>The window is the recent part of the log\<close>

lemma prune_sorted: "sorted xs \<Longrightarrow> prune_window now xs = recent now xs"
proof (induction xs)
  case Nil
  then show ?case by (simp add: recent_def)
next
  case (Cons x xs)
  then show ?case
    by (cases "x < now - 60") (auto simp: recent_def intro!: filter_True [symmetric])
qed

lemma recent_recent: "t \<le> now \<Longrightarrow> recent now (recent t xs) = recent now xs"
  by (auto simp: recent_def intro: filter_cong)

lemma recent_append: "recent now (xs @ ys) = recent now xs @ recent now ys"
  by (simp add: recent_def)

lemma sorted_recent: "sorted xs \<Longrightarrow> sorted (recent t xs)"
  by (simp add: recent_def sorted_filter [where f = "\<lambda>x. x", simplified])

text \<open>
  At time \<open>t\<close> the queue and the log are sorted, have no entry after \<open>t\<close> and agree on every later
  minute.
\<close>

definition tracks :: "time \<Rightarrow> time list \<Rightarrow> time list \<Rightarrow> bool" where
  "tracks t q flog \<longleftrightarrow> sorted q \<and> (\<forall>x \<in> set q. x \<le> t) \<and> (\<forall>now \<ge> t. recent now q = recent now flog)"

lemma tracks_later: "tracks t q flog \<Longrightarrow> t \<le> u \<Longrightarrow> tracks u q flog"
  by (force simp: tracks_def)

lemma tracks_prune: "tracks t q flog \<Longrightarrow> tracks t (prune_window t q) flog"
proof -
  assume q: "tracks t q flog"
  then have "prune_window t q = recent t q" by (simp add: tracks_def prune_sorted)
  moreover have "sorted (recent t q)"
    using q by (intro sorted_recent) (simp add: tracks_def)
  moreover have "\<forall>x \<in> set q. x \<le> t" using q by (simp add: tracks_def)
  then have "\<forall>x \<in> set (recent t q). x \<le> t" by (simp add: recent_def)
  moreover have "\<forall>now \<ge> t. recent now (recent t q) = recent now flog"
    using q by (simp add: tracks_def recent_recent)
  ultimately show ?thesis by (simp add: tracks_def)
qed

lemma tracks_append: "tracks t q flog \<Longrightarrow> tracks t (q @ [t]) (flog @ [t])"
  by (auto simp: tracks_def sorted_append recent_append)

lemma tracks_event:
  assumes "tracks t (l key) flog" and "\<And>v. event_time ev = Some v \<Longrightarrow> t \<le> v"
  shows "tracks (case event_time ev of None \<Rightarrow> t | Some v \<Rightarrow> v)
           (apply_limiter_event limit ev l key) (failure_log key [ev] flog)"
proof (cases ev)
  case (Lim_check k v)
  with assms tracks_later [OF assms(1), of v] show ?thesis
    by (auto simp: limiter_check_def limiter_window_def Let_def intro: tracks_prune)
next
  case (Lim_failure k v)
  with assms tracks_later [OF assms(1), of v] show ?thesis
    by (auto simp: limiter_record_failure_def limiter_window_def Let_def
        intro: tracks_prune tracks_append)
next
  case (Lim_clear k)
  with assms(1) show ?thesis
    by (auto simp: limiter_clear_def tracks_def)
qed

lemma failure_log_Cons: "failure_log key (ev # evs) flog = failure_log key evs (failure_log key [ev] flog)"
  by (cases ev) auto

lemma clocked_le: "clocked t evs u \<Longrightarrow> t \<le> u"
  by (induction evs arbitrary: t) (force split: option.splits)+

lemma tracks_run:
  "tracks t (l key) flog \<Longrightarrow> clocked t evs now \<Longrightarrow>
     tracks now (limiter_run limit evs l key) (failure_log key evs flog)"
proof (induction evs arbitrary: t l flog)
  case Nil
  then show ?case by (auto intro: tracks_later)
next
  case (Cons ev evs)
  let ?t = "case event_time ev of None \<Rightarrow> t | Some v \<Rightarrow> v"
  have "tracks ?t (apply_limiter_event limit ev l key) (failure_log key [ev] flog)"
    using Cons.prems by (intro tracks_event) auto
  moreover have "clocked ?t evs now"
    using Cons.prems(2) by (auto split: option.splits)
  ultimately show ?case
    using Cons.IH by (subst failure_log_Cons) simp
qed

section \<open>Properties\<close>

text \<open>
  C7. The pruned queue is an exact sliding window: after any sequence of checks, failures and
  clears with a clock that does not go back, \<^verbatim>\<open>check\<close> refuses with 429 exactly when the key has
  at least \<open>limit\<close> recorded failures since its last clear that are at most 60 seconds old.
\<close>

theorem limiter_sliding_window:
  assumes "clocked t evs now"
  shows "fst (limiter_check limit key now (limiter_run limit evs new_limiter)) =
           (if limit \<le> length (recent now (failure_log key evs []))
            then Inl (HTTPException 429 ''Too many login attempts'') else Inr ())"
proof -
  have "tracks t (new_limiter key) []"
    by (simp add: tracks_def new_limiter_def)
  then have "tracks now (limiter_run limit evs new_limiter key) (failure_log key evs [])"
    using assms by (rule tracks_run)
  then have "prune_window now (limiter_run limit evs new_limiter key) = recent now (failure_log key evs [])"
    by (auto simp: tracks_def prune_sorted)
  then show ?thesis
    by (simp add: limiter_check_def limiter_window_def Let_def)
qed

theorem limiter_sliding_window_witness:
  "clocked 0 [Lim_failure ''ip'' 1, Lim_failure ''ip'' 40, Lim_check ''ip'' 50] 62 \<and>
   fst (limiter_check 2 ''ip'' 62 (limiter_run 2
     [Lim_failure ''ip'' 1, Lim_failure ''ip'' 40, Lim_check ''ip'' 50] new_limiter)) = Inr ()"
proof -
  let ?evs = "[Lim_failure ''ip'' 1, Lim_failure ''ip'' 40, Lim_check ''ip'' 50]"
  have run: "clocked 0 ?evs 62" by simp
  show ?thesis
    using run limiter_sliding_window [OF run, of 2 "''ip''"] by (simp add: recent_def)
qed

end
