(* ===== verification/Permissions.thy ===== *)
theory Permissions
  imports Prelude
begin

text \<open>
  The permission registry of \<^verbatim>\<open>backend/app/identity/permissions.py\<close>: the
  \<^verbatim>\<open>Permission\<close> enumeration in the order of the source, the metadata computed
  for each member, the legacy spellings and the permission sets of the four built-in roles.
  Python sets are lists read as sets. The registry is mutable in the program (the modules add
  their own permissions when they are imported), so the functions that consult it take it as an
  argument; \<open>base_registry\<close> is its value when the module has been loaded.
\<close>

section \<open>The enumeration and its tables\<close>

datatype role = Role_admin | Role_operator | Role_auditor | Role_user

datatype permission_risk = Risk_low | Risk_medium | Risk_high | Risk_critical

record permission_metadata =
  pm_id :: string
  pm_category :: string
  pm_operation :: string
  pm_applications :: "string list"
  pm_risk :: permission_risk
  pm_mutating :: bool
  pm_label_key :: string
  pm_description_key :: string

definition permission_values_core :: "string list" where
  "permission_values_core =
    [
     ''files.view'', ''files.read'', ''files.download'', ''files.upload'', ''files.create'',
     ''files.edit'', ''files.rename'', ''files.copy'', ''files.move'', ''files.delete'',
     ''files.chmod'', ''files.chown'', ''transfers.view_own'', ''transfers.view_all'',
     ''transfers.create'', ''transfers.pause'', ''transfers.resume'', ''transfers.cancel'',
     ''transfers.retry'', ''transfers.change_priority'', ''settings.view_own'',
     ''settings.edit_own'', ''settings.change_own_password'', ''settings.view_system'',
     ''settings.edit_system'', ''users.view'', ''users.create'', ''users.update'',
     ''users.rename'', ''users.lock'', ''users.unlock'', ''users.change_password'',
     ''users.manage_groups'', ''users.manage_quota'', ''users.delete'', ''groups.view'',
     ''groups.create'', ''groups.rename'', ''groups.manage_members'', ''groups.delete'',
     ''access.view'', ''access.manage_roles'', ''access.manage_user_permissions'',
     ''access.manage_group_permissions'', ''audit.view_own'', ''audit.view_all'',
     ''audit.export'', ''modules.view'', ''modules.install'', ''modules.update'',
     ''modules.uninstall'', ''modules.configure'', ''modules.diagnostics'', ''modules.logs'',
     ''modules.backup_create'', ''modules.backup_restore'', ''modules.backup_delete'',
     ''services.view'', ''services.start'', ''services.stop'', ''services.restart'',
     ''services.enable'', ''services.disable'', ''services.logs'', ''updates.view'',
     ''updates.apply'', ''updates.configure_auto_update'', ''network_resources.view'',
     ''network_resources.create'', ''network_resources.update'', ''network_resources.mount'',
     ''network_resources.unmount'', ''network_resources.delete'', ''network.view'',
     ''network.manage_interfaces'', ''network.manage_bonds'', ''network.manage_vlans'',
     ''network.manage_bridges'', ''network.manage_dns'', ''network.manage_routes'',
     ''network.manage_traffic'', ''network.manage_connections'', ''network.confirm'',
     ''network.rollback'', ''network.policy.view'', ''network.policy.edit'']"

definition permission_values_docker :: "string list" where
  "permission_values_docker =
    [
     ''docker.view'', ''docker.manage_containers'', ''docker.manage_images'',
     ''docker.manage_compose'', ''docker.install_engine'', ''docker.start_service'',
     ''docker.stop_service'', ''docker.update_engine'', ''docker.view_containers'',
     ''docker.create_container'', ''docker.start_container'', ''docker.stop_container'',
     ''docker.restart_container'', ''docker.remove_container'', ''docker.inspect_container'',
     ''docker.view_logs'', ''docker.view_stats'', ''docker.view_images'', ''docker.pull_image'',
     ''docker.remove_image'', ''docker.manage_registries'', ''docker.manage_volumes'',
     ''docker.manage_networks'', ''docker.export_backup'', ''docker.restore_backup'',
     ''docker.prune'', ''docker.diagnostics'', ''docker.high_risk'', ''dns.view'',
     ''dns.configure'', ''databases.view'', ''databases.configure'', ''databases.backup'',
     ''databases.restore'', ''homeassistant.view'', ''homeassistant.operate'']"

definition permission_values_modules :: "string list" where
  "permission_values_modules =
    [
     ''ansible-controller.view'', ''ansible-controller.install'',
     ''ansible-controller.configure'', ''ansible-controller.hosts.view'',
     ''ansible-controller.hosts.manage'', ''ansible-controller.discovery'',
     ''ansible-controller.credentials.view'', ''ansible-controller.credentials.manage'',
     ''ansible-controller.projects.view'', ''ansible-controller.projects.manage'',
     ''ansible-controller.playbooks.view'', ''ansible-controller.playbooks.manage'',
     ''ansible-controller.jobs.launch'', ''ansible-controller.jobs.cancel'',
     ''ansible-controller.schedules.manage'', ''ansible-controller.audit.view'',
     ''ansible-controller.backup'', ''ansible-controller.restore'', ''hosts-manager.view'',
     ''hosts-manager.hosts.view'', ''hosts-manager.hosts.manage'',
     ''hosts-manager.hosts.approve'', ''hosts-manager.discovery'',
     ''hosts-manager.inventory.manage'', ''hosts-manager.credentials.view'',
     ''hosts-manager.credentials.manage'', ''hosts-manager.repositories.view'',
     ''hosts-manager.repositories.manage'', ''hosts-manager.power.view'',
     ''hosts-manager.power.on'', ''hosts-manager.power.shutdown'',
     ''hosts-manager.power.reboot'', ''hosts-manager.actions.execute'',
     ''hosts-manager.passwords.rotate'', ''hosts-manager.audit.view'', ''hosts-manager.backup'',
     ''hosts-manager.restore'', ''hosts-manager.configure'', ''os-repositories.view'',
     ''os-repositories.manage'', ''os-repositories.sync'', ''os-repositories.packages.upload'',
     ''os-repositories.packages.delete'', ''os-repositories.packages.build'',
     ''os-repositories.snapshots.manage'', ''os-repositories.channels.promote'',
     ''os-repositories.keys.view'', ''os-repositories.keys.manage'',
     ''os-repositories.hosts.assign'', ''os-repositories.jobs.cancel'',
     ''os-repositories.backup'', ''os-repositories.restore'', ''os-repositories.configure'',
     ''os-repositories.full-remove'', ''apmid.view'', ''apmid.create'', ''apmid.update'',
     ''apmid.delete'', ''apmid.members.view'', ''apmid.members.manage'',
     ''apmid.permissions.view'', ''apmid.permissions.manage'', ''apmid.audit.view'',
     ''apmid.backup'', ''apmid.restore'', ''cron.view'', ''cron.create'', ''cron.edit'',
     ''cron.enable'', ''cron.delete'', ''cron.logs'', ''cron.admin'', ''dhcp.view'',
     ''dhcp.configure'', ''dhcp.subnets.manage'', ''dhcp.reservations.manage'',
     ''dhcp.leases.view'', ''dhcp.service.control'', ''dhcp.backup'', ''dhcp.restore'',
     ''dhcp.diagnostics'', ''dhcp.install'', ''dhcp.uninstall'', ''logs.view_own'',
     ''logs.view_system'', ''logs.view_kernel'', ''logs.view_services'', ''logs.view_security'',
     ''logs.view_webnas'', ''logs.view_containers'', ''logs.live'', ''logs.export'',
     ''logs.saved_views.manage'', ''system.status'', ''system.logs'', ''system.restart'',
     ''system.shutdown'']"

definition permission_values :: "string list" where
  "permission_values =
     permission_values_core @ permission_values_docker @ permission_values_modules"

definition read_operations :: "string list" where
  "read_operations =
    [
     ''view'', ''read'', ''download'', ''view_own'', ''view_all'', ''logs'', ''status'',
     ''diagnostics'', ''live'', ''export'']"

definition critical_permissions :: "string list" where
  "critical_permissions =
    [
     ''users.delete'', ''groups.delete'', ''access.manage_roles'', ''system.restart'',
     ''system.shutdown'', ''modules.uninstall'', ''modules.backup_restore'',
     ''docker.install_engine'', ''docker.update_engine'', ''docker.restore_backup'',
     ''docker.prune'', ''docker.high_risk'', ''hosts-manager.power.shutdown'',
     ''hosts-manager.power.reboot'', ''hosts-manager.passwords.rotate'',
     ''hosts-manager.restore'', ''os-repositories.channels.promote'',
     ''os-repositories.keys.manage'', ''os-repositories.restore'',
     ''os-repositories.full-remove'', ''apmid.delete'', ''apmid.permissions.manage'',
     ''apmid.restore'', ''cron.delete'', ''cron.admin'', ''dhcp.service.control'',
     ''dhcp.restore'', ''dhcp.uninstall'']"

definition applications :: "(string \<times> string list) list" where
  "applications =
    [(''files'', [''files'']),
     (''transfers'', [''transfers'']),
     (''settings'', [''settings'']),
     (''users'', [''identity'']),
     (''groups'', [''identity'']),
     (''access'', [''identity'']),
     (''audit'', [''activity'']),
     (''modules'', [''modules'', ''store'']),
     (''services'', [''services'']),
     (''updates'', [''modules'', ''settings'']),
     (''network_resources'', [''settings'']),
     (''network'', [''settings'']),
     (''docker'', [''module:docker'']),
     (''dns'', [''module:pihole'', ''module:adguard-home'']),
     (''databases'', [''module:postgresql'', ''module:mariadb'', ''module:redis'']),
     (''homeassistant'', [''module:home-assistant'']),
     (''ansible-controller'', [''module:ansible-controller'']),
     (''hosts-manager'', [''module:hosts-manager'']),
     (''os-repositories'', [''module:os-repositories'']),
     (''apmid'', [''module:apmid'']),
     (''cron'', [''module:cron'']),
     (''dhcp'', [''module:dhcp'']),
     (''logs'', [''logs'']),
     (''system'', [''monitor'', ''logs'', ''settings''])]"

definition legacy_permission_map :: "(string \<times> string) list" where
  "legacy_permission_map =
    [(''apps.files'', ''files.view''),
     (''apps.settings'', ''settings.view_own''),
     (''apps.monitor'', ''system.status''),
     (''apps.transfers'', ''transfers.view_own''),
     (''modules.operate'', ''modules.configure''),
     (''modules.configure'', ''modules.configure''),
     (''modules.install'', ''modules.install''),
     (''updates.view'', ''updates.view''),
     (''updates.apply'', ''updates.apply''),
     (''docker.view'', ''docker.view''),
     (''docker.operate'', ''docker.manage_containers''),
     (''docker.compose'', ''docker.manage_compose''),
     (''dns.view'', ''dns.view''),
     (''dns.configure'', ''dns.configure''),
     (''databases.view'', ''databases.view''),
     (''databases.backup'', ''databases.backup''),
     (''databases.restore'', ''databases.restore''),
     (''homeassistant.view'', ''homeassistant.view''),
     (''homeassistant.operate'', ''homeassistant.operate''),
     (''rbac.manage'', ''access.manage_roles''),
     (''audit.view'', ''audit.view_all''),
     (''widgets.manage'', ''settings.edit_own'')]"

definition transfers_own_permissions :: "string list" where
  "transfers_own_permissions =
    [
     ''transfers.view_own'', ''transfers.create'', ''transfers.pause'', ''transfers.resume'',
     ''transfers.cancel'', ''transfers.retry'', ''transfers.change_priority'']"

definition settings_own_permissions :: "string list" where
  "settings_own_permissions =
    [
     ''settings.view_own'', ''settings.edit_own'', ''settings.change_own_password'']"

definition docker_operator_permissions :: "string list" where
  "docker_operator_permissions =
    [
     ''docker.view'', ''docker.manage_containers'', ''docker.manage_images'',
     ''docker.manage_compose'', ''docker.view_containers'', ''docker.create_container'',
     ''docker.start_container'', ''docker.stop_container'', ''docker.restart_container'',
     ''docker.remove_container'', ''docker.inspect_container'', ''docker.view_logs'',
     ''docker.view_stats'', ''docker.view_images'', ''docker.pull_image'',
     ''docker.remove_image'', ''docker.manage_registries'', ''docker.manage_volumes'',
     ''docker.manage_networks'', ''docker.export_backup'', ''docker.diagnostics'']"

definition operator_own_permissions :: "string list" where
  "operator_own_permissions =
    [
     ''system.status'', ''system.logs'', ''settings.view_system'', ''logs.view_own'',
     ''logs.view_system'', ''logs.view_kernel'', ''logs.view_services'', ''logs.view_webnas'',
     ''logs.view_containers'', ''logs.live'', ''logs.export'', ''logs.saved_views.manage'',
     ''users.view'', ''users.update'', ''users.lock'', ''users.unlock'',
     ''users.change_password'', ''users.manage_groups'', ''users.manage_quota'', ''groups.view'',
     ''groups.create'', ''groups.manage_members'', ''access.view'', ''audit.view_own'',
     ''modules.view'', ''modules.configure'', ''modules.diagnostics'', ''modules.logs'',
     ''modules.backup_create'', ''modules.backup_restore'', ''services.view'',
     ''services.start'', ''services.stop'', ''services.restart'', ''services.enable'',
     ''services.disable'', ''services.logs'', ''updates.view'', ''updates.apply'',
     ''network_resources.view'', ''network_resources.create'', ''network_resources.update'',
     ''network_resources.mount'', ''network_resources.unmount'', ''network.view'', ''dns.view'',
     ''dns.configure'', ''databases.view'', ''databases.configure'', ''databases.backup'',
     ''databases.restore'', ''homeassistant.view'', ''homeassistant.operate'',
     ''ansible-controller.view'', ''ansible-controller.configure'',
     ''ansible-controller.hosts.view'', ''ansible-controller.hosts.manage'',
     ''ansible-controller.discovery'', ''ansible-controller.credentials.view'',
     ''ansible-controller.credentials.manage'', ''ansible-controller.projects.view'',
     ''ansible-controller.projects.manage'', ''ansible-controller.playbooks.view'',
     ''ansible-controller.playbooks.manage'', ''ansible-controller.jobs.launch'',
     ''ansible-controller.jobs.cancel'', ''ansible-controller.schedules.manage'',
     ''ansible-controller.backup'', ''hosts-manager.view'', ''hosts-manager.hosts.view'',
     ''hosts-manager.hosts.manage'', ''hosts-manager.hosts.approve'',
     ''hosts-manager.discovery'', ''hosts-manager.inventory.manage'',
     ''hosts-manager.repositories.view'', ''hosts-manager.repositories.manage'',
     ''hosts-manager.power.view'', ''hosts-manager.power.on'', ''hosts-manager.actions.execute'',
     ''hosts-manager.backup'', ''hosts-manager.configure'', ''os-repositories.view'',
     ''os-repositories.manage'', ''os-repositories.sync'', ''os-repositories.packages.upload'',
     ''os-repositories.packages.build'', ''os-repositories.snapshots.manage'',
     ''os-repositories.hosts.assign'', ''os-repositories.jobs.cancel'',
     ''os-repositories.backup'', ''os-repositories.configure'', ''apmid.view'', ''apmid.create'',
     ''apmid.update'', ''apmid.members.view'', ''apmid.members.manage'',
     ''apmid.permissions.view'', ''apmid.audit.view'', ''apmid.backup'', ''cron.view'',
     ''cron.create'', ''cron.edit'', ''cron.enable'', ''cron.logs'', ''dhcp.view'',
     ''dhcp.configure'', ''dhcp.subnets.manage'', ''dhcp.reservations.manage'',
     ''dhcp.leases.view'', ''dhcp.service.control'', ''dhcp.backup'', ''dhcp.diagnostics'']"

definition auditor_own_permissions :: "string list" where
  "auditor_own_permissions =
    [
     ''files.view'', ''files.read'', ''files.download'', ''transfers.view_own'',
     ''transfers.view_all'', ''settings.view_own'', ''settings.view_system'', ''users.view'',
     ''groups.view'', ''access.view'', ''audit.view_own'', ''audit.view_all'', ''audit.export'',
     ''modules.view'', ''modules.diagnostics'', ''modules.logs'', ''services.view'',
     ''services.logs'', ''updates.view'', ''network_resources.view'', ''network.view'',
     ''docker.view'', ''docker.view_containers'', ''docker.inspect_container'',
     ''docker.view_logs'', ''docker.view_stats'', ''docker.view_images'', ''docker.diagnostics'',
     ''dns.view'', ''databases.view'', ''homeassistant.view'', ''system.status'',
     ''system.logs'', ''logs.view_own'', ''logs.view_system'', ''logs.view_kernel'',
     ''logs.view_services'', ''logs.view_webnas'', ''logs.view_containers'', ''logs.export'',
     ''ansible-controller.view'', ''ansible-controller.hosts.view'',
     ''ansible-controller.credentials.view'', ''ansible-controller.projects.view'',
     ''ansible-controller.playbooks.view'', ''ansible-controller.audit.view'',
     ''hosts-manager.view'', ''hosts-manager.hosts.view'', ''hosts-manager.power.view'',
     ''hosts-manager.audit.view'', ''hosts-manager.repositories.view'', ''os-repositories.view'',
     ''os-repositories.keys.view'', ''apmid.view'', ''apmid.members.view'',
     ''apmid.permissions.view'', ''apmid.audit.view'', ''cron.view'', ''cron.logs'',
     ''dhcp.view'', ''dhcp.leases.view'', ''dhcp.diagnostics'']"

definition user_own_permissions :: "string list" where
  "user_own_permissions =
    [
     ''audit.view_own'', ''logs.view_own'', ''logs.saved_views.manage'', ''system.status'']"

section \<open>Metadata, registry, normalisation\<close>

text \<open>
  \<^verbatim>\<open>permission.value.split(".", 1)\<close> must give two parts (else unpacking raises
  \<open>ValueError\<close>), and the category must have applications (else \<open>KeyError\<close>).
\<close>

definition metadata :: "string \<Rightarrow> permission_metadata res" where
  "metadata value =
     (case py_partition CHR ''.'' value of (category, found, operation) \<Rightarrow>
        if \<not> found then Inl (ValueError ''not enough values to unpack'')
        else
          (let mutating = operation \<notin> set read_operations \<and> \<not> prefix ''view'' operation
                            \<and> \<not> suffix ''.view'' operation;
               risk = (if value \<in> set critical_permissions then Risk_critical
                       else if mutating then Risk_high else Risk_low)
           in case map_of applications category of
                None \<Rightarrow> Inl (KeyError category)
              | Some apps \<Rightarrow> Inr
                 \<lparr>pm_id = value, pm_category = category, pm_operation = operation,
                  pm_applications = apps, pm_risk = risk, pm_mutating = mutating,
                  pm_label_key = ''permissions.'' @ value,
                  pm_description_key = ''permissions.category.'' @ category @ ''.description''\<rparr>))"

fun build_registry :: "string list \<Rightarrow> (string \<times> permission_metadata) list res" where
  "build_registry [] = Inr []"
| "build_registry (p # ps) =
     rbind (metadata p) (\<lambda>m. rbind (build_registry ps) (\<lambda>ms. Inr ((p, m) # ms)))"

definition base_registry :: "string list" where
  "base_registry = permission_values"

definition normalize_permission :: "string list \<Rightarrow> string \<Rightarrow> string res" where
  "normalize_permission registry raw =
     (let normalized = (case map_of legacy_permission_map raw of Some p \<Rightarrow> p | None \<Rightarrow> raw)
      in if normalized \<notin> set registry then Inl (ValueError (''unknown permission: '' @ raw))
         else Inr normalized)"

text \<open>\<^verbatim>\<open>list(dict.fromkeys(xs))\<close>: the first occurrence of each item, in order.\<close>

fun dict_fromkeys :: "'a list \<Rightarrow> 'a list" where
  "dict_fromkeys [] = []"
| "dict_fromkeys (x # xs) = x # filter (\<lambda>y. y \<noteq> x) (dict_fromkeys xs)"

fun normalize_all :: "string list \<Rightarrow> string list \<Rightarrow> string list res" where
  "normalize_all registry [] = Inr []"
| "normalize_all registry (v # vs) =
     rbind (normalize_permission registry v)
       (\<lambda>p. rbind (normalize_all registry vs) (\<lambda>ps. Inr (p # ps)))"

definition normalize_permissions :: "string list \<Rightarrow> string list \<Rightarrow> string list res" where
  "normalize_permissions registry values =
     rbind (normalize_all registry values) (\<lambda>ps. Inr (dict_fromkeys ps))"

section \<open>The built-in roles\<close>

definition files_permissions :: "string list" where
  "files_permissions = filter (prefix ''files.'') permission_values"

fun role_permissions :: "role \<Rightarrow> string list" where
  "role_permissions Role_admin = base_registry"
| "role_permissions Role_operator =
     files_permissions @ transfers_own_permissions @ settings_own_permissions
       @ operator_own_permissions @ docker_operator_permissions"
| "role_permissions Role_auditor = auditor_own_permissions"
| "role_permissions Role_user =
     files_permissions @ transfers_own_permissions @ settings_own_permissions
       @ user_own_permissions"

definition mutating_of :: "string \<Rightarrow> bool" where
  "mutating_of p = (case metadata p of Inr m \<Rightarrow> pm_mutating m | Inl _ \<Rightarrow> True)"

section \<open>Every enumerated permission is classified\<close>

definition classified :: "string \<Rightarrow> bool" where
  "classified p = (case metadata p of Inr _ \<Rightarrow> True | Inl _ \<Rightarrow> False)"

lemma core_classified: "list_all classified permission_values_core"
  by code_simp

lemma docker_classified: "list_all classified permission_values_docker"
  by code_simp

lemma modules_classified: "list_all classified permission_values_modules"
  by code_simp

lemma base_classified: "p \<in> set base_registry \<Longrightarrow> classified p"
  using core_classified docker_classified modules_classified
  by (auto simp: base_registry_def permission_values_def list_all_iff)

lemma metadata_Inr_id: "metadata p = Inr m \<Longrightarrow> pm_id m = p"
  by (auto simp: metadata_def Let_def split: prod.splits if_splits option.splits)

lemma build_registry_total:
  "(\<And>p. p \<in> set ps \<Longrightarrow> classified p) \<Longrightarrow>
     \<exists>reg. build_registry ps = Inr reg \<and> map fst reg = ps \<and>
       (\<forall>(p, m) \<in> set reg. metadata p = Inr m \<and> pm_id m = p)"
proof (induction ps)
  case Nil
  then show ?case by simp
next
  case (Cons p ps)
  then obtain reg where "build_registry ps = Inr reg" "map fst reg = ps"
    "\<forall>(p, m) \<in> set reg. metadata p = Inr m \<and> pm_id m = p"
    by auto
  moreover obtain m where "metadata p = Inr m"
    using Cons.prems [of p] by (auto simp: classified_def split: sum.splits)
  ultimately show ?case
    by (auto intro: metadata_Inr_id)
qed


section \<open>Normalisation\<close>

lemma legacy_targets_stable:
  "list_all (\<lambda>(k, v). map_of legacy_permission_map v \<in> {None, Some v}) legacy_permission_map"
  by code_simp

lemma legacy_target:
  "map_of legacy_permission_map k = Some v \<Longrightarrow> map_of legacy_permission_map v \<in> {None, Some v}"
  using legacy_targets_stable by (auto simp: list_all_iff dest: map_of_SomeD)

lemma normalize_permission_known:
  "normalize_permission registry v = Inr w \<Longrightarrow> w \<in> set registry"
  by (auto simp: normalize_permission_def Let_def split: if_splits)

lemma normalize_permission_stable:
  assumes "normalize_permission registry v = Inr w"
  shows "normalize_permission registry w = Inr w"
proof -
  have w: "w = (case map_of legacy_permission_map v of Some p \<Rightarrow> p | None \<Rightarrow> v)"
    and known: "w \<in> set registry"
    using assms by (auto simp: normalize_permission_def Let_def split: if_splits)
  have "map_of legacy_permission_map w \<in> {None, Some w}"
    using w legacy_target by (cases "map_of legacy_permission_map v") auto
  with known show ?thesis
    by (auto simp: normalize_permission_def)
qed

lemma set_dict_fromkeys [simp]: "set (dict_fromkeys xs) = set xs"
  by (induction xs) auto

lemma distinct_dict_fromkeys [simp]: "distinct (dict_fromkeys xs)"
  by (induction xs) auto

lemma dict_fromkeys_distinct: "distinct xs \<Longrightarrow> dict_fromkeys xs = xs"
  by (induction xs) (auto simp: filter_id_conv)

lemma normalize_all_Inr_iff:
  "normalize_all registry vs = Inr ps \<longleftrightarrow> list_all2 (\<lambda>v p. normalize_permission registry v = Inr p) vs ps"
  by (induction vs arbitrary: ps) (auto simp: res_iff list_all2_Cons1)

lemma normalize_all_stable:
  "(\<And>p. p \<in> set ps \<Longrightarrow> normalize_permission registry p = Inr p) \<Longrightarrow> normalize_all registry ps = Inr ps"
  by (simp add: normalize_all_Inr_iff list_all2_same)



text \<open>
  The built-in auditor role is read-only in the registry's own classification, with one
  exception: \<^verbatim>\<open>docker.inspect_container\<close>, which the metadata rule counts as mutating.
\<close>

theorem auditor_read_only:
  "filter mutating_of (role_permissions Role_auditor) = [''docker.inspect_container'']"
  by code_simp

end
