(* ===== verification/Sessions.thy ===== *)
theory Sessions
  imports Prelude
begin

text \<open>
  Sessions of \<^verbatim>\<open>backend/app/security.py\<close>: the \<^verbatim>\<open>SessionStore\<close> (the
  \<^verbatim>\<open>auth_sessions\<close> table and its bounded read cache), session creation and removal, the
  request guards \<^verbatim>\<open>get_session_user\<close> and \<^verbatim>\<open>require_csrf\<close>. The keyed hash of a
  token (HMAC-SHA256 under the store's pepper) is the argument \<open>H\<close>; random tokens and the clocks
  are arguments too: \<open>now\<close> is \<^verbatim>\<open>time.time()\<close>, \<open>tick\<close> is \<^verbatim>\<open>time.monotonic()\<close>.
  The locale \<open>cached_reader\<close> is the contract of a read-through cache; the store meets it.
\<close>

section \<open>Data\<close>

datatype auth_provider = Prov_local | Prov_pam | Prov_ldap

fun provider_name :: "auth_provider \<Rightarrow> string" where
  "provider_name Prov_local = ''local''"
| "provider_name Prov_pam = ''pam''"
| "provider_name Prov_ldap = ''ldap''"

text \<open>The reading of the stored text: empty or unknown text is \<^verbatim>\<open>pam\<close>.\<close>

definition normalize_provider :: "string \<Rightarrow> auth_provider" where
  "normalize_provider text =
     (let provider = (if text = [] then ''pam'' else text)
      in if provider = ''local'' then Prov_local
         else if provider = ''ldap'' then Prov_ldap else Prov_pam)"

lemma normalize_provider_name [simp]: "normalize_provider (provider_name p) = p"
  by (cases p) (simp_all add: normalize_provider_def)

lemma provider_name_inject [simp]: "provider_name p = provider_name q \<longleftrightarrow> p = q"
  by (metis normalize_provider_name)

record session_user =
  su_username :: string
  su_csrf_token :: string
  su_auth_provider :: auth_provider
  su_identity_id :: string

record stored_session =
  ss_username :: string
  ss_csrf_token :: string
  ss_persistent :: bool
  ss_expires_at :: time
  ss_auth_provider :: auth_provider
  ss_identity_id :: string

record session_row =
  sr_token_hash :: string
  sr_username :: string
  sr_csrf_token :: string
  sr_persistent :: bool
  sr_created_at :: time
  sr_expires_at :: time
  sr_auth_provider :: string
  sr_identity_id :: string

type_synonym session_cache = "(string \<times> stored_session \<times> time) list"

record session_store =
  st_rows :: "session_row list"
  st_cache :: session_cache
  st_cache_ttl :: time
  st_cache_max :: nat

definition new_session_store :: "time \<Rightarrow> int \<Rightarrow> session_store" where
  "new_session_store ttl entries =
     \<lparr>st_rows = [], st_cache = [], st_cache_ttl = max 0 ttl, st_cache_max = nat (max 0 entries)\<rparr>"

definition session_of_row :: "session_row \<Rightarrow> stored_session" where
  "session_of_row r =
     \<lparr>ss_username = sr_username r, ss_csrf_token = sr_csrf_token r,
      ss_persistent = sr_persistent r, ss_expires_at = sr_expires_at r,
      ss_auth_provider = normalize_provider (sr_auth_provider r),
      ss_identity_id = sr_identity_id r\<rparr>"

section \<open>The store\<close>

text \<open>The cache is an \<^verbatim>\<open>OrderedDict\<close>: oldest entry first, one entry per key.\<close>

definition cache_pop :: "string \<Rightarrow> session_cache \<Rightarrow> session_cache" where
  "cache_pop h c = filter (\<lambda>(k, _). k \<noteq> h) c"

fun trim_cache :: "nat \<Rightarrow> session_cache \<Rightarrow> session_cache" where
  "trim_cache n [] = []"
| "trim_cache n (e # c) = (if length (e # c) > n then trim_cache n c else e # c)"

definition cache_session ::
  "string \<Rightarrow> stored_session \<Rightarrow> time \<Rightarrow> session_store \<Rightarrow> session_store" where
  "cache_session h s tick st =
     (if st_cache_ttl st \<le> 0 \<or> st_cache_max st = 0 then st
      else st\<lparr>st_cache := trim_cache (st_cache_max st)
                 (cache_pop h (st_cache st) @ [(h, s, tick + st_cache_ttl st)])\<rparr>)"

definition sstore_invalidate :: "(string \<Rightarrow> string) \<Rightarrow> string \<Rightarrow> session_store \<Rightarrow> session_store" where
  "sstore_invalidate H token st = st\<lparr>st_cache := cache_pop (H token) (st_cache st)\<rparr>"

definition row_of_session :: "string \<Rightarrow> stored_session \<Rightarrow> time \<Rightarrow> session_row" where
  "row_of_session h s now =
     \<lparr>sr_token_hash = h, sr_username = ss_username s, sr_csrf_token = ss_csrf_token s,
      sr_persistent = ss_persistent s, sr_created_at = now, sr_expires_at = ss_expires_at s,
      sr_auth_provider = provider_name (ss_auth_provider s), sr_identity_id = ss_identity_id s\<rparr>"

definition sstore_create ::
  "(string \<Rightarrow> string) \<Rightarrow> string \<Rightarrow> stored_session \<Rightarrow> time \<Rightarrow> time \<Rightarrow> session_store \<Rightarrow> session_store res" where
  "sstore_create H token s now tick st =
     (let h = H token
      in rbind (insert_row sr_token_hash ''auth_sessions.token_hash'' (row_of_session h s now)
                  (del_rows (\<lambda>r. sr_expires_at r \<le> now) (st_rows st)))
           (\<lambda>rows. Inr (cache_session h s tick (st\<lparr>st_rows := rows\<rparr>))))"

definition delete_token_row :: "string \<Rightarrow> session_store \<Rightarrow> session_store" where
  "delete_token_row h st = st\<lparr>st_rows := del_rows (\<lambda>r. sr_token_hash r = h) (st_rows st)\<rparr>"

text \<open>The part of \<^verbatim>\<open>resolve\<close> that reads the table.\<close>

definition resolve_row ::
  "string \<Rightarrow> time \<Rightarrow> time \<Rightarrow> session_store \<Rightarrow> stored_session option \<times> session_store" where
  "resolve_row h now tick st =
     (case find (\<lambda>r. sr_token_hash r = h) (st_rows st) of
        None \<Rightarrow> (None, st)
      | Some r \<Rightarrow>
          if sr_expires_at r \<le> now then (None, delete_token_row h st)
          else (Some (session_of_row r), cache_session h (session_of_row r) tick st))"

definition sstore_resolve ::
  "(string \<Rightarrow> string) \<Rightarrow> string \<Rightarrow> time \<Rightarrow> time \<Rightarrow> session_store
     \<Rightarrow> stored_session option \<times> session_store" where
  "sstore_resolve H token now tick st =
     (let h = H token
      in case map_of (st_cache st) h of
           Some (s, deadline) \<Rightarrow>
             if ss_expires_at s \<le> now then
               (None, delete_token_row h (st\<lparr>st_cache := cache_pop h (st_cache st)\<rparr>))
             else if deadline > tick then
               (Some s, st\<lparr>st_cache := cache_pop h (st_cache st) @ [(h, s, deadline)]\<rparr>)
             else resolve_row h now tick (st\<lparr>st_cache := cache_pop h (st_cache st)\<rparr>)
         | None \<Rightarrow> resolve_row h now tick st)"

definition sstore_revoke :: "(string \<Rightarrow> string) \<Rightarrow> string \<Rightarrow> session_store \<Rightarrow> session_store" where
  "sstore_revoke H token st =
     delete_token_row (H token) (st\<lparr>st_cache := cache_pop (H token) (st_cache st)\<rparr>)"

text \<open>
  The four bulk revocations delete the rows a condition selects and drop the cached sessions the
  matching condition selects; the result is the number of deleted rows.
\<close>

definition revoke_where ::
  "(session_row \<Rightarrow> bool) \<Rightarrow> (stored_session \<Rightarrow> bool) \<Rightarrow> session_store \<Rightarrow> nat \<times> session_store" where
  "revoke_where p q st =
     (length (filter p (st_rows st)),
      st\<lparr>st_rows := del_rows p (st_rows st),
         st_cache := filter (\<lambda>(_, s, _). \<not> q s) (st_cache st)\<rparr>)"

definition sstore_revoke_user ::
  "string \<Rightarrow> auth_provider option \<Rightarrow> session_store \<Rightarrow> nat \<times> session_store" where
  "sstore_revoke_user username provider st =
     (case provider of
        None \<Rightarrow> revoke_where (\<lambda>r. sr_username r = username) (\<lambda>s. ss_username s = username) st
      | Some p \<Rightarrow> revoke_where
          (\<lambda>r. sr_username r = username \<and> sr_auth_provider r = provider_name p)
          (\<lambda>s. ss_username s = username \<and> ss_auth_provider s = p) st)"

definition sstore_revoke_identity ::
  "auth_provider \<Rightarrow> string \<Rightarrow> session_store \<Rightarrow> nat \<times> session_store" where
  "sstore_revoke_identity p identity st =
     (if identity = [] then (0, st)
      else revoke_where
          (\<lambda>r. sr_auth_provider r = provider_name p \<and> sr_identity_id r = identity)
          (\<lambda>s. ss_auth_provider s = p \<and> ss_identity_id s = identity) st)"

definition sstore_revoke_provider :: "auth_provider \<Rightarrow> session_store \<Rightarrow> nat \<times> session_store" where
  "sstore_revoke_provider p st =
     revoke_where (\<lambda>r. sr_auth_provider r = provider_name p) (\<lambda>s. ss_auth_provider s = p) st"

definition sstore_revoke_all :: "session_store \<Rightarrow> nat \<times> session_store" where
  "sstore_revoke_all st = (length (st_rows st), st\<lparr>st_rows := [], st_cache := []\<rparr>)"

section \<open>Sessions of requests\<close>

record session_config =
  sc_remember_me_lifetime_days :: nat
  sc_session_lifetime_hours :: nat

record session_cookie =
  ck_token :: string
  ck_max_age :: "nat option"

text \<open>\<^verbatim>\<open>create_session\<close>: the fresh CSRF and session tokens are the arguments.\<close>

definition create_session ::
  "(string \<Rightarrow> string) \<Rightarrow> session_config \<Rightarrow> string \<Rightarrow> string \<Rightarrow> string \<Rightarrow> auth_provider \<Rightarrow> string
     \<Rightarrow> bool \<Rightarrow> time \<Rightarrow> time \<Rightarrow> session_store \<Rightarrow> (string \<times> session_cookie \<times> session_store) res" where
  "create_session H cfg csrf token username provider identity remember_me now tick st =
     (let lifetime = (if remember_me then sc_remember_me_lifetime_days cfg * 24 * 60 * 60
                      else sc_session_lifetime_hours cfg * 60 * 60);
          s = \<lparr>ss_username = username, ss_csrf_token = csrf, ss_persistent = remember_me,
               ss_expires_at = now + real lifetime, ss_auth_provider = provider,
               ss_identity_id = identity\<rparr>
      in rbind (sstore_create H token s now tick st)
           (\<lambda>st'. Inr (csrf,
              \<lparr>ck_token = token, ck_max_age = (if remember_me then Some lifetime else None)\<rparr>, st')))"

definition clear_session ::
  "(string \<Rightarrow> string) \<Rightarrow> string option \<Rightarrow> session_store \<Rightarrow> session_store" where
  "clear_session H cookie st =
     (case cookie of None \<Rightarrow> st | Some raw \<Rightarrow> if raw = [] then st else sstore_revoke H raw st)"

definition user_of_session :: "stored_session \<Rightarrow> session_user" where
  "user_of_session s =
     \<lparr>su_username = ss_username s, su_csrf_token = ss_csrf_token s,
      su_auth_provider = ss_auth_provider s, su_identity_id = ss_identity_id s\<rparr>"

text \<open>\<open>validate_ldap\<close> is \<^verbatim>\<open>ldap_authentication.validate_ldap_session\<close>, an argument here.\<close>

definition get_session_user ::
  "(string \<Rightarrow> string) \<Rightarrow> (string \<Rightarrow> string \<Rightarrow> bool) \<Rightarrow> string option \<Rightarrow> time \<Rightarrow> time
     \<Rightarrow> session_store \<Rightarrow> session_user res \<times> session_store" where
  "get_session_user H validate_ldap cookie now tick st =
     (case cookie of
        None \<Rightarrow> (Inl (HTTPException 401 ''Authentication required''), st)
      | Some raw \<Rightarrow>
          if raw = [] then (Inl (HTTPException 401 ''Authentication required''), st)
          else (case sstore_resolve H raw now tick st of
              (None, st') \<Rightarrow> (Inl (HTTPException 401 ''Invalid or expired session''), st')
            | (Some s, st') \<Rightarrow>
                if ss_auth_provider s = Prov_ldap
                   \<and> \<not> validate_ldap (ss_identity_id s) (ss_username s)
                then (Inl (HTTPException 401 ''LDAP session policy is no longer valid''),
                      sstore_revoke H raw st')
                else (Inr (user_of_session s), st')))"

definition require_csrf :: "string option \<Rightarrow> session_user \<Rightarrow> unit res" where
  "require_csrf header user =
     (let token = (case header of None \<Rightarrow> [] | Some t \<Rightarrow> t)
      in if token \<noteq> [] \<and> token = su_csrf_token user then Inr ()
         else Inl (HTTPException 403 (if token = [] then ''missing_header'' else ''token_mismatch'')))"

section \<open>The cache\<close>

lemma trim_cache_drop: "trim_cache n c = drop (length c - n) c"
proof (induction c)
  case Nil
  then show ?case by simp
next
  case (Cons e c)
  then show ?case
    by (cases "length (e # c) > n") (simp_all add: Suc_diff_le)
qed

lemma set_cache_pop [simp]: "set (cache_pop h c) = {e \<in> set c. fst e \<noteq> h}"
  by (auto simp: cache_pop_def)

lemma set_trim_cache: "set (trim_cache n c) \<subseteq> set c"
  by (simp add: trim_cache_drop set_drop_subset)

lemma length_trim_cache: "length (trim_cache n c) \<le> n"
  by (simp add: trim_cache_drop)

lemma length_cache_pop: "length (cache_pop h c) \<le> length c"
  by (simp add: cache_pop_def)

lemma length_cache_pop_less:
  "map_of c h = Some e \<Longrightarrow> length (cache_pop h c) < length c"
  unfolding cache_pop_def by (rule length_filter_less [where x = "(h, e)"]) (auto dest: map_of_SomeD)

lemma distinct_cache_pop: "distinct (map fst c) \<Longrightarrow> distinct (map fst (cache_pop h c))"
  by (simp add: cache_pop_def distinct_map_filter)

lemma distinct_trim_cache: "distinct (map fst c) \<Longrightarrow> distinct (map fst (trim_cache n c))"
  by (simp add: trim_cache_drop drop_map [symmetric] del: drop_map)

section \<open>Coherence of cache and table\<close>

text \<open>
  A cached session is the session of the row with its key; or its row is gone because it has
  expired by the clock \<open>t\<close> (\<^verbatim>\<open>create\<close> deletes expired rows without touching the cache).
\<close>

definition entry_coherent :: "time \<Rightarrow> session_row list \<Rightarrow> string \<Rightarrow> stored_session \<Rightarrow> bool" where
  "entry_coherent t rows h s \<longleftrightarrow>
     (\<exists>r \<in> set rows. sr_token_hash r = h \<and> session_of_row r = s)
     \<or> h \<notin> sr_token_hash ` set rows \<and> ss_expires_at s \<le> t"

definition store_coherent :: "time \<Rightarrow> session_store \<Rightarrow> bool" where
  "store_coherent t st \<longleftrightarrow>
     keyed sr_token_hash (st_rows st) \<and> distinct (map fst (st_cache st)) \<and>
     length (st_cache st) \<le> st_cache_max st \<and> (st_cache_ttl st \<le> 0 \<longrightarrow> st_cache st = []) \<and>
     (\<forall>(h, s, d) \<in> set (st_cache st). entry_coherent t (st_rows st) h s)"

lemma store_coherentI:
  assumes "keyed sr_token_hash (st_rows st)" and "distinct (map fst (st_cache st))"
    and "length (st_cache st) \<le> st_cache_max st" and "st_cache_ttl st \<le> 0 \<Longrightarrow> st_cache st = []"
    and "\<And>h s d. (h, s, d) \<in> set (st_cache st) \<Longrightarrow> entry_coherent t (st_rows st) h s"
  shows "store_coherent t st"
  using assms by (auto simp: store_coherent_def)

lemma store_coherentD:
  assumes "store_coherent t st"
  shows "keyed sr_token_hash (st_rows st)" and "distinct (map fst (st_cache st))"
    and "length (st_cache st) \<le> st_cache_max st" and "st_cache_ttl st \<le> 0 \<Longrightarrow> st_cache st = []"
    and "(h, s, d) \<in> set (st_cache st) \<Longrightarrow> entry_coherent t (st_rows st) h s"
  using assms by (auto simp: store_coherent_def)

lemma coherent_off:
  "store_coherent t st \<Longrightarrow> st_cache_ttl st \<le> 0 \<or> st_cache_max st = 0 \<Longrightarrow> st_cache st = []"
  by (auto simp: store_coherent_def)

lemma store_coherent_later: "store_coherent t st \<Longrightarrow> t \<le> u \<Longrightarrow> store_coherent u st"
  by (force simp: store_coherent_def entry_coherent_def)

lemma session_of_row_expiry [simp]: "ss_expires_at (session_of_row r) = sr_expires_at r"
  by (simp add: session_of_row_def)

lemma row_of_session_simps [simp]:
  "sr_token_hash (row_of_session h s now) = h"
  "session_of_row (row_of_session h s now) = s"
  "sr_expires_at (row_of_session h s now) = ss_expires_at s"
  "sr_auth_provider (row_of_session h s now) = provider_name (ss_auth_provider s)"
  by (simp_all add: row_of_session_def session_of_row_def)

lemma coherent_new: "store_coherent t (new_session_store ttl n)"
  by (simp add: store_coherent_def new_session_store_def)

text \<open>Rows and entries may go, when a row that goes has expired or its entry goes too.\<close>

lemma entry_coherent_del_rows:
  assumes e: "entry_coherent t rows h s" and "keyed sr_token_hash rows"
    and gone: "\<And>r. r \<in> set rows \<Longrightarrow> p r \<Longrightarrow> sr_token_hash r = h \<Longrightarrow> session_of_row r = s \<Longrightarrow>
      sr_expires_at r \<le> t"
  shows "entry_coherent t (del_rows p rows) h s"
proof (cases "h \<in> sr_token_hash ` set rows")
  case True
  with e obtain r where r: "r \<in> set rows" "sr_token_hash r = h" "session_of_row r = s"
    by (auto simp: entry_coherent_def)
  have same: "r' = r" if "r' \<in> set rows" "sr_token_hash r' = h" for r'
    using keyed_eqI [OF assms(2) that(1) r(1)] that(2) r(2) by simp
  show ?thesis
  proof (cases "p r")
    case True
    with gone r have "ss_expires_at s \<le> t" by (metis session_of_row_expiry)
    moreover have "h \<notin> sr_token_hash ` set (del_rows p rows)" using same True by auto
    ultimately show ?thesis by (simp add: entry_coherent_def)
  next
    case False
    with r show ?thesis by (auto simp: entry_coherent_def)
  qed
next
  case False
  with e show ?thesis by (auto simp: entry_coherent_def)
qed

lemma coherent_shrink:
  assumes co: "store_coherent t st"
    and rows: "st_rows st' = del_rows p (st_rows st)" and cache: "st_cache st' = filter q (st_cache st)"
    and "st_cache_max st' = st_cache_max st" and "st_cache_ttl st' = st_cache_ttl st"
    and gone: "\<And>h s d r. (h, s, d) \<in> set (st_cache st) \<Longrightarrow> q (h, s, d) \<Longrightarrow>
      r \<in> set (st_rows st) \<Longrightarrow> p r \<Longrightarrow> sr_token_hash r = h \<Longrightarrow> session_of_row r = s \<Longrightarrow>
      sr_expires_at r \<le> t"
  shows "store_coherent t st'"
proof (rule store_coherentI)
  show "keyed sr_token_hash (st_rows st')"
    using store_coherentD(1) [OF co] by (simp add: rows keyed_del_rows)
  show "distinct (map fst (st_cache st'))"
    using store_coherentD(2) [OF co] by (simp add: cache distinct_map_filter)
  show "length (st_cache st') \<le> st_cache_max st'"
    using le_trans [OF length_filter_le store_coherentD(3) [OF co]] assms(4) by (simp add: cache)
  show "st_cache st' = []" if "st_cache_ttl st' \<le> 0"
    using store_coherentD(4) [OF co] that assms(5) by (simp add: cache)
  show "entry_coherent t (st_rows st') h s" if "(h, s, d) \<in> set (st_cache st')" for h s d
    unfolding rows using that gone store_coherentD(1,5) [OF co]
    by (intro entry_coherent_del_rows) (auto simp: cache)
qed

text \<open>Caching the session of an existing row.\<close>

lemma coherent_cache_session:
  assumes co: "store_coherent t (st\<lparr>st_cache := cache_pop h (st_cache st)\<rparr>)"
    and r: "r \<in> set (st_rows st)" "sr_token_hash r = h" "session_of_row r = s"
    and off: "st_cache_ttl st \<le> 0 \<or> st_cache_max st = 0 \<Longrightarrow> st_cache st = []"
  shows "store_coherent t (cache_session h s tick st)"
proof (cases "st_cache_ttl st \<le> 0 \<or> st_cache_max st = 0")
  case True
  then have "st\<lparr>st_cache := cache_pop h (st_cache st)\<rparr> = st"
    using off by (cases st) (simp add: cache_pop_def)
  with True co show ?thesis by (simp add: cache_session_def)
next
  case False
  let ?c = "cache_pop h (st_cache st) @ [(h, s, tick + st_cache_ttl st)]"
  have st': "cache_session h s tick st = st\<lparr>st_cache := trim_cache (st_cache_max st) ?c\<rparr>"
    using False by (simp add: cache_session_def)
  have "distinct (map fst ?c)"
    using store_coherentD(2) [OF co] by auto
  note d = distinct_trim_cache [OF this]
  have "entry_coherent t (st_rows st) k u" if "(k, u, x) \<in> set (trim_cache (st_cache_max st) ?c)" for k u x
  proof -
    have "(k, u, x) \<in> set ?c" using that set_trim_cache by blast
    then consider "(k, u, x) \<in> set (cache_pop h (st_cache st))" | "k = h" "u = s" by auto
    then show ?thesis
      using store_coherentD(5) [OF co, of k u x] r by cases (auto simp: entry_coherent_def)
  qed
  with d False store_coherentD(1) [OF co] length_trim_cache show ?thesis
    unfolding st' by (intro store_coherentI) auto
qed

text \<open>A row under a fresh hash that has no cache entry.\<close>

lemma coherent_insert_row:
  assumes co: "store_coherent t st" and new: "sr_token_hash r \<notin> sr_token_hash ` set (st_rows st)"
    and uncached: "sr_token_hash r \<notin> fst ` set (st_cache st)"
  shows "store_coherent t (st\<lparr>st_rows := st_rows st @ [r]\<rparr>)"
proof (rule store_coherentI)
  show "keyed sr_token_hash (st_rows (st\<lparr>st_rows := st_rows st @ [r]\<rparr>))"
    using store_coherentD(1) [OF co] new by (simp add: keyed_snoc)
  show "entry_coherent t (st_rows (st\<lparr>st_rows := st_rows st @ [r]\<rparr>)) h s"
    if "(h, s, d) \<in> set (st_cache (st\<lparr>st_rows := st_rows st @ [r]\<rparr>))" for h s d
    using store_coherentD(5) [OF co, of h s d] that uncached
    by (auto simp: entry_coherent_def image_iff)
qed (use store_coherentD(2,3,4) [OF co] in simp_all)

lemma coherent_pop:
  "store_coherent t st \<Longrightarrow> store_coherent t (st\<lparr>st_cache := cache_pop h (st_cache st)\<rparr>)"
  by (rule coherent_shrink [where p = "\<lambda>_. False" and q = "\<lambda>(k, _). k \<noteq> h"])
     (auto simp: cache_pop_def del_rows_def)

lemma coherent_revoke: "store_coherent t st \<Longrightarrow> store_coherent t (sstore_revoke H token st)"
  by (rule coherent_shrink [where p = "\<lambda>r. sr_token_hash r = H token" and q = "\<lambda>(k, _). k \<noteq> H token"])
     (auto simp: sstore_revoke_def delete_token_row_def cache_pop_def)

lemma coherent_create:
  assumes co: "store_coherent t st" and "t \<le> now" and run: "sstore_create H token s now tick st = Inr st'"
  shows "store_coherent now st'"
proof -
  let ?row = "row_of_session (H token) s now"
  let ?st1 = "st\<lparr>st_rows := del_rows (\<lambda>r. sr_expires_at r \<le> now) (st_rows st)\<rparr>"
  let ?st2 = "?st1\<lparr>st_rows := st_rows ?st1 @ [?row]\<rparr>"
  have co1: "store_coherent now ?st1"
    by (rule coherent_shrink [OF store_coherent_later [OF co \<open>t \<le> now\<close>], where q = "\<lambda>_. True"]) auto
  from run have new: "H token \<notin> sr_token_hash ` set (st_rows ?st1)"
    and st': "st' = cache_session (H token) s tick ?st2"
    by (auto simp: sstore_create_def Let_def res_iff)
  let ?st0 = "?st1\<lparr>st_cache := cache_pop (H token) (st_cache st)\<rparr>"
  have "store_coherent now ?st0"
    using coherent_pop [OF co1, of "H token"] by simp
  then have "store_coherent now (?st0\<lparr>st_rows := st_rows ?st0 @ [?row]\<rparr>)"
    using new by (intro coherent_insert_row) auto
  also have "?st0\<lparr>st_rows := st_rows ?st0 @ [?row]\<rparr>
      = ?st2\<lparr>st_cache := cache_pop (H token) (st_cache ?st2)\<rparr>"
    by simp
  finally have co2: "store_coherent now (?st2\<lparr>st_cache := cache_pop (H token) (st_cache ?st2)\<rparr>)" .
  show ?thesis
    unfolding st'
  proof (rule coherent_cache_session [OF co2, where r = ?row])
    show "st_cache ?st2 = []" if "st_cache_ttl ?st2 \<le> 0 \<or> st_cache_max ?st2 = 0"
      using that coherent_off [OF co] by simp
  qed simp_all
qed

text \<open>What \<^verbatim>\<open>resolve\<close> would answer with no cache at all.\<close>

definition lookup_session :: "session_row list \<Rightarrow> string \<Rightarrow> time \<Rightarrow> stored_session option" where
  "lookup_session rows h now =
     (case find (\<lambda>r. sr_token_hash r = h) rows of
        None \<Rightarrow> None
      | Some r \<Rightarrow> if sr_expires_at r \<le> now then None else Some (session_of_row r))"

lemma lookup_session_iff:
  assumes "keyed sr_token_hash rows"
  shows "lookup_session rows h now = Some s \<longleftrightarrow>
    (\<exists>r \<in> set rows. sr_token_hash r = h \<and> now < sr_expires_at r \<and> session_of_row r = s)"
proof (cases "find (\<lambda>r. sr_token_hash r = h) rows")
  case None
  then have "\<forall>r \<in> set rows. sr_token_hash r \<noteq> h" by (meson find_None_iff)
  with None show ?thesis by (auto simp: lookup_session_def)
next
  case (Some r)
  then have r: "r \<in> set rows" "sr_token_hash r = h"
    using find_keyed [OF assms] by auto
  have "(\<exists>r' \<in> set rows. sr_token_hash r' = h \<and> P r') \<longleftrightarrow> P r" for P
  proof -
    have "r' = r" if "r' \<in> set rows" "sr_token_hash r' = h" for r'
      using keyed_eqI [OF assms that(1) r(1)] that(2) r(2) by simp
    with r show ?thesis by metis
  qed
  with Some show ?thesis by (simp add: lookup_session_def not_le)
qed

lemma fst_resolve_row: "fst (resolve_row h now tick st) = lookup_session (st_rows st) h now"
  by (simp add: resolve_row_def lookup_session_def split: option.splits)

lemma cache_session_frame [simp]:
  "st_rows (cache_session h s tick st) = st_rows st"
  "st_cache_max (cache_session h s tick st) = st_cache_max st"
  "st_cache_ttl (cache_session h s tick st) = st_cache_ttl st"
  by (simp_all add: cache_session_def)

lemma delete_token_row_frame [simp]:
  "st_cache (delete_token_row h st) = st_cache st"
  "st_rows (delete_token_row h st) = del_rows (\<lambda>r. sr_token_hash r = h) (st_rows st)"
  "st_cache_max (delete_token_row h st) = st_cache_max st"
  "st_cache_ttl (delete_token_row h st) = st_cache_ttl st"
  by (simp_all add: delete_token_row_def)

lemma coherent_resolve_row:
  assumes co: "store_coherent now st"
  shows "store_coherent now (snd (resolve_row h now tick st))"
proof (cases "find (\<lambda>r. sr_token_hash r = h) (st_rows st)")
  case None
  then show ?thesis using co by (simp add: resolve_row_def)
next
  case (Some r)
  have r: "r \<in> set (st_rows st)" "sr_token_hash r = h"
    using Some find_keyed [OF store_coherentD(1) [OF co]] by auto
  show ?thesis
  proof (cases "sr_expires_at r \<le> now")
    case True
    have "store_coherent now (delete_token_row h st)"
      using True r keyed_eqI [OF store_coherentD(1) [OF co]]
      by (intro coherent_shrink [OF co, where p = "\<lambda>r. sr_token_hash r = h" and q = "\<lambda>_. True"])
         auto
    with True Some show ?thesis by (simp add: resolve_row_def)
  next
    case False
    with Some r show ?thesis
      using coherent_cache_session [OF coherent_pop [OF co] r refl] coherent_off [OF co]
      by (simp add: resolve_row_def)
  qed
qed

lemma cached_entry:
  assumes co: "store_coherent now st" and hit: "map_of (st_cache st) h = Some (s, d)"
  shows "lookup_session (st_rows st) h now = (if ss_expires_at s \<le> now then None else Some s)"
proof -
  have keyed: "keyed sr_token_hash (st_rows st)" by (rule store_coherentD(1) [OF co])
  have "entry_coherent now (st_rows st) h s"
    using store_coherentD(5) [OF co] map_of_SomeD [OF hit] by blast
  then consider r where "r \<in> set (st_rows st)" "sr_token_hash r = h" "session_of_row r = s"
    | "h \<notin> sr_token_hash ` set (st_rows st)" "ss_expires_at s \<le> now"
    by (auto simp: entry_coherent_def)
  then show ?thesis
  proof cases
    case 1
    then have "find (\<lambda>r. sr_token_hash r = h) (st_rows st) = Some r"
      using find_keyed [OF keyed] by blast
    with 1 show ?thesis by (auto simp: lookup_session_def)
  next
    case 2
    then have "find (\<lambda>r. sr_token_hash r = h) (st_rows st) = None"
      by (auto simp: find_None_iff)
    with 2 show ?thesis by (simp add: lookup_session_def)
  qed
qed

lemma store_resolve_eq:
  assumes co: "store_coherent now st"
  shows "fst (sstore_resolve H token now tick st) = lookup_session (st_rows st) (H token) now"
proof (cases "map_of (st_cache st) (H token)")
  case None
  then show ?thesis by (simp add: sstore_resolve_def fst_resolve_row)
next
  case (Some sd)
  obtain s d where sd: "sd = (s, d)" by (cases sd)
  show ?thesis
    using Some cached_entry [OF co, of "H token" s d] sd
    by (auto simp: sstore_resolve_def Let_def fst_resolve_row)
qed

lemma coherent_resolve:
  assumes co: "store_coherent now st"
  shows "store_coherent now (snd (sstore_resolve H token now tick st))"
proof (cases "map_of (st_cache st) (H token)")
  case None
  then show ?thesis using coherent_resolve_row [OF co] by (simp add: sstore_resolve_def)
next
  case (Some sd)
  obtain s d where sd: "sd = (s, d)" by (cases sd)
  let ?pop = "st\<lparr>st_cache := cache_pop (H token) (st_cache st)\<rparr>"
  have hit: "(H token, s, d) \<in> set (st_cache st)"
    using Some sd by (auto dest: map_of_SomeD)
  have pop: "store_coherent now ?pop" by (rule coherent_pop [OF co])
  have "store_coherent now (?pop\<lparr>st_cache := st_cache ?pop @ [(H token, s, d)]\<rparr>)"
  proof (rule store_coherentI)
    show "length (st_cache (?pop\<lparr>st_cache := st_cache ?pop @ [(H token, s, d)]\<rparr>))
        \<le> st_cache_max (?pop\<lparr>st_cache := st_cache ?pop @ [(H token, s, d)]\<rparr>)"
      using length_cache_pop_less [OF Some] store_coherentD(3) [OF co] by simp
    show "st_cache (?pop\<lparr>st_cache := st_cache ?pop @ [(H token, s, d)]\<rparr>) = []"
      if "st_cache_ttl (?pop\<lparr>st_cache := st_cache ?pop @ [(H token, s, d)]\<rparr>) \<le> 0"
      using that store_coherentD(4) [OF co] hit by auto
    show "entry_coherent now (st_rows (?pop\<lparr>st_cache := st_cache ?pop @ [(H token, s, d)]\<rparr>)) k u"
      if "(k, u, x) \<in> set (st_cache (?pop\<lparr>st_cache := st_cache ?pop @ [(H token, s, d)]\<rparr>))" for k u x
      using that store_coherentD(5) [OF co] hit by auto
  qed (use store_coherentD(1,2) [OF pop] in auto)
  moreover have "store_coherent now (delete_token_row (H token) ?pop)"
    by (rule coherent_shrink [OF co, where p = "\<lambda>r. sr_token_hash r = H token" and q = "\<lambda>(k, _). k \<noteq> H token"])
       (auto simp: cache_pop_def)
  ultimately show ?thesis
    using Some sd coherent_resolve_row [OF pop]
    by (auto simp: sstore_resolve_def Let_def)
qed

lemma coherent_revoke_where:
  assumes "store_coherent t st" and "\<And>r. p r \<Longrightarrow> q (session_of_row r)"
  shows "store_coherent t (snd (revoke_where p q st))"
  by (rule coherent_shrink [OF assms(1), where p = p and q = "\<lambda>(_, s, _). \<not> q s"])
     (use assms(2) in \<open>auto simp: revoke_where_def\<close>)

lemma session_of_row_fields [simp]:
  "ss_username (session_of_row r) = sr_username r"
  "ss_identity_id (session_of_row r) = sr_identity_id r"
  "sr_auth_provider r = provider_name p \<Longrightarrow> ss_auth_provider (session_of_row r) = p"
  by (simp_all add: session_of_row_def)

lemma coherent_revoke_user:
  "store_coherent t st \<Longrightarrow> store_coherent t (snd (sstore_revoke_user u p st))"
  by (cases p) (auto simp: sstore_revoke_user_def intro!: coherent_revoke_where)

lemma coherent_revoke_identity:
  "store_coherent t st \<Longrightarrow> store_coherent t (snd (sstore_revoke_identity p i st))"
  by (auto simp: sstore_revoke_identity_def intro!: coherent_revoke_where)

lemma coherent_revoke_provider:
  "store_coherent t st \<Longrightarrow> store_coherent t (snd (sstore_revoke_provider p st))"
  by (auto simp: sstore_revoke_provider_def intro!: coherent_revoke_where)

lemma coherent_revoke_all: "store_coherent t (snd (sstore_revoke_all st))"
  by (simp add: sstore_revoke_all_def store_coherent_def)

lemma coherent_invalidate:
  "store_coherent t st \<Longrightarrow> store_coherent t (sstore_invalidate H token st)"
  by (simp add: sstore_invalidate_def coherent_pop)

section \<open>Runs of the store\<close>

datatype session_event =
    Ev_create string stored_session
  | Ev_resolve string
  | Ev_revoke string
  | Ev_revoke_user string "auth_provider option"
  | Ev_revoke_identity auth_provider string
  | Ev_revoke_provider auth_provider
  | Ev_revoke_all
  | Ev_invalidate string

text \<open>A creation that raises is rolled back and leaves the store as it was.\<close>

fun apply_session_event ::
  "(string \<Rightarrow> string) \<Rightarrow> time \<Rightarrow> time \<Rightarrow> session_event \<Rightarrow> session_store \<Rightarrow> session_store" where
  "apply_session_event H now tick (Ev_create token s) st =
     (case sstore_create H token s now tick st of Inl _ \<Rightarrow> st | Inr st' \<Rightarrow> st')"
| "apply_session_event H now tick (Ev_resolve token) st = snd (sstore_resolve H token now tick st)"
| "apply_session_event H now tick (Ev_revoke token) st = sstore_revoke H token st"
| "apply_session_event H now tick (Ev_revoke_user u p) st = snd (sstore_revoke_user u p st)"
| "apply_session_event H now tick (Ev_revoke_identity p i) st = snd (sstore_revoke_identity p i st)"
| "apply_session_event H now tick (Ev_revoke_provider p) st = snd (sstore_revoke_provider p st)"
| "apply_session_event H now tick Ev_revoke_all st = snd (sstore_revoke_all st)"
| "apply_session_event H now tick (Ev_invalidate token) st = sstore_invalidate H token st"

text \<open>States carry the latest wall-clock reading, which does not go back.\<close>

inductive session_step ::
  "(string \<Rightarrow> string) \<Rightarrow> time \<times> session_store \<Rightarrow> time \<times> session_store \<Rightarrow> bool"
  for H :: "string \<Rightarrow> string" where
  session_stepI: "t \<le> now \<Longrightarrow> session_step H (t, st) (now, apply_session_event H now tick ev st)"

inductive_cases session_stepE: "session_step H s s'"

definition session_init :: "time \<times> session_store \<Rightarrow> bool" where
  "session_init s \<longleftrightarrow> (\<exists>ttl n. snd s = new_session_store ttl n)"

lemma coherent_event:
  assumes co: "store_coherent t st" and "t \<le> now"
  shows "store_coherent now (apply_session_event H now tick ev st)"
  using store_coherent_later [OF assms] coherent_create [OF assms]
  by (cases ev)
     (auto intro: coherent_resolve coherent_revoke coherent_revoke_user coherent_revoke_identity
        coherent_revoke_provider coherent_revoke_all coherent_invalidate split: sum.splits)

interpretation session_machine:
  machine_invariant session_init "session_step H" "\<lambda>s. store_coherent (fst s) (snd s)" for H
proof unfold_locales
  show "store_coherent (fst s) (snd s)" if "session_init s" for s
    using that by (auto simp: session_init_def coherent_new)
  show "store_coherent (fst t) (snd t)"
    if "store_coherent (fst s) (snd s)" "session_step H s t" for s t
    using that by (auto elim!: session_stepE intro: coherent_event)
qed

section \<open>The read-through cache contract\<close>

text \<open>
  A reader with a cache in front of a source of truth: in a coherent state a read gives what
  the source gives, and it keeps the coherence and every answer of the source.
\<close>

locale cached_reader =
  fixes read :: "'st \<Rightarrow> 'k \<Rightarrow> 'v \<times> 'st"
    and fetch :: "'st \<Rightarrow> 'k \<Rightarrow> 'v"
    and coherent :: "'st \<Rightarrow> bool"
  assumes read_fetch: "coherent st \<Longrightarrow> fst (read st k) = fetch st k"
    and read_coherent: "coherent st \<Longrightarrow> coherent (snd (read st k))"
    and read_keeps: "coherent st \<Longrightarrow> fetch (snd (read st k)) k' = fetch st k'"
begin

fun reads :: "'st \<Rightarrow> 'k list \<Rightarrow> 'v list \<times> 'st" where
  "reads st [] = ([], st)"
| "reads st (k # ks) =
     (let (v, st') = read st k; (vs, st'') = reads st' ks in (v # vs, st''))"

lemma reads_uncached:
  "coherent st \<Longrightarrow> fst (reads st ks) = map (fetch st) ks \<and> coherent (snd (reads st ks))"
proof (induction ks arbitrary: st)
  case Nil
  then show ?case by simp
next
  case (Cons k ks)
  obtain v st' where r: "read st k = (v, st')" by fastforce
  have "coherent st'" "v = fetch st k" "\<And>k'. fetch st' k' = fetch st k'"
    using read_coherent [OF Cons.prems, of k] read_fetch [OF Cons.prems, of k]
      read_keeps [OF Cons.prems, of k] r by auto
  with Cons.IH [of st'] r show ?case
    by (auto simp: Let_def split: prod.splits)
qed

lemma read_twice: "coherent st \<Longrightarrow> fst (read (snd (read st k)) k) = fst (read st k)"
  using read_fetch read_coherent read_keeps by metis

end

lemma lookup_after_expired_delete:
  assumes "keyed sr_token_hash rows" and "lookup_session rows h now = None"
  shows "lookup_session (del_rows (\<lambda>r. sr_token_hash r = h) rows) k now = lookup_session rows k now"
proof (cases "k = h")
  case True
  then have "find (\<lambda>r. sr_token_hash r = k) (del_rows (\<lambda>r. sr_token_hash r = h) rows) = None"
    by (auto simp: find_None_iff)
  with True assms(2) show ?thesis by (simp add: lookup_session_def)
next
  case False
  have "find (\<lambda>r. sr_token_hash r = k) (del_rows (\<lambda>r. sr_token_hash r = h) rows)
      = find (\<lambda>r. sr_token_hash r = k) rows"
    using False by (induction rows) auto
  then show ?thesis by (simp add: lookup_session_def)
qed

lemma rows_resolve_row:
  "st_rows (snd (resolve_row h now tick st)) =
     (if lookup_session (st_rows st) h now = None \<and> h \<in> sr_token_hash ` set (st_rows st)
      then del_rows (\<lambda>r. sr_token_hash r = h) (st_rows st) else st_rows st)"
proof (cases "find (\<lambda>r. sr_token_hash r = h) (st_rows st)")
  case None
  then have "h \<notin> sr_token_hash ` set (st_rows st)" by (auto simp: find_None_iff image_iff)
  with None show ?thesis by (simp add: resolve_row_def)
next
  case (Some r)
  then have "h \<in> sr_token_hash ` set (st_rows st)"
    using find_Some_D by (metis (mono_tags, lifting) image_eqI)
  with Some show ?thesis by (simp add: resolve_row_def lookup_session_def)
qed

lemma lookup_resolve_row:
  "keyed sr_token_hash (st_rows st) \<Longrightarrow>
     lookup_session (st_rows (snd (resolve_row h now tick st))) k now = lookup_session (st_rows st) k now"
  by (simp add: rows_resolve_row lookup_after_expired_delete)

interpretation session_reader:
  cached_reader "\<lambda>st token. sstore_resolve H token now tick st"
    "\<lambda>st token. lookup_session (st_rows st) (H token) now" "store_coherent now" for H now tick
proof unfold_locales
  show "fst (sstore_resolve H token now tick st) = lookup_session (st_rows st) (H token) now"
    if "store_coherent now st" for st token
    using that by (rule store_resolve_eq)
  show "store_coherent now (snd (sstore_resolve H token now tick st))"
    if "store_coherent now st" for st token
    using that by (rule coherent_resolve)
  show "lookup_session (st_rows (snd (sstore_resolve H token now tick st))) (H k) now
      = lookup_session (st_rows st) (H k) now" if co: "store_coherent now st" for st token k
    using store_coherentD(1) [OF co] cached_entry [OF co, of "H token"]
    by (cases "map_of (st_cache st) (H token)")
       (auto simp: sstore_resolve_def Let_def lookup_resolve_row lookup_after_expired_delete)
qed

section \<open>What a revocation guarantees\<close>

text \<open>No row and no cached entry satisfies \<open>Q\<close>, a condition on the token hash and the session.\<close>

definition absent :: "(string \<Rightarrow> stored_session \<Rightarrow> bool) \<Rightarrow> session_store \<Rightarrow> bool" where
  "absent Q st \<longleftrightarrow>
     (\<forall>r \<in> set (st_rows st). \<not> Q (sr_token_hash r) (session_of_row r)) \<and>
     (\<forall>(h, s, d) \<in> set (st_cache st). \<not> Q h s)"

lemma absent_shrink:
  assumes "absent Q st" and "set (st_rows st') \<subseteq> set (st_rows st)"
    and "set (st_cache st') \<subseteq> set (st_cache st)"
  shows "absent Q st'"
  using assms by (auto simp: absent_def)

lemma absent_cache_session:
  assumes "absent Q st" and "\<not> Q h s"
  shows "absent Q (cache_session h s tick st)"
proof -
  have "set (trim_cache (st_cache_max st) (cache_pop h (st_cache st) @ [(h, s, tick + st_cache_ttl st)]))
      \<subseteq> insert (h, s, tick + st_cache_ttl st) (set (st_cache st))"
    by (rule order_trans [OF set_trim_cache]) auto
  with assms show ?thesis
    by (auto simp: absent_def cache_session_def)
qed

lemma absent_resolve_row:
  assumes "absent Q st"
  shows "absent Q (snd (resolve_row h now tick st))"
    and "fst (resolve_row h now tick st) = Some s \<Longrightarrow> \<not> Q h s"
proof -
  have keep: "absent Q (delete_token_row h st)"
    by (rule absent_shrink [OF assms]) auto
  have row: "\<not> Q h (session_of_row r)" if "find (\<lambda>r. sr_token_hash r = h) (st_rows st) = Some r" for r
    using find_Some_D [OF that] assms by (auto simp: absent_def)
  show "absent Q (snd (resolve_row h now tick st))"
    using assms keep row by (auto simp: resolve_row_def intro: absent_cache_session split: option.splits)
  show "fst (resolve_row h now tick st) = Some s \<Longrightarrow> \<not> Q h s"
    using row by (auto simp: resolve_row_def split: option.splits if_splits)
qed

lemma absent_resolve:
  assumes ab: "absent Q st"
  shows "absent Q (snd (sstore_resolve H token now tick st))"
    and "fst (sstore_resolve H token now tick st) = Some s \<Longrightarrow> \<not> Q (H token) s"
proof -
  let ?pop = "st\<lparr>st_cache := cache_pop (H token) (st_cache st)\<rparr>"
  have pop: "absent Q ?pop" and del: "absent Q (delete_token_row (H token) ?pop)"
    by (rule absent_shrink [OF ab]; auto)+
  have hit: "\<not> Q (H token) s'" "absent Q (?pop\<lparr>st_cache := st_cache ?pop @ [(H token, s', d)]\<rparr>)"
    if "map_of (st_cache st) (H token) = Some (s', d)" for s' d
    using map_of_SomeD [OF that] ab by (auto simp: absent_def)
  show "absent Q (snd (sstore_resolve H token now tick st))"
    using absent_resolve_row(1) [OF ab] absent_resolve_row(1) [OF pop] del hit(2)
    by (auto simp: sstore_resolve_def Let_def split: option.splits)
  show "fst (sstore_resolve H token now tick st) = Some s \<Longrightarrow> \<not> Q (H token) s"
    using absent_resolve_row(2) [OF ab] absent_resolve_row(2) [OF pop] hit(1)
    by (auto simp: sstore_resolve_def Let_def split: option.splits if_splits)
qed

lemma absent_create:
  assumes "absent Q st" and "sstore_create H token s now tick st = Inr st'" and "\<not> Q (H token) s"
  shows "absent Q st'"
proof -
  let ?rows = "del_rows (\<lambda>r. sr_expires_at r \<le> now) (st_rows st) @ [row_of_session (H token) s now]"
  have st': "st' = cache_session (H token) s tick (st\<lparr>st_rows := ?rows\<rparr>)"
    using assms(2) by (auto simp: sstore_create_def Let_def res_iff)
  have "absent Q (st\<lparr>st_rows := ?rows\<rparr>)"
    using assms(1,3) by (auto simp: absent_def)
  then show ?thesis unfolding st' using assms(3) by (rule absent_cache_session)
qed

definition creates :: "(string \<Rightarrow> string) \<Rightarrow> (string \<Rightarrow> stored_session \<Rightarrow> bool) \<Rightarrow> session_event \<Rightarrow> bool" where
  "creates H Q ev = (case ev of Ev_create token s \<Rightarrow> Q (H token) s | _ \<Rightarrow> False)"

lemma absent_event:
  assumes "absent Q st" and "\<not> creates H Q ev"
  shows "absent Q (apply_session_event H now tick ev st)"
proof (cases ev)
  case (Ev_create token s)
  with assms absent_create [OF assms(1), of H token s now tick] show ?thesis
    by (auto simp: creates_def split: sum.splits)
next
  case (Ev_resolve token)
  with absent_resolve(1) [OF assms(1)] show ?thesis by simp
qed (auto intro!: absent_shrink [OF assms(1)]
      simp: sstore_revoke_def sstore_revoke_user_def sstore_revoke_identity_def
        sstore_revoke_provider_def sstore_revoke_all_def sstore_invalidate_def revoke_where_def
      split: option.splits)

fun session_run ::
  "(string \<Rightarrow> string) \<Rightarrow> (time \<times> time \<times> session_event) list \<Rightarrow> session_store \<Rightarrow> session_store" where
  "session_run H [] st = st"
| "session_run H ((now, tick, ev) # evs) st = session_run H evs (apply_session_event H now tick ev st)"

lemma absent_run:
  "absent Q st \<Longrightarrow> (\<forall>(now, tick, ev) \<in> set evs. \<not> creates H Q ev) \<Longrightarrow> absent Q (session_run H evs st)"
  by (induction H evs st rule: session_run.induct) (auto intro: absent_event)

lemma absent_revoke: "absent (\<lambda>h _. h = H token) (sstore_revoke H token st)"
  by (auto simp: absent_def sstore_revoke_def)

lemma absent_revoke_user: "absent (\<lambda>_ s. ss_username s = u) (snd (sstore_revoke_user u None st))"
  by (auto simp: absent_def sstore_revoke_user_def revoke_where_def)

section \<open>Properties\<close>

text \<open>
  C4. In every state the store can reach, with the clock not running backwards, the cached
  \<^verbatim>\<open>resolve\<close> answers exactly what the table alone would: the session of the token's row when
  that row has not expired, and nothing otherwise. The cache never exceeds its bound.
\<close>

theorem session_resolve_exact:
  assumes "reaches session_init (session_step H) (t, st)" and "t \<le> now"
  shows "(fst (sstore_resolve H token now tick st) = Some s \<longleftrightarrow>
           (\<exists>r \<in> set (st_rows st). sr_token_hash r = H token \<and> now < sr_expires_at r \<and>
              session_of_row r = s))
         \<and> length (st_cache st) \<le> st_cache_max st"
proof -
  have co: "store_coherent now st"
    using session_machine.inv_reaches [OF assms(1)] assms(2) by (auto intro: store_coherent_later)
  show ?thesis
    using session_reader.read_fetch [OF co] lookup_session_iff [OF store_coherentD(1) [OF co]]
      store_coherentD(3) [OF co]
    by simp
qed

text \<open>
  C5. Logging out is final: once a token is revoked, \<^verbatim>\<open>resolve\<close> refuses it whatever the store
  does afterwards (other logins, look-ups, cache traffic, purges), until a session is created
  under the same token hash.
\<close>

theorem revoked_token_stays_revoked:
  assumes "\<forall>(n, m, ev) \<in> set evs. \<not> creates H (\<lambda>h _. h = H token) ev"
  shows "fst (sstore_resolve H token now tick (session_run H evs (sstore_revoke H token st))) = None"
proof -
  have "absent (\<lambda>h _. h = H token) (session_run H evs (sstore_revoke H token st))"
    using assms by (intro absent_run absent_revoke) auto
  from absent_resolve(2) [OF this, of H token now tick] show ?thesis
    by (metis not_None_eq)
qed

text \<open>
  C6. Revoking a user's sessions ends all of them: until that user logs in again, no token,
  cached or not, resolves to a session of the user.
\<close>

theorem revoked_user_has_no_session:
  assumes "\<forall>(n, m, ev) \<in> set evs. \<not> creates H (\<lambda>_ s. ss_username s = u) ev"
    and "fst (sstore_resolve H token now tick
           (session_run H evs (snd (sstore_revoke_user u None st)))) = Some s"
  shows "ss_username s \<noteq> u"
proof -
  have "absent (\<lambda>_ s. ss_username s = u) (session_run H evs (snd (sstore_revoke_user u None st)))"
    using assms(1) by (intro absent_run absent_revoke_user) auto
  from absent_resolve(2) [OF this assms(2)] show ?thesis by simp
qed

subsection \<open>Witnesses\<close>

definition alice_session :: stored_session where
  "alice_session = \<lparr>ss_username = ''alice'', ss_csrf_token = ''c1'', ss_persistent = False,
     ss_expires_at = 100, ss_auth_provider = Prov_pam, ss_identity_id = ''alice''\<rparr>"

definition bob_session :: stored_session where
  "bob_session = alice_session\<lparr>ss_username := ''bob'', ss_csrf_token := ''c2''\<rparr>"

definition two_sessions :: session_store where
  "two_sessions = session_run id
     [(1, 1, Ev_create ''t1'' alice_session), (2, 2, Ev_create ''t2'' bob_session)]
     (new_session_store 2 512)"

lemmas session_eval =
  two_sessions_def alice_session_def bob_session_def new_session_store_def sstore_create_def
  insert_row_def row_of_session_def cache_session_def cache_pop_def sstore_resolve_def
  sstore_revoke_user_def revoke_where_def session_of_row_def resolve_row_def Let_def
  delete_token_row_def normalize_provider_def

lemma two_sessions_reachable: "reaches session_init (session_step id) (2, two_sessions)"
proof -
  let ?s0 = "new_session_store 2 512"
  let ?s1 = "apply_session_event id 1 1 (Ev_create ''t1'' alice_session) ?s0"
  have "reaches session_init (session_step id) (0, ?s0)"
    by (rule reaches_init) (auto simp: session_init_def)
  then have "reaches session_init (session_step id) (1, ?s1)"
    by (rule reaches_step) (rule session_stepI, simp)
  then have "reaches session_init (session_step id)
      (2, apply_session_event id 2 2 (Ev_create ''t2'' bob_session) ?s1)"
    by (rule reaches_step) (rule session_stepI, simp)
  then show ?thesis by (simp add: two_sessions_def)
qed

theorem session_resolve_exact_witness:
  "(fst (sstore_resolve id ''t1'' 3 3 two_sessions) = Some alice_session \<longleftrightarrow>
      (\<exists>r \<in> set (st_rows two_sessions). sr_token_hash r = id ''t1'' \<and> 3 < sr_expires_at r \<and>
         session_of_row r = alice_session))
   \<and> length (st_cache two_sessions) \<le> st_cache_max two_sessions
   \<and> fst (sstore_resolve id ''t1'' 3 3 two_sessions) = Some alice_session"
proof -
  have "fst (sstore_resolve id ''t1'' 3 3 two_sessions) = Some alice_session"
    by (simp add: session_eval)
  with session_resolve_exact [OF two_sessions_reachable, of 3 "''t1''" 3 alice_session]
  show ?thesis by simp
qed

theorem revoked_token_stays_revoked_witness:
  "fst (sstore_resolve id ''t1'' 5 5 (session_run id
     [(4, 4, Ev_resolve ''t1''), (4, 4, Ev_create ''t3'' bob_session)]
     (sstore_revoke id ''t1'' two_sessions))) = None"
  by (rule revoked_token_stays_revoked) (simp add: creates_def)

theorem revoked_user_has_no_session_witness:
  "fst (sstore_resolve id ''t2'' 5 5 (session_run id [(4, 4, Ev_resolve ''t1'')]
     (snd (sstore_revoke_user ''alice'' None two_sessions)))) = Some bob_session
   \<and> ss_username bob_session \<noteq> ''alice''"
proof -
  have run: "fst (sstore_resolve id ''t2'' 5 5 (session_run id [(4, 4, Ev_resolve ''t1'')]
      (snd (sstore_revoke_user ''alice'' None two_sessions)))) = Some bob_session"
    by (simp add: session_eval)
  have "ss_username bob_session \<noteq> ''alice''"
    by (rule revoked_user_has_no_session [OF _ run]) (simp add: creates_def)
  with run show ?thesis by simp
qed

end
