(* ===== verification/Json_Value.thy ===== *)
theory Json_Value
  imports Prelude "HOL-Library.Sublist"
begin

text \<open>
  JSON values as Python holds them after \<^verbatim>\<open>json.loads\<close> (integers and floats apart,
  objects as association lists in insertion order) and the Python operations the sources apply to
  them: truth value, \<open>==\<close>, the order comparisons with their \<^verbatim>\<open>TypeError\<close>, membership
  and \<^verbatim>\<open>dict.get\<close>. Floats are reals: NaN and infinities are not modelled.
\<close>

datatype json =
    JNull
  | JBool bool
  | JInt int
  | JFloat real
  | JStr string
  | JList "json list"
  | JObj "(string \<times> json) list"

fun json_truthy :: "json \<Rightarrow> bool" where
  "json_truthy JNull = False"
| "json_truthy (JBool b) = b"
| "json_truthy (JInt i) = (i \<noteq> 0)"
| "json_truthy (JFloat r) = (r \<noteq> 0)"
| "json_truthy (JStr s) = (s \<noteq> [])"
| "json_truthy (JList xs) = (xs \<noteq> [])"
| "json_truthy (JObj kvs) = (kvs \<noteq> [])"

text \<open>The number a value compares as: \<^verbatim>\<open>bool\<close> is a subclass of \<^verbatim>\<open>int\<close>.\<close>

fun json_number :: "json \<Rightarrow> real option" where
  "json_number (JBool b) = Some (if b then 1 else 0)"
| "json_number (JInt i) = Some (of_int i)"
| "json_number (JFloat r) = Some r"
| "json_number _ = None"

fun json_eq :: "json \<Rightarrow> json \<Rightarrow> bool"
  and json_eq_list :: "json list \<Rightarrow> json list \<Rightarrow> bool"
  and json_eq_fields :: "(string \<times> json) list \<Rightarrow> (string \<times> json) list \<Rightarrow> bool" where
  "json_eq (JStr s) v = (v = JStr s)"
| "json_eq JNull v = (v = JNull)"
| "json_eq (JList xs) v = (case v of JList ys \<Rightarrow> json_eq_list xs ys | _ \<Rightarrow> False)"
| "json_eq (JObj kvs) v =
     (case v of JObj lws \<Rightarrow> length kvs = length lws \<and> json_eq_fields kvs lws | _ \<Rightarrow> False)"
| "json_eq (JBool b) v = (json_number v = json_number (JBool b))"
| "json_eq (JInt i) v = (json_number v = json_number (JInt i))"
| "json_eq (JFloat r) v = (json_number v = json_number (JFloat r))"
| "json_eq_list [] ys = (ys = [])"
| "json_eq_list (x # xs) ys =
     (case ys of [] \<Rightarrow> False | y # ys' \<Rightarrow> json_eq x y \<and> json_eq_list xs ys')"
| "json_eq_fields [] lws = True"
| "json_eq_fields (kv # kvs) lws =
     ((case map_of lws (fst kv) of None \<Rightarrow> False | Some w \<Rightarrow> json_eq (snd kv) w)
      \<and> json_eq_fields kvs lws)"

datatype comparison = Cmp_lt | Cmp_le | Cmp_gt | Cmp_ge

fun compare_by :: "comparison \<Rightarrow> 'a :: linorder \<Rightarrow> 'a \<Rightarrow> bool" where
  "compare_by Cmp_lt a b = (a < b)"
| "compare_by Cmp_le a b = (a \<le> b)"
| "compare_by Cmp_gt a b = (b < a)"
| "compare_by Cmp_ge a b = (b \<le> a)"

text \<open>Strings compare by code points, lexicographically.\<close>

fun str_less :: "string \<Rightarrow> string \<Rightarrow> bool" where
  "str_less [] ys = (ys \<noteq> [])"
| "str_less (x # xs) [] = False"
| "str_less (x # xs) (y # ys) =
     ((of_char x :: nat) < of_char y \<or> x = y \<and> str_less xs ys)"

fun str_compare :: "comparison \<Rightarrow> string \<Rightarrow> string \<Rightarrow> bool" where
  "str_compare Cmp_lt a b = str_less a b"
| "str_compare Cmp_le a b = (\<not> str_less b a)"
| "str_compare Cmp_gt a b = str_less b a"
| "str_compare Cmp_ge a b = (\<not> str_less a b)"

text \<open>
  \<open>a < b\<close> and its relatives: numbers with numbers, strings with strings, lists with lists (the
  first unequal pair decides, else the lengths); anything else is a \<^verbatim>\<open>TypeError\<close>.
\<close>

fun json_compare :: "comparison \<Rightarrow> json \<Rightarrow> json \<Rightarrow> bool res"
  and json_compare_list :: "comparison \<Rightarrow> json list \<Rightarrow> json list \<Rightarrow> bool res" where
  "json_compare c (JList xs) v =
     (case v of JList ys \<Rightarrow> json_compare_list c xs ys | _ \<Rightarrow> Inl TypeError)"
| "json_compare c (JStr s) v =
     (case v of JStr t \<Rightarrow> Inr (str_compare c s t) | _ \<Rightarrow> Inl TypeError)"
| "json_compare c JNull v = Inl TypeError"
| "json_compare c (JObj kvs) v = Inl TypeError"
| "json_compare c (JBool b) v =
     (case json_number v of None \<Rightarrow> Inl TypeError
      | Some y \<Rightarrow> Inr (compare_by c (if b then 1 else 0) y))"
| "json_compare c (JInt i) v =
     (case json_number v of None \<Rightarrow> Inl TypeError | Some y \<Rightarrow> Inr (compare_by c (of_int i) y))"
| "json_compare c (JFloat r) v =
     (case json_number v of None \<Rightarrow> Inl TypeError | Some y \<Rightarrow> Inr (compare_by c r y))"
| "json_compare_list c [] ys = Inr (compare_by c (0 :: nat) (length ys))"
| "json_compare_list c (x # xs) ys =
     (case ys of [] \<Rightarrow> Inr (compare_by c (1 :: nat) 0)
      | y # ys' \<Rightarrow> if json_eq x y then json_compare_list c xs ys' else json_compare c x y)"

fun hashable :: "json \<Rightarrow> bool" where
  "hashable (JList xs) = False"
| "hashable (JObj kvs) = False"
| "hashable _ = True"

text \<open>
  \<open>x in c\<close> for a list, a string (substring test, only for strings) or an object (its keys, only
  for hashable values); \<open>None\<close> when \<open>c\<close> is none of these.
\<close>

definition json_in :: "json \<Rightarrow> json \<Rightarrow> bool res option" where
  "json_in x c =
     (case c of
        JList ys \<Rightarrow> Some (Inr (list_ex (\<lambda>y. json_eq y x) ys))
      | JStr t \<Rightarrow> Some (case x of JStr s \<Rightarrow> Inr (sublist s t) | _ \<Rightarrow> Inl TypeError)
      | JObj kvs \<Rightarrow>
          Some (if hashable x then Inr (list_ex (\<lambda>kv. x = JStr (fst kv)) kvs) else Inl TypeError)
      | _ \<Rightarrow> None)"

definition obj_get :: "json \<Rightarrow> string \<Rightarrow> json option" where
  "obj_get v k = (case v of JObj kvs \<Rightarrow> map_of kvs k | _ \<Rightarrow> None)"

lemma json_compare_error: "json_compare c v w = Inl e \<Longrightarrow> e = TypeError"
  and json_compare_list_error: "json_compare_list c vs ws = Inl e \<Longrightarrow> e = TypeError"
  by (induction c v w and c vs ws rule: json_compare_json_compare_list.induct)
     (auto split: json.splits option.splits list.splits if_splits)

end
