(* ===== verification/Rbac_Store.thy ===== *)
theory Rbac_Store
  imports Permissions Sessions Json_Value "HOL-Library.List_Lexorder"
begin

text \<open>
  The dynamic RBAC store of \<^verbatim>\<open>backend/app/identity/permission_service.py\<close>: the tables of
  \<^verbatim>\<open>identity.sqlite3\<close> as lists of rows, every operation of \<^verbatim>\<open>PermissionRepository\<close>
  with its uniqueness and foreign-key constraints (an aborted transaction leaves the database as it
  was: the operation returns an error and no new state), and the grants a user effectively has.
  \<open>known\<close> is \<^verbatim>\<open>ALL_PERMISSIONS\<close>, \<open>now\<close> the clock, \<open>new_id\<close> a fresh
  \<^verbatim>\<open>uuid4\<close>, \<open>U\<close> the text of \<^verbatim>\<open>uuid5(NAMESPACE_URL, .)\<close>. Each operation is one
  atomic step: its reads and its transaction are not interleaved with another writer.
\<close>

section \<open>Permission names\<close>

definition permission_aliases :: "(string \<times> string) list" where
  "permission_aliases =
    [(''desktop.read'', ''settings.view_own''),
     (''desktop.manage'', ''settings.edit_own''),
     (''files.write'', ''files.edit''),
     (''files.share'', ''files.download''),
     (''groups.read'', ''groups.view''),
     (''groups.update'', ''groups.manage_members''),
     (''roles.read'', ''access.view''),
     (''roles.create'', ''access.manage_roles''),
     (''roles.update'', ''access.manage_roles''),
     (''roles.delete'', ''access.manage_roles''),
     (''docker.read'', ''docker.view''),
     (''docker.manage'', ''docker.manage_containers''),
     (''services.read'', ''services.view''),
     (''services.manage'', ''services.restart''),
     (''system.read'', ''settings.view_system''),
     (''system.manage'', ''settings.edit_system''),
     (''settings.read'', ''settings.view_system''),
     (''settings.manage'', ''settings.edit_system''),
     (''rbac.read'', ''access.view''),
     (''rbac.manage'', ''access.manage_roles''),
     (''ldap.read'', ''access.view''),
     (''ldap.manage'', ''access.manage_roles''),
     (''audit.read'', ''audit.view_all'')]"

definition normalize_permission_id :: "string list \<Rightarrow> string \<Rightarrow> string res" where
  "normalize_permission_id known permission =
     (let value = (case map_of permission_aliases (py_strip permission) of
                     Some v \<Rightarrow> v | None \<Rightarrow> py_strip permission)
      in if value \<in> set known then Inr value
         else Inl (HTTPException 422 (''Unknown permission: '' @ permission)))"

definition read_only_permissions :: "string list" where
  "read_only_permissions =
     filter (\<lambda>p. suffix ''.view'' p \<or> suffix ''.read'' p \<or> suffix ''.view_own'' p) base_registry"

definition system_role_permissions :: "(string \<times> string list) list" where
  "system_role_permissions =
    [(''Administrator'', base_registry),
     (''Operator'', role_permissions Role_operator),
     (''Auditor'', role_permissions Role_auditor),
     (''User'', role_permissions Role_user),
     (''Read Only'', read_only_permissions)]"

section \<open>The tables\<close>

datatype effect = Eff_allow | Eff_deny
datatype role_type = Type_system | Type_custom
datatype subject_type = Subj_user | Subj_group | Subj_external_group | Subj_provider

record grant =
  gr_permission :: string
  gr_effect :: effect
  gr_resource_type :: string
  gr_resource_id :: string
  gr_scope :: string

record rbac_role =
  role_id :: string
  role_name :: string
  role_description :: string
  role_active :: bool
  role_kind :: role_type
  role_protected :: bool
  role_created_at :: time
  role_created_by :: string
  role_updated_at :: time
  role_updated_by :: string

record rbac_group =
  group_id :: string
  group_name :: string
  group_description :: string
  group_active :: bool
  group_source :: string
  group_external_id :: string
  group_distinguished_name :: string
  group_managed :: bool
  group_created_at :: time
  group_updated_at :: time

record group_member =
  gm_group_id :: string
  gm_provider :: string
  gm_identity_id :: string
  gm_username :: string

record user_role =
  ur_provider :: string
  ur_identity_id :: string
  ur_username :: string
  ur_role_id :: string
  ur_created_at :: time
  ur_created_by :: string

record external_group =
  eg_id :: string
  eg_provider_id :: string
  eg_external_id :: string
  eg_distinguished_name :: string
  eg_name :: string
  eg_status :: string
  eg_parent_ids :: "string list"
  eg_last_seen_at :: time

record external_membership =
  em_external_group_id :: string
  em_provider :: string
  em_identity_id :: string
  em_username :: string
  em_direct :: bool
  em_last_seen_at :: time

record rbac_policy =
  pol_id :: string
  pol_name :: string
  pol_description :: string
  pol_active :: bool
  pol_effect :: effect
  pol_permission :: string
  pol_resource_type :: string
  pol_resource_id :: string
  pol_scope :: string
  pol_conditions :: "(string \<times> json) list"
  pol_created_at :: time
  pol_created_by :: string
  pol_updated_at :: time
  pol_updated_by :: string

type_synonym policy_subject = "subject_type \<times> string"
type_synonym role_view = "rbac_role \<times> grant list"
type_synonym group_view = "rbac_group \<times> string list \<times> group_member list"
type_synonym policy_view = "rbac_policy \<times> policy_subject list"

text \<open>The request bodies: in a patch an absent key is \<^const>\<open>None\<close>.\<close>

record role_input =
  ri_name :: string
  ri_description :: string
  ri_active :: bool
  ri_permissions :: "grant list"

record role_patch =
  rpa_name :: "string option"
  rpa_description :: "string option"
  rpa_active :: "bool option"
  rpa_permissions :: "grant list option"

record group_input =
  gi_name :: string
  gi_description :: string
  gi_active :: bool
  gi_source :: string
  gi_external_id :: string
  gi_distinguished_name :: string
  gi_role_ids :: "string list"

record group_patch =
  gpa_name :: "string option"
  gpa_description :: "string option"
  gpa_active :: "bool option"
  gpa_role_ids :: "string list option"

record member_input =
  mi_username :: "string option"
  mi_provider :: "string option"
  mi_identity_id :: "string option"

record policy_input =
  pin_name :: string
  pin_description :: string
  pin_active :: bool
  pin_effect :: effect
  pin_permission :: string
  pin_resource_type :: string
  pin_resource_id :: string
  pin_scope :: string
  pin_conditions :: "(string \<times> json) list"
  pin_subjects :: "policy_subject list"

record policy_patch =
  ppa_name :: "string option"
  ppa_description :: "string option"
  ppa_active :: "bool option"
  ppa_effect :: "effect option"
  ppa_permission :: "string option"
  ppa_resource_type :: "string option"
  ppa_resource_id :: "string option"
  ppa_scope :: "string option"
  ppa_conditions :: "(string \<times> json) list option"
  ppa_subjects :: "policy_subject list option"

text \<open>What the audit rows keep as JSON.\<close>

datatype audit_doc =
    Doc_empty
  | Doc_role_input role_input
  | Doc_role_patch role_patch
  | Doc_role role_view
  | Doc_group_input group_input
  | Doc_group_patch group_patch
  | Doc_group group_view
  | Doc_members "group_member list"
  | Doc_member_inputs "member_input list"
  | Doc_role_id string
  | Doc_policy_input policy_input
  | Doc_policy_patch policy_patch
  | Doc_policy policy_view

record rbac_audit_row =
  aud_id :: nat
  aud_actor :: string
  aud_action :: string
  aud_target :: string
  aud_before :: audit_doc
  aud_after :: audit_doc
  aud_timestamp :: time
  aud_source_ip :: string

record rbac_db =
  db_roles :: "rbac_role list"
  db_role_permissions :: "(string \<times> grant) list"
  db_groups :: "rbac_group list"
  db_group_members :: "group_member list"
  db_group_roles :: "(string \<times> string) list"
  db_user_roles :: "user_role list"
  db_external_groups :: "external_group list"
  db_external_memberships :: "external_membership list"
  db_external_group_roles :: "(string \<times> string) list"
  db_policies :: "rbac_policy list"
  db_policy_subjects :: "(string \<times> policy_subject) list"
  db_audit :: "rbac_audit_row list"

text \<open>Who asks, when, and from where.\<close>

record origin =
  or_actor :: string
  or_source_ip :: string
  or_now :: time

definition empty_rbac_db :: rbac_db where
  "empty_rbac_db =
     \<lparr>db_roles = [], db_role_permissions = [], db_groups = [], db_group_members = [],
      db_group_roles = [], db_user_roles = [], db_external_groups = [],
      db_external_memberships = [], db_external_group_roles = [], db_policies = [],
      db_policy_subjects = [], db_audit = []\<rparr>"

section \<open>Initialisation\<close>

definition system_role_id :: "string \<Rightarrow> string" where
  "system_role_id name =
     ''system:'' @ map (\<lambda>c. if c = CHR '' '' then CHR ''-'' else c) (ascii_lower name)"

definition plain_grant :: "string \<Rightarrow> grant" where
  "plain_grant permission =
     \<lparr>gr_permission = permission, gr_effect = Eff_allow, gr_resource_type = ''global'',
      gr_resource_id = ''*'', gr_scope = ''*''\<rparr>"

definition system_role_row :: "time \<Rightarrow> string \<Rightarrow> rbac_role" where
  "system_role_row now name =
     \<lparr>role_id = system_role_id name, role_name = name,
      role_description = ''WebNAS system role: '' @ name, role_active = True,
      role_kind = Type_system, role_protected = True,
      role_created_at = now, role_created_by = ''migration'',
      role_updated_at = now, role_updated_by = ''migration''\<rparr>"

text \<open>
  \<^verbatim>\<open>INSERT OR IGNORE\<close> on the two unique columns of \<^verbatim>\<open>rbac_roles\<close>; the grants then
  reference the role, which must exist under that id (\<^verbatim>\<open>OR IGNORE\<close> does not cover foreign
  keys).
\<close>

definition role_clash :: "string \<Rightarrow> string \<Rightarrow> rbac_role list \<Rightarrow> bool" where
  "role_clash rid name rows \<longleftrightarrow>
     list_ex (\<lambda>r. role_id r = rid \<or> ascii_lower (role_name r) = ascii_lower name) rows"

definition seed_role :: "time \<Rightarrow> string \<times> string list \<Rightarrow> rbac_db \<Rightarrow> rbac_db res" where
  "seed_role now = (\<lambda>(name, permissions) db.
     let rid = system_role_id name;
         roles = (if role_clash rid name (db_roles db) then db_roles db
                  else db_roles db @ [system_role_row now name])
     in if permissions \<noteq> [] \<and> \<not> list_ex (\<lambda>r. role_id r = rid) roles
        then Inl (IntegrityError ''rbac_role_permissions.role_id'')
        else Inr (db\<lparr>db_roles := roles,
                     db_role_permissions :=
                       foldl (\<lambda>rows p. insert_ignore id (rid, plain_grant p) rows)
                         (db_role_permissions db) permissions\<rparr>))"

definition seed_system_roles :: "time \<Rightarrow> rbac_db \<Rightarrow> rbac_db res" where
  "seed_system_roles now = rfold (seed_role now) system_role_permissions"

definition add_audit ::
  "origin \<Rightarrow> string \<Rightarrow> string \<Rightarrow> audit_doc \<Rightarrow> audit_doc \<Rightarrow> rbac_db \<Rightarrow> rbac_db" where
  "add_audit og action target before after db =
     db\<lparr>db_audit := db_audit db @
          [\<lparr>aud_id = length (db_audit db) + 1, aud_actor = or_actor og, aud_action = action,
            aud_target = target, aud_before = before, aud_after = after,
            aud_timestamp = or_now og, aud_source_ip = or_source_ip og\<rparr>]\<rparr>"

section \<open>Roles\<close>

definition codes :: "string \<Rightarrow> nat list" where
  "codes s = map of_char s"

definition nocase :: "string \<Rightarrow> nat list" where
  "nocase s = codes (ascii_lower s)"

definition grants_of :: "rbac_db \<Rightarrow> string \<Rightarrow> grant list" where
  "grants_of db rid =
     sort_key (\<lambda>g. codes (gr_permission g))
       (map snd (filter (\<lambda>(k, _). k = rid) (db_role_permissions db)))"

definition repo_roles :: "rbac_db \<Rightarrow> role_view list" where
  "repo_roles db =
     map (\<lambda>r. (r, grants_of db (role_id r)))
       (sort_key (\<lambda>r. role_kind r = Type_custom)
         (sort_key (\<lambda>r. nocase (role_name r)) (db_roles db)))"

definition repo_role :: "rbac_db \<Rightarrow> string \<Rightarrow> role_view res" where
  "repo_role db rid =
     (case find (\<lambda>v. role_id (fst v) = rid) (repo_roles db) of
        None \<Rightarrow> Inl (HTTPException 404 ''Role not found'')
      | Some v \<Rightarrow> Inr v)"

definition replace_role_permissions ::
  "string list \<Rightarrow> string \<Rightarrow> grant list \<Rightarrow> rbac_db \<Rightarrow> rbac_db res" where
  "replace_role_permissions known rid permissions db =
     rbind (rfold (\<lambda>g rows. rbind (normalize_permission_id known (gr_permission g))
                     (\<lambda>p. insert_row id ''rbac_role_permissions''
                            (rid, g\<lparr>gr_permission := p\<rparr>) rows))
              permissions (del_rows (\<lambda>(k, _). k = rid) (db_role_permissions db)))
       (\<lambda>rows. Inr (db\<lparr>db_role_permissions := rows\<rparr>))"

definition create_role ::
  "string list \<Rightarrow> string \<Rightarrow> origin \<Rightarrow> role_input \<Rightarrow> rbac_db \<Rightarrow> (role_view \<times> rbac_db) res" where
  "create_role known new_id og payload db =
     (let row = \<lparr>role_id = new_id, role_name = py_strip (ri_name payload),
                 role_description = ri_description payload, role_active = ri_active payload,
                 role_kind = Type_custom, role_protected = False,
                 role_created_at = or_now og, role_created_by = or_actor og,
                 role_updated_at = or_now og, role_updated_by = or_actor og\<rparr>
      in if role_clash new_id (role_name row) (db_roles db)
         then Inl (HTTPException 409 ''Role name already exists'')
         else rbind (replace_role_permissions known new_id (ri_permissions payload)
                       (db\<lparr>db_roles := db_roles db @ [row]\<rparr>))
                (\<lambda>db1. let db2 = add_audit og ''role.create'' new_id Doc_empty
                                   (Doc_role_input payload) db1
                       in rbind (repo_role db2 new_id) (\<lambda>v. Inr (v, db2))))"

definition or_else :: "'a option \<Rightarrow> 'a \<Rightarrow> 'a" where
  "or_else x d = (case x of Some v \<Rightarrow> v | None \<Rightarrow> d)"

text \<open>The \<^verbatim>\<open>UPDATE rbac_roles\<close> statement, with the values of the row read before as defaults.\<close>

definition update_role_row ::
  "string \<Rightarrow> origin \<Rightarrow> rbac_role \<Rightarrow> role_patch \<Rightarrow> rbac_db \<Rightarrow> rbac_db" where
  "update_role_row rid og before payload db =
     db\<lparr>db_roles := upd_rows (\<lambda>x. role_id x = rid)
          (\<lambda>x. x\<lparr>role_name := or_else (rpa_name payload) (role_name before),
                role_description := or_else (rpa_description payload) (role_description before),
                role_active := or_else (rpa_active payload) (role_active before),
                role_updated_at := or_now og, role_updated_by := or_actor og\<rparr>)
          (db_roles db)\<rparr>"

definition update_role ::
  "string list \<Rightarrow> string \<Rightarrow> origin \<Rightarrow> role_patch \<Rightarrow> rbac_db \<Rightarrow> (role_view \<times> rbac_db) res" where
  "update_role known rid og payload db =
     rbind (repo_role db rid) (\<lambda>before.
       if role_protected (fst before)
          \<and> rpa_name payload \<notin> {None, Some (role_name (fst before))}
       then Inl (HTTPException 409 ''System role name is protected'')
       else if list_ex (\<lambda>x. role_id x \<noteq> rid \<and> ascii_lower (role_name x)
                  = ascii_lower (or_else (rpa_name payload) (role_name (fst before)))) (db_roles db)
       then Inl (IntegrityError ''rbac_roles.name'')
       else rbind (case rpa_permissions payload of
                     None \<Rightarrow> Inr (update_role_row rid og (fst before) payload db)
                   | Some ps \<Rightarrow> replace_role_permissions known rid ps
                                 (update_role_row rid og (fst before) payload db))
              (\<lambda>db2. let db3 = add_audit og ''role.update'' rid (Doc_role before)
                                 (Doc_role_patch payload) db2
                     in rbind (repo_role db3 rid) (\<lambda>v. Inr (v, db3))))"

text \<open>\<^verbatim>\<open>DELETE FROM rbac_roles\<close> with its \<^verbatim>\<open>ON DELETE CASCADE\<close> references.\<close>

definition drop_role :: "string \<Rightarrow> rbac_db \<Rightarrow> rbac_db" where
  "drop_role rid db =
     db\<lparr>db_roles := del_rows (\<lambda>r. role_id r = rid) (db_roles db),
        db_role_permissions := del_rows (\<lambda>(k, _). k = rid) (db_role_permissions db),
        db_group_roles := del_rows (\<lambda>(_, k). k = rid) (db_group_roles db),
        db_user_roles := del_rows (\<lambda>u. ur_role_id u = rid) (db_user_roles db),
        db_external_group_roles := del_rows (\<lambda>(_, k). k = rid) (db_external_group_roles db)\<rparr>"

definition delete_role :: "string \<Rightarrow> origin \<Rightarrow> rbac_db \<Rightarrow> rbac_db res" where
  "delete_role rid og db =
     rbind (repo_role db rid) (\<lambda>before.
       if role_protected (fst before) then Inl (HTTPException 409 ''System role is protected'')
       else Inr (add_audit og ''role.delete'' rid (Doc_role before) Doc_empty (drop_role rid db)))"

text \<open>\<^verbatim>\<open>permissions()\<close>: the known names, then the aliases, each sorted.\<close>

definition permission_rows :: "string list \<Rightarrow> (string \<times> string \<times> string) list" where
  "permission_rows known =
     (let category = (\<lambda>p. fst (py_partition CHR ''.'' p))
      in map (\<lambda>p. (p, category p, p)) (sort_key codes (dict_fromkeys known))
         @ map (\<lambda>(alias, target). (alias, category alias, target))
             (sort_key (\<lambda>(alias, _). codes alias) permission_aliases))"

section \<open>Groups\<close>

definition group_role_ids :: "rbac_db \<Rightarrow> string \<Rightarrow> string list" where
  "group_role_ids db gid = map snd (filter (\<lambda>(k, _). k = gid) (db_group_roles db))"

definition members_of :: "rbac_db \<Rightarrow> string \<Rightarrow> group_member list" where
  "members_of db gid =
     sort_key (\<lambda>m. codes (gm_username m))
       (filter (\<lambda>m. gm_group_id m = gid) (db_group_members db))"

definition repo_groups :: "rbac_db \<Rightarrow> group_view list" where
  "repo_groups db =
     map (\<lambda>g. (g, group_role_ids db (group_id g), members_of db (group_id g)))
       (sort_key (\<lambda>g. codes (group_source g))
         (sort_key (\<lambda>g. nocase (group_name g)) (db_groups db)))"

definition repo_group :: "rbac_db \<Rightarrow> string \<Rightarrow> group_view res" where
  "repo_group db gid =
     (case find (\<lambda>v. group_id (fst v) = gid) (repo_groups db) of
        None \<Rightarrow> Inl (HTTPException 404 ''Group not found'')
      | Some v \<Rightarrow> Inr v)"

definition replace_group_roles :: "string \<Rightarrow> string list \<Rightarrow> rbac_db \<Rightarrow> rbac_db res" where
  "replace_group_roles gid role_ids db =
     rbind (rfold (\<lambda>rid rows. rbind (repo_role db rid)
                     (\<lambda>_. insert_row id ''rbac_group_roles'' (gid, rid) rows))
              role_ids (del_rows (\<lambda>(k, _). k = gid) (db_group_roles db)))
       (\<lambda>rows. Inr (db\<lparr>db_group_roles := rows\<rparr>))"

definition create_group ::
  "string \<Rightarrow> origin \<Rightarrow> group_input \<Rightarrow> rbac_db \<Rightarrow> (group_view \<times> rbac_db) res" where
  "create_group new_id og payload db =
     (let source = (if gi_source payload = [] then ''local'' else gi_source payload);
          row = \<lparr>group_id = new_id, group_name = py_strip (gi_name payload),
                 group_description = gi_description payload, group_active = gi_active payload,
                 group_source = source, group_external_id = gi_external_id payload,
                 group_distinguished_name = gi_distinguished_name payload,
                 group_managed = (source \<noteq> ''local''),
                 group_created_at = or_now og, group_updated_at = or_now og\<rparr>
      in if list_ex (\<lambda>g. group_id g = new_id
                        \<or> ascii_lower (group_name g) = ascii_lower (group_name row)) (db_groups db)
         then Inl (HTTPException 409 ''Group name already exists'')
         else rbind (replace_group_roles new_id (gi_role_ids payload)
                       (db\<lparr>db_groups := db_groups db @ [row]\<rparr>))
                (\<lambda>db1. let db2 = add_audit og ''group.create'' new_id Doc_empty
                                   (Doc_group_input payload) db1
                       in rbind (repo_group db2 new_id) (\<lambda>v. Inr (v, db2))))"

text \<open>A \<^verbatim>\<open>GroupPatch\<close> has no \<^verbatim>\<open>external_id\<close> or \<^verbatim>\<open>distinguished_name\<close> key.\<close>

definition update_group_row ::
  "string \<Rightarrow> origin \<Rightarrow> rbac_group \<Rightarrow> group_patch \<Rightarrow> rbac_db \<Rightarrow> rbac_db" where
  "update_group_row gid og before payload db =
     db\<lparr>db_groups := upd_rows (\<lambda>x. group_id x = gid)
          (\<lambda>x. x\<lparr>group_description := or_else (gpa_description payload) (group_description before),
                group_active := or_else (gpa_active payload) (group_active before),
                group_updated_at := or_now og\<rparr>) (db_groups db)\<rparr>"

definition rename_group :: "string \<Rightarrow> string \<Rightarrow> rbac_db \<Rightarrow> rbac_db res" where
  "rename_group gid name db =
     (if list_ex (\<lambda>x. group_id x \<noteq> gid \<and> ascii_lower (group_name x) = ascii_lower name)
           (db_groups db)
      then Inl (IntegrityError ''rbac_groups.name'')
      else Inr (db\<lparr>db_groups := upd_rows (\<lambda>x. group_id x = gid) (\<lambda>x. x\<lparr>group_name := name\<rparr>)
                  (db_groups db)\<rparr>))"

definition update_group ::
  "string \<Rightarrow> origin \<Rightarrow> group_patch \<Rightarrow> rbac_db \<Rightarrow> (group_view \<times> rbac_db) res" where
  "update_group gid og payload db =
     rbind (repo_group db gid) (\<lambda>before.
       if group_managed (fst before) \<and> gpa_name payload \<noteq> None
       then Inl (HTTPException 409 ''LDAP-managed attributes are read-only'')
       else rbind (case gpa_name payload of
                     None \<Rightarrow> Inr (update_group_row gid og (fst before) payload db)
                   | Some name \<Rightarrow>
                       rename_group gid name (update_group_row gid og (fst before) payload db))
              (\<lambda>db2. rbind (case gpa_role_ids payload of
                              None \<Rightarrow> Inr db2
                            | Some ids \<Rightarrow> replace_group_roles gid ids db2)
                (\<lambda>db3. let db4 = add_audit og ''group.update'' gid (Doc_group before)
                                   (Doc_group_patch payload) db3
                       in rbind (repo_group db4 gid) (\<lambda>v. Inr (v, db4)))))"

definition drop_group :: "string \<Rightarrow> rbac_db \<Rightarrow> rbac_db" where
  "drop_group gid db =
     db\<lparr>db_groups := del_rows (\<lambda>g. group_id g = gid) (db_groups db),
        db_group_members := del_rows (\<lambda>m. gm_group_id m = gid) (db_group_members db),
        db_group_roles := del_rows (\<lambda>(k, _). k = gid) (db_group_roles db)\<rparr>"

definition delete_group :: "string \<Rightarrow> origin \<Rightarrow> rbac_db \<Rightarrow> rbac_db res" where
  "delete_group gid og db =
     rbind (repo_group db gid) (\<lambda>before.
       if group_managed (fst before)
       then Inl (HTTPException 409 ''LDAP-managed groups cannot be deleted locally'')
       else Inr (add_audit og ''group.delete'' gid (Doc_group before) Doc_empty (drop_group gid db)))"

definition member_key :: "group_member \<Rightarrow> string \<times> string \<times> string" where
  "member_key m = (gm_group_id m, gm_provider m, gm_identity_id m)"

definition member_of_input :: "string \<Rightarrow> member_input \<Rightarrow> group_member res" where
  "member_of_input gid item =
     (case mi_username item of
        None \<Rightarrow> Inl (KeyError ''username'')
      | Some username \<Rightarrow>
          Inr \<lparr>gm_group_id = gid, gm_provider = or_else (mi_provider item) ''pam'',
               gm_identity_id = (case mi_identity_id item of
                  None \<Rightarrow> username | Some i \<Rightarrow> if i = [] then username else i),
               gm_username = username\<rparr>)"

definition set_group_members ::
  "string \<Rightarrow> origin \<Rightarrow> member_input list \<Rightarrow> rbac_db \<Rightarrow> rbac_db res" where
  "set_group_members gid og members db =
     rbind (repo_group db gid) (\<lambda>grp.
       if group_managed (fst grp)
       then Inl (HTTPException 409 ''LDAP-managed group membership cannot be edited locally'')
       else rbind (rfold (\<lambda>item rows. rbind (member_of_input gid item)
                            (\<lambda>m. insert_row member_key ''rbac_group_members'' m rows))
                     members (del_rows (\<lambda>m. gm_group_id m = gid) (db_group_members db)))
              (\<lambda>rows. Inr (add_audit og ''group.members.update'' gid
                         (Doc_members (snd (snd grp))) (Doc_member_inputs members)
                         (db\<lparr>db_group_members := rows\<rparr>))))"

section \<open>Groups of the directory\<close>

definition external_groups :: "rbac_db \<Rightarrow> (external_group \<times> string list) list" where
  "external_groups db =
     map (\<lambda>g. (g, map snd (filter (\<lambda>(k, _). k = eg_id g) (db_external_group_roles db))))
       (sort_key (\<lambda>g. codes (eg_name g)) (db_external_groups db))"

definition external_group_uuid :: "(string \<Rightarrow> string) \<Rightarrow> string \<Rightarrow> string \<Rightarrow> string" where
  "external_group_uuid U provider_id external_id =
     U (''webnas:'' @ provider_id @ '':'' @ external_id)"

text \<open>\<^verbatim>\<open>INSERT .. ON CONFLICT(provider_id,external_id) DO UPDATE\<close>.\<close>

definition upsert_external_group ::
  "(string \<Rightarrow> string) \<Rightarrow> time \<Rightarrow> string \<Rightarrow> string \<Rightarrow> string \<Rightarrow> string \<Rightarrow> string list \<Rightarrow> string
     \<Rightarrow> rbac_db \<Rightarrow> (string \<times> rbac_db) res" where
  "upsert_external_group U now provider_id external_id dn name parents status db =
     (let gid = external_group_uuid U provider_id external_id;
          same = (\<lambda>g. eg_provider_id g = provider_id \<and> eg_external_id g = external_id)
      in if list_ex same (db_external_groups db)
         then Inr (gid, db\<lparr>db_external_groups := upd_rows same
                (\<lambda>g. g\<lparr>eg_distinguished_name := dn, eg_name := name, eg_status := status,
                      eg_parent_ids := parents, eg_last_seen_at := now\<rparr>)
                (db_external_groups db)\<rparr>)
         else rbind (insert_row eg_id ''rbac_external_groups.id''
                       \<lparr>eg_id = gid, eg_provider_id = provider_id, eg_external_id = external_id,
                        eg_distinguished_name = dn, eg_name = name, eg_status = status,
                        eg_parent_ids = parents, eg_last_seen_at = now\<rparr> (db_external_groups db))
                (\<lambda>rows. Inr (gid, db\<lparr>db_external_groups := rows\<rparr>)))"

definition map_external_group_role ::
  "string \<Rightarrow> string \<Rightarrow> origin \<Rightarrow> rbac_db \<Rightarrow> rbac_db res" where
  "map_external_group_role gid rid og db =
     rbind (repo_role db rid) (\<lambda>_.
       if \<not> list_ex (\<lambda>g. eg_id g = gid) (db_external_groups db)
       then Inl (IntegrityError ''rbac_external_group_roles.external_group_id'')
       else Inr (add_audit og ''ldap.mapping.create'' gid Doc_empty (Doc_role_id rid)
              (db\<lparr>db_external_group_roles :=
                   insert_ignore id (gid, rid) (db_external_group_roles db)\<rparr>)))"

definition unmap_external_group_role :: "string \<Rightarrow> string \<Rightarrow> origin \<Rightarrow> rbac_db \<Rightarrow> rbac_db" where
  "unmap_external_group_role gid rid og db =
     add_audit og ''ldap.mapping.delete'' gid (Doc_role_id rid) Doc_empty
       (db\<lparr>db_external_group_roles :=
            del_rows (\<lambda>(g, r). g = gid \<and> r = rid) (db_external_group_roles db)\<rparr>)"

definition membership_key :: "external_membership \<Rightarrow> string \<times> string \<times> string" where
  "membership_key m = (em_external_group_id m, em_provider m, em_identity_id m)"

text \<open>
  \<open>direct = None\<close> is the default argument; an empty set counts as absent
  (\<^verbatim>\<open>direct_group_ids or group_ids\<close>). The sets are lists here.
\<close>

definition replace_external_memberships ::
  "string \<Rightarrow> string \<Rightarrow> string \<Rightarrow> string list \<Rightarrow> string list option \<Rightarrow> time \<Rightarrow> rbac_db \<Rightarrow> rbac_db res" where
  "replace_external_memberships provider identity username group_ids direct now db =
     (let direct_ids = (case direct of None \<Rightarrow> group_ids
                        | Some d \<Rightarrow> if d = [] then group_ids else d)
      in rbind (rfold (\<lambda>gid rows.
                  if \<not> list_ex (\<lambda>g. eg_id g = gid) (db_external_groups db)
                  then Inl (IntegrityError ''rbac_external_memberships.external_group_id'')
                  else insert_row membership_key ''rbac_external_memberships''
                         \<lparr>em_external_group_id = gid, em_provider = provider,
                          em_identity_id = identity, em_username = username,
                          em_direct = (gid \<in> set direct_ids), em_last_seen_at = now\<rparr> rows)
                group_ids
                (del_rows (\<lambda>m. em_provider m = provider \<and> em_identity_id m = identity)
                  (db_external_memberships db)))
           (\<lambda>rows. Inr (db\<lparr>db_external_memberships := rows\<rparr>)))"

section \<open>Direct assignments\<close>

definition identity_key :: "session_user \<Rightarrow> string" where
  "identity_key user = (if su_identity_id user = [] then su_username user else su_identity_id user)"

definition user_role_key :: "user_role \<Rightarrow> string \<times> string \<times> string" where
  "user_role_key u = (ur_provider u, ur_identity_id u, ur_role_id u)"

definition assign_user_role ::
  "session_user \<Rightarrow> string \<Rightarrow> origin \<Rightarrow> rbac_db \<Rightarrow> rbac_db res" where
  "assign_user_role user rid og db =
     rbind (repo_role db rid) (\<lambda>_.
       Inr (add_audit og ''assignment.user-role''
              (provider_name (su_auth_provider user) @ '':'' @ identity_key user)
              Doc_empty (Doc_role_id rid)
              (db\<lparr>db_user_roles := insert_ignore user_role_key
                   \<lparr>ur_provider = provider_name (su_auth_provider user),
                    ur_identity_id = identity_key user, ur_username = su_username user,
                    ur_role_id = rid, ur_created_at = or_now og, ur_created_by = or_actor og\<rparr>
                   (db_user_roles db)\<rparr>)))"

definition is_users :: "session_user \<Rightarrow> string \<Rightarrow> string \<Rightarrow> bool" where
  "is_users user provider identity \<longleftrightarrow>
     provider = provider_name (su_auth_provider user) \<and> identity = identity_key user"

definition revoke_user_role :: "session_user \<Rightarrow> string \<Rightarrow> origin \<Rightarrow> rbac_db \<Rightarrow> rbac_db" where
  "revoke_user_role user rid og db =
     add_audit og ''assignment.user-role.revoke''
       (provider_name (su_auth_provider user) @ '':'' @ identity_key user)
       (Doc_role_id rid) Doc_empty
       (db\<lparr>db_user_roles := del_rows (\<lambda>u. is_users user (ur_provider u) (ur_identity_id u)
                                        \<and> ur_role_id u = rid) (db_user_roles db)\<rparr>)"

section \<open>Policies\<close>

definition subjects_of :: "rbac_db \<Rightarrow> string \<Rightarrow> policy_subject list" where
  "subjects_of db pid = map snd (filter (\<lambda>(k, _). k = pid) (db_policy_subjects db))"

definition repo_policies :: "rbac_db \<Rightarrow> policy_view list" where
  "repo_policies db =
     map (\<lambda>p. (p, subjects_of db (pol_id p)))
       (sort_key (\<lambda>p. nocase (pol_name p)) (db_policies db))"

definition repo_policy :: "rbac_db \<Rightarrow> string \<Rightarrow> policy_view res" where
  "repo_policy db pid =
     (case find (\<lambda>v. pol_id (fst v) = pid) (repo_policies db) of
        None \<Rightarrow> Inl (HTTPException 404 ''Policy not found'')
      | Some v \<Rightarrow> Inr v)"

text \<open>
  \<^verbatim>\<open>INSERT OR REPLACE\<close> first deletes every row it conflicts with, on the primary key or on
  the unique name, and the foreign key takes their subjects along.
\<close>

definition policy_clash :: "string \<Rightarrow> string \<Rightarrow> rbac_policy \<Rightarrow> bool" where
  "policy_clash pid name p \<longleftrightarrow> pol_id p = pid \<or> ascii_lower (pol_name p) = ascii_lower name"

definition policy_row ::
  "string \<Rightarrow> policy_input \<Rightarrow> string \<Rightarrow> time \<Rightarrow> string \<Rightarrow> origin \<Rightarrow> rbac_policy" where
  "policy_row pid payload permission created_at created_by og =
     \<lparr>pol_id = pid, pol_name = py_strip (pin_name payload),
      pol_description = pin_description payload, pol_active = pin_active payload,
      pol_effect = pin_effect payload, pol_permission = permission,
      pol_resource_type = pin_resource_type payload, pol_resource_id = pin_resource_id payload,
      pol_scope = pin_scope payload, pol_conditions = pin_conditions payload,
      pol_created_at = created_at, pol_created_by = created_by,
      pol_updated_at = or_now og, pol_updated_by = or_actor og\<rparr>"

definition insert_or_replace_policy ::
  "string list \<Rightarrow> string \<Rightarrow> policy_input \<Rightarrow> time \<Rightarrow> string \<Rightarrow> origin \<Rightarrow> rbac_db \<Rightarrow> rbac_db res" where
  "insert_or_replace_policy known pid payload created_at created_by og db =
     rbind (normalize_permission_id known (pin_permission payload)) (\<lambda>permission.
       let row = policy_row pid payload permission created_at created_by og;
           gone = map pol_id (filter (policy_clash pid (pol_name row)) (db_policies db));
           policies = del_rows (policy_clash pid (pol_name row)) (db_policies db) @ [row];
           subjects = del_rows (\<lambda>(k, _). k = pid)
                        (del_rows (\<lambda>(k, _). k \<in> set gone) (db_policy_subjects db))
       in rbind (rfold (\<lambda>s rows. insert_row id ''rbac_policy_subjects'' (pid, s) rows)
                   (pin_subjects payload) subjects)
            (\<lambda>rows. Inr (db\<lparr>db_policies := policies, db_policy_subjects := rows\<rparr>)))"

definition create_policy ::
  "string list \<Rightarrow> string \<Rightarrow> origin \<Rightarrow> policy_input \<Rightarrow> rbac_db \<Rightarrow> (policy_view \<times> rbac_db) res" where
  "create_policy known new_id og payload db =
     rbind (insert_or_replace_policy known new_id payload (or_now og) (or_actor og) og db) (\<lambda>db1.
       let db2 = add_audit og ''policy.create'' new_id Doc_empty (Doc_policy_input payload) db1
       in rbind (repo_policy db2 new_id) (\<lambda>v. Inr (v, db2)))"

definition merge_policy :: "policy_view \<Rightarrow> policy_patch \<Rightarrow> policy_input" where
  "merge_policy before payload =
     (let p = fst before in
      \<lparr>pin_name = or_else (ppa_name payload) (pol_name p),
       pin_description = or_else (ppa_description payload) (pol_description p),
       pin_active = or_else (ppa_active payload) (pol_active p),
       pin_effect = or_else (ppa_effect payload) (pol_effect p),
       pin_permission = or_else (ppa_permission payload) (pol_permission p),
       pin_resource_type = or_else (ppa_resource_type payload) (pol_resource_type p),
       pin_resource_id = or_else (ppa_resource_id payload) (pol_resource_id p),
       pin_scope = or_else (ppa_scope payload) (pol_scope p),
       pin_conditions = or_else (ppa_conditions payload) (pol_conditions p),
       pin_subjects = or_else (ppa_subjects payload) (snd before)\<rparr>)"

definition update_policy ::
  "string list \<Rightarrow> string \<Rightarrow> origin \<Rightarrow> policy_patch \<Rightarrow> rbac_db \<Rightarrow> (policy_view \<times> rbac_db) res" where
  "update_policy known pid og payload db =
     rbind (repo_policy db pid) (\<lambda>before.
       let p = fst before;
           created_by = (if pol_created_by p = [] then or_actor og else pol_created_by p)
       in rbind (insert_or_replace_policy known pid (merge_policy before payload)
                   (pol_created_at p) created_by og db) (\<lambda>db1.
            let db2 = add_audit og ''policy.update'' pid (Doc_policy before)
                        (Doc_policy_patch payload) db1
            in rbind (repo_policy db2 pid) (\<lambda>v. Inr (v, db2))))"

definition drop_policy :: "string \<Rightarrow> rbac_db \<Rightarrow> rbac_db" where
  "drop_policy pid db =
     db\<lparr>db_policies := del_rows (\<lambda>p. pol_id p = pid) (db_policies db),
        db_policy_subjects := del_rows (\<lambda>(k, _). k = pid) (db_policy_subjects db)\<rparr>"

definition delete_policy :: "string \<Rightarrow> origin \<Rightarrow> rbac_db \<Rightarrow> rbac_db res" where
  "delete_policy pid og db =
     rbind (repo_policy db pid) (\<lambda>before.
       Inr (add_audit og ''policy.delete'' pid (Doc_policy before) Doc_empty (drop_policy pid db)))"

text \<open>\<^verbatim>\<open>SELECT * FROM rbac_audit ORDER BY timestamp DESC LIMIT ?\<close>.\<close>

definition audit_entries :: "int \<Rightarrow> rbac_db \<Rightarrow> rbac_audit_row list" where
  "audit_entries limit db =
     take (nat (min (max limit 1) 1000)) (sort_key (\<lambda>r. - aud_timestamp r) (db_audit db))"

section \<open>What a user effectively has\<close>

datatype source_type = Src_direct_role | Src_local_group | Src_ldap_group | Src_policy

record decision_source =
  ds_effect :: effect
  ds_permission :: string
  ds_source_type :: source_type
  ds_source_id :: string
  ds_source_name :: string
  ds_resource_type :: string
  ds_resource_id :: string
  ds_scope :: string
  ds_reason :: string

definition source_of_grant ::
  "source_type \<Rightarrow> string \<Rightarrow> string \<Rightarrow> string \<Rightarrow> grant \<Rightarrow> decision_source" where
  "source_of_grant kind sid name reason g =
     \<lparr>ds_effect = gr_effect g, ds_permission = gr_permission g, ds_source_type = kind,
      ds_source_id = sid, ds_source_name = name, ds_resource_type = gr_resource_type g,
      ds_resource_id = gr_resource_id g, ds_scope = gr_scope g, ds_reason = reason\<rparr>"

text \<open>The four queries, as joins.\<close>

definition active_role_grants :: "rbac_db \<Rightarrow> string \<Rightarrow> (rbac_role \<times> grant) list" where
  "active_role_grants db rid =
     [(r, g). r \<leftarrow> db_roles db, role_id r = rid \<and> role_active r,
              (k, g) \<leftarrow> db_role_permissions db, k = role_id r]"

definition direct_sources :: "rbac_db \<Rightarrow> session_user \<Rightarrow> decision_source list" where
  "direct_sources db user =
     [source_of_grant Src_direct_role (role_id r) (role_name r) [] g.
        u \<leftarrow> db_user_roles db, is_users user (ur_provider u) (ur_identity_id u),
        (r, g) \<leftarrow> active_role_grants db (ur_role_id u)]"

definition local_group_sources :: "rbac_db \<Rightarrow> session_user \<Rightarrow> decision_source list" where
  "local_group_sources db user =
     [source_of_grant Src_local_group (group_id gp) (group_name gp @ '' -> '' @ role_name r) [] g.
        m \<leftarrow> db_group_members db, is_users user (gm_provider m) (gm_identity_id m),
        gp \<leftarrow> db_groups db, group_id gp = gm_group_id m \<and> group_active gp,
        (gid, rid) \<leftarrow> db_group_roles db, gid = group_id gp,
        (r, g) \<leftarrow> active_role_grants db rid]"

definition ldap_group_sources :: "rbac_db \<Rightarrow> session_user \<Rightarrow> decision_source list" where
  "ldap_group_sources db user =
     [source_of_grant Src_ldap_group (eg_id eg) (eg_name eg @ '' -> '' @ role_name r)
        (eg_distinguished_name eg) g.
        m \<leftarrow> db_external_memberships db, is_users user (em_provider m) (em_identity_id m),
        eg \<leftarrow> db_external_groups db, eg_id eg = em_external_group_id m \<and> eg_status eg = ''active'',
        (gid, rid) \<leftarrow> db_external_group_roles db, gid = eg_id eg,
        (r, g) \<leftarrow> active_role_grants db rid]"

definition subject_matches :: "rbac_db \<Rightarrow> session_user \<Rightarrow> policy_subject \<Rightarrow> bool" where
  "subject_matches db user subject =
     (case subject of
        (Subj_user, sid) \<Rightarrow> sid = identity_key user \<or> sid = su_username user
      | (Subj_provider, sid) \<Rightarrow> sid = provider_name (su_auth_provider user)
      | (Subj_group, sid) \<Rightarrow>
          list_ex (\<lambda>m. gm_group_id m = sid \<and> is_users user (gm_provider m) (gm_identity_id m))
            (db_group_members db)
      | (Subj_external_group, sid) \<Rightarrow>
          list_ex (\<lambda>m. em_external_group_id m = sid \<and> is_users user (em_provider m) (em_identity_id m))
            (db_external_memberships db))"

definition policy_matches ::
  "rbac_db \<Rightarrow> session_user \<Rightarrow> policy_subject list \<Rightarrow> (string \<times> json) list \<Rightarrow> bool" where
  "policy_matches db user subjects conditions =
     (let excluded = (case map_of conditions ''auth_provider'' of
                        None \<Rightarrow> False
                      | Some v \<Rightarrow> json_truthy v
                          \<and> \<not> json_eq v (JStr (provider_name (su_auth_provider user))))
      in \<not> excluded \<and> (subjects = [] \<or> list_ex (subject_matches db user) subjects))"

definition policy_sources :: "rbac_db \<Rightarrow> session_user \<Rightarrow> decision_source list" where
  "policy_sources db user =
     [\<lparr>ds_effect = pol_effect p, ds_permission = pol_permission p, ds_source_type = Src_policy,
       ds_source_id = pol_id p, ds_source_name = pol_name p, ds_resource_type = pol_resource_type p,
       ds_resource_id = pol_resource_id p, ds_scope = pol_scope p,
       ds_reason = ''conditional policy''\<rparr>.
        p \<leftarrow> db_policies db,
        pol_active p \<and> policy_matches db user (subjects_of db (pol_id p)) (pol_conditions p)]"

definition effective_sources :: "rbac_db \<Rightarrow> session_user \<Rightarrow> decision_source list" where
  "effective_sources db user =
     direct_sources db user @ local_group_sources db user @ ldap_group_sources db user
     @ policy_sources db user"

end
