(* ===== verification/Rbac_Invariants.thy ===== *)
theory Rbac_Invariants
  imports Rbac_Store
begin

text \<open>
  The integrity of the RBAC tables: unique keys and names, no dangling reference, consecutive audit
  numbers, the seeded system roles present, protected and under their names. Every operation of the
  repository keeps it (one lemma each), so every reachable database has it. Then what deleting,
  deactivating and revoking do to the grants of a user.
\<close>

section \<open>Lookups and loops\<close>

lemma keyed_sort_key [simp]: "keyed key (sort_key f rows) \<longleftrightarrow> keyed key rows"
  by (simp add: keyed_def distinct_map)

lemma find_map_fst: "find (\<lambda>v. P (fst v)) (map (\<lambda>r. (r, f r)) rows) = map_option (\<lambda>r. (r, f r)) (find P rows)"
  by (induction rows) auto

lemma find_None_set: "find P rows = None \<longleftrightarrow> (\<forall>r \<in> set rows. \<not> P r)"
  by (induction rows) auto

lemma repo_role_find:
  "repo_role db rid =
     (case find (\<lambda>r. role_id r = rid) (sort_key (\<lambda>r. role_kind r = Type_custom)
             (sort_key (\<lambda>r. nocase (role_name r)) (db_roles db))) of
        None \<Rightarrow> Inl (HTTPException 404 ''Role not found'')
      | Some r \<Rightarrow> Inr (r, grants_of db (role_id r)))"
  by (simp add: repo_role_def repo_roles_def find_map_fst [where P = "\<lambda>r. role_id r = rid"]
      split: option.split)

lemma repo_role_Inr_D:
  "repo_role db rid = Inr v \<Longrightarrow>
     fst v \<in> set (db_roles db) \<and> role_id (fst v) = rid \<and> snd v = grants_of db rid"
  by (auto simp: repo_role_find split: option.splits dest!: find_Some_D)

lemma repo_role_exists:
  "(\<exists>v. repo_role db rid = Inr v) \<longleftrightarrow> rid \<in> role_id ` set (db_roles db)"
  by (auto simp: repo_role_find find_None_set split: option.splits dest!: find_Some_D)

lemma repo_role_Inr_iff:
  assumes "keyed role_id (db_roles db)"
  shows "repo_role db rid = Inr (r, gs)
           \<longleftrightarrow> r \<in> set (db_roles db) \<and> role_id r = rid \<and> gs = grants_of db rid"
proof (cases "find (\<lambda>r. role_id r = rid) (sort_key (\<lambda>r. role_kind r = Type_custom)
             (sort_key (\<lambda>r. nocase (role_name r)) (db_roles db)))")
  case None
  then have "\<forall>r \<in> set (db_roles db). role_id r \<noteq> rid" by (simp add: find_None_set)
  with None show ?thesis by (auto simp: repo_role_find)
next
  case (Some q)
  then have "q \<in> set (db_roles db) \<and> role_id q = rid" by (auto dest!: find_Some_D)
  with Some show ?thesis
    using keyed_eqI [OF assms, of r q] by (auto simp: repo_role_find)
qed

lemma repo_group_Inr_D:
  "repo_group db gid = Inr v \<Longrightarrow>
     fst v \<in> set (db_groups db) \<and> group_id (fst v) = gid"
  by (auto simp: repo_group_def repo_groups_def split: option.splits dest!: find_Some_D)

lemma repo_policy_Inr_D:
  "repo_policy db pid = Inr v \<Longrightarrow>
     fst v \<in> set (db_policies db) \<and> pol_id (fst v) = pid \<and> snd v = subjects_of db pid"
  by (auto simp: repo_policy_def repo_policies_def split: option.splits dest!: find_Some_D)

text \<open>Every loop of the store inserts one row per element, or raises.\<close>

lemma rfold_insert:
  assumes "rfold f xs rows = Inr rows'"
    and "\<And>x rs rs'. x \<in> set xs \<Longrightarrow> f x rs = Inr rs' \<Longrightarrow> \<exists>y. rs' = rs @ [y] \<and> key y \<notin> key ` set rs \<and> R x y"
  shows "\<exists>ys. rows' = rows @ ys \<and> list_all2 R xs ys \<and> (keyed key rows \<longrightarrow> keyed key rows')"
  using assms
proof (induction xs arbitrary: rows)
  case Nil
  then show ?case by simp
next
  case (Cons x xs)
  from Cons.prems(1) obtain rs where rs: "f x rows = Inr rs" "rfold f xs rs = Inr rows'"
    by (auto simp: res_iff)
  from Cons.prems(2) [OF _ rs(1)] obtain y
    where y: "rs = rows @ [y]" "key y \<notin> key ` set rows" "R x y" by auto
  from Cons.IH [OF rs(2)] Cons.prems(2) obtain ys
    where ys: "rows' = rs @ ys" "list_all2 R xs ys" "keyed key rs \<longrightarrow> keyed key rows'"
    by auto
  have "rows' = rows @ (y # ys)" using ys(1) y(1) by simp
  moreover have "list_all2 R (x # xs) (y # ys)" using ys(2) y(3) by simp
  moreover have "keyed key rows \<longrightarrow> keyed key rows'"
    using ys(3) y by (simp add: keyed_snoc)
  ultimately show ?case by blast
qed

lemma replace_role_permissions_Inr:
  assumes "replace_role_permissions known rid gs db = Inr db'"
  shows "\<exists>hs. db' = db\<lparr>db_role_permissions :=
                 del_rows (\<lambda>(k, _). k = rid) (db_role_permissions db) @ map (Pair rid) hs\<rparr>
           \<and> list_all2 (\<lambda>g h. normalize_permission_id known (gr_permission g) = Inr (gr_permission h)
                          \<and> h = g\<lparr>gr_permission := gr_permission h\<rparr>) gs hs
           \<and> (keyed id (db_role_permissions db) \<longrightarrow> keyed id (db_role_permissions db'))"
proof -
  from assms obtain rows where
    rows: "rfold (\<lambda>g rows. rbind (normalize_permission_id known (gr_permission g))
                     (\<lambda>p. insert_row id ''rbac_role_permissions''
                            (rid, g\<lparr>gr_permission := p\<rparr>) rows))
              gs (del_rows (\<lambda>(k, _). k = rid) (db_role_permissions db)) = Inr rows"
    and db': "db' = db\<lparr>db_role_permissions := rows\<rparr>"
    by (auto simp: replace_role_permissions_def res_iff)
  define R where "R g y \<longleftrightarrow> fst y = rid
      \<and> normalize_permission_id known (gr_permission g) = Inr (gr_permission (snd y))
      \<and> snd y = g\<lparr>gr_permission := gr_permission (snd y)\<rparr>" for g :: grant and y
  have "\<exists>y. rs' = rs @ [y] \<and> id y \<notin> id ` set rs \<and> R g y"
    if "g \<in> set gs" and "rbind (normalize_permission_id known (gr_permission g))
          (\<lambda>p. insert_row id ''rbac_role_permissions'' (rid, g\<lparr>gr_permission := p\<rparr>) rs) = Inr rs'"
    for g rs rs'
    using that(2) by (auto simp: res_iff R_def)
  from rfold_insert [where key = id and R = R, OF rows this] obtain ys where
    ys: "rows = del_rows (\<lambda>(k, _). k = rid) (db_role_permissions db) @ ys" "list_all2 R gs ys"
      "keyed id (del_rows (\<lambda>(k, _). k = rid) (db_role_permissions db)) \<longrightarrow> keyed id rows"
    by auto
  have "ys = map (Pair rid) (map snd ys)"
    using ys(2) by (induction rule: list_all2_induct) (auto simp: R_def prod_eq_iff)
  moreover have "list_all2 (\<lambda>g h. normalize_permission_id known (gr_permission g) = Inr (gr_permission h)
                          \<and> h = g\<lparr>gr_permission := gr_permission h\<rparr>) gs (map snd ys)"
    using ys(2) by (induction rule: list_all2_induct) (auto simp: R_def)
  ultimately show ?thesis
    using ys(1,3) db' by (intro exI [of _ "map snd ys"]) (auto intro: keyed_del_rows)
qed

section \<open>Integrity\<close>

definition roles_wf :: "rbac_db \<Rightarrow> bool" where
  "roles_wf db \<longleftrightarrow>
     keyed role_id (db_roles db) \<and> keyed (\<lambda>r. ascii_lower (role_name r)) (db_roles db) \<and>
     keyed id (db_role_permissions db) \<and>
     fst ` set (db_role_permissions db) \<subseteq> role_id ` set (db_roles db)"

definition groups_wf :: "rbac_db \<Rightarrow> bool" where
  "groups_wf db \<longleftrightarrow>
     keyed group_id (db_groups db) \<and> keyed (\<lambda>g. ascii_lower (group_name g)) (db_groups db) \<and>
     keyed member_key (db_group_members db) \<and> keyed id (db_group_roles db) \<and>
     gm_group_id ` set (db_group_members db) \<subseteq> group_id ` set (db_groups db) \<and>
     fst ` set (db_group_roles db) \<subseteq> group_id ` set (db_groups db) \<and>
     snd ` set (db_group_roles db) \<subseteq> role_id ` set (db_roles db)"

definition assignments_wf :: "rbac_db \<Rightarrow> bool" where
  "assignments_wf db \<longleftrightarrow>
     keyed user_role_key (db_user_roles db) \<and>
     ur_role_id ` set (db_user_roles db) \<subseteq> role_id ` set (db_roles db)"

definition external_wf :: "rbac_db \<Rightarrow> bool" where
  "external_wf db \<longleftrightarrow>
     keyed eg_id (db_external_groups db) \<and>
     keyed (\<lambda>g. (eg_provider_id g, eg_external_id g)) (db_external_groups db) \<and>
     keyed membership_key (db_external_memberships db) \<and> keyed id (db_external_group_roles db) \<and>
     em_external_group_id ` set (db_external_memberships db) \<subseteq> eg_id ` set (db_external_groups db) \<and>
     fst ` set (db_external_group_roles db) \<subseteq> eg_id ` set (db_external_groups db) \<and>
     snd ` set (db_external_group_roles db) \<subseteq> role_id ` set (db_roles db)"

definition policies_wf :: "rbac_db \<Rightarrow> bool" where
  "policies_wf db \<longleftrightarrow>
     keyed pol_id (db_policies db) \<and> keyed (\<lambda>p. ascii_lower (pol_name p)) (db_policies db) \<and>
     keyed id (db_policy_subjects db) \<and>
     fst ` set (db_policy_subjects db) \<subseteq> pol_id ` set (db_policies db)"

definition audit_wf :: "rbac_db \<Rightarrow> bool" where
  "audit_wf db \<longleftrightarrow> map aud_id (db_audit db) = [1..<length (db_audit db) + 1]"

definition rbac_wf :: "rbac_db \<Rightarrow> bool" where
  "rbac_wf db \<longleftrightarrow>
     roles_wf db \<and> groups_wf db \<and> assignments_wf db \<and> external_wf db \<and> policies_wf db \<and> audit_wf db"

lemmas rbac_wf_defs =
  rbac_wf_def roles_wf_def groups_wf_def assignments_wf_def external_wf_def policies_wf_def audit_wf_def

lemma rbac_wf_add_audit [inv_intros]: "rbac_wf db \<Longrightarrow> rbac_wf (add_audit og a t b c db)"
  by (simp add: rbac_wf_defs add_audit_def)

lemma rbac_wf_empty: "rbac_wf empty_rbac_db"
  by (simp add: rbac_wf_defs empty_rbac_db_def)

lemma rbac_wf_replace_role_permissions [inv_intros]:
  assumes "replace_role_permissions known rid gs db = Inr db'"
    and "rbac_wf db" and "rid \<in> role_id ` set (db_roles db)"
  shows "rbac_wf db'"
proof -
  from replace_role_permissions_Inr [OF assms(1)] obtain hs where
    hs: "db' = db\<lparr>db_role_permissions :=
                 del_rows (\<lambda>(k, _). k = rid) (db_role_permissions db) @ map (Pair rid) hs\<rparr>"
    and k: "keyed id (db_role_permissions db) \<longrightarrow> keyed id (db_role_permissions db')" by auto
  have "roles_wf db'"
    using assms(2,3) k hs by (auto simp: rbac_wf_def roles_wf_def)
  then show ?thesis
    using assms(2) hs by (simp add: rbac_wf_defs)
qed

lemma rbac_wf_append_role [inv_intros]:
  assumes "rbac_wf db" and "\<not> role_clash (role_id r) (role_name r) (db_roles db)"
  shows "rbac_wf (db\<lparr>db_roles := db_roles db @ [r]\<rparr>)"
  using assms by (auto simp: rbac_wf_defs keyed_snoc role_clash_def list_ex_iff)

lemma rbac_wf_create_role [inv_intros]:
  assumes "create_role known new_id og payload db = Inr (v, db')" and "rbac_wf db"
  shows "rbac_wf db'"
  using assms
  by (auto simp: create_role_def res_iff Let_def
      intro!: rbac_wf_add_audit elim!: rbac_wf_replace_role_permissions intro: rbac_wf_append_role)

text \<open>An update of the rows of a table that keeps keys and references.\<close>

lemma image_upd_rows_frame: "(\<And>r. g (f r) = g r) \<Longrightarrow> g ` set (upd_rows p f rows) = g ` set rows"
  by (metis list.set_map map_upd_rows_frame)

lemma keyed_upd_one:
  assumes "keyed k rows" and "\<And>x. x \<in> set rows \<Longrightarrow> \<not> p x \<Longrightarrow> key x \<noteq> n" and "keyed key rows"
    and "\<And>x y. x \<in> set rows \<Longrightarrow> y \<in> set rows \<Longrightarrow> p x \<Longrightarrow> p y \<Longrightarrow> k x = k y"
    and "\<And>x. key (f x) = n"
  shows "keyed key (upd_rows p f rows)"
  using assms
proof (induction rows)
  case Nil
  then show ?case by simp
next
  case (Cons a rows)
  have ih: "keyed key (upd_rows p f rows)"
    using Cons.prems by (intro Cons.IH) (auto simp: keyed_def)
  show ?case
  proof (cases "p a")
    case True
    have none: "\<not> p x" if "x \<in> set rows" for x
    proof
      assume "p x"
      with True that have "k a = k x" by (intro Cons.prems(4)) auto
      with that Cons.prems(1) show False by (auto simp: keyed_def)
    qed
    then have "upd_rows p f rows = rows" by (induction rows) auto
    moreover have "n \<notin> key ` set rows" using Cons.prems(2) none by fastforce
    ultimately show ?thesis
      using True Cons.prems(3,5) by (auto simp: keyed_def)
  next
    case False
    then have "key a \<noteq> n" by (intro Cons.prems(2)) auto
    moreover have "key a \<notin> key ` set rows" using Cons.prems(3) by (auto simp: keyed_def)
    ultimately have "key a \<notin> key ` set (upd_rows p f rows)"
      using Cons.prems(5) by (auto simp: set_upd_rows)
    with False ih show ?thesis by (simp add: keyed_def)
  qed
qed

lemma update_role_Inr_D:
  assumes "update_role known rid og payload db = Inr (v, db')"
  shows "\<exists>before db2. repo_role db rid = Inr before \<and>
     \<not> (role_protected (fst before) \<and> rpa_name payload \<notin> {None, Some (role_name (fst before))}) \<and>
     (\<forall>x \<in> set (db_roles db). role_id x \<noteq> rid \<longrightarrow>
        ascii_lower (role_name x) \<noteq> ascii_lower (or_else (rpa_name payload) (role_name (fst before)))) \<and>
     (case rpa_permissions payload of
        None \<Rightarrow> Inr (update_role_row rid og (fst before) payload db)
      | Some ps \<Rightarrow> replace_role_permissions known rid ps
                    (update_role_row rid og (fst before) payload db)) = Inr db2 \<and>
     db' = add_audit og ''role.update'' rid (Doc_role before) (Doc_role_patch payload) db2"
  using assms unfolding update_role_def rbind_Inr_iff if_Inl_Inr_iff Let_def list_ex_iff by blast

lemma rbac_wf_update_role [inv_intros]:
  assumes "update_role known rid og payload db = Inr (v, db')" and "rbac_wf db"
  shows "rbac_wf db'"
proof -
  from update_role_Inr_D [OF assms(1)] obtain before db2 where
    before: "repo_role db rid = Inr before"
    and uniq: "\<forall>x \<in> set (db_roles db). role_id x \<noteq> rid \<longrightarrow>
        ascii_lower (role_name x) \<noteq> ascii_lower (or_else (rpa_name payload) (role_name (fst before)))"
    and db2: "(case rpa_permissions payload of
        None \<Rightarrow> Inr (update_role_row rid og (fst before) payload db)
      | Some ps \<Rightarrow> replace_role_permissions known rid ps
                    (update_role_row rid og (fst before) payload db)) = Inr db2"
    and db': "db' = add_audit og ''role.update'' rid (Doc_role before) (Doc_role_patch payload) db2"
    by blast
  let ?db1 = "update_role_row rid og (fst before) payload db"
  have rid: "rid \<in> role_id ` set (db_roles db)"
    using repo_role_Inr_D [OF before] by force
  have "keyed (\<lambda>r. ascii_lower (role_name r)) (db_roles ?db1)"
    unfolding update_role_row_def using uniq assms(2)
    by (simp, intro keyed_upd_one [where k = role_id]) (auto simp: rbac_wf_defs)
  then have "rbac_wf ?db1"
    using assms(2) by (simp add: rbac_wf_defs update_role_row_def image_upd_rows_frame keyed_upd_rows)
  then have "rbac_wf db2"
    using db2 rid
    by (auto simp: update_role_row_def image_upd_rows_frame
        split: option.splits intro: rbac_wf_replace_role_permissions)
  then show ?thesis using db' by (auto intro: rbac_wf_add_audit)
qed

lemma rbac_wf_delete_role [inv_intros]:
  assumes "delete_role rid og db = Inr db'" and "rbac_wf db"
  shows "rbac_wf db'"
proof -
  have "rbac_wf (drop_role rid db)"
    using assms(2) by (auto simp: rbac_wf_defs drop_role_def keyed_del_rows)
  then show ?thesis
    using assms(1) by (auto simp: delete_role_def res_iff Let_def intro: rbac_wf_add_audit)
qed

lemma replace_group_roles_Inr:
  assumes "replace_group_roles gid rids db = Inr db'"
  shows "db' = db\<lparr>db_group_roles :=
             del_rows (\<lambda>(k, _). k = gid) (db_group_roles db) @ map (Pair gid) rids\<rparr>
         \<and> set rids \<subseteq> role_id ` set (db_roles db)
         \<and> (keyed id (db_group_roles db) \<longrightarrow> keyed id (db_group_roles db'))"
proof -
  from assms obtain rows where
    rows: "rfold (\<lambda>rid rows. rbind (repo_role db rid)
                     (\<lambda>_. insert_row id ''rbac_group_roles'' (gid, rid) rows))
              rids (del_rows (\<lambda>(k, _). k = gid) (db_group_roles db)) = Inr rows"
    and db': "db' = db\<lparr>db_group_roles := rows\<rparr>"
    by (auto simp: replace_group_roles_def res_iff)
  define R where "R rid y \<longleftrightarrow> y = (gid, rid) \<and> rid \<in> role_id ` set (db_roles db)" for rid y
  have "\<exists>y. rs' = rs @ [y] \<and> id y \<notin> id ` set rs \<and> R rid y"
    if "rid \<in> set rids" and "rbind (repo_role db rid)
          (\<lambda>_. insert_row id ''rbac_group_roles'' (gid, rid) rs) = Inr rs'" for rid rs rs'
    using that(2) repo_role_exists [of db rid] by (force simp: res_iff R_def)
  from rfold_insert [where key = id and R = R, OF rows this] obtain ys where
    ys: "rows = del_rows (\<lambda>(k, _). k = gid) (db_group_roles db) @ ys" "list_all2 R rids ys"
      "keyed id (del_rows (\<lambda>(k, _). k = gid) (db_group_roles db)) \<longrightarrow> keyed id rows"
    by auto
  have "ys = map (Pair gid) rids \<and> set rids \<subseteq> role_id ` set (db_roles db)"
    using ys(2) by (induction rule: list_all2_induct) (auto simp: R_def)
  then show ?thesis
    using ys(1,3) db' by (auto intro: keyed_del_rows)
qed

lemma rbac_wf_replace_group_roles [inv_intros]:
  assumes "replace_group_roles gid rids db = Inr db'"
    and "rbac_wf db" and "gid \<in> group_id ` set (db_groups db)"
  shows "rbac_wf db'"
proof -
  have "groups_wf db'"
    using replace_group_roles_Inr [OF assms(1)] assms(2,3)
    by (auto simp: rbac_wf_def groups_wf_def)
  then show ?thesis
    using replace_group_roles_Inr [OF assms(1)] assms(2) by (auto simp: rbac_wf_defs)
qed

lemma rbac_wf_create_group [inv_intros]:
  assumes "create_group new_id og payload db = Inr (v, db')" and "rbac_wf db"
  shows "rbac_wf db'"
proof -
  from assms(1) obtain row db1 where
    new: "\<not> list_ex (\<lambda>g. group_id g = new_id
            \<or> ascii_lower (group_name g) = ascii_lower (group_name row)) (db_groups db)"
    and row: "group_id row = new_id"
    and db1: "replace_group_roles new_id (gi_role_ids payload)
                (db\<lparr>db_groups := db_groups db @ [row]\<rparr>) = Inr db1"
    and db': "db' = add_audit og ''group.create'' new_id Doc_empty (Doc_group_input payload) db1"
    unfolding create_group_def rbind_Inr_iff if_Inl_Inr_iff Let_def by force
  have "rbac_wf (db\<lparr>db_groups := db_groups db @ [row]\<rparr>)"
    using assms(2) new row by (auto simp: rbac_wf_defs keyed_snoc list_ex_iff)
  then have "rbac_wf db1"
    using db1 row by (auto elim!: rbac_wf_replace_group_roles)
  then show ?thesis unfolding db' by (rule rbac_wf_add_audit)
qed

lemma rbac_wf_rename_group [inv_intros]:
  assumes "rename_group gid name db = Inr db'" and "rbac_wf db"
  shows "rbac_wf db'"
proof -
  from assms(1) have uniq: "\<forall>x \<in> set (db_groups db). group_id x \<noteq> gid \<longrightarrow>
      ascii_lower (group_name x) \<noteq> ascii_lower name"
    and db': "db' = db\<lparr>db_groups := upd_rows (\<lambda>x. group_id x = gid) (\<lambda>x. x\<lparr>group_name := name\<rparr>)
                  (db_groups db)\<rparr>"
    unfolding rename_group_def if_Inl_Inr_iff list_ex_iff by blast+
  have "keyed (\<lambda>r. ascii_lower (group_name r)) (db_groups db')"
    unfolding db' using uniq assms(2)
    by (simp, intro keyed_upd_one [where k = group_id]) (auto simp: rbac_wf_defs)
  then show ?thesis
    using assms(2) by (simp add: rbac_wf_defs db' image_upd_rows_frame keyed_upd_rows)
qed

lemma update_group_Inr_D:
  assumes "update_group gid og payload db = Inr (v, db')"
  shows "\<exists>before db2 db3. repo_group db gid = Inr before \<and>
     \<not> (group_managed (fst before) \<and> gpa_name payload \<noteq> None) \<and>
     (case gpa_name payload of
        None \<Rightarrow> Inr (update_group_row gid og (fst before) payload db)
      | Some name \<Rightarrow> rename_group gid name (update_group_row gid og (fst before) payload db)) = Inr db2 \<and>
     (case gpa_role_ids payload of
        None \<Rightarrow> Inr db2 | Some ids \<Rightarrow> replace_group_roles gid ids db2) = Inr db3 \<and>
     db' = add_audit og ''group.update'' gid (Doc_group before) (Doc_group_patch payload) db3"
  using assms unfolding update_group_def rbind_Inr_iff if_Inl_Inr_iff Let_def by blast

lemma rbac_wf_update_group [inv_intros]:
  assumes "update_group gid og payload db = Inr (v, db')" and "rbac_wf db"
  shows "rbac_wf db'"
proof -
  from update_group_Inr_D [OF assms(1)] obtain before db2 db3 where
    before: "repo_group db gid = Inr before"
    and db2: "(case gpa_name payload of
        None \<Rightarrow> Inr (update_group_row gid og (fst before) payload db)
      | Some name \<Rightarrow> rename_group gid name (update_group_row gid og (fst before) payload db)) = Inr db2"
    and db3: "(case gpa_role_ids payload of
        None \<Rightarrow> Inr db2 | Some ids \<Rightarrow> replace_group_roles gid ids db2) = Inr db3"
    and db': "db' = add_audit og ''group.update'' gid (Doc_group before) (Doc_group_patch payload) db3"
    by blast
  let ?db1 = "update_group_row gid og (fst before) payload db"
  have gid: "gid \<in> group_id ` set (db_groups db)"
    using repo_group_Inr_D [OF before] by force
  have "rbac_wf ?db1"
    using assms(2)
    by (simp add: rbac_wf_defs update_group_row_def image_upd_rows_frame keyed_upd_rows)
  then have "rbac_wf db2"
    using db2 by (auto split: option.splits intro: rbac_wf_rename_group)
  moreover have "gid \<in> group_id ` set (db_groups db2)"
    using db2 gid
    by (auto simp: rename_group_def update_group_row_def image_upd_rows_frame
        split: option.splits if_splits)
  ultimately have "rbac_wf db3"
    using db3 by (auto split: option.splits intro: rbac_wf_replace_group_roles)
  then show ?thesis unfolding db' by (rule rbac_wf_add_audit)
qed

lemma rbac_wf_delete_group [inv_intros]:
  assumes "delete_group gid og db = Inr db'" and "rbac_wf db"
  shows "rbac_wf db'"
proof -
  have "rbac_wf (drop_group gid db)"
    using assms(2) by (auto simp: rbac_wf_defs drop_group_def keyed_del_rows)
  then show ?thesis
    using assms(1) by (auto simp: delete_group_def res_iff Let_def intro: rbac_wf_add_audit)
qed

lemma rbac_wf_set_group_members [inv_intros]:
  assumes "set_group_members gid og members db = Inr db'" and "rbac_wf db"
  shows "rbac_wf db'"
proof -
  from assms(1) obtain grp rows where
    grp: "repo_group db gid = Inr grp"
    and rows: "rfold (\<lambda>item rows. rbind (member_of_input gid item)
                            (\<lambda>m. insert_row member_key ''rbac_group_members'' m rows))
                 members (del_rows (\<lambda>m. gm_group_id m = gid) (db_group_members db)) = Inr rows"
    and db': "\<exists>b a. db' = add_audit og ''group.members.update'' gid b a (db\<lparr>db_group_members := rows\<rparr>)"
    unfolding set_group_members_def rbind_Inr_iff if_Inl_Inr_iff by blast
  define R where "R item y \<longleftrightarrow> gm_group_id y = gid" for item :: member_input and y :: group_member
  have "\<exists>y. rs' = rs @ [y] \<and> member_key y \<notin> member_key ` set rs \<and> R item y"
    if "item \<in> set members" and "rbind (member_of_input gid item)
          (\<lambda>m. insert_row member_key ''rbac_group_members'' m rs) = Inr rs'" for item rs rs'
    using that(2) by (auto simp: res_iff R_def member_of_input_def)
  from rfold_insert [where key = member_key and R = R, OF rows this] obtain ys where
    ys: "rows = del_rows (\<lambda>m. gm_group_id m = gid) (db_group_members db) @ ys"
      "list_all2 R members ys"
      "keyed member_key (del_rows (\<lambda>m. gm_group_id m = gid) (db_group_members db)) \<longrightarrow>
         keyed member_key rows"
    by auto
  have "\<forall>y \<in> set ys. gm_group_id y = gid"
    using ys(2) by (induction rule: list_all2_induct) (auto simp: R_def)
  moreover have "gid \<in> group_id ` set (db_groups db)"
    using repo_group_Inr_D [OF grp] by force
  ultimately have "rbac_wf (db\<lparr>db_group_members := rows\<rparr>)"
    using assms(2) ys(1,3) by (auto simp: rbac_wf_defs keyed_del_rows)
  then show ?thesis using db' by (auto intro: rbac_wf_add_audit)
qed

lemma rbac_wf_upsert_external_group [inv_intros]:
  assumes "upsert_external_group U now prov ext dn name parents status db = Inr (gid, db')"
    and "rbac_wf db"
  shows "rbac_wf db'"
proof (cases "list_ex (\<lambda>g. eg_provider_id g = prov \<and> eg_external_id g = ext) (db_external_groups db)")
  case True
  then obtain rows where "db' = db\<lparr>db_external_groups := rows\<rparr>"
    and "rows = upd_rows (\<lambda>g. eg_provider_id g = prov \<and> eg_external_id g = ext)
      (\<lambda>g. g\<lparr>eg_distinguished_name := dn, eg_name := name, eg_status := status,
              eg_parent_ids := parents, eg_last_seen_at := now\<rparr>) (db_external_groups db)"
    using assms(1) by (auto simp: upsert_external_group_def Let_def)
  then show ?thesis
    using assms(2) by (simp add: rbac_wf_defs image_upd_rows_frame keyed_upd_rows)
next
  case False
  with assms(1) obtain g where "db' = db\<lparr>db_external_groups := db_external_groups db @ [g]\<rparr>"
    and "eg_id g \<notin> eg_id ` set (db_external_groups db)"
    and "eg_provider_id g = prov" and "eg_external_id g = ext"
    unfolding upsert_external_group_def Let_def by (auto simp: res_iff)
  moreover have "\<forall>g \<in> set (db_external_groups db). (eg_provider_id g, eg_external_id g) \<noteq> (prov, ext)"
    using False by (simp add: list_ex_iff)
  then have "(prov, ext) \<notin> (\<lambda>g. (eg_provider_id g, eg_external_id g)) ` set (db_external_groups db)"
    by (simp add: image_iff eq_commute)
  ultimately show ?thesis
    using assms(2) by (auto simp: rbac_wf_defs keyed_snoc)
qed

lemma rbac_wf_map_external_group_role [inv_intros]:
  assumes "map_external_group_role gid rid og db = Inr db'" and "rbac_wf db"
  shows "rbac_wf db'"
proof -
  from assms(1) obtain v where v: "repo_role db rid = Inr v"
    and gid: "list_ex (\<lambda>g. eg_id g = gid) (db_external_groups db)"
    and db': "db' = add_audit og ''ldap.mapping.create'' gid Doc_empty (Doc_role_id rid)
              (db\<lparr>db_external_group_roles := insert_ignore id (gid, rid) (db_external_group_roles db)\<rparr>)"
    unfolding map_external_group_role_def rbind_Inr_iff if_Inl_Inr_iff by blast
  have rid: "rid \<in> role_id ` set (db_roles db)" using repo_role_exists v by blast
  have "rbac_wf (db\<lparr>db_external_group_roles := insert_ignore id (gid, rid) (db_external_group_roles db)\<rparr>)"
    using assms(2) gid rid
    by (auto simp: rbac_wf_defs keyed_insert_ignore set_insert_ignore list_ex_iff)
  then show ?thesis unfolding db' by (rule rbac_wf_add_audit)
qed

lemma rbac_wf_unmap_external_group_role [inv_intros]:
  "rbac_wf db \<Longrightarrow> rbac_wf (unmap_external_group_role gid rid og db)"
  unfolding unmap_external_group_role_def
  by (rule rbac_wf_add_audit) (auto simp: rbac_wf_defs keyed_del_rows)

lemma replace_external_memberships_Inr:
  assumes "replace_external_memberships prov idn name gids direct now db = Inr db'"
  shows "\<exists>ys. db' = db\<lparr>db_external_memberships :=
       del_rows (\<lambda>m. em_provider m = prov \<and> em_identity_id m = idn) (db_external_memberships db) @ ys\<rparr>
     \<and> list_all2 (\<lambda>gid m. em_external_group_id m = gid \<and> em_provider m = prov
                     \<and> em_identity_id m = idn \<and> gid \<in> eg_id ` set (db_external_groups db)) gids ys
     \<and> (keyed membership_key (db_external_memberships db) \<longrightarrow>
          keyed membership_key (db_external_memberships db'))"
proof -
  define ds where "ds = (case direct of None \<Rightarrow> gids | Some d \<Rightarrow> if d = [] then gids else d)"
  let ?f = "\<lambda>gid rows.
      if \<not> list_ex (\<lambda>g. eg_id g = gid) (db_external_groups db)
      then Inl (IntegrityError ''rbac_external_memberships.external_group_id'')
      else insert_row membership_key ''rbac_external_memberships''
             \<lparr>em_external_group_id = gid, em_provider = prov, em_identity_id = idn,
              em_username = name, em_direct = (gid \<in> set ds), em_last_seen_at = now\<rparr> rows"
  let ?old = "del_rows (\<lambda>m. em_provider m = prov \<and> em_identity_id m = idn) (db_external_memberships db)"
  from assms obtain rows where rows: "rfold ?f gids ?old = Inr rows"
    and db': "db' = db\<lparr>db_external_memberships := rows\<rparr>"
    unfolding replace_external_memberships_def rbind_Inr_iff Let_def ds_def by blast
  define R where "R gid m \<longleftrightarrow> em_external_group_id m = gid \<and> em_provider m = prov
      \<and> em_identity_id m = idn \<and> gid \<in> eg_id ` set (db_external_groups db)"
    for gid and m :: external_membership
  have "\<exists>y. rs' = rs @ [y] \<and> membership_key y \<notin> membership_key ` set rs \<and> R gid y"
    if "gid \<in> set gids" and "?f gid rs = Inr rs'" for gid rs rs'
    using that(2) by (auto simp: res_iff R_def list_ex_iff)
  from rfold_insert [where key = membership_key and R = R, OF rows this] obtain ys where
    "rows = ?old @ ys" "list_all2 R gids ys"
      "keyed membership_key ?old \<longrightarrow> keyed membership_key rows"
    by auto
  then show ?thesis
    using db' by (intro exI [of _ ys]) (auto simp: R_def [abs_def] keyed_del_rows)
qed

lemma rbac_wf_replace_external_memberships [inv_intros]:
  assumes "replace_external_memberships prov idn name gids direct now db = Inr db'"
    and "rbac_wf db"
  shows "rbac_wf db'"
proof -
  from replace_external_memberships_Inr [OF assms(1)] obtain ys where
    db': "db' = db\<lparr>db_external_memberships :=
       del_rows (\<lambda>m. em_provider m = prov \<and> em_identity_id m = idn) (db_external_memberships db) @ ys\<rparr>"
    and ys: "list_all2 (\<lambda>gid m. em_external_group_id m = gid \<and> em_provider m = prov
                     \<and> em_identity_id m = idn \<and> gid \<in> eg_id ` set (db_external_groups db)) gids ys"
    and k: "keyed membership_key (db_external_memberships db) \<longrightarrow>
          keyed membership_key (db_external_memberships db')" by blast
  have "em_external_group_id ` set ys \<subseteq> eg_id ` set (db_external_groups db)"
    using ys by (induction rule: list_all2_induct) auto
  moreover have "external_wf db" using assms(2) by (simp add: rbac_wf_def)
  ultimately have "external_wf db'"
    using k unfolding db' external_wf_def by auto
  then show ?thesis using assms(2) by (simp add: rbac_wf_defs db')
qed

lemma rbac_wf_assign_user_role [inv_intros]:
  assumes "assign_user_role user rid og db = Inr db'" and "rbac_wf db"
  shows "rbac_wf db'"
proof -
  from assms(1) obtain v row t where v: "repo_role db rid = Inr v"
    and row: "ur_role_id row = rid"
    and db': "db' = add_audit og ''assignment.user-role'' t Doc_empty (Doc_role_id rid)
              (db\<lparr>db_user_roles := insert_ignore user_role_key row (db_user_roles db)\<rparr>)"
    by (force simp: assign_user_role_def res_iff)
  have "rid \<in> role_id ` set (db_roles db)" using repo_role_exists v by blast
  then have "rbac_wf (db\<lparr>db_user_roles := insert_ignore user_role_key row (db_user_roles db)\<rparr>)"
    using assms(2) row by (auto simp: rbac_wf_defs keyed_insert_ignore set_insert_ignore)
  then show ?thesis unfolding db' by (rule rbac_wf_add_audit)
qed

lemma rbac_wf_revoke_user_role [inv_intros]:
  "rbac_wf db \<Longrightarrow> rbac_wf (revoke_user_role user rid og db)"
  unfolding revoke_user_role_def
  by (rule rbac_wf_add_audit) (auto simp: rbac_wf_defs keyed_del_rows)

text \<open>What \<^verbatim>\<open>INSERT OR REPLACE\<close> leaves: the rows it does not clash with, and the new one.\<close>

definition replaced_policies ::
  "rbac_policy \<Rightarrow> policy_subject list \<Rightarrow> rbac_db \<Rightarrow> rbac_db" where
  "replaced_policies row subjects db =
     db\<lparr>db_policies := del_rows (policy_clash (pol_id row) (pol_name row)) (db_policies db) @ [row],
        db_policy_subjects :=
          del_rows (\<lambda>(k, _). k = pol_id row \<or> (\<exists>p \<in> set (db_policies db).
                      policy_clash (pol_id row) (pol_name row) p \<and> k = pol_id p))
            (db_policy_subjects db) @ map (Pair (pol_id row)) subjects\<rparr>"

lemma pol_row_fields [simp]:
  "pol_id (policy_row pid payload perm c cb og) = pid"
  "pol_name (policy_row pid payload perm c cb og) = py_strip (pin_name payload)"
  "pol_effect (policy_row pid payload perm c cb og) = pin_effect payload"
  "pol_active (policy_row pid payload perm c cb og) = pin_active payload"
  "pol_permission (policy_row pid payload perm c cb og) = perm"
  by (simp_all add: policy_row_def)

lemma insert_or_replace_policy_Inr:
  assumes "insert_or_replace_policy known pid payload created created_by og db = Inr db'"
  shows "\<exists>perm. normalize_permission_id known (pin_permission payload) = Inr perm
     \<and> db' = replaced_policies (policy_row pid payload perm created created_by og)
               (pin_subjects payload) db
     \<and> (keyed id (db_policy_subjects db) \<longrightarrow> keyed id (db_policy_subjects db'))"
proof -
  let ?name = "py_strip (pin_name payload)"
  let ?gone = "map pol_id (filter (policy_clash pid ?name) (db_policies db))"
  let ?old = "del_rows (\<lambda>(k, _). k = pid) (del_rows (\<lambda>(k, _). k \<in> set ?gone) (db_policy_subjects db))"
  let ?f = "\<lambda>s rows. insert_row id ''rbac_policy_subjects'' (pid, s) rows"
  from assms obtain perm rows where
    perm: "normalize_permission_id known (pin_permission payload) = Inr perm"
    and rows: "rfold ?f (pin_subjects payload) ?old = Inr rows"
    and db': "db' = db\<lparr>db_policies := del_rows (policy_clash pid ?name) (db_policies db)
                           @ [policy_row pid payload perm created created_by og],
                       db_policy_subjects := rows\<rparr>"
    unfolding insert_or_replace_policy_def rbind_Inr_iff Let_def pol_row_fields by blast
  define R where "R s y \<longleftrightarrow> y = (pid, s)" for s :: policy_subject and y
  have "\<exists>y. rs' = rs @ [y] \<and> id y \<notin> id ` set rs \<and> R s y"
    if "s \<in> set (pin_subjects payload)" and "?f s rs = Inr rs'" for s rs rs'
    using that(2) by (auto simp: res_iff R_def)
  from rfold_insert [where key = id and R = R, OF rows this] obtain ys where
    ys: "rows = ?old @ ys" "list_all2 R (pin_subjects payload) ys"
      "keyed id ?old \<longrightarrow> keyed id rows"
    by auto
  have "ys = map (Pair pid) (pin_subjects payload)"
    using ys(2) by (induction rule: list_all2_induct) (auto simp: R_def)
  moreover have "?old = del_rows (\<lambda>(k, _). k = pid \<or> (\<exists>p \<in> set (db_policies db).
                              policy_clash pid ?name p \<and> k = pol_id p)) (db_policy_subjects db)"
    unfolding del_rows_def filter_filter by (rule filter_cong) auto
  ultimately have "db' = replaced_policies (policy_row pid payload perm created created_by og)
               (pin_subjects payload) db"
    using db' ys(1) by (simp add: replaced_policies_def)
  moreover have "keyed id (db_policy_subjects db) \<longrightarrow> keyed id (db_policy_subjects db')"
    using ys(3) db' by (simp add: keyed_del_rows)
  ultimately show ?thesis using perm by blast
qed

lemma rbac_wf_replaced_policies:
  assumes "rbac_wf db" and "keyed id (db_policy_subjects (replaced_policies row subjects db))"
  shows "rbac_wf (replaced_policies row subjects db)"
proof -
  let ?db = "replaced_policies row subjects db"
  have wf: "policies_wf db" using assms(1) by (simp add: rbac_wf_def)
  have "keyed pol_id (db_policies ?db)" "keyed (\<lambda>p. ascii_lower (pol_name p)) (db_policies ?db)"
    using wf
    by (auto simp: policies_wf_def replaced_policies_def keyed_snoc policy_clash_def keyed_del_rows)
  moreover have "k \<in> pol_id ` set (db_policies ?db)" if "(k, s) \<in> set (db_policy_subjects ?db)" for k s
  proof (cases "k = pol_id row")
    case True
    then show ?thesis by (simp add: replaced_policies_def)
  next
    case False
    with that have old: "(k, s) \<in> set (db_policy_subjects db)"
      and stays: "\<And>p. p \<in> set (db_policies db) \<Longrightarrow> k = pol_id p \<Longrightarrow>
                    \<not> policy_clash (pol_id row) (pol_name row) p"
      by (auto simp: replaced_policies_def)
    from old wf obtain p where "p \<in> set (db_policies db)" "k = pol_id p"
      by (force simp: policies_wf_def)
    with stays show ?thesis by (auto simp: replaced_policies_def)
  qed
  ultimately have "policies_wf ?db"
    using assms(2) by (auto simp: policies_wf_def)
  then show ?thesis using assms(1) by (simp add: rbac_wf_defs replaced_policies_def)
qed

lemma rbac_wf_insert_or_replace_policy [inv_intros]:
  assumes "insert_or_replace_policy known pid payload created created_by og db = Inr db'"
    and "rbac_wf db"
  shows "rbac_wf db'"
proof -
  have "keyed id (db_policy_subjects db)" using assms(2) by (simp add: rbac_wf_defs)
  with insert_or_replace_policy_Inr [OF assms(1)] assms(2) show ?thesis
    by (auto intro: rbac_wf_replaced_policies)
qed

lemma rbac_wf_create_policy [inv_intros]:
  "create_policy known new_id og payload db = Inr (v, db') \<Longrightarrow> rbac_wf db \<Longrightarrow> rbac_wf db'"
  by (auto simp: create_policy_def res_iff Let_def
      intro: rbac_wf_add_audit rbac_wf_insert_or_replace_policy)

lemma rbac_wf_update_policy [inv_intros]:
  "update_policy known pid og payload db = Inr (v, db') \<Longrightarrow> rbac_wf db \<Longrightarrow> rbac_wf db'"
  unfolding update_policy_def rbind_Inr_iff Let_def
  by (auto intro: rbac_wf_add_audit rbac_wf_insert_or_replace_policy)

lemma rbac_wf_delete_policy [inv_intros]:
  assumes "delete_policy pid og db = Inr db'" and "rbac_wf db"
  shows "rbac_wf db'"
proof -
  have "rbac_wf (drop_policy pid db)"
    using assms(2) by (auto simp: rbac_wf_defs drop_policy_def keyed_del_rows)
  then show ?thesis
    using assms(1) by (auto simp: delete_policy_def res_iff intro: rbac_wf_add_audit)
qed

section \<open>Seeding\<close>

lemma set_fold_insert_ignore:
  "set (foldl (\<lambda>rows p. insert_ignore id (f p) rows) rows ps) = set rows \<union> f ` set ps"
  by (induction ps arbitrary: rows) (auto simp: set_insert_ignore)

lemma keyed_fold_insert_ignore:
  "keyed id rows \<Longrightarrow> keyed id (foldl (\<lambda>rows p. insert_ignore id (f p) rows) rows ps)"
  by (induction ps arbitrary: rows) (auto intro: keyed_insert_ignore)

lemma seed_role_Inr_iff:
  "seed_role now (name, ps) db = Inr db' \<longleftrightarrow>
     (\<exists>roles. roles = (if role_clash (system_role_id name) name (db_roles db) then db_roles db
                      else db_roles db @ [system_role_row now name]) \<and>
        (ps = [] \<or> system_role_id name \<in> role_id ` set roles) \<and>
        db' = db\<lparr>db_roles := roles, db_role_permissions :=
                foldl (\<lambda>rows p. insert_ignore id (system_role_id name, plain_grant p) rows)
                  (db_role_permissions db) ps\<rparr>)"
proof -
  have "list_ex (\<lambda>r. role_id r = system_role_id name) roles
      \<longleftrightarrow> system_role_id name \<in> role_id ` set roles" for roles
    by (force simp: list_ex_iff image_iff)
  then show ?thesis by (auto simp: seed_role_def Let_def)
qed

lemma rbac_wf_seed_role [inv_intros]:
  assumes "seed_role now x db = Inr db'" and "rbac_wf db"
  shows "rbac_wf db'"
proof -
  obtain name ps where x: "x = (name, ps)" by (cases x)
  from assms(1) obtain roles where
    roles: "roles = (if role_clash (system_role_id name) name (db_roles db) then db_roles db
                      else db_roles db @ [system_role_row now name])"
    and fk: "ps = [] \<or> system_role_id name \<in> role_id ` set roles"
    and db': "db' = db\<lparr>db_roles := roles, db_role_permissions :=
                foldl (\<lambda>rows p. insert_ignore id (system_role_id name, plain_grant p) rows)
                  (db_role_permissions db) ps\<rparr>"
    unfolding x seed_role_Inr_iff by blast
  have wf: "rbac_wf (db\<lparr>db_roles := roles\<rparr>)"
    using assms(2) rbac_wf_append_role [OF assms(2), of "system_role_row now name"]
    by (auto simp: roles system_role_row_def)
  have "roles_wf db'"
    using wf fk by (auto simp: rbac_wf_def roles_wf_def db' set_fold_insert_ignore keyed_fold_insert_ignore)
  then show ?thesis using wf by (simp add: rbac_wf_defs db')
qed

lemma rbac_wf_seed_system_roles [inv_intros]:
  "seed_system_roles now db = Inr db' \<Longrightarrow> rbac_wf db \<Longrightarrow> rbac_wf db'"
  unfolding seed_system_roles_def by (erule rfold_invariant) (auto intro: rbac_wf_seed_role)

text \<open>On a database without them, seeding adds the roles; on one that has them, only grants.\<close>

definition system_present :: "string \<Rightarrow> rbac_db \<Rightarrow> bool" where
  "system_present name db \<longleftrightarrow>
     (\<exists>r \<in> set (db_roles db). role_id r = system_role_id name \<and> role_name r = name
        \<and> role_protected r \<and> role_kind r = Type_system)"

lemma seed_present:
  assumes "\<forall>x \<in> set xs. system_present (fst x) db"
  shows "\<exists>db'. rfold (seed_role now) xs db = Inr db' \<and> db' = db\<lparr>db_role_permissions := db_role_permissions db'\<rparr>
           \<and> set (db_role_permissions db') = set (db_role_permissions db)
               \<union> {(system_role_id n, plain_grant p) |n ps p. (n, ps) \<in> set xs \<and> p \<in> set ps}"
  using assms
proof (induction xs arbitrary: db)
  case Nil
  then show ?case by simp
next
  case (Cons x xs)
  obtain name ps where x: "x = (name, ps)" by (cases x)
  define db1 where "db1 = db\<lparr>db_role_permissions :=
      foldl (\<lambda>rows p. insert_ignore id (system_role_id name, plain_grant p) rows)
        (db_role_permissions db) ps\<rparr>"
  have "system_present name db" using Cons.prems x by simp
  then have "role_clash (system_role_id name) name (db_roles db)"
    and "system_role_id name \<in> role_id ` set (db_roles db)"
    by (force simp: system_present_def role_clash_def list_ex_iff)+
  then have first: "seed_role now x db = Inr db1"
    by (simp add: x seed_role_Inr_iff db1_def)
  have "\<forall>x \<in> set xs. system_present (fst x) db1"
    using Cons.prems by (simp add: system_present_def db1_def)
  from Cons.IH [OF this] obtain db' where db': "rfold (seed_role now) xs db1 = Inr db'"
    "db' = db1\<lparr>db_role_permissions := db_role_permissions db'\<rparr>"
    "set (db_role_permissions db') = set (db_role_permissions db1)
               \<union> {(system_role_id n, plain_grant p) |n ps p. (n, ps) \<in> set xs \<and> p \<in> set ps}"
    by blast
  have "rfold (seed_role now) (x # xs) db = Inr db'" using first db'(1) by simp
  moreover have "db' = db\<lparr>db_role_permissions := db_role_permissions db'\<rparr>"
    using db'(2) by (simp add: db1_def)
  moreover have "set (db_role_permissions db') = set (db_role_permissions db)
       \<union> {(system_role_id n, plain_grant p) |n ps p. (n, ps) \<in> set (x # xs) \<and> p \<in> set ps}"
    unfolding db'(3) by (auto simp: x db1_def set_fold_insert_ignore)
  ultimately show ?case by blast
qed

text \<open>Whatever happens to the roles, seeding only adds the default grants.\<close>

lemma seed_grants:
  assumes "rfold (seed_role now) xs db = Inr db'"
  shows "db' = db\<lparr>db_roles := db_roles db', db_role_permissions := db_role_permissions db'\<rparr>
     \<and> set (db_role_permissions db') = set (db_role_permissions db)
         \<union> {(system_role_id n, plain_grant p) |n ps p. (n, ps) \<in> set xs \<and> p \<in> set ps}"
  using assms
proof (induction xs arbitrary: db)
  case Nil
  then show ?case by simp
next
  case (Cons x xs)
  obtain name ps where x: "x = (name, ps)" by (cases x)
  from Cons.prems obtain db1 where db1: "seed_role now (name, ps) db = Inr db1"
    and run: "rfold (seed_role now) xs db1 = Inr db'"
    by (auto simp: res_iff x)
  from db1 obtain roles where roles: "db1 = db\<lparr>db_roles := roles, db_role_permissions :=
      foldl (\<lambda>rows p. insert_ignore id (system_role_id name, plain_grant p) rows)
        (db_role_permissions db) ps\<rparr>"
    unfolding seed_role_Inr_iff by blast
  from Cons.IH [OF run] have
    "db' = db1\<lparr>db_roles := db_roles db', db_role_permissions := db_role_permissions db'\<rparr>"
    and g: "set (db_role_permissions db') = set (db_role_permissions db1)
         \<union> {(system_role_id n, plain_grant p) |n ps p. (n, ps) \<in> set xs \<and> p \<in> set ps}"
    by blast+
  then have "db' = db\<lparr>db_roles := db_roles db', db_role_permissions := db_role_permissions db'\<rparr>"
    unfolding roles by simp
  moreover have "set (db_role_permissions db') = set (db_role_permissions db)
         \<union> {(system_role_id n, plain_grant p) |n ps p. (n, ps) \<in> set (x # xs) \<and> p \<in> set ps}"
    unfolding g by (auto simp: roles x set_fold_insert_ignore)
  ultimately show ?case by blast
qed

lemma seed_fresh:
  assumes "distinct (map (\<lambda>x. system_role_id (fst x)) xs)"
    and "distinct (map (\<lambda>x. ascii_lower (fst x)) xs)"
    and "\<forall>x \<in> set xs. \<not> role_clash (system_role_id (fst x)) (fst x) (db_roles db)"
  shows "\<exists>db'. rfold (seed_role now) xs db = Inr db' \<and>
           db_roles db' = db_roles db @ map (\<lambda>x. system_role_row now (fst x)) xs"
  using assms
proof (induction xs arbitrary: db)
  case Nil
  then show ?case by simp
next
  case (Cons x xs)
  obtain name ps where x: "x = (name, ps)" by (cases x)
  define db1 where "db1 = db\<lparr>db_roles := db_roles db @ [system_role_row now name],
    db_role_permissions := foldl (\<lambda>rows p. insert_ignore id (system_role_id name, plain_grant p) rows)
        (db_role_permissions db) ps\<rparr>"
  have "seed_role now x db = Inr db1"
    using Cons.prems(3) by (simp add: x seed_role_Inr_iff db1_def system_role_row_def)
  moreover have "\<forall>y \<in> set xs. \<not> role_clash (system_role_id (fst y)) (fst y) (db_roles db1)"
  proof
    fix y assume y: "y \<in> set xs"
    then have "system_role_id (fst y) \<noteq> system_role_id name" "ascii_lower (fst y) \<noteq> ascii_lower name"
      using Cons.prems(1,2) by (force simp: x image_iff)+
    with Cons.prems(3) y show "\<not> role_clash (system_role_id (fst y)) (fst y) (db_roles db1)"
      by (auto simp: db1_def role_clash_def system_role_row_def)
  qed
  ultimately show ?case
    using Cons.IH [of db1] Cons.prems(1,2) by (force simp: x db1_def)
qed

abbreviation system_role_names :: "string list" where
  "system_role_names \<equiv> [''Administrator'', ''Operator'', ''Auditor'', ''User'', ''Read Only'']"

lemma map_fst_system_role_permissions: "map fst system_role_permissions = system_role_names"
  by (simp add: system_role_permissions_def)

lemma seed_empty:
  "\<exists>db'. seed_system_roles now empty_rbac_db = Inr db' \<and>
     db_roles db' = map (system_role_row now) system_role_names"
proof -
  have "distinct (map system_role_id (map fst system_role_permissions))"
    "distinct (map ascii_lower (map fst system_role_permissions))"
    unfolding map_fst_system_role_permissions by code_simp+
  then have "\<exists>db'. seed_system_roles now empty_rbac_db = Inr db' \<and>
     db_roles db' = db_roles empty_rbac_db @ map (\<lambda>x. system_role_row now (fst x)) system_role_permissions"
    unfolding seed_system_roles_def
    by (intro seed_fresh) (simp_all add: o_def role_clash_def empty_rbac_db_def)
  moreover have "map (\<lambda>x. system_role_row now (fst x)) system_role_permissions
      = map (system_role_row now) system_role_names"
    unfolding map_fst_system_role_permissions [symmetric] by simp
  ultimately show ?thesis by (simp add: empty_rbac_db_def)
qed

section \<open>The store as a state machine\<close>

datatype rbac_op =
    Op_initialize time
  | Op_create_role string origin role_input
  | Op_update_role string origin role_patch
  | Op_delete_role string origin
  | Op_create_group string origin group_input
  | Op_update_group string origin group_patch
  | Op_delete_group string origin
  | Op_set_group_members string origin "member_input list"
  | Op_upsert_external_group time string string string string "string list" string
  | Op_map_external_group_role string string origin
  | Op_unmap_external_group_role string string origin
  | Op_replace_external_memberships string string string "string list" "string list option" time
  | Op_assign_user_role session_user string origin
  | Op_revoke_user_role session_user string origin
  | Op_create_policy string origin policy_input
  | Op_update_policy string origin policy_patch
  | Op_delete_policy string origin

definition state_of :: "('a \<times> rbac_db) res \<Rightarrow> rbac_db res" where
  "state_of m = rbind m (\<lambda>(_, db). Inr db)"

lemma state_of_Inr_iff [res_iff]: "state_of m = Inr db \<longleftrightarrow> (\<exists>v. m = Inr (v, db))"
  by (auto simp: state_of_def res_iff)

fun apply_rbac_op ::
  "string list \<Rightarrow> (string \<Rightarrow> string) \<Rightarrow> rbac_op \<Rightarrow> rbac_db \<Rightarrow> rbac_db res" where
  "apply_rbac_op known U (Op_initialize now) db = seed_system_roles now db"
| "apply_rbac_op known U (Op_create_role i og r) db = state_of (create_role known i og r db)"
| "apply_rbac_op known U (Op_update_role i og r) db = state_of (update_role known i og r db)"
| "apply_rbac_op known U (Op_delete_role i og) db = delete_role i og db"
| "apply_rbac_op known U (Op_create_group i og g) db = state_of (create_group i og g db)"
| "apply_rbac_op known U (Op_update_group i og g) db = state_of (update_group i og g db)"
| "apply_rbac_op known U (Op_delete_group i og) db = delete_group i og db"
| "apply_rbac_op known U (Op_set_group_members i og ms) db = set_group_members i og ms db"
| "apply_rbac_op known U (Op_upsert_external_group now prov ext dn name ps st) db =
     state_of (upsert_external_group U now prov ext dn name ps st db)"
| "apply_rbac_op known U (Op_map_external_group_role g r og) db = map_external_group_role g r og db"
| "apply_rbac_op known U (Op_unmap_external_group_role g r og) db =
     Inr (unmap_external_group_role g r og db)"
| "apply_rbac_op known U (Op_replace_external_memberships prov idn name gs ds now) db =
     replace_external_memberships prov idn name gs ds now db"
| "apply_rbac_op known U (Op_assign_user_role u r og) db = assign_user_role u r og db"
| "apply_rbac_op known U (Op_revoke_user_role u r og) db = Inr (revoke_user_role u r og db)"
| "apply_rbac_op known U (Op_create_policy i og p) db = state_of (create_policy known i og p db)"
| "apply_rbac_op known U (Op_update_policy i og p) db = state_of (update_policy known i og p db)"
| "apply_rbac_op known U (Op_delete_policy i og) db = delete_policy i og db"

definition rbac_init :: "rbac_db \<Rightarrow> bool" where
  "rbac_init db \<longleftrightarrow> (\<exists>now. seed_system_roles now empty_rbac_db = Inr db)"

inductive rbac_step :: "(string \<Rightarrow> string) \<Rightarrow> rbac_db \<Rightarrow> rbac_db \<Rightarrow> bool" for U where
  "apply_rbac_op known U op db = Inr db' \<Longrightarrow> rbac_step U db db'"

inductive_cases rbac_stepE: "rbac_step U db db'"

lemma rbac_wf_apply: "apply_rbac_op known U op db = Inr db' \<Longrightarrow> rbac_wf db \<Longrightarrow> rbac_wf db'"
  by (cases op) (auto simp: state_of_Inr_iff intro: inv_intros)

lemma rbac_wf_init: "rbac_init db \<Longrightarrow> rbac_wf db"
  unfolding rbac_init_def by (auto intro: rbac_wf_seed_system_roles rbac_wf_empty)

interpretation rbac_machine: machine_invariant rbac_init "rbac_step U" rbac_wf for U
  by unfold_locales (auto elim!: rbac_stepE intro: rbac_wf_init rbac_wf_apply)

text \<open>Operations that leave the roles alone.\<close>

lemma add_audit_frame [simp]:
  "db_roles (add_audit og a t b c db) = db_roles db"
  "db_role_permissions (add_audit og a t b c db) = db_role_permissions db"
  "db_groups (add_audit og a t b c db) = db_groups db"
  "db_group_members (add_audit og a t b c db) = db_group_members db"
  "db_group_roles (add_audit og a t b c db) = db_group_roles db"
  "db_user_roles (add_audit og a t b c db) = db_user_roles db"
  "db_external_groups (add_audit og a t b c db) = db_external_groups db"
  "db_external_memberships (add_audit og a t b c db) = db_external_memberships db"
  "db_external_group_roles (add_audit og a t b c db) = db_external_group_roles db"
  "db_policies (add_audit og a t b c db) = db_policies db"
  "db_policy_subjects (add_audit og a t b c db) = db_policy_subjects db"
  by (simp_all add: add_audit_def)

lemma replace_group_roles_frame: "replace_group_roles i rs db = Inr db' \<Longrightarrow> db_roles db' = db_roles db"
  by (auto simp: replace_group_roles_def res_iff)

lemma create_group_frame: "create_group i og g db = Inr (v, db') \<Longrightarrow> db_roles db' = db_roles db"
  by (auto simp: create_group_def res_iff Let_def dest!: replace_group_roles_frame)

lemma rename_group_frame: "rename_group i n db = Inr db' \<Longrightarrow> db_roles db' = db_roles db"
  by (auto simp: rename_group_def split: if_splits)

lemma update_group_frame:
  assumes "update_group i og p db = Inr (v, db')"
  shows "db_roles db' = db_roles db"
  using update_group_Inr_D [OF assms]
  by (auto simp: update_group_row_def
      dest!: replace_group_roles_frame rename_group_frame split: option.splits)

lemma delete_group_frame: "delete_group i og db = Inr db' \<Longrightarrow> db_roles db' = db_roles db"
  by (auto simp: delete_group_def drop_group_def res_iff)

lemma set_group_members_frame:
  "set_group_members i og ms db = Inr db' \<Longrightarrow> db_roles db' = db_roles db"
  by (auto simp: set_group_members_def res_iff)

lemma upsert_external_group_frame:
  "upsert_external_group U now prov ext dn name ps st db = Inr (gid, db') \<Longrightarrow> db_roles db' = db_roles db"
  by (auto simp: upsert_external_group_def Let_def res_iff split: if_splits)

lemma map_external_group_role_frame:
  "map_external_group_role i r og db = Inr db' \<Longrightarrow> db_roles db' = db_roles db"
  by (auto simp: map_external_group_role_def res_iff)

lemma replace_external_memberships_frame:
  "replace_external_memberships prov idn name gs ds now db = Inr db' \<Longrightarrow> db_roles db' = db_roles db"
  unfolding replace_external_memberships_def rbind_Inr_iff Let_def by auto

lemma assign_user_role_frame: "assign_user_role u r og db = Inr db' \<Longrightarrow> db_roles db' = db_roles db"
  by (auto simp: assign_user_role_def res_iff)

lemma insert_or_replace_policy_frame:
  "insert_or_replace_policy known i p c cb og db = Inr db' \<Longrightarrow> db_roles db' = db_roles db"
  unfolding insert_or_replace_policy_def rbind_Inr_iff Let_def by auto

lemma create_policy_frame: "create_policy known i og p db = Inr (v, db') \<Longrightarrow> db_roles db' = db_roles db"
  unfolding create_policy_def rbind_Inr_iff Let_def by (auto dest: insert_or_replace_policy_frame)

lemma update_policy_frame: "update_policy known i og p db = Inr (v, db') \<Longrightarrow> db_roles db' = db_roles db"
  unfolding update_policy_def rbind_Inr_iff Let_def by (auto dest: insert_or_replace_policy_frame)

lemma delete_policy_frame: "delete_policy i og db = Inr db' \<Longrightarrow> db_roles db' = db_roles db"
  by (auto simp: delete_policy_def drop_policy_def res_iff)

lemmas roles_frame =
  create_group_frame update_group_frame delete_group_frame set_group_members_frame
  upsert_external_group_frame map_external_group_role_frame replace_external_memberships_frame
  assign_user_role_frame create_policy_frame update_policy_frame delete_policy_frame

text \<open>A protected role is never dropped, renamed or unprotected.\<close>

definition keeps_role :: "rbac_role \<Rightarrow> rbac_db \<Rightarrow> bool" where
  "keeps_role r db \<longleftrightarrow>
     (\<exists>q \<in> set (db_roles db). role_id q = role_id r \<and> role_name q = role_name r
        \<and> role_protected q \<and> role_kind q = role_kind r)"

lemma keeps_role_frame: "db_roles db' = db_roles db \<Longrightarrow> keeps_role r db' = keeps_role r db"
  by (simp add: keeps_role_def)

lemma keeps_role_seed:
  "seed_role now x db = Inr db' \<Longrightarrow> keeps_role r db \<Longrightarrow> keeps_role r db'"
  by (cases x) (auto simp: seed_role_Inr_iff keeps_role_def split: if_splits)

lemma keeps_role_create:
  assumes "create_role known i og p db = Inr (v, db')" and "keeps_role r db"
  shows "keeps_role r db'"
proof -
  obtain row where "set (db_roles db') = insert row (set (db_roles db))"
    using assms(1) unfolding create_role_def if_Inl_Inr_iff rbind_Inr_iff Let_def
    by (auto dest!: replace_role_permissions_Inr)
  with assms(2) show ?thesis by (auto simp: keeps_role_def)
qed

lemma upd_rows_mem: "q \<in> set rows \<Longrightarrow> (if p q then f q else q) \<in> set (upd_rows p f rows)"
  by (simp add: set_upd_rows)

lemma keeps_role_update:
  assumes "update_role known i og p db = Inr (v, db')" and "keeps_role r db"
    and "keyed role_id (db_roles db)"
  shows "keeps_role r db'"
proof -
  from update_role_Inr_D [OF assms(1)] obtain before db2 where
    before: "repo_role db i = Inr before"
    and name: "\<not> (role_protected (fst before) \<and> rpa_name p \<notin> {None, Some (role_name (fst before))})"
    and db2: "(case rpa_permissions p of
        None \<Rightarrow> Inr (update_role_row i og (fst before) p db)
      | Some ps \<Rightarrow> replace_role_permissions known i ps (update_role_row i og (fst before) p db)) = Inr db2"
    and db': "db' = add_audit og ''role.update'' i (Doc_role before) (Doc_role_patch p) db2"
    by blast
  have roles: "db_roles db' = db_roles (update_role_row i og (fst before) p db)"
    using db2 db' by (auto split: option.splits dest!: replace_role_permissions_Inr)
  obtain q where q: "q \<in> set (db_roles db)" "role_id q = role_id r" "role_name q = role_name r"
    "role_protected q" "role_kind q = role_kind r"
    using assms(2) by (auto simp: keeps_role_def)
  have "or_else (rpa_name p) (role_name (fst before)) = role_name q" if "role_id q = i"
  proof -
    have "fst before = q"
      using repo_role_Inr_D [OF before] q(1) that keyed_eqI [OF assms(3)] by metis
    then show ?thesis using name q(4) by (auto simp: or_else_def)
  qed
  moreover have "\<exists>q' \<in> set (db_roles db'). role_id q' = role_id q
      \<and> role_name q' = (if role_id q = i then or_else (rpa_name p) (role_name (fst before)) else role_name q)
      \<and> role_protected q' = role_protected q \<and> role_kind q' = role_kind q"
    using upd_rows_mem [OF q(1), of "\<lambda>x. role_id x = i"]
    unfolding roles update_role_row_def by (force intro: bexI [rotated])
  ultimately show ?thesis
    using q(2-) unfolding keeps_role_def by (metis (full_types))
qed

lemma keeps_role_delete:
  assumes "delete_role i og db = Inr db'" and "keeps_role r db" and "keyed role_id (db_roles db)"
  shows "keeps_role r db'"
proof -
  from assms(1) obtain before where before: "repo_role db i = Inr before"
    and unprot: "\<not> role_protected (fst before)"
    and db': "db' = add_audit og ''role.delete'' i (Doc_role before) Doc_empty (drop_role i db)"
    unfolding delete_role_def rbind_Inr_iff if_Inl_Inr_iff by blast
  obtain q where q: "q \<in> set (db_roles db)" "role_id q = role_id r" "role_name q = role_name r"
    "role_protected q" "role_kind q = role_kind r"
    using assms(2) by (auto simp: keeps_role_def)
  have "role_id q \<noteq> i"
    using repo_role_Inr_D [OF before] q(1,4) unprot keyed_eqI [OF assms(3)] by metis
  with q show ?thesis by (auto simp: keeps_role_def db' drop_role_def)
qed

lemma apply_roles_frame:
  assumes "apply_rbac_op known U op db = Inr db'"
    and "case op of Op_initialize _ \<Rightarrow> False | Op_create_role _ _ _ \<Rightarrow> False
           | Op_update_role _ _ _ \<Rightarrow> False | Op_delete_role _ _ \<Rightarrow> False | _ \<Rightarrow> True"
  shows "db_roles db' = db_roles db"
  using assms
  by (cases op)
     (auto simp: state_of_Inr_iff unmap_external_group_role_def revoke_user_role_def dest: roles_frame)

lemma keeps_role_apply:
  assumes "apply_rbac_op known U op db = Inr db'" and "keeps_role r db" and "rbac_wf db"
  shows "keeps_role r db'"
proof -
  have k: "keyed role_id (db_roles db)" using assms(3) by (simp add: rbac_wf_defs)
  consider (init) now where "op = Op_initialize now" | (create) i og p where "op = Op_create_role i og p"
    | (update) i og p where "op = Op_update_role i og p" | (delete) i og where "op = Op_delete_role i og"
    | (other) "db_roles db' = db_roles db"
    using apply_roles_frame [OF assms(1)] by (cases op) auto
  then show ?thesis
  proof cases
    case init
    then have "rfold (seed_role now) system_role_permissions db = Inr db'"
      using assms(1) by (simp add: seed_system_roles_def)
    then show ?thesis using assms(2) by (rule rfold_invariant) (auto intro: keeps_role_seed)
  next
    case create
    with assms(1,2) show ?thesis by (auto simp: state_of_Inr_iff intro: keeps_role_create)
  next
    case update
    with assms(1,2) k show ?thesis by (auto simp: state_of_Inr_iff intro: keeps_role_update)
  next
    case delete
    with assms(1,2) k show ?thesis by (auto intro: keeps_role_delete)
  next
    case other
    with assms(2) show ?thesis using keeps_role_frame by blast
  qed
qed

lemma keeps_role_steps:
  "(rbac_step U)\<^sup>*\<^sup>* db db' \<Longrightarrow> rbac_wf db \<Longrightarrow> keeps_role r db \<Longrightarrow> rbac_wf db' \<and> keeps_role r db'"
  by (induction rule: rtranclp_induct)
     (auto elim!: rbac_stepE intro: rbac_wf_apply keeps_role_apply)

lemma system_present_iff:
  "system_present name db \<longleftrightarrow> keeps_role (system_role_row 0 name) db"
  by (auto simp: system_present_def keeps_role_def system_role_row_def)

lemma system_present_reachable:
  assumes "reaches rbac_init (rbac_step U) db"
  shows "\<forall>name \<in> set system_role_names. system_present name db"
  using assms
proof (induction rule: reaches.induct)
  case (reaches_init s)
  then obtain now where now: "seed_system_roles now empty_rbac_db = Inr s"
    by (auto simp: rbac_init_def)
  with seed_empty [of now] have "db_roles s = map (system_role_row now) system_role_names" by auto
  then show ?case by (auto simp: system_present_def system_role_row_def)
next
  case (reaches_step s t)
  then have "rbac_wf s" by (auto intro: rbac_machine.inv_reaches)
  with reaches_step show ?case
    by (auto simp: system_present_iff elim!: rbac_stepE intro: keeps_role_apply)
qed

lemma seeded_reaches:
  "seed_system_roles now empty_rbac_db = Inr db \<Longrightarrow> reaches rbac_init (rbac_step U) db"
  by (rule reaches_init) (auto simp: rbac_init_def)

section \<open>Properties\<close>

text \<open>
  C8. In every database reachable from a fresh installation by any sequence of repository
  operations (restarts included), ids and case-insensitive names are unique, link tables have no
  duplicate and no dangling reference, and audit rows are numbered without gap.
\<close>

theorem rbac_integrity:
  assumes "reaches rbac_init (rbac_step U) db"
  shows "rbac_wf db"
  using assms by (rule rbac_machine.inv_reaches)

theorem rbac_integrity_witness:
  "\<exists>db db'. seed_system_roles 5 empty_rbac_db = Inr db \<and>
     db' = revoke_user_role \<lparr>su_username = ''eve'', su_csrf_token = [], su_auth_provider = Prov_pam,
              su_identity_id = []\<rparr> ''system:user''
             \<lparr>or_actor = ''root'', or_source_ip = [], or_now = 6\<rparr> db \<and> rbac_wf db'"
proof -
  obtain db where db: "seed_system_roles 5 empty_rbac_db = Inr db" using seed_empty by blast
  let ?u = "\<lparr>su_username = ''eve'', su_csrf_token = [], su_auth_provider = Prov_pam, su_identity_id = []\<rparr>"
  let ?og = "\<lparr>or_actor = ''root'', or_source_ip = [], or_now = 6\<rparr>"
  let ?db' = "revoke_user_role ?u ''system:user'' ?og db"
  have "reaches rbac_init (rbac_step (\<lambda>s. s)) db"
    using db by (rule seeded_reaches)
  moreover have "apply_rbac_op [] (\<lambda>s. s) (Op_revoke_user_role ?u ''system:user'' ?og) db = Inr ?db'"
    by simp
  then have "rbac_step (\<lambda>s. s) db ?db'" by (rule rbac_step.intros)
  ultimately have "reaches rbac_init (rbac_step (\<lambda>s. s)) ?db'" by (rule reaches_step)
  then have "rbac_wf ?db'" by (rule rbac_integrity)
  with db show ?thesis by blast
qed

text \<open>
  C9. No sequence of repository operations removes a protected role, renames it, changes its type or
  takes its protection away: in a reachable database each system role stands under its own id and
  name, protected.
\<close>

theorem system_roles_survive:
  assumes "reaches rbac_init (rbac_step U) db"
    and "name \<in> {''Administrator'', ''Operator'', ''Auditor'', ''User'', ''Read Only''}"
  shows "\<exists>r \<in> set (db_roles db). role_id r = system_role_id name \<and> role_name r = name
           \<and> role_protected r \<and> role_kind r = Type_system"
  using system_present_reachable [OF assms(1)] assms(2) by (auto simp: system_present_def)

theorem system_roles_survive_witness:
  "\<exists>db. seed_system_roles 5 empty_rbac_db = Inr db \<and>
     (\<exists>r \<in> set (db_roles db). role_id r = system_role_id ''Auditor'' \<and> role_name r = ''Auditor''
        \<and> role_protected r \<and> role_kind r = Type_system)"
proof -
  obtain db where db: "seed_system_roles 5 empty_rbac_db = Inr db" using seed_empty by blast
  then have "reaches rbac_init (rbac_step (\<lambda>s. s)) db"
    by (rule seeded_reaches)
  from system_roles_survive [OF this, of "''Auditor''"] db show ?thesis by auto
qed

text \<open>
  C10. A restart of the service on a reachable database never fails, leaves every table but the
  role grants alone, and gives each system role all its default grants again: a grant an
  administrator took from a system role comes back.
\<close>

theorem restart_restores_default_grants:
  assumes "reaches rbac_init (rbac_step U) db"
  shows "\<exists>db'. seed_system_roles now db = Inr db'
           \<and> db' = db\<lparr>db_role_permissions := db_role_permissions db'\<rparr>
           \<and> set (db_role_permissions db') = set (db_role_permissions db)
               \<union> {(system_role_id n, plain_grant p) |n ps p. (n, ps) \<in> set system_role_permissions \<and> p \<in> set ps}"
proof -
  have "set (map fst system_role_permissions) = set system_role_names"
    unfolding map_fst_system_role_permissions ..
  then have "\<forall>x \<in> set system_role_permissions. system_present (fst x) db"
    using system_present_reachable [OF assms] by (metis image_eqI set_map)
  from seed_present [OF this, of now] show ?thesis unfolding seed_system_roles_def .
qed

theorem restart_restores_default_grants_witness:
  "\<exists>db db'. seed_system_roles 5 empty_rbac_db = Inr db \<and> seed_system_roles 9 db = Inr db'
     \<and> db_roles db' = db_roles db"
proof -
  obtain db where db: "seed_system_roles 5 empty_rbac_db = Inr db" using seed_empty by blast
  then have "reaches rbac_init (rbac_step (\<lambda>s. s)) db"
    by (rule seeded_reaches)
  from restart_restores_default_grants [OF this, of 9] obtain db' where
    "seed_system_roles 9 db = Inr db'" "db' = db\<lparr>db_role_permissions := db_role_permissions db'\<rparr>"
    by blast
  moreover from this(2) have "db_roles db' = db_roles db"
    by (metis rbac_db.select_convs(1) rbac_db.surjective rbac_db.update_convs(2))
  ultimately show ?thesis using db by blast
qed

end
