(* ===== verification/Rbac_Effects.thy ===== *)
theory Rbac_Effects
  imports Rbac_Invariants
begin

text \<open>
  What the operations of the RBAC store do to the grants a user effectively has: revoking and
  deleting a role, deactivating a group, replacing the directory memberships of an identity, and the
  replacement of policies by name.
\<close>

section \<open>Joins\<close>

lemma concat_map_filter:
  "(\<And>x. x \<in> set xs \<Longrightarrow> \<not> P x \<Longrightarrow> f x = []) \<Longrightarrow> concat (map f (filter P xs)) = concat (map f xs)"
  by (induction xs) auto

lemma concat_map_del_rows:
  "(\<And>x. x \<in> set xs \<Longrightarrow> P x \<Longrightarrow> f x = []) \<Longrightarrow> concat (map f (del_rows P xs)) = concat (map f xs)"
  unfolding del_rows_def by (rule concat_map_filter) auto

lemma filter_concat_map:
  "filter P (concat (map f xs)) = concat (map (\<lambda>x. filter P (f x)) xs)"
  by (induction xs) auto

lemma concat_map_cong:
  "(\<And>x. x \<in> set xs \<Longrightarrow> f x = g x) \<Longrightarrow> concat (map f xs) = concat (map g xs)"
  by (induction xs) auto

text \<open>Rows of a table that are in no way active contribute nothing.\<close>

lemma concat_map_upd_rows:
  "(\<And>x. x \<in> set xs \<Longrightarrow> g (if p x then f x else x) = h x) \<Longrightarrow>
     concat (map g (upd_rows p f xs)) = concat (map h xs)"
  by (induction xs) auto

text \<open>The joins depend on the roles and their grants only through \<^const>\<open>active_role_grants\<close>.\<close>

lemma active_role_grants_id: "(r, g) \<in> set (active_role_grants db rid) \<Longrightarrow> role_id r = rid"
  by (auto simp: active_role_grants_def split: if_splits)

definition user_role_sources :: "rbac_db \<Rightarrow> session_user \<Rightarrow> user_role \<Rightarrow> decision_source list" where
  "user_role_sources db user u =
     (if is_users user (ur_provider u) (ur_identity_id u)
      then map (\<lambda>(r, g). source_of_grant Src_direct_role (role_id r) (role_name r) [] g)
             (active_role_grants db (ur_role_id u)) else [])"

lemma direct_sources_alt: "direct_sources db user = concat (map (user_role_sources db user) (db_user_roles db))"
  unfolding direct_sources_def
  by (rule concat_map_cong) (simp add: user_role_sources_def concat_map_singleton split_def)

definition group_role_sources ::
  "rbac_db \<Rightarrow> rbac_group \<Rightarrow> string \<times> string \<Rightarrow> decision_source list" where
  "group_role_sources db gp = (\<lambda>(gid, rid).
     if gid = group_id gp
     then map (\<lambda>(r, g). source_of_grant Src_local_group (group_id gp)
                          (group_name gp @ '' -> '' @ role_name r) [] g) (active_role_grants db rid)
     else [])"

definition group_sources :: "rbac_db \<Rightarrow> group_member \<Rightarrow> rbac_group \<Rightarrow> decision_source list" where
  "group_sources db m gp =
     (if group_id gp = gm_group_id m \<and> group_active gp
      then concat (map (group_role_sources db gp) (db_group_roles db)) else [])"

definition member_sources :: "rbac_db \<Rightarrow> session_user \<Rightarrow> group_member \<Rightarrow> decision_source list" where
  "member_sources db user m =
     (if is_users user (gm_provider m) (gm_identity_id m)
      then concat (map (group_sources db m) (db_groups db)) else [])"

lemma local_group_sources_alt:
  "local_group_sources db user = concat (map (member_sources db user) (db_group_members db))"
  unfolding local_group_sources_def
  by (intro concat_map_cong)
     (auto simp: member_sources_def group_sources_def group_role_sources_def concat_map_singleton
       split_def intro!: concat_map_cong)

definition external_role_sources ::
  "rbac_db \<Rightarrow> external_group \<Rightarrow> string \<times> string \<Rightarrow> decision_source list" where
  "external_role_sources db eg = (\<lambda>(gid, rid).
     if gid = eg_id eg
     then map (\<lambda>(r, g). source_of_grant Src_ldap_group (eg_id eg)
                          (eg_name eg @ '' -> '' @ role_name r) (eg_distinguished_name eg) g)
            (active_role_grants db rid)
     else [])"

definition external_sources ::
  "rbac_db \<Rightarrow> session_user \<Rightarrow> external_membership \<Rightarrow> decision_source list" where
  "external_sources db user m =
     (if is_users user (em_provider m) (em_identity_id m)
      then concat (map (\<lambda>eg. if eg_id eg = em_external_group_id m \<and> eg_status eg = ''active''
                             then concat (map (external_role_sources db eg) (db_external_group_roles db))
                             else []) (db_external_groups db)) else [])"

lemma ldap_group_sources_alt:
  "ldap_group_sources db user = concat (map (external_sources db user) (db_external_memberships db))"
  unfolding ldap_group_sources_def
  by (intro concat_map_cong)
     (auto simp: external_sources_def external_role_sources_def concat_map_singleton
       split_def intro!: concat_map_cong)

section \<open>Deleting a role is deactivating it\<close>

definition deactivate_role :: role_patch where
  "deactivate_role =
     \<lparr>rpa_name = None, rpa_description = None, rpa_active = Some False, rpa_permissions = None\<rparr>"

definition raw_grants :: "rbac_db \<Rightarrow> string \<Rightarrow> grant list" where
  "raw_grants db q = map snd (filter (\<lambda>(k, _). k = q) (db_role_permissions db))"

definition role_pairs :: "grant list \<Rightarrow> string \<Rightarrow> rbac_role \<Rightarrow> (rbac_role \<times> grant) list" where
  "role_pairs gs q r = (if role_id r = q \<and> role_active r then map (Pair r) gs else [])"

lemma active_role_grants_alt:
  "active_role_grants db q = concat (map (role_pairs (raw_grants db q) q) (db_roles db))"
proof -
  have "concat (map (\<lambda>(k, g). if k = q then [(r, g)] else []) rows)
      = map (Pair r) (map snd (filter (\<lambda>(k, _). k = q) rows))" for r and rows :: "(string \<times> grant) list"
    by (induction rows) auto
  then show ?thesis
    unfolding active_role_grants_def raw_grants_def
    by (intro concat_map_cong) (auto simp: role_pairs_def)
qed

lemma active_grants_cong:
  "db_roles d1 = db_roles d2 \<Longrightarrow> db_role_permissions d1 = db_role_permissions d2 \<Longrightarrow>
     active_role_grants d1 q = active_role_grants d2 q"
  by (simp add: active_role_grants_alt raw_grants_def)

lemma active_grants_drop_role:
  "active_role_grants (drop_role rid db) q = (if q = rid then [] else active_role_grants db q)"
proof (cases "q = rid")
  case True
  then show ?thesis
    by (auto simp: active_role_grants_alt drop_role_def concat_eq_Nil_conv role_pairs_def)
next
  case False
  have "raw_grants (drop_role rid db) q = raw_grants db q"
    unfolding raw_grants_def drop_role_def del_rows_def
    using False by (simp add: filter_filter) (rule arg_cong [of _ _ "map snd"], rule filter_cong, auto)
  moreover have "db_roles (drop_role rid db) = del_rows (\<lambda>r. role_id r = rid) (db_roles db)"
    by (simp add: drop_role_def)
  ultimately show ?thesis
    using False unfolding active_role_grants_alt
    by simp (rule concat_map_del_rows, auto simp: role_pairs_def)
qed

lemma active_grants_deactivated:
  "active_role_grants (update_role_row rid og before deactivate_role db) q
     = (if q = rid then [] else active_role_grants db q)"
proof -
  let ?db = "update_role_row rid og before deactivate_role db"
  have raw: "raw_grants ?db q = raw_grants db q" by (simp add: raw_grants_def update_role_row_def)
  have "concat (map (role_pairs gs q) (db_roles ?db))
      = concat (map (\<lambda>r. if q = rid then [] else role_pairs gs q r) (db_roles db))" for gs
    unfolding update_role_row_def
    by (simp, rule concat_map_upd_rows) (auto simp: deactivate_role_def or_else_def role_pairs_def)
  then show ?thesis unfolding active_role_grants_alt raw
    by (simp add: concat_eq_Nil_conv)
qed

lemma effective_sources_of_grants:
  assumes "\<And>q. active_role_grants d1 q = active_role_grants d2 q"
    and "db_user_roles d1 = del_rows (\<lambda>u. ur_role_id u = rid) (db_user_roles d2)"
    and "db_group_roles d1 = del_rows (\<lambda>(_, k). k = rid) (db_group_roles d2)"
    and "db_external_group_roles d1 = del_rows (\<lambda>(_, k). k = rid) (db_external_group_roles d2)"
    and "active_role_grants d2 rid = []"
    and "db_groups d1 = db_groups d2" "db_group_members d1 = db_group_members d2"
    and "db_external_groups d1 = db_external_groups d2"
    and "db_external_memberships d1 = db_external_memberships d2"
    and "db_policies d1 = db_policies d2" "db_policy_subjects d1 = db_policy_subjects d2"
  shows "effective_sources d1 user = effective_sources d2 user"
proof -
  have "direct_sources d1 user = direct_sources d2 user"
    unfolding direct_sources_alt assms(2)
    by (rule trans [OF concat_map_del_rows concat_map_cong])
       (auto simp: user_role_sources_def assms(1,5))
  moreover have "concat (map (group_role_sources d1 gp) (db_group_roles d1))
      = concat (map (group_role_sources d2 gp) (db_group_roles d2))" for gp
    unfolding assms(3)
    by (rule trans [OF concat_map_del_rows concat_map_cong])
       (auto simp: group_role_sources_def assms(1,5))
  then have "local_group_sources d1 user = local_group_sources d2 user"
    unfolding local_group_sources_alt member_sources_def group_sources_def assms(6,7)
    by (simp cong: if_cong)
  moreover have "concat (map (external_role_sources d1 eg) (db_external_group_roles d1))
      = concat (map (external_role_sources d2 eg) (db_external_group_roles d2))" for eg
    unfolding assms(4)
    by (rule trans [OF concat_map_del_rows concat_map_cong])
       (auto simp: external_role_sources_def assms(1,5))
  then have "ldap_group_sources d1 user = ldap_group_sources d2 user"
    unfolding ldap_group_sources_alt external_sources_def assms(8,9)
    by (simp cong: if_cong)
  moreover have "policy_matches d1 user ss cs = policy_matches d2 user ss cs" for ss cs
  proof -
    have "subject_matches d1 user = subject_matches d2 user"
      by (rule ext) (auto simp: subject_matches_def assms split: prod.splits subject_type.splits)
    then show ?thesis by (simp add: policy_matches_def)
  qed
  then have "policy_sources d1 user = policy_sources d2 user"
    unfolding policy_sources_def subjects_of_def assms(10,11) by (simp cong: if_cong)
  ultimately show ?thesis by (simp add: effective_sources_def)
qed

section \<open>Revoking a direct assignment\<close>

lemma direct_sources_revoke:
  "direct_sources (revoke_user_role user rid og db) u =
     (if su_auth_provider u = su_auth_provider user \<and> identity_key u = identity_key user
      then filter (\<lambda>s. ds_source_id s \<noteq> rid) (direct_sources db u) else direct_sources db u)"
proof -
  let ?db = "revoke_user_role user rid og db"
  let ?p = "\<lambda>x. is_users user (ur_provider x) (ur_identity_id x) \<and> ur_role_id x = rid"
  have grants: "active_role_grants ?db q = active_role_grants db q" for q
    by (rule active_grants_cong) (simp_all add: revoke_user_role_def)
  have rows: "db_user_roles ?db = del_rows ?p (db_user_roles db)"
    by (simp add: revoke_user_role_def)
  have one: "filter (\<lambda>s. ds_source_id s \<noteq> rid) (user_role_sources db u x)
      = (if ur_role_id x = rid then [] else user_role_sources db u x)" for x
    by (auto simp: user_role_sources_def filter_empty_conv source_of_grant_def
        dest!: active_role_grants_id intro!: filter_True)
  show ?thesis
  proof (cases "su_auth_provider u = su_auth_provider user \<and> identity_key u = identity_key user")
    case True
    then have same: "is_users u = is_users user" by (intro ext) (simp add: is_users_def)
    have "direct_sources ?db u = concat (map (user_role_sources db u) (del_rows ?p (db_user_roles db)))"
      unfolding direct_sources_alt rows
      by (rule concat_map_cong) (simp add: user_role_sources_def grants)
    also have "\<dots> = concat (map (\<lambda>x. if ur_role_id x = rid then [] else user_role_sources db u x)
                        (del_rows ?p (db_user_roles db)))"
      by (rule concat_map_cong) (auto simp: user_role_sources_def same)
    also have "\<dots> = concat (map (\<lambda>x. if ur_role_id x = rid then [] else user_role_sources db u x)
                        (db_user_roles db))"
      by (rule concat_map_del_rows) auto
    also have "\<dots> = filter (\<lambda>s. ds_source_id s \<noteq> rid) (direct_sources db u)"
      unfolding direct_sources_alt filter_concat_map one ..
    finally show ?thesis using True by simp
  next
    case False
    have "direct_sources ?db u = concat (map (user_role_sources db u) (del_rows ?p (db_user_roles db)))"
      unfolding direct_sources_alt rows
      by (rule concat_map_cong) (simp add: user_role_sources_def grants)
    also have "\<dots> = direct_sources db u"
      unfolding direct_sources_alt
      using False by (intro concat_map_del_rows) (auto simp: user_role_sources_def is_users_def)
    finally show ?thesis using False by auto
  qed
qed

lemma effective_sources_add_audit:
  "effective_sources (add_audit og a t b c db) u = effective_sources db u"
proof -
  have "active_role_grants (add_audit og a t b c db) = active_role_grants db"
    by (rule ext, rule active_grants_cong) simp_all
  moreover have "subject_matches (add_audit og a t b c db) u = subject_matches db u"
    by (rule ext) (simp add: subject_matches_def split: prod.split subject_type.split)
  ultimately show ?thesis
    by (simp add: effective_sources_def direct_sources_def local_group_sources_def
        ldap_group_sources_def policy_sources_def policy_matches_def subjects_of_def cong: if_cong)
qed

lemma source_types:
  "s \<in> set (direct_sources db u) \<Longrightarrow> ds_source_type s = Src_direct_role"
  "s \<in> set (local_group_sources db u) \<Longrightarrow> ds_source_type s = Src_local_group"
  "s \<in> set (ldap_group_sources db u) \<Longrightarrow> ds_source_type s = Src_ldap_group"
  "s \<in> set (policy_sources db u) \<Longrightarrow> ds_source_type s = Src_policy"
  by (auto simp: direct_sources_def local_group_sources_def ldap_group_sources_def
      policy_sources_def source_of_grant_def split: if_splits)

lemma effective_sources_split:
  "filter (\<lambda>s. \<not> (ds_source_type s = kind \<and> ds_source_id s = i)) (effective_sources db u) =
     (if kind = Src_direct_role then filter (\<lambda>s. ds_source_id s \<noteq> i) (direct_sources db u) else direct_sources db u)
     @ (if kind = Src_local_group then filter (\<lambda>s. ds_source_id s \<noteq> i) (local_group_sources db u)
        else local_group_sources db u)
     @ (if kind = Src_ldap_group then filter (\<lambda>s. ds_source_id s \<noteq> i) (ldap_group_sources db u)
        else ldap_group_sources db u)
     @ (if kind = Src_policy then filter (\<lambda>s. ds_source_id s \<noteq> i) (policy_sources db u)
        else policy_sources db u)"
proof -
  have "\<forall>s \<in> set (direct_sources db u). ds_source_type s = Src_direct_role"
    "\<forall>s \<in> set (local_group_sources db u). ds_source_type s = Src_local_group"
    "\<forall>s \<in> set (ldap_group_sources db u). ds_source_type s = Src_ldap_group"
    "\<forall>s \<in> set (policy_sources db u). ds_source_type s = Src_policy"
    by (blast intro: source_types)+
  then show ?thesis
    unfolding effective_sources_def by (cases kind) (auto intro!: filter_cong filter_True)
qed

text \<open>After a revocation no direct source of that role is left.\<close>

lemma revoked_no_direct:
  assumes "su_auth_provider u = su_auth_provider user" and "identity_key u = identity_key user"
  shows "\<forall>s \<in> set (effective_sources (revoke_user_role user rid og db) u).
           \<not> (ds_source_type s = Src_direct_role \<and> ds_source_id s = rid)"
  using assms unfolding effective_sources_def
  by (auto simp: direct_sources_revoke dest: source_types)

section \<open>Assigning a role\<close>

text \<open>An assignment adds the grants of the role, when it is active, and nothing else.\<close>

lemma effective_sources_assign:
  assumes "assign_user_role user rid og db = Inr db'"
  shows "set (effective_sources db' u) = set (effective_sources db u) \<union>
     (if su_auth_provider u = su_auth_provider user \<and> identity_key u = identity_key user
      then {source_of_grant Src_direct_role (role_id r) (role_name r) [] g |r g.
              (r, g) \<in> set (active_role_grants db rid)} else {})"
proof -
  define row where "row = \<lparr>ur_provider = provider_name (su_auth_provider user),
      ur_identity_id = identity_key user, ur_username = su_username user,
      ur_role_id = rid, ur_created_at = or_now og, ur_created_by = or_actor og\<rparr>"
  define db1 where "db1 = db\<lparr>db_user_roles := insert_ignore user_role_key row (db_user_roles db)\<rparr>"
  have db': "effective_sources db' u = effective_sources db1 u"
    using assms by (auto simp: assign_user_role_def res_iff effective_sources_add_audit db1_def row_def)
  have grants: "active_role_grants db1 = active_role_grants db"
    by (rule ext, rule active_grants_cong) (simp_all add: db1_def)
  have "subject_matches db1 u = subject_matches db u"
    by (rule ext) (simp add: subject_matches_def db1_def split: prod.split subject_type.split)
  then have rest: "local_group_sources db1 u = local_group_sources db u"
    "ldap_group_sources db1 u = ldap_group_sources db u" "policy_sources db1 u = policy_sources db u"
    by (simp_all add: local_group_sources_def ldap_group_sources_def policy_sources_def
        policy_matches_def subjects_of_def grants cong: if_cong)
       (simp_all add: db1_def cong: if_cong)
  have one: "set (user_role_sources db1 u x) =
     (if is_users u (ur_provider x) (ur_identity_id x)
      then {source_of_grant Src_direct_role (role_id r) (role_name r) [] g |r g.
              (r, g) \<in> set (active_role_grants db (ur_role_id x))} else {})" for x
    by (auto simp: user_role_sources_def grants)
  have old: "user_role_sources db1 u = user_role_sources db u"
    by (intro ext) (simp add: user_role_sources_def grants)
  have same: "set (user_role_sources db1 u x) = set (user_role_sources db1 u row)"
    if "user_role_key x = user_role_key row" for x
    using that unfolding one by (simp add: user_role_key_def)
  have "set (direct_sources db1 u) = set (direct_sources db u) \<union> set (user_role_sources db1 u row)"
  proof (cases "user_role_key row \<in> user_role_key ` set (db_user_roles db)")
    case True
    then obtain x where "x \<in> set (db_user_roles db)" "user_role_key x = user_role_key row" by force
    then have "x \<in> set (db_user_roles db)" and "set (user_role_sources db u x) = set (user_role_sources db u row)"
      using same unfolding old by blast+
    then have "set (user_role_sources db1 u row) \<subseteq> set (direct_sources db u)"
      unfolding direct_sources_alt old set_concat set_map by blast
    moreover have "db_user_roles db1 = db_user_roles db"
      using True by (simp add: db1_def insert_ignore_alt)
    ultimately show ?thesis unfolding direct_sources_alt old by auto
  next
    case False
    then have "db_user_roles db1 = db_user_roles db @ [row]"
      by (simp add: db1_def insert_ignore_alt)
    then show ?thesis unfolding direct_sources_alt old by auto
  qed
  moreover have "is_users u (ur_provider row) (ur_identity_id row)
      \<longleftrightarrow> su_auth_provider u = su_auth_provider user \<and> identity_key u = identity_key user"
    by (auto simp: is_users_def row_def)
  ultimately have "set (effective_sources db1 u) = set (effective_sources db u) \<union>
     (if su_auth_provider u = su_auth_provider user \<and> identity_key u = identity_key user
      then {source_of_grant Src_direct_role (role_id r) (role_name r) [] g |r g.
              (r, g) \<in> set (active_role_grants db rid)} else {})"
    unfolding effective_sources_def rest by (auto simp: one row_def)
  then show ?thesis by (simp only: db')
qed

section \<open>Deactivating a group\<close>

definition deactivate_group :: group_patch where
  "deactivate_group =
     \<lparr>gpa_name = None, gpa_description = None, gpa_active = Some False, gpa_role_ids = None\<rparr>"

lemma group_sources_ids: "s \<in> set (group_sources db m gp) \<Longrightarrow> ds_source_id s = group_id gp"
  by (auto simp: group_sources_def group_role_sources_def source_of_grant_def split: if_splits)

lemma group_sources_inactive: "\<not> group_active gp \<Longrightarrow> group_sources db m gp = []"
  by (simp add: group_sources_def)

lemma group_sources_frame:
  "group_sources (update_group_row gid og before p db) m gp = group_sources db m gp"
proof -
  have "active_role_grants (update_group_row gid og before p db) q = active_role_grants db q" for q
    by (rule active_grants_cong) (simp_all add: update_group_row_def)
  then have "group_role_sources (update_group_row gid og before p db) gp = group_role_sources db gp"
    by (simp add: group_role_sources_def cong: if_cong)
  then show ?thesis by (simp add: group_sources_def) (simp add: update_group_row_def)
qed

lemma group_sources_deactivated:
  "member_sources (update_group_row gid og before deactivate_group db) u m
     = filter (\<lambda>s. ds_source_id s \<noteq> gid) (member_sources db u m)"
proof -
  let ?db = "update_group_row gid og before deactivate_group db"
  have "concat (map (group_sources db m) (db_groups ?db))
      = concat (map (\<lambda>gp. filter (\<lambda>s. ds_source_id s \<noteq> gid) (group_sources db m gp)) (db_groups db))"
    unfolding update_group_row_def
  proof (simp, rule concat_map_upd_rows)
    fix gp :: rbac_group
    let ?gp = "gp\<lparr>group_description :=
            or_else (gpa_description deactivate_group) (group_description before),
            group_active := or_else (gpa_active deactivate_group) (group_active before),
            group_updated_at := or_now og\<rparr>"
    have "group_sources db m ?gp = []"
      by (rule group_sources_inactive) (simp add: deactivate_group_def or_else_def)
    moreover have "filter (\<lambda>s. ds_source_id s \<noteq> gid) (group_sources db m gp)
        = (if group_id gp = gid then [] else group_sources db m gp)"
      by (auto simp: filter_empty_conv dest: group_sources_ids intro!: filter_True)
    ultimately show "group_sources db m (if group_id gp = gid then ?gp else gp)
        = filter (\<lambda>s. ds_source_id s \<noteq> gid) (group_sources db m gp)" by simp
  qed
  then show ?thesis
    by (simp add: member_sources_def filter_concat_map group_sources_frame [abs_def])
qed

lemma local_group_sources_deactivated:
  "local_group_sources (update_group_row gid og before deactivate_group db) u
     = filter (\<lambda>s. ds_source_id s \<noteq> gid) (local_group_sources db u)"
  unfolding local_group_sources_alt filter_concat_map group_sources_deactivated
  by (simp add: update_group_row_def)

section \<open>Replacing the directory memberships of an identity\<close>

lemma replaced_memberships:
  assumes "replace_external_memberships prov idn name gids direct now db = Inr db'"
    and ds: "ds = (case direct of None \<Rightarrow> gids | Some d \<Rightarrow> if d = [] then gids else d)"
  shows "db_external_memberships db' =
     del_rows (\<lambda>m. em_provider m = prov \<and> em_identity_id m = idn) (db_external_memberships db)
     @ map (\<lambda>g. \<lparr>em_external_group_id = g, em_provider = prov, em_identity_id = idn,
                  em_username = name, em_direct = (g \<in> set ds), em_last_seen_at = now\<rparr>) gids"
proof -
  let ?m = "\<lambda>g. \<lparr>em_external_group_id = g, em_provider = prov, em_identity_id = idn,
                  em_username = name, em_direct = (g \<in> set ds), em_last_seen_at = now\<rparr>"
  let ?f = "\<lambda>g rows.
      if \<not> list_ex (\<lambda>eg. eg_id eg = g) (db_external_groups db)
      then Inl (IntegrityError ''rbac_external_memberships.external_group_id'')
      else insert_row membership_key ''rbac_external_memberships'' (?m g) rows"
  let ?old = "del_rows (\<lambda>m. em_provider m = prov \<and> em_identity_id m = idn) (db_external_memberships db)"
  from assms(1) obtain rows where rows: "rfold ?f gids ?old = Inr rows"
    and db': "db' = db\<lparr>db_external_memberships := rows\<rparr>"
    unfolding replace_external_memberships_def rbind_Inr_iff Let_def ds by blast
  define R where "R g y \<longleftrightarrow> y = ?m g" for g y
  have "\<exists>y. rs' = rs @ [y] \<and> membership_key y \<notin> membership_key ` set rs \<and> R g y"
    if "g \<in> set gids" and "?f g rs = Inr rs'" for g rs rs'
    using that(2) by (auto simp: res_iff R_def)
  from rfold_insert [where key = membership_key and R = R, OF rows this] obtain ys where
    "rows = ?old @ ys" "list_all2 R gids ys" by auto
  moreover from this(2) have "ys = map ?m gids"
    by (induction rule: list_all2_induct) (auto simp: R_def)
  ultimately show ?thesis by (simp add: db')
qed

section \<open>A small database for the examples\<close>

definition sample_role :: rbac_role where
  "sample_role =
     \<lparr>role_id = ''r1'', role_name = ''Ops'', role_description = [], role_active = True,
      role_kind = Type_custom, role_protected = False, role_created_at = 0, role_created_by = ''root'',
      role_updated_at = 0, role_updated_by = ''root''\<rparr>"

definition sample_group :: rbac_group where
  "sample_group =
     \<lparr>group_id = ''g1'', group_name = ''Team'', group_description = [], group_active = True,
      group_source = ''local'', group_external_id = [], group_distinguished_name = [],
      group_managed = False, group_created_at = 0, group_updated_at = 0\<rparr>"

definition sample_policy :: rbac_policy where
  "sample_policy =
     \<lparr>pol_id = ''p1'', pol_name = ''No shell'', pol_description = [], pol_active = True,
      pol_effect = Eff_deny, pol_permission = ''files.edit'', pol_resource_type = ''global'',
      pol_resource_id = ''*'', pol_scope = ''*'', pol_conditions = [], pol_created_at = 0,
      pol_created_by = ''root'', pol_updated_at = 0, pol_updated_by = ''root''\<rparr>"

definition sample_user :: session_user where
  "sample_user =
     \<lparr>su_username = ''ann'', su_csrf_token = ''t'', su_auth_provider = Prov_pam, su_identity_id = []\<rparr>"

definition sample_origin :: origin where
  "sample_origin = \<lparr>or_actor = ''root'', or_source_ip = [], or_now = 1\<rparr>"

definition sample_db :: rbac_db where
  "sample_db =
     empty_rbac_db\<lparr>db_roles := [sample_role],
       db_role_permissions := [(''r1'', plain_grant ''files.edit'')],
       db_groups := [sample_group],
       db_group_members := [\<lparr>gm_group_id = ''g1'', gm_provider = ''pam'', gm_identity_id = ''ann'',
                              gm_username = ''ann''\<rparr>],
       db_group_roles := [(''g1'', ''r1'')],
       db_policies := [sample_policy]\<rparr>"

lemmas sample_defs =
  sample_role_def sample_group_def sample_policy_def sample_user_def sample_origin_def sample_db_def
  empty_rbac_db_def plain_grant_def

section \<open>Properties\<close>

text \<open>
  C11. Revoking a role takes from that principal (provider and identity) exactly its direct grants
  through that role; every other source of it, and every source of anyone else, stays.
\<close>

theorem revoke_is_exact:
  "effective_sources (revoke_user_role user rid og db) u =
     (if su_auth_provider u = su_auth_provider user \<and> identity_key u = identity_key user
      then filter (\<lambda>s. \<not> (ds_source_type s = Src_direct_role \<and> ds_source_id s = rid)) (effective_sources db u)
      else effective_sources db u)"
proof -
  let ?db = "revoke_user_role user rid og db"
  have grants: "active_role_grants ?db = active_role_grants db"
    by (rule ext, rule active_grants_cong) (simp_all add: revoke_user_role_def)
  have "local_group_sources ?db u = local_group_sources db u"
    "ldap_group_sources ?db u = ldap_group_sources db u"
    by (simp_all add: local_group_sources_def ldap_group_sources_def grants cong: if_cong)
       (simp_all add: revoke_user_role_def cong: if_cong)
  moreover have "subject_matches ?db u = subject_matches db u"
    by (rule ext)
       (simp add: subject_matches_def revoke_user_role_def split: prod.split subject_type.split)
  then have "policy_sources ?db u = policy_sources db u"
    by (simp add: policy_sources_def policy_matches_def subjects_of_def cong: if_cong)
       (simp add: revoke_user_role_def)
  ultimately show ?thesis
    unfolding effective_sources_split
    by (simp add: effective_sources_def direct_sources_revoke)
qed

text \<open>
  C12. Deleting a role has exactly the effect on everyone's grants that deactivating it has.
\<close>

theorem delete_role_is_deactivation:
  assumes "delete_role rid og db = Inr d1"
    and "update_role known rid og deactivate_role db = Inr (v, d2)"
  shows "effective_sources d1 u = effective_sources d2 u"
proof -
  have d1: "\<exists>b. d1 = add_audit og ''role.delete'' rid b Doc_empty (drop_role rid db)"
    using assms(1) by (auto simp: delete_role_def res_iff)
  obtain before where d2: "d2 = add_audit og ''role.update'' rid (Doc_role before)
       (Doc_role_patch deactivate_role) (update_role_row rid og (fst before) deactivate_role db)"
    using update_role_Inr_D [OF assms(2)] by (auto simp: deactivate_role_def)
  have audit: "active_role_grants (add_audit og a t b c d) q = active_role_grants d q" for a t b c d q
    by (rule active_grants_cong) simp_all
  show ?thesis
    using d1 unfolding d2
    by (auto simp: audit active_grants_drop_role active_grants_deactivated
        intro!: effective_sources_of_grants [where rid = rid])
       (simp_all add: drop_role_def update_role_row_def)
qed

theorem delete_role_is_deactivation_witness:
  "\<exists>d1 v d2. delete_role ''r1'' sample_origin sample_db = Inr d1
     \<and> update_role [] ''r1'' sample_origin deactivate_role sample_db = Inr (v, d2)
     \<and> effective_sources d1 sample_user = effective_sources d2 sample_user"
proof -
  have role: "repo_role sample_db ''r1'' = Inr (sample_role, [plain_grant ''files.edit''])"
    by (simp add: repo_role_def repo_roles_def grants_of_def sample_defs)
  then obtain d1 where d1: "delete_role ''r1'' sample_origin sample_db = Inr d1"
    by (simp add: delete_role_def sample_role_def)
  let ?db = "add_audit sample_origin ''role.update'' ''r1'' (Doc_role (sample_role, [plain_grant ''files.edit'']))
      (Doc_role_patch deactivate_role) (update_role_row ''r1'' sample_origin sample_role deactivate_role sample_db)"
  have "''r1'' \<in> role_id ` set (db_roles ?db)"
    by (simp add: update_role_row_def sample_db_def sample_role_def)
  then obtain v where "repo_role ?db ''r1'' = Inr v" using repo_role_exists by blast
  then have d2: "update_role [] ''r1'' sample_origin deactivate_role sample_db = Inr (v, ?db)"
    using role by (simp add: update_role_def deactivate_role_def or_else_def sample_db_def sample_role_def)
  from delete_role_is_deactivation [OF d1 d2] d1 d2 show ?thesis by blast
qed

text \<open>
  C13. Deactivating a local group takes from every user exactly the grants that come through that
  group's roles. Policies that name the group as a subject still match its members.
\<close>

theorem deactivate_group_is_exact:
  assumes "update_group gid og deactivate_group db = Inr (v, db')"
  shows "effective_sources db' u =
     filter (\<lambda>s. \<not> (ds_source_type s = Src_local_group \<and> ds_source_id s = gid)) (effective_sources db u)"
proof -
  obtain before where db': "db' = add_audit og ''group.update'' gid (Doc_group before)
       (Doc_group_patch deactivate_group) (update_group_row gid og (fst before) deactivate_group db)"
    using update_group_Inr_D [OF assms] by (auto simp: deactivate_group_def)
  let ?db = "update_group_row gid og (fst before) deactivate_group db"
  have "active_role_grants ?db = active_role_grants db"
    by (rule ext, rule active_grants_cong) (simp_all add: update_group_row_def)
  then have "direct_sources ?db u = direct_sources db u"
    "ldap_group_sources ?db u = ldap_group_sources db u"
    by (simp_all add: direct_sources_def ldap_group_sources_def cong: if_cong)
       (simp_all add: update_group_row_def cong: if_cong)
  moreover have "subject_matches ?db u = subject_matches db u"
    by (rule ext)
       (simp add: subject_matches_def update_group_row_def split: prod.split subject_type.split)
  then have "policy_sources ?db u = policy_sources db u"
    by (simp add: policy_sources_def policy_matches_def subjects_of_def cong: if_cong)
       (simp add: update_group_row_def)
  ultimately have "effective_sources ?db u =
     filter (\<lambda>s. \<not> (ds_source_type s = Src_local_group \<and> ds_source_id s = gid)) (effective_sources db u)"
    unfolding effective_sources_split
    by (simp add: effective_sources_def local_group_sources_deactivated)
  moreover have "effective_sources db' u = effective_sources ?db u"
    unfolding db' by (rule effective_sources_add_audit)
  ultimately show ?thesis by simp
qed

theorem deactivate_group_is_exact_witness:
  "\<exists>v db'. update_group ''g1'' sample_origin deactivate_group sample_db = Inr (v, db')
     \<and> effective_sources sample_db sample_user \<noteq> effective_sources db' sample_user
     \<and> map ds_source_type (effective_sources db' sample_user) = [Src_policy]"
proof -
  have grp: "repo_group sample_db ''g1'' = Inr (sample_group, [''r1''], db_group_members sample_db)"
    by (simp add: repo_group_def repo_groups_def group_role_ids_def members_of_def sample_defs)
  let ?db = "add_audit sample_origin ''group.update'' ''g1''
      (Doc_group (sample_group, [''r1''], db_group_members sample_db))
      (Doc_group_patch deactivate_group) (update_group_row ''g1'' sample_origin sample_group deactivate_group sample_db)"
  obtain v where "repo_group ?db ''g1'' = Inr v"
    by (simp add: repo_group_def repo_groups_def update_group_row_def sample_db_def sample_group_def)
  then have upd: "update_group ''g1'' sample_origin deactivate_group sample_db = Inr (v, ?db)"
    using grp by (simp add: update_group_def deactivate_group_def)
  have "map ds_source_type (effective_sources sample_db sample_user) = [Src_local_group, Src_policy]"
    "map ds_source_id (effective_sources sample_db sample_user) = [''g1'', ''p1'']"
    by code_simp+
  with deactivate_group_is_exact [OF upd, of sample_user]
  have gone: "effective_sources sample_db sample_user \<noteq> effective_sources ?db sample_user"
    and left: "map ds_source_type (effective_sources ?db sample_user) = [Src_policy]"
    by (auto simp: map_eq_Cons_conv)
  show ?thesis
    by (intro exI conjI) (rule upd, rule gone, rule left)
qed

text \<open>
  Creating a policy whose stripped name equals an existing policy's name up to case deletes the
  existing one: its sources, a deny included, are gone for everyone. Creating a role or a group
  under a taken name is refused with 409.
\<close>

theorem create_policy_replaces_namesake:
  assumes "create_policy known new_id og payload db = Inr (v, db')"
    and "p \<in> set (db_policies db)" and "pol_id p \<noteq> new_id"
    and "ascii_lower (pol_name p) = ascii_lower (py_strip (pin_name payload))"
    and "rbac_wf db"
  shows "pol_id p \<notin> pol_id ` set (db_policies db')"
proof -
  obtain db1 where db1: "insert_or_replace_policy known new_id payload (or_now og) (or_actor og) og db = Inr db1"
    and same: "db_policies db' = db_policies db1"
    using assms(1) unfolding create_policy_def rbind_Inr_iff Let_def by auto
  from insert_or_replace_policy_Inr [OF db1] obtain perm where
    "db1 = replaced_policies (policy_row new_id payload perm (or_now og) (or_actor og) og)
             (pin_subjects payload) db" by blast
  then have rows: "db_policies db' = del_rows (policy_clash new_id (py_strip (pin_name payload))) (db_policies db)
      @ [policy_row new_id payload perm (or_now og) (or_actor og) og]"
    by (simp add: same replaced_policies_def)
  have keyed: "keyed pol_id (db_policies db)" using assms(5) by (simp add: rbac_wf_defs)
  show ?thesis
  proof
    assume "pol_id p \<in> pol_id ` set (db_policies db')"
    then obtain q where q: "q \<in> set (db_policies db)" "pol_id q = pol_id p"
      "\<not> policy_clash new_id (py_strip (pin_name payload)) q"
      using assms(3) by (auto simp: rows)
    then have "q = p" using keyed_eqI [OF keyed q(1) assms(2)] by simp
    with q(3) assms(4) show False by (simp add: policy_clash_def)
  qed
qed

definition sample_payload :: policy_input where
  "sample_payload =
     \<lparr>pin_name = '' NO SHELL '', pin_description = [], pin_active = True, pin_effect = Eff_allow,
      pin_permission = ''files.edit'', pin_resource_type = ''global'', pin_resource_id = ''*'',
      pin_scope = ''*'', pin_conditions = [], pin_subjects = []\<rparr>"

theorem create_policy_replaces_namesake_witness:
  "\<exists>v db'. create_policy [''files.edit''] ''p2'' sample_origin sample_payload sample_db = Inr (v, db')
     \<and> ''p1'' \<in> pol_id ` set (db_policies sample_db) \<and> ''p1'' \<notin> pol_id ` set (db_policies db')"
proof -
  have "\<not> isl (create_policy [''files.edit''] ''p2'' sample_origin sample_payload sample_db)"
    by code_simp
  then obtain v db' where ok: "create_policy [''files.edit''] ''p2'' sample_origin sample_payload sample_db = Inr (v, db')"
    by (metis isl_def sum.collapse(2) surj_pair)
  have name: "ascii_lower (pol_name sample_policy) = ascii_lower (py_strip (pin_name sample_payload))"
    by code_simp
  have wf: "rbac_wf sample_db"
    by (simp add: rbac_wf_defs sample_defs keyed_def member_key_def)
  have "sample_policy \<in> set (db_policies sample_db)" by (simp add: sample_db_def)
  with create_policy_replaces_namesake [OF ok this _ name wf] ok show ?thesis
    by (force simp: sample_policy_def)
qed

text \<open>
  C15. After a synchronisation an identity of a directory has exactly the given groups as
  memberships, in order, each once, and no one else's membership changed; every given group exists.
  A group is marked direct when it is in the given direct set, or when that set is empty or absent.
\<close>

theorem replace_external_memberships_exact:
  assumes "replace_external_memberships prov idn name gids direct now db = Inr db'"
  shows "map (\<lambda>m. (em_external_group_id m, em_direct m))
           (filter (\<lambda>m. em_provider m = prov \<and> em_identity_id m = idn) (db_external_memberships db'))
       = map (\<lambda>g. (g, direct = None \<or> direct = Some [] \<or> (\<exists>d. direct = Some d \<and> g \<in> set d))) gids
     \<and> del_rows (\<lambda>m. em_provider m = prov \<and> em_identity_id m = idn) (db_external_memberships db')
       = del_rows (\<lambda>m. em_provider m = prov \<and> em_identity_id m = idn) (db_external_memberships db)
     \<and> set gids \<subseteq> eg_id ` set (db_external_groups db)"
proof -
  define ds where "ds = (case direct of None \<Rightarrow> gids | Some d \<Rightarrow> if d = [] then gids else d)"
  have ds': "g \<in> set ds \<longleftrightarrow> direct = None \<or> direct = Some [] \<or> (\<exists>d. direct = Some d \<and> g \<in> set d)"
    if "g \<in> set gids" for g
    using that by (auto simp: ds_def split: option.splits)
  note rows = replaced_memberships [OF assms ds_def]
  obtain ys :: "external_membership list" where
    ys: "list_all2 (\<lambda>gid m. em_external_group_id m = gid \<and> em_provider m = prov
                     \<and> em_identity_id m = idn \<and> gid \<in> eg_id ` set (db_external_groups db)) gids ys"
    using replace_external_memberships_Inr [OF assms] by (elim exE conjE) (rule that)
  have "set gids \<subseteq> eg_id ` set (db_external_groups db)"
    using ys by (induction rule: list_all2_induct) auto
  then show ?thesis
    unfolding rows by (auto simp: del_rows_def filter_map o_def ds')
qed

theorem replace_external_memberships_exact_witness:
  "\<exists>db'. replace_external_memberships ''ldap'' ''u1'' ''ann'' [] (Some []) 3 sample_db = Inr db' \<and>
     filter (\<lambda>m. em_provider m = ''ldap'' \<and> em_identity_id m = ''u1'') (db_external_memberships db') = []"
proof -
  let ?db' = "sample_db\<lparr>db_external_memberships := []\<rparr>"
  have ok: "replace_external_memberships ''ldap'' ''u1'' ''ann'' [] (Some []) 3 sample_db = Inr ?db'"
    by (simp add: replace_external_memberships_def sample_db_def empty_rbac_db_def)
  from replace_external_memberships_exact [OF ok] ok show ?thesis by simp
qed

end
