(* ===== verification/Steps.thy ===== *)
theory Steps
  imports Prelude
begin

text \<open>
  Computations that may raise and leave a state in either case: the guards and handlers of the
  authorization service, the directory projection and the privileged broker are written with them.
\<close>

section \<open>Steps\<close>

text \<open>A step gives its result, or the exception raised, and the state it leaves in either case.\<close>

type_synonym ('s, 'a) step = "'s \<Rightarrow> 'a res \<times> 's"

definition step_return :: "'a \<Rightarrow> ('s, 'a) step" where
  "step_return x s = (Inr x, s)"

definition step_raise :: "py_exn \<Rightarrow> ('s, 'a) step" where
  "step_raise e s = (Inl e, s)"

definition step_bind :: "('s, 'a) step \<Rightarrow> ('a \<Rightarrow> ('s, 'b) step) \<Rightarrow> ('s, 'b) step" where
  "step_bind f g s = (case f s of (Inl e, s') \<Rightarrow> (Inl e, s') | (Inr x, s') \<Rightarrow> g x s')"

definition step_res :: "'a res \<Rightarrow> ('s, 'a) step" where
  "step_res r s = (r, s)"

definition step_modify :: "('s \<Rightarrow> 's) \<Rightarrow> ('s, unit) step" where
  "step_modify f s = (Inr (), f s)"

lemmas step_simps = step_return_def step_raise_def step_res_def step_modify_def

text \<open>A loop over a list, threading a value.\<close>

fun step_fold :: "('x \<Rightarrow> 'b \<Rightarrow> ('s, 'b) step) \<Rightarrow> 'x list \<Rightarrow> 'b \<Rightarrow> ('s, 'b) step" where
  "step_fold f [] b = step_return b"
| "step_fold f (x # xs) b = step_bind (f x b) (step_fold f xs)"

section \<open>Results of the steps\<close>

lemma step_bind_Inr_iff [res_iff]:
  "step_bind f g s = (Inr y, t) \<longleftrightarrow> (\<exists>x u. f s = (Inr x, u) \<and> g x u = (Inr y, t))"
  by (auto simp: step_bind_def split: prod.splits sum.splits)

lemma step_return_Inr_iff [res_iff]: "step_return x s = (Inr y, t) \<longleftrightarrow> y = x \<and> t = s"
  by (auto simp: step_return_def)

lemma step_res_Inr_iff [res_iff]: "step_res r s = (Inr y, t) \<longleftrightarrow> r = Inr y \<and> t = s"
  by (auto simp: step_res_def)

lemma step_raise_Inr_iff [res_iff]: "step_raise e s \<noteq> (Inr y, t)"
  by (simp add: step_raise_def)

lemma step_bind_Inr:
  "step_bind f g s = (Inr y, t) \<Longrightarrow> \<exists>x u. f s = (Inr x, u) \<and> g x u = (Inr y, t)"
  by (auto simp: res_iff)

lemma step_fold_invariant:
  assumes "step_fold f xs b s = (Inr c, t)" and "P s"
    and "\<And>x b c s t. x \<in> set xs \<Longrightarrow> f x b s = (Inr c, t) \<Longrightarrow> P s \<Longrightarrow> P t"
  shows "P t"
  using assms
proof (induction xs arbitrary: b s)
  case Nil
  then show ?case by (simp add: res_iff)
next
  case (Cons x xs)
  from Cons.prems(1) obtain c' u where u: "f x b s = (Inr c', u)" "step_fold f xs c' u = (Inr c, t)"
    by (auto simp: res_iff)
  have "P u" by (rule Cons.prems(3) [OF _ u(1) Cons.prems(2)]) simp
  show ?case
  proof (rule Cons.IH [OF u(2) \<open>P u\<close>])
    fix y b s c t assume "y \<in> set xs" "f y b s = (Inr c, t)" "P s"
    then show "P t" using Cons.prems(3) [of y b s c t] by simp
  qed
qed

end
