(* ===== verification/Rbac_Service.thy ===== *)
theory Rbac_Service
  imports Rbac_Effects Steps
begin

text \<open>
  The authorization service of \<^verbatim>\<open>permission_service.py\<close> (\<^verbatim>\<open>PermissionService\<close>: the cache
  of effective sources and the decision, explicit deny before allow before default deny) and the
  guards and handlers of \<^verbatim>\<open>backend/app/rbac.py\<close> and of \<^verbatim>\<open>identity/permissions.py\<close>.
  The clock does not move within one call: \<open>tick\<close> is \<^verbatim>\<open>time.monotonic()\<close>, \<open>now\<close> is
  \<^verbatim>\<open>time.time()\<close>. A guard may change the state and then refuse, so a step returns its result
  and the state. The environment holds what the process has beside the two stores: the hash of
  tokens, the LDAP session check, the known permissions, and the role \<^verbatim>\<open>access_profile\<close> finds
  for a user name.
\<close>

section \<open>Decisions\<close>

record resource =
  rs_type :: string
  rs_id :: string
  rs_scope :: string

definition global_resource :: resource where
  "global_resource = \<lparr>rs_type = ''global'', rs_id = ''*'', rs_scope = ''*''\<rparr>"

record permission_decision =
  dec_allowed :: bool
  dec_permission :: string
  dec_resource :: resource
  dec_sources :: "decision_source list"
  dec_reason :: string

definition resource_matches :: "decision_source \<Rightarrow> resource \<Rightarrow> bool" where
  "resource_matches s res =
     (if ds_resource_type s \<notin> {''global'', ''*'', rs_type res} then False
      else if ds_resource_id s \<notin> {''*'', rs_id res} then False
      else if ds_scope s \<in> {[], ''*''} then True
      else rs_scope res = ds_scope s
           \<or> prefix (rstrip_char CHR ''/'' (ds_scope s) @ ''/'') (rs_scope res))"

definition decide :: "decision_source list \<Rightarrow> string \<Rightarrow> resource \<Rightarrow> permission_decision" where
  "decide sources expected target =
     (let matches = filter (\<lambda>s. ds_permission s = expected \<and> resource_matches s target) sources;
          denies = filter (\<lambda>s. ds_effect s = Eff_deny) matches;
          allows = filter (\<lambda>s. ds_effect s = Eff_allow) matches
      in if denies \<noteq> [] then
           \<lparr>dec_allowed = False, dec_permission = expected, dec_resource = target,
            dec_sources = denies @ allows, dec_reason = ''explicit deny overrides allow''\<rparr>
         else if allows \<noteq> [] then
           \<lparr>dec_allowed = True, dec_permission = expected, dec_resource = target,
            dec_sources = allows, dec_reason = ''permission granted by effective assignment''\<rparr>
         else
           \<lparr>dec_allowed = False, dec_permission = expected, dec_resource = target,
            dec_sources = [], dec_reason = ''default deny: no effective grant''\<rparr>)"

section \<open>The service\<close>

type_synonym source_key = "string \<times> string \<times> string"

record perm_service =
  ps_db :: rbac_db
  ps_cache :: "(source_key \<times> time \<times> decision_source list) list"
  ps_ttl :: time

definition new_perm_service :: "rbac_db \<Rightarrow> time \<Rightarrow> perm_service" where
  "new_perm_service db ttl = \<lparr>ps_db = db, ps_cache = [], ps_ttl = max 0 ttl\<rparr>"

definition svc_invalidate :: "perm_service \<Rightarrow> perm_service" where
  "svc_invalidate svc = svc\<lparr>ps_cache := []\<rparr>"

definition source_key :: "session_user \<Rightarrow> source_key" where
  "source_key user = (provider_name (su_auth_provider user), identity_key user, su_username user)"

definition svc_fetch ::
  "session_user \<Rightarrow> time \<Rightarrow> perm_service \<Rightarrow> decision_source list \<times> perm_service" where
  "svc_fetch user tick svc =
     (let sources = effective_sources (ps_db svc) user; key = source_key user
      in (sources, svc\<lparr>ps_cache := (key, tick + ps_ttl svc, sources)
                         # filter (\<lambda>(k, _). k \<noteq> key) (ps_cache svc)\<rparr>))"

definition svc_sources ::
  "session_user \<Rightarrow> time \<Rightarrow> perm_service \<Rightarrow> decision_source list \<times> perm_service" where
  "svc_sources user tick svc =
     (case map_of (ps_cache svc) (source_key user) of
        Some (deadline, sources) \<Rightarrow>
          if deadline > tick then (sources, svc) else svc_fetch user tick svc
      | None \<Rightarrow> svc_fetch user tick svc)"

type_synonym 'a svc_step = "(perm_service, 'a) step"

definition sources_of :: "session_user \<Rightarrow> time \<Rightarrow> decision_source list svc_step" where
  "sources_of user tick svc = (case svc_sources user tick svc of (ss, svc') \<Rightarrow> (Inr ss, svc'))"

definition explain ::
  "string list \<Rightarrow> session_user \<Rightarrow> string \<Rightarrow> resource option \<Rightarrow> time \<Rightarrow> permission_decision svc_step" where
  "explain known user permission res tick =
     step_bind (step_res (normalize_permission_id known permission)) (\<lambda>expected.
     step_bind (sources_of user tick) (\<lambda>sources.
     step_return (decide sources expected (or_else res global_resource))))"

definition can ::
  "string list \<Rightarrow> session_user \<Rightarrow> string \<Rightarrow> resource option \<Rightarrow> time \<Rightarrow> bool svc_step" where
  "can known user permission res tick =
     step_bind (explain known user permission res tick) (\<lambda>d. step_return (dec_allowed d))"

definition svc_authorize ::
  "string list \<Rightarrow> session_user \<Rightarrow> string \<Rightarrow> resource option \<Rightarrow> time \<Rightarrow> unit svc_step" where
  "svc_authorize known user permission res tick =
     step_bind (explain known user permission res tick) (\<lambda>d.
     if dec_allowed d then step_return ()
     else step_raise (HTTPException 403 ''PERMISSION_REQUIRED''))"

fun explain_all ::
  "string list \<Rightarrow> session_user \<Rightarrow> string list \<Rightarrow> time \<Rightarrow> permission_decision list svc_step" where
  "explain_all known user [] tick = step_return []"
| "explain_all known user (p # ps) tick =
     step_bind (explain known user p None tick) (\<lambda>d.
     step_bind (explain_all known user ps tick) (\<lambda>ds.
     step_return (d # ds)))"

record effective_view =
  ev_permissions :: "permission_decision list"
  ev_allowed :: "string list"
  ev_denied :: "string list"

definition effective ::
  "string list \<Rightarrow> session_user \<Rightarrow> time \<Rightarrow> effective_view svc_step" where
  "effective known user tick =
     step_bind (sources_of user tick) (\<lambda>sources.
     step_bind (explain_all known user (sort_key codes (remdups (map ds_permission sources))) tick) (\<lambda>ds.
     step_return
       \<lparr>ev_permissions = ds,
        ev_allowed = map dec_permission (filter dec_allowed ds),
        ev_denied = map dec_permission (filter (\<lambda>d. \<not> dec_allowed d) ds)\<rparr>))"

section \<open>The one-way migration of legacy roles\<close>

definition legacy_role_name :: "string \<Rightarrow> string" where
  "legacy_role_name role =
     or_else (map_of [(''admin'', ''Administrator''), (''operator'', ''Operator''),
                      (''auditor'', ''Auditor''), (''user'', ''User'')]
                (if role = [] then ''user'' else role)) ''User''"

definition migration_origin :: "time \<Rightarrow> origin" where
  "migration_origin now = \<lparr>or_actor = ''legacy-migration'', or_source_ip = [], or_now = now\<rparr>"

text \<open>\<^verbatim>\<open>central.repository.assign_user_role\<close>, outside the cache.\<close>

definition assign_role_step :: "session_user \<Rightarrow> string \<Rightarrow> origin \<Rightarrow> unit svc_step" where
  "assign_role_step user rid og svc =
     (case assign_user_role user rid og (ps_db svc) of
        Inl e \<Rightarrow> (Inl e, svc) | Inr db \<Rightarrow> (Inr (), svc\<lparr>ps_db := db\<rparr>))"

definition migrate_legacy_assignment ::
  "(string \<Rightarrow> string) \<Rightarrow> session_user \<Rightarrow> time \<Rightarrow> time \<Rightarrow> bool svc_step" where
  "migrate_legacy_assignment legacy_role user now tick =
     (if su_auth_provider user = Prov_ldap then step_return False
      else
        let rid = system_role_id (legacy_role_name (legacy_role (su_username user)))
        in step_bind (sources_of user tick) (\<lambda>sources.
           if list_ex (\<lambda>s. ds_source_type s = Src_direct_role \<and> ds_source_id s = rid) sources
           then step_return False
           else step_bind (assign_role_step user rid (migration_origin now)) (\<lambda>_.
                step_bind (step_modify svc_invalidate) (\<lambda>_. step_return True))))"

text \<open>
  \<open>if not central.can(user, p) and migrate(user): invalidate\<close>, then
  \<open>central.authorize(user, p, resource)\<close>: the body \<^verbatim>\<open>rbac.authorize\<close>,
  \<^verbatim>\<open>_authorize_user\<close> and \<^verbatim>\<open>permissions.authorize\<close> share.
\<close>

definition authorize ::
  "string list \<Rightarrow> (string \<Rightarrow> string) \<Rightarrow> session_user \<Rightarrow> string \<Rightarrow> resource option \<Rightarrow> time \<Rightarrow> time
     \<Rightarrow> unit svc_step" where
  "authorize known legacy_role user permission res now tick =
     step_bind (can known user permission None tick) (\<lambda>allowed.
     step_bind (if allowed then step_return False
                else migrate_legacy_assignment legacy_role user now tick) (\<lambda>migrated.
     step_bind (if migrated then step_modify svc_invalidate else step_return ()) (\<lambda>_.
     svc_authorize known user permission res tick)))"

definition pam_subject :: "string \<Rightarrow> session_user" where
  "pam_subject username =
     \<lparr>su_username = username, su_csrf_token = [], su_auth_provider = Prov_pam,
      su_identity_id = username\<rparr>"

definition has_permission ::
  "string list \<Rightarrow> (string \<Rightarrow> string) \<Rightarrow> string \<Rightarrow> string \<Rightarrow> time \<Rightarrow> time \<Rightarrow> bool svc_step" where
  "has_permission known legacy_role username permission now tick =
     step_bind (can known (pam_subject username) permission None tick) (\<lambda>allowed.
     if allowed then step_return True
     else step_bind (migrate_legacy_assignment legacy_role (pam_subject username) now tick) (\<lambda>migrated.
          if \<not> migrated then step_return False
          else step_bind (step_modify svc_invalidate) (\<lambda>_.
               can known (pam_subject username) permission None tick)))"

text \<open>
  \<^verbatim>\<open>permissions.has_permission\<close> first reads the name through the registry; an unknown name is
  refused, never an error.
\<close>

definition registry_has_permission ::
  "string list \<Rightarrow> (string \<Rightarrow> string) \<Rightarrow> string \<Rightarrow> string \<Rightarrow> time \<Rightarrow> time \<Rightarrow> bool svc_step" where
  "registry_has_permission known legacy_role username permission now tick =
     (case normalize_permission known permission of
        Inl _ \<Rightarrow> step_return False
      | Inr expected \<Rightarrow> has_permission known legacy_role username expected now tick)"

definition registry_authorize ::
  "string list \<Rightarrow> (string \<Rightarrow> string) \<Rightarrow> session_user \<Rightarrow> string \<Rightarrow> time \<Rightarrow> time \<Rightarrow> unit svc_step" where
  "registry_authorize known legacy_role user permission now tick =
     step_bind (step_res (normalize_permission known permission)) (\<lambda>expected.
     authorize known legacy_role user expected None now tick)"

section \<open>Guards of requests\<close>

record environment =
  env_hash :: "string \<Rightarrow> string"
  env_validate_ldap :: "string \<Rightarrow> string \<Rightarrow> bool"
  env_known :: "string list"
  env_legacy_role :: "string \<Rightarrow> string"
  env_uuid5 :: "string \<Rightarrow> string"

record request =
  rq_method :: string
  rq_cookie :: "string option"
  rq_csrf :: "string option"
  rq_client_host :: string

record app =
  app_sessions :: session_store
  app_rbac :: perm_service

type_synonym 'a app_step = "(app, 'a) step"

definition current_user :: "environment \<Rightarrow> request \<Rightarrow> time \<Rightarrow> time \<Rightarrow> session_user app_step" where
  "current_user env rq now tick app =
     (case get_session_user (env_hash env) (env_validate_ldap env) (rq_cookie rq) now tick
             (app_sessions app) of
        (r, st) \<Rightarrow> (r, app\<lparr>app_sessions := st\<rparr>))"

text \<open>A step of the authorization service, inside the application.\<close>

definition on_rbac :: "'a svc_step \<Rightarrow> 'a app_step" where
  "on_rbac f app = (case f (app_rbac app) of (r, svc) \<Rightarrow> (r, app\<lparr>app_rbac := svc\<rparr>))"

text \<open>A guard: the session, then the CSRF token when asked for, then the authorization.\<close>

definition guarded_user ::
  "environment \<Rightarrow> request \<Rightarrow> bool \<Rightarrow> (session_user \<Rightarrow> unit svc_step) \<Rightarrow> time \<Rightarrow> time \<Rightarrow> session_user app_step" where
  "guarded_user env rq check_csrf authorization now tick =
     step_bind (current_user env rq now tick) (\<lambda>user.
     step_bind (step_res (if check_csrf then require_csrf (rq_csrf rq) user else Inr ())) (\<lambda>_.
     step_bind (on_rbac (authorization user)) (\<lambda>_.
     step_return user)))"

definition authorize_user ::
  "environment \<Rightarrow> request \<Rightarrow> string \<Rightarrow> bool \<Rightarrow> time \<Rightarrow> time \<Rightarrow> session_user app_step" where
  "authorize_user env rq permission mutate now tick =
     guarded_user env rq mutate
       (\<lambda>user. authorize (env_known env) (env_legacy_role env) user permission None now tick) now tick"

definition rbac_read :: "environment \<Rightarrow> request \<Rightarrow> time \<Rightarrow> time \<Rightarrow> session_user app_step" where
  "rbac_read env rq now tick = authorize_user env rq ''rbac.read'' False now tick"

definition rbac_write :: "environment \<Rightarrow> request \<Rightarrow> time \<Rightarrow> time \<Rightarrow> session_user app_step" where
  "rbac_write env rq now tick = authorize_user env rq ''rbac.manage'' True now tick"

definition mutating_user :: "environment \<Rightarrow> request \<Rightarrow> time \<Rightarrow> time \<Rightarrow> session_user app_step" where
  "mutating_user env rq now tick = guarded_user env rq True (\<lambda>_. step_return ()) now tick"

text \<open>\<open>mutating = None\<close> is the default argument.\<close>

definition require_permission ::
  "environment \<Rightarrow> request \<Rightarrow> string \<Rightarrow> bool option \<Rightarrow> time \<Rightarrow> time \<Rightarrow> session_user app_step" where
  "require_permission env rq permission mutating now tick =
     guarded_user env rq
       (mutating \<noteq> Some False \<and> rq_method rq \<notin> {''GET'', ''HEAD'', ''OPTIONS''})
       (\<lambda>user. authorize (env_known env) (env_legacy_role env) user permission None now tick) now tick"

text \<open>
  \<^verbatim>\<open>permissions.require_permission\<close>: the CSRF check follows the registry's classification of the
  permission, not the method; an unknown permission fails when the route is declared.
\<close>

definition registry_require_permission ::
  "environment \<Rightarrow> request \<Rightarrow> string \<Rightarrow> bool option \<Rightarrow> time \<Rightarrow> time \<Rightarrow> session_user app_step res" where
  "registry_require_permission env rq permission mutating now tick =
     rbind (normalize_permission (env_known env) permission) (\<lambda>expected.
     rbind (metadata expected) (\<lambda>m.
       Inr (guarded_user env rq (or_else mutating (pm_mutating m))
              (\<lambda>user. registry_authorize (env_known env) (env_legacy_role env) user expected now tick)
              now tick)))"

section \<open>The handlers of \<^verbatim>\<open>/api/rbac\<close>\<close>

record user_role_input =
  uri_username :: string
  uri_auth_provider :: auth_provider
  uri_identity_id :: string
  uri_role_id :: string

text \<open>The mutating requests, with their path parameters and bodies.\<close>

datatype role_request =
    Rq_create_role role_input
  | Rq_update_role string role_patch
  | Rq_delete_role string
  | Rq_duplicate_role string

datatype group_request =
    Rq_create_group group_input
  | Rq_update_group string group_patch
  | Rq_delete_group string
  | Rq_set_group_members string "member_input list"

datatype principal_request =
    Rq_assign_user_role string user_role_input
  | Rq_revoke_user_role string string auth_provider string

datatype policy_request =
    Rq_create_policy policy_input
  | Rq_update_policy string policy_patch
  | Rq_delete_policy string

datatype mapping_request =
    Rq_map_external_group string string
  | Rq_unmap_external_group string string

datatype rbac_request =
    Rq_role role_request
  | Rq_group group_request
  | Rq_principal principal_request
  | Rq_policy policy_request
  | Rq_mapping mapping_request

definition subject_of :: "string \<Rightarrow> auth_provider \<Rightarrow> string \<Rightarrow> session_user" where
  "subject_of username provider identity =
     \<lparr>su_username = username, su_csrf_token = [], su_auth_provider = provider,
      su_identity_id = (if identity = [] then username else identity)\<rparr>"

definition duplicate_input :: "role_view \<Rightarrow> role_input" where
  "duplicate_input source =
     \<lparr>ri_name = role_name (fst source) @ '' Copy'', ri_description = role_description (fst source),
      ri_active = True, ri_permissions = snd source\<rparr>"

text \<open>The repository call each handler makes.\<close>

fun role_request_op :: "rbac_db \<Rightarrow> string \<Rightarrow> origin \<Rightarrow> role_request \<Rightarrow> rbac_op res" where
  "role_request_op db new_id og (Rq_create_role r) = Inr (Op_create_role new_id og r)"
| "role_request_op db new_id og (Rq_update_role rid r) = Inr (Op_update_role rid og r)"
| "role_request_op db new_id og (Rq_delete_role rid) = Inr (Op_delete_role rid og)"
| "role_request_op db new_id og (Rq_duplicate_role rid) =
     rbind (repo_role db rid) (\<lambda>source. Inr (Op_create_role new_id og (duplicate_input source)))"

fun group_request_op :: "string \<Rightarrow> origin \<Rightarrow> group_request \<Rightarrow> rbac_op" where
  "group_request_op new_id og (Rq_create_group g) = Op_create_group new_id og g"
| "group_request_op new_id og (Rq_update_group gid g) = Op_update_group gid og g"
| "group_request_op new_id og (Rq_delete_group gid) = Op_delete_group gid og"
| "group_request_op new_id og (Rq_set_group_members gid ms) = Op_set_group_members gid og ms"

fun principal_request_op :: "origin \<Rightarrow> principal_request \<Rightarrow> rbac_op res" where
  "principal_request_op og (Rq_assign_user_role username b) =
     (if username \<noteq> uri_username b then Inl (HTTPException 400 ''Username does not match route'')
      else Inr (Op_assign_user_role
             (subject_of (uri_username b) (uri_auth_provider b) (uri_identity_id b)) (uri_role_id b) og))"
| "principal_request_op og (Rq_revoke_user_role username rid provider identity) =
     Inr (Op_revoke_user_role (subject_of username provider identity) rid og)"

fun policy_request_op :: "string \<Rightarrow> origin \<Rightarrow> policy_request \<Rightarrow> rbac_op" where
  "policy_request_op new_id og (Rq_create_policy p) = Op_create_policy new_id og p"
| "policy_request_op new_id og (Rq_update_policy pid p) = Op_update_policy pid og p"
| "policy_request_op new_id og (Rq_delete_policy pid) = Op_delete_policy pid og"

fun mapping_request_op :: "origin \<Rightarrow> mapping_request \<Rightarrow> rbac_op" where
  "mapping_request_op og (Rq_map_external_group gid rid) = Op_map_external_group_role gid rid og"
| "mapping_request_op og (Rq_unmap_external_group gid rid) = Op_unmap_external_group_role gid rid og"

fun op_of_request :: "rbac_db \<Rightarrow> string \<Rightarrow> origin \<Rightarrow> rbac_request \<Rightarrow> rbac_op res" where
  "op_of_request db new_id og (Rq_role r) = role_request_op db new_id og r"
| "op_of_request db new_id og (Rq_group r) = Inr (group_request_op new_id og r)"
| "op_of_request db new_id og (Rq_principal r) = principal_request_op og r"
| "op_of_request db new_id og (Rq_policy r) = Inr (policy_request_op new_id og r)"
| "op_of_request db new_id og (Rq_mapping r) = Inr (mapping_request_op og r)"

text \<open>The call on the repository, then \<open>permission_service().invalidate()\<close>.\<close>

definition perform_request ::
  "environment \<Rightarrow> string \<Rightarrow> origin \<Rightarrow> rbac_request \<Rightarrow> unit svc_step" where
  "perform_request env new_id og body svc =
     (case rbind (op_of_request (ps_db svc) new_id og body)
             (\<lambda>op. apply_rbac_op (env_known env) (env_uuid5 env) op (ps_db svc)) of
        Inl e \<Rightarrow> (Inl e, svc)
      | Inr db \<Rightarrow> (Inr (), svc_invalidate (svc\<lparr>ps_db := db\<rparr>)))"

definition handle_request ::
  "environment \<Rightarrow> request \<Rightarrow> string \<Rightarrow> rbac_request \<Rightarrow> time \<Rightarrow> time \<Rightarrow> unit app_step" where
  "handle_request env rq new_id body now tick =
     step_bind (rbac_write env rq now tick) (\<lambda>user.
     on_rbac (perform_request env new_id
       \<lparr>or_actor = su_username user, or_source_ip = rq_client_host rq, or_now = now\<rparr> body))"

text \<open>\<^verbatim>\<open>GET /api/rbac/me\<close>, \<^verbatim>\<open>POST /api/rbac/simulate\<close> and the view of one user.\<close>

definition rbac_me :: "environment \<Rightarrow> request \<Rightarrow> time \<Rightarrow> time \<Rightarrow> effective_view app_step" where
  "rbac_me env rq now tick =
     step_bind (current_user env rq now tick) (\<lambda>user.
     on_rbac (step_bind (sources_of user tick) (\<lambda>sources.
       step_bind (if sources = [] then migrate_legacy_assignment (env_legacy_role env) user now tick
                  else step_return False) (\<lambda>_.
       effective (env_known env) user tick))))"

definition simulate ::
  "environment \<Rightarrow> request \<Rightarrow> string \<Rightarrow> auth_provider \<Rightarrow> string \<Rightarrow> string \<Rightarrow> resource
     \<Rightarrow> time \<Rightarrow> time \<Rightarrow> permission_decision app_step" where
  "simulate env rq username provider identity permission res now tick =
     step_bind (rbac_read env rq now tick) (\<lambda>_.
     on_rbac (explain (env_known env) (subject_of username provider identity) permission (Some res) tick))"

definition effective_permissions ::
  "environment \<Rightarrow> request \<Rightarrow> string \<Rightarrow> auth_provider \<Rightarrow> string \<Rightarrow> time \<Rightarrow> time \<Rightarrow> effective_view app_step" where
  "effective_permissions env rq username provider identity now tick =
     step_bind (rbac_read env rq now tick) (\<lambda>_.
     on_rbac (effective (env_known env) (subject_of username provider identity) tick))"

section \<open>Permissions of module operations\<close>

datatype module_operation =
    Mop_view | Mop_operate | Mop_configure | Mop_install | Mop_reinstall | Mop_update
  | Mop_uninstall | Mop_backup | Mop_restore | Mop_backup_delete | Mop_logs | Mop_diagnostics

definition generic_module_permission :: "(module_operation \<times> string) list" where
  "generic_module_permission =
     [(Mop_view, ''modules.view''), (Mop_operate, ''modules.configure''),
      (Mop_configure, ''modules.configure''), (Mop_install, ''modules.install''),
      (Mop_update, ''modules.update''), (Mop_uninstall, ''modules.uninstall''),
      (Mop_backup, ''modules.backup_create''), (Mop_restore, ''modules.backup_restore''),
      (Mop_backup_delete, ''modules.backup_delete''), (Mop_logs, ''modules.logs''),
      (Mop_diagnostics, ''modules.diagnostics'')]"

definition module_permission :: "string \<Rightarrow> module_operation \<Rightarrow> string res" where
  "module_permission module_id operation =
     (let viewing = operation \<in> {Mop_view, Mop_logs, Mop_diagnostics};
          lifecycle = operation \<in> {Mop_install, Mop_reinstall, Mop_update, Mop_uninstall}
      in if module_id = ''ansible-controller'' then
           Inr (if viewing then ''ansible-controller.view''
                else if lifecycle then ''ansible-controller.install''
                else if operation = Mop_backup then ''ansible-controller.backup''
                else if operation = Mop_restore then ''ansible-controller.restore''
                else ''ansible-controller.configure'')
         else if lifecycle then
           Inr (if operation = Mop_install then ''modules.install''
                else if operation = Mop_uninstall then ''modules.uninstall'' else ''modules.update'')
         else if operation = Mop_backup_delete then Inr ''modules.backup_delete''
         else if module_id = ''linux-updates'' then
           Inr (if viewing then ''updates.view'' else ''updates.apply'')
         else if module_id = ''docker'' then
           Inr (if viewing then ''docker.view''
                else if operation = Mop_configure then ''docker.manage_compose''
                else ''docker.manage_containers'')
         else if module_id \<in> {''pihole'', ''adguard-home''} then
           Inr (if viewing then ''dns.view'' else ''dns.configure'')
         else if module_id \<in> {''postgresql'', ''mariadb'', ''redis''} then
           Inr (if viewing then ''databases.view''
                else if operation = Mop_restore then ''databases.restore''
                else if operation = Mop_backup then ''databases.backup''
                else ''databases.configure'')
         else if module_id = ''home-assistant'' then
           Inr (if viewing then ''homeassistant.view'' else ''homeassistant.operate'')
         else (case map_of generic_module_permission operation of
                 None \<Rightarrow> Inl (KeyError ''operation'') | Some p \<Rightarrow> Inr p))"

end
