(* ===== verification/Rbac_Decisions.thy ===== *)
theory Rbac_Decisions
  imports Rbac_Service
begin

text \<open>
  What the authorization service decides: the cache of effective sources is coherent in every
  reachable state of the application (the service meets the contract \<open>cached_reader\<close>), so a
  decision follows the database of the moment; explicit deny overrides; scopes match on path
  boundaries; and what the migration of legacy roles does to a revoked role.
\<close>

section \<open>The sources depend on the key of the cache only\<close>

lemma source_key_eq:
  assumes "source_key u = source_key v"
  shows "effective_sources db u = effective_sources db v"
proof -
  have k: "su_auth_provider u = su_auth_provider v" "identity_key u = identity_key v"
    "su_username u = su_username v"
    using assms by (auto simp: source_key_def)
  have "is_users u = is_users v" by (intro ext) (simp add: is_users_def k)
  moreover have "subject_matches db u = subject_matches db v"
    by (rule ext) (simp add: subject_matches_def is_users_def k split: prod.split subject_type.split)
  then have "policy_matches db u = policy_matches db v"
    by (intro ext) (simp add: policy_matches_def k cong: option.case_cong)
  ultimately show ?thesis
    by (simp add: effective_sources_def direct_sources_def local_group_sources_def
        ldap_group_sources_def policy_sources_def k cong: if_cong)
qed

definition svc_coherent :: "perm_service \<Rightarrow> bool" where
  "svc_coherent svc \<longleftrightarrow>
     (\<forall>user d ss. map_of (ps_cache svc) (source_key user) = Some (d, ss) \<longrightarrow>
        ss = effective_sources (ps_db svc) user)"

lemma coherent_new_service: "svc_coherent (new_perm_service db ttl)"
  by (simp add: svc_coherent_def new_perm_service_def)

lemma svc_coherent_invalidate: "svc_coherent (svc_invalidate svc)"
  by (simp add: svc_coherent_def svc_invalidate_def)

lemma map_of_filter_key: "map_of (filter (\<lambda>(k, _). k \<noteq> a) xs) b = (if b = a then None else map_of xs b)"
  by (induction xs) auto

lemma svc_fetch_facts:
  "fst (svc_fetch user tick svc) = effective_sources (ps_db svc) user"
  "ps_db (snd (svc_fetch user tick svc)) = ps_db svc"
  "svc_coherent svc \<Longrightarrow> svc_coherent (snd (svc_fetch user tick svc))"
proof -
  show "fst (svc_fetch user tick svc) = effective_sources (ps_db svc) user"
    "ps_db (snd (svc_fetch user tick svc)) = ps_db svc"
    by (simp_all add: svc_fetch_def Let_def)
  assume co: "svc_coherent svc"
  show "svc_coherent (snd (svc_fetch user tick svc))"
    unfolding svc_coherent_def
  proof (intro allI impI)
    fix u d ss
    assume *: "map_of (ps_cache (snd (svc_fetch user tick svc))) (source_key u) = Some (d, ss)"
    show "ss = effective_sources (ps_db (snd (svc_fetch user tick svc))) u"
    proof (cases "source_key u = source_key user")
      case True
      with * source_key_eq [OF True] show ?thesis by (simp add: svc_fetch_def Let_def)
    next
      case False
      with * have "map_of (ps_cache svc) (source_key u) = Some (d, ss)"
        by (simp add: svc_fetch_def Let_def map_of_filter_key)
      with co show ?thesis by (simp add: svc_coherent_def svc_fetch_def Let_def)
    qed
  qed
qed

lemma svc_sources_facts:
  assumes "svc_coherent svc"
  shows "fst (svc_sources user tick svc) = effective_sources (ps_db svc) user"
    and "ps_db (snd (svc_sources user tick svc)) = ps_db svc"
    and "svc_coherent (snd (svc_sources user tick svc))"
  using assms
  by (auto simp: svc_sources_def svc_fetch_facts svc_coherent_def [THEN iffD1, rule_format]
      split: option.split)

interpretation source_reader:
  cached_reader "\<lambda>svc user. svc_sources user tick svc" "\<lambda>svc user. effective_sources (ps_db svc) user"
    svc_coherent for tick
  by unfold_locales (simp_all add: svc_sources_facts)

text \<open>Service steps that keep coherence and change the database only as the preorder \<open>R\<close> allows.\<close>

definition keeps :: "(rbac_db \<Rightarrow> rbac_db \<Rightarrow> bool) \<Rightarrow> 'a svc_step \<Rightarrow> bool" where
  "keeps R f \<longleftrightarrow>
     (\<forall>svc r svc'. svc_coherent svc \<longrightarrow> f svc = (r, svc') \<longrightarrow> svc_coherent svc' \<and> R (ps_db svc) (ps_db svc'))"

lemma keepsD:
  "keeps R f \<Longrightarrow> svc_coherent svc \<Longrightarrow> f svc = (r, svc') \<Longrightarrow> svc_coherent svc' \<and> R (ps_db svc) (ps_db svc')"
  unfolding keeps_def by blast

lemma keeps_simple [inv_intros]:
  "reflp R \<Longrightarrow> keeps R (step_return x)"
  "reflp R \<Longrightarrow> keeps R (step_raise e)"
  "reflp R \<Longrightarrow> keeps R (step_res r)"
  "reflp R \<Longrightarrow> keeps R (step_modify svc_invalidate)"
  "reflp R \<Longrightarrow> keeps R (sources_of user tick)"
      apply (simp_all add: keeps_def step_simps reflp_def)
   apply (auto simp: svc_invalidate_def svc_coherent_def) [1]
  apply (auto simp: sources_of_def split: prod.splits)
   apply (metis snd_conv svc_sources_facts(3))
  apply (metis snd_conv svc_sources_facts(2))
  done

lemma keeps_bind [inv_intros]:
  assumes "transp R" and "keeps R f" and "\<And>x. keeps R (g x)"
  shows "keeps R (step_bind f g)"
  unfolding keeps_def
proof (intro allI impI)
  fix svc r svc' assume co: "svc_coherent svc" and run: "step_bind f g svc = (r, svc')"
  obtain r1 svc1 where f: "f svc = (r1, svc1)" by fastforce
  note f1 = keepsD [OF assms(2) co f]
  show "svc_coherent svc' \<and> R (ps_db svc) (ps_db svc')"
  proof (cases r1)
    case (Inl e)
    with run f f1 show ?thesis by (simp add: step_bind_def)
  next
    case (Inr x)
    with run f have "g x svc1 = (r, svc')" by (simp add: step_bind_def)
    with keepsD [OF assms(3)] f1 assms(1) show ?thesis by (blast dest: transpD)
  qed
qed

lemma keeps_if [inv_intros]: "keeps R f \<Longrightarrow> keeps R g \<Longrightarrow> keeps R (if b then f else g)"
  by simp

lemma keeps_explain [inv_intros]: "reflp R \<Longrightarrow> transp R \<Longrightarrow> keeps R (explain known user p res tick)"
  unfolding explain_def by (intro inv_intros)

lemma keeps_can [inv_intros]: "reflp R \<Longrightarrow> transp R \<Longrightarrow> keeps R (can known user p res tick)"
  unfolding can_def by (intro inv_intros)

lemma keeps_svc_authorize [inv_intros]:
  "reflp R \<Longrightarrow> transp R \<Longrightarrow> keeps R (svc_authorize known user p res tick)"
  unfolding svc_authorize_def by (intro inv_intros)

lemma keeps_explain_all [inv_intros]:
  "reflp R \<Longrightarrow> transp R \<Longrightarrow> keeps R (explain_all known user ps tick)"
  by (induction ps) (auto intro!: inv_intros)

lemma keeps_effective [inv_intros]: "reflp R \<Longrightarrow> transp R \<Longrightarrow> keeps R (effective known user tick)"
  unfolding effective_def by (intro inv_intros)

text \<open>The preorder that allows assignments of roles.\<close>

definition admits_assignment :: "(rbac_db \<Rightarrow> rbac_db \<Rightarrow> bool) \<Rightarrow> bool" where
  "admits_assignment R \<longleftrightarrow> (\<forall>d user rid og d'. assign_user_role user rid og d = Inr d' \<longrightarrow> R d d')"

text \<open>The assignment leaves the cache behind; the invalidation that follows repairs it.\<close>

lemma keeps_assign_and_invalidate [inv_intros]:
  assumes "reflp R" and "admits_assignment R"
  shows "keeps R (step_bind (assign_role_step user rid og) (\<lambda>_.
           step_bind (step_modify svc_invalidate) (\<lambda>_. step_return x)))"
  using assms
  by (auto simp: keeps_def step_bind_def assign_role_step_def step_simps svc_invalidate_def
      reflp_def admits_assignment_def svc_coherent_def split: sum.splits)

lemma keeps_migrate [inv_intros]:
  "reflp R \<Longrightarrow> transp R \<Longrightarrow> admits_assignment R \<Longrightarrow> keeps R (migrate_legacy_assignment L user now tick)"
  unfolding migrate_legacy_assignment_def Let_def
  by (intro keeps_if keeps_bind keeps_assign_and_invalidate keeps_simple)

lemma keeps_authorize [inv_intros]:
  "reflp R \<Longrightarrow> transp R \<Longrightarrow> admits_assignment R \<Longrightarrow> keeps R (authorize known L user p res now tick)"
  unfolding authorize_def by (intro inv_intros)

lemma keeps_has_permission [inv_intros]:
  "reflp R \<Longrightarrow> transp R \<Longrightarrow> admits_assignment R \<Longrightarrow> keeps R (has_permission known L username p now tick)"
  unfolding has_permission_def by (intro inv_intros)

lemma keeps_perform_request [inv_intros]:
  assumes "reflp R"
    and "\<And>d d' op. apply_rbac_op (env_known env) (env_uuid5 env) op d = Inr d' \<Longrightarrow> R d d'"
  shows "keeps R (perform_request env new_id og body)"
  using assms
  by (auto simp: keeps_def perform_request_def res_iff svc_invalidate_def reflp_def svc_coherent_def
      split: sum.splits)

section \<open>What the queries answer\<close>

lemma sources_of_Inr:
  "svc_coherent svc \<Longrightarrow> sources_of user tick svc = (Inr ss, svc') \<Longrightarrow>
     ss = effective_sources (ps_db svc) user"
  using svc_sources_facts(1) [of svc user tick] by (auto simp: sources_of_def split: prod.splits)

lemma explain_exact:
  assumes "svc_coherent svc"
  shows "fst (explain known user p res tick svc) =
     rbind (normalize_permission_id known p)
       (\<lambda>q. Inr (decide (effective_sources (ps_db svc) user) q (or_else res global_resource)))"
  using svc_sources_facts(1) [OF assms, of user tick]
  by (auto simp: explain_def step_bind_def step_simps sources_of_def split: sum.split prod.split)

lemma can_exact:
  assumes "svc_coherent svc"
  shows "fst (can known user p res tick svc) =
     rbind (normalize_permission_id known p)
       (\<lambda>q. Inr (dec_allowed (decide (effective_sources (ps_db svc) user) q (or_else res global_resource))))"
  using svc_sources_facts(1) [OF assms, of user tick]
  by (auto simp: can_def explain_def step_bind_def step_simps sources_of_def
      split: sum.split prod.split)

lemma svc_authorize_Inr:
  assumes "svc_coherent svc" and "svc_authorize known user p res tick svc = (Inr (), svc')"
  shows "ps_db svc' = ps_db svc \<and> (\<exists>q. normalize_permission_id known p = Inr q
           \<and> dec_allowed (decide (effective_sources (ps_db svc) user) q (or_else res global_resource)))"
proof -
  have "keeps (=) (svc_authorize known user p res tick)" by (intro inv_intros) auto
  with assms have "ps_db svc' = ps_db svc" by (auto dest: keepsD)
  moreover obtain d where "fst (explain known user p res tick svc) = Inr d" "dec_allowed d"
    using assms(2) by (auto simp: svc_authorize_def res_iff split: if_splits)
  ultimately show ?thesis
    using explain_exact [OF assms(1), of known user p res tick] by (auto simp: res_iff)
qed

section \<open>The application as a state machine\<close>

datatype app_event =
    App_session session_event
  | App_guard request string bool
  | App_require request string "bool option"
  | App_authorize session_user string "resource option"
  | App_has_permission string string
  | App_request request string rbac_request
  | App_me request
  | App_simulate request string auth_provider string string resource
  | App_effective request string auth_provider string

fun apply_app_event :: "environment \<Rightarrow> time \<Rightarrow> time \<Rightarrow> app_event \<Rightarrow> app \<Rightarrow> app" where
  "apply_app_event env now tick (App_session ev) app =
     app\<lparr>app_sessions := apply_session_event (env_hash env) now tick ev (app_sessions app)\<rparr>"
| "apply_app_event env now tick (App_guard rq p m) app = snd (authorize_user env rq p m now tick app)"
| "apply_app_event env now tick (App_require rq p m) app = snd (require_permission env rq p m now tick app)"
| "apply_app_event env now tick (App_authorize u p res) app =
     snd (on_rbac (authorize (env_known env) (env_legacy_role env) u p res now tick) app)"
| "apply_app_event env now tick (App_has_permission name p) app =
     snd (on_rbac (has_permission (env_known env) (env_legacy_role env) name p now tick) app)"
| "apply_app_event env now tick (App_request rq i body) app = snd (handle_request env rq i body now tick app)"
| "apply_app_event env now tick (App_me rq) app = snd (rbac_me env rq now tick app)"
| "apply_app_event env now tick (App_simulate rq n pr i p res) app =
     snd (simulate env rq n pr i p res now tick app)"
| "apply_app_event env now tick (App_effective rq n pr i) app =
     snd (effective_permissions env rq n pr i now tick app)"

inductive app_step :: "environment \<Rightarrow> time \<times> app \<Rightarrow> time \<times> app \<Rightarrow> bool" for env where
  app_stepI: "t \<le> now \<Longrightarrow> app_step env (t, app) (now, apply_app_event env now tick ev app)"

inductive_cases app_stepE: "app_step env s s'"

text \<open>The process starts with no session and on an initialised database.\<close>

definition app_init :: "time \<times> app \<Rightarrow> bool" where
  "app_init s \<longleftrightarrow>
     (\<exists>ttl n. app_sessions (snd s) = new_session_store ttl n) \<and>
     (\<exists>db ttl. rbac_init db \<and> app_rbac (snd s) = new_perm_service db ttl)"

definition app_good :: "time \<Rightarrow> app \<Rightarrow> bool" where
  "app_good now app \<longleftrightarrow> store_coherent now (app_sessions app) \<and> svc_coherent (app_rbac app)"

definition app_keeps :: "environment \<Rightarrow> time \<Rightarrow> 'a app_step \<Rightarrow> bool" where
  "app_keeps env now f \<longleftrightarrow>
     (\<forall>app r app'. app_good now app \<longrightarrow> f app = (r, app') \<longrightarrow> app_good now app' \<and>
        (rbac_step (env_uuid5 env))\<^sup>*\<^sup>* (ps_db (app_rbac app)) (ps_db (app_rbac app')))"

lemma app_keepsD:
  "app_keeps env now f \<Longrightarrow> app_good now app \<Longrightarrow> f app = (r, app') \<Longrightarrow> app_good now app' \<and>
     (rbac_step (env_uuid5 env))\<^sup>*\<^sup>* (ps_db (app_rbac app)) (ps_db (app_rbac app'))"
  unfolding app_keeps_def by blast

lemma app_keeps_simple [inv_intros]:
  "app_keeps env now (step_return x)" "app_keeps env now (step_res r)"
  by (simp_all add: app_keeps_def step_simps)

lemma app_keeps_bind [inv_intros]:
  assumes "app_keeps env now f" and "\<And>x. app_keeps env now (g x)"
  shows "app_keeps env now (step_bind f g)"
  unfolding app_keeps_def
proof (intro allI impI)
  fix app r app' assume co: "app_good now app" and run: "step_bind f g app = (r, app')"
  obtain r1 app1 where f: "f app = (r1, app1)" by fastforce
  note f1 = app_keepsD [OF assms(1) co f]
  show "app_good now app' \<and> (rbac_step (env_uuid5 env))\<^sup>*\<^sup>* (ps_db (app_rbac app)) (ps_db (app_rbac app'))"
  proof (cases r1)
    case (Inl e)
    with run f f1 show ?thesis by (simp add: step_bind_def)
  next
    case (Inr x)
    with run f have "g x app1 = (r, app')" by (simp add: step_bind_def)
    with app_keepsD [OF assms(2)] f1 show ?thesis by (blast intro: rtranclp_trans)
  qed
qed

lemma app_keeps_on_rbac [inv_intros]:
  "keeps (rbac_step (env_uuid5 env))\<^sup>*\<^sup>* f \<Longrightarrow> app_keeps env now (on_rbac f)"
  by (auto simp: app_keeps_def on_rbac_def app_good_def split: prod.splits dest: keepsD)

lemma coherent_get_session_user:
  assumes "store_coherent now st" and "get_session_user H v cookie now tick st = (r, st')"
  shows "store_coherent now st'"
proof (cases "cookie = None \<or> cookie = Some []")
  case True
  with assms show ?thesis by (auto simp: get_session_user_def)
next
  case False
  then obtain raw where raw: "cookie = Some raw" "raw \<noteq> []" by auto
  obtain m st1 where res: "sstore_resolve H raw now tick st = (m, st1)" by fastforce
  have st1: "store_coherent now st1"
    using coherent_resolve [OF assms(1), of H raw tick] res by simp
  then show ?thesis
    using assms(2) raw coherent_revoke [OF st1, of H raw]
    by (auto simp: get_session_user_def res split: option.splits if_splits)
qed

lemma app_keeps_current_user [inv_intros]: "app_keeps env now (current_user env rq now tick)"
  unfolding app_keeps_def
proof (intro allI impI)
  fix app r app' assume good: "app_good now app" and run: "current_user env rq now tick app = (r, app')"
  then obtain st where
    "get_session_user (env_hash env) (env_validate_ldap env) (rq_cookie rq) now tick (app_sessions app) = (r, st)"
    and app': "app' = app\<lparr>app_sessions := st\<rparr>"
    by (auto simp: current_user_def split: prod.splits)
  then have "store_coherent now st"
    using good by (auto simp: app_good_def intro: coherent_get_session_user)
  with good show "app_good now app' \<and>
      (rbac_step (env_uuid5 env))\<^sup>*\<^sup>* (ps_db (app_rbac app)) (ps_db (app_rbac app'))"
    by (simp add: app' app_good_def)
qed

lemma app_keeps_guarded_user [inv_intros]:
  "(\<And>user. keeps (rbac_step (env_uuid5 env))\<^sup>*\<^sup>* (f user)) \<Longrightarrow> app_keeps env now (guarded_user env rq b f now tick)"
  unfolding guarded_user_def by (intro inv_intros)

lemma rbac_steps_preorder [inv_intros]:
  "reflp (rbac_step U)\<^sup>*\<^sup>*" "transp (rbac_step U)\<^sup>*\<^sup>*" "admits_assignment (rbac_step U)\<^sup>*\<^sup>*"
proof -
  show "reflp (rbac_step U)\<^sup>*\<^sup>*" "transp (rbac_step U)\<^sup>*\<^sup>*"
    by (auto simp: reflp_def transp_def)
  show "admits_assignment (rbac_step U)\<^sup>*\<^sup>*"
    unfolding admits_assignment_def
  proof (intro allI impI)
    fix d user rid og d' assume "assign_user_role user rid og d = Inr d'"
    then have "apply_rbac_op [] U (Op_assign_user_role user rid og) d = Inr d'" by simp
    then show "(rbac_step U)\<^sup>*\<^sup>* d d'" by (blast intro: rbac_step.intros)
  qed
qed

lemma app_keeps_authorize_user [inv_intros]: "app_keeps env now (authorize_user env rq p m now tick)"
  unfolding authorize_user_def by (intro inv_intros)

lemma app_keeps_require_permission [inv_intros]: "app_keeps env now (require_permission env rq p m now tick)"
  unfolding require_permission_def by (intro inv_intros)

lemma keeps_request_steps [inv_intros]:
  "keeps (rbac_step (env_uuid5 env))\<^sup>*\<^sup>* (perform_request env new_id og body)"
  by (rule keeps_perform_request) (auto intro: inv_intros rbac_step.intros)

lemma app_keeps_handle_request [inv_intros]: "app_keeps env now (handle_request env rq i body now tick)"
  unfolding handle_request_def rbac_write_def by (intro inv_intros)

lemma app_keeps_rbac_me [inv_intros]: "app_keeps env now (rbac_me env rq now tick)"
  unfolding rbac_me_def by (intro inv_intros)

lemma app_keeps_simulate [inv_intros]: "app_keeps env now (simulate env rq n pr i p res now tick)"
  unfolding simulate_def rbac_read_def by (intro inv_intros)

lemma app_keeps_effective_permissions [inv_intros]:
  "app_keeps env now (effective_permissions env rq n pr i now tick)"
  unfolding effective_permissions_def rbac_read_def by (intro inv_intros)

definition app_inv :: "environment \<Rightarrow> time \<times> app \<Rightarrow> bool" where
  "app_inv env s \<longleftrightarrow> app_good (fst s) (snd s) \<and>
     reaches rbac_init (rbac_step (env_uuid5 env)) (ps_db (app_rbac (snd s)))"

lemma reaches_steps: "(step)\<^sup>*\<^sup>* s t \<Longrightarrow> reaches init step s \<Longrightarrow> reaches init step t"
  by (induction rule: rtranclp_induct) (auto intro: reaches_step)

lemma app_inv_event:
  assumes "app_inv env (t, app)" and "t \<le> now"
  shows "app_inv env (now, apply_app_event env now tick ev app)"
proof -
  have good: "app_good now app" and db: "reaches rbac_init (rbac_step (env_uuid5 env)) (ps_db (app_rbac app))"
    using assms by (auto simp: app_inv_def app_good_def intro: store_coherent_later)
  have step: "app_inv env (now, snd (f app))" if "app_keeps env now f" for f :: "'a app_step"
  proof -
    obtain r app' where "f app = (r, app')" by fastforce
    with app_keepsD [OF that good this] db show ?thesis
      by (auto simp: app_inv_def intro: reaches_steps)
  qed
  have auth: "app_keeps env now (on_rbac (authorize (env_known env) (env_legacy_role env) u p res now tick))"
    "app_keeps env now (on_rbac (has_permission (env_known env) (env_legacy_role env) n p now tick))"
    for u p res n by (intro inv_intros)+
  show ?thesis
  proof (cases ev)
    case (App_session sev)
    have "store_coherent now (apply_session_event (env_hash env) now tick sev (app_sessions app))"
      using good by (auto simp: app_good_def intro: coherent_event)
    with good db App_session show ?thesis by (simp add: app_inv_def app_good_def)
  qed (auto intro!: inv_intros intro: step auth)
qed

interpretation app_machine: machine_invariant app_init "app_step env" "app_inv env" for env
proof unfold_locales
  show "app_inv env s" if "app_init s" for s
    using that
    by (auto simp: app_init_def app_inv_def app_good_def coherent_new coherent_new_service
        intro!: reaches_init)
       (simp add: new_perm_service_def)
  show "app_inv env t" if "app_inv env s" "app_step env s t" for s t
    using that by (auto elim!: app_stepE intro: app_inv_event)
qed

section \<open>Deny overrides\<close>

definition applies :: "decision_source \<Rightarrow> string \<Rightarrow> resource \<Rightarrow> bool" where
  "applies s q res \<longleftrightarrow> ds_permission s = q \<and> resource_matches s res"

text \<open>The abstract rule: some applicable allow and no applicable deny.\<close>

definition granted :: "decision_source set \<Rightarrow> string \<Rightarrow> resource \<Rightarrow> bool" where
  "granted S q res \<longleftrightarrow>
     (\<exists>s \<in> S. applies s q res \<and> ds_effect s = Eff_allow) \<and>
     \<not> (\<exists>s \<in> S. applies s q res \<and> ds_effect s = Eff_deny)"

lemma decide_granted: "dec_allowed (decide ss q res) \<longleftrightarrow> granted (set ss) q res"
proof -
  let ?ms = "filter (\<lambda>s. ds_permission s = q \<and> resource_matches s res) ss"
  have "filter (\<lambda>s. ds_effect s = Eff_deny) ?ms \<noteq> []
      \<longleftrightarrow> (\<exists>s \<in> set ss. applies s q res \<and> ds_effect s = Eff_deny)"
    "filter (\<lambda>s. ds_effect s = Eff_allow) ?ms \<noteq> []
      \<longleftrightarrow> (\<exists>s \<in> set ss. applies s q res \<and> ds_effect s = Eff_allow)"
    by (auto simp: applies_def filter_empty_conv)
  then show ?thesis
    unfolding decide_def granted_def Let_def by auto
qed

lemma decide_frame [simp]:
  "dec_permission (decide ss q res) = q" "dec_resource (decide ss q res) = res"
  by (simp_all add: decide_def Let_def)

lemma authorize_Inr:
  assumes "svc_coherent svc"
    and "authorize known L user p res now tick svc = (Inr (), svc')"
  shows "\<exists>q. normalize_permission_id known p = Inr q
     \<and> granted (set (effective_sources (ps_db svc') user)) q (or_else res global_resource)"
proof -
  obtain a b svc1 svc2 svc3 where
    1: "can known user p None tick svc = (Inr a, svc1)"
    and 2: "(if a then step_return False else migrate_legacy_assignment L user now tick) svc1 = (Inr b, svc2)"
    and 3: "(if b then step_modify svc_invalidate else step_return ()) svc2 = (Inr (), svc3)"
    and 4: "svc_authorize known user p res tick svc3 = (Inr (), svc')"
    using assms(2) unfolding authorize_def step_bind_Inr_iff by auto
  let ?R = "\<lambda>_ _ :: rbac_db. True"
  have R: "reflp ?R" "transp ?R" "admits_assignment ?R"
    by (auto simp: reflp_def transp_def admits_assignment_def)
  have "svc_coherent svc1" using keepsD [OF keeps_can [OF R(1,2)] assms(1) 1] by simp
  moreover have "keeps ?R (if a then step_return False else migrate_legacy_assignment L user now tick)"
    using R by (intro inv_intros)
  ultimately have "svc_coherent svc2" using keepsD 2 by blast
  then have "svc_coherent svc3"
    using 3 by (auto simp: step_simps svc_coherent_invalidate split: if_splits)
  from svc_authorize_Inr [OF this 4] obtain q where
    "normalize_permission_id known p = Inr q" and "ps_db svc' = ps_db svc3"
    and "dec_allowed (decide (effective_sources (ps_db svc3) user) q (or_else res global_resource))"
    by blast
  then show ?thesis unfolding decide_granted by metis
qed

lemma get_session_user_Inr:
  assumes "store_coherent now st"
    and "get_session_user H v cookie now tick st = (Inr user, st')"
  shows "\<exists>raw r. cookie = Some raw \<and> r \<in> set (st_rows st) \<and> sr_token_hash r = H raw \<and>
     now < sr_expires_at r \<and> user = user_of_session (session_of_row r)"
proof -
  from assms(2) obtain raw s where raw: "cookie = Some raw"
    and s: "fst (sstore_resolve H raw now tick st) = Some s" and user: "user = user_of_session s"
    by (auto simp: get_session_user_def split: option.splits prod.splits if_splits)
  from s have "lookup_session (st_rows st) (H raw) now = Some s"
    by (simp only: store_resolve_eq [OF assms(1)])
  then obtain r where "r \<in> set (st_rows st)" "sr_token_hash r = H raw" "now < sr_expires_at r"
    "session_of_row r = s"
    unfolding lookup_session_iff [OF store_coherentD(1) [OF assms(1)]] by blast
  with raw user show ?thesis by blast
qed

lemma require_csrf_Inr:
  "require_csrf header user = Inr () \<Longrightarrow> header = Some (su_csrf_token user) \<and> su_csrf_token user \<noteq> []"
  by (auto simp: require_csrf_def Let_def split: option.splits if_splits)

section \<open>What the migration of legacy roles grants\<close>

lemma can_run:
  assumes "svc_coherent svc" and "normalize_permission_id known p = Inr q"
  shows "\<exists>svc1. can known user p res tick svc =
             (Inr (granted (set (effective_sources (ps_db svc) user)) q (or_else res global_resource)), svc1)
           \<and> svc_coherent svc1 \<and> ps_db svc1 = ps_db svc"
proof -
  obtain r svc1 where run: "can known user p res tick svc = (r, svc1)" by fastforce
  have "keeps (=) (can known user p res tick)" by (intro inv_intros) auto
  with assms(1) run have "svc_coherent svc1 \<and> ps_db svc1 = ps_db svc" by (auto dest: keepsD)
  moreover have "r = Inr (granted (set (effective_sources (ps_db svc) user)) q (or_else res global_resource))"
    using can_exact [OF assms(1), of known user p res tick] run assms(2) by (simp add: decide_granted)
  ultimately show ?thesis using run by blast
qed

lemma svc_authorize_run:
  assumes "svc_coherent svc" and "normalize_permission_id known p = Inr q"
    and "granted (set (effective_sources (ps_db svc) user)) q (or_else res global_resource)"
  shows "\<exists>svc1. svc_authorize known user p res tick svc = (Inr (), svc1)
           \<and> svc_coherent svc1 \<and> ps_db svc1 = ps_db svc"
proof -
  obtain r svc1 where run: "svc_authorize known user p res tick svc = (r, svc1)" by fastforce
  have "keeps (=) (svc_authorize known user p res tick)" by (intro inv_intros) auto
  with assms(1) run have "svc_coherent svc1 \<and> ps_db svc1 = ps_db svc" by (auto dest: keepsD)
  moreover obtain d svc2 where "explain known user p res tick svc = (Inr d, svc2)" "dec_allowed d"
    using explain_exact [OF assms(1), of known user p res tick] assms(2,3)
    by (cases "explain known user p res tick svc") (auto simp: decide_granted)
  then have "r = Inr ()" using run by (simp add: svc_authorize_def step_bind_def step_return_def)
  ultimately show ?thesis using run by blast
qed

lemma sources_of_run:
  assumes "svc_coherent svc"
  shows "\<exists>svc1. sources_of user tick svc = (Inr (effective_sources (ps_db svc) user), svc1)
           \<and> svc_coherent svc1 \<and> ps_db svc1 = ps_db svc"
  using svc_sources_facts [OF assms, of user tick]
  by (cases "svc_sources user tick svc") (auto simp: sources_of_def)

lemma assign_role_grants:
  assumes "assign_user_role user rid og db = Inr db'"
    and "r \<in> set (db_roles db)" and "role_id r = rid" and "role_active r"
    and "(rid, plain_grant q) \<in> set (db_role_permissions db)"
    and "\<forall>s \<in> set (effective_sources db user). \<not> (applies s q global_resource \<and> ds_effect s = Eff_deny)"
    and "\<forall>g. (rid, g) \<in> set (db_role_permissions db) \<longrightarrow> gr_effect g = Eff_allow"
  shows "granted (set (effective_sources db' user)) q global_resource"
proof -
  let ?src = "\<lambda>r g. source_of_grant Src_direct_role (role_id r) (role_name r) [] g"
  have all: "set (effective_sources db' user) = set (effective_sources db user)
      \<union> {?src r g |r g. (r, g) \<in> set (active_role_grants db rid)}"
    using effective_sources_assign [OF assms(1), of user] by simp
  have "(r, plain_grant q) \<in> set (active_role_grants db rid)"
    using assms(2-5) by (force simp: active_role_grants_def)
  moreover have "applies (?src r (plain_grant q)) q global_resource"
    by (simp add: applies_def source_of_grant_def plain_grant_def resource_matches_def global_resource_def)
  ultimately have "\<exists>s \<in> set (effective_sources db' user). applies s q global_resource \<and> ds_effect s = Eff_allow"
    unfolding all by (intro bexI [of _ "?src r (plain_grant q)"])
      (auto simp: source_of_grant_def plain_grant_def)
  moreover have "ds_effect (?src r' g) = Eff_allow" if "(r', g) \<in> set (active_role_grants db rid)" for r' g
    using that assms(7) by (auto simp: active_role_grants_def source_of_grant_def split: if_splits)
  then have "\<not> (\<exists>s \<in> set (effective_sources db' user). applies s q global_resource \<and> ds_effect s = Eff_deny)"
    unfolding all using assms(6) by auto
  ultimately show ?thesis by (simp add: granted_def)
qed

lemma authorize_migrates:
  assumes co: "svc_coherent svc" and prov: "su_auth_provider user \<noteq> Prov_ldap"
    and rid: "rid = system_role_id (legacy_role_name (L (su_username user)))"
    and norm: "normalize_permission_id known p = Inr q"
    and now: "\<not> granted (set (effective_sources (ps_db svc) user)) q global_resource"
    and direct: "\<forall>s \<in> set (effective_sources (ps_db svc) user).
        \<not> (ds_source_type s = Src_direct_role \<and> ds_source_id s = rid)"
    and role: "r \<in> set (db_roles (ps_db svc))" "role_id r = rid" "role_active r"
    and grant: "(rid, plain_grant q) \<in> set (db_role_permissions (ps_db svc))"
    and deny: "\<forall>s \<in> set (effective_sources (ps_db svc) user). \<not> (applies s q global_resource \<and> ds_effect s = Eff_deny)"
    and allow: "\<forall>g. (rid, g) \<in> set (db_role_permissions (ps_db svc)) \<longrightarrow> gr_effect g = Eff_allow"
  shows "\<exists>svc'. authorize known L user p None tw tick svc = (Inr (), svc')
           \<and> assign_user_role user rid (migration_origin tw) (ps_db svc) = Inr (ps_db svc')"
proof -
  obtain svc1 where 1: "can known user p None tick svc = (Inr False, svc1)"
    "svc_coherent svc1" "ps_db svc1 = ps_db svc"
    using can_run [OF co norm, of user None tick] now by (auto simp: or_else_def)
  obtain svc2 where 2: "sources_of user tick svc1 = (Inr (effective_sources (ps_db svc) user), svc2)"
    "ps_db svc2 = ps_db svc"
    using sources_of_run [OF 1(2), of user tick] 1(3) by auto
  have "rid \<in> role_id ` set (db_roles (ps_db svc))" using role by force
  then obtain v where "repo_role (ps_db svc) rid = Inr v" using repo_role_exists by blast
  then obtain db' where as: "assign_user_role user rid (migration_origin tw) (ps_db svc) = Inr db'"
    by (simp add: assign_user_role_def)
  let ?svc3 = "svc_invalidate (svc2\<lparr>ps_db := db'\<rparr>)"
  have "\<not> list_ex (\<lambda>s. ds_source_type s = Src_direct_role \<and> ds_source_id s = rid)
      (effective_sources (ps_db svc) user)"
    using direct by (auto simp: list_ex_iff)
  then have 3: "migrate_legacy_assignment L user tw tick svc1 = (Inr True, ?svc3)"
    using prov 2 as
    by (simp add: migrate_legacy_assignment_def step_bind_def step_return_def step_modify_def
        assign_role_step_def rid [symmetric])
  have db3: "ps_db (svc_invalidate ?svc3) = db'" by (simp add: svc_invalidate_def)
  have "granted (set (effective_sources db' user)) q global_resource"
    by (rule assign_role_grants [OF as role grant deny allow])
  then obtain svc4 where 4: "svc_authorize known user p None tick (svc_invalidate ?svc3) = (Inr (), svc4)"
    "ps_db svc4 = db'"
    using svc_authorize_run [OF svc_coherent_invalidate norm, of ?svc3 user None tick] db3
    by (auto simp: or_else_def)
  have "authorize known L user p None tw tick svc = (Inr (), svc4)"
    using 1(1) 3 4(1) by (simp add: authorize_def step_bind_def step_modify_def)
  with 4(2) as show ?thesis by blast
qed

section \<open>Scopes\<close>

section \<open>Properties\<close>



text \<open>
  A scope covers whole path components only: a source scoped to a path that does not end in a
  slash matches that path and what follows it after a slash, never a longer name.
\<close>

theorem scope_matches_on_path_boundary:
  assumes "ds_scope s \<notin> {[], ''*''}" and "last (ds_scope s) \<noteq> CHR ''/''"
    and "ds_resource_type s = ''global''" and "ds_resource_id s = ''*''"
    and "rs_scope res = ds_scope s @ rest"
  shows "resource_matches s res \<longleftrightarrow> rest = [] \<or> hd rest = CHR ''/''"
proof -
  have "rstrip_char CHR ''/'' (ds_scope s) = ds_scope s"
    using assms(2) by (simp add: rstrip_char_id)
  then have "resource_matches s res \<longleftrightarrow> rest = [] \<or> prefix [CHR ''/''] rest"
    using assms by (simp add: resource_matches_def)
  then show ?thesis by (cases rest) auto
qed

theorem scope_matches_on_path_boundary_witness:
  "\<not> resource_matches
       \<lparr>ds_effect = Eff_allow, ds_permission = ''files.read'', ds_source_type = Src_policy,
        ds_source_id = [], ds_source_name = [], ds_resource_type = ''global'', ds_resource_id = ''*'',
        ds_scope = ''/srv/data'', ds_reason = []\<rparr>
       \<lparr>rs_type = ''path'', rs_id = ''x'', rs_scope = ''/srv/database''\<rparr>"
  by (subst scope_matches_on_path_boundary [where rest = "''base''"]) simp_all

text \<open>
  C19. The legacy store, keyed by user name only, never serves a directory principal: authorizing an
  LDAP user changes nothing in the database, and succeeds only by what the database already grants.
\<close>

theorem ldap_principal_not_migrated:
  assumes "svc_coherent svc" and "su_auth_provider user = Prov_ldap"
    and "authorize known L user p res now tick svc = (r, svc')"
  shows "ps_db svc' = ps_db svc \<and>
     (r = Inr () \<longrightarrow> (\<exists>q. normalize_permission_id known p = Inr q
        \<and> granted (set (effective_sources (ps_db svc) user)) q (or_else res global_resource)))"
proof -
  have no_migration: "migrate_legacy_assignment L user now tick = step_return False"
    using assms(2) by (simp add: migrate_legacy_assignment_def)
  have "keeps (=) (authorize known L user p res now tick)"
    unfolding authorize_def no_migration
    by (intro keeps_bind keeps_if keeps_can keeps_svc_authorize keeps_simple) auto
  with assms(1,3) have db: "ps_db svc' = ps_db svc" by (auto dest: keepsD)
  moreover have "\<exists>q. normalize_permission_id known p = Inr q
        \<and> granted (set (effective_sources (ps_db svc) user)) q (or_else res global_resource)" if "r = Inr ()"
    using authorize_Inr [OF assms(1)] assms(3) that unfolding db [symmetric] by blast
  ultimately show ?thesis by blast
qed

text \<open>
  C20. Revoking the role that the legacy profile names is not durable: when the \<^verbatim>\<open>DELETE\<close> of a
  local or PAM user's assignment has succeeded, the next check of a permission the role grants (and
  nothing denies) is answered by assigning the role again and letting the user through.
\<close>

theorem revoked_legacy_role_returns:
  assumes "perform_request env i og (Rq_principal (Rq_revoke_user_role username rid prov idn)) svc = (Inr (), svc1)"
    and "prov \<noteq> Prov_ldap"
    and "rid = system_role_id (legacy_role_name (L (su_username user)))"
    and "source_key user = source_key (subject_of username prov idn)"
    and "normalize_permission_id known p = Inr q"
    and "\<not> granted (set (effective_sources (ps_db svc1) user)) q global_resource"
    and "r \<in> set (db_roles (ps_db svc1))" and "role_id r = rid" and "role_active r"
    and "(rid, plain_grant q) \<in> set (db_role_permissions (ps_db svc1))"
    and "\<forall>s \<in> set (effective_sources (ps_db svc1) user).
           \<not> (applies s q global_resource \<and> ds_effect s = Eff_deny)"
    and "\<forall>g. (rid, g) \<in> set (db_role_permissions (ps_db svc1)) \<longrightarrow> gr_effect g = Eff_allow"
  shows "\<exists>svc2. authorize known L user p None now tick svc1 = (Inr (), svc2)
     \<and> (\<exists>u \<in> set (db_user_roles (ps_db svc2)).
          is_users user (ur_provider u) (ur_identity_id u) \<and> ur_role_id u = rid)"
proof -
  let ?subject = "subject_of username prov idn"
  have svc1: "svc1 = svc_invalidate (svc\<lparr>ps_db := revoke_user_role ?subject rid og (ps_db svc)\<rparr>)"
    using assms(1) by (simp add: perform_request_def)
  then have db1: "ps_db svc1 = revoke_user_role ?subject rid og (ps_db svc)"
    by (simp add: svc_invalidate_def)
  have key: "su_auth_provider user = su_auth_provider ?subject" "identity_key user = identity_key ?subject"
    using assms(4) by (auto simp: source_key_def)
  have direct: "\<forall>s \<in> set (effective_sources (ps_db svc1) user).
      \<not> (ds_source_type s = Src_direct_role \<and> ds_source_id s = rid)"
    unfolding db1 by (rule revoked_no_direct [OF key])
  have prov: "su_auth_provider user \<noteq> Prov_ldap"
    using key(1) assms(2) by (simp add: subject_of_def)
  have co: "svc_coherent svc1" unfolding svc1 by (rule svc_coherent_invalidate)
  obtain svc2 where auth: "authorize known L user p None now tick svc1 = (Inr (), svc2)"
    and as: "assign_user_role user rid (migration_origin now) (ps_db svc1) = Inr (ps_db svc2)"
    using authorize_migrates [where L = L, OF co prov assms(3,5,6) direct assms(7-12), of now tick] by blast
  have "\<exists>u \<in> set (db_user_roles (ps_db svc2)).
          is_users user (ur_provider u) (ur_identity_id u) \<and> ur_role_id u = rid"
  proof -
    define row where "row = \<lparr>ur_provider = provider_name (su_auth_provider user),
        ur_identity_id = identity_key user, ur_username = su_username user, ur_role_id = rid,
        ur_created_at = or_now (migration_origin now), ur_created_by = or_actor (migration_origin now)\<rparr>"
    obtain t where "ps_db svc2 = add_audit (migration_origin now) ''assignment.user-role'' t Doc_empty
        (Doc_role_id rid) (ps_db svc1\<lparr>db_user_roles :=
           insert_ignore user_role_key row (db_user_roles (ps_db svc1))\<rparr>)"
      using as unfolding assign_user_role_def rbind_Inr_iff row_def by (metis sum.inject(2))
    then have "user_role_key row \<in> user_role_key ` set (db_user_roles (ps_db svc2))"
      by (simp add: set_insert_ignore)
    then show ?thesis by (auto simp: user_role_key_def is_users_def row_def)
  qed
  with auth show ?thesis by blast
qed

text \<open>
  \<^verbatim>\<open>module_permission\<close> maps every operation of every module to a permission, never raising
  \<^verbatim>\<open>KeyError\<close>; the permission of viewing, logs and diagnostics is classified as not mutating,
  that of every other operation as mutating.
\<close>

theorem module_permission_classified:
  "\<exists>p. module_permission m mop = Inr p
     \<and> (mutating_of p \<longleftrightarrow> mop \<notin> {Mop_view, Mop_logs, Mop_diagnostics})"
proof -
  have views: "\<forall>p \<in> {''ansible-controller.view'', ''updates.view'', ''docker.view'', ''dns.view'',
      ''databases.view'', ''homeassistant.view'', ''modules.view'', ''modules.logs'',
      ''modules.diagnostics''}. \<not> mutating_of p"
    by code_simp
  have others: "\<forall>p \<in> {''ansible-controller.install'', ''ansible-controller.backup'',
      ''ansible-controller.restore'', ''ansible-controller.configure'', ''modules.install'',
      ''modules.uninstall'', ''modules.update'', ''modules.backup_delete'', ''updates.apply'',
      ''docker.manage_compose'', ''docker.manage_containers'', ''dns.configure'', ''databases.restore'',
      ''databases.backup'', ''databases.configure'', ''homeassistant.operate'', ''modules.configure'',
      ''modules.backup_create'', ''modules.backup_restore''}. mutating_of p"
    by code_simp
  show ?thesis
    using views others
    by (cases mop) (simp_all add: module_permission_def generic_module_permission_def)
qed

subsection \<open>Witnesses\<close>

definition demo_env :: environment where
  "demo_env =
     \<lparr>env_hash = (\<lambda>s. s), env_validate_ldap = (\<lambda>_ _. True), env_known = [''access.manage_roles''],
      env_legacy_role = (\<lambda>_. ''admin''), env_uuid5 = (\<lambda>s. s)\<rparr>"

definition demo_request :: request where
  "demo_request =
     \<lparr>rq_method = ''PUT'', rq_cookie = Some ''t1'', rq_csrf = Some ''c1'', rq_client_host = ''host''\<rparr>"

definition demo_session :: stored_session where
  "demo_session =
     \<lparr>ss_username = ''ann'', ss_csrf_token = ''c1'', ss_persistent = False, ss_expires_at = 100,
      ss_auth_provider = Prov_pam, ss_identity_id = []\<rparr>"

definition demo_app :: "rbac_db \<Rightarrow> app" where
  "demo_app db =
     \<lparr>app_sessions = new_session_store 0 0, app_rbac = new_perm_service db 5\<rparr>"

lemma demo_reaches: "rbac_init db \<Longrightarrow> reaches app_init (app_step demo_env) (0, demo_app db)"
  by (rule reaches_init) (auto simp: app_init_def demo_app_def)

lemma seeded_rbac_init: "seed_system_roles now empty_rbac_db = Inr db \<Longrightarrow> rbac_init db"
  by (auto simp: rbac_init_def)


text \<open>Right after initialisation nobody has a grant, and the administrator role has every one.\<close>

lemma seeded_db:
  assumes "seed_system_roles now empty_rbac_db = Inr db"
  shows "effective_sources db u = []"
    and "system_role_row now ''Administrator'' \<in> set (db_roles db)"
    and "p \<in> set base_registry \<Longrightarrow> (''system:administrator'', plain_grant p) \<in> set (db_role_permissions db)"
    and "(rid, g) \<in> set (db_role_permissions db) \<Longrightarrow> gr_effect g = Eff_allow"
proof -
  have id: "system_role_id ''Administrator'' = ''system:administrator''" by code_simp
  have frame: "db = empty_rbac_db\<lparr>db_roles := db_roles db, db_role_permissions := db_role_permissions db\<rparr>"
    and grants: "set (db_role_permissions db) = set (db_role_permissions empty_rbac_db)
        \<union> {(system_role_id n, plain_grant p) |n ps p. (n, ps) \<in> set system_role_permissions \<and> p \<in> set ps}"
    using seed_grants [OF assms [unfolded seed_system_roles_def]] by blast+
  have "db_user_roles db = []" "db_group_members db = []" "db_external_memberships db = []" "db_policies db = []"
    by (subst frame, simp add: empty_rbac_db_def)+
  then show "effective_sources db u = []"
    by (simp add: effective_sources_def direct_sources_def local_group_sources_def
        ldap_group_sources_def policy_sources_def)
  show "system_role_row now ''Administrator'' \<in> set (db_roles db)"
    using seed_empty [of now] assms by auto
  have "(''Administrator'', base_registry) \<in> set system_role_permissions"
    by (simp add: system_role_permissions_def)
  then show "(''system:administrator'', plain_grant p) \<in> set (db_role_permissions db)" if "p \<in> set base_registry"
    using that unfolding grants id [symmetric] by blast
  show "gr_effect g = Eff_allow" if "(rid, g) \<in> set (db_role_permissions db)"
    using that unfolding grants by (auto simp: empty_rbac_db_def plain_grant_def)
qed

lemma demo_guard:
  assumes "seed_system_roles 1 empty_rbac_db = Inr db"
  shows "\<exists>app app'. reaches app_init (app_step demo_env) (1, app)
     \<and> authorize_user demo_env demo_request ''rbac.manage'' True 1 2 app = (Inr (user_of_session demo_session), app')"
proof -
  let ?user = "user_of_session demo_session"
  define st where "st = apply_session_event (\<lambda>s. s) 1 1 (Ev_create ''t1'' demo_session) (new_session_store 0 0)"
  define app where "app = (demo_app db)\<lparr>app_sessions := st\<rparr>"
  have "app_step demo_env (0, demo_app db)
      (1, apply_app_event demo_env 1 1 (App_session (Ev_create ''t1'' demo_session)) (demo_app db))"
    by (rule app_stepI) simp
  then have "app_step demo_env (0, demo_app db) (1, app)"
    by (simp add: app_def demo_app_def demo_env_def st_def)
  with demo_reaches [OF seeded_rbac_init [OF assms]]
  have reach: "reaches app_init (app_step demo_env) (1, app)" by (rule reaches_step)
  have "fst (get_session_user (\<lambda>s. s) (\<lambda>_ _. True) (Some ''t1'') 1 2 st) = Inr ?user"
    by (simp add: st_def get_session_user_def sstore_create_def sstore_resolve_def resolve_row_def
        new_session_store_def cache_session_def insert_row_def demo_session_def)
  then obtain st' where session: "current_user demo_env demo_request 1 2 app = (Inr ?user, app\<lparr>app_sessions := st'\<rparr>)"
    by (cases "get_session_user (\<lambda>s. s) (\<lambda>_ _. True) (Some ''t1'') 1 2 st")
       (simp add: current_user_def demo_env_def demo_request_def app_def)
  have csrf: "require_csrf (rq_csrf demo_request) ?user = Inr ()"
    by (simp add: require_csrf_def demo_request_def demo_session_def user_of_session_def)
  have id: "system_role_id (legacy_role_name ''admin'') = ''system:administrator''" by code_simp
  have base: "''access.manage_roles'' \<in> set base_registry" by code_simp
  have norm: "normalize_permission_id [''access.manage_roles''] ''rbac.manage'' = Inr ''access.manage_roles''"
    by code_simp
  have svc: "ps_db (new_perm_service db 5) = db" by (simp add: new_perm_service_def)
  have row: "role_id (system_role_row 1 ''Administrator'') = ''system:administrator''"
    "role_active (system_role_row 1 ''Administrator'')"
    using id by (simp_all add: system_role_row_def legacy_role_name_def or_else_def)
  obtain svc' where auth: "authorize [''access.manage_roles''] (\<lambda>_. ''admin'') ?user ''rbac.manage'' None 1 2
      (new_perm_service db 5) = (Inr (), svc')"
    using authorize_migrates [where L = "\<lambda>_. ''admin''" and known = "[''access.manage_roles'']"
        and user = ?user and p = "''rbac.manage''" and rid = "''system:administrator''" and tw = 1 and tick = 2,
        OF coherent_new_service [of db 5] _ _ norm _ _ _ row]
      seeded_db [OF assms] base id
    by (auto simp: svc granted_def user_of_session_def demo_session_def)
  have "authorize_user demo_env demo_request ''rbac.manage'' True 1 2 app
      = (Inr ?user, app\<lparr>app_sessions := st', app_rbac := svc'\<rparr>)"
    using session csrf auth
    by (simp add: authorize_user_def guarded_user_def step_bind_def step_res_def step_return_def
        on_rbac_def demo_env_def app_def demo_app_def)
  with reach show ?thesis by blast
qed


theorem ldap_principal_not_migrated_witness:
  "\<exists>svc'. authorize [''files.edit''] (\<lambda>_. ''admin'') (sample_user\<lparr>su_auth_provider := Prov_ldap\<rparr>)
       ''files.edit'' None 2 2 (new_perm_service sample_db 5)
       = (Inl (HTTPException 403 ''PERMISSION_REQUIRED''), svc') \<and> ps_db svc' = sample_db"
proof -
  let ?run = "authorize [''files.edit''] (\<lambda>_. ''admin'') (sample_user\<lparr>su_auth_provider := Prov_ldap\<rparr>)
       ''files.edit'' None 2 2 (new_perm_service sample_db 5)"
  have "fst ?run = Inl (HTTPException 403 ''PERMISSION_REQUIRED'')" by code_simp
  then obtain svc' where run: "?run = (Inl (HTTPException 403 ''PERMISSION_REQUIRED''), svc')"
    by (cases ?run) auto
  have "ps_db svc' = sample_db"
    using ldap_principal_not_migrated [OF coherent_new_service _ run]
    by (simp add: new_perm_service_def)
  with run show ?thesis by blast
qed

definition legacy_db :: rbac_db where
  "legacy_db =
     empty_rbac_db\<lparr>db_roles := [sample_role\<lparr>role_id := ''system:user''\<rparr>],
       db_role_permissions := [(''system:user'', plain_grant ''files.edit'')],
       db_user_roles := [\<lparr>ur_provider = ''pam'', ur_identity_id = ''ann'', ur_username = ''ann'',
         ur_role_id = ''system:user'', ur_created_at = 0, ur_created_by = ''legacy-migration''\<rparr>]\<rparr>"

theorem revoked_legacy_role_returns_witness:
  "\<exists>svc1 svc2. perform_request (demo_env\<lparr>env_known := [''files.edit'']\<rparr>) [] sample_origin
       (Rq_principal (Rq_revoke_user_role ''ann'' ''system:user'' Prov_pam [])) (new_perm_service legacy_db 5) = (Inr (), svc1)
     \<and> db_user_roles (ps_db svc1) = []
     \<and> authorize [''files.edit''] (\<lambda>_. ''user'') sample_user ''files.edit'' None 2 2 svc1 = (Inr (), svc2)
     \<and> db_user_roles (ps_db svc2) \<noteq> []"
proof -
  let ?svc1 = "svc_invalidate (new_perm_service (revoke_user_role (subject_of ''ann'' Prov_pam []) ''system:user''
      sample_origin legacy_db) 5)"
  have run: "perform_request (demo_env\<lparr>env_known := [''files.edit'']\<rparr>) [] sample_origin
       (Rq_principal (Rq_revoke_user_role ''ann'' ''system:user'' Prov_pam [])) (new_perm_service legacy_db 5) = (Inr (), ?svc1)"
    by (simp add: perform_request_def new_perm_service_def)
  have norm: "normalize_permission_id [''files.edit''] ''files.edit'' = Inr ''files.edit''"
    and rid: "''system:user'' = system_role_id (legacy_role_name ''user'')"
    and none: "effective_sources (ps_db ?svc1) sample_user = []"
    and rows: "db_user_roles (ps_db ?svc1) = []"
    by code_simp+
  have "\<exists>svc2. authorize [''files.edit''] (\<lambda>_. ''user'') sample_user ''files.edit'' None 2 2 ?svc1 = (Inr (), svc2)
     \<and> (\<exists>u \<in> set (db_user_roles (ps_db svc2)).
          is_users sample_user (ur_provider u) (ur_identity_id u) \<and> ur_role_id u = ''system:user'')"
    using none
    by (intro revoked_legacy_role_returns [OF run, where r = "sample_role\<lparr>role_id := ''system:user''\<rparr>"
          and q = "''files.edit''"])
       (auto simp: norm rid [symmetric] granted_def svc_invalidate_def new_perm_service_def
          revoke_user_role_def legacy_db_def sample_role_def source_key_def sample_user_def subject_of_def
          identity_key_def plain_grant_def)
  with run rows show ?thesis by force
qed

end
