(* ===== verification/Ldap_Projection.thy ===== *)
theory Ldap_Projection
  imports Rbac_Decisions
begin

text \<open>
  \<^verbatim>\<open>backend/app/identity/ldap_projection.py\<close>: the cached LDAP state of a principal projected
  into the RBAC tables at login, with the breadth-first expansion of parent groups (bounded in depth
  and size). The LDAP cache (\<^verbatim>\<open>ldap_authentication.repository\<close>) is an argument: the identity it
  returns and its role mappings. Python sets are lists of distinct elements in one order;
  \<^verbatim>\<open>casefold\<close> is the ASCII one. Every repository call commits on its own.
\<close>

section \<open>Expansion of parent groups\<close>

abbreviation max_nested_depth :: nat where "max_nested_depth \<equiv> 16"
abbreviation max_nested_nodes :: nat where "max_nested_nodes \<equiv> 10000"

text \<open>The inner loop over the parents of one group; the flag is the early \<^verbatim>\<open>return\<close>.\<close>

fun add_parents ::
  "string list \<Rightarrow> nat \<Rightarrow> string list \<Rightarrow> (string \<times> nat) list \<Rightarrow> string list \<times> (string \<times> nat) list \<times> bool" where
  "add_parents [] depth result queue = (result, queue, False)"
| "add_parents (p # ps) depth result queue =
     (if p = [] \<or> p \<in> set result then add_parents ps depth result queue
      else if length result \<ge> max_nested_nodes then (result, queue, True)
      else add_parents ps depth (result @ [p]) (queue @ [(p, depth + 1)]))"

lemma add_parents_growth:
  "add_parents ps d r q = (r', q', stop) \<Longrightarrow>
     \<exists>new. r' = r @ new \<and> q' = q @ map (\<lambda>p. (p, d + 1)) new
       \<and> (new \<noteq> [] \<longrightarrow> length r' \<le> max_nested_nodes)"
proof (induction ps arbitrary: r q)
  case Nil
  then show ?case by simp
next
  case (Cons p ps)
  show ?case
  proof (cases "p = [] \<or> p \<in> set r \<or> length r \<ge> max_nested_nodes")
    case True
    with Cons show ?thesis by (auto split: if_splits)
  next
    case False
    then have "add_parents ps d (r @ [p]) (q @ [(p, d + 1)]) = (r', q', stop)"
      using Cons.prems by simp
    from Cons.IH [OF this] obtain new where
      "r' = (r @ [p]) @ new" "q' = (q @ [(p, d + 1)]) @ map (\<lambda>p. (p, d + 1)) new"
      "new \<noteq> [] \<longrightarrow> length r' \<le> max_nested_nodes" by blast
    with False show ?thesis by (intro exI [of _ "p # new"]) (cases new; auto)
  qed
qed

function expand_loop ::
  "(string \<Rightarrow> string list) \<Rightarrow> string list \<Rightarrow> (string \<times> nat) list \<Rightarrow> string list" where
  "expand_loop parents result [] = result"
| "expand_loop parents result ((g, depth) # queue) =
     (if depth \<ge> max_nested_depth then expand_loop parents result queue
      else case add_parents (parents g) depth result queue of (result', queue', stop) \<Rightarrow>
        if stop then result' else expand_loop parents result' queue')"
  by pat_completeness auto

termination expand_loop
proof (relation "measure (\<lambda>(_, r, q). 2 * (max_nested_nodes - length r) + length q)")
  fix parents :: "string \<Rightarrow> string list" and result g depth queue result' y queue' stop
  assume *: "(result', y) = add_parents (parents g) depth result queue" "(queue', stop) = y"
  then have "add_parents (parents g) depth result queue = (result', queue', stop)" by simp
  from add_parents_growth [OF this] obtain new where
    "result' = result @ new" "length queue' = length queue + length new"
    "new \<noteq> [] \<longrightarrow> length result' \<le> max_nested_nodes"
    by auto
  then show "((parents, result', queue'), parents, result, (g, depth) # queue)
      \<in> measure (\<lambda>(_, r, q). 2 * (max_nested_nodes - length r) + length q)"
    by (cases new) auto
qed auto

definition expand_parent_ids ::
  "(string \<Rightarrow> string list) \<Rightarrow> string list \<Rightarrow> string list" where
  "expand_parent_ids parents direct_ids =
     expand_loop parents direct_ids (map (\<lambda>i. (i, 0)) direct_ids)"

section \<open>The projection\<close>

definition projection_role_id :: "string \<Rightarrow> string" where
  "projection_role_id role =
     system_role_id (or_else (map_of [(''admin'', ''Administrator''), (''operator'', ''Operator''),
       (''auditor'', ''Auditor''), (''user'', ''User'')] (ascii_lower role)) ''User'')"

record ldap_mapping =
  lm_group_dn :: string
  lm_role :: string

text \<open>A call on the repository that commits, inside the service.\<close>

definition repo_step :: "(rbac_db \<Rightarrow> ('a \<times> rbac_db) res) \<Rightarrow> 'a svc_step" where
  "repo_step f svc =
     (case f (ps_db svc) of
        Inl e \<Rightarrow> (Inl e, svc) | Inr (x, db) \<Rightarrow> (Inr x, svc\<lparr>ps_db := db\<rparr>))"

type_synonym dn_state = "string list \<times> (string \<times> string) list"

text \<open>One group DN of the identity: its fallback record, keyed by the DN itself.\<close>

definition project_group_dn ::
  "(string \<Rightarrow> string) \<Rightarrow> time \<Rightarrow> string \<Rightarrow> dn_state \<Rightarrow> dn_state svc_step" where
  "project_group_dn U now group_dn = (\<lambda>(direct, dns).
     let dn = py_strip group_dn
     in if dn = [] then step_return (direct, dns)
        else step_bind (repo_step (upsert_external_group U now ''ldap'' (''dn:'' @ ascii_lower dn) dn dn [] ''active''))
               (\<lambda>gid. step_return (List.insert gid direct, (ascii_lower dn, gid) # dns)))"

text \<open>
  \<open>for group in external_groups\<close>: any record with the DN takes the place of the one held so far.
\<close>

definition prefer_record :: "external_group \<Rightarrow> dn_state \<Rightarrow> dn_state" where
  "prefer_record g = (\<lambda>(direct, dns).
     let dn = ascii_lower (eg_distinguished_name g)
     in if dn = [] then (direct, dns)
        else case map_of dns dn of
               None \<Rightarrow> (direct, dns)
             | Some old \<Rightarrow> (List.insert (eg_id g) (remove1 old direct), (dn, eg_id g) # dns))"

definition prefer_records :: "external_group list \<Rightarrow> dn_state \<Rightarrow> dn_state" where
  "prefer_records gs s = foldl (\<lambda>s g. prefer_record g s) s gs"

definition parents_in :: "(external_group \<times> string list) list \<Rightarrow> string \<Rightarrow> string list" where
  "parents_in views gid =
     (case find (\<lambda>v. eg_id (fst v) = gid) (rev views) of
        None \<Rightarrow> [] | Some v \<Rightarrow> eg_parent_ids (fst v))"

definition project_mapping ::
  "(string \<times> string) list \<Rightarrow> time \<Rightarrow> ldap_mapping \<Rightarrow> unit \<Rightarrow> unit svc_step" where
  "project_mapping dns now m u =
     (case map_of dns (ascii_lower (lm_group_dn m)) of
        None \<Rightarrow> step_return ()
      | Some gid \<Rightarrow>
          if gid = [] then step_return ()
          else repo_step (\<lambda>db. rbind (map_external_group_role gid
                 (projection_role_id (if lm_role m = [] then ''user'' else lm_role m))
                 \<lparr>or_actor = ''ldap-login-sync'', or_source_ip = [], or_now = now\<rparr> db)
                 (\<lambda>db'. Inr ((), db'))))"

text \<open>
  \<open>groups_of\<close> is the group list of the identity the LDAP cache finds, by id or else by name.
\<close>

definition project_cached_ldap_identity ::
  "(string \<Rightarrow> string) \<Rightarrow> (string \<Rightarrow> string \<Rightarrow> string list option) \<Rightarrow> ldap_mapping list
     \<Rightarrow> string \<Rightarrow> string \<Rightarrow> time \<Rightarrow> unit svc_step" where
  "project_cached_ldap_identity U groups_of mappings identity username now =
     (if identity = [] \<or> username = [] then step_return ()
      else case groups_of identity username of
        None \<Rightarrow> step_return ()
      | Some groups \<Rightarrow>
          step_bind (step_fold (project_group_dn U now) groups ([], [])) (\<lambda>s.
          step_bind (repo_step (\<lambda>db. Inr (external_groups db, db))) (\<lambda>views.
          let (direct, dns) = prefer_records (map fst views) s;
              effective_ids = expand_parent_ids (parents_in views) direct
          in step_bind (repo_step (\<lambda>db. rbind (replace_external_memberships ''ldap'' identity username
                          effective_ids (Some direct) now db) (\<lambda>db'. Inr ((), db')))) (\<lambda>_.
             step_bind (step_fold (project_mapping dns now) mappings ()) (\<lambda>_.
             step_modify svc_invalidate)))))"

section \<open>The expansion is breadth-first search\<close>

fun levels :: "(string \<Rightarrow> string list) \<Rightarrow> string set \<Rightarrow> nat \<Rightarrow> string set" where
  "levels parents S 0 = S"
| "levels parents S (Suc n) =
     levels parents S n \<union> {p. p \<noteq> [] \<and> (\<exists>x \<in> levels parents S n. p \<in> set (parents x))}"

lemma levels_mono: "m \<le> n \<Longrightarrow> levels parents S m \<subseteq> levels parents S n"
  by (induction n) (auto simp: le_Suc_eq)

lemma levels_closed:
  assumes "\<forall>x \<in> levels parents S d. \<forall>p \<in> set (parents x). p \<noteq> [] \<longrightarrow> p \<in> levels parents S d"
  shows "levels parents S (d + k) = levels parents S d"
  using assms by (induction k) auto

lemma add_parents_result:
  "add_parents ps d r q = (r', q', False) \<Longrightarrow>
     set r' = set r \<union> {p \<in> set ps. p \<noteq> []}
     \<and> q' = q @ map (\<lambda>p. (p, d + 1)) (drop (length r) r')"
proof (induction ps arbitrary: r q)
  case Nil
  then show ?case by simp
next
  case (Cons p ps)
  show ?case
  proof (cases "p = [] \<or> p \<in> set r")
    case True
    then show ?thesis using Cons by auto
  next
    case False
    then have run: "add_parents ps d (r @ [p]) (q @ [(p, d + 1)]) = (r', q', False)"
      using Cons.prems by (auto split: if_splits)
    obtain new where "r' = (r @ [p]) @ new" using add_parents_growth [OF run] by blast
    with Cons.IH [OF run] False show ?thesis by auto
  qed
qed

lemma add_parents_stop:
  "add_parents ps d r q = (r', q', stop) \<Longrightarrow>
     set r \<subseteq> set r' \<and> set r' \<subseteq> set r \<union> {p \<in> set ps. p \<noteq> []} \<and> (stop \<longrightarrow> max_nested_nodes \<le> length r')"
  by (induction ps arbitrary: r q) (fastforce split: if_splits)+

text \<open>
  The queue holds what is left of level \<open>d\<close> and what level \<open>d + 1\<close> has so far; the result is
  level \<open>d\<close> and that; the parents of the processed groups of level \<open>d\<close> are in it.
\<close>

definition bfs_state ::
  "(string \<Rightarrow> string list) \<Rightarrow> string set \<Rightarrow> nat \<Rightarrow> string list \<Rightarrow> string list \<Rightarrow> string list
     \<Rightarrow> (string \<times> nat) list \<Rightarrow> bool" where
  "bfs_state parents S d a b r q \<longleftrightarrow>
     q = map (\<lambda>x. (x, d)) a @ map (\<lambda>x. (x, d + 1)) b \<and> d \<le> max_nested_depth \<and>
     (d = max_nested_depth \<longrightarrow> b = []) \<and>
     set r = levels parents S d \<union> set b \<and> set a \<subseteq> levels parents S d \<and>
     set b \<subseteq> levels parents S (d + 1) \<and>
     (d < max_nested_depth \<longrightarrow>
        (\<forall>x \<in> levels parents S d - set a. \<forall>p \<in> set (parents x). p \<noteq> [] \<longrightarrow> p \<in> set r))"

definition bfs_result :: "(string \<Rightarrow> string list) \<Rightarrow> string set \<Rightarrow> string list \<Rightarrow> string list \<Rightarrow> bool" where
  "bfs_result parents S r out \<longleftrightarrow>
     set out \<subseteq> levels parents S max_nested_depth \<and> set r \<subseteq> set out \<and>
     (length out < max_nested_nodes \<longrightarrow> set out = levels parents S max_nested_depth)"

lemma bfs_next_level:
  assumes "bfs_state parents S d [] (y # b) r q"
  shows "bfs_state parents S (d + 1) (y # b) [] r q"
proof -
  have d: "d < max_nested_depth" and r: "set r = levels parents S d \<union> set (y # b)"
    and b: "set (y # b) \<subseteq> levels parents S (d + 1)"
    and proc: "\<forall>x \<in> levels parents S d. \<forall>p \<in> set (parents x). p \<noteq> [] \<longrightarrow> p \<in> set r"
    and q: "q = map (\<lambda>x. (x, d + 1)) (y # b)"
    using assms by (auto simp: bfs_state_def)
  have level: "set r = levels parents S (d + 1)"
  proof
    show "set r \<subseteq> levels parents S (d + 1)"
      using r b levels_mono [of d "d + 1" parents S] by auto
    show "levels parents S (d + 1) \<subseteq> set r"
      using r proc by auto
  qed
  have cond: "\<forall>x \<in> levels parents S (d + 1) - set (y # b). \<forall>p \<in> set (parents x). p \<noteq> [] \<longrightarrow> p \<in> set r"
    using r level proc by blast
  show ?thesis
    unfolding bfs_state_def
  proof (intro conjI impI)
    show "q = map (\<lambda>x. (x, d + 1)) (y # b) @ map (\<lambda>x. (x, d + 1 + 1)) []" using q by simp
    show "set r = levels parents S (d + 1) \<union> set []" using level by simp
    show "set (y # b) \<subseteq> levels parents S (d + 1)" by (rule b)
    show "\<forall>x \<in> levels parents S (d + 1) - set (y # b). \<forall>p \<in> set (parents x). p \<noteq> [] \<longrightarrow> p \<in> set r"
      by (rule cond)
  qed (use d in simp_all)
qed

lemma bfs_done:
  assumes "bfs_state parents S d [] [] r []"
  shows "set r = levels parents S max_nested_depth"
proof (cases "d = max_nested_depth")
  case True
  with assms show ?thesis by (simp add: bfs_state_def)
next
  case False
  with assms have d: "d < max_nested_depth" and r: "set r = levels parents S d"
    by (simp_all add: bfs_state_def)
  have "\<forall>x \<in> levels parents S d - set []. \<forall>p \<in> set (parents x). p \<noteq> [] \<longrightarrow> p \<in> set r"
    using assms d unfolding bfs_state_def by blast
  then have closed: "\<forall>x \<in> levels parents S d. \<forall>p \<in> set (parents x). p \<noteq> [] \<longrightarrow> p \<in> levels parents S d"
    unfolding r by simp
  from levels_closed [OF closed, of "max_nested_depth - d"] d r show ?thesis by simp
qed

lemma bfs_process:
  assumes "bfs_state parents S d (x # a) b r ((x, d) # q)" and "d < max_nested_depth"
    and "add_parents (parents x) d r q = (r', q', False)"
  shows "bfs_state parents S d a (b @ drop (length r) r') r' q' \<and> set r \<subseteq> set r'"
proof -
  from add_parents_result [OF assms(3)] have
    r': "set r' = set r \<union> {p \<in> set (parents x). p \<noteq> []}"
    and q': "q' = q @ map (\<lambda>p. (p, d + 1)) (drop (length r) r')" by auto
  obtain new where new: "r' = r @ new" using add_parents_growth [OF assms(3)] by blast
  have x: "x \<in> levels parents S d" using assms(1) by (auto simp: bfs_state_def)
  then have "{p \<in> set (parents x). p \<noteq> []} \<subseteq> levels parents S (d + 1)" by auto
  then have sub: "set r' \<subseteq> levels parents S (d + 1)"
    using assms(1) r' levels_mono [of d "d + 1" parents S]
    by (auto simp: bfs_state_def simp del: levels.simps)
  have "\<forall>y \<in> levels parents S d - set a. \<forall>p \<in> set (parents y). p \<noteq> [] \<longrightarrow> p \<in> set r'"
  proof (intro ballI impI)
    fix y p assume y: "y \<in> levels parents S d - set a" and p: "p \<in> set (parents y)" "p \<noteq> []"
    show "p \<in> set r'"
    proof (cases "y = x")
      case True
      with p r' show ?thesis by simp
    next
      case False
      with y have "y \<in> levels parents S d - set (x # a)" by simp
      with p assms(1,2) have "p \<in> set r" unfolding bfs_state_def by blast
      with r' show ?thesis by simp
    qed
  qed
  with sub show ?thesis
    using assms(1,2) q' new by (simp add: bfs_state_def del: levels.simps) auto
qed

lemma expand_loop_bfs:
  "bfs_state parents S d a b r q \<Longrightarrow> bfs_result parents S r (expand_loop parents r q)"
proof (induction parents r q arbitrary: d a b rule: expand_loop.induct)
  case (1 parents r)
  then have "bfs_state parents S d [] [] r []" by (auto simp: bfs_state_def)
  from bfs_done [OF this] show ?case by (simp add: bfs_result_def)
next
  case (2 parents r g depth q)
  have one: "bfs_result parents S r (expand_loop parents r ((g, depth) # q))"
    if st: "bfs_state parents S e (g # a') b' r ((g, depth) # q)" for e a' b'
  proof -
    have e: "depth = e" "e \<le> max_nested_depth" using st by (auto simp: bfs_state_def)
    show ?thesis
    proof (cases "depth \<ge> max_nested_depth")
      case True
      then have "bfs_state parents S e a' b' r q" using st e by (auto simp: bfs_state_def)
      from "2.IH"(1) [OF True this] True show ?thesis by simp
    next
      case False
      obtain r' q' stop where run: "add_parents (parents g) depth r q = (r', q', stop)"
        by (metis prod_cases3)
      show ?thesis
      proof (cases stop)
        case True
        have "g \<in> levels parents S e" "set r \<subseteq> levels parents S (e + 1)"
          using st levels_mono [of e "e + 1" parents S] by (auto simp: bfs_state_def)
        then have "set r' \<subseteq> levels parents S (e + 1)"
          using add_parents_stop [OF run] by fastforce
        moreover have "levels parents S (e + 1) \<subseteq> levels parents S max_nested_depth"
          using False e by (intro levels_mono) simp
        ultimately show ?thesis
          using add_parents_stop [OF run] run False True by (auto simp: bfs_result_def)
      next
        case no_stop: False
        have proc: "bfs_state parents S e a' (b' @ drop (length r) r') r' q' \<and> set r \<subseteq> set r'"
          using bfs_process [of parents S e g a' b' r q r' q'] st e False run no_stop by simp
        have "bfs_result parents S r' (expand_loop parents r' q')"
          by (rule "2.IH"(2) [OF False run [symmetric] refl no_stop]) (use proc in blast)
        with proc run False no_stop show ?thesis by (auto simp: bfs_result_def)
      qed
    qed
  qed
  show ?case
  proof (cases a)
    case (Cons x a')
    with "2.prems" have "x = g" by (auto simp: bfs_state_def)
    with one "2.prems" Cons show ?thesis by blast
  next
    case Nil
    with "2.prems" obtain b' where b: "b = g # b'" by (cases b) (auto simp: bfs_state_def)
    have "bfs_state parents S (d + 1) (g # b') [] r ((g, depth) # q)"
      using bfs_next_level "2.prems" Nil b by blast
    then show ?thesis by (rule one)
  qed
qed

lemma expand_parent_ids_bfs:
  "bfs_result parents (set direct) direct (expand_parent_ids parents direct)"
  unfolding expand_parent_ids_def
  by (rule expand_loop_bfs [where d = 0 and a = direct and b = "[]"]) (simp add: bfs_state_def)

section \<open>Which record stands for a DN\<close>

definition has_dn :: "string \<Rightarrow> external_group \<Rightarrow> bool" where
  "has_dn k g \<longleftrightarrow> k \<noteq> [] \<and> ascii_lower (eg_distinguished_name g) = k"

lemma map_of_prefer_record:
  "map_of (snd (prefer_record g (direct, dns))) k =
     (if has_dn k g \<and> map_of dns k \<noteq> None then Some (eg_id g) else map_of dns k)"
  by (auto simp: prefer_record_def has_dn_def Let_def split: option.split)

lemma prefer_records_last:
  "map_of (snd (prefer_records gs (direct, dns))) k =
     (case map_of dns k of
        None \<Rightarrow> None
      | Some old \<Rightarrow> Some (case find (has_dn k) (rev gs) of None \<Rightarrow> old | Some g \<Rightarrow> eg_id g))"
proof (induction gs rule: rev_induct)
  case Nil
  then show ?case by (simp add: prefer_records_def split: option.split)
next
  case (snoc g gs)
  obtain direct' dns' where st: "prefer_records gs (direct, dns) = (direct', dns')" by fastforce
  have "prefer_records (gs @ [g]) (direct, dns) = prefer_record g (direct', dns')"
    using st by (simp add: prefer_records_def)
  moreover have "map_of dns' k = (case map_of dns k of None \<Rightarrow> None
      | Some old \<Rightarrow> Some (case find (has_dn k) (rev gs) of None \<Rightarrow> old | Some g \<Rightarrow> eg_id g))"
    using snoc st by simp
  ultimately show ?case
    by (simp add: map_of_prefer_record split: option.split)
qed

lemma find_later:
  assumes "sorted (map key xs)" and "f \<in> set xs" and "g \<in> set xs" and "P f" and "key g < key f"
    and "distinct xs"
  shows "find P (rev xs) \<noteq> Some g"
  using assms
proof (induction xs rule: rev_induct)
  case Nil
  then show ?case by simp
next
  case (snoc x xs)
  show ?case
  proof (cases "P x")
    case True
    have "g \<noteq> x"
    proof
      assume "g = x"
      with snoc.prems have "f \<in> set xs" "key f \<le> key x" by (auto simp: sorted_append)
      with \<open>g = x\<close> snoc.prems(5) show False by simp
    qed
    with True show ?thesis by simp
  next
    case False
    with snoc.prems(2,4) have f: "f \<in> set xs" by auto
    show ?thesis
    proof (cases "g \<in> set xs")
      case True
      then have "find P (rev xs) \<noteq> Some g" using snoc f by (simp add: sorted_append)
      with False show ?thesis by simp
    next
      case not_in: False
      show ?thesis
      proof
        assume "find P (rev (xs @ [x])) = Some g"
        with False have "find P (rev xs) = Some g" by simp
        then have "g \<in> set xs" by (auto dest: find_Some_D)
        with not_in show False ..
      qed
    qed
  qed
qed

section \<open>The projection keeps the store\<close>

lemma repo_step_Inr_iff: "repo_step f svc = (Inr x, svc') \<longleftrightarrow> (\<exists>db. f (ps_db svc) = Inr (x, db) \<and> svc' = svc\<lparr>ps_db := db\<rparr>)"
  by (auto simp: repo_step_def split: sum.splits)

text \<open>What the projection of \<open>identity\<close> leaves alone.\<close>

definition others_kept :: "string \<Rightarrow> rbac_db \<Rightarrow> rbac_db \<Rightarrow> bool" where
  "others_kept identity d d' \<longleftrightarrow>
     db_roles d' = db_roles d \<and> db_role_permissions d' = db_role_permissions d \<and>
     db_groups d' = db_groups d \<and> db_group_members d' = db_group_members d \<and>
     db_group_roles d' = db_group_roles d \<and> db_user_roles d' = db_user_roles d \<and>
     db_policies d' = db_policies d \<and> db_policy_subjects d' = db_policy_subjects d \<and>
     del_rows (\<lambda>m. em_provider m = ''ldap'' \<and> em_identity_id m = identity) (db_external_memberships d')
       = del_rows (\<lambda>m. em_provider m = ''ldap'' \<and> em_identity_id m = identity) (db_external_memberships d)"

definition projected :: "(string \<Rightarrow> string) \<Rightarrow> string \<Rightarrow> rbac_db \<Rightarrow> perm_service \<Rightarrow> bool" where
  "projected U identity d svc \<longleftrightarrow> (rbac_step U)\<^sup>*\<^sup>* d (ps_db svc) \<and> others_kept identity d (ps_db svc)"

lemma others_kept_trans:
  "others_kept i a b \<Longrightarrow> others_kept i b c \<Longrightarrow> others_kept i a c"
  by (auto simp: others_kept_def)

lemma projected_step:
  assumes "projected U i d svc" and "apply_rbac_op known U op (ps_db svc) = Inr (ps_db svc')"
    and "others_kept i (ps_db svc) (ps_db svc')"
  shows "projected U i d svc'"
  using assms others_kept_trans rbac_step.intros [OF assms(2)]
  by (auto simp: projected_def intro: rtranclp.rtrancl_into_rtrancl)

lemma projected_group_dn:
  assumes "project_group_dn U now dn b svc = (Inr c, svc')" and "projected U i d svc"
  shows "projected U i d svc'"
proof (cases "py_strip dn = []")
  case True
  with assms show ?thesis by (cases b) (auto simp: project_group_dn_def res_iff)
next
  case False
  obtain direct dns where b: "b = (direct, dns)" by (cases b)
  let ?op = "upsert_external_group U now ''ldap'' (''dn:'' @ ascii_lower (py_strip dn)) (py_strip dn)
      (py_strip dn) [] ''active''"
  from assms(1) False obtain gid db where
    up: "?op (ps_db svc) = Inr (gid, db)" and svc': "svc' = svc\<lparr>ps_db := db\<rparr>"
    by (auto simp: project_group_dn_def b Let_def res_iff repo_step_Inr_iff)
  have "apply_rbac_op [] U (Op_upsert_external_group now ''ldap'' (''dn:'' @ ascii_lower (py_strip dn))
      (py_strip dn) (py_strip dn) [] ''active'') (ps_db svc) = Inr (ps_db svc')"
    using up svc' by (simp add: state_of_def)
  moreover have "others_kept i (ps_db svc) (ps_db svc')"
    using up svc' by (auto simp: others_kept_def upsert_external_group_def Let_def res_iff split: if_splits)
  ultimately show ?thesis using assms(2) by (blast intro: projected_step)
qed

lemma projected_mapping:
  assumes "project_mapping dns now m b svc = (Inr c, svc')" and "projected U i d svc"
  shows "projected U i d svc'"
proof (cases "map_of dns (ascii_lower (lm_group_dn m)) = None \<or> map_of dns (ascii_lower (lm_group_dn m)) = Some []")
  case True
  with assms show ?thesis by (auto simp: project_mapping_def res_iff)
next
  case False
  then obtain gid where gid: "map_of dns (ascii_lower (lm_group_dn m)) = Some gid" "gid \<noteq> []" by auto
  let ?role = "projection_role_id (if lm_role m = [] then ''user'' else lm_role m)"
  let ?og = "\<lparr>or_actor = ''ldap-login-sync'', or_source_ip = [], or_now = now\<rparr>"
  from assms(1) gid obtain db where
    up: "map_external_group_role gid ?role ?og (ps_db svc) = Inr db" and svc': "svc' = svc\<lparr>ps_db := db\<rparr>"
    by (auto simp: project_mapping_def res_iff repo_step_Inr_iff)
  have "apply_rbac_op [] U (Op_map_external_group_role gid ?role ?og) (ps_db svc) = Inr (ps_db svc')"
    using up svc' by simp
  moreover have "others_kept i (ps_db svc) (ps_db svc')"
    using up svc' by (auto simp: others_kept_def map_external_group_role_def res_iff)
  ultimately show ?thesis using assms(2) by (blast intro: projected_step)
qed

lemma projected_memberships:
  assumes "replace_external_memberships ''ldap'' i name gids direct now (ps_db svc) = Inr (ps_db svc')"
    and "projected U i d svc"
  shows "projected U i d svc'"
proof -
  have "apply_rbac_op [] U (Op_replace_external_memberships ''ldap'' i name gids direct now) (ps_db svc)
      = Inr (ps_db svc')"
    using assms(1) by simp
  moreover have "others_kept i (ps_db svc) (ps_db svc')"
  proof -
    obtain rows where "ps_db svc' = (ps_db svc)\<lparr>db_external_memberships := rows\<rparr>"
      using replace_external_memberships_Inr [OF assms(1)] by blast
    moreover have "del_rows (\<lambda>m. em_provider m = ''ldap'' \<and> em_identity_id m = i) (db_external_memberships (ps_db svc'))
       = del_rows (\<lambda>m. em_provider m = ''ldap'' \<and> em_identity_id m = i) (db_external_memberships (ps_db svc))"
      unfolding replaced_memberships [OF assms(1) refl] by (auto simp: del_rows_def)
    ultimately show ?thesis by (simp add: others_kept_def)
  qed
  ultimately show ?thesis using assms(2) by (blast intro: projected_step)
qed

section \<open>Properties\<close>

text \<open>
  C22. The login-time expansion of nested groups is breadth-first search: it keeps the direct groups,
  adds only groups at most 16 parent links away, whatever cycles the directory has, and adds all of
  them unless it stops at 10000 groups.
\<close>

theorem nested_expansion_exact:
  "set direct \<subseteq> set (expand_parent_ids parents direct)
   \<and> set (expand_parent_ids parents direct) \<subseteq> levels parents (set direct) 16
   \<and> (set (expand_parent_ids parents direct) = levels parents (set direct) 16
      \<or> 10000 \<le> length (expand_parent_ids parents direct))"
  using expand_parent_ids_bfs [of parents direct] unfolding bfs_result_def by auto

text \<open>
  Of two directory records with the same DN, the one whose name sorts first never represents
  the DN, whichever of the two carries the immutable id: the loop that means to prefer the
  synchronized record keeps the last one in name order.
\<close>

theorem record_with_first_name_loses:
  assumes "keyed eg_id (db_external_groups db)"
    and "g \<in> set (db_external_groups db)" and "f \<in> set (db_external_groups db)"
    and "ascii_lower (eg_distinguished_name f) = dn" and "dn \<noteq> []"
    and "codes (eg_name g) < codes (eg_name f)"
    and "map_of dns dn \<noteq> None" and "map_of dns dn \<noteq> Some (eg_id g)"
  shows "map_of (snd (prefer_records (map fst (external_groups db)) (direct, dns))) dn \<noteq> Some (eg_id g)"
proof -
  let ?gs = "sort_key (\<lambda>g. codes (eg_name g)) (db_external_groups db)"
  have gs: "map fst (external_groups db) = ?gs" by (simp add: external_groups_def o_def)
  have "distinct ?gs" using assms(1) by (simp add: keyed_def distinct_map)
  then have "find (has_dn dn) (rev ?gs) \<noteq> Some g"
    using assms by (intro find_later [where key = "\<lambda>g. codes (eg_name g)" and f = f]) (auto simp: has_dn_def)
  moreover have "q \<in> set (db_external_groups db)" if "find (has_dn dn) (rev ?gs) = Some q" for q
    using that by (auto dest: find_Some_D)
  ultimately have "find (has_dn dn) (rev ?gs) = Some q \<Longrightarrow> eg_id q \<noteq> eg_id g" for q
    using keyed_eqI [OF assms(1) _ assms(2)] by metis
  then show ?thesis
    unfolding gs prefer_records_last using assms(7,8) by (auto split: option.splits)
qed

definition synced_group :: external_group where
  "synced_group =
     \<lparr>eg_id = ''g-immutable'', eg_provider_id = ''ldap'', eg_external_id = ''uuid:1'',
      eg_distinguished_name = ''cn=admins,dc=x'', eg_name = ''admins'', eg_status = ''active'',
      eg_parent_ids = [''g-parent''], eg_last_seen_at = 0\<rparr>"

definition fallback_group :: external_group where
  "fallback_group =
     synced_group\<lparr>eg_id := ''g-dn'', eg_external_id := ''dn:cn=admins,dc=x'',
       eg_name := ''cn=admins,dc=x'', eg_parent_ids := []\<rparr>"

theorem record_with_first_name_loses_witness:
  "map_of (snd (prefer_records (map fst (external_groups (empty_rbac_db
       \<lparr>db_external_groups := [fallback_group, synced_group]\<rparr>)))
     ([''g-dn''], [(''cn=admins,dc=x'', ''g-dn'')]))) ''cn=admins,dc=x'' \<noteq> Some ''g-immutable''"
proof -
  let ?db = "empty_rbac_db\<lparr>db_external_groups := [fallback_group, synced_group]\<rparr>"
  have "keyed eg_id (db_external_groups ?db)"
    by (simp add: keyed_def fallback_group_def synced_group_def)
  moreover have "ascii_lower (eg_distinguished_name fallback_group) = ''cn=admins,dc=x''" by code_simp
  moreover have "codes (eg_name synced_group) < codes (eg_name fallback_group)" by code_simp
  ultimately have "map_of (snd (prefer_records (map fst (external_groups ?db))
     ([''g-dn''], [(''cn=admins,dc=x'', ''g-dn'')]))) ''cn=admins,dc=x'' \<noteq> Some (eg_id synced_group)"
    by (intro record_with_first_name_loses [where f = fallback_group]) (simp_all add: synced_group_def)
  then show ?thesis by (simp add: synced_group_def)
qed


definition synced_db :: rbac_db where
  "synced_db =
     sample_db\<lparr>db_external_groups := [synced_group],
       db_external_memberships :=
         [\<lparr>em_external_group_id = ''g-immutable'', em_provider = ''ldap'', em_identity_id = ''id1'',
           em_username = ''ann'', em_direct = True, em_last_seen_at = 0\<rparr>]\<rparr>"


end
