(* ===== verification/Job_Store.thy ===== *)
theory Job_Store
  imports Json_Value "HOL-Library.List_Lexorder" "HOL-Library.Char_ord" "HOL-Library.Product_Lexorder"
begin

text \<open>
  The job table of \<^verbatim>\<open>jobs/models.py\<close> and \<^verbatim>\<open>jobs/repository.py\<close>: jobs, their
  bounded logs and their dependencies, and every operation of \<^verbatim>\<open>JobRepository\<close>. A row holds
  the decoded values of its columns; the JSON columns hold dictionaries. New identifiers and the
  clock are arguments.
\<close>

section \<open>Statuses and priorities\<close>

datatype job_status =
    Js_queued | Js_waiting | Js_running | Js_success | Js_failed | Js_cancel_requested
  | Js_cancelled | Js_timed_out | Js_retrying | Js_blocked

datatype job_priority = Jp_low | Jp_normal | Jp_high | Jp_critical

fun status_value :: "job_status \<Rightarrow> string" where
  "status_value Js_queued = ''queued''"
| "status_value Js_waiting = ''waiting''"
| "status_value Js_running = ''running''"
| "status_value Js_success = ''success''"
| "status_value Js_failed = ''failed''"
| "status_value Js_cancel_requested = ''cancel_requested''"
| "status_value Js_cancelled = ''cancelled''"
| "status_value Js_timed_out = ''timed_out''"
| "status_value Js_retrying = ''retrying''"
| "status_value Js_blocked = ''blocked''"

fun priority_value :: "job_priority \<Rightarrow> string" where
  "priority_value Jp_low = ''low''"
| "priority_value Jp_normal = ''normal''"
| "priority_value Jp_high = ''high''"
| "priority_value Jp_critical = ''critical''"

definition all_statuses :: "job_status list" where
  "all_statuses = [Js_queued, Js_waiting, Js_running, Js_success, Js_failed, Js_cancel_requested,
     Js_cancelled, Js_timed_out, Js_retrying, Js_blocked]"

text \<open>Reading a column: an unknown status counts as failed, an unknown priority as normal.\<close>

definition job_status_of :: "string \<Rightarrow> job_status" where
  "job_status_of v = (case find (\<lambda>s. status_value s = v) all_statuses of
     Some s \<Rightarrow> s | None \<Rightarrow> Js_failed)"

definition job_priority_of :: "string \<Rightarrow> job_priority" where
  "job_priority_of v = (case find (\<lambda>p. priority_value p = v) [Jp_low, Jp_normal, Jp_high, Jp_critical] of
     Some p \<Rightarrow> p | None \<Rightarrow> Jp_normal)"

definition terminal_statuses :: "job_status list" where
  "terminal_statuses = [Js_success, Js_failed, Js_cancelled, Js_timed_out, Js_blocked]"

definition active_statuses :: "job_status list" where
  "active_statuses = [Js_queued, Js_waiting, Js_running, Js_cancel_requested, Js_retrying]"

section \<open>The tables\<close>

type_synonym dict = "(string \<times> json) list"

record job =
  job_id :: string
  job_type :: string
  job_module :: string
  job_name :: string
  job_description :: string
  job_status :: job_status
  job_priority :: job_priority
  job_progress :: "int option"
  job_current_step :: string
  job_total_steps :: "nat option"
  job_created_at :: time
  job_queued_at :: "time option"
  job_started_at :: "time option"
  job_finished_at :: "time option"
  job_created_by :: string
  job_worker :: string
  job_retry_count :: nat
  job_max_retries :: int
  job_timeout :: "real option"
  job_result :: dict
  job_error :: string
  job_message :: string
  job_metadata :: dict
  job_retryable :: bool
  job_cancellable :: bool
  job_cancel_requested :: bool
  job_parent :: "string option"
  job_correlation :: "string option"
  job_dedup_key :: "string option"

record job_log =
  log_id :: nat
  log_job_id :: string
  log_created_at :: time
  log_level :: string
  log_message :: string
  log_data :: dict

record job_db =
  jd_jobs :: "job list"
  jd_logs :: "job_log list"
  jd_next_log :: nat
  jd_dependencies :: "(string \<times> string) list"

definition empty_job_db :: job_db where
  "empty_job_db = \<lparr>jd_jobs = [], jd_logs = [], jd_next_log = 1, jd_dependencies = []\<rparr>"

text \<open>The keyword arguments of \<^verbatim>\<open>create\<close> and \<^verbatim>\<open>create_job\<close>, with their defaults.\<close>

record job_spec =
  sp_type :: string
  sp_module :: string
  sp_created_by :: string
  sp_metadata :: dict
  sp_retryable :: bool
  sp_cancellable :: bool
  sp_parent :: "string option"
  sp_retry_count :: nat
  sp_name :: string
  sp_description :: string
  sp_priority :: job_priority
  sp_max_retries :: int
  sp_timeout :: "real option"
  sp_correlation :: "string option"
  sp_dedup_key :: "string option"
  sp_dependencies :: "string list"
  sp_total_steps :: "nat option"

definition default_spec :: job_spec where
  "default_spec = \<lparr>sp_type = [], sp_module = [], sp_created_by = [], sp_metadata = [],
     sp_retryable = False, sp_cancellable = False, sp_parent = None, sp_retry_count = 0,
     sp_name = [], sp_description = [], sp_priority = Jp_normal, sp_max_retries = 0,
     sp_timeout = None, sp_correlation = None, sp_dedup_key = None, sp_dependencies = [],
     sp_total_steps = None\<rparr>"

section \<open>Reading and creating jobs\<close>

definition job_get :: "string \<Rightarrow> job_db \<Rightarrow> job option" where
  "job_get jid db = find (\<lambda>j. job_id j = jid) (jd_jobs db)"

definition job_row :: "job_spec \<Rightarrow> job_status \<Rightarrow> string \<Rightarrow> time \<Rightarrow> job" where
  "job_row sp status jid now =
     \<lparr>job_id = jid, job_type = sp_type sp, job_module = sp_module sp, job_name = sp_name sp,
      job_description = sp_description sp, job_status = status, job_priority = sp_priority sp,
      job_progress = None, job_current_step = [], job_total_steps = sp_total_steps sp,
      job_created_at = now, job_queued_at = Some now, job_started_at = None,
      job_finished_at = None, job_created_by = sp_created_by sp, job_worker = [],
      job_retry_count = sp_retry_count sp, job_max_retries = sp_max_retries sp,
      job_timeout = sp_timeout sp, job_result = [], job_error = [], job_message = [],
      job_metadata = sp_metadata sp, job_retryable = sp_retryable sp,
      job_cancellable = sp_cancellable sp, job_cancel_requested = False,
      job_parent = sp_parent sp, job_correlation = sp_correlation sp,
      job_dedup_key = sp_dedup_key sp\<rparr>"

definition repo_create :: "job_spec \<Rightarrow> job_status \<Rightarrow> string \<Rightarrow> time \<Rightarrow> job_db \<Rightarrow> (job \<times> job_db) res" where
  "repo_create sp status jid now db =
     rbind (insert_row job_id ''jobs.id'' (job_row sp status jid now) (jd_jobs db)) (\<lambda>rows.
       let db' = db\<lparr>jd_jobs := rows\<rparr>
       in (case job_get jid db' of
             None \<Rightarrow> Inl (RuntimeError ''Job could not be read after creation'')
           | Some j \<Rightarrow> Inr (j, db')))"

text \<open>\<open>ORDER BY created_at DESC LIMIT 1\<close>: the first of the rows with the greatest time.\<close>

fun latest_job :: "job list \<Rightarrow> job option" where
  "latest_job [] = None"
| "latest_job (j # js) =
     (case latest_job js of
        None \<Rightarrow> Some j
      | Some k \<Rightarrow> if job_created_at j < job_created_at k then Some k else Some j)"

definition find_active_by_dedup :: "string \<Rightarrow> job_db \<Rightarrow> job option" where
  "find_active_by_dedup key db =
     latest_job (filter (\<lambda>j. job_dedup_key j = Some key \<and> job_status j \<in> set active_statuses) (jd_jobs db))"

record job_filter =
  jf_status :: "job_status option"
  jf_module :: "string option"
  jf_type :: "string option"
  jf_created_by :: "string option"
  jf_since :: "time option"
  jf_until :: "time option"

definition equals_if :: "'a option \<Rightarrow> 'a \<Rightarrow> bool" where
  "equals_if candidate x = (case candidate of None \<Rightarrow> True | Some c \<Rightarrow> x = c)"

definition job_selected :: "job_filter \<Rightarrow> job \<Rightarrow> bool" where
  "job_selected flt j \<longleftrightarrow>
     equals_if (jf_status flt) (job_status j) \<and> equals_if (jf_module flt) (job_module j)
     \<and> equals_if (jf_type flt) (job_type j) \<and> equals_if (jf_created_by flt) (job_created_by j)
     \<and> (case jf_since flt of None \<Rightarrow> True | Some t \<Rightarrow> t \<le> job_created_at j)
     \<and> (case jf_until flt of None \<Rightarrow> True | Some t \<Rightarrow> job_created_at j \<le> t)"

record job_page =
  jp_items :: "job list"
  jp_total :: nat
  jp_limit :: int
  jp_offset :: int

definition repo_list :: "job_filter \<Rightarrow> int \<Rightarrow> int \<Rightarrow> job_db \<Rightarrow> job_page" where
  "repo_list flt limit offset db =
     (let selected = filter (job_selected flt) (jd_jobs db);
          ordered = rev (sort_key (\<lambda>j. (job_created_at j, job_id j)) selected);
          safe_limit = min (max limit 1) 500;
          safe_offset = max offset 0
      in \<lparr>jp_items = take (nat safe_limit) (drop (nat safe_offset) ordered),
          jp_total = length selected, jp_limit = safe_limit, jp_offset = safe_offset\<rparr>)"

section \<open>Updates\<close>

definition update_job :: "string \<Rightarrow> (job \<Rightarrow> job) \<Rightarrow> job_db \<Rightarrow> job option \<times> job_db" where
  "update_job jid f db =
     (let db' = db\<lparr>jd_jobs := upd_rows (\<lambda>j. job_id j = jid) f (jd_jobs db)\<rparr>
      in (job_get jid db', db'))"

definition mark_running :: "string \<Rightarrow> string \<Rightarrow> time \<Rightarrow> job_db \<Rightarrow> job option \<times> job_db" where
  "mark_running jid worker now = update_job jid
     (\<lambda>j. j\<lparr>job_status := Js_running, job_started_at := Some now, job_worker := worker,
            job_message := ''Running''\<rparr>)"

definition mark_success :: "string \<Rightarrow> dict \<Rightarrow> time \<Rightarrow> job_db \<Rightarrow> job option \<times> job_db" where
  "mark_success jid result now db =
     (case job_get jid db of
        None \<Rightarrow> (None, db)
      | Some current \<Rightarrow>
          if job_status current \<in> {Js_cancelled, Js_timed_out, Js_blocked} then (Some current, db)
          else update_job jid
            (\<lambda>j. j\<lparr>job_status := Js_success, job_progress := Some 100, job_finished_at := Some now,
                   job_result := result, job_message := ''Completed''\<rparr>) db)"

definition mark_finished ::
  "string \<Rightarrow> job_status \<Rightarrow> string \<Rightarrow> string \<Rightarrow> time \<Rightarrow> job_db \<Rightarrow> job option \<times> job_db" where
  "mark_finished jid status error message now = update_job jid
     (\<lambda>j. j\<lparr>job_status := status, job_finished_at := Some now, job_error := error,
            job_message := message\<rparr>)"

definition mark_failed :: "string \<Rightarrow> string \<Rightarrow> time \<Rightarrow> job_db \<Rightarrow> job option \<times> job_db" where
  "mark_failed jid error = mark_finished jid Js_failed error ''Failed''"

definition mark_timed_out :: "string \<Rightarrow> string \<Rightarrow> time \<Rightarrow> job_db \<Rightarrow> job option \<times> job_db" where
  "mark_timed_out jid error = mark_finished jid Js_timed_out error ''Timed out''"

definition mark_blocked :: "string \<Rightarrow> string \<Rightarrow> time \<Rightarrow> job_db \<Rightarrow> job option \<times> job_db" where
  "mark_blocked jid error = mark_finished jid Js_blocked error ''Blocked by dependency''"

definition mark_cancelled :: "string \<Rightarrow> string \<Rightarrow> time \<Rightarrow> job_db \<Rightarrow> job option \<times> job_db" where
  "mark_cancelled jid message now = update_job jid
     (\<lambda>j. j\<lparr>job_status := Js_cancelled, job_finished_at := Some now, job_cancel_requested := True,
            job_message := message\<rparr>)"

definition request_cancel :: "string \<Rightarrow> time \<Rightarrow> job_db \<Rightarrow> job option \<times> job_db" where
  "request_cancel jid now db =
     (case job_get jid db of
        None \<Rightarrow> (None, db)
      | Some j \<Rightarrow>
          if job_status j \<in> {Js_queued, Js_waiting, Js_retrying}
          then mark_cancelled jid ''Cancelled before execution'' now db
          else update_job jid
            (\<lambda>j. j\<lparr>job_status := Js_cancel_requested, job_cancel_requested := True,
                   job_message := ''Cancellation requested''\<rparr>) db)"

section \<open>Dependencies\<close>

definition check_dependency :: "string \<Rightarrow> job_db \<Rightarrow> string \<Rightarrow> unit res" where
  "check_dependency jid db dependency =
     (if dependency = jid then Inl (ValueError ''job cannot depend on itself'')
      else if job_get dependency db = None
        then Inl (ValueError (''dependency does not exist: '' @ dependency))
      else Inr ())"

definition add_dependencies :: "string \<Rightarrow> string list \<Rightarrow> job_db \<Rightarrow> job_db res" where
  "add_dependencies jid dependencies db =
     (if dependencies = [] then Inr db
      else rbind (rfold (\<lambda>d _. check_dependency jid db d) dependencies ()) (\<lambda>_.
        Inr (db\<lparr>jd_dependencies :=
                  fold (\<lambda>d. insert_ignore id (jid, d)) dependencies (jd_dependencies db)\<rparr>)))"

definition dependency_states :: "string \<Rightarrow> job_db \<Rightarrow> job_status list" where
  "dependency_states jid db =
     concat (map (\<lambda>(_, d). map job_status (filter (\<lambda>j. job_id j = d) (jd_jobs db)))
       (filter (\<lambda>(k, _). k = jid) (jd_dependencies db)))"

definition dependents :: "string \<Rightarrow> job_db \<Rightarrow> string list" where
  "dependents jid db = map fst (filter (\<lambda>(_, d). d = jid) (jd_dependencies db))"

section \<open>Logs\<close>

definition newest_log_ids :: "string \<Rightarrow> job_log list \<Rightarrow> nat list" where
  "newest_log_ids jid logs = take 2000 (rev (sort (map log_id (filter (\<lambda>l. log_job_id l = jid) logs))))"

definition append_log ::
  "string \<Rightarrow> string \<Rightarrow> string \<Rightarrow> dict \<Rightarrow> time \<Rightarrow> job_db \<Rightarrow> job_db res" where
  "append_log jid level message data now db =
     (if job_get jid db = None then Inl (IntegrityError ''job_logs.job_id'')
      else let logs = jd_logs db @ [\<lparr>log_id = jd_next_log db, log_job_id = jid, log_created_at = now,
                        log_level = take 16 level, log_message = take 4000 message, log_data = data\<rparr>]
           in Inr (db\<lparr>jd_logs := del_rows (\<lambda>l. log_job_id l = jid
                                   \<and> log_id l \<notin> set (newest_log_ids jid logs)) logs,
                      jd_next_log := jd_next_log db + 1\<rparr>))"

definition repo_logs :: "string \<Rightarrow> int \<Rightarrow> int \<Rightarrow> job_db \<Rightarrow> job_log list" where
  "repo_logs jid limit offset db =
     take (nat (min (max limit 1) 2000)) (drop (nat (max offset 0))
       (sort_key log_id (filter (\<lambda>l. log_job_id l = jid) (jd_logs db))))"

section \<open>Recovery, summary and cleanup\<close>

definition interrupted :: "time \<Rightarrow> job \<Rightarrow> job" where
  "interrupted now j =
     (let (message, error) =
        (if job_status j \<in> {Js_queued, Js_waiting, Js_retrying}
         then (''Interrupted before execution'', ''Application restarted before queued operation started'')
         else (''Interrupted'', ''Application restarted while job was '' @ status_value (job_status j)))
      in j\<lparr>job_status := Js_failed, job_finished_at := Some now, job_message := message,
           job_error := error\<rparr>)"

definition recover_interrupted :: "time \<Rightarrow> job_db \<Rightarrow> nat \<times> job_db" where
  "recover_interrupted now db =
     (let recoverable = (\<lambda>j. job_status j \<in> {Js_queued, Js_waiting, Js_running, Js_cancel_requested, Js_retrying})
      in (length (filter recoverable (jd_jobs db)),
          db\<lparr>jd_jobs := upd_rows recoverable (interrupted now) (jd_jobs db)\<rparr>))"

record job_summary =
  sm_running :: nat
  sm_queued :: nat
  sm_waiting :: nat
  sm_failed :: nat
  sm_completed_today :: nat
  sm_average_seconds :: real
  sm_workers :: nat

definition count_status :: "job_status \<Rightarrow> job_db \<Rightarrow> nat" where
  "count_status s db = length (filter (\<lambda>j. job_status j = s) (jd_jobs db))"

definition run_times :: "job_db \<Rightarrow> real list" where
  "run_times db = concat (map (\<lambda>j. case (job_started_at j, job_finished_at j) of
       (Some s, Some f) \<Rightarrow> [f - s] | _ \<Rightarrow> [])
     (filter (\<lambda>j. job_status j = Js_success) (jd_jobs db)))"

definition repo_summary :: "nat \<Rightarrow> time \<Rightarrow> job_db \<Rightarrow> job_summary" where
  "repo_summary workers now db =
     \<lparr>sm_running = count_status Js_running db,
      sm_queued = count_status Js_queued db + count_status Js_retrying db,
      sm_waiting = count_status Js_waiting db,
      sm_failed = count_status Js_failed db + count_status Js_timed_out db,
      sm_completed_today = length (filter (\<lambda>j. job_status j = Js_success
         \<and> (case job_finished_at j of None \<Rightarrow> False | Some f \<Rightarrow> now - 86400 \<le> f)) (jd_jobs db)),
      sm_average_seconds =
        (let ts = run_times db
         in if ts = [] then 0 else py_round3 (sum_list ts / real (length ts))),
      sm_workers = workers\<rparr>"

definition repo_cleanup :: "time \<Rightarrow> job_db \<Rightarrow> nat \<times> job_db" where
  "repo_cleanup older_than db =
     (let expired = (\<lambda>j. job_status j \<in> set terminal_statuses
            \<and> (case job_finished_at j of None \<Rightarrow> False | Some f \<Rightarrow> f < older_than));
          ids = set (map job_id (filter expired (jd_jobs db)))
      in (length (filter expired (jd_jobs db)),
          db\<lparr>jd_jobs := del_rows expired (jd_jobs db),
             jd_logs := del_rows (\<lambda>l. log_job_id l \<in> ids) (jd_logs db),
             jd_dependencies := del_rows (\<lambda>(k, d). k \<in> ids \<or> d \<in> ids) (jd_dependencies db)\<rparr>))"

end
