(* ===== verification/Job_Runner.thy ===== *)
theory Job_Runner
  imports Job_Store "HOL-Library.Multiset"
begin

text \<open>
  The in-process priority executor of \<^verbatim>\<open>jobs/runner.py\<close>: its queue, the futures by
  which a queued job is cancelled, and what a worker thread does with one entry. The queue is the
  list of its entries in the order \<^verbatim>\<open>PriorityQueue.get\<close> returns them; a future is
  named by the sequence number of its submission. The contract of a priority queue is a locale, and
  that its owner empties it in order is proved there once.
\<close>

section \<open>The contract of a priority queue\<close>

primrec drain :: "('q \<Rightarrow> ('e \<times> 'q) option) \<Rightarrow> nat \<Rightarrow> 'q \<Rightarrow> 'e list \<times> 'q" where
  "drain get 0 q = ([], q)"
| "drain get (Suc n) q =
     (case get q of None \<Rightarrow> ([], q)
      | Some (e, q') \<Rightarrow> (case drain get n q' of (es, q'') \<Rightarrow> (e # es, q'')))"

locale priority_queue =
  fixes put :: "'e \<Rightarrow> 'q \<Rightarrow> 'q"
    and get :: "'q \<Rightarrow> ('e \<times> 'q) option"
    and contents :: "'q \<Rightarrow> 'e multiset"
    and inv :: "'q \<Rightarrow> bool"
    and key :: "'e \<Rightarrow> 'k :: linorder"
  assumes inv_put: "inv q \<Longrightarrow> inv (put e q)"
    and put_contents: "inv q \<Longrightarrow> contents (put e q) = add_mset e (contents q)"
    and get_None: "inv q \<Longrightarrow> get q = None \<longleftrightarrow> contents q = {#}"
    and get_Some: "inv q \<Longrightarrow> get q = Some (e, q') \<Longrightarrow>
      inv q' \<and> contents q = add_mset e (contents q') \<and> (\<forall>x. x \<in># contents q' \<longrightarrow> key e \<le> key x)"
begin

lemma drain_all:
  "inv q \<Longrightarrow> size (contents q) \<le> n \<Longrightarrow> drain get n q = (es, q') \<Longrightarrow>
     mset es = contents q \<and> sorted (map key es) \<and> contents q' = {#} \<and> inv q'"
proof (induction n arbitrary: q es q')
  case 0
  then show ?case by simp
next
  case (Suc n)
  show ?case
  proof (cases "get q")
    case None
    with Suc.prems show ?thesis by (simp add: get_None)
  next
    case (Some eq)
    obtain e q1 es1 where e: "eq = (e, q1)" and d: "drain get n q1 = (es1, q')" and es: "es = e # es1"
      using Suc.prems(3) Some by (auto split: prod.splits)
    note g = get_Some [OF Suc.prems(1), of e q1]
    have "mset es1 = contents q1 \<and> sorted (map key es1) \<and> contents q' = {#} \<and> inv q'"
      using g Some e Suc.prems(2) by (intro Suc.IH [OF _ _ d]) auto
    with g Some e es show ?thesis by (auto simp flip: set_mset_mset)
  qed
qed

end

section \<open>The runner's state\<close>

datatype future_state = Fut_pending | Fut_running | Fut_cancelled | Fut_finished

record 't queue_entry =
  qe_priority :: nat
  qe_sequence :: nat
  qe_job_id :: string
  qe_target :: 't

record 't job_runner =
  rn_max_workers :: nat
  rn_queue :: "'t queue_entry list"
  rn_futures :: "(string \<times> nat) list"
  rn_state :: "nat \<Rightarrow> future_state"
  rn_counter :: nat
  rn_shutdown :: bool

fun priority_rank :: "job_priority \<Rightarrow> nat" where
  "priority_rank Jp_critical = 0"
| "priority_rank Jp_high = 10"
| "priority_rank Jp_normal = 20"
| "priority_rank Jp_low = 30"

definition new_runner :: "int \<Rightarrow> 't job_runner" where
  "new_runner configured =
     \<lparr>rn_max_workers = nat (min (max configured 1) 16), rn_queue = [], rn_futures = [],
      rn_state = (\<lambda>_. Fut_pending), rn_counter = 0, rn_shutdown = False\<rparr>"

definition entry_key :: "'t queue_entry \<Rightarrow> nat \<times> nat" where
  "entry_key e = (qe_priority e, qe_sequence e)"

definition queue_put :: "'t queue_entry \<Rightarrow> 't queue_entry list \<Rightarrow> 't queue_entry list" where
  "queue_put e q = insort_key entry_key e q"

fun queue_get :: "'t queue_entry list \<Rightarrow> ('t queue_entry \<times> 't queue_entry list) option" where
  "queue_get [] = None"
| "queue_get (e # q) = Some (e, q)"

interpretation pq: priority_queue queue_put queue_get mset "\<lambda>q. sorted (map entry_key q)" entry_key
  by unfold_locales
    (auto simp: queue_put_def sorted_insort_key insort_key_remove1 elim!: queue_get.elims)

section \<open>Operations\<close>

definition futures_pop :: "string \<Rightarrow> (string \<times> nat) list \<Rightarrow> (string \<times> nat) list" where
  "futures_pop jid fs = filter (\<lambda>(k, _). k \<noteq> jid) fs"

definition runner_submit ::
  "string \<Rightarrow> 't \<Rightarrow> job_priority \<Rightarrow> 't job_runner \<Rightarrow> 't job_runner res" where
  "runner_submit jid target priority r =
     (if rn_shutdown r then Inl (RuntimeError ''Job runner is shut down'')
      else let n = rn_counter r
           in Inr (r\<lparr>rn_futures := (jid, n) # futures_pop jid (rn_futures r),
                     rn_state := (rn_state r)(n := Fut_pending),
                     rn_counter := n + 1,
                     rn_queue := queue_put \<lparr>qe_priority = priority_rank priority, qe_sequence = n,
                                            qe_job_id = jid, qe_target = target\<rparr> (rn_queue r)\<rparr>))"

text \<open>\<^verbatim>\<open>Future.cancel\<close>: a pending future is cancelled, a cancelled one stays so.\<close>

definition future_cancel :: "nat \<Rightarrow> 't job_runner \<Rightarrow> bool \<times> 't job_runner" where
  "future_cancel n r =
     (case rn_state r n of
        Fut_pending \<Rightarrow> (True, r\<lparr>rn_state := (rn_state r)(n := Fut_cancelled)\<rparr>)
      | Fut_cancelled \<Rightarrow> (True, r)
      | _ \<Rightarrow> (False, r))"

definition cancel_queued :: "string \<Rightarrow> 't job_runner \<Rightarrow> bool \<times> 't job_runner" where
  "cancel_queued jid r =
     (case map_of (rn_futures r) jid of None \<Rightarrow> (False, r) | Some n \<Rightarrow> future_cancel n r)"

text \<open>
  One turn of a worker: it takes the first entry; a cancelled one is dropped at once, another is
  marked running. When its target has returned, \<^verbatim>\<open>worker_done\<close> closes the turn.
\<close>

definition worker_take :: "'t job_runner \<Rightarrow> ('t queue_entry \<times> bool) option \<times> 't job_runner" where
  "worker_take r =
     (if rn_shutdown r then (None, r)
      else case queue_get (rn_queue r) of
        None \<Rightarrow> (None, r)
      | Some (e, q) \<Rightarrow>
          if rn_state r (qe_sequence e) = Fut_cancelled
          then (Some (e, False), r\<lparr>rn_queue := q, rn_futures := futures_pop (qe_job_id e) (rn_futures r)\<rparr>)
          else (Some (e, True), r\<lparr>rn_queue := q,
                  rn_state := (rn_state r)(qe_sequence e := Fut_running)\<rparr>))"

definition worker_done :: "'t queue_entry \<Rightarrow> 't job_runner \<Rightarrow> 't job_runner" where
  "worker_done e r =
     r\<lparr>rn_state := (rn_state r)(qe_sequence e := Fut_finished),
       rn_futures := futures_pop (qe_job_id e) (rn_futures r)\<rparr>"

text \<open>Closing cancels every registered future that is still pending; running targets end.\<close>

definition runner_shutdown :: "'t job_runner \<Rightarrow> 't job_runner" where
  "runner_shutdown r =
     (if rn_shutdown r then r
      else r\<lparr>rn_shutdown := True,
             rn_state := (\<lambda>n. if rn_state r n = Fut_pending \<and> n \<in> snd ` set (rn_futures r)
                              then Fut_cancelled else rn_state r n)\<rparr>)"

section \<open>A worker left alone empties the queue in order\<close>

text \<open>The targets a worker runs in a number of turns, none of which blocks.\<close>

primrec work :: "nat \<Rightarrow> 't job_runner \<Rightarrow> 't queue_entry list \<times> 't job_runner" where
  "work 0 r = ([], r)"
| "work (Suc n) r =
     (case worker_take r of
        (None, r') \<Rightarrow> ([], r')
      | (Some (e, run), r') \<Rightarrow>
          (case work n (if run then worker_done e r' else r') of
             (es, r'') \<Rightarrow> (if run then e # es else es, r'')))"

inductive runner_step :: "'t job_runner \<Rightarrow> 't job_runner \<Rightarrow> bool" where
  step_submit: "runner_submit jid target priority r = Inr r' \<Longrightarrow> runner_step r r'"
| step_cancel: "runner_step r (snd (cancel_queued jid r))"
| step_take: "runner_step r (snd (worker_take r))"
| step_done: "rn_state r (qe_sequence e) = Fut_running \<Longrightarrow> runner_step r (worker_done e r)"
| step_shutdown: "runner_step r (runner_shutdown r)"

definition runner_init :: "'t job_runner \<Rightarrow> bool" where
  "runner_init r \<longleftrightarrow> (\<exists>configured. r = new_runner configured)"

text \<open>
  The queue is in the order of priority and submission, its sequence numbers are old ones and
  distinct, and no entry in it has been started.
\<close>

definition runner_inv :: "'t job_runner \<Rightarrow> bool" where
  "runner_inv r \<longleftrightarrow>
     sorted (map entry_key (rn_queue r)) \<and> distinct (map qe_sequence (rn_queue r))
     \<and> (\<forall>e \<in> set (rn_queue r). qe_sequence e < rn_counter r
          \<and> rn_state r (qe_sequence e) \<in> {Fut_pending, Fut_cancelled})
     \<and> 1 \<le> rn_max_workers r \<and> rn_max_workers r \<le> 16"

lemma set_queue_put: "set (queue_put e q) = insert e (set q)"
  by (simp add: queue_put_def set_insort_key)

lemma distinct_queue_put:
  "distinct (map f (queue_put e q)) \<longleftrightarrow> f e \<notin> f ` set q \<and> distinct (map f q)"
  unfolding queue_put_def by (induction q) (auto simp: set_insort_key)

lemma runner_inv_init: "runner_init r \<Longrightarrow> runner_inv r"
  by (auto simp: runner_init_def runner_inv_def new_runner_def)

lemma runner_inv_submit: "runner_inv r \<Longrightarrow> runner_submit jid target priority r = Inr r' \<Longrightarrow> runner_inv r'"
  using pq.inv_put [of "rn_queue r"]
  by (fastforce simp: runner_submit_def runner_inv_def Let_def distinct_queue_put set_queue_put
      split: if_splits)

lemma runner_inv_cancel: "runner_inv r \<Longrightarrow> runner_inv (snd (cancel_queued jid r))"
  by (auto simp: cancel_queued_def future_cancel_def runner_inv_def
      split: option.splits future_state.splits)

lemma worker_take_Some:
  "worker_take r = (Some (e, run), r') \<longleftrightarrow>
     \<not> rn_shutdown r \<and> (\<exists>q. rn_queue r = e # q \<and> run = (rn_state r (qe_sequence e) \<noteq> Fut_cancelled)
       \<and> r' = (if run then r\<lparr>rn_queue := q, rn_state := (rn_state r)(qe_sequence e := Fut_running)\<rparr>
               else r\<lparr>rn_queue := q, rn_futures := futures_pop (qe_job_id e) (rn_futures r)\<rparr>))"
  unfolding worker_take_def by (cases "rn_queue r") auto

lemma worker_take_None:
  "worker_take r = (None, r') \<longleftrightarrow> r' = r \<and> (rn_shutdown r \<or> rn_queue r = [])"
  unfolding worker_take_def by (cases "rn_queue r") auto

lemma runner_inv_take: "runner_inv r \<Longrightarrow> runner_inv (snd (worker_take r))"
proof (cases "rn_queue r")
  case (Cons e q)
  assume inv: "runner_inv r"
  have "qe_sequence x \<noteq> qe_sequence e" if "x \<in> set q" for x
    using inv that unfolding runner_inv_def Cons by (metis distinct.simps(2) image_eqI list.set_map list.simps(9))
  with inv show ?thesis by (simp add: worker_take_def runner_inv_def Cons)
qed (simp add: worker_take_def)

lemma runner_inv_done:
  assumes "runner_inv r" and "rn_state r (qe_sequence e) = Fut_running"
  shows "runner_inv (worker_done e r)"
proof -
  have "qe_sequence x \<noteq> qe_sequence e" if "x \<in> set (rn_queue r)" for x
    using assms that by (auto simp: runner_inv_def)
  with assms(1) show ?thesis by (simp add: worker_done_def runner_inv_def)
qed

lemma runner_inv_shutdown: "runner_inv r \<Longrightarrow> runner_inv (runner_shutdown r)"
  unfolding runner_shutdown_def runner_inv_def by auto

lemma runner_inv_step: "runner_inv r \<Longrightarrow> runner_step r r' \<Longrightarrow> runner_inv r'"
  by (erule runner_step.cases)
    (auto intro: runner_inv_submit runner_inv_cancel runner_inv_take runner_inv_shutdown runner_inv_done)

interpretation runner_machine: machine_invariant runner_init runner_step runner_inv
  by unfold_locales (auto intro: runner_inv_init runner_inv_step)

lemma drain_subset: "drain queue_get n q = (es, q') \<Longrightarrow> set es \<subseteq> set q"
proof (induction n arbitrary: q es q')
  case (Suc n)
  then show ?case by (cases q) (fastforce split: prod.splits)+
qed simp

text \<open>A worker that is not stopped takes what the queue's owner would get by draining it.\<close>

lemma work_drain:
  assumes "runner_inv r" and "\<not> rn_shutdown r" and "drain queue_get n (rn_queue r) = (es, q)"
  shows "\<exists>r'. work n r = (filter (\<lambda>e. rn_state r (qe_sequence e) \<noteq> Fut_cancelled) es, r')
           \<and> rn_queue r' = q \<and> \<not> rn_shutdown r'"
  using assms
proof (induction n arbitrary: r es q)
  case 0
  then show ?case by auto
next
  case (Suc n)
  show ?case
  proof (cases "rn_queue r")
    case Nil
    with Suc.prems show ?thesis by (auto simp: worker_take_def)
  next
    case (Cons e q1)
    obtain es1 where d: "drain queue_get n q1 = (es1, q)" and es: "es = e # es1"
      using Suc.prems(3) Cons by (auto split: prod.splits)
    define run where "run = (rn_state r (qe_sequence e) \<noteq> Fut_cancelled)"
    obtain r1 where t: "worker_take r = (Some (e, run), r1)" and r1: "rn_queue r1 = q1"
      "\<not> rn_shutdown r1" "\<And>n. n \<noteq> qe_sequence e \<Longrightarrow> rn_state r1 n = rn_state r n"
      using Suc.prems(2) Cons by (cases run) (auto simp: worker_take_def run_def)
    have i1: "runner_inv r1" using runner_inv_take [OF Suc.prems(1)] t by simp
    have new: "qe_sequence e \<notin> qe_sequence ` set q1" and run: "run \<longrightarrow> rn_state r1 (qe_sequence e) = Fut_running"
      using Suc.prems(1,2) Cons t by (auto simp: runner_inv_def worker_take_def split: if_splits)
    define r2 where "r2 = (if run then worker_done e r1 else r1)"
    have r2: "runner_inv r2" "\<not> rn_shutdown r2" "rn_queue r2 = q1"
      using i1 run r1(1,2) runner_inv_done [of r1 e] by (auto simp: r2_def worker_done_def)
    have same: "rn_state r2 (qe_sequence x) = rn_state r (qe_sequence x)" if "x \<in> set q1" for x
    proof -
      have "qe_sequence x \<noteq> qe_sequence e" using that new by (metis image_eqI)
      then show ?thesis by (simp add: r2_def worker_done_def r1(3))
    qed
    have sub: "set es1 \<subseteq> set q1" using drain_subset [OF d] .
    obtain r' where w: "work n r2 = (filter (\<lambda>e. rn_state r2 (qe_sequence e) \<noteq> Fut_cancelled) es1, r')"
      "rn_queue r' = q" "\<not> rn_shutdown r'"
      using Suc.IH [OF r2(1,2)] d r2(3) by auto
    have "filter (\<lambda>e. rn_state r2 (qe_sequence e) \<noteq> Fut_cancelled) es1
        = filter (\<lambda>e. rn_state r (qe_sequence e) \<noteq> Fut_cancelled) es1"
      using same sub by (intro filter_cong) auto
    with w t show ?thesis unfolding es by (auto simp: run_def r2_def)
  qed
qed

text \<open>
  C26. No queued job is starved or lost: in every reachable state of a runner that is not shut
  down, a worker whose targets return empties the queue within as many turns as there are entries.
  It runs exactly the entries that were not cancelled, each once, by priority and within a priority
  in the order of submission.
\<close>

theorem runner_runs_everything:
  assumes "reaches runner_init runner_step r" and "\<not> rn_shutdown r"
    and "length (rn_queue r) \<le> n"
  shows "\<exists>es r'. work n r = (es, r') \<and> rn_queue r' = [] \<and> sorted (map entry_key es)
    \<and> mset es = filter_mset (\<lambda>e. rn_state r (qe_sequence e) \<noteq> Fut_cancelled) (mset (rn_queue r))"
proof -
  obtain es q where d: "drain queue_get n (rn_queue r) = (es, q)" by force
  have inv: "runner_inv r" using assms(1) by (rule runner_machine.inv_reaches)
  have facts: "mset es = mset (rn_queue r) \<and> sorted (map entry_key es) \<and> mset q = {#}"
    using pq.drain_all [of "rn_queue r" n es q] inv assms(3) d by (auto simp: runner_inv_def)
  have "sorted (map entry_key (filter (\<lambda>e. rn_state r (qe_sequence e) \<noteq> Fut_cancelled) es))"
    using facts by (intro sorted_filter) blast
  with work_drain [OF inv assms(2) d] facts show ?thesis
    by (metis (no_types, lifting) mset_filter mset_zero_iff)
qed

text \<open>Three submissions, of which one is cancelled while it is queued.\<close>

definition demo_runner :: "nat job_runner" where
  "demo_runner =
     (case rbind (runner_submit ''a'' 1 Jp_low (new_runner 4)) (\<lambda>r.
           rbind (runner_submit ''b'' 2 Jp_normal r) (runner_submit ''c'' 3 Jp_critical)) of
        Inr r \<Rightarrow> snd (cancel_queued ''b'' r) | Inl _ \<Rightarrow> new_runner 4)"

lemma demo_runner_reachable: "reaches runner_init runner_step demo_runner"
proof -
  have accepted: "\<exists>r'. runner_submit jid target priority r = Inr r' \<and> \<not> rn_shutdown r'"
    if "\<not> rn_shutdown r" for jid target priority and r :: "nat job_runner"
    using that by (simp add: runner_submit_def Let_def)
  have "\<not> rn_shutdown (new_runner 4 :: nat job_runner)" by (simp add: new_runner_def)
  then obtain r1 :: "nat job_runner" where r1: "runner_submit ''a'' 1 Jp_low (new_runner 4) = Inr r1"
    "\<not> rn_shutdown r1" using accepted by blast
  obtain r2 where r2: "runner_submit ''b'' 2 Jp_normal r1 = Inr r2" "\<not> rn_shutdown r2"
    using accepted [OF r1(2)] by blast
  obtain r3 where r3: "runner_submit ''c'' 3 Jp_critical r2 = Inr r3"
    using accepted [OF r2(2)] by blast
  note r = r1(1) r2(1) r3
  have "reaches runner_init runner_step (new_runner 4 :: nat job_runner)"
    by (rule reaches_init) (auto simp: runner_init_def)
  then have "reaches runner_init runner_step r3"
    by (metis reaches_step step_submit r)
  then have "reaches runner_init runner_step (snd (cancel_queued ''b'' r3))"
    by (rule reaches_step) (rule step_cancel)
  then show ?thesis by (simp add: demo_runner_def r del: One_nat_def)
qed

theorem runner_runs_everything_witness:
  "\<exists>es r'. work 3 demo_runner = (es, r') \<and> rn_queue r' = [] \<and> sorted (map entry_key es)
    \<and> mset es = filter_mset (\<lambda>e. rn_state demo_runner (qe_sequence e) \<noteq> Fut_cancelled)
        (mset (rn_queue demo_runner))"
proof (rule runner_runs_everything [OF demo_runner_reachable])
  show "\<not> rn_shutdown demo_runner" by code_simp
  show "length (rn_queue demo_runner) \<le> 3" by code_simp
qed

end
