(* ===== verification/Job_Sanitize.thy ===== *)
theory Job_Sanitize
  imports Json_Value
begin

text \<open>
  The redaction of job metadata, results and log messages, \<^verbatim>\<open>sanitize\<close> of
  \<^verbatim>\<open>jobs/service.py\<close>: keys that name a secret lose their value, bearer tokens are cut out
  of strings, and sizes and nesting are bounded. The regular expression is written out as the
  scanner it denotes. Strings hold the first 256 code points.
\<close>

section \<open>Sensitive keys\<close>

text \<open>
  \<open>str.casefold\<close>; the micro sign, which folds to a letter outside the first 256 code points,
  stays as it is.
\<close>

definition casefold_char :: "char \<Rightarrow> string" where
  "casefold_char c = (let n = of_char c :: nat in
     if 65 \<le> n \<and> n \<le> 90 \<or> 192 \<le> n \<and> n \<le> 222 \<and> n \<noteq> 215 then [char_of (n + 32)]
     else if n = 223 then ''ss'' else [c])"

definition casefold :: "string \<Rightarrow> string" where
  "casefold s = concat (map casefold_char s)"

definition sensitive_markers :: "string list" where
  "sensitive_markers = [''password'', ''passwd'', ''secret'', ''token'', ''authorization'',
     ''credential'', ''cookie'', ''private_key'']"

definition sensitive_key :: "string \<Rightarrow> bool" where
  "sensitive_key key =
     (let normalized = casefold key
      in if normalized \<in> {''credential_id'', ''credential_ref''} then False
         else list_ex (\<lambda>marker. sublist marker normalized) sensitive_markers)"

section \<open>Bearer tokens\<close>

text \<open>\<open>\w\<close> on the first 256 code points: letters, digits and the underscore.\<close>

definition is_word :: "char \<Rightarrow> bool" where
  "is_word c = (let n = of_char c :: nat in
     48 \<le> n \<and> n \<le> 57 \<or> 65 \<le> n \<and> n \<le> 90 \<or> n = 95 \<or> 97 \<le> n \<and> n \<le> 122
     \<or> n \<in> {170, 178, 179, 181, 185, 186, 188, 189, 190}
     \<or> 192 \<le> n \<and> n \<noteq> 215 \<and> n \<noteq> 247)"

text \<open>The class \<^verbatim>\<open>[A-Za-z0-9._~+/-]\<close>.\<close>

definition token_char :: "char \<Rightarrow> bool" where
  "token_char c = (let n = of_char c :: nat in
     48 \<le> n \<and> n \<le> 57 \<or> 65 \<le> n \<and> n \<le> 90 \<or> 97 \<le> n \<and> n \<le> 122
     \<or> c \<in> {CHR ''.'', CHR ''_'', CHR ''~'', CHR ''+'', CHR ''/'', CHR ''-''})"

text \<open>What follows a word read without regard to case, if the text starts with it.\<close>

fun ci_prefix :: "string \<Rightarrow> string \<Rightarrow> string option" where
  "ci_prefix [] s = Some s"
| "ci_prefix (p # ps) s =
     (case s of [] \<Rightarrow> None | c # cs \<Rightarrow> if ascii_lower [c] = [p] then ci_prefix ps cs else None)"

text \<open>
  A match of \<^verbatim>\<open>Bearer\s+[A-Za-z0-9._~+/-]+=*\<close> at the head of the text, as the last
  character matched and what follows: the classes are disjoint, so each repetition takes all it can.
\<close>

definition match_bearer :: "string \<Rightarrow> (char \<times> string) option" where
  "match_bearer s =
     (case ci_prefix ''bearer'' s of
        None \<Rightarrow> None
      | Some r \<Rightarrow>
          (let t = dropWhile is_space r;
               tok = takeWhile token_char t;
               u = dropWhile token_char t;
               eqs = takeWhile (\<lambda>c. c = CHR ''='') u
           in if t = r \<or> tok = [] then None
              else Some (last (tok @ eqs), dropWhile (\<lambda>c. c = CHR ''='') u)))"

lemma length_ci_prefix: "ci_prefix p s = Some r \<Longrightarrow> length r + length p = length s"
  by (induction p s rule: ci_prefix.induct) (auto split: list.splits if_splits)

lemma match_bearer_shorter: "match_bearer s = Some (c, rest) \<Longrightarrow> length rest < length s"
proof -
  assume m: "match_bearer s = Some (c, rest)"
  then obtain r where r: "ci_prefix ''bearer'' s = Some r"
    and rest: "rest = dropWhile (\<lambda>c. c = CHR ''='') (dropWhile token_char (dropWhile is_space r))"
    unfolding match_bearer_def by (auto simp: Let_def split: option.splits if_splits)
  have "length rest \<le> length r"
    unfolding rest by (meson length_dropWhile_le le_trans)
  with length_ci_prefix [OF r] show ?thesis by simp
qed

text \<open>
  \<^verbatim>\<open>re.sub\<close> over the text, knowing whether the character before is a word character: the
  boundary \<open>\b\<close> before the letter holds exactly if it is not.
\<close>

function redact_from :: "bool \<Rightarrow> string \<Rightarrow> string" where
  "redact_from w [] = []"
| "redact_from w (c # cs) =
     (case (if w then None else match_bearer (c # cs)) of
        Some (l, rest) \<Rightarrow> ''Bearer [REDACTED]'' @ redact_from (is_word l) rest
      | None \<Rightarrow> c # redact_from (is_word c) cs)"
  by pat_completeness auto

termination
  by (relation "measure (\<lambda>(_, s). length s)") (auto dest: match_bearer_shorter split: if_splits)

definition redact_bearer :: "string \<Rightarrow> string" where
  "redact_bearer s = redact_from False s"

section \<open>The sanitizer\<close>

text \<open>A dictionary comprehension: a repeated key keeps its place and takes the later value.\<close>

fun dict_set :: "string \<Rightarrow> json \<Rightarrow> (string \<times> json) list \<Rightarrow> (string \<times> json) list" where
  "dict_set k v [] = [(k, v)]"
| "dict_set k v ((k', v') # kvs) = (if k' = k then (k, v) # kvs else (k', v') # dict_set k v kvs)"

definition dict_of :: "(string \<times> json) list \<Rightarrow> (string \<times> json) list" where
  "dict_of kvs = foldl (\<lambda>d (k, v). dict_set k v d) [] kvs"

function sanitize :: "nat \<Rightarrow> json \<Rightarrow> json" where
  "sanitize depth v =
     (if 5 \<le> depth then JStr ''[truncated]''
      else (case v of
          JObj kvs \<Rightarrow> JObj (dict_of (map (\<lambda>(key, nested).
            (take 120 key, if sensitive_key key then JStr ''[REDACTED]'' else sanitize (depth + 1) nested))
            (take 100 kvs)))
        | JList xs \<Rightarrow> JList (map (sanitize (depth + 1)) (take 100 xs))
        | JStr s \<Rightarrow> JStr (take 8000 (redact_bearer s))
        | _ \<Rightarrow> v))"
  by pat_completeness auto

termination
  by (relation "measure (\<lambda>(depth, _). 5 - depth)") auto

declare sanitize.simps [simp del]

text \<open>\<^verbatim>\<open>sanitize\<close> of a dictionary and of a string, as the callers use it.\<close>

definition sanitize_dict :: "(string \<times> json) list \<Rightarrow> (string \<times> json) list" where
  "sanitize_dict kvs = (case sanitize 0 (JObj kvs) of JObj d \<Rightarrow> d | _ \<Rightarrow> [])"

definition sanitize_str :: "string \<Rightarrow> string" where
  "sanitize_str s = take 8000 (redact_bearer s)"

section \<open>Redacted text holds no bearer token\<close>

text \<open>No position of the text starts a match.\<close>

fun bearer_free :: "bool \<Rightarrow> string \<Rightarrow> bool" where
  "bearer_free w [] = True"
| "bearer_free w (c # cs) =
     ((w \<or> match_bearer (c # cs) = None) \<and> bearer_free (is_word c) cs)"

lemma redact_none:
  "w \<or> match_bearer (c # cs) = None \<Longrightarrow> redact_from w (c # cs) = c # redact_from (is_word c) cs"
  by auto

declare redact_from.simps(2) [simp del]

lemma match_bearer_head: "match_bearer (c # cs) \<noteq> None \<Longrightarrow> ascii_lower [c] = ''b''"
  unfolding match_bearer_def by (auto split: option.splits if_splits)

lemma redact_other_head:
  "ascii_lower [c] \<noteq> ''b'' \<Longrightarrow> redact_from w (c # cs) = c # redact_from (is_word c) cs"
  by (rule redact_none) (use match_bearer_head in blast)

lemma lower_b: "ascii_lower [c] = ''b'' \<longleftrightarrow> c = CHR ''b'' \<or> c = CHR ''B''"
proof (cases "of_char c \<in> {65..90::nat}")
  case True
  have "c = CHR ''B''" if "char_of (of_char c + 32 :: nat) = CHR ''b''"
  proof -
    from that have "of_char (char_of (of_char c + 32 :: nat)) = (of_char CHR ''b'' :: nat)" by simp
    with True have "of_char c = (of_char CHR ''B'' :: nat)" by simp
    then show ?thesis by (metis char_of_char)
  qed
  moreover have "char_of (98 :: nat) = CHR ''b''" by code_simp
  ultimately show ?thesis using True by (auto simp: ascii_lower_def)
next
  case False
  then show ?thesis by (auto simp: ascii_lower_def)
qed

text \<open>The redaction of a non-empty text starts with the same letter up to case.\<close>

lemma redact_head:
  "\<exists>d ds. redact_from w (c # cs) = d # ds \<and> ascii_lower [d] = ascii_lower [c]"
proof (cases "w \<or> match_bearer (c # cs) = None")
  case True
  then show ?thesis by (simp add: redact_none)
next
  case False
  then have "ascii_lower [c] = ''b''" using match_bearer_head by blast
  moreover have "ascii_lower ''B'' = ''b''" by code_simp
  ultimately show ?thesis
    using False by (auto simp: redact_from.simps(2) split: option.splits)
qed

lemma ci_prefix_redact:
  "CHR ''b'' \<notin> set p \<Longrightarrow> \<exists>w'. ci_prefix p (redact_from w s) = map_option (redact_from w') (ci_prefix p s)"
proof (induction p arbitrary: w s)
  case Nil
  show ?case by (intro exI [of _ w]) simp
next
  case (Cons q p)
  show ?case
  proof (cases s)
    case Nil
    then show ?thesis by simp
  next
    case (Cons c cs)
    show ?thesis
    proof (cases "ascii_lower [c] = [q]")
      case True
      with Cons.prems have "redact_from w s = c # redact_from (is_word c) cs"
        unfolding Cons by (intro redact_other_head) auto
      with True Cons.IH [of "is_word c" cs] Cons.prems show ?thesis by (simp add: Cons)
    next
      case False
      then show ?thesis using redact_head [of w c cs] by (auto simp: Cons)
    qed
  qed
qed

lemma b_token:
  assumes "ascii_lower [c] = ''b''"
  shows "token_char c" and "\<not> is_space c"
  using assms unfolding lower_b by (auto simp: token_char_def is_space_def)

lemma dropWhile_redact:
  "\<exists>w'. dropWhile is_space (redact_from w s) = redact_from w' (dropWhile is_space s)"
proof (induction s arbitrary: w)
  case Nil
  show ?case by simp
next
  case (Cons c cs)
  show ?case
  proof (cases "is_space c")
    case True
    then have "ascii_lower [c] \<noteq> ''b''" using b_token(2) by blast
    then show ?thesis using True Cons.IH by (simp add: redact_other_head)
  next
    case False
    obtain d ds where d: "redact_from w (c # cs) = d # ds" "ascii_lower [d] = ascii_lower [c]"
      using redact_head by blast
    have "\<not> is_space d"
      using d False b_token(2) [of d] by (cases "ascii_lower [c] = ''b''") (auto simp: redact_other_head)
    with d(1) False show ?thesis by (intro exI [of _ w]) simp
  qed
qed

lemma takeWhile_redact:
  "takeWhile token_char (redact_from w s) = [] \<longleftrightarrow> takeWhile token_char s = []"
proof (cases s)
  case (Cons c cs)
  obtain d ds where d: "redact_from w (c # cs) = d # ds" "ascii_lower [d] = ascii_lower [c]"
    using redact_head by blast
  have "token_char d \<longleftrightarrow> token_char c"
    using d b_token(1) [of d] b_token(1) [of c]
    by (cases "ascii_lower [c] = ''b''") (auto simp: redact_other_head)
  with Cons d(1) show ?thesis by simp
qed simp

text \<open>Redacting what follows a character creates no match that starts at the character.\<close>

lemma match_after:
  assumes "match_bearer (c # cs) = None"
  shows "match_bearer (c # redact_from w cs) = None"
proof (cases "ascii_lower [c] = ''b''")
  case True
  have nb: "CHR ''b'' \<notin> set ''earer''" by simp
  have pre: "ci_prefix ''bearer'' (c # xs) = ci_prefix ''earer'' xs" for xs
    using True by (simp del: ci_prefix.simps(2) add: ci_prefix.simps(2) [of "CHR ''b''"])
  obtain w' where w': "ci_prefix ''earer'' (redact_from w cs) = map_option (redact_from w') (ci_prefix ''earer'' cs)"
    using ci_prefix_redact [OF nb] by blast
  show ?thesis
  proof (cases "ci_prefix ''earer'' cs")
    case None
    then show ?thesis using w' by (simp only: match_bearer_def pre) simp
  next
    case (Some r)
    obtain v where v: "dropWhile is_space (redact_from w' r) = redact_from v (dropWhile is_space r)"
      using dropWhile_redact by blast
    have "dropWhile is_space r = r \<Longrightarrow> dropWhile is_space (redact_from w' r) = redact_from w' r"
    proof (cases r)
      case (Cons x xs)
      assume "dropWhile is_space r = r"
      then have x: "\<not> is_space x" using Cons by (metis dropWhile_eq_self_iff list.distinct(1) list.sel(1))
      obtain d ds where d: "redact_from w' (x # xs) = d # ds" "ascii_lower [d] = ascii_lower [x]"
        using redact_head by blast
      have "\<not> is_space d"
        using d x b_token(2) [of d] by (cases "ascii_lower [x] = ''b''") (auto simp: redact_other_head)
      with d Cons show ?thesis by simp
    qed simp
    then show ?thesis
      using assms Some w' takeWhile_redact [of v "dropWhile is_space r"]
      by (simp only: match_bearer_def pre) (auto simp: Let_def v split: if_splits)
  qed
next
  case False
  then show ?thesis using match_bearer_head by blast
qed

lemma bearer_free_other_head:
  "(\<forall>c cs. s = c # cs \<longrightarrow> ascii_lower [c] \<noteq> ''b'') \<Longrightarrow> bearer_free w s = bearer_free w' s"
  using match_bearer_head by (cases s) auto

lemma match_bearer_rest:
  assumes "match_bearer s = Some (l, c # cs)" and "is_word l"
  shows "ascii_lower [c] \<noteq> ''b''"
proof -
  from assms(1) obtain r where
    l: "l = last (takeWhile token_char (dropWhile is_space r)
                  @ takeWhile (\<lambda>c. c = CHR ''='') (dropWhile token_char (dropWhile is_space r)))"
    and c: "c # cs = dropWhile (\<lambda>c. c = CHR ''='') (dropWhile token_char (dropWhile is_space r))"
    unfolding match_bearer_def by (auto simp: Let_def split: option.splits if_splits)
  define u where "u = dropWhile token_char (dropWhile is_space r)"
  have "takeWhile (\<lambda>c. c = CHR ''='') u = []"
  proof (rule ccontr)
    assume "takeWhile (\<lambda>c. c = CHR ''='') u \<noteq> []"
    then have "l \<in> set (takeWhile (\<lambda>c. c = CHR ''='') u)" unfolding l u_def [symmetric] by simp
    then have "l = CHR ''=''" by (auto dest: set_takeWhileD)
    with assms(2) show False by (simp add: is_word_def)
  qed
  then have "u = c # cs"
    unfolding c u_def [symmetric] by (metis append_Nil takeWhile_dropWhile_id)
  then have "\<not> token_char c" unfolding u_def by (metis dropWhile_eq_Cons_conv)
  then show ?thesis using b_token(1) by blast
qed

lemma match_none [simp]: "c \<noteq> CHR ''b'' \<Longrightarrow> c \<noteq> CHR ''B'' \<Longrightarrow> match_bearer (c # cs) = None"
  using match_bearer_head lower_b by blast

lemma redacted_marker: "match_bearer (''Bearer [REDACTED]'' @ xs) = None"
proof -
  have "ascii_lower ''B'' = ''b''" "ascii_lower ''e'' = ''e''" "ascii_lower ''a'' = ''a''"
    "ascii_lower ''r'' = ''r''" "is_space CHR '' ''" "\<not> is_space CHR ''[''"
    "\<not> token_char CHR ''[''"
    by code_simp+
  then show ?thesis by (simp add: match_bearer_def)
qed

lemma bearer_free_marker: "bearer_free w (''Bearer [REDACTED]'' @ xs) = bearer_free False xs"
  using redacted_marker [of xs] by (simp add: is_word_def)

lemma bearer_free_redact: "bearer_free w (redact_from w s)"
proof (induction w s rule: redact_from.induct)
  case (1 w)
  show ?case by simp
next
  case (2 w c cs)
  show ?case
  proof (cases "w \<or> match_bearer (c # cs) = None")
    case True
    then have "bearer_free (is_word c) (redact_from (is_word c) cs)" using 2 by auto
    with True show ?thesis by (simp only: redact_none bearer_free.simps) (metis match_after)
  next
    case False
    then obtain l rest where m: "match_bearer (c # cs) = Some (l, rest)" by auto
    have "bearer_free (is_word l) (redact_from (is_word l) rest)"
      using 2 False m by auto
    then have "bearer_free False (redact_from (is_word l) rest)"
    proof (cases "is_word l")
      case True
      have "\<forall>d ds. redact_from (is_word l) rest = d # ds \<longrightarrow> ascii_lower [d] \<noteq> ''b''"
      proof (cases rest)
        case (Cons x xs)
        obtain d ds where d: "redact_from (is_word l) (x # xs) = d # ds" "ascii_lower [d] = ascii_lower [x]"
          using redact_head by blast
        have "ascii_lower [x] \<noteq> ''b''" using match_bearer_rest [OF _ True] m Cons by blast
        with d Cons show ?thesis by simp
      qed simp
      from bearer_free_other_head [OF this]
      show ?thesis using \<open>bearer_free (is_word l) _\<close> by blast
    qed simp
    moreover have "redact_from w (c # cs) = ''Bearer [REDACTED]'' @ redact_from (is_word l) rest"
      using False m by (simp add: redact_from.simps(2))
    ultimately show ?thesis by (simp only: bearer_free_marker)
  qed
qed

lemma redact_free: "bearer_free w s \<Longrightarrow> redact_from w s = s"
  by (induction w s rule: bearer_free.induct) (auto simp: redact_none)

lemma ci_prefix_append: "ci_prefix p s = Some r \<Longrightarrow> ci_prefix p (s @ t) = Some (r @ t)"
  by (induction p s rule: ci_prefix.induct) (auto split: list.splits if_splits)

lemma match_bearer_append: "match_bearer s \<noteq> None \<Longrightarrow> match_bearer (s @ t) \<noteq> None"
proof -
  assume "match_bearer s \<noteq> None"
  then obtain r where r: "ci_prefix ''bearer'' s = Some r" "dropWhile is_space r \<noteq> r"
    "takeWhile token_char (dropWhile is_space r) \<noteq> []"
    by (auto simp: match_bearer_def Let_def split: option.splits if_splits)
  obtain x xs where x: "dropWhile is_space r = x # xs" "token_char x"
    using r(3) by (cases "dropWhile is_space r") (auto split: if_splits)
  have "dropWhile is_space (r @ t) = x # xs @ t"
    using x(1) by (metis append_Cons dropWhile_append dropWhile_eq_Nil_conv list.distinct(1))
  moreover have "x # xs @ t \<noteq> r @ t" using r(2) x(1) by auto
  ultimately show ?thesis
    using ci_prefix_append [OF r(1)] x(2) by (simp add: match_bearer_def Let_def)
qed

lemma bearer_free_take: "bearer_free w s \<Longrightarrow> bearer_free w (take n s)"
proof (induction w s arbitrary: n rule: bearer_free.induct)
  case (2 w c cs)
  show ?case
  proof (cases n)
    case (Suc k)
    have "match_bearer (c # take k cs) = None" if "match_bearer (c # cs) = None"
      using match_bearer_append [of "c # take k cs" "drop k cs"] that
      by (metis append_Cons append_take_drop_id)
    with 2 Suc show ?thesis by auto
  qed simp
qed simp

section \<open>What sanitizing guarantees\<close>

text \<open>
  A value that may be stored or shown at a depth: nothing below the fifth level, at most 100
  entries per container, keys of at most 120 characters, each once, only the placeholder under a
  sensitive key, and strings of at most 8000 characters without a bearer token.
\<close>

function clean :: "nat \<Rightarrow> json \<Rightarrow> bool" where
  "clean depth v =
     (if 5 \<le> depth then v = JStr ''[truncated]''
      else (case v of
          JObj kvs \<Rightarrow> length kvs \<le> 100 \<and> distinct (map fst kvs)
            \<and> list_all (\<lambda>(key, x). length key \<le> 120
                 \<and> (x = JStr ''[REDACTED]'' \<or> \<not> sensitive_key key \<and> clean (depth + 1) x)) kvs
        | JList xs \<Rightarrow> length xs \<le> 100 \<and> list_all (clean (depth + 1)) xs
        | JStr s \<Rightarrow> length s \<le> 8000 \<and> bearer_free False s
        | _ \<Rightarrow> True))"
  by pat_completeness auto

termination
  by (relation "measure (\<lambda>(depth, _). 5 - depth)") auto

declare clean.simps [simp del]

lemma dict_set_keys: "fst ` set (dict_set k v d) = insert k (fst ` set d)"
  by (induction k v d rule: dict_set.induct) auto

lemma distinct_dict_set: "distinct (map fst d) \<Longrightarrow> distinct (map fst (dict_set k v d))"
proof (induction k v d rule: dict_set.induct)
  case (2 k v k' v' kvs)
  then show ?case using dict_set_keys [of k v kvs] by (auto simp flip: set_map)
qed simp

lemma set_dict_set: "set (dict_set k v d) \<subseteq> insert (k, v) (set d)"
  by (induction k v d rule: dict_set.induct) auto

lemma length_dict_set: "length (dict_set k v d) \<le> length d + 1"
  by (induction k v d rule: dict_set.induct) auto

lemma dict_set_new: "k \<notin> fst ` set d \<Longrightarrow> dict_set k v d = d @ [(k, v)]"
  by (induction k v d rule: dict_set.induct) auto

lemma dict_of_snoc: "dict_of (kvs @ [(k, v)]) = dict_set k v (dict_of kvs)"
  by (simp add: dict_of_def)

lemma dict_of_facts:
  "distinct (map fst (dict_of kvs)) \<and> set (dict_of kvs) \<subseteq> set kvs
   \<and> length (dict_of kvs) \<le> length kvs"
proof (induction kvs rule: rev_induct)
  case Nil
  show ?case by (simp add: dict_of_def)
next
  case (snoc kv kvs)
  obtain k v where kv: "kv = (k, v)" by force
  from snoc show ?case
    using set_dict_set [of k v "dict_of kvs"] length_dict_set [of k v "dict_of kvs"]
    by (auto simp: kv dict_of_snoc distinct_dict_set)
qed

lemma dict_of_distinct: "distinct (map fst kvs) \<Longrightarrow> dict_of kvs = kvs"
proof (induction kvs rule: rev_induct)
  case Nil
  show ?case by (simp add: dict_of_def)
next
  case (snoc kv kvs)
  then show ?case
    by (cases kv) (auto simp: dict_of_snoc dict_set_new)
qed

lemma sensitive_key_take:
  assumes "sensitive_key (take 120 key)"
  shows "sensitive_key key"
proof -
  obtain suffix where s: "casefold key = casefold (take 120 key) @ suffix"
    unfolding casefold_def by (metis append_take_drop_id concat_append map_append)
  from assms obtain m where m: "m \<in> set sensitive_markers" "sublist m (casefold (take 120 key))"
    by (auto simp: sensitive_key_def Let_def list_ex_iff split: if_splits)
  then have ex: "list_ex (\<lambda>marker. sublist marker (casefold key)) sensitive_markers"
    unfolding s list_ex_iff by (auto simp: sublist_append)
  have "casefold key \<notin> {''credential_id'', ''credential_ref''}"
  proof
    assume c: "casefold key \<in> {''credential_id'', ''credential_ref''}"
    have "length key \<le> length (casefold key)"
      unfolding casefold_def by (induction key) (auto simp: casefold_char_def Let_def)
    also have "\<dots> \<le> 120" using c by auto
    finally have "take 120 key = key" by simp
    with assms c show False by (simp add: sensitive_key_def)
  qed
  with ex show ?thesis by (simp add: sensitive_key_def)
qed

lemma clean_sanitize: "clean depth (sanitize depth v)"
proof (induction depth v rule: sanitize.induct)
  case (1 depth v)
  show ?case
  proof (cases "5 \<le> depth")
    case True
    then show ?thesis by (simp add: clean.simps sanitize.simps)
  next
    case False
    show ?thesis
    proof (cases v)
      case (JStr s)
      with False show ?thesis
        by (simp add: clean.simps sanitize.simps redact_bearer_def bearer_free_take bearer_free_redact)
    next
      case (JList xs)
      with False 1 show ?thesis
        by (auto simp: clean.simps [of depth] sanitize.simps [of depth] list_all_iff)
    next
      case (JObj kvs)
      let ?f = "\<lambda>(key, nested). (take 120 key,
        if sensitive_key key then JStr ''[REDACTED]'' else sanitize (depth + 1) nested)"
      have each: "length k \<le> 120 \<and> (x = JStr ''[REDACTED]'' \<or> \<not> sensitive_key k \<and> clean (depth + 1) x)"
        if kx: "(k, x) \<in> set (dict_of (map ?f (take 100 kvs)))" for k x
      proof -
        have "(k, x) \<in> ?f ` set (take 100 kvs)" using kx dict_of_facts [of "map ?f (take 100 kvs)"] by auto
        then obtain key nested where kn: "(key, nested) \<in> set (take 100 kvs)" "k = take 120 key"
          "x = (if sensitive_key key then JStr ''[REDACTED]'' else sanitize (depth + 1) nested)"
          by auto
        have "clean (depth + 1) (sanitize (depth + 1) nested)" if "\<not> sensitive_key key"
          using "1.IH" False JObj kn(1) that by auto
        then show ?thesis using kn sensitive_key_take [of key] by (auto simp: clean.simps)
      qed
      have "length (dict_of (map ?f (take 100 kvs))) \<le> 100"
        using dict_of_facts [of "map ?f (take 100 kvs)"] by simp
      with each False show ?thesis
        using dict_of_facts [of "map ?f (take 100 kvs)"]
        by (auto simp: JObj clean.simps [of depth] sanitize.simps [of depth] list_all_iff)
    qed (use False in \<open>simp_all add: clean.simps sanitize.simps\<close>)
  qed
qed

lemma sanitize_obj: "sanitize 0 (JObj kvs) = JObj (sanitize_dict kvs)"
  by (simp add: sanitize_dict_def sanitize.simps [of 0])

lemma sanitize_str_eq: "sanitize 0 (JStr s) = JStr (sanitize_str s)"
  by (simp add: sanitize_str_def sanitize.simps)

lemma sanitize_str_facts: "length (sanitize_str s) \<le> 8000" "bearer_free False (sanitize_str s)"
  by (simp_all add: sanitize_str_def redact_bearer_def bearer_free_take bearer_free_redact)


end
