(* ===== verification/Job_Service.thy ===== *)
theory Job_Service
  imports Job_Runner Job_Sanitize
begin

text \<open>
  The job service of \<^verbatim>\<open>jobs/service.py\<close> over the job table and the runner: creating
  and submitting jobs, dispatch, execution behind the module gate, automatic retries, dependencies,
  cancellation, manual retry, progress and logs. A handler is code of some module: a registration
  names it, and what it does is the sequence of context operations and the outcome of the steps.
  The steps are those at which threads wait: taking an entry, passing the gate, the end of the
  handler, a timer. Each step is atomic and reads the clock once. A step is a function from the
  service to a result and the service it leaves, also when it raises.
\<close>

section \<open>State\<close>

record 'h registration =
  reg_handler :: 'h
  reg_retryable :: bool
  reg_cancellable :: bool
  reg_max_retries :: int
  reg_timeout :: "real option"

record 'h exec_target =
  et_job_id :: string
  et_registration :: "'h registration"
  et_module :: string

datatype job_alert = Alert_failed job | Alert_succeeded job

record 'h job_service =
  js_db :: job_db
  js_runner :: "'h exec_target job_runner"
  js_handlers :: "(string \<times> 'h registration) list"
  js_module_limit :: nat
  js_gated :: "'h exec_target queue_entry list"
  js_running :: "('h exec_target queue_entry \<times> time) list"
  js_timers :: "(time \<times> string \<times> 'h registration) list"
  js_alerts :: "job_alert list"

type_synonym ('a, 'h) job_step = "'h job_service \<Rightarrow> 'a res \<times> 'h job_service"

definition jreturn :: "'a \<Rightarrow> ('a, 'h) job_step" where
  "jreturn x svc = (Inr x, svc)"

definition jraise :: "py_exn \<Rightarrow> ('a, 'h) job_step" where
  "jraise e svc = (Inl e, svc)"

definition jbind :: "('a, 'h) job_step \<Rightarrow> ('a \<Rightarrow> ('b, 'h) job_step) \<Rightarrow> ('b, 'h) job_step" where
  "jbind m f svc = (case m svc of (Inl e, svc') \<Rightarrow> (Inl e, svc') | (Inr x, svc') \<Rightarrow> f x svc')"

definition jwith :: "('h job_service \<Rightarrow> ('a, 'h) job_step) \<Rightarrow> ('a, 'h) job_step" where
  "jwith f svc = f svc svc"

definition jupdate :: "('h job_service \<Rightarrow> 'h job_service) \<Rightarrow> (unit, 'h) job_step" where
  "jupdate f svc = (Inr (), f svc)"

text \<open>A repository operation that cannot fail, and one whose transaction can.\<close>

definition on_jobs :: "(job_db \<Rightarrow> 'a \<times> job_db) \<Rightarrow> ('a, 'h) job_step" where
  "on_jobs f svc = (case f (js_db svc) of (x, db) \<Rightarrow> (Inr x, svc\<lparr>js_db := db\<rparr>))"

definition try_jobs :: "(job_db \<Rightarrow> ('a \<times> job_db) res) \<Rightarrow> ('a, 'h) job_step" where
  "try_jobs f svc = (case f (js_db svc) of
     Inl e \<Rightarrow> (Inl e, svc) | Inr (x, db) \<Rightarrow> (Inr x, svc\<lparr>js_db := db\<rparr>))"

text \<open>\<open>try: m except: on_error; raise\<close> and \<open>try: m finally: cleanup\<close>.\<close>

definition jexcept :: "('a, 'h) job_step \<Rightarrow> (unit, 'h) job_step \<Rightarrow> ('a, 'h) job_step" where
  "jexcept m on_error svc = (case m svc of
     (Inr x, svc') \<Rightarrow> (Inr x, svc')
   | (Inl e, svc') \<Rightarrow> jbind on_error (\<lambda>_. jraise e) svc')"

definition jfinally :: "('a, 'h) job_step \<Rightarrow> (unit, 'h) job_step \<Rightarrow> ('a, 'h) job_step" where
  "jfinally m cleanup svc = (case m svc of
     (Inr x, svc') \<Rightarrow> jbind cleanup (\<lambda>_. jreturn x) svc'
   | (Inl e, svc') \<Rightarrow> jbind cleanup (\<lambda>_. jraise e) svc')"

primrec jfor :: "('x \<Rightarrow> (unit, 'h) job_step) \<Rightarrow> 'x list \<Rightarrow> (unit, 'h) job_step" where
  "jfor f [] = jreturn ()"
| "jfor f (x # xs) = jbind (f x) (\<lambda>_. jfor f xs)"

definition new_job_service :: "job_db \<Rightarrow> int \<Rightarrow> int \<Rightarrow> 'h job_service" where
  "new_job_service db workers module_workers =
     \<lparr>js_db = db, js_runner = new_runner workers, js_handlers = [],
      js_module_limit = nat (min (max module_workers 1) 16), js_gated = [], js_running = [],
      js_timers = [], js_alerts = []\<rparr>"

section \<open>Creating jobs\<close>

definition register_handler :: "string \<Rightarrow> 'h registration \<Rightarrow> (unit, 'h) job_step" where
  "register_handler jtype reg = jupdate (\<lambda>svc. svc\<lparr>js_handlers :=
     (jtype, reg\<lparr>reg_max_retries := max 0 (reg_max_retries reg)\<rparr>) # js_handlers svc\<rparr>)"

definition handler_of :: "string \<Rightarrow> 'h job_service \<Rightarrow> 'h registration option" where
  "handler_of jtype svc = map_of (js_handlers svc) jtype"

definition log_level_of :: "string \<Rightarrow> string" where
  "log_level_of level =
     (if casefold level \<in> {''debug'', ''info'', ''warning'', ''error''} then casefold level else ''info'')"

definition log_job :: "string \<Rightarrow> string \<Rightarrow> string \<Rightarrow> dict \<Rightarrow> time \<Rightarrow> (unit, 'h) job_step" where
  "log_job jid level message data now = try_jobs (\<lambda>db.
     rbind (append_log jid (log_level_of level) (take 4000 (sanitize_str message)) (sanitize_dict data) now db)
       (\<lambda>db'. Inr ((), db')))"

definition create_job ::
  "job_spec \<Rightarrow> string \<Rightarrow> string \<Rightarrow> time \<Rightarrow> (job, 'h) job_step" where
  "create_job sp new_id new_correlation now = jwith (\<lambda>svc.
     case (case sp_dedup_key sp of
             None \<Rightarrow> None
           | Some key \<Rightarrow> if key = [] then None else find_active_by_dedup key (js_db svc)) of
       Some existing \<Rightarrow> jreturn existing
     | None \<Rightarrow>
         (let status = (if sp_dependencies sp = [] then Js_queued else Js_waiting);
              row = sp\<lparr>sp_metadata := sanitize_dict (sp_metadata sp),
                       sp_name := (if sp_name sp = [] then sp_type sp else sp_name sp),
                       sp_correlation := (case sp_correlation sp of
                          None \<Rightarrow> Some new_correlation
                        | Some c \<Rightarrow> Some (if c = [] then new_correlation else c))\<rparr>
          in jbind (try_jobs (repo_create row status new_id now)) (\<lambda>j.
             jbind (jexcept
                 (try_jobs (\<lambda>db. rbind (add_dependencies (job_id j) (sp_dependencies sp) db) (\<lambda>db'. Inr ((), db'))))
                 (jbind (on_jobs (mark_blocked (job_id j) ''Invalid job dependency'' now)) (\<lambda>_. jreturn ()))) (\<lambda>_.
             jbind (log_job (job_id j) ''info'' ''Job created''
                 [(''status'', JStr (status_value status)), (''priority'', JStr (priority_value (sp_priority sp)))] now) (\<lambda>_.
             jreturn j)))))"

section \<open>Dispatch and dependencies\<close>

definition dispatch :: "string \<Rightarrow> 'h registration \<Rightarrow> (unit, 'h) job_step" where
  "dispatch jid reg = jwith (\<lambda>svc.
     case job_get jid (js_db svc) of
       None \<Rightarrow> jreturn ()
     | Some j \<Rightarrow>
         if job_status j \<in> set terminal_statuses then jreturn ()
         else case runner_submit jid \<lparr>et_job_id = jid, et_registration = reg, et_module = job_module j\<rparr>
                     (job_priority j) (js_runner svc) of
                Inl e \<Rightarrow> jraise e
              | Inr r \<Rightarrow> jupdate (\<lambda>svc. svc\<lparr>js_runner := r\<rparr>))"

definition failed_statuses :: "job_status list" where
  "failed_statuses = [Js_failed, Js_cancelled, Js_timed_out, Js_blocked]"

definition reconcile_waiting :: "time \<Rightarrow> string \<Rightarrow> (unit, 'h) job_step" where
  "reconcile_waiting now jid = jwith (\<lambda>svc.
     case job_get jid (js_db svc) of
       None \<Rightarrow> jreturn ()
     | Some j \<Rightarrow>
         if job_status j \<noteq> Js_waiting then jreturn ()
         else let states = dependency_states jid (js_db svc)
              in if list_ex (\<lambda>s. s \<in> set failed_statuses) states
                 then jbind (on_jobs (mark_blocked jid ''One or more dependencies did not complete successfully'' now))
                        (\<lambda>_. jreturn ())
                 else if states \<noteq> [] \<and> list_all (\<lambda>s. s = Js_success) states
                 then (case handler_of (job_type j) svc of
                         None \<Rightarrow> jreturn ()
                       | Some reg \<Rightarrow>
                           jbind (on_jobs (update_job jid (\<lambda>j. j\<lparr>job_status := Js_queued,
                                     job_message := ''Dependencies completed''\<rparr>)))
                             (\<lambda>_. dispatch jid reg))
                 else jreturn ())"

definition release_dependents :: "time \<Rightarrow> string \<Rightarrow> (unit, 'h) job_step" where
  "release_dependents now jid =
     jwith (\<lambda>svc. jfor (reconcile_waiting now) (dependents jid (js_db svc)))"

definition get_or :: "job \<Rightarrow> (job, 'h) job_step" where
  "get_or j = jwith (\<lambda>svc. jreturn (case job_get (job_id j) (js_db svc) of Some k \<Rightarrow> k | None \<Rightarrow> j))"

definition submit_job :: "job_spec \<Rightarrow> string \<Rightarrow> string \<Rightarrow> time \<Rightarrow> (job, 'h) job_step" where
  "submit_job sp new_id new_correlation now = jwith (\<lambda>svc.
     case handler_of (sp_type sp) svc of
       None \<Rightarrow> jraise (KeyError (''No job handler registered for '' @ sp_type sp))
     | Some reg \<Rightarrow>
         jbind (create_job (sp\<lparr>sp_retryable := reg_retryable reg, sp_cancellable := reg_cancellable reg,
                   sp_max_retries := reg_max_retries reg, sp_timeout := reg_timeout reg,
                   sp_parent := None, sp_retry_count := 0\<rparr>) new_id new_correlation now) (\<lambda>j.
         jbind (if job_status j = Js_waiting then reconcile_waiting now (job_id j)
                else if job_status j = Js_queued then dispatch (job_id j) reg
                else jreturn ()) (\<lambda>_.
         get_or j)))"

definition submit_callable ::
  "'h \<Rightarrow> job_spec \<Rightarrow> string \<Rightarrow> string \<Rightarrow> time \<Rightarrow> (job, 'h) job_step" where
  "submit_callable handler sp new_id new_correlation now =
     jbind (create_job (sp\<lparr>sp_dependencies := [], sp_parent := None, sp_retry_count := 0\<rparr>)
              new_id new_correlation now) (\<lambda>j.
     jbind (dispatch (job_id j) \<lparr>reg_handler = handler, reg_retryable = sp_retryable sp,
              reg_cancellable = sp_cancellable sp, reg_max_retries = sp_max_retries sp,
              reg_timeout = sp_timeout sp\<rparr>) (\<lambda>_.
     get_or j))"

section \<open>Execution\<close>

text \<open>What a handler comes back with: its result, \<^verbatim>\<open>InterruptedError\<close>, another error.\<close>

datatype outcome = Returned dict | Interrupted string | Raised string

definition retry_delay :: "job \<Rightarrow> nat" where
  "retry_delay failed = min 60 (2 ^ min (job_retry_count failed) 6)"

definition retry_spec :: "job \<Rightarrow> string \<Rightarrow> 'h registration \<Rightarrow> job_spec" where
  "retry_spec previous actor reg = default_spec
     \<lparr>sp_type := job_type previous, sp_module := job_module previous, sp_created_by := actor,
      sp_metadata := job_metadata previous, sp_retryable := True,
      sp_cancellable := reg_cancellable reg, sp_parent := Some (job_id previous),
      sp_retry_count := job_retry_count previous + 1, sp_name := job_name previous,
      sp_description := job_description previous, sp_priority := job_priority previous,
      sp_max_retries := job_max_retries previous, sp_timeout := job_timeout previous,
      sp_correlation := job_correlation previous\<rparr>"

definition schedule_retry ::
  "job \<Rightarrow> 'h registration \<Rightarrow> string \<Rightarrow> string \<Rightarrow> time \<Rightarrow> (unit, 'h) job_step" where
  "schedule_retry failed reg new_id new_correlation now =
     (let delay = retry_delay failed
      in jbind (create_job (retry_spec failed (job_created_by failed) reg) new_id new_correlation now) (\<lambda>retry.
         jbind (on_jobs (update_job (job_id retry) (\<lambda>j. j\<lparr>job_status := Js_retrying,
                  job_message := ''Retrying in '' @ show_nat delay @ ''s''\<rparr>))) (\<lambda>_.
         jbind (log_job (job_id retry) ''warning'' ''Automatic retry scheduled''
                  [(''delay_seconds'', JInt (int delay))] now) (\<lambda>_.
         jupdate (\<lambda>svc. svc\<lparr>js_timers := js_timers svc @ [(now + real delay, job_id retry, reg)]\<rparr>)))))"

definition emit_alert :: "job_alert \<Rightarrow> (unit, 'h) job_step" where
  "emit_alert a = jupdate (\<lambda>svc. svc\<lparr>js_alerts := js_alerts svc @ [a]\<rparr>)"

definition when_job :: "job option \<Rightarrow> (job \<Rightarrow> (unit, 'h) job_step) \<Rightarrow> (unit, 'h) job_step" where
  "when_job finished f = (case finished of None \<Rightarrow> jreturn () | Some j \<Rightarrow> f j)"

definition finish_timed_out :: "(real \<Rightarrow> string) \<Rightarrow> string \<Rightarrow> real \<Rightarrow> time \<Rightarrow> (unit, 'h) job_step" where
  "finish_timed_out format_g jid limit now =
     jbind (on_jobs (mark_timed_out jid (''Job exceeded timeout of '' @ format_g limit @ ''s'') now)) (\<lambda>finished.
     when_job finished (\<lambda>j. jbind (log_job jid ''error'' (job_error j) [] now) (\<lambda>_. emit_alert (Alert_failed j))))"

definition finish_success :: "string \<Rightarrow> dict \<Rightarrow> real \<Rightarrow> time \<Rightarrow> (unit, 'h) job_step" where
  "finish_success jid result elapsed now =
     jbind (on_jobs (mark_success jid (sanitize_dict result) now)) (\<lambda>finished.
     when_job finished (\<lambda>j.
       if job_status j = Js_success
       then jbind (log_job jid ''info'' ''Job completed'' [(''duration_seconds'', JFloat (py_round3 elapsed))] now)
              (\<lambda>_. emit_alert (Alert_succeeded j))
       else jreturn ()))"

definition finish_interrupted :: "string \<Rightarrow> string \<Rightarrow> time \<Rightarrow> (unit, 'h) job_step" where
  "finish_interrupted jid message now =
     jbind (on_jobs (mark_cancelled jid (if message = [] then ''Cancelled'' else message) now)) (\<lambda>finished.
     when_job finished (\<lambda>_. log_job jid ''warning'' ''Job cancelled'' [] now))"

definition finish_failed ::
  "string \<Rightarrow> 'h registration \<Rightarrow> string \<Rightarrow> string \<Rightarrow> string \<Rightarrow> time \<Rightarrow> (unit, 'h) job_step" where
  "finish_failed jid reg error new_id new_correlation now =
     (let message = (if sanitize_str error = [] then ''Operation failed'' else sanitize_str error)
      in jbind (on_jobs (mark_failed jid message now)) (\<lambda>failed.
         when_job failed (\<lambda>j.
           jbind (log_job jid ''error'' message [] now) (\<lambda>_.
           jbind (emit_alert (Alert_failed j)) (\<lambda>_.
           if reg_retryable reg \<and> int (job_retry_count j) < reg_max_retries reg
           then schedule_retry j reg new_id new_correlation now else jreturn ())))))"

definition exceeded :: "'h registration \<Rightarrow> real \<Rightarrow> real option" where
  "exceeded reg elapsed = (case reg_timeout reg of
     None \<Rightarrow> None | Some t \<Rightarrow> if t \<noteq> 0 \<and> t < elapsed then Some t else None)"

definition finish_execution ::
  "(real \<Rightarrow> string) \<Rightarrow> string \<Rightarrow> 'h registration \<Rightarrow> outcome \<Rightarrow> real \<Rightarrow> string \<Rightarrow> string \<Rightarrow> time
     \<Rightarrow> (unit, 'h) job_step" where
  "finish_execution format_g jid reg outcome elapsed new_id new_correlation now =
     jfinally (jwith (\<lambda>svc.
       case outcome of
         Returned result \<Rightarrow>
           if (case job_get jid (js_db svc) of None \<Rightarrow> False | Some j \<Rightarrow> job_cancel_requested j)
           then finish_interrupted jid ''Operation cancelled'' now
           else (case exceeded reg elapsed of
                   Some limit \<Rightarrow> finish_timed_out format_g jid limit now
                 | None \<Rightarrow> finish_success jid result elapsed now)
       | Interrupted message \<Rightarrow> finish_interrupted jid message now
       | Raised error \<Rightarrow> finish_failed jid reg error new_id new_correlation now))
     (release_dependents now jid)"

section \<open>The steps of the worker threads\<close>

text \<open>A worker takes an entry: it runs up to the gate of the entry's module.\<close>

definition worker_takes :: "(unit, 'h) job_step" where
  "worker_takes svc =
     (if length (js_gated svc) + length (js_running svc) < rn_max_workers (js_runner svc)
      then (case worker_take (js_runner svc) of
              (Some (e, True), r) \<Rightarrow> (Inr (), svc\<lparr>js_runner := r, js_gated := js_gated svc @ [e]\<rparr>)
            | (_, r) \<Rightarrow> (Inr (), svc\<lparr>js_runner := r\<rparr>))
      else (Inr (), svc))"

definition module_load :: "string \<Rightarrow> 'h job_service \<Rightarrow> nat" where
  "module_load m svc = length (filter (\<lambda>(e, _). et_module (qe_target e) = m) (js_running svc))"

definition drop_index :: "nat \<Rightarrow> 'a list \<Rightarrow> 'a list" where
  "drop_index i xs = take i xs @ drop (Suc i) xs"

text \<open>
  An execution passes the gate when a permit of its module is free, marks the job running and logs
  it; without a row it ends at once.
\<close>

definition enter_gate :: "nat \<Rightarrow> string \<Rightarrow> time \<Rightarrow> time \<Rightarrow> (unit, 'h) job_step" where
  "enter_gate i worker now tick svc =
     (if i < length (js_gated svc)
         \<and> module_load (et_module (qe_target (js_gated svc ! i))) svc < js_module_limit svc
      then let e = js_gated svc ! i; jid = et_job_id (qe_target e);
               svc1 = svc\<lparr>js_gated := drop_index i (js_gated svc)\<rparr>
           in (case mark_running jid worker now (js_db svc) of
                 (None, db) \<Rightarrow> (Inr (), svc1\<lparr>js_db := db, js_runner := worker_done e (js_runner svc)\<rparr>)
               | (Some running, db) \<Rightarrow>
                   jbind (log_job jid ''info'' ''Job started'' [(''worker'', JStr (job_worker running))] now)
                     (\<lambda>_. jupdate (\<lambda>s. s\<lparr>js_running := js_running s @ [(e, tick)]\<rparr>))
                     (svc1\<lparr>js_db := db\<rparr>))
      else (Inr (), svc))"

text \<open>The handler of a running execution comes back: the permit and the worker are free again.\<close>

definition leave_gate ::
  "(real \<Rightarrow> string) \<Rightarrow> nat \<Rightarrow> outcome \<Rightarrow> string \<Rightarrow> string \<Rightarrow> time \<Rightarrow> time \<Rightarrow> (unit, 'h) job_step" where
  "leave_gate format_g i outcome new_id new_correlation now tick svc =
     (if i < length (js_running svc)
      then let (e, started) = js_running svc ! i; target = qe_target e
           in jfinally
                (finish_execution format_g (et_job_id target) (et_registration target) outcome
                  (tick - started) new_id new_correlation now)
                (jupdate (\<lambda>s. s\<lparr>js_running := drop_index i (js_running s),
                               js_runner := worker_done e (js_runner s)\<rparr>)) svc
      else (Inr (), svc))"

text \<open>A timer fires: the retry it holds is dispatched.\<close>

definition fire_timer :: "nat \<Rightarrow> time \<Rightarrow> (unit, 'h) job_step" where
  "fire_timer i now svc =
     (if i < length (js_timers svc) \<and> fst (js_timers svc ! i) \<le> now
      then (case js_timers svc ! i of (_, jid, reg) \<Rightarrow>
              dispatch jid reg (svc\<lparr>js_timers := drop_index i (js_timers svc)\<rparr>))
      else (Inr (), svc))"

section \<open>Cancellation, retry, progress, cleanup, restart\<close>

definition cancel_job :: "string \<Rightarrow> time \<Rightarrow> (job option, 'h) job_step" where
  "cancel_job jid now = jwith (\<lambda>svc.
     case job_get jid (js_db svc) of
       None \<Rightarrow> jreturn None
     | Some j \<Rightarrow>
         if job_status j \<in> set terminal_statuses then jreturn (Some j)
         else if \<not> job_cancellable j then jraise (ValueError ''Job is not cancellable'')
         else (case cancel_queued jid (js_runner svc) of (cancelled_queued, r) \<Rightarrow>
           jbind (jupdate (\<lambda>svc. svc\<lparr>js_runner := r\<rparr>)) (\<lambda>_.
           jbind (on_jobs (if cancelled_queued then mark_cancelled jid ''Cancelled before execution'' now
                           else request_cancel jid now)) (\<lambda>cancelled.
           jbind (when_job cancelled (\<lambda>_. log_job jid ''warning'' ''Cancellation requested'' [] now)) (\<lambda>_.
           jreturn cancelled)))))"

definition retry_job :: "string \<Rightarrow> string \<Rightarrow> string \<Rightarrow> string \<Rightarrow> time \<Rightarrow> (job, 'h) job_step" where
  "retry_job jid actor new_id new_correlation now = jwith (\<lambda>svc.
     case job_get jid (js_db svc) of
       None \<Rightarrow> jraise (LookupError ''Job not found'')
     | Some previous \<Rightarrow>
         if job_status previous \<notin> set failed_statuses \<or> \<not> job_retryable previous
         then jraise (ValueError ''Job is not retryable'')
         else (case handler_of (job_type previous) svc of
                 None \<Rightarrow> jraise (ValueError ''No retry-safe handler is registered for this job type'')
               | Some reg \<Rightarrow>
                   if \<not> reg_retryable reg
                   then jraise (ValueError ''No retry-safe handler is registered for this job type'')
                   else jbind (create_job (retry_spec previous actor reg) new_id new_correlation now) (\<lambda>retry.
                        jbind (dispatch (job_id retry) reg) (\<lambda>_. get_or retry))))"

definition update_progress ::
  "string \<Rightarrow> int option \<Rightarrow> string \<Rightarrow> string \<Rightarrow> (job option, 'h) job_step" where
  "update_progress jid progress message current_step =
     on_jobs (update_job jid (\<lambda>j. j\<lparr>job_progress := map_option (\<lambda>p. min (max p 0) 100) progress,
       job_message := take 1000 (sanitize_str message),
       job_current_step := take 240 (sanitize_str current_step)\<rparr>))"

definition cleanup_jobs :: "int \<Rightarrow> time \<Rightarrow> (nat, 'h) job_step" where
  "cleanup_jobs retention_days now =
     on_jobs (repo_cleanup (now - of_int (max 1 retention_days) * 86400))"

definition shutdown_jobs :: "(unit, 'h) job_step" where
  "shutdown_jobs = jupdate (\<lambda>svc. svc\<lparr>js_runner := runner_shutdown (js_runner svc)\<rparr>)"

text \<open>
  A restart of the application: queue, executions, timers and handlers are gone with the process,
  the table stays and is reconciled.
\<close>

definition restart_jobs :: "int \<Rightarrow> int \<Rightarrow> time \<Rightarrow> (nat, 'h) job_step" where
  "restart_jobs workers module_workers now svc =
     (case recover_interrupted now (js_db svc) of (n, db) \<Rightarrow>
        (Inr n, (new_job_service db workers module_workers)\<lparr>js_alerts := js_alerts svc\<rparr>))"

section \<open>The service as a machine\<close>

datatype 'h job_event =
    Je_register string "'h registration"
  | Je_submit job_spec string string
  | Je_submit_callable 'h job_spec string string
  | Je_take
  | Je_enter nat string time
  | Je_leave nat outcome string string time
  | Je_timer nat
  | Je_cancel string
  | Je_retry string string string string
  | Je_progress string "int option" string string
  | Je_log string string string dict
  | Je_cleanup int
  | Je_shutdown
  | Je_restart int int

fun job_apply :: "(real \<Rightarrow> string) \<Rightarrow> time \<Rightarrow> 'h job_event \<Rightarrow> 'h job_service \<Rightarrow> 'h job_service" where
  "job_apply g now (Je_register jtype reg) svc = snd (register_handler jtype reg svc)"
| "job_apply g now (Je_submit sp jid cid) svc = snd (submit_job sp jid cid now svc)"
| "job_apply g now (Je_submit_callable h sp jid cid) svc = snd (submit_callable h sp jid cid now svc)"
| "job_apply g now Je_take svc = snd (worker_takes svc)"
| "job_apply g now (Je_enter i worker tick) svc = snd (enter_gate i worker now tick svc)"
| "job_apply g now (Je_leave i out jid cid tick) svc = snd (leave_gate g i out jid cid now tick svc)"
| "job_apply g now (Je_timer i) svc = snd (fire_timer i now svc)"
| "job_apply g now (Je_cancel jid) svc = snd (cancel_job jid now svc)"
| "job_apply g now (Je_retry jid actor nid cid) svc = snd (retry_job jid actor nid cid now svc)"
| "job_apply g now (Je_progress jid p message step) svc = snd (update_progress jid p message step svc)"
| "job_apply g now (Je_log jid level message data) svc = snd (log_job jid level message data now svc)"
| "job_apply g now (Je_cleanup days) svc = snd (cleanup_jobs days now svc)"
| "job_apply g now Je_shutdown svc = snd (shutdown_jobs svc)"
| "job_apply g now (Je_restart w m) svc = snd (restart_jobs w m now svc)"

definition job_init :: "'h job_service \<Rightarrow> bool" where
  "job_init svc \<longleftrightarrow> (\<exists>w m. svc = new_job_service empty_job_db w m)"

inductive job_step_rel :: "'h job_service \<Rightarrow> 'h job_service \<Rightarrow> bool" where
  job_event: "job_step_rel svc (job_apply g now ev svc)"

primrec job_run :: "(real \<Rightarrow> string) \<Rightarrow> (time \<times> 'h job_event) list \<Rightarrow> 'h job_service \<Rightarrow> 'h job_service" where
  "job_run g [] svc = svc"
| "job_run g (e # es) svc = job_run g es (job_apply g (fst e) (snd e) svc)"

end
