(* ===== verification/Job_Invariants.thy ===== *)
theory Job_Invariants
  imports Job_Service
begin

text \<open>
  What every reachable state of the job service satisfies: the integrity of its tables, and the
  limits on what runs at the same time. A step is followed through its combinators by a preorder
  on states, once for both invariants.
\<close>

section \<open>Integrity of the tables\<close>

definition log_count :: "string \<Rightarrow> job_db \<Rightarrow> nat" where
  "log_count jid db = length (filter (\<lambda>l. log_job_id l = jid) (jd_logs db))"

text \<open>A job depends only on jobs that stand before it in the table.\<close>

definition depends_backward :: "string list \<Rightarrow> (string \<times> string) list \<Rightarrow> bool" where
  "depends_backward ids deps \<longleftrightarrow>
     (\<forall>(k, d) \<in> set deps. \<exists>before after. ids = before @ k # after \<and> d \<in> set before)"

definition row_ok :: "job \<Rightarrow> bool" where
  "row_ok j \<longleftrightarrow>
     (job_status j \<in> set terminal_statuses \<longrightarrow> job_finished_at j \<noteq> None)
     \<and> (case job_progress j of None \<Rightarrow> True | Some p \<Rightarrow> 0 \<le> p \<and> p \<le> 100)"

definition job_wf :: "job_db \<Rightarrow> bool" where
  "job_wf db \<longleftrightarrow>
     keyed job_id (jd_jobs db) \<and> (\<forall>j \<in> set (jd_jobs db). row_ok j)
     \<and> keyed log_id (jd_logs db)
     \<and> (\<forall>l \<in> set (jd_logs db). log_id l < jd_next_log db
           \<and> log_job_id l \<in> job_id ` set (jd_jobs db)
           \<and> length (log_level l) \<le> 16 \<and> length (log_message l) \<le> 4000)
     \<and> (\<forall>jid. log_count jid db \<le> 2000)
     \<and> distinct (jd_dependencies db)
     \<and> depends_backward (map job_id (jd_jobs db)) (jd_dependencies db)"

lemma job_get_iff: "keyed job_id (jd_jobs db) \<Longrightarrow>
    job_get jid db = Some j \<longleftrightarrow> j \<in> set (jd_jobs db) \<and> job_id j = jid"
  unfolding job_get_def by (rule find_keyed)

lemma job_get_None: "job_get jid db = None \<longleftrightarrow> jid \<notin> job_id ` set (jd_jobs db)"
  unfolding job_get_def find_None_iff by auto

lemma job_get_id: "job_get jid db = Some j \<Longrightarrow> job_id j = jid"
  unfolding job_get_def by (auto dest: find_Some_D)

lemma job_get_update:
  assumes "\<And>j. job_id (f j) = job_id j"
  shows "job_get k (snd (update_job jid f db)) =
     (if k = jid then map_option f (job_get k db) else job_get k db)"
proof -
  have "find (\<lambda>j. job_id j = k) (upd_rows (\<lambda>j. job_id j = jid) f rows)
      = (if k = jid then map_option f (find (\<lambda>j. job_id j = k) rows) else find (\<lambda>j. job_id j = k) rows)"
    for rows using assms by (induction rows) auto
  then show ?thesis by (simp add: update_job_def job_get_def Let_def)
qed

lemma fst_update_job:
  assumes "\<And>j. job_id (f j) = job_id j"
  shows "fst (update_job jid f db) = map_option f (job_get jid db)"
  using job_get_update [of f jid jid db, OF assms] by (simp add: update_job_def Let_def)

lemma update_job_frame:
  "jd_logs (snd (update_job jid f db)) = jd_logs db"
  "jd_next_log (snd (update_job jid f db)) = jd_next_log db"
  "jd_dependencies (snd (update_job jid f db)) = jd_dependencies db"
  by (simp_all add: update_job_def Let_def)

lemma job_wf_upd_rows:
  assumes "job_wf db" and "\<And>j. job_id (f j) = job_id j" and "\<And>j. row_ok j \<Longrightarrow> row_ok (f j)"
  shows "job_wf (db\<lparr>jd_jobs := upd_rows p f (jd_jobs db)\<rparr>)"
proof -
  have ids: "map job_id (upd_rows p f (jd_jobs db)) = map job_id (jd_jobs db)"
    using assms(2) by (rule map_upd_rows_frame)
  then have "job_id ` set (upd_rows p f (jd_jobs db)) = job_id ` set (jd_jobs db)"
    by (metis list.set_map)
  with assms ids show ?thesis
    by (auto simp: job_wf_def keyed_def log_count_def set_upd_rows)
qed

lemma job_wf_update [inv_intros]:
  "job_wf db \<Longrightarrow> (\<And>j. job_id (f j) = job_id j) \<Longrightarrow> (\<And>j. row_ok j \<Longrightarrow> row_ok (f j)) \<Longrightarrow>
    job_wf (snd (update_job jid f db))"
  unfolding update_job_def Let_def snd_conv by (rule job_wf_upd_rows)

lemma job_wf_marks [inv_intros]:
  assumes "job_wf db"
  shows "job_wf (snd (mark_running jid worker now db))"
    and "job_wf (snd (mark_success jid result now db))"
    and "job_wf (snd (mark_finished jid status error message now db))"
    and "job_wf (snd (mark_cancelled jid message now db))"
    and "job_wf (snd (request_cancel jid now db))"
  using assms
  by (auto simp: mark_running_def mark_success_def mark_finished_def mark_cancelled_def
      request_cancel_def row_ok_def terminal_statuses_def split: option.splits intro!: job_wf_update)

lemma job_wf_finished [inv_intros]:
  assumes "job_wf db"
  shows "job_wf (snd (mark_failed jid error now db))"
    and "job_wf (snd (mark_timed_out jid error now db))"
    and "job_wf (snd (mark_blocked jid error now db))"
  using job_wf_marks(3) [OF assms]
  by (simp_all add: mark_failed_def mark_timed_out_def mark_blocked_def)

lemma job_wf_empty: "job_wf empty_job_db"
  by (simp add: job_wf_def empty_job_db_def log_count_def depends_backward_def)

lemma depends_backward_append: "depends_backward ids deps \<Longrightarrow> depends_backward (ids @ [k]) deps"
  unfolding depends_backward_def by (fastforce simp: append_eq_append_conv2)

lemma find_append:
  "find p (xs @ ys) = (case find p xs of None \<Rightarrow> find p ys | Some x \<Rightarrow> Some x)"
  by (induction xs) auto

lemma job_get_append:
  "jid \<notin> job_id ` set (jd_jobs db) \<Longrightarrow> job_id j = jid \<Longrightarrow>
     job_get k (db\<lparr>jd_jobs := jd_jobs db @ [j]\<rparr>) = (if k = jid then Some j else job_get k db)"
  using job_get_None [of jid db] by (auto simp: job_get_def find_append split: option.splits)

lemma repo_create_Inr:
  "repo_create sp status jid now db = Inr (j, db') \<longleftrightarrow>
     jid \<notin> job_id ` set (jd_jobs db) \<and> j = job_row sp status jid now
     \<and> db' = db\<lparr>jd_jobs := jd_jobs db @ [j]\<rparr>"
  using job_get_append [of jid db "job_row sp status jid now" jid]
  by (auto simp: repo_create_def rbind_Inr_iff insert_row_Inr_iff Let_def job_row_def
      split: option.splits)

lemma job_wf_create [inv_intros]:
  assumes "job_wf db" and "repo_create sp status jid now db = Inr (j, db')"
    and "status \<notin> set terminal_statuses"
  shows "job_wf db'"
proof -
  have "row_ok j" using assms(2,3) by (auto simp: repo_create_Inr row_ok_def job_row_def)
  moreover have "job_id j = jid" using assms(2) by (auto simp: repo_create_Inr job_row_def)
  ultimately show ?thesis
    using assms(1,2)
    by (auto simp: repo_create_Inr job_wf_def keyed_snoc log_count_def
        intro: depends_backward_append)
qed

lemma job_wf_add_dependencies [inv_intros]:
  assumes wf: "job_wf db" and rows: "map job_id (jd_jobs db) = ids @ [jid]"
    and add: "add_dependencies jid ds db = Inr db'"
  shows "job_wf db'"
proof -
  have "d \<in> set ids" if "d \<in> set ds" and "rfold (\<lambda>d _. check_dependency jid db d) ds () = Inr ()" for d ds
    using that
  proof (induction ds)
    case (Cons e ds)
    have "e \<in> set ids" if "check_dependency jid db e = Inr ()"
    proof -
      from that have "e \<noteq> jid" "e \<in> job_id ` set (jd_jobs db)"
        by (auto simp: check_dependency_def job_get_None split: if_splits)
      then show ?thesis using arg_cong [OF rows, of set] by auto
    qed
    with Cons show ?case by (auto simp: rbind_Inr_iff)
  qed simp
  then have ds: "\<forall>d \<in> set ds. d \<in> set ids" and db': "db' = db\<lparr>jd_dependencies :=
      fold (\<lambda>d. insert_ignore id (jid, d)) ds (jd_dependencies db)\<rparr>"
    using add by (auto simp: add_dependencies_def rbind_Inr_iff split: if_splits)
  have "distinct (fold (\<lambda>d. insert_ignore id (jid, d)) ds deps)
      \<and> depends_backward (ids @ [jid]) (fold (\<lambda>d. insert_ignore id (jid, d)) ds deps)"
    if "distinct deps" "depends_backward (ids @ [jid]) deps" "\<forall>d \<in> set ds. d \<in> set ids" for deps
    using that
  proof (induction ds arbitrary: deps)
    case (Cons d ds)
    have "distinct (insert_ignore id (jid, d) deps)" using Cons.prems(1) by (simp add: insert_ignore_alt)
    moreover have "depends_backward (ids @ [jid]) (insert_ignore id (jid, d) deps)"
      using Cons.prems(2,3) by (auto simp: insert_ignore_alt depends_backward_def)
    moreover have "fold (\<lambda>d. insert_ignore id (jid, d)) (d # ds) deps
        = fold (\<lambda>d. insert_ignore id (jid, d)) ds (insert_ignore id (jid, d) deps)"
      by (simp only: fold_simps)
    ultimately show ?case using Cons.IH [of "insert_ignore id (jid, d) deps"] Cons.prems(3)
      by (metis list.set_intros(2))
  qed simp
  with wf ds rows show ?thesis by (auto simp: db' job_wf_def log_count_def)
qed

text \<open>Appending to a log keeps the 2000 newest entries of that job.\<close>

lemma newest_log_ids_bound:
  assumes "keyed log_id logs"
  shows "length (filter (\<lambda>l. log_job_id l = jid \<and> log_id l \<in> set (newest_log_ids jid logs)) logs) \<le> 2000"
proof -
  have "distinct (map log_id (filter (\<lambda>l. log_job_id l = jid \<and> log_id l \<in> set (newest_log_ids jid logs)) logs))"
    using assms unfolding keyed_def by (rule distinct_map_filter)
  then have "length (filter (\<lambda>l. log_job_id l = jid \<and> log_id l \<in> set (newest_log_ids jid logs)) logs)
      = card (set (map log_id (filter (\<lambda>l. log_job_id l = jid \<and> log_id l \<in> set (newest_log_ids jid logs)) logs)))"
    using distinct_card by fastforce
  also have "\<dots> \<le> card (set (newest_log_ids jid logs))"
    by (intro card_mono) auto
  also have "\<dots> \<le> length (newest_log_ids jid logs)" by (rule card_length)
  also have "\<dots> \<le> 2000" by (simp add: newest_log_ids_def)
  finally show ?thesis .
qed

lemma append_log_Inr:
  "append_log jid level message data now db = Inr db' \<Longrightarrow>
     jid \<in> job_id ` set (jd_jobs db) \<and> jd_jobs db' = jd_jobs db
     \<and> jd_dependencies db' = jd_dependencies db"
  by (auto simp: append_log_def Let_def job_get_None split: if_splits)

lemma append_log_works:
  "job_get jid db \<noteq> None \<Longrightarrow> \<exists>db'. append_log jid level message data now db = Inr db'"
  by (simp add: append_log_def Let_def)

lemma job_wf_append_log [inv_intros]:
  assumes wf: "job_wf db" and log: "append_log jid level message data now db = Inr db'"
  shows "job_wf db'"
proof -
  define e where "e = \<lparr>log_id = jd_next_log db, log_job_id = jid, log_created_at = now,
      log_level = take 16 level, log_message = take 4000 message, log_data = data\<rparr>"
  define logs where "logs = jd_logs db @ [e]"
  have db': "db' = db\<lparr>jd_logs := del_rows (\<lambda>l. log_job_id l = jid
        \<and> log_id l \<notin> set (newest_log_ids jid logs)) logs, jd_next_log := jd_next_log db + 1\<rparr>"
    and jid: "jid \<in> job_id ` set (jd_jobs db)"
    using log by (auto simp: append_log_def logs_def e_def Let_def job_get_None split: if_splits)
  have keyed: "keyed log_id logs"
    using wf by (force simp: job_wf_def keyed_snoc logs_def e_def)
  have "log_count k db' \<le> 2000" for k
  proof (cases "k = jid")
    case True
    have "filter (\<lambda>l. log_job_id l = jid) (jd_logs db')
        = filter (\<lambda>l. log_job_id l = jid \<and> log_id l \<in> set (newest_log_ids jid logs)) logs"
      by (auto simp: db' del_rows_def intro!: filter_cong)
    with newest_log_ids_bound [OF keyed, of jid] True show ?thesis by (simp add: log_count_def)
  next
    case False
    then have "filter (\<lambda>l. log_job_id l = k) (jd_logs db') = filter (\<lambda>l. log_job_id l = k) (jd_logs db)"
      by (auto simp: db' logs_def e_def del_rows_def intro!: filter_cong)
    with wf show ?thesis by (simp add: log_count_def job_wf_def)
  qed
  moreover have "keyed log_id (jd_logs db')" using keyed by (simp add: db' keyed_del_rows)
  moreover have "log_id l < jd_next_log db' \<and> log_job_id l \<in> job_id ` set (jd_jobs db')
      \<and> length (log_level l) \<le> 16 \<and> length (log_message l) \<le> 4000" if "l \<in> set (jd_logs db')" for l
  proof -
    have "l = e \<or> l \<in> set (jd_logs db)" using that by (simp add: db' logs_def split: if_splits) blast+
    then show ?thesis
    proof
      assume "l = e"
      with jid show ?thesis by (simp add: db' e_def)
    next
      assume "l \<in> set (jd_logs db)"
      with wf show ?thesis by (auto simp: db' job_wf_def intro: less_SucI)
    qed
  qed
  ultimately show ?thesis using wf by (simp add: job_wf_def db')
qed

lemma job_wf_recover [inv_intros]: "job_wf db \<Longrightarrow> job_wf (snd (recover_interrupted now db))"
  unfolding recover_interrupted_def Let_def snd_conv
  by (rule job_wf_upd_rows) (auto simp: interrupted_def row_ok_def Let_def split: prod.splits if_splits)

lemma depends_backward_del:
  assumes "depends_backward (map key rows) deps" and "ids = key ` {r \<in> set rows. p r}"
  shows "depends_backward (map key (del_rows p rows)) (del_rows (\<lambda>(k, d). k \<in> ids \<or> d \<in> ids) deps)"
  unfolding depends_backward_def
proof (clarsimp)
  fix k d
  assume "(k, d) \<in> set deps" and kd: "k \<notin> ids" "d \<notin> ids"
  then obtain before after where ba: "map key rows = before @ k # after" "d \<in> set before"
    using assms(1) by (auto simp: depends_backward_def)
  then obtain rb r ra where rows: "rows = rb @ r # ra" "map key rb = before" "key r = k"
    by (auto simp: map_eq_append_conv map_eq_Cons_conv)
  have "\<not> p r" using kd(1) rows assms(2) by auto
  moreover obtain x where "x \<in> set rb" "key x = d" using ba(2) rows(2) by auto
  moreover from this have "\<not> p x" using kd(2) rows assms(2) by auto
  ultimately show "\<exists>before. (\<exists>after. map key (del_rows p rows) = before @ k # after) \<and> d \<in> set before"
    using rows by (intro exI [of _ "map key (del_rows p rb)"]) auto
qed

lemma length_filter_del: "length (filter q (del_rows p rows)) \<le> length (filter q rows)"
  by (induction rows) auto

lemma job_wf_cleanup [inv_intros]:
  assumes "job_wf db"
  shows "job_wf (snd (repo_cleanup older db))"
proof -
  define expired where "expired = (\<lambda>j :: job. job_status j \<in> set terminal_statuses
            \<and> (case job_finished_at j of None \<Rightarrow> False | Some f \<Rightarrow> f < older))"
  define ids where "ids = set (map job_id (filter expired (jd_jobs db)))"
  have db': "snd (repo_cleanup older db) = db\<lparr>jd_jobs := del_rows expired (jd_jobs db),
             jd_logs := del_rows (\<lambda>l. log_job_id l \<in> ids) (jd_logs db),
             jd_dependencies := del_rows (\<lambda>(k, d). k \<in> ids \<or> d \<in> ids) (jd_dependencies db)\<rparr>"
    by (simp add: repo_cleanup_def Let_def expired_def ids_def)
  have "depends_backward (map job_id (del_rows expired (jd_jobs db)))
      (del_rows (\<lambda>(k, d). k \<in> ids \<or> d \<in> ids) (jd_dependencies db))"
    using assms by (intro depends_backward_del) (auto simp: job_wf_def ids_def)
  moreover have "log_count k (snd (repo_cleanup older db)) \<le> 2000" for k
  proof -
    have "log_count k (snd (repo_cleanup older db)) \<le> log_count k db"
      unfolding log_count_def db' by (simp add: length_filter_del)
    with assms show ?thesis by (auto simp: job_wf_def intro: order_trans)
  qed
  moreover have "log_job_id l \<in> job_id ` set (del_rows expired (jd_jobs db))"
    if "l \<in> set (jd_logs db)" "log_job_id l \<notin> ids" for l
  proof -
    have "log_job_id l \<in> job_id ` set (jd_jobs db)" using assms that(1) by (simp add: job_wf_def)
    then obtain j where "j \<in> set (jd_jobs db)" "log_job_id l = job_id j" by blast
    with that(2) show ?thesis by (intro image_eqI [of _ _ j]) (auto simp: ids_def)
  qed
  ultimately show ?thesis
    using assms by (auto simp: db' job_wf_def keyed_del_rows) (auto simp: del_rows_def)
qed

section \<open>Following a step through its combinators\<close>

definition follows :: "('h job_service \<Rightarrow> 'h job_service \<Rightarrow> bool) \<Rightarrow> ('a, 'h) job_step \<Rightarrow> bool" where
  "follows R m \<longleftrightarrow> (\<forall>svc. R svc (snd (m svc)))"

locale step_preorder =
  fixes R :: "'h job_service \<Rightarrow> 'h job_service \<Rightarrow> bool"
  assumes R_refl: "R s s" and R_trans: "R s t \<Longrightarrow> R t u \<Longrightarrow> R s u"
begin

lemma follows_return: "follows R (jreturn x)" and follows_raise: "follows R (jraise e)"
  by (simp_all add: follows_def jreturn_def jraise_def R_refl)

lemma bind_at: "R svc (snd (m svc)) \<Longrightarrow> (\<And>x. m svc = (Inr x, snd (m svc)) \<Longrightarrow> follows R (f x))
    \<Longrightarrow> R svc (snd (jbind m f svc))"
  unfolding jbind_def follows_def
  by (cases "m svc") (auto split: sum.splits intro: R_trans)

lemma follows_bind: "follows R m \<Longrightarrow> (\<And>x. follows R (f x)) \<Longrightarrow> follows R (jbind m f)"
  by (simp add: follows_def bind_at)

lemma follows_with: "(\<And>s. follows R (f s)) \<Longrightarrow> follows R (jwith f)"
  by (simp add: follows_def jwith_def)

lemma follows_for: "(\<And>x. follows R (f x)) \<Longrightarrow> follows R (jfor f xs)"
  by (induction xs) (auto intro: follows_return follows_bind)

lemma after_at: "follows R c \<Longrightarrow> R svc s \<Longrightarrow> R svc (snd (jbind c f s))" if "\<And>x. follows R (f x)"
  by (rule R_trans) (use follows_bind [of c f] that in \<open>auto simp: follows_def\<close>)

lemma follows_finally: "follows R m \<Longrightarrow> follows R c \<Longrightarrow> follows R (jfinally m c)"
  unfolding follows_def [of R m] follows_def [of R "jfinally m c"]
  by (auto simp: jfinally_def split: prod.splits sum.splits
      intro!: after_at follows_return follows_raise) (metis snd_conv)+

lemma follows_except: "follows R m \<Longrightarrow> follows R h \<Longrightarrow> follows R (jexcept m h)"
  unfolding follows_def [of R m] follows_def [of R "jexcept m h"]
  by (auto simp: jexcept_def split: prod.splits sum.splits
      intro!: after_at follows_return follows_raise) (metis snd_conv)+

lemma follows_when: "(\<And>j. follows R (f j)) \<Longrightarrow> follows R (when_job x f)"
  unfolding when_job_def by (cases x) (auto intro: follows_return)

lemma follows_if: "follows R a \<Longrightarrow> follows R b \<Longrightarrow> follows R (if c then a else b)"
  by simp

lemmas follows_combinators = follows_if follows_return follows_raise follows_bind follows_with
  follows_for follows_finally follows_except follows_when

end

text \<open>The tables stay well-formed.\<close>

definition wf_kept :: "'h job_service \<Rightarrow> 'h job_service \<Rightarrow> bool" where
  "wf_kept s t \<longleftrightarrow> (job_wf (js_db s) \<longrightarrow> job_wf (js_db t))"

interpretation tables: step_preorder wf_kept
  by unfold_locales (simp_all add: wf_kept_def)

text \<open>Nothing starts or stops to execute, and the limits stay.\<close>

definition exec_same :: "'h job_service \<Rightarrow> 'h job_service \<Rightarrow> bool" where
  "exec_same s t \<longleftrightarrow> js_gated t = js_gated s \<and> js_running t = js_running s
     \<and> js_module_limit t = js_module_limit s
     \<and> rn_max_workers (js_runner t) = rn_max_workers (js_runner s)"

interpretation execs: step_preorder exec_same
  by unfold_locales (simp_all add: exec_same_def)

section \<open>Every operation keeps the tables well-formed\<close>

lemma wf_on_jobs: "(\<And>db. job_wf db \<Longrightarrow> job_wf (snd (f db))) \<Longrightarrow> follows wf_kept (on_jobs f)"
  by (auto simp: follows_def wf_kept_def on_jobs_def split: prod.splits) (metis snd_conv)

lemma wf_try_jobs:
  "(\<And>db x db'. job_wf db \<Longrightarrow> f db = Inr (x, db') \<Longrightarrow> job_wf db') \<Longrightarrow> follows wf_kept (try_jobs f)"
  by (auto simp: follows_def wf_kept_def try_jobs_def split: sum.splits)

lemma wf_update: "(\<And>svc. js_db (f svc) = js_db svc) \<Longrightarrow> follows wf_kept (jupdate f)"
  by (simp add: follows_def wf_kept_def jupdate_def)

named_theorems wf_steps \<open>steps that keep the tables well-formed\<close>

lemmas [wf_steps] = tables.follows_combinators wf_on_jobs job_wf_marks job_wf_finished job_wf_cleanup

lemma wf_log_job [wf_steps]: "follows wf_kept (log_job jid level message data now)"
  unfolding log_job_def by (rule wf_try_jobs) (auto simp: rbind_Inr_iff intro: job_wf_append_log)

lemma wf_update_job [wf_steps]:
  "(\<And>j. job_id (f j) = job_id j) \<Longrightarrow> (\<And>j. row_ok j \<Longrightarrow> row_ok (f j)) \<Longrightarrow>
     follows wf_kept (on_jobs (update_job jid f))"
  by (rule wf_on_jobs) (rule job_wf_update)

lemma try_jobs_Inr: "try_jobs f svc = (Inr x, svc') \<longleftrightarrow>
    (\<exists>db. f (js_db svc) = Inr (x, db) \<and> svc' = svc\<lparr>js_db := db\<rparr>)"
  by (auto simp: try_jobs_def split: sum.splits)

lemma wf_create_job [wf_steps]: "follows wf_kept (create_job sp new_id new_correlation now)"
proof -
  have main: "wf_kept svc (snd (jbind (try_jobs (repo_create row status new_id now)) (\<lambda>j.
             jbind (jexcept
                 (try_jobs (\<lambda>db. rbind (add_dependencies (job_id j) ds db) (\<lambda>db'. Inr ((), db'))))
                 (jbind (on_jobs (mark_blocked (job_id j) message now)) (\<lambda>_. jreturn ()))) (\<lambda>_.
             jbind (log_job (job_id j) ''info'' ''Job created'' data now) (\<lambda>_. jreturn j))) svc))"
    if open_status: "status \<notin> set terminal_statuses" for row status ds message data and svc :: "'a job_service"
  proof (cases "repo_create row status new_id now (js_db svc)")
    case (Inl e)
    then show ?thesis by (simp add: jbind_def try_jobs_def wf_kept_def)
  next
    case (Inr r)
    obtain j db where r: "r = (j, db)" by force
    define s where "s = svc\<lparr>js_db := db\<rparr>"
    have c: "new_id \<notin> job_id ` set (jd_jobs (js_db svc))" "j = job_row row status new_id now"
      "db = (js_db svc)\<lparr>jd_jobs := jd_jobs (js_db svc) @ [j]\<rparr>"
      using Inr unfolding r by (auto simp: repo_create_Inr)
    have wf: "wf_kept svc s"
      using job_wf_create [OF _ Inr [unfolded r] open_status] by (simp add: wf_kept_def s_def)
    have rows: "map job_id (jd_jobs (js_db s)) = map job_id (jd_jobs (js_db svc)) @ [job_id j]"
      by (simp add: s_def c(3))
    have blocked: "follows wf_kept (jbind (on_jobs (mark_blocked (job_id j) message now)) (\<lambda>_. jreturn ()))"
      by (intro wf_steps) auto
    have deps: "wf_kept s (snd (jexcept
          (try_jobs (\<lambda>db. rbind (add_dependencies (job_id j) ds db) (\<lambda>db'. Inr ((), db'))))
          (jbind (on_jobs (mark_blocked (job_id j) message now)) (\<lambda>_. jreturn ())) s))"
    proof (cases "add_dependencies (job_id j) ds (js_db s)")
      case (Inl e)
      then show ?thesis
        using tables.after_at [OF tables.follows_raise blocked tables.R_refl]
        by (simp add: jexcept_def try_jobs_def)
    next
      case (Inr db')
      then show ?thesis
        using job_wf_add_dependencies [OF _ rows Inr] by (simp add: jexcept_def try_jobs_def wf_kept_def)
    qed
    let ?deps = "jexcept
          (try_jobs (\<lambda>db. rbind (add_dependencies (job_id j) ds db) (\<lambda>db'. Inr ((), db'))))
          (jbind (on_jobs (mark_blocked (job_id j) message now)) (\<lambda>_. jreturn ()))"
    let ?log = "jbind (log_job (job_id j) ''info'' ''Job created'' data now) (\<lambda>_. jreturn j)"
    have "follows wf_kept ?log" by (intro wf_steps)
    then have "wf_kept s (snd (jbind ?deps (\<lambda>_. ?log) s))"
      using deps by (intro tables.bind_at) auto
    with wf have "wf_kept svc (snd (jbind ?deps (\<lambda>_. ?log) s))" by (rule tables.R_trans)
    then show ?thesis
      by (simp add: jbind_def [of "try_jobs (repo_create row status new_id now)"] try_jobs_def [of "repo_create row status new_id now"] Inr r
          flip: s_def)
  qed
  show ?thesis
    unfolding create_job_def Let_def
    by (intro tables.follows_with) 
      (auto simp: follows_def jreturn_def tables.R_refl terminal_statuses_def split: option.splits intro!: main)
qed

lemma wf_dispatch [wf_steps]: "follows wf_kept (dispatch jid reg)"
  unfolding dispatch_def
  by (intro tables.follows_with) (auto split: option.splits sum.splits intro!: wf_steps wf_update)

lemma row_ok_open [simp]:
  "row_ok j \<Longrightarrow> s \<notin> set terminal_statuses \<Longrightarrow> row_ok (j\<lparr>job_status := s, job_message := m\<rparr>)"
  by (simp add: row_ok_def)

lemma open_statuses [simp]: "Js_queued \<notin> set terminal_statuses" "Js_retrying \<notin> set terminal_statuses"
  by (simp_all add: terminal_statuses_def)

lemma wf_reconcile_waiting [wf_steps]: "follows wf_kept (reconcile_waiting now jid)"
  unfolding reconcile_waiting_def Let_def
  by (intro tables.follows_with) (auto split: option.splits intro!: wf_steps job_wf_update)

lemma wf_release_dependents [wf_steps]: "follows wf_kept (release_dependents now jid)"
  unfolding release_dependents_def by (intro wf_steps)

lemma wf_get_or [wf_steps]: "follows wf_kept (get_or j)"
  unfolding get_or_def by (intro wf_steps)

lemma wf_submit_job: "follows wf_kept (submit_job sp new_id new_correlation now)"
  unfolding submit_job_def
  by (intro tables.follows_with) (auto split: option.splits intro!: wf_steps)

lemma wf_submit_callable: "follows wf_kept (submit_callable h sp new_id new_correlation now)"
  unfolding submit_callable_def by (intro wf_steps)

lemma wf_emit_alert [wf_steps]: "follows wf_kept (emit_alert a)"
  unfolding emit_alert_def by (rule wf_update) simp

lemma wf_schedule_retry [wf_steps]: "follows wf_kept (schedule_retry failed reg new_id new_correlation now)"
  unfolding schedule_retry_def Let_def by (intro wf_steps wf_update) auto

lemma wf_finish [wf_steps]:
  "follows wf_kept (finish_timed_out g jid limit now)"
  "follows wf_kept (finish_success jid result elapsed now)"
  "follows wf_kept (finish_interrupted jid message now)"
  "follows wf_kept (finish_failed jid reg error new_id new_correlation now)"
  unfolding finish_timed_out_def finish_success_def finish_interrupted_def finish_failed_def Let_def
  by (intro wf_steps; assumption)+

lemma wf_finish_execution [wf_steps]:
  "follows wf_kept (finish_execution g jid reg outcome elapsed new_id new_correlation now)"
  unfolding finish_execution_def
  by (intro tables.follows_finally tables.follows_with)
    (auto split: outcome.splits option.splits intro!: wf_steps)

lemma wf_steps_at: "follows wf_kept m \<Longrightarrow> job_wf (js_db svc) \<Longrightarrow> job_wf (js_db (snd (m svc)))"
  by (simp add: follows_def wf_kept_def)

lemma wf_worker_takes: "js_db (snd (worker_takes svc)) = js_db svc"
  by (auto simp: worker_takes_def split: prod.splits option.splits bool.splits)

lemma wf_enter_gate:
  assumes "job_wf (js_db svc)"
  shows "job_wf (js_db (snd (enter_gate i worker now tick svc)))"
proof (cases "mark_running (et_job_id (qe_target (js_gated svc ! i))) worker now (js_db svc)")
  case (Pair running db)
  have "job_wf db" using job_wf_marks(1) [OF assms] Pair by (metis snd_conv)
  moreover have "follows wf_kept (jbind (log_job jid level message data now) (\<lambda>_. jupdate (\<lambda>s. s\<lparr>js_running := js_running s @ [x]\<rparr>)))"
    for jid level message data now and x :: "'a exec_target queue_entry \<times> time"
    by (intro wf_steps wf_update) simp
  ultimately show ?thesis
    using assms by (auto simp: enter_gate_def Let_def Pair split: option.splits intro!: wf_steps_at)
qed

lemma wf_leave_gate:
  assumes "job_wf (js_db svc)"
  shows "job_wf (js_db (snd (leave_gate g i outcome new_id new_correlation now tick svc)))"
  unfolding leave_gate_def Let_def
  using assms by (auto split: prod.splits intro!: wf_steps_at wf_steps wf_update)

lemma wf_fire_timer:
  assumes "job_wf (js_db svc)"
  shows "job_wf (js_db (snd (fire_timer i now svc)))"
  unfolding fire_timer_def using assms by (auto split: prod.splits intro!: wf_steps_at wf_steps)

lemma wf_cancel_job: "follows wf_kept (cancel_job jid now)"
  unfolding cancel_job_def
  by (intro tables.follows_with)
    (auto split: option.splits prod.splits intro!: wf_steps wf_update)

lemma wf_retry_job: "follows wf_kept (retry_job jid actor new_id new_correlation now)"
  unfolding retry_job_def
  by (intro tables.follows_with) (auto split: option.splits intro!: wf_steps)

lemma wf_update_progress: "follows wf_kept (update_progress jid p message step)"
  unfolding update_progress_def
  by (rule wf_update_job) (auto simp: row_ok_def split: option.splits)

lemma wf_cleanup_jobs: "follows wf_kept (cleanup_jobs days now)"
  unfolding cleanup_jobs_def by (intro wf_steps)

lemma wf_restart: "job_wf (js_db svc) \<Longrightarrow> job_wf (js_db (snd (restart_jobs w m now svc)))"
  using job_wf_recover [of "js_db svc" now]
  by (auto simp: restart_jobs_def new_job_service_def split: prod.splits)

lemma wf_job_apply: "job_wf (js_db svc) \<Longrightarrow> job_wf (js_db (job_apply g now ev svc))"
  by (cases ev)
    (auto simp: wf_worker_takes register_handler_def shutdown_jobs_def jupdate_def
      intro!: wf_enter_gate wf_leave_gate wf_fire_timer wf_restart
        wf_submit_job [THEN wf_steps_at] wf_submit_callable [THEN wf_steps_at]
        wf_cancel_job [THEN wf_steps_at] wf_retry_job [THEN wf_steps_at]
        wf_update_progress [THEN wf_steps_at] wf_log_job [THEN wf_steps_at]
        wf_cleanup_jobs [THEN wf_steps_at])

interpretation job_tables: machine_invariant job_init job_step_rel "\<lambda>svc. job_wf (js_db svc)"
  by unfold_locales
    (auto simp: job_init_def new_job_service_def job_wf_empty elim!: job_step_rel.cases intro: wf_job_apply)

section \<open>Limits on what runs at the same time\<close>

definition load_ok :: "'h job_service \<Rightarrow> bool" where
  "load_ok svc \<longleftrightarrow>
     (\<forall>m. module_load m svc \<le> js_module_limit svc)
     \<and> length (js_gated svc) + length (js_running svc) \<le> rn_max_workers (js_runner svc)
     \<and> 1 \<le> js_module_limit svc \<and> js_module_limit svc \<le> 16
     \<and> 1 \<le> rn_max_workers (js_runner svc) \<and> rn_max_workers (js_runner svc) \<le> 16"

lemma load_ok_same: "load_ok s \<Longrightarrow> exec_same s t \<Longrightarrow> load_ok t"
  by (simp add: load_ok_def exec_same_def module_load_def)

named_theorems exec_steps \<open>steps that start and stop no execution\<close>

lemma exec_db [exec_steps]: "follows exec_same (on_jobs f)" "follows exec_same (try_jobs g)"
  by (auto simp: follows_def exec_same_def on_jobs_def try_jobs_def split: prod.splits sum.splits)

lemma exec_update [exec_steps]:
  "(\<And>svc. exec_same svc (f svc)) \<Longrightarrow> follows exec_same (jupdate f)"
  by (simp add: follows_def jupdate_def)

lemmas [exec_steps] = execs.follows_combinators

lemma runner_submit_workers:
  "runner_submit jid t p r = Inr r' \<Longrightarrow> rn_max_workers r' = rn_max_workers r"
  by (auto simp: runner_submit_def Let_def split: if_splits)

lemma exec_dispatch [exec_steps]: "follows exec_same (dispatch jid reg)"
  by (auto simp: follows_def dispatch_def jwith_def jreturn_def jraise_def jupdate_def
      exec_same_def runner_submit_workers split: option.splits sum.splits)

lemma exec_log_job [exec_steps]: "follows exec_same (log_job jid level message data now)"
  unfolding log_job_def by (rule exec_steps)

lemma exec_create_job [exec_steps]: "follows exec_same (create_job sp new_id new_correlation now)"
  unfolding create_job_def Let_def
  by (intro execs.follows_with) (auto split: option.splits intro!: exec_steps)

lemma exec_reconcile_waiting [exec_steps]: "follows exec_same (reconcile_waiting now jid)"
  unfolding reconcile_waiting_def Let_def
  by (intro execs.follows_with) (auto split: option.splits intro!: exec_steps)

lemma exec_small [exec_steps]:
  "follows exec_same (release_dependents now jid)"
  "follows exec_same (get_or j)"
  "follows exec_same (emit_alert a)"
  "follows exec_same (schedule_retry failed reg new_id new_correlation now)"
  unfolding release_dependents_def get_or_def emit_alert_def schedule_retry_def Let_def
  by (intro exec_steps; simp add: exec_same_def)+

lemma exec_finish [exec_steps]:
  "follows exec_same (finish_timed_out g jid limit now)"
  "follows exec_same (finish_success jid result elapsed now)"
  "follows exec_same (finish_interrupted jid message now)"
  "follows exec_same (finish_failed jid reg error new_id new_correlation now)"
  unfolding finish_timed_out_def finish_success_def finish_interrupted_def finish_failed_def Let_def
  by (intro exec_steps; assumption)+

lemma exec_operations [exec_steps]:
  "follows exec_same (register_handler jtype reg)"
  "follows exec_same (submit_callable h sp new_id new_correlation now)"
  "follows exec_same (update_progress jid p message step)"
  "follows exec_same (cleanup_jobs days now)"
  "follows exec_same shutdown_jobs"
  unfolding register_handler_def submit_callable_def update_progress_def cleanup_jobs_def shutdown_jobs_def
  by (intro exec_steps; simp add: exec_same_def runner_shutdown_def)+

lemma exec_finish_execution [exec_steps]:
  "follows exec_same (finish_execution g jid reg outcome elapsed new_id new_correlation now)"
  unfolding finish_execution_def
  by (intro execs.follows_finally execs.follows_with exec_steps)
    (auto split: outcome.splits option.splits intro!: exec_steps)

lemma exec_submit_job [exec_steps]: "follows exec_same (submit_job sp new_id new_correlation now)"
  unfolding submit_job_def
  by (intro execs.follows_with) (auto split: option.splits intro!: exec_steps)

lemma exec_retry_job [exec_steps]: "follows exec_same (retry_job jid actor new_id new_correlation now)"
  unfolding retry_job_def
  by (intro execs.follows_with) (auto split: option.splits intro!: exec_steps)

lemma cancel_queued_workers: "rn_max_workers (snd (cancel_queued jid r)) = rn_max_workers r"
  by (auto simp: cancel_queued_def future_cancel_def split: option.splits future_state.splits)

lemma exec_cancel_job [exec_steps]: "follows exec_same (cancel_job jid now)"
proof -
  have at: "exec_same svc (snd (cancel_job jid now svc))" for svc :: "'a job_service"
  proof -
    obtain q r where c: "cancel_queued jid (js_runner svc) = (q, r)" by force
    then have r: "rn_max_workers r = rn_max_workers (js_runner svc)"
      by (metis cancel_queued_workers snd_conv)
    have "follows exec_same (jbind (on_jobs (if q then mark_cancelled jid ''Cancelled before execution'' now
                           else request_cancel jid now)) (\<lambda>cancelled.
           jbind (when_job cancelled (\<lambda>_. log_job jid ''warning'' ''Cancellation requested'' [] now)) (\<lambda>_.
           jreturn cancelled)) :: (job option, 'a) job_step)"
      by (intro exec_steps)
    then have "exec_same svc (snd (jbind (jupdate (\<lambda>svc. svc\<lparr>js_runner := r\<rparr>)) (\<lambda>_.
        jbind (on_jobs (if q then mark_cancelled jid ''Cancelled before execution'' now
                           else request_cancel jid now)) (\<lambda>cancelled.
           jbind (when_job cancelled (\<lambda>_. log_job jid ''warning'' ''Cancellation requested'' [] now)) (\<lambda>_.
           jreturn cancelled))) svc))"
      by (intro execs.bind_at) (auto simp: jupdate_def exec_same_def r)
    then show ?thesis
      by (auto simp: cancel_job_def jwith_def c jreturn_def jraise_def execs.R_refl split: option.splits)
  qed
  then show ?thesis by (simp add: follows_def)
qed

lemma exec_fire_timer: "exec_same svc (snd (fire_timer i now svc))"
proof -
  have "exec_same svc (snd (dispatch jid reg (svc\<lparr>js_timers := ts\<rparr>)))" for jid reg ts
    using exec_dispatch [of jid reg] execs.R_trans [of svc "svc\<lparr>js_timers := ts\<rparr>"]
    by (simp add: follows_def exec_same_def)
  then show ?thesis by (auto simp: fire_timer_def execs.R_refl split: prod.splits)
qed

lemma length_drop_index: "i < length xs \<Longrightarrow> Suc (length (drop_index i xs)) = length xs"
  by (simp add: drop_index_def)

lemma length_filter_drop_index: "length (filter p (drop_index i xs)) \<le> length (filter p xs)"
proof -
  have "length (filter p xs) = length (filter p (take i xs)) + length (filter p (drop i xs))"
    by (metis append_take_drop_id filter_append length_append)
  moreover have "length (filter p (drop (Suc i) xs)) \<le> length (filter p (drop i xs))"
    by (cases "i < length xs") (auto simp flip: Cons_nth_drop_Suc)
  ultimately show ?thesis by (simp add: drop_index_def)
qed

lemma load_ok_takes: "load_ok svc \<Longrightarrow> load_ok (snd (worker_takes svc))"
proof -
  have "rn_max_workers (snd (worker_take (js_runner svc))) = rn_max_workers (js_runner svc)"
    by (auto simp: worker_take_def split: option.splits)
  then show "load_ok svc \<Longrightarrow> load_ok (snd (worker_takes svc))"
    by (auto simp: worker_takes_def load_ok_def module_load_def split: prod.splits option.splits bool.splits)
qed

lemma load_ok_enter:
  assumes "load_ok svc"
  shows "load_ok (snd (enter_gate i worker now tick svc))"
proof (cases "i < length (js_gated svc)
    \<and> module_load (et_module (qe_target (js_gated svc ! i))) svc < js_module_limit svc")
  case True
  define e where "e = js_gated svc ! i"
  define svc1 where "svc1 = svc\<lparr>js_gated := drop_index i (js_gated svc)\<rparr>"
  have len: "Suc (length (js_gated svc1)) = length (js_gated svc)"
    using True by (simp add: svc1_def length_drop_index)
  obtain running db where m: "mark_running (et_job_id (qe_target e)) worker now (js_db svc) = (running, db)"
    by force
  show ?thesis
  proof (cases running)
    case None
    with assms len show ?thesis
      using True m by (auto simp: enter_gate_def Let_def e_def svc1_def worker_done_def load_ok_def module_load_def)
  next
    case (Some j)
    let ?log = "log_job (et_job_id (qe_target e)) ''info'' ''Job started'' [(''worker'', JStr (job_worker j))] now
      :: (unit, 'a) job_step"
    obtain r svc2 where l: "?log (svc1\<lparr>js_db := db\<rparr>) = (r, svc2)" by force
    have same: "exec_same (svc1\<lparr>js_db := db\<rparr>) svc2"
      using exec_log_job l unfolding follows_def by (metis snd_conv)
    have eq: "snd (enter_gate i worker now tick svc)
        = (case r of Inl _ \<Rightarrow> svc2 | Inr _ \<Rightarrow> svc2\<lparr>js_running := js_running svc2 @ [(e, tick)]\<rparr>)"
      using True m Some l
      by (simp add: enter_gate_def Let_def e_def svc1_def jbind_def jupdate_def split: sum.splits)
    have load: "module_load m svc2 = module_load m svc" for m
      using same by (simp add: exec_same_def module_load_def svc1_def)
    have "load_ok svc2" "load_ok (svc2\<lparr>js_running := js_running svc2 @ [(e, tick)]\<rparr>)"
      using assms same len load True
      by (auto simp: load_ok_def exec_same_def svc1_def e_def module_load_def)
    then show ?thesis unfolding eq by (simp split: sum.splits)
  qed
qed (use assms in \<open>auto simp: enter_gate_def\<close>)

lemma load_ok_leave:
  assumes "load_ok svc"
  shows "load_ok (snd (leave_gate g i outcome new_id new_correlation now tick svc))"
proof (cases "i < length (js_running svc)")
  case True
  obtain e started where e: "js_running svc ! i = (e, started)" by force
  let ?m = "finish_execution g (et_job_id (qe_target e)) (et_registration (qe_target e)) outcome
              (tick - started) new_id new_correlation now :: (unit, 'a) job_step"
  let ?done = "\<lambda>s :: 'a job_service. s\<lparr>js_running := drop_index i (js_running s), js_runner := worker_done e (js_runner s)\<rparr>"
  obtain r s where m: "?m svc = (r, s)" by force
  have same: "exec_same svc s" using exec_finish_execution m unfolding follows_def by (metis snd_conv)
  have eq: "snd (leave_gate g i outcome new_id new_correlation now tick svc) = ?done s"
    using True e m
    by (simp add: leave_gate_def jfinally_def jbind_def jupdate_def jreturn_def jraise_def split: sum.splits)
  have s: "load_ok s" using assms same by (rule load_ok_same)
  then have "module_load k (?done s) \<le> js_module_limit s" for k
    using length_filter_drop_index [of _ i "js_running s"]
    by (auto simp: load_ok_def module_load_def intro: order_trans)
  moreover have "length (drop_index i (js_running s)) \<le> length (js_running s)"
    by (simp add: drop_index_def)
  ultimately show ?thesis
    using s unfolding eq by (simp add: load_ok_def worker_done_def)
qed (use assms in \<open>auto simp: leave_gate_def\<close>)

lemma load_ok_new: "load_ok (new_job_service db w m)"
  by (simp add: load_ok_def new_job_service_def new_runner_def module_load_def le_nat_iff nat_le_iff)

lemma load_ok_restart: "load_ok (snd (restart_jobs w m now svc))"
  using load_ok_new [of _ w m]
  by (auto simp: restart_jobs_def load_ok_def module_load_def split: prod.splits)

lemma load_ok_at: "follows exec_same m \<Longrightarrow> load_ok svc \<Longrightarrow> load_ok (snd (m svc))"
  by (auto simp: follows_def intro: load_ok_same)

lemma load_ok_apply: "load_ok svc \<Longrightarrow> load_ok (job_apply g now ev svc)"
  by (cases ev)
    (auto intro: load_ok_takes load_ok_enter load_ok_leave load_ok_restart load_ok_at [rotated] exec_steps
      load_ok_same [OF _ exec_fire_timer])

interpretation job_load: machine_invariant job_init job_step_rel load_ok
  by unfold_locales
    (auto simp: job_init_def load_ok_new elim!: job_step_rel.cases intro: load_ok_apply)

section \<open>What holds in every reachable state\<close>

lemma acyclic_backward:
  assumes "distinct ids" and "depends_backward ids deps"
  shows "acyclic (set deps)"
proof -
  define pos where "pos x = length (takeWhile (\<lambda>y. y \<noteq> x) ids)" for x
  have "pos d < pos k" if "(k, d) \<in> set deps" for k d
  proof -
    obtain before after where ids: "ids = before @ k # after" and d: "d \<in> set before"
      using assms(2) \<open>(k, d) \<in> set deps\<close> by (auto simp: depends_backward_def)
    have "k \<notin> set before" using assms(1) ids by auto
    then have "pos k = length before" by (auto simp: pos_def ids takeWhile_append)
    moreover have "pos d < length before"
    proof -
      have "length (takeWhile (\<lambda>y. y \<noteq> d) before) < length before"
        using d by (induction before) auto
      with d show ?thesis by (simp add: pos_def ids takeWhile_append1)
    qed
    ultimately show ?thesis by simp
  qed
  then have "(set deps)\<inverse> \<subseteq> measure pos" by auto
  then have "wf ((set deps)\<inverse>)" by (rule wf_subset [rotated]) simp
  then show ?thesis using wf_acyclic by fastforce
qed

text \<open>
  C27. In every state the job service reaches, through any interleaving of submissions, worker
  steps, timers, cancellations, retries, cleanups and restarts, the tables are well-formed: job
  identifiers are unique, a terminal job has its end time and a progress lies between 0 and 100;
  log entries belong to existing jobs, are numbered without reuse and bounded in size, at most 2000
  per job; dependencies link existing jobs and form no cycle.
\<close>

theorem job_integrity:
  assumes "reaches job_init job_step_rel svc"
  shows "job_wf (js_db svc) \<and> acyclic (set (jd_dependencies (js_db svc)))"
  using job_tables.inv_reaches [OF assms] acyclic_backward
  by (auto simp: job_wf_def keyed_def)

text \<open>
  C28. The concurrency limits hold in every reachable state: of one module never more handlers
  run at once than the module limit allows, all executions together never exceed the number of
  workers, and both limits lie between 1 and 16 whatever the environment variables say.
\<close>

theorem module_gate_holds:
  assumes "reaches job_init job_step_rel svc"
  shows "module_load m svc \<le> js_module_limit svc
    \<and> length (js_gated svc) + length (js_running svc) \<le> rn_max_workers (js_runner svc)
    \<and> js_module_limit svc \<in> {1..16} \<and> rn_max_workers (js_runner svc) \<in> {1..16}"
  using job_load.inv_reaches [OF assms] by (simp add: load_ok_def)

text \<open>A run: a job, one that depends on it, the first executed, the second started.\<close>

lemma reaches_job_run:
  "reaches job_init job_step_rel svc \<Longrightarrow> reaches job_init job_step_rel (job_run g es svc)"
  by (induction es arbitrary: svc) (auto intro: reaches_step job_event)

lemma reaches_new: "reaches job_init job_step_rel (new_job_service empty_job_db w m)"
  by (rule reaches_init) (auto simp: job_init_def)

definition demo_registration :: "string registration" where
  "demo_registration = \<lparr>reg_handler = ''scan'', reg_retryable = True, reg_cancellable = True,
     reg_max_retries = 2, reg_timeout = None\<rparr>"

definition demo_spec :: job_spec where
  "demo_spec = default_spec\<lparr>sp_type := ''scan'', sp_module := ''storage'', sp_created_by := ''root''\<rparr>"

definition demo_events :: "(time \<times> string job_event) list" where
  "demo_events =
     [(1, Je_register ''scan'' demo_registration), (2, Je_submit demo_spec ''a'' ''c1''),
      (3, Je_submit (demo_spec\<lparr>sp_dependencies := [''a'']\<rparr>) ''b'' ''c2''),
      (4, Je_take), (5, Je_enter 0 ''worker-1'' 5), (6, Je_leave 0 (Returned []) ''r'' ''c3'' 6),
      (7, Je_take), (8, Je_enter 0 ''worker-1'' 8)]"

definition demo_jobs :: "string job_service" where
  "demo_jobs = job_run (\<lambda>_. []) demo_events (new_job_service empty_job_db 4 2)"

lemma demo_jobs_reachable: "reaches job_init job_step_rel demo_jobs"
  unfolding demo_jobs_def by (intro reaches_job_run reaches_new)

theorem job_integrity_witness:
  "job_wf (js_db demo_jobs) \<and> acyclic (set (jd_dependencies (js_db demo_jobs)))"
  by (rule job_integrity) (rule demo_jobs_reachable)

theorem module_gate_holds_witness:
  "module_load ''storage'' demo_jobs \<le> js_module_limit demo_jobs
    \<and> length (js_gated demo_jobs) + length (js_running demo_jobs) \<le> rn_max_workers (js_runner demo_jobs)
    \<and> js_module_limit demo_jobs \<in> {1..16} \<and> rn_max_workers (js_runner demo_jobs) \<in> {1..16}"
  by (rule module_gate_holds) (rule demo_jobs_reachable)

end
