(* ===== verification/Job_Effects.thy ===== *)
theory Job_Effects
  imports Job_Invariants
begin

text \<open>
  What single operations of the job service do: resubmission under a deduplication key,
  cancellation before the gate and of a job others wait for, automatic retry, restart.
\<close>

section \<open>Running steps\<close>

lemma log_job_runs:
  assumes "job_get jid (js_db s) \<noteq> None"
  obtains db where "log_job jid level message data now s = (Inr (), s\<lparr>js_db := db\<rparr>)"
    and "jd_jobs db = jd_jobs (js_db s)" and "jd_dependencies db = jd_dependencies (js_db s)"
  using append_log_works [OF assms, of "log_level_of level" "take 4000 (sanitize_str message)" "sanitize_dict data" now]
    append_log_Inr
  by (auto simp: log_job_def try_jobs_def)

lemma job_get_cong: "jd_jobs db = jd_jobs db' \<Longrightarrow> job_get jid db = job_get jid db'"
  by (simp add: job_get_def)

lemma update_job_at:
  "(\<And>j. job_id (f j) = job_id j) \<Longrightarrow> job_get jid db = Some j \<Longrightarrow>
    \<exists>db'. update_job jid f db = (Some (f j), db') \<and> job_get jid db' = Some (f j)
      \<and> (\<forall>k. k \<noteq> jid \<longrightarrow> job_get k db' = job_get k db)
      \<and> map job_id (jd_jobs db') = map job_id (jd_jobs db)
      \<and> jd_dependencies db' = jd_dependencies db"
  using fst_update_job [of f jid db] job_get_update [of f _ jid db] update_job_frame(3) [of jid f db]
    map_upd_rows_frame [of job_id f]
  by (intro exI [of _ "snd (update_job jid f db)"])
    (auto simp: prod_eq_iff update_job_def Let_def)

lemma mset_queue_put: "mset (queue_put e q) = add_mset e (mset q)"
  by (simp add: queue_put_def)

lemma dispatch_runs:
  assumes "job_get jid (js_db svc) = Some j" and "job_status j \<notin> set terminal_statuses"
    and "\<not> rn_shutdown (js_runner svc)"
  obtains r e where "dispatch jid reg svc = (Inr (), svc\<lparr>js_runner := r\<rparr>)"
    and "rn_queue r = queue_put e (rn_queue (js_runner svc))"
    and "qe_job_id e = jid" and "qe_target e = \<lparr>et_job_id = jid, et_registration = reg, et_module = job_module j\<rparr>"
    and "qe_priority e = priority_rank (job_priority j)"
proof -
  define r where "r = projr (runner_submit jid \<lparr>et_job_id = jid, et_registration = reg, et_module = job_module j\<rparr>
      (job_priority j) (js_runner svc))"
  show thesis
    by (rule that [of r])
      (use assms in \<open>auto simp: dispatch_def jwith_def jupdate_def r_def runner_submit_def Let_def\<close>)
qed

lemma get_or_runs: "job_get (job_id j) (js_db s) = Some j \<Longrightarrow> get_or j s = (Inr j, s)"
  by (simp add: get_or_def jwith_def jreturn_def)

section \<open>Deduplication\<close>

text \<open>
  Submitting under the deduplication key of a job that is still queued creates no row, but
  puts that job into the runner's queue once more: the code that returns the existing job
  dispatches it as if it were new, so its handler runs once per submission.
\<close>

theorem dedup_queued_dispatched_again:
  assumes reg: "handler_of (sp_type sp) svc = Some reg"
    and key: "sp_dedup_key sp = Some key" "key \<noteq> []"
    and j: "find_active_by_dedup key (js_db svc) = Some j" "job_status j = Js_queued"
      "job_get (job_id j) (js_db svc) = Some j"
    and up: "\<not> rn_shutdown (js_runner svc)"
  shows "\<exists>e svc'. submit_job sp new_id new_correlation now svc = (Inr j, svc')
    \<and> js_db svc' = js_db svc \<and> et_job_id (qe_target e) = job_id j
    \<and> mset (rn_queue (js_runner svc')) = add_mset e (mset (rn_queue (js_runner svc)))"
proof -
  obtain r e where d: "dispatch (job_id j) reg svc = (Inr (), svc\<lparr>js_runner := r\<rparr>)"
    "rn_queue r = queue_put e (rn_queue (js_runner svc))"
    "qe_target e = \<lparr>et_job_id = job_id j, et_registration = reg, et_module = job_module j\<rparr>"
    by (rule dispatch_runs [OF j(3) _ up, where reg = reg]) (auto simp: j(2))
  have "submit_job sp new_id new_correlation now svc = (Inr j, svc\<lparr>js_runner := r\<rparr>)"
    using reg key j d(1)
    by (simp add: submit_job_def jwith_def create_job_def jbind_def jreturn_def get_or_runs)
  with d show ?thesis by (auto simp: mset_queue_put)
qed

definition one_queued_job :: "string job_service" where
  "one_queued_job = (new_job_service (empty_job_db\<lparr>jd_jobs :=
       [job_row (demo_spec\<lparr>sp_dedup_key := Some ''nightly'', sp_cancellable := True\<rparr>) Js_queued ''a'' 1]\<rparr>) 4 2)
     \<lparr>js_handlers := [(''scan'', demo_registration)]\<rparr>"

lemmas one_queued_simps = one_queued_job_def new_job_service_def new_runner_def empty_job_db_def
  demo_spec_def default_spec_def job_row_def handler_of_def job_get_def active_statuses_def
  find_active_by_dedup_def

theorem dedup_queued_dispatched_again_witness:
  "\<exists>e j svc'. submit_job (demo_spec\<lparr>sp_dedup_key := Some ''nightly''\<rparr>) ''b'' ''c'' 2 one_queued_job = (Inr j, svc')
    \<and> js_db svc' = js_db one_queued_job \<and> et_job_id (qe_target e) = job_id j
    \<and> mset (rn_queue (js_runner svc')) = add_mset e (mset (rn_queue (js_runner one_queued_job)))"
proof -
  let ?sp = "demo_spec\<lparr>sp_dedup_key := Some ''nightly''\<rparr>"
  obtain j where "find_active_by_dedup ''nightly'' (js_db one_queued_job) = Some j" "job_status j = Js_queued"
    "job_get (job_id j) (js_db one_queued_job) = Some j"
    by (simp add: one_queued_simps)
  then show ?thesis
    using dedup_queued_dispatched_again [of ?sp one_queued_job demo_registration "''nightly''" j]
    by (fastforce simp: one_queued_simps)
qed

section \<open>Cancellation\<close>

lemma gate_starts:
  assumes i: "i < length (js_gated s)" "js_gated s ! i = e" "et_job_id (qe_target e) = jid"
    and load: "module_load (et_module (qe_target e)) s < js_module_limit s"
    and j: "job_get jid (js_db s) = Some j"
  obtains s' where "enter_gate i worker now tick s = (Inr (), s')"
    and "job_get jid (js_db s') = Some (j\<lparr>job_status := Js_running, job_started_at := Some now,
      job_worker := worker, job_message := ''Running''\<rparr>)"
    and "(e, tick) \<in> set (js_running s')"
proof -
  let ?f = "\<lambda>j. j\<lparr>job_status := Js_running, job_started_at := Some now, job_worker := worker,
      job_message := ''Running''\<rparr>"
  obtain db where m: "mark_running jid worker now (js_db s) = (Some (?f j), db)"
    and db: "job_get jid db = Some (?f j)"
    using update_job_at [of ?f jid "js_db s" j] j by (auto simp: mark_running_def)
  let ?s1 = "s\<lparr>js_gated := drop_index i (js_gated s), js_db := db\<rparr>"
  have "job_get jid (js_db ?s1) \<noteq> None" using db by simp
  from log_job_runs [OF this, of "''info''" "''Job started''" "[(''worker'', JStr worker)]" now]
  obtain db' where l: "log_job jid ''info'' ''Job started'' [(''worker'', JStr worker)] now ?s1
      = (Inr (), ?s1\<lparr>js_db := db'\<rparr>)" and db': "jd_jobs db' = jd_jobs db"
    by auto
  have "enter_gate i worker now tick s
      = (Inr (), ?s1\<lparr>js_db := db', js_running := js_running s @ [(e, tick)]\<rparr>)"
    using i load m l by (simp add: enter_gate_def Let_def jbind_def jupdate_def)
  moreover have "job_get jid db' = Some (?f j)" using db job_get_cong [OF db'] by simp
  ultimately show thesis by (intro that) auto
qed

lemma cancel_runs:
  assumes j: "job_get jid (js_db s) = Some j" "job_status j \<in> {Js_queued, Js_waiting, Js_retrying}"
    "job_cancellable j"
    and q: "cancel_queued jid (js_runner s) = (q, r)"
  obtains c s' where "cancel_job jid now s = (Inr (Some c), s')"
    and "c = j\<lparr>job_status := Js_cancelled, job_finished_at := Some now, job_cancel_requested := True,
             job_message := ''Cancelled before execution''\<rparr>"
    and "job_get jid (js_db s') = Some c"
    and "\<And>k. k \<noteq> jid \<Longrightarrow> job_get k (js_db s') = job_get k (js_db s)"
    and "jd_dependencies (js_db s') = jd_dependencies (js_db s)"
    and "js_runner s' = r" and "js_gated s' = js_gated s" and "js_running s' = js_running s"
    and "js_module_limit s' = js_module_limit s" and "js_handlers s' = js_handlers s"
proof -
  let ?f = "\<lambda>j. j\<lparr>job_status := Js_cancelled, job_finished_at := Some now, job_cancel_requested := True,
            job_message := ''Cancelled before execution''\<rparr>"
  obtain db where m: "mark_cancelled jid ''Cancelled before execution'' now (js_db s) = (Some (?f j), db)"
    and db: "job_get jid db = Some (?f j)" "\<And>k. k \<noteq> jid \<Longrightarrow> job_get k db = job_get k (js_db s)"
      "jd_dependencies db = jd_dependencies (js_db s)"
    using update_job_at [of ?f jid "js_db s" j] j(1) by (auto simp: mark_cancelled_def)
  have both: "(if q then mark_cancelled jid ''Cancelled before execution'' now else request_cancel jid now) (js_db s)
      = (Some (?f j), db)"
    using m j by (auto simp: request_cancel_def)
  let ?s1 = "s\<lparr>js_runner := r, js_db := db\<rparr>"
  have "job_get jid (js_db ?s1) \<noteq> None" using db by simp
  from log_job_runs [OF this, of "''warning''" "''Cancellation requested''" "[]" now]
  obtain db' where l: "log_job jid ''warning'' ''Cancellation requested'' [] now ?s1
      = (Inr (), ?s1\<lparr>js_db := db'\<rparr>)"
    and db': "jd_jobs db' = jd_jobs db" "jd_dependencies db' = jd_dependencies db"
    by auto
  have "job_status j \<notin> set terminal_statuses" using j(2) by (auto simp: terminal_statuses_def)
  then have "cancel_job jid now s = (Inr (Some (?f j)), ?s1\<lparr>js_db := db'\<rparr>)"
    using j q both l
    by (simp add: cancel_job_def jwith_def jbind_def jupdate_def on_jobs_def when_job_def jreturn_def)
  then show thesis
    using db db' job_get_cong [OF db'(1)] by (intro that [of "?f j" "?s1\<lparr>js_db := db'\<rparr>"]) simp_all
qed

text \<open>
  C30. A job that a worker has taken and that waits at its module's gate is still queued in the
  table. Cancelling it reports it cancelled before execution; when the gate opens it is marked
  running all the same, with the cancellation still requested, and its handler starts.
\<close>

theorem cancelled_before_execution_still_runs:
  assumes gate: "i < length (js_gated s)" "et_job_id (qe_target (js_gated s ! i)) = jid"
      "module_load (et_module (qe_target (js_gated s ! i))) s < js_module_limit s"
    and j: "job_get jid (js_db s) = Some j" "job_status j = Js_queued" "job_cancellable j"
    and taken: "map_of (rn_futures (js_runner s)) jid = Some n" "rn_state (js_runner s) n = Fut_running"
  shows "\<exists>c s1 k s2. cancel_job jid now s = (Inr (Some c), s1)
    \<and> job_status c = Js_cancelled \<and> job_message c = ''Cancelled before execution''
    \<and> enter_gate i worker later tick s1 = (Inr (), s2)
    \<and> job_get jid (js_db s2) = Some k \<and> job_status k = Js_running \<and> job_cancel_requested k
    \<and> (js_gated s ! i, tick) \<in> set (js_running s2)"
proof -
  have q: "cancel_queued jid (js_runner s) = (False, js_runner s)"
    using taken by (simp add: cancel_queued_def future_cancel_def)
  obtain c s1 where c: "cancel_job jid now s = (Inr (Some c), s1)"
    "c = j\<lparr>job_status := Js_cancelled, job_finished_at := Some now, job_cancel_requested := True,
             job_message := ''Cancelled before execution''\<rparr>"
    "job_get jid (js_db s1) = Some c"
    "js_gated s1 = js_gated s" "js_running s1 = js_running s" "js_module_limit s1 = js_module_limit s"
    by (rule cancel_runs [OF j(1) _ j(3) q, of now]) (auto simp: j(2))
  have load: "module_load (et_module (qe_target (js_gated s ! i))) s1 < js_module_limit s1"
    using gate(3) c(5,6) by (simp add: module_load_def)
  obtain s2 where s2: "enter_gate i worker later tick s1 = (Inr (), s2)"
    "job_get jid (js_db s2) = Some (c\<lparr>job_status := Js_running, job_started_at := Some later,
      job_worker := worker, job_message := ''Running''\<rparr>)"
    "(js_gated s ! i, tick) \<in> set (js_running s2)"
    by (rule gate_starts [OF _ _ gate(2) load c(3), where worker = worker and now = later and tick = tick]) (use gate(1) c(4) in auto)
  show ?thesis using c(1) s2 by (fastforce simp: c(2))
qed

text \<open>
  Cancelling a queued job leaves the jobs that depend on it waiting: their rows do not
  change, also not when the worker later drops the cancelled entry, although reconciling such a
  job would block it at once.
\<close>

theorem cancel_leaves_dependents_waiting:
  assumes j: "job_get jid (js_db s) = Some j" "job_status j = Js_queued" "job_cancellable j"
    and queued: "rn_queue (js_runner s) = e # q" "map_of (rn_futures (js_runner s)) jid = Some (qe_sequence e)"
      "rn_state (js_runner s) (qe_sequence e) = Fut_pending"
    and dependent: "(k, jid) \<in> set (jd_dependencies (js_db s))" "k \<noteq> jid"
      "job_get k (js_db s) = Some w" "job_status w = Js_waiting"
  shows "\<exists>c s1 s2. cancel_job jid now s = (Inr (Some c), s1) \<and> job_status c = Js_cancelled
    \<and> worker_takes s1 = (Inr (), s2) \<and> js_db s2 = js_db s1 \<and> js_gated s2 = js_gated s
    \<and> job_get k (js_db s2) = Some w
    \<and> Js_cancelled \<in> set (dependency_states k (js_db s2))
    \<and> map_option job_status (job_get k (js_db (snd (reconcile_waiting later k s2)))) = Some Js_blocked"
proof -
  let ?r = "(js_runner s)\<lparr>rn_state := (rn_state (js_runner s))(qe_sequence e := Fut_cancelled)\<rparr>"
  have cq: "cancel_queued jid (js_runner s) = (True, ?r)"
    using queued by (simp add: cancel_queued_def future_cancel_def)
  obtain c s1 where c: "cancel_job jid now s = (Inr (Some c), s1)"
    "job_status c = Js_cancelled" "job_get jid (js_db s1) = Some c"
    "\<And>k. k \<noteq> jid \<Longrightarrow> job_get k (js_db s1) = job_get k (js_db s)"
    "jd_dependencies (js_db s1) = jd_dependencies (js_db s)" "js_runner s1 = ?r" "js_gated s1 = js_gated s"
    by (rule cancel_runs [OF j(1) _ j(3) cq, of now]) (auto simp: j(2))
  define s2 where "s2 = snd (worker_takes s1)"
  have s2: "worker_takes s1 = (Inr (), s2)" "js_db s2 = js_db s1" "js_gated s2 = js_gated s1"
    using c(6) queued(1)
    by (auto simp: s2_def worker_takes_def worker_take_def split: if_splits)
  have dep: "Js_cancelled \<in> set (dependency_states k (js_db s2))"
  proof -
    have "c \<in> set (jd_jobs (js_db s1))" "job_id c = jid"
      using c(3) by (auto simp: job_get_def dest: find_Some_D)
    then show ?thesis
      using dependent(1) c(2,5) s2(2)
      by (auto simp: dependency_states_def intro!: bexI [of _ "(k, jid)"] image_eqI [of _ _ c])
  qed
  have w: "job_get k (js_db s2) = Some w" using dependent c(4) s2(2) by simp
  have ex: "list_ex (\<lambda>s. s \<in> set failed_statuses) (dependency_states k (js_db s2))"
    using dep by (auto simp: list_ex_iff failed_statuses_def)
  have "js_db (snd (reconcile_waiting later k s2))
      = snd (mark_blocked k ''One or more dependencies did not complete successfully'' later (js_db s2))"
    using w dependent(4) ex
    by (simp add: reconcile_waiting_def jwith_def jbind_def on_jobs_def jreturn_def split: prod.splits)
  then have "map_option job_status (job_get k (js_db (snd (reconcile_waiting later k s2)))) = Some Js_blocked"
    using w by (simp add: mark_blocked_def mark_finished_def job_get_update)
  with c s2 w dep show ?thesis by auto
qed

definition demo_entry :: "string exec_target queue_entry" where
  "demo_entry = \<lparr>qe_priority = 20, qe_sequence = 0, qe_job_id = ''a'',
     qe_target = \<lparr>et_job_id = ''a'', et_registration = demo_registration, et_module = ''storage''\<rparr>\<rparr>"

definition waiting_at_gate :: "string job_service" where
  "waiting_at_gate = one_queued_job\<lparr>js_gated := [demo_entry],
     js_runner := (new_runner 4)\<lparr>rn_futures := [(''a'', 0)], rn_state := (\<lambda>_. Fut_running), rn_counter := 1\<rparr>\<rparr>"

theorem cancelled_before_execution_still_runs_witness:
  "\<exists>c s1 k s2. cancel_job ''a'' 5 waiting_at_gate = (Inr (Some c), s1)
    \<and> job_status c = Js_cancelled \<and> job_message c = ''Cancelled before execution''
    \<and> enter_gate 0 ''w'' 6 6 s1 = (Inr (), s2)
    \<and> job_get ''a'' (js_db s2) = Some k \<and> job_status k = Js_running \<and> job_cancel_requested k
    \<and> (js_gated waiting_at_gate ! 0, 6) \<in> set (js_running s2)"
proof -
  obtain j where "job_get ''a'' (js_db waiting_at_gate) = Some j" "job_status j = Js_queued" "job_cancellable j"
    by (simp add: waiting_at_gate_def one_queued_simps)
  then show ?thesis
    by (intro cancelled_before_execution_still_runs [where n = 0])
      (auto simp: waiting_at_gate_def demo_entry_def one_queued_simps module_load_def)
qed

definition two_linked_jobs :: "string job_service" where
  "two_linked_jobs = (new_job_service (empty_job_db\<lparr>jd_jobs :=
       [job_row (demo_spec\<lparr>sp_cancellable := True\<rparr>) Js_queued ''a'' 1, job_row demo_spec Js_waiting ''b'' 2],
       jd_dependencies := [(''b'', ''a'')]\<rparr>) 4 2)
     \<lparr>js_runner := (new_runner 4)\<lparr>rn_queue := [demo_entry], rn_futures := [(''a'', 0)], rn_counter := 1\<rparr>\<rparr>"

theorem cancel_leaves_dependents_waiting_witness:
  "\<exists>c w s1 s2. cancel_job ''a'' 5 two_linked_jobs = (Inr (Some c), s1) \<and> job_status c = Js_cancelled
    \<and> worker_takes s1 = (Inr (), s2) \<and> js_db s2 = js_db s1 \<and> js_gated s2 = js_gated two_linked_jobs
    \<and> job_get ''b'' (js_db s2) = Some w
    \<and> Js_cancelled \<in> set (dependency_states ''b'' (js_db s2))
    \<and> map_option job_status (job_get ''b'' (js_db (snd (reconcile_waiting 6 ''b'' s2)))) = Some Js_blocked"
proof -
  obtain j where j: "job_get ''a'' (js_db two_linked_jobs) = Some j" "job_status j = Js_queued" "job_cancellable j"
    by (simp add: two_linked_jobs_def one_queued_simps)
  obtain w where w: "job_get ''b'' (js_db two_linked_jobs) = Some w" "job_status w = Js_waiting"
    by (simp add: two_linked_jobs_def one_queued_simps)
  have queued: "rn_queue (js_runner two_linked_jobs) = demo_entry # []"
    "map_of (rn_futures (js_runner two_linked_jobs)) ''a'' = Some (qe_sequence demo_entry)"
    "rn_state (js_runner two_linked_jobs) (qe_sequence demo_entry) = Fut_pending"
    "(''b'', ''a'') \<in> set (jd_dependencies (js_db two_linked_jobs))" "''b'' \<noteq> ''a''"
    by (simp_all add: two_linked_jobs_def demo_entry_def one_queued_simps)
  show ?thesis
    using cancel_leaves_dependents_waiting [OF j queued w] by blast
qed

section \<open>Restart\<close>

text \<open>
  C32. After a restart nothing is left pretending to run: every job that was active is failed and
  has its end time, every other row is as it was, the number reported is the number of
  active jobs, and queue, executions and timers are empty.
\<close>

theorem restart_settles_every_job:
  "fst (restart_jobs w m now svc) = Inr (length (filter (\<lambda>j. job_status j \<in> set active_statuses) (jd_jobs (js_db svc))))
   \<and> list_all2 (\<lambda>j k. if job_status j \<in> set active_statuses
         then job_id k = job_id j \<and> job_status k = Js_failed \<and> job_finished_at k = Some now
         else k = j \<and> job_status k \<in> set terminal_statuses)
       (jd_jobs (js_db svc)) (jd_jobs (js_db (snd (restart_jobs w m now svc))))
   \<and> rn_queue (js_runner (snd (restart_jobs w m now svc))) = []
   \<and> js_gated (snd (restart_jobs w m now svc)) = [] \<and> js_running (snd (restart_jobs w m now svc)) = []
   \<and> js_timers (snd (restart_jobs w m now svc)) = []"
proof -
  let ?active = "\<lambda>j. job_status j \<in> set active_statuses"
  have active: "(\<lambda>j. job_status j \<in> {Js_queued, Js_waiting, Js_running, Js_cancel_requested, Js_retrying}) = ?active"
    by (auto simp: active_statuses_def)
  have db: "js_db (snd (restart_jobs w m now svc))
      = (js_db svc)\<lparr>jd_jobs := upd_rows ?active (interrupted now) (jd_jobs (js_db svc))\<rparr>"
    unfolding restart_jobs_def recover_interrupted_def Let_def active by (simp add: new_job_service_def)
  have closed: "job_status j \<in> set terminal_statuses" if "\<not> ?active j" for j :: job
    using that by (cases "job_status j") (auto simp: active_statuses_def terminal_statuses_def)
  have settled: "job_id (interrupted now j) = job_id j \<and> job_status (interrupted now j) = Js_failed
      \<and> job_finished_at (interrupted now j) = Some now" for j
    by (simp add: interrupted_def Let_def)
  have "fst (restart_jobs w m now svc) = Inr (length (filter ?active (jd_jobs (js_db svc))))"
    unfolding restart_jobs_def recover_interrupted_def Let_def active by simp
  moreover have "list_all2 (\<lambda>j k. if ?active j
         then job_id k = job_id j \<and> job_status k = Js_failed \<and> job_finished_at k = Some now
         else k = j \<and> job_status k \<in> set terminal_statuses)
       (jd_jobs (js_db svc)) (jd_jobs (js_db (snd (restart_jobs w m now svc))))"
    using closed settled by (simp add: db upd_rows_def list_all2_conv_all_nth)
  ultimately show ?thesis
    by (simp add: restart_jobs_def new_job_service_def new_runner_def split: prod.splits)
qed

section \<open>Automatic retry\<close>

lemma retry_delay_bounds: "1 \<le> retry_delay j" "retry_delay j \<le> 60"
  by (simp_all add: retry_delay_def)

lemma create_job_runs:
  assumes fresh: "new_id \<notin> job_id ` set (jd_jobs (js_db s))"
    and sp: "sp_dedup_key sp = None" "sp_dependencies sp = []"
  obtains j db where "create_job sp new_id cid now s = (Inr j, s\<lparr>js_db := db\<rparr>)"
    and "jd_jobs db = jd_jobs (js_db s) @ [j]" and "job_id j = new_id"
    and "job_status j = Js_queued" and "job_retry_count j = sp_retry_count sp"
    and "job_parent j = sp_parent sp" and "job_metadata j = sanitize_dict (sp_metadata sp)"
proof -
  define row where "row = sp\<lparr>sp_metadata := sanitize_dict (sp_metadata sp),
       sp_name := (if sp_name sp = [] then sp_type sp else sp_name sp),
       sp_correlation := (case sp_correlation sp of
          None \<Rightarrow> Some cid | Some c \<Rightarrow> Some (if c = [] then cid else c))\<rparr>"
  define j where "j = job_row row Js_queued new_id now"
  let ?s1 = "s\<lparr>js_db := (js_db s)\<lparr>jd_jobs := jd_jobs (js_db s) @ [j]\<rparr>\<rparr>"
  have c: "try_jobs (repo_create row Js_queued new_id now) s = (Inr j, ?s1)"
    using fresh by (auto simp: try_jobs_Inr repo_create_Inr j_def)
  have jid: "job_id j = new_id" by (simp add: j_def job_row_def)
  have "job_get new_id (js_db ?s1) \<noteq> None" using job_get_append [OF fresh jid] by simp
  from log_job_runs [OF this, of "''info''" "''Job created''"
    "[(''status'', JStr (status_value Js_queued)), (''priority'', JStr (priority_value (sp_priority sp)))]" now]
  obtain db where l: "log_job new_id ''info'' ''Job created''
      [(''status'', JStr (status_value Js_queued)), (''priority'', JStr (priority_value (sp_priority sp)))] now ?s1
      = (Inr (), ?s1\<lparr>js_db := db\<rparr>)" "jd_jobs db = jd_jobs (js_db s) @ [j]"
    by auto
  have deps: "try_jobs (\<lambda>db. rbind (add_dependencies new_id [] db) (\<lambda>db'. Inr ((), db'))) ?s1 = (Inr (), ?s1)"
    by (simp add: try_jobs_def add_dependencies_def)
  have "create_job sp new_id cid now s = (Inr j, s\<lparr>js_db := db\<rparr>)"
    using c l(1) deps sp
    by (simp add: create_job_def jwith_def Let_def jbind_def jexcept_def jreturn_def jid flip: row_def)
  then show thesis
    using l(2) by (intro that [of j db]) (simp_all add: j_def job_row_def row_def)
qed

text \<open>
  C33. An automatic retry is bounded: when a handler raises, its job is failed, and exactly if the
  handler is retry-safe and the job has been retried fewer times than allowed there is one
  new job, linked to the failed one, whose retry count is one higher and within the limit, held by
  a timer that fires after 1 to 60 seconds. Otherwise no job and no timer is added.
\<close>

theorem auto_retry_bounded:
  assumes j: "job_get jid (js_db s) = Some j" and fresh: "new_id \<notin> job_id ` set (jd_jobs (js_db s))"
  shows "\<exists>s'. finish_failed jid reg error new_id cid now s = (Inr (), s')
    \<and> map_option job_status (job_get jid (js_db s')) = Some Js_failed
    \<and> (if reg_retryable reg \<and> int (job_retry_count j) < reg_max_retries reg
       then (\<exists>r. job_get new_id (js_db s') = Some r \<and> job_status r = Js_retrying
               \<and> job_parent r = Some jid \<and> job_retry_count r = job_retry_count j + 1
               \<and> int (job_retry_count r) \<le> reg_max_retries reg
               \<and> js_timers s' = js_timers s @ [(now + real (retry_delay j), new_id, reg)]
               \<and> retry_delay j \<in> {1..60})
       else map job_id (jd_jobs (js_db s')) = map job_id (jd_jobs (js_db s)) \<and> js_timers s' = js_timers s)"
proof -
  define message where "message = (if sanitize_str error = [] then ''Operation failed'' else sanitize_str error)"
  let ?f = "\<lambda>j. j\<lparr>job_status := Js_failed, job_finished_at := Some now, job_error := message,
            job_message := ''Failed''\<rparr>"
  let ?j = "?f j"
  obtain db where m: "mark_failed jid message now (js_db s) = (Some ?j, db)"
    and db: "job_get jid db = Some ?j" "map job_id (jd_jobs db) = map job_id (jd_jobs (js_db s))"
    using update_job_at [of ?f jid "js_db s" j] j by (auto simp: mark_failed_def mark_finished_def)
  let ?s1 = "s\<lparr>js_db := db\<rparr>"
  have "job_get jid (js_db ?s1) \<noteq> None" using db by simp
  from log_job_runs [OF this, of "''error''" message "[]" now]
  obtain db1 where l: "log_job jid ''error'' message [] now ?s1 = (Inr (), ?s1\<lparr>js_db := db1\<rparr>)"
    and db1: "jd_jobs db1 = jd_jobs db" by auto
  let ?s2 = "?s1\<lparr>js_db := db1, js_alerts := js_alerts s @ [Alert_failed ?j]\<rparr>"
  have run: "finish_failed jid reg error new_id cid now s
      = (if reg_retryable reg \<and> int (job_retry_count j) < reg_max_retries reg
         then schedule_retry ?j reg new_id cid now ?s2 else (Inr (), ?s2))"
    using m l by (simp add: finish_failed_def Let_def jbind_def on_jobs_def when_job_def emit_alert_def
        jupdate_def jreturn_def flip: message_def)
  have jid2: "job_get jid db1 = Some ?j" using db job_get_cong [OF db1] by simp
  show ?thesis
  proof (cases "reg_retryable reg \<and> int (job_retry_count j) < reg_max_retries reg")
    case False
    then show ?thesis using run jid2 db(2) db1 by auto
  next
    case True
    have fresh2: "new_id \<notin> job_id ` set (jd_jobs (js_db ?s2))"
      using fresh arg_cong [OF db(2), of set] db1 by simp
    let ?sp = "retry_spec ?j (job_created_by ?j) reg"
    obtain r db2 where c: "create_job ?sp new_id cid now ?s2 = (Inr r, ?s2\<lparr>js_db := db2\<rparr>)"
      and r: "jd_jobs db2 = jd_jobs db1 @ [r]" "job_id r = new_id" "job_retry_count r = job_retry_count j + 1"
        "job_parent r = Some (job_id j)"
      by (rule create_job_runs [OF fresh2, of ?sp cid now]) (auto simp: retry_spec_def default_spec_def)
    have parent: "job_id j = jid" using j by (rule job_get_id)
    have get2: "job_get k db2 = (if k = new_id then Some r else job_get k db1)" for k
      using job_get_append [OF fresh2 [simplified] r(2), of k] r(1) by (simp add: job_get_def)
    let ?g = "\<lambda>j. j\<lparr>job_status := Js_retrying, job_message := ''Retrying in '' @ show_nat (retry_delay ?j) @ ''s''\<rparr>"
    obtain db3 where u: "update_job new_id ?g db2 = (Some (?g r), db3)" "job_get new_id db3 = Some (?g r)"
      "\<And>k. k \<noteq> new_id \<Longrightarrow> job_get k db3 = job_get k db2"
      using update_job_at [of ?g new_id db2 r] get2 by auto
    let ?s3 = "?s2\<lparr>js_db := db3\<rparr>"
    have "job_get new_id (js_db ?s3) \<noteq> None" using u by simp
    from log_job_runs [OF this, of "''warning''" "''Automatic retry scheduled''"
        "[(''delay_seconds'', JInt (int (retry_delay ?j)))]" now]
    obtain db4 where w: "log_job new_id ''warning'' ''Automatic retry scheduled''
        [(''delay_seconds'', JInt (int (retry_delay ?j)))] now ?s3 = (Inr (), ?s3\<lparr>js_db := db4\<rparr>)"
      and db4: "jd_jobs db4 = jd_jobs db3" by auto
    have delay: "retry_delay ?j = retry_delay j" by (simp add: retry_delay_def)
    let ?s4 = "?s3\<lparr>js_db := db4, js_timers := js_timers s @ [(now + real (retry_delay j), new_id, reg)]\<rparr>"
    have "schedule_retry ?j reg new_id cid now ?s2 = (Inr (), ?s4)"
      using c u(1) w r(2)
      by (simp add: schedule_retry_def Let_def jbind_def on_jobs_def jupdate_def delay)
    moreover have "job_get jid db4 = Some ?j"
      using fresh2 jid2 get2 u(3) job_get_cong [OF db4] job_get_None [of new_id db1] by (cases "jid = new_id") auto
    moreover have "job_get new_id db4 = Some (?g r)" using u(2) job_get_cong [OF db4] by simp
    ultimately show ?thesis
      using run True r retry_delay_bounds [of j] parent by auto
  qed
qed

theorem auto_retry_bounded_witness:
  "\<exists>s' r. finish_failed ''a'' demo_registration ''disk'' ''b'' ''c'' 5 one_queued_job = (Inr (), s')
    \<and> map_option job_status (job_get ''a'' (js_db s')) = Some Js_failed
    \<and> job_get ''b'' (js_db s') = Some r \<and> job_status r = Js_retrying \<and> job_parent r = Some ''a''"
proof -
  obtain j where j: "job_get ''a'' (js_db one_queued_job) = Some j" "job_retry_count j = 0"
    by (simp add: one_queued_simps)
  have "''b'' \<notin> job_id ` set (jd_jobs (js_db one_queued_job))" by (simp add: one_queued_simps)
  from auto_retry_bounded [OF j(1) this, of demo_registration "''disk''" "''c''" 5]
  show ?thesis by (auto simp: j(2) demo_registration_def)
qed

end
