(* ===== verification/Policy_Engine.thy ===== *)
theory Policy_Engine
  imports Json_Value
begin

text \<open>
  The evaluator of declarative policies, \<^verbatim>\<open>modules/policy_as_code/engine.py\<close>, and the
  validators of the policy documents in \<^verbatim>\<open>models.py\<close>. A \<^verbatim>\<open>PolicyExpressionError\<close>
  is a \<^verbatim>\<open>ValueError\<close>. The argument \<open>py_text\<close> is Python's text of a value, used in one
  message. Keys of an object are distinct, as in every parsed document.
\<close>

section \<open>Documents\<close>

record policy_rule =
  pr_id :: string
  pr_description :: string
  pr_severity :: string
  pr_message :: string
  pr_assertion :: json

record policy_document =
  pd_name :: string
  pd_description :: string
  pd_labels :: "(string \<times> string) list"
  pd_enabled :: bool
  pd_rules :: "policy_rule list"

definition ascii_letter_lower :: "char \<Rightarrow> bool" where
  "ascii_letter_lower c \<longleftrightarrow> 97 \<le> (of_char c :: nat) \<and> of_char c \<le> (122 :: nat)"

definition ascii_alnum :: "char \<Rightarrow> bool" where
  "ascii_alnum c \<longleftrightarrow> ascii_letter_lower c \<or> is_digit c \<or> 65 \<le> (of_char c :: nat) \<and> of_char c \<le> (90 :: nat)"

text \<open>\<^verbatim>\<open>[a-z][a-z0-9-]{0,63}\<close> and \<^verbatim>\<open>[a-zA-Z0-9][a-zA-Z0-9_.:-]{0,95}\<close>.\<close>

definition valid_policy_id :: "string \<Rightarrow> bool" where
  "valid_policy_id s = (case s of [] \<Rightarrow> False
     | c # cs \<Rightarrow> ascii_letter_lower c \<and> length cs \<le> 63
         \<and> list_all (\<lambda>c. ascii_letter_lower c \<or> is_digit c \<or> c = CHR ''-'') cs)"

definition valid_rule_id :: "string \<Rightarrow> bool" where
  "valid_rule_id s = (case s of [] \<Rightarrow> False
     | c # cs \<Rightarrow> ascii_alnum c \<and> length cs \<le> 95
         \<and> list_all (\<lambda>c. ascii_alnum c \<or> c \<in> {CHR ''_'', CHR ''.'', CHR '':'', CHR ''-''}) cs)"

definition valid_labels :: "(string \<times> string) list \<Rightarrow> bool" where
  "valid_labels labels \<longleftrightarrow> length labels \<le> 32
     \<and> list_all (\<lambda>(key, item). key \<noteq> [] \<and> length key \<le> 64 \<and> length item \<le> 256) labels"

definition valid_rule :: "policy_rule \<Rightarrow> bool" where
  "valid_rule r \<longleftrightarrow> valid_rule_id (pr_id r) \<and> length (pr_description r) \<le> 2048
     \<and> length (pr_message r) \<le> 2048
     \<and> pr_severity r \<in> {''critical'', ''high'', ''medium'', ''low'', ''info''}
     \<and> (case pr_assertion r of JObj _ \<Rightarrow> True | _ \<Rightarrow> False)"

definition valid_document :: "policy_document \<Rightarrow> bool" where
  "valid_document d \<longleftrightarrow> valid_policy_id (pd_name d) \<and> length (pd_description d) \<le> 2048
     \<and> valid_labels (pd_labels d) \<and> pd_rules d \<noteq> [] \<and> length (pd_rules d) \<le> 512
     \<and> list_all valid_rule (pd_rules d) \<and> distinct (map pr_id (pd_rules d))"

section \<open>Validation\<close>

definition allowed_operators :: "string list" where
  "allowed_operators = [''eq'', ''ne'', ''gt'', ''gte'', ''lt'', ''lte'', ''in'', ''not_in'',
     ''contains'', ''not_contains'', ''exists'', ''starts_with'', ''ends_with'']"

definition max_depth :: nat where "max_depth = 12"

definition max_nodes :: nat where "max_nodes = 512"

definition has_key :: "(string \<times> json) list \<Rightarrow> string \<Rightarrow> bool" where
  "has_key kvs k \<longleftrightarrow> map_of kvs k \<noteq> None"

definition combinators_of :: "(string \<times> json) list \<Rightarrow> string list" where
  "combinators_of kvs = filter (has_key kvs) [''all'', ''any'', ''not'']"

definition validate_leaf :: "(json \<Rightarrow> string) \<Rightarrow> (string \<times> json) list \<Rightarrow> unit res" where
  "validate_leaf py_text kvs =
     (if list_ex (\<lambda>(k, _). k \<notin> {''path'', ''operator'', ''value''}) kvs
      then Inl (ValueError ''assertion contains unsupported keys'')
      else case map_of kvs ''path'' of
        Some (JStr path) \<Rightarrow>
          if path = [] \<or> 256 < length path then Inl (ValueError ''assertion path must be a non-empty string'')
          else (case map_of kvs ''operator'' of
              Some (JStr operator) \<Rightarrow>
                if operator \<notin> set allowed_operators
                then Inl (ValueError (''unsupported assertion operator: '' @ operator))
                else if operator \<noteq> ''exists'' \<and> \<not> has_key kvs ''value''
                then Inl (ValueError (''operator '' @ operator @ '' requires value''))
                else if operator = ''exists''
                     \<and> (case map_of kvs ''value'' of None \<Rightarrow> False | Some (JBool _) \<Rightarrow> False | Some _ \<Rightarrow> True)
                then Inl (ValueError ''exists value must be boolean when supplied'')
                else Inr ()
            | other \<Rightarrow> Inl (ValueError (''unsupported assertion operator: ''
                @ py_text (case other of None \<Rightarrow> JNull | Some v \<Rightarrow> v))))
      | _ \<Rightarrow> Inl (ValueError ''assertion path must be a non-empty string''))"

text \<open>The budget is the number of nodes visited so far.\<close>

function validate_expression :: "(json \<Rightarrow> string) \<Rightarrow> json \<Rightarrow> nat \<Rightarrow> nat \<Rightarrow> nat res"
  and validate_all :: "(json \<Rightarrow> string) \<Rightarrow> json list \<Rightarrow> nat \<Rightarrow> nat \<Rightarrow> nat res" where
  "validate_expression py_text e depth nodes =
     (if depth > max_depth then Inl (ValueError ''assertion nesting exceeds the maximum depth'')
      else if nodes + 1 > max_nodes then Inl (ValueError ''policy contains too many assertion nodes'')
      else case e of
        JObj kvs \<Rightarrow>
          if kvs = [] then Inl (ValueError ''assert must be a non-empty object'')
          else if combinators_of kvs \<noteq> [] then
            if length (combinators_of kvs) \<noteq> 1 \<or> length kvs \<noteq> 1
            then Inl (ValueError ''all, any and not cannot be mixed with other assertion keys'')
            else let key = hd (combinators_of kvs); value = the (map_of kvs key)
                 in if key = ''not'' then validate_expression py_text value (depth + 1) (nodes + 1)
                    else (case value of
                        JList items \<Rightarrow>
                          if items = [] \<or> 64 < length items
                          then Inl (ValueError (key @ '' must be a non-empty list with at most 64 assertions''))
                          else validate_all py_text items (depth + 1) (nodes + 1)
                      | _ \<Rightarrow> Inl (ValueError (key @ '' must be a non-empty list with at most 64 assertions'')))
          else rbind (validate_leaf py_text kvs) (\<lambda>_. Inr (nodes + 1))
      | _ \<Rightarrow> Inl (ValueError ''assert must be a non-empty object''))"
| "validate_all py_text [] depth nodes = Inr nodes"
| "validate_all py_text (x # xs) depth nodes =
     rbind (validate_expression py_text x depth nodes) (validate_all py_text xs depth)"
  by pat_completeness auto

termination
  by (relation "measures [\<lambda>x. case x of Inl (_, _, d, _) \<Rightarrow> 13 - d | Inr (_, _, d, _) \<Rightarrow> 13 - d,
       \<lambda>x. case x of Inl _ \<Rightarrow> 0 | Inr (_, xs, _, _) \<Rightarrow> Suc (length xs)]")
    (auto simp: max_depth_def)

declare validate_expression.simps [simp del]

definition validate_policy :: "(json \<Rightarrow> string) \<Rightarrow> policy_document \<Rightarrow> unit res" where
  "validate_policy py_text d =
     rbind (rfold (\<lambda>r nodes. validate_expression py_text (pr_assertion r) 0 nodes) (pd_rules d) 0)
       (\<lambda>_. Inr ())"

section \<open>Evaluation\<close>

text \<open>\<open>None\<close> is the marker of a missing value.\<close>

fun resolve_parts :: "json \<Rightarrow> string list \<Rightarrow> json option res" where
  "resolve_parts current [] = Inr (Some current)"
| "resolve_parts current (part # parts) =
     (case current of
        JObj kvs \<Rightarrow> (case map_of kvs part of None \<Rightarrow> Inr None | Some v \<Rightarrow> resolve_parts v parts)
      | JList xs \<Rightarrow>
          if py_isdigit part
          then rbind (py_int part) (\<lambda>i. if i < length xs then resolve_parts (xs ! i) parts else Inr None)
          else Inr None
      | _ \<Rightarrow> Inr None)"

definition resolve_path :: "json \<Rightarrow> string \<Rightarrow> json option res" where
  "resolve_path facts path = resolve_parts facts (py_split CHR ''.'' path)"

definition in_collection :: "string \<Rightarrow> json \<Rightarrow> json \<Rightarrow> bool res" where
  "in_collection message x c = (case json_in x c of None \<Rightarrow> Inl (ValueError message) | Some r \<Rightarrow> r)"

definition negate :: "bool res \<Rightarrow> bool res" where
  "negate r = rbind r (\<lambda>b. Inr (\<not> b))"

definition string_test :: "string \<Rightarrow> json \<Rightarrow> json \<Rightarrow> bool res" where
  "string_test operator v expected =
     (case (v, expected) of
        (JStr a, JStr b) \<Rightarrow> Inr (if operator = ''starts_with'' then prefix b a else suffix b a)
      | _ \<Rightarrow> Inl (ValueError (operator @ '' requires string values'')))"

definition compare_values :: "json option \<Rightarrow> string \<Rightarrow> json \<Rightarrow> bool res" where
  "compare_values actual operator expected =
     (if operator = ''exists'' then
        Inr (case expected of JNull \<Rightarrow> actual \<noteq> None | JBool b \<Rightarrow> (actual \<noteq> None) = b | _ \<Rightarrow> False)
      else case actual of
        None \<Rightarrow> Inr False
      | Some v \<Rightarrow>
          if operator = ''eq'' then Inr (json_eq v expected)
          else if operator = ''ne'' then Inr (\<not> json_eq v expected)
          else if operator = ''gt'' then json_compare Cmp_gt v expected
          else if operator = ''gte'' then json_compare Cmp_ge v expected
          else if operator = ''lt'' then json_compare Cmp_lt v expected
          else if operator = ''lte'' then json_compare Cmp_le v expected
          else if operator = ''in'' then in_collection ''in requires a collection value'' v expected
          else if operator = ''not_in'' then
            negate (in_collection ''not_in requires a collection value'' v expected)
          else if operator = ''contains'' then
            in_collection ''contains requires the actual value to be a collection'' expected v
          else if operator = ''not_contains'' then
            negate (in_collection ''not_contains requires the actual value to be a collection'' expected v)
          else if operator \<in> {''starts_with'', ''ends_with''} then
            string_test operator v expected
          else Inl (ValueError (''unsupported assertion operator: '' @ operator)))"

record evidence =
  ev_path :: string
  ev_operator :: string
  ev_expected :: json
  ev_present :: bool
  ev_actual :: json
  ev_matched :: bool

lemma map_of_size: "map_of kvs k = Some v \<Longrightarrow> size v < size (JObj kvs)"
  by (induction kvs) (auto split: if_splits)

text \<open>Subscripting a missing key is a \<^verbatim>\<open>KeyError\<close>.\<close>

definition subscript :: "(string \<times> json) list \<Rightarrow> string \<Rightarrow> json res" where
  "subscript kvs k = (case map_of kvs k of None \<Rightarrow> Inl (KeyError k) | Some v \<Rightarrow> Inr v)"

definition evaluate_leaf :: "(string \<times> json) list \<Rightarrow> json \<Rightarrow> (bool \<times> evidence list) res" where
  "evaluate_leaf kvs facts =
     rbind (subscript kvs ''path'') (\<lambda>p. rbind (subscript kvs ''operator'') (\<lambda>op.
       case (p, op) of
         (JStr path, JStr operator) \<Rightarrow>
           let expected = (case map_of kvs ''value'' of None \<Rightarrow> JNull | Some v \<Rightarrow> v)
           in rbind (resolve_path facts path) (\<lambda>actual.
              rbind (compare_values actual operator expected) (\<lambda>matched.
              Inr (matched,
                [\<lparr>ev_path = path, ev_operator = operator, ev_expected = expected,
                  ev_present = (actual \<noteq> None),
                  ev_actual = (case actual of None \<Rightarrow> JNull | Some v \<Rightarrow> v),
                  ev_matched = matched\<rparr>])))
       | _ \<Rightarrow> Inl (RuntimeError ''AttributeError'')))"

text \<open>
  The assertions of \<^verbatim>\<open>all\<close> and \<^verbatim>\<open>any\<close> are all evaluated, with their matches and
  evidence collected. An expression that is no object, and a list that is none, do not occur after
  validation; the code's failure there is an exception the caller does not catch.
\<close>

function evaluate_expression :: "json \<Rightarrow> json \<Rightarrow> (bool \<times> evidence list) res"
  and evaluate_all :: "json list \<Rightarrow> json \<Rightarrow> (bool list \<times> evidence list) res" where
  "evaluate_expression e facts =
     (case e of
        JObj kvs \<Rightarrow>
          (case map_of kvs ''all'' of
             Some v \<Rightarrow> (case v of
                 JList items \<Rightarrow> rbind (evaluate_all items facts) (\<lambda>(ms, evs). Inr (list_all id ms, evs))
               | _ \<Rightarrow> Inl (RuntimeError ''not iterable''))
           | None \<Rightarrow>
          (case map_of kvs ''any'' of
             Some v \<Rightarrow> (case v of
                 JList items \<Rightarrow> rbind (evaluate_all items facts) (\<lambda>(ms, evs). Inr (list_ex id ms, evs))
               | _ \<Rightarrow> Inl (RuntimeError ''not iterable''))
           | None \<Rightarrow>
          (case map_of kvs ''not'' of
             Some v \<Rightarrow> rbind (evaluate_expression v facts) (\<lambda>(m, evs). Inr (\<not> m, evs))
           | None \<Rightarrow> evaluate_leaf kvs facts)))
      | _ \<Rightarrow> Inl (RuntimeError ''not an object''))"
| "evaluate_all [] facts = Inr ([], [])"
| "evaluate_all (x # xs) facts =
     rbind (evaluate_expression x facts) (\<lambda>(m, evs).
     rbind (evaluate_all xs facts) (\<lambda>(ms, evs'). Inr (m # ms, evs @ evs')))"
  by pat_completeness auto

termination
  by (relation "measure (\<lambda>x. case x of Inl (e, _) \<Rightarrow> 2 * size e | Inr (es, _) \<Rightarrow> 2 * size_list size es + 1)")
    (auto dest: map_of_size)

declare evaluate_expression.simps [simp del]

datatype rule_status = Rule_pass | Rule_fail | Rule_error

record rule_result =
  rr_id :: string
  rr_severity :: string
  rr_description :: string
  rr_message :: string
  rr_status :: rule_status
  rr_error :: "py_exn option"
  rr_evidence :: "evidence list"

definition rule_result_of ::
  "policy_rule \<Rightarrow> rule_status \<Rightarrow> py_exn option \<Rightarrow> evidence list \<Rightarrow> rule_result" where
  "rule_result_of r status error evs =
     \<lparr>rr_id = pr_id r, rr_severity = pr_severity r, rr_description = pr_description r,
      rr_message = pr_message r, rr_status = status, rr_error = error, rr_evidence = evs\<rparr>"

definition caught :: "py_exn \<Rightarrow> bool" where
  "caught e = (case e of TypeError \<Rightarrow> True | ValueError _ \<Rightarrow> True | _ \<Rightarrow> False)"

definition evaluate_rule :: "json \<Rightarrow> policy_rule \<Rightarrow> rule_result res" where
  "evaluate_rule facts r =
     (case evaluate_expression (pr_assertion r) facts of
        Inr (matched, evs) \<Rightarrow> Inr (rule_result_of r (if matched then Rule_pass else Rule_fail) None evs)
      | Inl e \<Rightarrow> if caught e then Inr (rule_result_of r Rule_error (Some e) []) else Inl e)"

record policy_report =
  rep_policy_id :: string
  rep_enabled :: bool
  rep_compliant :: bool
  rep_score :: nat
  rep_passed :: nat
  rep_failed :: nat
  rep_errors :: nat
  rep_total :: nat
  rep_results :: "rule_result list"

definition count_rules :: "rule_status \<Rightarrow> rule_result list \<Rightarrow> nat" where
  "count_rules s results = length (filter (\<lambda>r. rr_status r = s) results)"

definition policy_score :: "nat \<Rightarrow> nat \<Rightarrow> nat" where
  "policy_score passed all_rules = (if all_rules = 0 then 100 else round_div (passed * 100) all_rules)"

definition evaluate_policy :: "(json \<Rightarrow> string) \<Rightarrow> policy_document \<Rightarrow> json \<Rightarrow> policy_report res" where
  "evaluate_policy py_text d facts =
     rbind (validate_policy py_text d) (\<lambda>_.
     rbind (rfold (\<lambda>r rs. rbind (evaluate_rule facts r) (\<lambda>x. Inr (rs @ [x]))) (pd_rules d) []) (\<lambda>results.
       let passed = count_rules Rule_pass results; failed = count_rules Rule_fail results;
           errors = count_rules Rule_error results
       in Inr \<lparr>rep_policy_id = pd_name d, rep_enabled = pd_enabled d,
               rep_compliant = (failed = 0 \<and> errors = 0), rep_score = policy_score passed (length results),
               rep_passed = passed, rep_failed = failed, rep_errors = errors, rep_total = length results,
               rep_results = results\<rparr>))"

section \<open>Evaluating a validated policy\<close>

lemma caught_simps [simp]: "caught TypeError" "caught (ValueError m)" "\<not> caught (KeyError k)"
    "\<not> caught (RuntimeError m)"
  by (simp_all add: caught_def)

lemma resolve_parts_caught: "resolve_parts v parts = Inl e \<Longrightarrow> caught e"
  by (induction v parts rule: resolve_parts.induct)
    (auto simp: rbind_Inl_iff py_int_def split: json.splits option.splits if_splits)

lemma in_collection_caught: "in_collection m x c = Inl e \<Longrightarrow> caught e"
  by (auto simp: in_collection_def json_in_def split: option.splits json.splits if_splits)

lemma negate_Inl [simp]: "negate r = Inl e \<longleftrightarrow> r = Inl e"
  by (auto simp: negate_def rbind_Inl_iff)

lemma string_test_caught: "string_test operator v expected = Inl e \<Longrightarrow> caught e"
  by (auto simp: string_test_def split: json.splits)

lemma json_compare_caught: "json_compare c v w = Inl e \<Longrightarrow> caught e"
  by (auto dest: json_compare_error)

definition raises_caught :: "'a res \<Rightarrow> bool" where
  "raises_caught r \<longleftrightarrow> (\<forall>e. r = Inl e \<longrightarrow> caught e)"

lemma raises_caught_intros:
  "raises_caught a \<Longrightarrow> raises_caught b \<Longrightarrow> raises_caught (if c then a else b)"
  "raises_caught (Inr ok)" "raises_caught (Inl (ValueError m))"
  "raises_caught (json_compare cmp v w)" "raises_caught (in_collection m x y)"
  "raises_caught (negate (in_collection m x y))" "raises_caught (string_test operator v w)"
  by (auto simp: raises_caught_def dest: json_compare_caught in_collection_caught string_test_caught)

lemma raises_caught_case:
  "raises_caught a \<Longrightarrow> (\<And>x. raises_caught (f x)) \<Longrightarrow> raises_caught (case z of None \<Rightarrow> a | Some x \<Rightarrow> f x)"
  by (cases z) auto

lemma compare_values_caught: "compare_values actual operator expected = Inl e \<Longrightarrow> caught e"
proof -
  have "raises_caught (compare_values actual operator expected)"
    unfolding compare_values_def
    by (intro raises_caught_intros raises_caught_case)
  then show "compare_values actual operator expected = Inl e \<Longrightarrow> caught e"
    by (simp add: raises_caught_def)
qed

lemma evaluate_leaf_caught:
  assumes "validate_leaf py_text kvs = Inr ()" and "evaluate_leaf kvs facts = Inl e"
  shows "caught e"
proof -
  from assms(1) obtain path operator where
    "map_of kvs ''path'' = Some (JStr path)" "map_of kvs ''operator'' = Some (JStr operator)"
    unfolding validate_leaf_def by (auto split: if_splits option.splits json.splits)
  with assms(2) show ?thesis
    by (auto simp: evaluate_leaf_def subscript_def rbind_Inl_iff Let_def resolve_path_def
        dest: resolve_parts_caught compare_values_caught)
qed

lemma combinators_single:
  assumes "combinators_of kvs \<noteq> []" and "length kvs = 1"
  obtains key v where "kvs = [(key, v)]" and "key \<in> {''all'', ''any'', ''not''}" and "combinators_of kvs = [key]"
proof -
  obtain key v where kvs: "kvs = [(key, v)]" using assms(2) by (cases kvs) auto
  with assms(1) show thesis
    by (intro that [of key v]) (auto simp: combinators_of_def has_key_def split: if_splits)
qed

lemma combinators_none:
  "combinators_of kvs = [] \<Longrightarrow> map_of kvs ''all'' = None \<and> map_of kvs ''any'' = None \<and> map_of kvs ''not'' = None"
  by (auto simp: combinators_of_def has_key_def split: if_splits)

lemma evaluate_combinator:
  "key \<in> {''all'', ''any''} \<Longrightarrow> evaluate_expression (JObj [(key, JList items)]) facts = Inl x \<Longrightarrow>
     evaluate_all items facts = Inl x"
  by (auto simp: evaluate_expression.simps [of "JObj [(''all'', JList items)]"]
      evaluate_expression.simps [of "JObj [(''any'', JList items)]"] rbind_Inl_iff)

lemma validated_caught:
  "validate_expression py_text e depth nodes = Inr n \<Longrightarrow> evaluate_expression e facts = Inl x \<Longrightarrow> caught x"
  "validate_all py_text es depth nodes = Inr n \<Longrightarrow> evaluate_all es facts = Inl x \<Longrightarrow> caught x"
proof (induction py_text e depth nodes and py_text es depth nodes arbitrary: n x and n x
    rule: validate_expression_validate_all.induct)
  case (1 py_text e depth nodes)
  have open_: "\<not> depth > max_depth" "\<not> nodes + 1 > max_nodes"
    using "1.prems"(1) by (auto simp: validate_expression.simps [of py_text e] split: if_splits)
  obtain kvs where kvs: "e = JObj kvs" "kvs \<noteq> []"
    using "1.prems"(1) by (auto simp: validate_expression.simps [of py_text e] split: if_splits json.splits)
  show ?case
  proof (cases "combinators_of kvs = []")
    case True
    then show ?thesis
      using "1.prems" combinators_none [OF True] open_ kvs
      by (auto simp: validate_expression.simps [of py_text "JObj kvs"]
          evaluate_expression.simps [of "JObj kvs"] rbind_Inr_iff dest: evaluate_leaf_caught)
  next
    case False
    then have "length kvs = 1" using "1.prems"(1) open_ kvs
      by (auto simp: validate_expression.simps [of py_text "JObj kvs"] split: if_splits)
    with False obtain key v where kv: "kvs = [(key, v)]" "key \<in> {''all'', ''any'', ''not''}"
      "combinators_of kvs = [key]" by (rule combinators_single)
    show ?thesis
    proof (cases "key = ''not''")
      case True
      have "validate_expression py_text v (depth + 1) (nodes + 1) = Inr n"
        using "1.prems"(1) open_ kvs kv True by (simp add: validate_expression.simps [of py_text "JObj [(''not'', v)]"])
      moreover have "evaluate_expression v facts = Inl x"
        using "1.prems"(2) kvs kv True
        by (auto simp: evaluate_expression.simps [of "JObj [(''not'', v)]"] rbind_Inl_iff)
      ultimately show ?thesis
        using "1.IH"(1) [OF open_ kvs False] kv True by auto
    next
      case not_not: False
      obtain items where items: "v = JList items" "validate_all py_text items (depth + 1) (nodes + 1) = Inr n"
        "\<not> (items = [] \<or> 64 < length items)"
        using "1.prems"(1) open_ kvs kv not_not
        by (auto simp: validate_expression.simps [of py_text "JObj [(key, v)]"] split: json.splits if_splits)
      moreover have "evaluate_all items facts = Inl x"
        using "1.prems"(2) kvs kv not_not items(1) by (intro evaluate_combinator [of key]) auto
      ultimately show ?thesis
        using "1.IH"(2) [OF open_ kvs False] kv not_not by auto
    qed
  qed
next
  case (2 py_text depth nodes)
  then show ?case by simp
next
  case (3 py_text e es depth nodes)
  then show ?case by (fastforce simp: rbind_Inr_iff rbind_Inl_iff)
qed

lemma validate_policy_rules:
  assumes "validate_policy py_text d = Inr ()" and "r \<in> set (pd_rules d)"
  shows "\<exists>k n. validate_expression py_text (pr_assertion r) 0 k = Inr n"
proof -
  have "\<exists>k n. validate_expression py_text (pr_assertion r) 0 k = Inr n"
    if "rfold (\<lambda>r nodes. validate_expression py_text (pr_assertion r) 0 nodes) rs k0 = Inr n0" "r \<in> set rs"
    for rs k0 n0
    using that by (induction rs arbitrary: k0) (auto simp: rbind_Inr_iff)
  with assms show ?thesis by (auto simp: validate_policy_def rbind_Inr_iff)
qed

lemma evaluate_rule_total:
  assumes "validate_expression py_text (pr_assertion r) 0 k = Inr n"
  shows "\<exists>x. evaluate_rule facts r = Inr x \<and> rr_id x = pr_id r
    \<and> (rr_status x = Rule_error \<longleftrightarrow> rr_error x \<noteq> None)"
  using validated_caught(1) [OF assms]
  by (auto simp: evaluate_rule_def rule_result_of_def split: sum.splits)

lemma count_rules_append: "count_rules st (xs @ ys) = count_rules st xs + count_rules st ys"
  by (simp add: count_rules_def)

lemma count_rules_total:
  "count_rules Rule_pass rs + count_rules Rule_fail rs + count_rules Rule_error rs = length rs"
proof (induction rs)
  case (Cons r rs)
  then show ?case by (cases "rr_status r") (auto simp: count_rules_def)
qed (simp add: count_rules_def)

lemma evaluate_rules_total:
  assumes "\<forall>r \<in> set rs. \<exists>k n. validate_expression py_text (pr_assertion r) 0 k = Inr n"
  shows "\<exists>xs. rfold (\<lambda>r rs. rbind (evaluate_rule facts r) (\<lambda>x. Inr (rs @ [x]))) rs acc = Inr (acc @ xs)
    \<and> map rr_id xs = map pr_id rs \<and> list_all (\<lambda>x. rr_status x = Rule_error \<longleftrightarrow> rr_error x \<noteq> None) xs"
  using assms
proof (induction rs arbitrary: acc)
  case (Cons r rs)
  then obtain k n where "validate_expression py_text (pr_assertion r) 0 k = Inr n" by auto
  then obtain x where x: "evaluate_rule facts r = Inr x" "rr_id x = pr_id r"
    "rr_status x = Rule_error \<longleftrightarrow> rr_error x \<noteq> None"
    using evaluate_rule_total by blast
  obtain xs where "rfold (\<lambda>r rs. rbind (evaluate_rule facts r) (\<lambda>x. Inr (rs @ [x]))) rs (acc @ [x]) = Inr ((acc @ [x]) @ xs)"
    "map rr_id xs = map pr_id rs" "list_all (\<lambda>x. rr_status x = Rule_error \<longleftrightarrow> rr_error x \<noteq> None) xs"
    using Cons.IH [of "acc @ [x]"] Cons.prems by auto
  with x show ?case by (intro exI [of _ "x # xs"]) auto
qed simp

text \<open>
  C34. A policy that passes validation never crashes the evaluator, whatever the facts are: the
  missing keys, wrong types and non-collections an assertion can meet become the error result of
  its own rule. There is one result per rule, in order, and a result carries an error exactly if
  its status is error.
\<close>

theorem validated_policy_never_crashes:
  assumes "validate_policy py_text d = Inr ()"
  shows "\<exists>rep. evaluate_policy py_text d facts = Inr rep
    \<and> map rr_id (rep_results rep) = map pr_id (pd_rules d)
    \<and> list_all (\<lambda>x. rr_status x = Rule_error \<longleftrightarrow> rr_error x \<noteq> None) (rep_results rep)"
proof -
  obtain xs where "rfold (\<lambda>r rs. rbind (evaluate_rule facts r) (\<lambda>x. Inr (rs @ [x]))) (pd_rules d) [] = Inr xs"
    "map rr_id xs = map pr_id (pd_rules d)" "list_all (\<lambda>x. rr_status x = Rule_error \<longleftrightarrow> rr_error x \<noteq> None) xs"
    using evaluate_rules_total [of "pd_rules d" py_text facts "[]"] validate_policy_rules [OF assms] by auto
  with assms show ?thesis by (simp add: evaluate_policy_def Let_def)
qed


definition demo_policy :: policy_document where
  "demo_policy = \<lparr>pd_name = ''base'', pd_description = [], pd_labels = [], pd_enabled = True,
     pd_rules = [\<lparr>pr_id = ''r1'', pr_description = [], pr_severity = ''high'', pr_message = [],
       pr_assertion = JObj [(''all'', JList [
         JObj [(''path'', JStr ''ssh.port''), (''operator'', JStr ''eq''), (''value'', JInt 22)],
         JObj [(''not'', JObj [(''path'', JStr ''ssh.root''), (''operator'', JStr ''exists'')])]])]\<rparr>,
      \<lparr>pr_id = ''r2'', pr_description = [], pr_severity = ''low'', pr_message = [],
       pr_assertion = JObj [(''path'', JStr ''ssh.port''), (''operator'', JStr ''gt''), (''value'', JStr ''x'')]\<rparr>]\<rparr>"

definition demo_facts :: json where
  "demo_facts = JObj [(''ssh'', JObj [(''port'', JInt 22)])]"

lemma demo_policy_valid: "validate_policy (\<lambda>_. []) demo_policy = Inr ()"
  by code_simp

theorem validated_policy_never_crashes_witness:
  "\<exists>rep. evaluate_policy (\<lambda>_. []) demo_policy demo_facts = Inr rep
    \<and> map rr_id (rep_results rep) = [''r1'', ''r2'']
    \<and> list_all (\<lambda>x. rr_status x = Rule_error \<longleftrightarrow> rr_error x \<noteq> None) (rep_results rep)"
  using validated_policy_never_crashes [OF demo_policy_valid, of demo_facts]
  by (simp add: demo_policy_def)


end
