(* ===== verification/Update_Coordination.thy ===== *)
theory Update_Coordination
  imports Job_Sanitize "HOL-Library.List_Lexorder" "HOL-Library.Product_Lexorder"
begin

text \<open>
  The coordination of panel updates, \<^verbatim>\<open>update_coordination.py\<close>: the update request
  file with its fourteen steps, the step transitions, the admission of new operations, and the
  registry of running operations. The file holds a JSON object, \<open>None\<close> when it is missing or
  unreadable; the coordination lock makes every transition one step. \<open>env\<close> holds Python's
  conversions of values to text and of text to numbers.
\<close>

section \<open>Conversions\<close>

type_synonym fields = "(string \<times> json) list"

record text_env =
  te_str :: "json \<Rightarrow> string"
  te_float :: "string \<Rightarrow> real option"
  te_int :: "string \<Rightarrow> int option"

definition py_str :: "text_env \<Rightarrow> json \<Rightarrow> string" where
  "py_str env v = (case v of JStr s \<Rightarrow> s | _ \<Rightarrow> te_str env v)"

definition field :: "fields \<Rightarrow> string \<Rightarrow> json" where
  "field d k = (case map_of d k of None \<Rightarrow> JNull | Some v \<Rightarrow> v)"

text \<open>\<open>str(d.get(k) or default)\<close>.\<close>

definition text_or :: "text_env \<Rightarrow> json \<Rightarrow> string \<Rightarrow> string" where
  "text_or env v dflt = (if json_truthy v then py_str env v else dflt)"

text \<open>\<open>{**a, **b}\<close>.\<close>

definition merge_fields :: "fields \<Rightarrow> fields \<Rightarrow> fields" where
  "merge_fields a b = fold (\<lambda>(k, v). dict_set k v) b a"

definition secret_words :: "string list" where
  "secret_words = [''authorization'', ''cookie'', ''set-cookie'', ''token'', ''password'', ''secret'',
     ''api_key'', ''api-key'', ''apikey'']"

fun first_prefix :: "string list \<Rightarrow> string \<Rightarrow> string option" where
  "first_prefix [] s = None"
| "first_prefix (p # ps) s = (case ci_prefix p s of None \<Rightarrow> first_prefix ps s | Some r \<Rightarrow> Some r)"

text \<open>
  A match at the head of the text, as what is kept and what follows: a secret word, a separator
  and a run of non-space characters; a URL up to the \<^verbatim>\<open>@\<close> after its password.
\<close>

definition match_secret :: "string \<Rightarrow> (string \<times> string) option" where
  "match_secret s =
     (case first_prefix secret_words s of
        None \<Rightarrow> None
      | Some r \<Rightarrow>
          let t = dropWhile is_space r;
              u = dropWhile is_space (tl t);
              kept = (\<lambda>v. take (length s - length v) s);
              past = dropWhile (\<lambda>c. \<not> is_space c)
          in if t \<noteq> [] \<and> hd t \<in> {CHR '':'', CHR ''=''} \<and> u \<noteq> [] then Some (kept u, past u)
             else if t \<noteq> r \<and> t \<noteq> [] then Some (kept t, past t) else None)"

definition match_url_password :: "string \<Rightarrow> (string \<times> string) option" where
  "match_url_password s =
     (case first_prefix [''https://'', ''http://''] s of
        None \<Rightarrow> None
      | Some r \<Rightarrow>
          let host = (\<lambda>c. c \<noteq> CHR ''/'' \<and> \<not> is_space c \<and> c \<noteq> CHR '':'' \<and> c \<noteq> CHR ''@'');
              secret = (\<lambda>c. c \<noteq> CHR ''@'' \<and> \<not> is_space c \<and> c \<noteq> CHR ''/'');
              t = dropWhile host r; u = tl t; v = dropWhile secret u
          in if t \<noteq> r \<and> t \<noteq> [] \<and> hd t = CHR '':'' \<and> v \<noteq> u \<and> v \<noteq> [] \<and> hd v = CHR ''@''
             then Some (take (length s - length u) s, v) else None)"

text \<open>\<^verbatim>\<open>re.sub\<close> from left to right: the kept part, the stars, and on behind the match.\<close>

fun mask_from :: "(string \<Rightarrow> (string \<times> string) option) \<Rightarrow> nat \<Rightarrow> string \<Rightarrow> string" where
  "mask_from m 0 s = s"
| "mask_from m (Suc n) [] = []"
| "mask_from m (Suc n) (c # cs) =
     (case m (c # cs) of
        Some (kept, rest) \<Rightarrow> kept @ ''***'' @ mask_from m n rest
      | None \<Rightarrow> c # mask_from m n cs)"

definition redact_update_text :: "string \<Rightarrow> string" where
  "redact_update_text s =
     (let t = mask_from match_secret (length s) s in mask_from match_url_password (length t) t)"

text \<open>Negative numbers, truth values and what is no number count as absent.\<close>

definition nonnegative :: "real \<Rightarrow> real option" where
  "nonnegative r = (if r < 0 then None else Some r)"

definition safe_nonnegative_float :: "text_env \<Rightarrow> json \<Rightarrow> real option" where
  "safe_nonnegative_float env v =
     (case v of JInt i \<Rightarrow> nonnegative (of_int i) | JFloat r \<Rightarrow> nonnegative r
      | JStr s \<Rightarrow> (case te_float env s of None \<Rightarrow> None | Some r \<Rightarrow> nonnegative r) | _ \<Rightarrow> None)"

definition truncate_real :: "real \<Rightarrow> int" where
  "truncate_real r = (if r < 0 then - \<lfloor>- r\<rfloor> else \<lfloor>r\<rfloor>)"

definition safe_nonnegative_int :: "text_env \<Rightarrow> int \<Rightarrow> json \<Rightarrow> int" where
  "safe_nonnegative_int env dflt v =
     (case v of JInt i \<Rightarrow> max 0 i | JFloat r \<Rightarrow> max 0 (truncate_real r)
      | JStr s \<Rightarrow> (case te_int env s of None \<Rightarrow> dflt | Some i \<Rightarrow> max 0 i) | _ \<Rightarrow> dflt)"

section \<open>Steps\<close>

definition update_step_ids :: "string list" where
  "update_step_ids = [''prepare'', ''check_operations'', ''check_update'', ''download_repository'',
     ''download_version'', ''verify_files'', ''install_backend_dependencies'',
     ''install_frontend_dependencies'', ''build_frontend'', ''update_configuration'',
     ''switch_version'', ''restart_services'', ''health_check'', ''complete'']"

definition step_statuses :: "string list" where
  "step_statuses = [''pending'', ''running'', ''success'', ''failed'', ''skipped'']"

record update_step =
  us_id :: string
  us_status :: string
  us_message :: string
  us_started_at :: "real option"
  us_finished_at :: "real option"
  us_error :: "string option"

definition default_update_steps :: "update_step list" where
  "default_update_steps = map (\<lambda>i. \<lparr>us_id = i, us_status = ''pending'', us_message = [],
     us_started_at = None, us_finished_at = None, us_error = None\<rparr>) update_step_ids"

definition json_time :: "real option \<Rightarrow> json" where
  "json_time t = (case t of None \<Rightarrow> JNull | Some r \<Rightarrow> JFloat r)"

definition json_text :: "string option \<Rightarrow> json" where
  "json_text t = (case t of None \<Rightarrow> JNull | Some s \<Rightarrow> JStr s)"

definition step_json :: "update_step \<Rightarrow> json" where
  "step_json st = JObj [(''id'', JStr (us_id st)), (''status'', JStr (us_status st)),
     (''message'', JStr (us_message st)), (''started_at'', json_time (us_started_at st)),
     (''finished_at'', json_time (us_finished_at st)), (''error'', json_text (us_error st))]"

text \<open>The supplied objects that have an identifier, by it; a later one replaces an earlier one.\<close>

definition supplied_steps :: "text_env \<Rightarrow> json \<Rightarrow> (string \<times> fields) list" where
  "supplied_steps env v = (case v of
     JList items \<Rightarrow> rev (concat (map (\<lambda>item. case item of
         JObj kvs \<Rightarrow> if json_truthy (field kvs ''id'') then [(py_str env (field kvs ''id''), kvs)] else []
       | _ \<Rightarrow> []) items))
   | _ \<Rightarrow> [])"

definition normalize_step :: "text_env \<Rightarrow> (string \<times> fields) list \<Rightarrow> update_step \<Rightarrow> update_step" where
  "normalize_step env supplied st =
     (case map_of supplied (us_id st) of
        None \<Rightarrow> st
      | Some legacy \<Rightarrow>
          (let status = text_or env (field legacy ''status'') ''pending'';
               error = take 4000 (redact_update_text (text_or env (field legacy ''error'') []))
           in st\<lparr>us_status := (if status \<in> set step_statuses then status else ''pending''),
                 us_message := take 1000 (redact_update_text (text_or env (field legacy ''message'') [])),
                 us_started_at := safe_nonnegative_float env (field legacy ''started_at''),
                 us_finished_at := safe_nonnegative_float env (field legacy ''finished_at''),
                 us_error := (if error = [] then None else Some error)\<rparr>))"

definition normalize_steps :: "text_env \<Rightarrow> json \<Rightarrow> update_step list" where
  "normalize_steps env v = map (normalize_step env (supplied_steps env v)) default_update_steps"

definition steps_json :: "update_step list \<Rightarrow> json" where
  "steps_json steps = JList (map step_json steps)"

section \<open>The request file\<close>

definition default_update_request :: fields where
  "default_update_request = [(''id'', JStr []), (''state'', JStr ''idle''), (''phase'', JStr ''idle''),
     (''failed_phase'', JNull), (''actor'', JStr []), (''requested_at'', JNull), (''started_at'', JNull),
     (''finished_at'', JNull), (''update_config'', JBool False), (''previous_version'', JNull),
     (''target_version'', JNull), (''current_version'', JNull), (''commit_revision'', JNull),
     (''commit_date'', JNull), (''message'', JStr []), (''progress'', JInt 0),
     (''steps'', steps_json default_update_steps), (''trigger'', JStr ''manual''),
     (''updated_at'', JNull), (''acknowledged_users'', JList [])]"

text \<open>\<open>d[k] = f(d.get(k))\<close>.\<close>

definition set_field :: "string \<Rightarrow> (json \<Rightarrow> json) \<Rightarrow> fields \<Rightarrow> fields" where
  "set_field k f d = dict_set k (f (field d k)) d"

definition acknowledged_json :: "text_env \<Rightarrow> json \<Rightarrow> json" where
  "acknowledged_json env v = (case v of
     JList xs \<Rightarrow> JList (map (\<lambda>x. JStr (take 256 (py_str env x))) (take 1000 xs)) | _ \<Rightarrow> JList [])"

definition normalize_update_request :: "text_env \<Rightarrow> fields \<Rightarrow> fields" where
  "normalize_update_request env value =
     set_field ''acknowledged_users'' (acknowledged_json env)
    (set_field ''message'' (\<lambda>v. JStr (take 1000 (redact_update_text (text_or env v []))))
    (set_field ''log_offset'' (\<lambda>v. JInt (safe_nonnegative_int env 0 v))
    (set_field ''progress'' (\<lambda>v. JInt (min 100 (safe_nonnegative_int env 0 v)))
    (fold (\<lambda>k. set_field k (\<lambda>v. json_time (safe_nonnegative_float env v)))
       [''requested_at'', ''started_at'', ''finished_at'', ''commit_date'', ''updated_at'']
    (set_field ''steps'' (\<lambda>v. steps_json (normalize_steps env v))
    (merge_fields default_update_request value))))))"

definition read_update_request :: "text_env \<Rightarrow> json option \<Rightarrow> fields" where
  "read_update_request env content =
     (case content of Some (JObj d) \<Rightarrow> normalize_update_request env d | _ \<Rightarrow> default_update_request)"

text \<open>The steps of the request as read.\<close>

definition read_steps :: "text_env \<Rightarrow> json option \<Rightarrow> update_step list" where
  "read_steps env content =
     (case content of
        Some (JObj d) \<Rightarrow> normalize_steps env (field (merge_fields default_update_request d) ''steps'')
      | _ \<Rightarrow> default_update_steps)"

text \<open>The state written, which is also the new content of the file.\<close>

definition write_update_request :: "text_env \<Rightarrow> time \<Rightarrow> fields \<Rightarrow> fields" where
  "write_update_request env now value =
     dict_set ''updated_at'' (JFloat now) (normalize_update_request env value)"

section \<open>Transitions\<close>

definition completed_steps :: "update_step list \<Rightarrow> nat" where
  "completed_steps steps = length (filter (\<lambda>s. us_status s \<in> {''success'', ''skipped''}) steps)"

definition update_progress_of :: "update_step list \<Rightarrow> nat" where
  "update_progress_of steps = round_div (completed_steps steps * 100) (length steps)"

definition or_time :: "real option \<Rightarrow> time \<Rightarrow> real option" where
  "or_time t now = (case t of Some r \<Rightarrow> if r = 0 then Some now else Some r | None \<Rightarrow> Some now)"

definition failure_text :: "string option \<Rightarrow> string option \<Rightarrow> string" where
  "failure_text error message = (case error of
     Some (c # cs) \<Rightarrow> c # cs
   | _ \<Rightarrow> (case message of Some (c # cs) \<Rightarrow> c # cs | _ \<Rightarrow> ''Update step failed''))"

definition move_step ::
  "string \<Rightarrow> string option \<Rightarrow> string option \<Rightarrow> time \<Rightarrow> update_step \<Rightarrow> update_step" where
  "move_step status message error now st =
     (let st1 = (if status = ''running'' then
                   st\<lparr>us_started_at := or_time (us_started_at st) now, us_finished_at := None, us_error := None\<rparr>
                 else if status \<in> {''success'', ''failed'', ''skipped''} then
                   (let st' = st\<lparr>us_started_at := or_time (us_started_at st) now, us_finished_at := Some now\<rparr>
                    in if status = ''failed''
                       then st'\<lparr>us_error := Some (take 4000 (redact_update_text (failure_text error message)))\<rparr>
                       else st')
                 else st);
          st2 = st1\<lparr>us_status := status\<rparr>
      in case message of None \<Rightarrow> st2 | Some m \<Rightarrow> st2\<lparr>us_message := take 1000 (redact_update_text m)\<rparr>)"

definition moved_fields :: "string \<Rightarrow> string \<Rightarrow> time \<Rightarrow> fields \<Rightarrow> fields" where
  "moved_fields step_id status now state =
     (if status = ''running'' then
        [(''state'', if json_eq (field state ''state'') (JStr ''waiting'')
                        \<and> step_id \<in> {''prepare'', ''check_operations''}
                     then field state ''state'' else JStr ''running''),
         (''phase'', JStr step_id), (''failed_phase'', JNull)]
      else if status = ''failed'' then
        [(''state'', JStr ''failed''), (''phase'', JStr ''failed''),
         (''failed_phase'', JStr step_id), (''finished_at'', JFloat now)]
      else [])"

definition message_fields :: "string option \<Rightarrow> fields" where
  "message_fields message = (case message of None \<Rightarrow> []
     | Some m \<Rightarrow> [(''message'', JStr (take 1000 (redact_update_text m)))])"

definition move_state :: "string \<Rightarrow> string \<Rightarrow> string option \<Rightarrow> time \<Rightarrow> fields \<Rightarrow> fields" where
  "move_state step_id status message now state =
     merge_fields state (moved_fields step_id status now state @ message_fields message)"

definition transition_update_step ::
  "text_env \<Rightarrow> string \<Rightarrow> string \<Rightarrow> string option \<Rightarrow> string option \<Rightarrow> time \<Rightarrow> json option \<Rightarrow> fields res" where
  "transition_update_step env step_id status message error now content =
     (if step_id \<notin> set update_step_ids then Inl (ValueError (''Unknown update step: '' @ step_id))
      else if status \<notin> set step_statuses then Inl (ValueError (''Unknown update step status: '' @ status))
      else let state = read_update_request env content;
               steps = map (\<lambda>st. if us_id st = step_id then move_step status message error now st else st)
                         (normalize_steps env (field state ''steps''));
               moved = move_state step_id status message now state
           in Inr (write_update_request env now
                (merge_fields moved [(''progress'', JInt (int (update_progress_of steps))),
                                     (''steps'', steps_json steps)])))"

definition start_update_step :: "text_env \<Rightarrow> string \<Rightarrow> string option \<Rightarrow> time \<Rightarrow> json option \<Rightarrow> fields res" where
  "start_update_step env step_id message = transition_update_step env step_id ''running'' message None"

definition complete_update_step :: "text_env \<Rightarrow> string \<Rightarrow> string option \<Rightarrow> time \<Rightarrow> json option \<Rightarrow> fields res" where
  "complete_update_step env step_id message = transition_update_step env step_id ''success'' message None"

definition fail_update_step :: "text_env \<Rightarrow> string \<Rightarrow> string \<Rightarrow> time \<Rightarrow> json option \<Rightarrow> fields res" where
  "fail_update_step env step_id error = transition_update_step env step_id ''failed'' (Some error) (Some error)"

definition skip_update_step :: "text_env \<Rightarrow> string \<Rightarrow> string option \<Rightarrow> time \<Rightarrow> json option \<Rightarrow> fields res" where
  "skip_update_step env step_id reason = transition_update_step env step_id ''skipped'' reason None"

fun skip_from :: "string \<Rightarrow> string option \<Rightarrow> bool \<Rightarrow> time \<Rightarrow> update_step list \<Rightarrow> update_step list" where
  "skip_from reason after started now [] = []"
| "skip_from reason after started now (st # steps) =
     (if after = Some (us_id st) then st # skip_from reason after True now steps
      else (if started \<and> us_status st = ''pending''
            then st\<lparr>us_status := ''skipped'', us_message := reason, us_started_at := Some now, us_finished_at := Some now\<rparr>
            else st) # skip_from reason after started now steps)"

definition skip_remaining_update_steps ::
  "text_env \<Rightarrow> string \<Rightarrow> string option \<Rightarrow> time \<Rightarrow> json option \<Rightarrow> fields" where
  "skip_remaining_update_steps env reason after now content =
     (let state = read_update_request env content;
          steps = skip_from reason after (after = None) now (read_steps env content)
      in write_update_request env now
           (merge_fields state [(''steps'', steps_json steps),
              (''progress'', JInt (int (round_div (completed_steps steps * 100) (length update_step_ids))))]))"

section \<open>Running operations and their admission\<close>

definition blocking_states :: "string list" where
  "blocking_states = [''waiting'', ''preparing'', ''running'']"

definition update_blocks_operations :: "text_env \<Rightarrow> json option \<Rightarrow> bool" where
  "update_blocks_operations env content =
     (text_or env (field (read_update_request env content) ''state'') [] \<in> set blocking_states)"

text \<open>The admission of an operation: nothing, or the refusal with its code.\<close>

definition operation_admission :: "text_env \<Rightarrow> json option \<Rightarrow> unit res" where
  "operation_admission env content =
     (if text_or env (field (read_update_request env content) ''state'') [] \<in> set blocking_states
      then Inl (HTTPException 409 ''UPDATE_IN_PROGRESS'') else Inr ())"

record operation =
  op_id :: string
  op_type :: string
  op_status :: string
  op_started_at :: "real option"
  op_finished_at :: "real option"
  op_progress :: "int option"
  op_description :: string
  op_user_id :: string
  op_source :: string

text \<open>Operations that live in memory only, by identifier in the order they began.\<close>

definition begin_transient_operation ::
  "text_env \<Rightarrow> json option \<Rightarrow> string \<Rightarrow> string \<Rightarrow> string \<Rightarrow> string \<Rightarrow> time \<Rightarrow> operation list \<Rightarrow> operation list res" where
  "begin_transient_operation env content new_id operation_type description user_id now ops =
     rbind (operation_admission env content) (\<lambda>_.
       Inr (filter (\<lambda>x. op_id x \<noteq> new_id) ops @
         [\<lparr>op_id = new_id, op_type = operation_type, op_status = ''running'', op_started_at = Some now,
           op_finished_at = None, op_progress = None, op_description = description,
           op_user_id = user_id, op_source = []\<rparr>]))"

definition finish_transient_operation :: "string \<Rightarrow> operation list \<Rightarrow> operation list" where
  "finish_transient_operation oid ops = filter (\<lambda>x. op_id x \<noteq> oid) ops"

text \<open>\<open>d.get(a) or d.get(b) or ..\<close>, as text.\<close>

fun first_text :: "text_env \<Rightarrow> fields \<Rightarrow> string list \<Rightarrow> string \<Rightarrow> string" where
  "first_text env d [] dflt = dflt"
| "first_text env d (k # ks) dflt =
     (if json_truthy (field d k) then py_str env (field d k) else first_text env d ks dflt)"

text \<open>\<open>float(v)\<close> and \<open>int(v)\<close> of a value that is given, failing as Python does.\<close>

definition py_float :: "text_env \<Rightarrow> json \<Rightarrow> real option res" where
  "py_float env v = (case v of
     JNull \<Rightarrow> Inr None | JBool b \<Rightarrow> Inr (Some (if b then 1 else 0)) | JInt i \<Rightarrow> Inr (Some (of_int i))
   | JFloat r \<Rightarrow> Inr (Some r)
   | JStr s \<Rightarrow> (case te_float env s of None \<Rightarrow> Inl (ValueError s) | Some r \<Rightarrow> Inr (Some r))
   | _ \<Rightarrow> Inl TypeError)"

definition py_int_value :: "text_env \<Rightarrow> json \<Rightarrow> int option res" where
  "py_int_value env v = (case v of
     JNull \<Rightarrow> Inr None | JBool b \<Rightarrow> Inr (Some (if b then 1 else 0)) | JInt i \<Rightarrow> Inr (Some i)
   | JFloat r \<Rightarrow> Inr (Some (truncate_real r))
   | JStr s \<Rightarrow> (case te_int env s of None \<Rightarrow> Inl (ValueError s) | Some i \<Rightarrow> Inr (Some i))
   | _ \<Rightarrow> Inl TypeError)"

definition normalize_operation :: "text_env \<Rightarrow> string \<Rightarrow> fields \<Rightarrow> operation option res" where
  "normalize_operation env provider value =
     (let status = text_or env (field value ''status'') []
      in if status \<notin> {''queued'', ''running''} then Inr None
         else rbind (py_float env (field value ''started_at'')) (\<lambda>started.
              rbind (py_float env (field value ''finished_at'')) (\<lambda>finished.
              rbind (py_int_value env (field value ''progress'')) (\<lambda>progress.
              Inr (Some \<lparr>op_id = first_text env value [''id''] (provider @ ''-unknown''),
                op_type = first_text env value [''type'', ''operation'', ''action''] provider,
                op_status = status, op_started_at = started, op_finished_at = finished,
                op_progress = progress,
                op_description = first_text env value [''description'', ''current_step'', ''stage''] [],
                op_user_id = first_text env value [''user_id'', ''username'', ''created_by'', ''requested_by''] [],
                op_source = provider\<rparr>)))))"

definition unavailable_registry :: "string \<Rightarrow> time \<Rightarrow> operation" where
  "unavailable_registry name now =
     \<lparr>op_id = name @ ''-registry-unavailable'', op_type = name @ ''.registry'', op_status = ''running'',
      op_started_at = Some now, op_finished_at = None, op_progress = None,
      op_description = ''Nie mozna potwierdzic stanu zadan tego modulu.'', op_user_id = [], op_source = name\<rparr>"

text \<open>
  The operations of one provider: those normalized before the provider or a value fails, and then
  one that says so (its text without the letters outside the first 256 code points). A provider's
  answer is the values it yields and whether it fails after them.
\<close>

fun provider_operations :: "text_env \<Rightarrow> string \<Rightarrow> time \<Rightarrow> fields list \<Rightarrow> bool \<Rightarrow> operation list" where
  "provider_operations env name now [] fails = (if fails then [unavailable_registry name now] else [])"
| "provider_operations env name now (v # vs) fails =
     (case normalize_operation env name v of
        Inl _ \<Rightarrow> [unavailable_registry name now]
      | Inr None \<Rightarrow> provider_operations env name now vs fails
      | Inr (Some o1) \<Rightarrow> o1 # provider_operations env name now vs fails)"

definition codes_of :: "string \<Rightarrow> nat list" where
  "codes_of s = map of_char s"

definition operation_key :: "operation \<Rightarrow> real \<times> nat list \<times> nat list" where
  "operation_key o1 = ((case op_started_at o1 of None \<Rightarrow> 0 | Some t \<Rightarrow> t), codes_of (op_source o1), codes_of (op_id o1))"

definition active_operations ::
  "text_env \<Rightarrow> time \<Rightarrow> (string \<times> fields list \<times> bool) list \<Rightarrow> operation list" where
  "active_operations env now providers =
     sort_key operation_key
       (concat (map (\<lambda>(name, values, fails). provider_operations env name now values fails) providers))"

section \<open>Dictionaries\<close>

lemma map_of_dict_set: "map_of (dict_set k v d) = (map_of d)(k \<mapsto> v)"
  by (induction k v d rule: dict_set.induct) auto

lemma field_dict_set: "field (dict_set k v d) k' = (if k' = k then v else field d k')"
  by (simp add: field_def map_of_dict_set)

lemma field_set_field: "field (set_field k f d) k' = (if k' = k then f (field d k) else field d k')"
  by (simp add: set_field_def field_dict_set)

lemma map_of_set_field: "map_of (set_field k f d) k' = None \<longleftrightarrow> k' \<noteq> k \<and> map_of d k' = None"
  by (simp add: set_field_def map_of_dict_set)

lemma distinct_set_field: "distinct (map fst d) \<Longrightarrow> distinct (map fst (set_field k f d))"
  by (simp add: set_field_def distinct_dict_set)

lemma merge_simps [simp]:
  "merge_fields d [] = d" "merge_fields d ((k, v) # kvs) = merge_fields (dict_set k v d) kvs"
  by (simp_all add: merge_fields_def)

lemma distinct_merge: "distinct (map fst d) \<Longrightarrow> distinct (map fst (merge_fields d kvs))"
  by (induction kvs arbitrary: d) (auto simp: distinct_dict_set)

lemma map_of_merge:
  "distinct (map fst kvs) \<Longrightarrow>
     map_of (merge_fields d kvs) k = (case map_of kvs k of None \<Rightarrow> map_of d k | Some v \<Rightarrow> Some v)"
proof (induction kvs arbitrary: d)
  case (Cons kv kvs)
  obtain a b where kv: "kv = (a, b)" by force
  with Cons.prems have "map_of kvs a = None" by (simp add: map_of_eq_None_iff)
  with Cons show ?case by (cases "k = a") (auto simp: kv map_of_dict_set split: option.splits)
qed simp

lemma field_merge:
  assumes "distinct (map fst kvs)" and "k \<in> fst ` set kvs"
  shows "field (merge_fields d kvs) k = field kvs k"
proof -
  obtain v where "map_of kvs k = Some v" using assms(2) by (metis not_Some_eq map_of_eq_None_iff)
  with map_of_merge [OF assms(1)] show ?thesis by (simp add: field_def)
qed

lemma distinct_default: "distinct (map fst default_update_request)"
  by (simp add: default_update_request_def)

lemma distinct_normalize: "distinct (map fst (normalize_update_request env d))"
  by (simp add: normalize_update_request_def distinct_set_field distinct_merge distinct_default)

lemma distinct_read: "distinct (map fst (read_update_request env content))"
  by (auto simp: read_update_request_def distinct_normalize distinct_default split: option.splits json.splits)

lemma map_of_merge_some: "map_of d k \<noteq> None \<Longrightarrow> map_of (merge_fields d kvs) k \<noteq> None"
  by (induction kvs arbitrary: d) (auto simp: map_of_dict_set)

section \<open>What a normalized request holds\<close>

lemma normalize_fields:
  "field (normalize_update_request env d) ''steps''
     = steps_json (normalize_steps env (field (merge_fields default_update_request d) ''steps''))"
  "field (normalize_update_request env d) ''state'' = field (merge_fields default_update_request d) ''state''"
  "field (normalize_update_request env d) ''progress''
     = JInt (min 100 (safe_nonnegative_int env 0 (field (merge_fields default_update_request d) ''progress'')))"
  by (simp_all add: normalize_update_request_def field_set_field)

lemma write_fields:
  assumes "distinct (map fst d)" and "k \<in> fst ` set d" and "k \<in> {''steps'', ''state'', ''progress''}"
  shows "field (write_update_request env now d) k =
     (if k = ''steps'' then steps_json (normalize_steps env (field d k))
      else if k = ''state'' then field d k
      else JInt (min 100 (safe_nonnegative_int env 0 (field d k))))"
  using assms field_merge [OF assms(1,2), of default_update_request]
  by (auto simp: write_update_request_def field_dict_set normalize_fields)

lemma distinct_write: "distinct (map fst (write_update_request env now d))"
  by (simp add: write_update_request_def distinct_dict_set distinct_normalize)

lemma request_keys:
  assumes "k \<in> {''steps'', ''state'', ''progress''}"
  shows "k \<in> fst ` set (normalize_update_request env d)"
proof -
  have "map_of default_update_request k \<noteq> None"
    using assms by (auto simp: default_update_request_def)
  then have "map_of (merge_fields default_update_request d) k \<noteq> None" by (rule map_of_merge_some)
  then have "map_of (normalize_update_request env d) k \<noteq> None"
    by (simp add: normalize_update_request_def map_of_set_field)
  then show ?thesis by (simp add: map_of_eq_None_iff)
qed

lemma read_keys:
  "k \<in> {''steps'', ''state'', ''progress''} \<Longrightarrow> k \<in> fst ` set (read_update_request env content)"
  using request_keys
  by (auto simp: read_update_request_def default_update_request_def split: option.splits json.splits)

section \<open>Steps survive being written and read\<close>

definition steps_ok :: "update_step list \<Rightarrow> bool" where
  "steps_ok steps \<longleftrightarrow> map us_id steps = update_step_ids \<and> list_all (\<lambda>s. us_status s \<in> set step_statuses) steps"

definition step_fields :: "update_step \<Rightarrow> fields" where
  "step_fields st = (case step_json st of JObj kvs \<Rightarrow> kvs | _ \<Rightarrow> [])"

lemma supplied_steps_json:
  assumes "\<forall>st \<in> set steps. us_id st \<noteq> []"
  shows "supplied_steps env (steps_json steps) = rev (map (\<lambda>st. (us_id st, step_fields st)) steps)"
  using assms
  by (induction steps)
    (auto simp: supplied_steps_def steps_json_def step_json_def step_fields_def field_def py_str_def)

lemma normalize_step_ids: "us_id (normalize_step env supplied st) = us_id st"
  by (simp add: normalize_step_def Let_def split: option.splits)

lemma ids_normalize_steps: "map us_id (normalize_steps env v) = update_step_ids"
  by (simp add: normalize_steps_def normalize_step_ids default_update_steps_def o_def)

lemma status_normalize_step: "us_status st \<in> set step_statuses \<Longrightarrow> us_status (normalize_step env supplied st) \<in> set step_statuses"
  by (auto simp: normalize_step_def Let_def step_statuses_def split: option.splits)

lemma steps_ok_normalize: "steps_ok (normalize_steps env v)"
  using ids_normalize_steps [of env v]
  by (auto simp: steps_ok_def normalize_steps_def list_all_iff default_update_steps_def
      intro!: status_normalize_step) (simp add: step_statuses_def)

lemma distinct_step_ids: "distinct update_step_ids" "[] \<notin> set update_step_ids"
  by (simp_all add: update_step_ids_def)

lemma statuses_survive:
  assumes "steps_ok steps"
  shows "map us_status (normalize_steps env (steps_json steps)) = map us_status steps"
proof -
  have ids: "map us_id steps = update_step_ids" using assms by (simp add: steps_ok_def)
  have nonempty: "\<forall>st \<in> set steps. us_id st \<noteq> []"
    using distinct_step_ids(2) ids by (metis list.set_map image_eqI)
  let ?sup = "supplied_steps env (steps_json steps)"
  have at: "us_status (normalize_step env ?sup \<lparr>us_id = us_id st, us_status = ''pending'', us_message = [],
     us_started_at = None, us_finished_at = None, us_error = None\<rparr>) = us_status st" if "st \<in> set steps" for st
  proof -
    let ?L = "map (\<lambda>st. (us_id st, step_fields st)) steps"
    have "distinct (map fst ?L)" using ids distinct_step_ids(1) by (simp add: o_def)
    then have "distinct (map fst (rev ?L))" by (simp flip: rev_map)
    then have "map_of (rev ?L) (us_id st) = Some (step_fields st)"
      using that by (intro map_of_is_SomeI) auto
    then have "map_of ?sup (us_id st) = Some (step_fields st)"
      by (simp add: supplied_steps_json [OF nonempty])
    moreover have "us_status st \<in> set step_statuses" using assms that by (auto simp: steps_ok_def list_all_iff)
    then have "us_status st \<noteq> [] \<and> us_status st \<in> set step_statuses" by (auto simp: step_statuses_def)
    ultimately show ?thesis
      by (simp add: normalize_step_def Let_def step_fields_def step_json_def text_or_def field_def py_str_def)
  qed
  show ?thesis
    using at unfolding normalize_steps_def default_update_steps_def ids [symmetric] by simp
qed

lemma read_steps_ok: "steps_ok (read_steps env content)"
proof -
  have "steps_ok default_update_steps"
    by (simp add: steps_ok_def default_update_steps_def o_def list_all_iff step_statuses_def)
  then show ?thesis
    by (auto simp: read_steps_def steps_ok_normalize split: option.splits json.splits)
qed

lemma field_default_steps: "field default_update_request ''steps'' = steps_json default_update_steps"
  by (simp add: field_def default_update_request_def)

lemma field_read_steps: "field (read_update_request env content) ''steps'' = steps_json (read_steps env content)"
  by (auto simp: read_update_request_def read_steps_def normalize_fields field_default_steps
      split: option.splits json.splits)

lemma read_written:
  assumes "distinct (map fst d)" and "''steps'' \<in> fst ` set d" and "field d ''steps'' = steps_json steps"
    and "steps_ok steps"
  shows "map us_status (read_steps env (Some (JObj (write_update_request env now d)))) = map us_status steps"
    and "map us_id (read_steps env (Some (JObj (write_update_request env now d)))) = update_step_ids"
proof -
  let ?w = "write_update_request env now d"
  have w: "field ?w ''steps'' = steps_json (normalize_steps env (steps_json steps))"
    using write_fields [OF assms(1,2)] assms(3) by simp
  have "''steps'' \<in> fst ` set ?w"
    using request_keys [of "''steps''" env d] by (simp add: write_update_request_def dict_set_keys)
  then have "field (merge_fields default_update_request ?w) ''steps'' = field ?w ''steps''"
    by (rule field_merge [OF distinct_write])
  then show "map us_status (read_steps env (Some (JObj ?w))) = map us_status steps"
    using statuses_survive [OF steps_ok_normalize, of env env] statuses_survive [OF assms(4), of env]
    by (simp add: read_steps_def w)
  show "map us_id (read_steps env (Some (JObj ?w))) = update_step_ids"
    using read_steps_ok by (simp add: steps_ok_def)
qed

lemma us_move_step: "us_id (move_step status message error now st) = us_id st"
    "us_status (move_step status message error now st) = status"
  by (simp_all add: move_step_def Let_def split: option.splits)

lemma completed_by_status:
  "completed_steps steps = length (filter (\<lambda>s. s \<in> {''success'', ''skipped''}) (map us_status steps))"
  by (simp add: completed_steps_def filter_map o_def)

lemma progress_bound: "update_progress_of steps \<le> 100"
proof (cases "length steps = 0")
  case True
  then show ?thesis by (simp add: update_progress_of_def completed_steps_def round_div_def)
next
  case False
  then have n: "0 < length steps" by simp
  have "completed_steps steps \<le> length steps" by (simp add: completed_steps_def)
  show ?thesis
  proof (rule ccontr)
    assume "\<not> ?thesis"
    then have "2 * (length steps * 101) \<le> 2 * (length steps * update_progress_of steps)" by simp
    also have "\<dots> \<le> 2 * (completed_steps steps * 100) + length steps"
      unfolding update_progress_of_def by (rule round_div_bounds(1) [OF n])
    also have "\<dots> \<le> 2 * (length steps * 100) + length steps"
      using \<open>completed_steps steps \<le> length steps\<close> by simp
    finally show False using n by simp
  qed
qed

lemma move_state_keys:
  "distinct (map fst d) \<Longrightarrow> distinct (map fst (move_state i status message now d))"
  "map_of d k \<noteq> None \<Longrightarrow> map_of (move_state i status message now d) k \<noteq> None"
  unfolding move_state_def by (rule distinct_merge, assumption, rule map_of_merge_some)

lemma state_message_fields: "field (merge_fields d (message_fields message)) ''state'' = field d ''state''"
  by (simp add: message_fields_def field_dict_set split: option.split)

lemma move_state_state:
  "field (move_state i ''running'' message now d) ''state'' \<in> {JStr ''running'', JStr ''waiting''}"
  "field (move_state i ''failed'' message now d) ''state'' = JStr ''failed''"
proof -
  have waiting: "v = JStr t" if "json_eq v (JStr t)" for v t using that by (cases v) auto
  have app: "merge_fields d (a @ b) = merge_fields (merge_fields d a) b" for a b
    by (simp add: merge_fields_def)
  show "field (move_state i ''running'' message now d) ''state'' \<in> {JStr ''running'', JStr ''waiting''}"
    using waiting by (auto simp: move_state_def app state_message_fields moved_fields_def field_dict_set)
  show "field (move_state i ''failed'' message now d) ''state'' = JStr ''failed''"
    by (simp add: move_state_def app state_message_fields moved_fields_def field_dict_set)
qed

lemma by_columns:
  "map (\<lambda>st. if us_id st = i then s else us_status st) xs
    = map (\<lambda>(a, b). if a = i then s else b) (zip (map us_id xs) (map us_status xs))"
  by (induction xs) auto

text \<open>What a transition writes.\<close>

lemma transition_written:
  assumes "step_id \<in> set update_step_ids" and "status \<in> set step_statuses"
  obtains d steps where
    "transition_update_step env step_id status message error now content = Inr (write_update_request env now d)"
    and "distinct (map fst d)" and "{''steps'', ''state'', ''progress''} \<subseteq> fst ` set d"
    and "field d ''steps'' = steps_json steps" and "steps_ok steps"
    and "map us_status steps = map (\<lambda>st. if us_id st = step_id then status else us_status st) (read_steps env content)"
    and "field d ''progress'' = JInt (int (update_progress_of steps))"
    and "field d ''state'' = field (move_state step_id status message now (read_update_request env content)) ''state''"
proof -
  define state where "state = read_update_request env content"
  define steps where "steps = map (\<lambda>st. if us_id st = step_id then move_step status message error now st else st)
                         (normalize_steps env (field state ''steps''))"
  define moved where "moved = move_state step_id status message now state"
  define d where "d = merge_fields moved [(''progress'', JInt (int (update_progress_of steps))),
                                     (''steps'', steps_json steps)]"
  let ?before = "normalize_steps env (field state ''steps'')"
  have before: "map us_status ?before = map us_status (read_steps env content)" "map us_id ?before = map us_id (read_steps env content)"
    using statuses_survive [OF read_steps_ok] read_steps_ok [of env content] ids_normalize_steps
    by (simp_all add: state_def field_read_steps steps_ok_def)
  have ids: "map us_id steps = update_step_ids"
    using ids_normalize_steps [of env "field state ''steps''"]
    by (simp add: steps_def o_def if_distrib us_move_step cong: if_cong)
  have stat: "map us_status steps = map (\<lambda>st. if us_id st = step_id then status else us_status st) ?before"
    by (simp add: steps_def us_move_step)
  have same: "map (\<lambda>st. if us_id st = step_id then status else us_status st) xs
      = map (\<lambda>st. if us_id st = step_id then status else us_status st) ys"
    if "map us_status xs = map us_status ys" "map us_id xs = map us_id ys" for xs ys :: "update_step list"
    by (simp only: by_columns that)
  have ok: "steps_ok steps"
    using ids assms(2) steps_ok_normalize [of env "field state ''steps''"]
    by (auto simp: steps_ok_def list_all_iff steps_def us_move_step)
  have moved_keys: "distinct (map fst moved)" "map_of state k \<noteq> None \<Longrightarrow> map_of moved k \<noteq> None" for k
    unfolding moved_def state_def by (rule move_state_keys distinct_read, assumption?)+
  have "map_of state ''state'' \<noteq> None"
    using read_keys [of "''state''" env content] by (auto simp: state_def map_of_eq_None_iff)
  from moved_keys(2) [OF this] have "''state'' \<in> fst ` set moved" by (simp add: map_of_eq_None_iff)
  then have keys: "{''steps'', ''state'', ''progress''} \<subseteq> fst ` set d"
    by (simp add: d_def dict_set_keys)
  have "transition_update_step env step_id status message error now content = Inr (write_update_request env now d)"
    using assms by (simp add: transition_update_step_def Let_def d_def moved_def steps_def state_def)
  moreover have "distinct (map fst d)" using moved_keys(1) by (simp add: d_def distinct_dict_set)
  ultimately show thesis
    using keys ok stat same [OF before]
    by (intro that [of d steps]) (simp_all add: d_def field_dict_set moved_def state_def)
qed


text \<open>
  C37. A running update keeps new operations out and a failed one lets them in: once a step is
  started, whatever the file held before, every admission is refused with status 409, and once a
  step is marked failed on that file, admissions succeed again.
\<close>

theorem update_blocks_admission:
  assumes "step_id \<in> set update_step_ids" and "failing \<in> set update_step_ids"
  shows "\<exists>s1 s2. start_update_step env step_id message now content = Inr s1
    \<and> operation_admission env (Some (JObj s1)) = Inl (HTTPException 409 ''UPDATE_IN_PROGRESS'')
    \<and> fail_update_step env failing error later (Some (JObj s1)) = Inr s2
    \<and> operation_admission env (Some (JObj s2)) = Inr ()"
proof -
  have read_back: "field (read_update_request env (Some (JObj (write_update_request env now d)))) ''state'' = field d ''state''"
    if "distinct (map fst d)" "''state'' \<in> fst ` set d" for now d
  proof -
    have "''state'' \<in> fst ` set (write_update_request env now d)"
      using request_keys [of "''state''" env d] by (simp add: write_update_request_def dict_set_keys)
    then show ?thesis
      using field_merge [OF distinct_write, of "''state''" env now d default_update_request]
        write_fields [OF that, of env now]
      by (simp add: read_update_request_def normalize_fields)
  qed
  have st: "''running'' \<in> set step_statuses" "''failed'' \<in> set step_statuses"
    by (simp_all add: step_statuses_def)
  obtain d1 where d1: "start_update_step env step_id message now content = Inr (write_update_request env now d1)"
    "distinct (map fst d1)" "{''steps'', ''state'', ''progress''} \<subseteq> fst ` set d1"
    "field d1 ''state'' = field (move_state step_id ''running'' message now (read_update_request env content)) ''state''"
    by (rule transition_written [OF assms(1) st(1), where env = env and message = message and error = None
          and now = now and content = content]) (simp add: start_update_step_def that)
  let ?s1 = "write_update_request env now d1"
  obtain d2 where d2: "fail_update_step env failing error later (Some (JObj ?s1)) = Inr (write_update_request env later d2)"
    "distinct (map fst d2)" "{''steps'', ''state'', ''progress''} \<subseteq> fst ` set d2"
    "field d2 ''state'' = field (move_state failing ''failed'' (Some error) later (read_update_request env (Some (JObj ?s1)))) ''state''"
    by (rule transition_written [OF assms(2) st(2), where env = env and message = "Some error"
          and error = "Some error" and now = later and content = "Some (JObj ?s1)"])
      (simp add: fail_update_step_def that)
  have in1: "''state'' \<in> fst ` set d1" and in2: "''state'' \<in> fst ` set d2" using d1(3) d2(3) by blast+
  have "field d1 ''state'' \<in> {JStr ''running'', JStr ''waiting''}"
    unfolding d1(4) by (rule move_state_state)
  then have "operation_admission env (Some (JObj ?s1)) = Inl (HTTPException 409 ''UPDATE_IN_PROGRESS'')"
    using read_back [OF d1(2) in1, of now]
    by (auto simp: operation_admission_def text_or_def py_str_def blocking_states_def)
  moreover have "field d2 ''state'' = JStr ''failed''"
    unfolding d2(4) by (rule move_state_state)
  then have "operation_admission env (Some (JObj (write_update_request env later d2))) = Inr ()"
    using read_back [OF d2(2) in2, of later]
    by (simp add: operation_admission_def text_or_def py_str_def blocking_states_def)
  ultimately show ?thesis using d1(1) d2(1) by blast
qed

definition demo_env :: text_env where
  "demo_env = \<lparr>te_str = (\<lambda>_. ''None''), te_float = (\<lambda>_. None), te_int = (\<lambda>_. None)\<rparr>"


theorem update_blocks_admission_witness:
  "\<exists>s1 s2. start_update_step demo_env ''prepare'' None 5 None = Inr s1
    \<and> operation_admission demo_env (Some (JObj s1)) = Inl (HTTPException 409 ''UPDATE_IN_PROGRESS'')
    \<and> fail_update_step demo_env ''download_version'' ''timeout'' 6 (Some (JObj s1)) = Inr s2
    \<and> operation_admission demo_env (Some (JObj s2)) = Inr ()"
  by (rule update_blocks_admission) (simp_all add: update_step_ids_def)

end
