(* ===== verification/Cron_Schedule.thy ===== *)
theory Cron_Schedule
  imports Prelude
begin

text \<open>
  Cron expressions, \<^verbatim>\<open>modules/cron/schedule.py\<close>: the parser of the five fields, the
  match of a local time, and the search for the next occurrence. A time zone is two functions: the
  UTC offset of a local time (with its fold) and the local time of an instant; \<open>zone_laws\<close> states
  what PEP 495 documents of them. Instants and local times are whole seconds, days are proleptic
  Gregorian ordinals as in \<^verbatim>\<open>datetime.date\<close>.
\<close>

section \<open>Fields\<close>

record cron_field =
  cf_values :: "nat set"
  cf_wildcard :: bool

record cron_fields =
  cx_minute :: cron_field
  cx_hour :: cron_field
  cx_day_of_month :: cron_field
  cx_month :: cron_field
  cx_day_of_week :: cron_field

text \<open>The five fields are \<open>None\<close> in exactly the \<^verbatim>\<open>@reboot\<close> expression.\<close>

record cron_expression =
  ce_source :: string
  ce_fields :: "cron_fields option"

definition month_names :: "(string \<times> nat) list" where
  "month_names = [(''jan'', 1), (''feb'', 2), (''mar'', 3), (''apr'', 4), (''may'', 5), (''jun'', 6),
     (''jul'', 7), (''aug'', 8), (''sep'', 9), (''oct'', 10), (''nov'', 11), (''dec'', 12)]"

definition weekday_names :: "(string \<times> nat) list" where
  "weekday_names = [(''sun'', 0), (''mon'', 1), (''tue'', 2), (''wed'', 3), (''thu'', 4), (''fri'', 5),
     (''sat'', 6)]"

definition cron_aliases :: "(string \<times> string) list" where
  "cron_aliases = [(''@yearly'', ''0 0 1 1 *''), (''@annually'', ''0 0 1 1 *''),
     (''@monthly'', ''0 0 1 * *''), (''@weekly'', ''0 0 * * 0''), (''@daily'', ''0 0 * * *''),
     (''@midnight'', ''0 0 * * *''), (''@hourly'', ''0 * * * *'')]"

definition cron_number :: "string \<Rightarrow> (string \<times> nat) list \<Rightarrow> nat \<Rightarrow> nat \<Rightarrow> nat res" where
  "cron_number v names lo hi =
     rbind (case map_of names v of
              Some n \<Rightarrow> Inr n
            | None \<Rightarrow>
                if length v \<in> {1, 2} \<and> list_all is_digit v then Inr (nat_of_digits v)
                else Inl (ValueError (''invalid cron field value: '' @ v)))
       (\<lambda>n. if n < lo \<or> hi < n then Inl (ValueError ''cron field value is outside the range'')
             else Inr n)"

text \<open>\<open>range(start, stop, step)\<close> for a positive step.\<close>

definition py_range :: "nat \<Rightarrow> nat \<Rightarrow> nat \<Rightarrow> nat list" where
  "py_range start stop step = map (\<lambda>k. start + k * step) [0..<(stop - start + step - 1) div step]"

definition part_step :: "bool \<Rightarrow> string \<Rightarrow> nat \<Rightarrow> nat \<Rightarrow> nat res" where
  "part_step separator t lo hi =
     (if \<not> separator then Inr 1
      else if t = [] \<or> \<not> list_all is_digit t then Inl (ValueError ''cron step must be a positive integer'')
      else if nat_of_digits t < 1 \<or> hi - lo + 1 < nat_of_digits t
      then Inl (ValueError ''cron step is outside the field range'')
      else Inr (nat_of_digits t))"

definition part_bounds ::
  "bool \<Rightarrow> string \<Rightarrow> (string \<times> nat) list \<Rightarrow> nat \<Rightarrow> nat \<Rightarrow> (nat \<times> nat) res" where
  "part_bounds separator base names lo hi =
     (if base = ''*'' then Inr (lo, hi)
      else (case py_partition CHR ''-'' base of
        (left, True, right) \<Rightarrow>
          rbind (cron_number left names lo hi) (\<lambda>a.
          rbind (cron_number right names lo hi) (\<lambda>b.
            if b < a then Inl (ValueError ''cron ranges must be ascending'') else Inr (a, b)))
      | (_, False, _) \<Rightarrow>
          if separator then Inl (ValueError ''a cron step requires * or an explicit range'')
          else rbind (cron_number base names lo hi) (\<lambda>a. Inr (a, a))))"

definition part_values :: "string \<Rightarrow> (string \<times> nat) list \<Rightarrow> nat \<Rightarrow> nat \<Rightarrow> nat list res" where
  "part_values part names lo hi =
     (if part = [] then Inl (ValueError ''cron lists cannot contain empty values'')
      else (case py_partition CHR ''/'' part of
        (base, separator, t) \<Rightarrow>
          rbind (part_step separator t lo hi) (\<lambda>step.
          rbind (part_bounds separator base names lo hi) (\<lambda>(a, b).
            Inr (py_range a (b + 1) step)))))"

definition field_values :: "string \<Rightarrow> (string \<times> nat) list \<Rightarrow> nat \<Rightarrow> nat \<Rightarrow> nat set res" where
  "field_values v names lo hi =
     rfold (\<lambda>part vs. rbind (part_values part names lo hi) (\<lambda>new. Inr (vs \<union> set new)))
       (py_split CHR '','' v) {}"

definition normalize_weekdays :: "nat set \<Rightarrow> nat set" where
  "normalize_weekdays vs = (if 7 \<in> vs then insert 0 (vs - {7}) else vs)"

definition parse_field :: "string \<Rightarrow> nat \<Rightarrow> nat \<Rightarrow> (string \<times> nat) list \<Rightarrow> bool \<Rightarrow> cron_field res" where
  "parse_field v lo hi names weekday =
     (if v = [] \<or> list_ex is_space v then Inl (ValueError ''cron fields cannot be empty'')
      else rbind (field_values v names lo hi) (\<lambda>vs.
        let ws = (if weekday then normalize_weekdays vs else vs)
        in if ws = {} then Inl (ValueError ''cron field does not select any values'')
           else Inr \<lparr>cf_values = ws, cf_wildcard = v = ''*'' \<or> take 2 v = ''*/''\<rparr>))"

section \<open>Expressions\<close>

text \<open>\<open>" ".join(s.strip().lower().split())\<close>; \<open>split()\<close> drops what \<open>strip()\<close> would.\<close>

definition normalize_schedule :: "string \<Rightarrow> string" where
  "normalize_schedule s = py_join CHR '' '' (py_split_ws (ascii_lower (py_strip s)))"

definition parse_cron :: "string \<Rightarrow> cron_expression res" where
  "parse_cron expression =
     (let normalized = normalize_schedule expression in
      if normalized = ''@reboot'' then Inr \<lparr>ce_source = normalized, ce_fields = None\<rparr>
      else let expanded = (case map_of cron_aliases normalized of Some s \<Rightarrow> s | None \<Rightarrow> normalized)
      in (case py_split_ws expanded of
        [f0, f1, f2, f3, f4] \<Rightarrow>
          rbind (parse_field f0 0 59 [] False) (\<lambda>minute.
          rbind (parse_field f1 0 23 [] False) (\<lambda>hour.
          rbind (parse_field f2 1 31 [] False) (\<lambda>day.
          rbind (parse_field f3 1 12 month_names False) (\<lambda>month.
          rbind (parse_field f4 0 7 weekday_names True) (\<lambda>weekday.
            Inr \<lparr>ce_source = py_join CHR '' '' [f0, f1, f2, f3, f4],
              ce_fields = Some \<lparr>cx_minute = minute, cx_hour = hour, cx_day_of_month = day,
                cx_month = month, cx_day_of_week = weekday\<rparr>\<rparr>)))))
      | _ \<Rightarrow> Inl (ValueError ''cron expression must contain exactly five fields or @reboot'')))"

section \<open>Dates and time zones\<close>

definition days_before_month :: "int list" where
  "days_before_month = [0, 0, 31, 59, 90, 120, 151, 181, 212, 243, 273, 304, 334]"

definition days_in_month :: "int list" where
  "days_in_month = [0, 31, 28, 31, 30, 31, 30, 31, 31, 30, 31, 30, 31]"

text \<open>Month and day of an ordinal: \<^verbatim>\<open>date.fromordinal\<close>.\<close>

definition month_and_day :: "int \<Rightarrow> nat \<times> nat" where
  "month_and_day ordinal =
     (let n = (ordinal - 1) mod 146097;
          n100 = n div 36524; n = n mod 36524;
          n4 = n div 1461; n = n mod 1461;
          n1 = n div 365; n = n mod 365
      in if n1 = 4 \<or> n100 = 4 then (12, 31)
         else let leap = (n1 = 3 \<and> (n4 \<noteq> 24 \<or> n100 = 3));
                  month = nat ((n + 50) div 32);
                  preceding = days_before_month ! month + (if 2 < month \<and> leap then 1 else 0)
              in if n < preceding
                 then let m = month - 1;
                          start = preceding - (days_in_month ! m + (if m = 2 \<and> leap then 1 else 0))
                      in (m, nat (n - start + 1))
                 else (month, nat (n - preceding + 1)))"

record time_zone =
  tz_offset :: "int \<Rightarrow> bool \<Rightarrow> int"
  tz_local :: "int \<Rightarrow> int \<times> bool"

text \<open>\<open>local.astimezone(UTC)\<close>, and the parts of a local time.\<close>

definition to_utc :: "time_zone \<Rightarrow> int \<times> bool \<Rightarrow> int" where
  "to_utc tz w = fst w - tz_offset tz (fst w) (snd w)"

definition local_day :: "int \<Rightarrow> int" where "local_day l = l div 86400"
definition local_hour :: "int \<Rightarrow> nat" where "local_hour l = nat (l mod 86400 div 3600)"
definition local_minute :: "int \<Rightarrow> nat" where "local_minute l = nat (l mod 3600 div 60)"

definition local_time :: "int \<Rightarrow> nat \<Rightarrow> nat \<Rightarrow> int" where
  "local_time day hour minute = day * 86400 + int hour * 3600 + int minute * 60"

text \<open>\<open>(weekday() + 1) % 7\<close>: ordinal 1 is a Monday.\<close>

definition cron_weekday :: "int \<Rightarrow> nat" where
  "cron_weekday day = nat (day mod 7)"

definition fields_match :: "cron_fields \<Rightarrow> int \<Rightarrow> bool" where
  "fields_match x l =
     (let (month, day) = month_and_day (local_day l);
          basic = local_minute l \<in> cf_values (cx_minute x) \<and> local_hour l \<in> cf_values (cx_hour x)
            \<and> month \<in> cf_values (cx_month x);
          day_match = day \<in> cf_values (cx_day_of_month x);
          weekday_match = cron_weekday (local_day l) \<in> cf_values (cx_day_of_week x)
      in if \<not> cf_wildcard (cx_day_of_month x) \<and> \<not> cf_wildcard (cx_day_of_week x)
         then basic \<and> (day_match \<or> weekday_match)
         else basic \<and> day_match \<and> weekday_match)"

definition cron_matches :: "cron_expression \<Rightarrow> int \<Rightarrow> bool" where
  "cron_matches e l = (case ce_fields e of None \<Rightarrow> False | Some x \<Rightarrow> fields_match x l)"

section \<open>The next occurrence\<close>

definition day_candidates ::
  "time_zone \<Rightarrow> cron_expression \<Rightarrow> cron_fields \<Rightarrow> int \<Rightarrow> int \<Rightarrow> (int \<times> bool) list" where
  "day_candidates tz e x threshold day =
     [w. hour \<leftarrow> sorted_list_of_set (cf_values (cx_hour x)),
         minute \<leftarrow> sorted_list_of_set (cf_values (cx_minute x)),
         late \<leftarrow> [False, True],
         w \<leftarrow> (let instant = to_utc tz (local_time day hour minute, late);
                      normalized = tz_local tz instant
                  in if local_day (fst normalized) = day \<and> local_hour (fst normalized) = hour
                       \<and> local_minute (fst normalized) = minute
                       \<and> threshold \<le> instant \<and> cron_matches e (fst normalized)
                     then [normalized] else [])]"

text \<open>The loop over the days from \<open>day\<close> on, \<open>n\<close> of them.\<close>

fun search_days ::
  "time_zone \<Rightarrow> cron_expression \<Rightarrow> cron_fields \<Rightarrow> int \<Rightarrow> int \<Rightarrow> nat \<Rightarrow> (int \<times> bool) option" where
  "search_days tz e x threshold day 0 = None"
| "search_days tz e x threshold day (Suc n) =
     (case day_candidates tz e x threshold day of
        [] \<Rightarrow> search_days tz e x threshold (day + 1) n
      | c # cs \<Rightarrow> Some (arg_min_list (to_utc tz) (c # cs)))"

definition next_threshold :: "int \<Rightarrow> int" where
  "next_threshold after = after div 60 * 60 + 60"

definition search_length :: "nat \<Rightarrow> nat" where
  "search_length years = 366 * max 1 years + 1"

text \<open>\<open>after\<close> is the instant asked about, or the current time.\<close>

definition next_occurrence ::
  "time_zone \<Rightarrow> string \<Rightarrow> int \<Rightarrow> nat \<Rightarrow> (int \<times> bool) option res" where
  "next_occurrence tz expression after years =
     rbind (parse_cron expression) (\<lambda>e.
       case ce_fields e of
         None \<Rightarrow> Inr None
       | Some x \<Rightarrow>
           let threshold = next_threshold after
           in Inr (search_days tz e x threshold (local_day (fst (tz_local tz threshold)))
                (search_length years)))"

section \<open>The values of a field\<close>

lemma py_range_bounds: "0 < step \<Longrightarrow> v \<in> set (py_range a b step) \<Longrightarrow> a \<le> v \<and> v < b"
proof -
  assume step: "0 < step" and "v \<in> set (py_range a b step)"
  then obtain k where k: "v = a + k * step" "k < (b - a + step - 1) div step"
    by (auto simp: py_range_def)
  from k(2) have "Suc k \<le> (b - a + step - 1) div step" by simp
  then have "Suc k * step \<le> b - a + step - 1"
    using step by (simp add: less_eq_div_iff_mult_less_eq)
  then have "k * step < b - a" using step by simp
  then show "a \<le> v \<and> v < b" using k(1) by simp
qed

lemma py_range_start: "0 < step \<Longrightarrow> a < b \<Longrightarrow> a \<in> set (py_range a b step)"
  unfolding py_range_def
  by (auto simp: image_iff div_greater_zero_iff intro!: bexI [of _ 0])

lemma part_step_Inr: "part_step sep t lo hi = Inr step \<Longrightarrow> 0 < step"
  by (auto simp: part_step_def split: if_splits)

lemma cron_number_Inr: "cron_number v names lo hi = Inr n \<Longrightarrow> lo \<le> n \<and> n \<le> hi"
  by (auto simp: cron_number_def res_iff)

lemma part_bounds_Inr:
  "part_bounds sep base names lo hi = Inr (a, b) \<Longrightarrow> lo \<le> hi \<Longrightarrow> lo \<le> a \<and> a \<le> b \<and> b \<le> hi"
  by (auto simp: part_bounds_def res_iff not_less dest!: cron_number_Inr
      split: if_splits prod.splits bool.splits)

lemma part_values_Inr:
  assumes "part_values part names lo hi = Inr vs" and "lo \<le> hi"
  shows "vs \<noteq> [] \<and> set vs \<subseteq> {lo..hi}"
proof -
  from assms(1) obtain base sep t step a b
    where step: "part_step sep t lo hi = Inr step"
      and ab: "part_bounds sep base names lo hi = Inr (a, b)"
      and vs: "vs = py_range a (b + 1) step"
    by (auto simp: part_values_def res_iff split: if_splits prod.splits)
  note pos = part_step_Inr [OF step] and bounds = part_bounds_Inr [OF ab assms(2)]
  show ?thesis
    using py_range_start [OF pos, of a "b + 1"] py_range_bounds [OF pos, of _ a "b + 1"] bounds
    unfolding vs by fastforce
qed

lemma field_values_range:
  assumes "field_values v names lo hi = Inr vs" and "lo \<le> hi"
  shows "vs \<subseteq> {lo..hi}"
  using assms(1) unfolding field_values_def
proof (rule rfold_invariant [where P = "\<lambda>vs. vs \<subseteq> {lo..hi}"])
  fix part s t
  assume "s \<subseteq> {lo..hi}"
    and "rbind (part_values part names lo hi) (\<lambda>new. Inr (s \<union> set new)) = Inr t"
  then show "t \<subseteq> {lo..hi}"
    using part_values_Inr [OF _ assms(2), of part names] by (auto simp: rbind_Inr_iff)
qed simp

lemma parse_field_Inr:
  assumes "parse_field v lo hi names weekday = Inr f"
  shows "\<exists>vs. field_values v names lo hi = Inr vs \<and> cf_values f \<noteq> {}
     \<and> cf_values f = (if weekday then normalize_weekdays vs else vs)"
  using assms by (auto simp: parse_field_def rbind_Inr_iff Let_def split: if_splits)

lemma normalize_weekdays_subset: "normalize_weekdays vs \<subseteq> insert 0 (vs - {7})"
  by (auto simp: normalize_weekdays_def)

lemma parse_field_range:
  assumes "parse_field v lo hi names weekday = Inr f" and "lo \<le> hi"
  shows "cf_values f \<noteq> {}
       \<and> cf_values f \<subseteq> (if weekday then insert 0 ({lo..hi} - {7}) else {lo..hi})"
proof -
  obtain vs where vs: "field_values v names lo hi = Inr vs" "cf_values f \<noteq> {}"
      "cf_values f = (if weekday then normalize_weekdays vs else vs)"
    using parse_field_Inr [OF assms(1)] by blast
  from field_values_range [OF vs(1) assms(2)] normalize_weekdays_subset [of vs] vs(2,3)
  show ?thesis by (cases weekday) auto
qed

text \<open>What the parser promises of the values of the five fields.\<close>

definition fields_ok :: "cron_fields \<Rightarrow> bool" where
  "fields_ok x \<longleftrightarrow>
     cf_values (cx_minute x) \<noteq> {} \<and> cf_values (cx_minute x) \<subseteq> {0..59}
   \<and> cf_values (cx_hour x) \<noteq> {} \<and> cf_values (cx_hour x) \<subseteq> {0..23}
   \<and> cf_values (cx_day_of_month x) \<noteq> {} \<and> cf_values (cx_day_of_month x) \<subseteq> {1..31}
   \<and> cf_values (cx_month x) \<noteq> {} \<and> cf_values (cx_month x) \<subseteq> {1..12}
   \<and> cf_values (cx_day_of_week x) \<noteq> {} \<and> cf_values (cx_day_of_week x) \<subseteq> {0..6}"

text \<open>The parser, taken apart once.\<close>

lemma parse_cron_cases:
  assumes "parse_cron s = Inr e"
  obtains "normalize_schedule s = ''@reboot''" "e = \<lparr>ce_source = ''@reboot'', ce_fields = None\<rparr>"
  | f0 f1 f2 f3 f4 x where
      "normalize_schedule s \<noteq> ''@reboot''"
      "py_split_ws (case map_of cron_aliases (normalize_schedule s) of Some t \<Rightarrow> t
         | None \<Rightarrow> normalize_schedule s) = [f0, f1, f2, f3, f4]"
      "parse_field f0 0 59 [] False = Inr (cx_minute x)"
      "parse_field f1 0 23 [] False = Inr (cx_hour x)"
      "parse_field f2 1 31 [] False = Inr (cx_day_of_month x)"
      "parse_field f3 1 12 month_names False = Inr (cx_month x)"
      "parse_field f4 0 7 weekday_names True = Inr (cx_day_of_week x)"
      "e = \<lparr>ce_source = py_join CHR '' '' [f0, f1, f2, f3, f4], ce_fields = Some x\<rparr>"
proof (cases "normalize_schedule s = ''@reboot''")
  case True
  then show ?thesis using assms that(1) by (simp add: parse_cron_def)
next
  case False
  from assms False that(2) [OF False] show ?thesis
    by (auto simp: parse_cron_def Let_def res_iff split: list.splits)
      (metis (no_types) cron_fields.select_convs)
qed

lemma parsed_fields_ok: "parse_cron s = Inr e \<Longrightarrow> ce_fields e = Some x \<Longrightarrow> fields_ok x"
proof (erule parse_cron_cases)
  fix f0 f1 f2 f3 f4 y
  assume f: "parse_field f0 0 59 [] False = Inr (cx_minute y)"
      "parse_field f1 0 23 [] False = Inr (cx_hour y)"
      "parse_field f2 1 31 [] False = Inr (cx_day_of_month y)"
      "parse_field f3 1 12 month_names False = Inr (cx_month y)"
      "parse_field f4 0 7 weekday_names True = Inr (cx_day_of_week y)"
    and "ce_fields e = Some x" "e = \<lparr>ce_source = py_join CHR '' '' [f0, f1, f2, f3, f4], ce_fields = Some y\<rparr>"
  then have "x = y" by simp
  moreover have "insert 0 ({0..7} - {7}) \<subseteq> {0..6::nat}" by auto
  ultimately show "fields_ok x"
    using f [THEN parse_field_range] unfolding fields_ok_def by auto
qed simp

section \<open>The source of an expression\<close>

lemma split_ws_from_spaces: "\<forall>c \<in> set u. is_space c \<Longrightarrow> split_ws_from w u = split_ws_from w []"
  by (induction u arbitrary: w) auto

lemma split_ws_from_trailing:
  "\<forall>c \<in> set u. is_space c \<Longrightarrow> split_ws_from w (s @ u) = split_ws_from w s"
  by (induction s arbitrary: w) (simp_all add: split_ws_from_spaces)

lemma split_ws_from_leading: "split_ws_from [] (dropWhile is_space s) = split_ws_from [] s"
  by (induction s) auto

lemma strip_trailing: "s = rev (dropWhile is_space (rev s)) @ rev (takeWhile is_space (rev s))"
  by (metis rev_append rev_rev_ident takeWhile_dropWhile_id)

lemma split_ws_strip: "py_split_ws (py_strip s) = py_split_ws s"
proof -
  let ?t = "dropWhile is_space s"
  have "split_ws_from [] (rev (dropWhile is_space (rev ?t)) @ rev (takeWhile is_space (rev ?t)))
      = split_ws_from [] (rev (dropWhile is_space (rev ?t)))"
    by (rule split_ws_from_trailing) (auto dest: set_takeWhileD)
  then show ?thesis
    by (simp add: py_split_ws_def py_strip_def split_ws_from_leading flip: strip_trailing)
qed

lemma split_ws_from_chars: "v \<in> set (split_ws_from w s) \<Longrightarrow> set v \<subseteq> set w \<union> set s"
proof (induction s arbitrary: w)
  case (Cons x s)
  then show ?case
    by (cases "is_space x"; cases "w = []") fastforce+
qed (simp split: if_splits)

lemma split_ws_chars: "v \<in> set (py_split_ws s) \<Longrightarrow> set v \<subseteq> set s"
  using split_ws_from_chars [of v "[]" s] by (simp add: py_split_ws_def)

text \<open>A text in lower case, and words that are words.\<close>

definition words_ok :: "string list \<Rightarrow> bool" where
  "words_ok ws \<longleftrightarrow> (\<forall>w \<in> set ws. w \<noteq> [] \<and> (\<forall>c \<in> set w. \<not> is_space c))"

lemma words_ok_split [simp]: "words_ok (py_split_ws s)"
  by (auto simp: words_ok_def dest: py_split_ws_words)

lemma split_join_words: "words_ok ws \<Longrightarrow> py_split_ws (py_join CHR '' '' ws) = ws"
  by (rule split_ws_join) (simp add: words_ok_def)

lemma ascii_lower_append: "ascii_lower (s @ t) = ascii_lower s @ ascii_lower t"
  by (simp add: ascii_lower_def)

lemma ascii_lower_Cons: "ascii_lower (c # s) = ascii_lower [c] @ ascii_lower s"
  by (simp add: ascii_lower_def)

lemma ascii_lower_Nil [simp]: "ascii_lower [] = []"
  by (simp add: ascii_lower_def)

lemma ascii_lower_space: "ascii_lower (CHR '' '' # s) = CHR '' '' # ascii_lower s"
  by (simp add: ascii_lower_def)

lemma length_ascii_lower [simp]: "length (ascii_lower s) = length s"
  by (simp add: ascii_lower_def)

lemma ascii_lower_idem: "ascii_lower (ascii_lower s) = ascii_lower s"
  by (auto simp: ascii_lower_def)

lemma ascii_lower_join: "ascii_lower (py_join CHR '' '' ws) = py_join CHR '' '' (map ascii_lower ws)"
proof (induction "CHR '' ''" ws rule: py_join.induct)
  case (3 w v ws)
  then show ?case
    by (simp add: ascii_lower_append ascii_lower_space)
qed simp_all

lemma ascii_lower_eq: "ascii_lower s = s \<longleftrightarrow> (\<forall>c \<in> set s. ascii_lower [c] = [c])"
proof (induction s)
  case (Cons c s)
  have "ascii_lower (c # s) = c # s \<longleftrightarrow> ascii_lower [c] = [c] \<and> ascii_lower s = s"
    using length_ascii_lower [of "[c]"]
    by (subst ascii_lower_Cons) (cases "ascii_lower [c]"; simp)
  with Cons show ?case by simp
qed simp

lemma ascii_lower_words:
  assumes "ascii_lower s = s" and "w \<in> set (py_split_ws s)"
  shows "ascii_lower w = w"
  using assms(1) split_ws_chars [OF assms(2)] ascii_lower_eq [of s] ascii_lower_eq [of w] by blast

lemma normalized_words:
  "\<exists>ws. normalize_schedule s = py_join CHR '' '' ws \<and> words_ok ws \<and> (\<forall>w \<in> set ws. ascii_lower w = w)"
proof (intro exI conjI ballI)
  show "normalize_schedule s = py_join CHR '' '' (py_split_ws (ascii_lower (py_strip s)))"
    by (simp add: normalize_schedule_def)
qed (auto intro: ascii_lower_words ascii_lower_idem)

lemma alias_words:
  assumes "map_of cron_aliases k = Some t"
  shows "py_split_ws k = [k] \<and> length (py_split_ws t) = 5 \<and> ascii_lower t = t
       \<and> t = py_join CHR '' '' (py_split_ws t)"
  using assms unfolding cron_aliases_def
  by (auto simp: py_split_ws_def is_space_def ascii_lower_def split: if_splits)

text \<open>Parsing reads the normalised text only, and a normalised text is its own normal form.\<close>

lemma normalize_normal:
  assumes "words_ok ws" and "\<forall>w \<in> set ws. ascii_lower w = w"
  shows "normalize_schedule (py_join CHR '' '' ws) = py_join CHR '' '' ws"
proof -
  let ?s = "py_join CHR '' '' ws"
  have lower: "ascii_lower ?s = ?s"
    using assms(2) by (simp add: ascii_lower_join cong: map_cong)
  have "set (py_strip ?s) \<subseteq> set ?s"
    by (auto simp: py_strip_def dest!: set_dropWhileD)
  then have "ascii_lower (py_strip ?s) = py_strip ?s"
    using lower ascii_lower_eq [of ?s] ascii_lower_eq [of "py_strip ?s"] by blast
  then show ?thesis
    by (simp add: normalize_schedule_def split_ws_strip split_join_words [OF assms(1)])
qed

lemma normalize_idem: "normalize_schedule (normalize_schedule s) = normalize_schedule s"
  using normalized_words [of s] normalize_normal by auto

lemma parse_source:
  assumes "parse_cron s = Inr e"
  shows "parse_cron (ce_source e) = Inr e"
  using assms
proof (rule parse_cron_cases)
  assume "normalize_schedule s = ''@reboot''" "e = \<lparr>ce_source = ''@reboot'', ce_fields = None\<rparr>"
  then show ?thesis
    using normalize_idem [of s] by (simp add: parse_cron_def)
next
  fix f0 f1 f2 f3 f4 x
  assume words: "py_split_ws (case map_of cron_aliases (normalize_schedule s) of Some t \<Rightarrow> t
         | None \<Rightarrow> normalize_schedule s) = [f0, f1, f2, f3, f4]"
    and f: "parse_field f0 0 59 [] False = Inr (cx_minute x)"
      "parse_field f1 0 23 [] False = Inr (cx_hour x)"
      "parse_field f2 1 31 [] False = Inr (cx_day_of_month x)"
      "parse_field f3 1 12 month_names False = Inr (cx_month x)"
      "parse_field f4 0 7 weekday_names True = Inr (cx_day_of_week x)"
    and e: "e = \<lparr>ce_source = py_join CHR '' '' [f0, f1, f2, f3, f4], ce_fields = Some x\<rparr>"
  let ?ws = "[f0, f1, f2, f3, f4]" and ?t = "py_join CHR '' '' [f0, f1, f2, f3, f4]"
  have ok: "words_ok ?ws" unfolding words [symmetric] by simp
  have lower: "\<forall>w \<in> set ?ws. ascii_lower w = w"
  proof (cases "map_of cron_aliases (normalize_schedule s)")
    case None
    obtain ws where ws: "normalize_schedule s = py_join CHR '' '' ws" "words_ok ws"
        "\<forall>w \<in> set ws. ascii_lower w = w"
      using normalized_words [of s] by blast
    have "ws = ?ws" using words None split_join_words [OF ws(2)] ws(1) by simp
    then show ?thesis using ws(3) by simp
  next
    case (Some t)
    then show ?thesis
      using words alias_words [OF Some] ascii_lower_words [of t] by auto
  qed
  have split: "py_split_ws ?t = ?ws" by (rule split_join_words [OF ok])
  have normal: "normalize_schedule ?t = ?t" by (rule normalize_normal [OF ok lower])
  have "py_split_ws ''@reboot'' = [''@reboot'']"
    by (simp add: py_split_ws_def is_space_def)
  then have "?t \<noteq> ''@reboot''" using split by force
  moreover have "map_of cron_aliases ?t = None"
    using alias_words [of ?t] split by (cases "map_of cron_aliases ?t") auto
  ultimately show ?thesis
    using normal split f by (simp add: e parse_cron_def Let_def del: py_join.simps)
qed

section \<open>The next occurrence is the earliest\<close>

text \<open>PEP 495: an instant converted to local time and back is the same instant.\<close>

definition zone_laws :: "time_zone \<Rightarrow> bool" where
  "zone_laws tz \<longleftrightarrow> (\<forall>u. to_utc tz (tz_local tz u) = u)"

definition zone_day :: "time_zone \<Rightarrow> int \<Rightarrow> int" where
  "zone_day tz u = local_day (fst (tz_local tz u))"

definition due :: "time_zone \<Rightarrow> cron_expression \<Rightarrow> int \<Rightarrow> int \<Rightarrow> bool" where
  "due tz e threshold u \<longleftrightarrow>
     threshold \<le> u \<and> zone_day tz threshold \<le> zone_day tz u
   \<and> fst (tz_local tz u) mod 60 = 0 \<and> cron_matches e (fst (tz_local tz u))"

lemma local_time_parts: "l mod 60 = 0 \<Longrightarrow> local_time (local_day l) (local_hour l) (local_minute l) = l"
proof -
  assume "l mod 60 = 0"
  moreover have "l mod 86400 mod 3600 = l mod 3600" and "l mod 3600 mod 60 = l mod 60"
    by (rule mod_mod_cancel, simp)+
  moreover note div_mult_mod_eq [of l 86400] div_mult_mod_eq [of "l mod 86400" 3600]
    div_mult_mod_eq [of "l mod 3600" 60]
  ultimately have "l div 86400 * 86400 + l mod 86400 div 3600 * 3600 + l mod 3600 div 60 * 60 = l"
    by linarith
  moreover have "0 \<le> l mod 86400 div 3600" and "0 \<le> l mod 3600 div 60"
    by (simp_all add: pos_imp_zdiv_nonneg_iff)
  ultimately show ?thesis
    unfolding local_time_def local_day_def local_hour_def local_minute_def by simp
qed

lemma mem_day_candidates:
  assumes "finite (cf_values (cx_hour x))" and "finite (cf_values (cx_minute x))"
  shows "w \<in> set (day_candidates tz e x threshold day) \<longleftrightarrow>
    (\<exists>hour \<in> cf_values (cx_hour x). \<exists>minute \<in> cf_values (cx_minute x). \<exists>late.
       let u = to_utc tz (local_time day hour minute, late)
       in w = tz_local tz u \<and> local_day (fst w) = day \<and> local_hour (fst w) = hour
        \<and> local_minute (fst w) = minute \<and> threshold \<le> u \<and> cron_matches e (fst w))"
  using assms by (auto simp: day_candidates_def Let_def ex_bool_eq split: if_splits; blast)

lemma fields_ok_finite:
  "fields_ok x \<Longrightarrow> finite (cf_values (cx_hour x)) \<and> finite (cf_values (cx_minute x))"
  unfolding fields_ok_def by (blast intro: finite_subset [OF _ finite_atLeastAtMost])

lemma day_candidates_sound:
  assumes "w \<in> set (day_candidates tz e x threshold day)" and "fields_ok x"
  shows "\<exists>u. w = tz_local tz u \<and> threshold \<le> u \<and> cron_matches e (fst w) \<and> local_day (fst w) = day"
proof -
  have "finite (cf_values (cx_hour x))" "finite (cf_values (cx_minute x))"
    using fields_ok_finite [OF assms(2)] by simp_all
  from mem_day_candidates [OF this] assms(1) show ?thesis by (auto simp: Let_def)
qed

lemma day_candidates_complete:
  assumes "zone_laws tz" and "ce_fields e = Some x" and "fields_ok x"
    and "due tz e threshold v"
  shows "tz_local tz v \<in> set (day_candidates tz e x threshold (zone_day tz v))"
proof -
  have fin: "finite (cf_values (cx_hour x))" "finite (cf_values (cx_minute x))"
    using fields_ok_finite [OF assms(3)] by simp_all
  obtain l late where l: "tz_local tz v = (l, late)" by (cases "tz_local tz v")
  have v: "threshold \<le> v" "l mod 60 = 0" "cron_matches e l"
    using assms(4) by (simp_all add: due_def l)
  have "local_hour l \<in> cf_values (cx_hour x)" "local_minute l \<in> cf_values (cx_minute x)"
    using v(3) assms(2)
    by (auto simp: cron_matches_def fields_match_def Let_def split: prod.splits if_splits)
  moreover have "to_utc tz (local_time (local_day l) (local_hour l) (local_minute l), late) = v"
    using assms(1) l by (simp add: local_time_parts [OF v(2)] zone_laws_def flip: l)
  moreover have "tz_local tz v = tz_local tz v \<and> local_day l = local_day l \<and> threshold \<le> v"
    using v(1) by simp
  ultimately show ?thesis
    unfolding mem_day_candidates [OF fin] zone_day_def l fst_conv Let_def
    by (intro bexI [of _ "local_hour l"] bexI [of _ "local_minute l"] exI [of _ late])
       (simp_all add: l v)
qed

lemma search_days_None:
  "search_days tz e x threshold day n = None \<longleftrightarrow>
     (\<forall>k < n. day_candidates tz e x threshold (day + int k) = [])"
proof (induction n arbitrary: day)
  case (Suc n)
  have "(\<forall>k < Suc n. P (day + int k)) \<longleftrightarrow> P day \<and> (\<forall>k < n. P (day + 1 + int k))" for P
    by (auto simp: less_Suc_eq_0_disj add.assoc)
  from this [of "\<lambda>d. day_candidates tz e x threshold d = []"] Suc.IH show ?case
    by (auto split: list.splits)
qed simp

lemma search_days_Some:
  "search_days tz e x threshold day n = Some w \<Longrightarrow>
     \<exists>k < n. (\<forall>j < k. day_candidates tz e x threshold (day + int j) = [])
       \<and> day_candidates tz e x threshold (day + int k) \<noteq> []
       \<and> w = arg_min_list (to_utc tz) (day_candidates tz e x threshold (day + int k))"
proof (induction n arbitrary: day)
  case (Suc n)
  show ?case
  proof (cases "day_candidates tz e x threshold day")
    case Nil
    with Suc.prems have "search_days tz e x threshold (day + 1) n = Some w" by simp
    from Suc.IH [OF this] obtain k where k: "k < n"
        "\<forall>j < k. day_candidates tz e x threshold (day + 1 + int j) = []"
        "day_candidates tz e x threshold (day + 1 + int k) \<noteq> []"
        "w = arg_min_list (to_utc tz) (day_candidates tz e x threshold (day + 1 + int k))" by auto
    with Nil show ?thesis
      by (intro exI [of _ "Suc k"]) (auto simp: less_Suc_eq_0_disj add.assoc)
  next
    case (Cons c cs)
    with Suc.prems show ?thesis by (intro exI [of _ 0]) auto
  qed
qed simp

lemma arg_min_list_least:
  "ws \<noteq> [] \<Longrightarrow> arg_min_list f ws \<in> set ws \<and> (\<forall>w \<in> set ws. f (arg_min_list f ws) \<le> f w)"
  by (simp add: arg_min_list_in f_arg_min_list_f)

text \<open>The search from the day of the threshold on, for a parsed expression.\<close>

lemma due_candidate:
  assumes "zone_laws tz" and "ce_fields e = Some x" and "fields_ok x" and "due tz e t v"
  shows "zone_day tz t \<le> zone_day tz v" and "tz_local tz v
    \<in> set (day_candidates tz e x t (zone_day tz t + int (nat (zone_day tz v - zone_day tz t))))"
  using day_candidates_complete [OF assms] assms(4) by (simp_all add: due_def)

lemma search_exhausted:
  assumes laws: "zone_laws tz" "ce_fields e = Some x" "fields_ok x"
    and none: "search_days tz e x t (zone_day tz t) n = None" and v: "due tz e t v"
  shows "zone_day tz t + int n \<le> zone_day tz v"
proof (rule ccontr)
  assume "\<not> ?thesis"
  then have "nat (zone_day tz v - zone_day tz t) < n"
    using due_candidate(1) [OF laws v] by linarith
  then show False using due_candidate(2) [OF laws v] none by (auto simp: search_days_None)
qed

lemma search_earliest:
  assumes laws: "zone_laws tz" "ce_fields e = Some x" "fields_ok x"
    and found: "search_days tz e x t (zone_day tz t) n = Some w"
  shows "\<exists>u. w = tz_local tz u \<and> t \<le> u \<and> cron_matches e (fst w)
    \<and> (\<forall>v. due tz e t v \<longrightarrow> zone_day tz u < zone_day tz v \<or> zone_day tz u = zone_day tz v \<and> u \<le> v)"
proof -
  let ?cs = "\<lambda>k. day_candidates tz e x t (zone_day tz t + int k)"
  obtain k where k: "\<forall>j < k. ?cs j = []" "?cs k \<noteq> []" "w = arg_min_list (to_utc tz) (?cs k)"
    using search_days_Some [OF found] by blast
  then have w: "w \<in> set (?cs k)" "\<forall>c \<in> set (?cs k). to_utc tz w \<le> to_utc tz c"
    using arg_min_list_least [OF k(2), of "to_utc tz"] by auto
  obtain u where u: "w = tz_local tz u" "t \<le> u" "cron_matches e (fst w)"
      "zone_day tz u = zone_day tz t + int k"
    using day_candidates_sound [OF w(1) laws(3)] by (auto simp: zone_day_def)
  have "zone_day tz u < zone_day tz v \<or> zone_day tz u = zone_day tz v \<and> u \<le> v"
    if v: "due tz e t v" for v
  proof (cases "zone_day tz v \<le> zone_day tz u")
    case True
    note v = due_candidate [OF laws v]
    have j: "nat (zone_day tz v - zone_day tz t) = k"
      using v k(1) u(4) True by (cases "nat (zone_day tz v - zone_day tz t) < k") auto
    then have "to_utc tz w \<le> to_utc tz (tz_local tz v)" using v(2) w(2) by simp
    moreover have "zone_day tz u = zone_day tz v" using j v(1) u(4) by linarith
    ultimately show ?thesis using laws(1) u(1) by (simp add: zone_laws_def)
  qed simp
  with u show ?thesis by (intro exI [of _ u]) simp
qed

text \<open>
  C38. \<^verbatim>\<open>next_occurrence\<close> answers for every expression the parser accepts. An answer is
  the local time of an instant that is not before the next full minute and matches the expression,
  and of all matching full minutes from the first day on it is the earliest: the first by local
  day, and within that day the first instant. No answer means that no full minute of the searched
  days matches, or that the expression is \<^verbatim>\<open>@reboot\<close>.
\<close>
theorem next_occurrence_earliest:
  assumes "zone_laws tz" and "parse_cron s = Inr e"
  shows "\<exists>r. next_occurrence tz s after years = Inr r \<and>
    (case r of
       Some w \<Rightarrow> \<exists>u. w = tz_local tz u \<and> next_threshold after \<le> u \<and> cron_matches e (fst w)
         \<and> (\<forall>v. due tz e (next_threshold after) v \<longrightarrow>
              zone_day tz u < zone_day tz v \<or> zone_day tz u = zone_day tz v \<and> u \<le> v)
     | None \<Rightarrow> \<forall>v. due tz e (next_threshold after) v \<longrightarrow>
         zone_day tz (next_threshold after) + int (search_length years) \<le> zone_day tz v)"
proof (cases "ce_fields e")
  case None
  then have "next_occurrence tz s after years = Inr None" and "\<not> due tz e t v" for t v
    using assms(2) by (simp_all add: next_occurrence_def due_def cron_matches_def)
  then show ?thesis by simp
next
  case (Some x)
  define t where "t = next_threshold after"
  have r: "next_occurrence tz s after years = Inr (search_days tz e x t (zone_day tz t) (search_length years))"
    using assms(2) Some by (simp add: next_occurrence_def Let_def zone_day_def t_def)
  note laws = assms(1) Some parsed_fields_ok [OF assms(2) Some]
  show ?thesis
    unfolding r t_def [symmetric]
    using search_exhausted [OF laws, of t] search_earliest [OF laws, of t]
    by (cases "search_days tz e x t (zone_day tz t) (search_length years)") auto
qed

text \<open>Where local days never go back, the answer is the earliest instant.\<close>

lemma search_earliest_monotone:
  assumes "zone_laws tz" "ce_fields e = Some x" "fields_ok x"
    and "search_days tz e x t (zone_day tz t) n = Some w"
    and "\<And>u v. u \<le> v \<Longrightarrow> zone_day tz u \<le> zone_day tz v"
    and "due tz e t v"
  shows "to_utc tz w \<le> v"
proof -
  obtain u where u: "w = tz_local tz u" "zone_day tz u < zone_day tz v \<or> u \<le> v"
    using search_earliest [OF assms(1-4)] assms(6) by blast
  have "u \<le> v" using u(2) assms(5) [of v u] by linarith
  with u(1) assms(1) show ?thesis by (simp add: zone_laws_def)
qed

definition utc_zone :: time_zone where
  "utc_zone = \<lparr>tz_offset = \<lambda>l f. 0, tz_local = \<lambda>u. (u, False)\<rparr>"

lemma utc_zone_laws: "zone_laws utc_zone"
  by (simp add: zone_laws_def to_utc_def utc_zone_def)


lemma demo_parse: "parse_cron ''30 2 * * *'' = Inr \<lparr>ce_source = ''30 2 * * *'', ce_fields = Some
    \<lparr>cx_minute = \<lparr>cf_values = {30}, cf_wildcard = False\<rparr>,
     cx_hour = \<lparr>cf_values = {2}, cf_wildcard = False\<rparr>,
     cx_day_of_month = \<lparr>cf_values = {1..31}, cf_wildcard = True\<rparr>,
     cx_month = \<lparr>cf_values = {1..12}, cf_wildcard = True\<rparr>,
     cx_day_of_week = \<lparr>cf_values = {0..6}, cf_wildcard = True\<rparr>\<rparr>\<rparr>"
  by code_simp

lemma demo_next: "next_occurrence utc_zone ''30 2 * * *'' 63763210000 1 = Inr (Some (63763295400, False))"
  by code_simp

theorem next_occurrence_earliest_witness:
  "next_threshold 63763210000 \<le> 63763295400
     \<and> {v. v < 63763295400 \<and> due utc_zone \<lparr>ce_source = ''30 2 * * *'', ce_fields = Some
          \<lparr>cx_minute = \<lparr>cf_values = {30}, cf_wildcard = False\<rparr>,
           cx_hour = \<lparr>cf_values = {2}, cf_wildcard = False\<rparr>,
           cx_day_of_month = \<lparr>cf_values = {1..31}, cf_wildcard = True\<rparr>,
           cx_month = \<lparr>cf_values = {1..12}, cf_wildcard = True\<rparr>,
           cx_day_of_week = \<lparr>cf_values = {0..6}, cf_wildcard = True\<rparr>\<rparr>\<rparr> (next_threshold 63763210000) v}
       = {}"
  using next_occurrence_earliest [OF utc_zone_laws demo_parse, of 63763210000 1]
  unfolding demo_next by (fastforce simp: zone_day_def local_day_def utc_zone_def dest: zdiv_mono1)

end
