(* ===== verification/Python_Text.thy ===== *)
theory Python_Text
  imports Prelude
begin

text \<open>
  Texts as the validators and parsers of the backend see them: character classes of their regular
  expressions, length bounds, and the line and join operations of Python strings.
\<close>

section \<open>Character classes\<close>

definition char_in :: "(nat \<times> nat) list \<Rightarrow> char \<Rightarrow> bool" where
  "char_in ranges c = list_ex (\<lambda>(a, b). a \<le> of_char c \<and> of_char c \<le> b) ranges"

definition ascii_letter :: "char \<Rightarrow> bool" where
  "ascii_letter = char_in [(65, 90), (97, 122)]"

definition word_char :: "char \<Rightarrow> bool" where
  "word_char c \<longleftrightarrow> ascii_letter c \<or> is_digit c \<or> c = CHR ''_''"

definition hex_char :: "char \<Rightarrow> bool" where
  "hex_char = char_in [(48, 57), (65, 70), (97, 102)]"

definition len_between :: "int \<Rightarrow> int \<Rightarrow> 'a list \<Rightarrow> bool" where
  "len_between a b s \<longleftrightarrow> a \<le> int (length s) \<and> int (length s) \<le> b"

section \<open>Lines, prefixes and joins\<close>

text \<open>\<open>str.splitlines\<close> on the first 256 code points.\<close>

definition line_break :: "char \<Rightarrow> bool" where
  "line_break = char_in [(10, 13), (28, 30), (133, 133)]"

fun splitlines_from :: "string \<Rightarrow> string \<Rightarrow> string list" where
  "splitlines_from w [] = (if w = [] then [] else [w])"
| "splitlines_from w [c] = (if line_break c then [w] else [w @ [c]])"
| "splitlines_from w (c # d # cs) =
     (if c = CHR 13 \<and> d = CHR 10 then w # splitlines_from [] cs
      else if line_break c then w # splitlines_from [] (d # cs)
      else splitlines_from (w @ [c]) (d # cs))"

definition py_splitlines :: "string \<Rightarrow> string list" where
  "py_splitlines s = splitlines_from [] s"

text \<open>\<open>sep.join(words)\<close>, and what follows a prefix.\<close>

fun join_with :: "string \<Rightarrow> string list \<Rightarrow> string" where
  "join_with sep [] = []"
| "join_with sep [w] = w"
| "join_with sep (w # v # ws) = w @ sep @ join_with sep (v # ws)"

definition strip_prefix :: "string \<Rightarrow> string \<Rightarrow> string option" where
  "strip_prefix p s = (if prefix p s then Some (drop (length p) s) else None)"

text \<open>\<^verbatim>\<open>shlex.quote\<close>.\<close>

definition shell_safe :: "char \<Rightarrow> bool" where
  "shell_safe c \<longleftrightarrow> word_char c \<or> c \<in> set ''@%+=:,./-''"

definition shell_quote :: "string \<Rightarrow> string" where
  "shell_quote s =
     (if s = [] then [CHR 39, CHR 39]
      else if list_all shell_safe s then s
      else CHR 39 # concat (map (\<lambda>c. if c = CHR 39 then [CHR 39, CHR 34, CHR 39, CHR 34, CHR 39] else [c]) s)
             @ [CHR 39])"

section \<open>Splitting and joining\<close>

lemma py_join_split: "py_join c (py_split c s) = s"
proof (induction c s rule: py_split.induct)
  case (2 c x xs)
  then show ?case by (cases "py_split c xs"; cases "tl (py_split c xs)") auto
qed simp

lemma py_split_join:
  "ws \<noteq> [] \<Longrightarrow> \<forall>w \<in> set ws. c \<notin> set w \<Longrightarrow> py_split c (py_join c ws) = ws"
proof (induction c ws rule: py_join.induct)
  case (2 c w)
  then have "c \<notin> set w" by simp
  then show ?case by (induction w) auto
next
  case (3 c w v ws)
  then have "py_split c (py_join c (v # ws)) = v # ws" "c \<notin> set w" by auto
  then show ?case by (induction w) auto
qed simp

lemma splitlines_plain: "\<not> line_break c \<Longrightarrow> splitlines_from w (c # t) = splitlines_from (w @ [c]) t"
  by (cases t) (auto simp: line_break_def char_in_def)

lemma splitlines_feed: "splitlines_from w (CHR 10 # t) = w # splitlines_from [] t"
  by (cases t) (auto simp: line_break_def char_in_def)

lemma splitlines_Nil: "splitlines_from w s = [] \<longleftrightarrow> w = [] \<and> s = []"
  by (induction w s rule: splitlines_from.induct) auto

definition line_text :: "string \<Rightarrow> bool" where
  "line_text s \<longleftrightarrow> \<not> list_ex line_break s"

lemma splitlines_text: "line_text s \<Longrightarrow> splitlines_from w (s @ t) = splitlines_from (w @ s) t"
  by (induction s arbitrary: w) (auto simp: splitlines_plain line_text_def)

text \<open>A text of one line: the line, and at most one line break.\<close>

lemma splitlines_one:
  "splitlines_from w s = [l] \<Longrightarrow> \<exists>m b. l = w @ m \<and> s = m @ b \<and> line_text m
     \<and> (b = [] \<or> (\<exists>x. b = [x] \<and> line_break x) \<or> b = [CHR 13, CHR 10])"
proof (induction w s rule: splitlines_from.induct)
  case (1 w)
  then show ?case by (auto simp: line_text_def split: if_splits)
next
  case (2 w c)
  then show ?case
    by (cases "line_break c") (auto simp: line_text_def intro: exI [of _ "[]"] exI [of _ "[c]"])
next
  case (3 w c d cs)
  consider (crlf) "c = CHR 13 \<and> d = CHR 10" | (brk) "\<not> (c = CHR 13 \<and> d = CHR 10)" "line_break c"
    | (plain) "\<not> (c = CHR 13 \<and> d = CHR 10)" "\<not> line_break c" by blast
  then show ?case
  proof cases
    case crlf
    then show ?thesis using 3 by (auto simp: splitlines_Nil line_text_def)
  next
    case brk
    then show ?thesis using 3 by (auto simp: splitlines_Nil)
  next
    case plain
    then obtain m b where "l = (w @ [c]) @ m" "d # cs = m @ b" "line_text m"
      "b = [] \<or> (\<exists>x. b = [x] \<and> line_break x) \<or> b = [CHR 13, CHR 10]"
      using 3 by auto
    then show ?thesis using plain(2) by (intro exI [of _ "c # m"] exI [of _ b]) (auto simp: line_text_def)
  qed
qed

lemma partition_whole: "py_partition c s = (h, False, t) \<Longrightarrow> h = s"
  by (induction s arbitrary: h) (auto split: if_splits prod.splits)

lemma partition_found:
  "py_partition c s = (h, f, t) \<Longrightarrow> c \<in> set s \<Longrightarrow> s = h @ c # t \<and> c \<notin> set h"
  by (induction s arbitrary: h) (auto split: if_splits prod.splits)

lemma partition_at: "c \<notin> set h \<Longrightarrow> py_partition c (h @ c # t) = (h, True, t)"
  by (induction h) auto

lemma py_split_append: "py_split c (v @ c # s) = py_split c v @ py_split c s"
  by (induction v) (auto split: list.splits)

lemma py_split_single: "c \<notin> set w \<Longrightarrow> py_split c w = [w]"
  by (induction w) auto

lemma rstrip_char_snoc: "s = [] \<or> last s \<noteq> c \<Longrightarrow> rstrip_char c (s @ [c]) = s"
  by (cases s rule: rev_cases) (auto simp: rstrip_char_def)

lemma set_py_join: "set (py_join c ws) \<subseteq> insert c (\<Union> (set ` set ws))"
  by (induction c ws rule: py_join.induct) auto

end
