(* ===== verification/Cron_Config.thy ===== *)
theory Cron_Config
  imports Cron_Schedule Python_Text "HOL-Library.Char_ord" "HOL-Library.List_Lexorder"
begin

text \<open>
  Cron jobs and the managed cron file, \<^verbatim>\<open>modules/cron/models.py\<close> and the rendering and
  parsing functions of \<^verbatim>\<open>modules/cron/system.py\<close>. The round trip at the end says that
  the file written for a set of jobs is read back as exactly those jobs.
\<close>

section \<open>Jobs\<close>

datatype cron_source = Src_webnas | Src_user_crontab | Src_system_crontab | Src_cron_d | Src_system
datatype cron_status = Cron_enabled | Cron_disabled | Cron_external | Cron_invalid

record cron_env =
  ev_name :: string
  ev_value :: string

record cron_definition =
  cd_name :: string
  cd_description :: string
  cd_user :: string
  cd_schedule :: string
  cd_command :: string
  cd_workdir :: "string option"
  cd_environment :: "cron_env list"
  cd_timeout :: "nat option"
  cd_enabled :: bool

record cron_job = cron_definition +
  cj_id :: string
  cj_source :: cron_source
  cj_status :: cron_status
  cj_read_only :: bool
  cj_created_at :: "time option"
  cj_updated_at :: "time option"
  cj_created_by :: string
  cj_updated_by :: string
  cj_next_run :: "(int \<times> bool) option"
  cj_source_label :: string

section \<open>Validation\<close>

text \<open>\<^verbatim>\<open>CONTROL_RE\<close> together with the line feed, carriage return and NUL tests.\<close>

definition control_char :: "char \<Rightarrow> bool" where
  "control_char = char_in [(0, 8), (10, 31), (127, 127)]"

definition no_control :: "string \<Rightarrow> bool" where
  "no_control s \<longleftrightarrow> \<not> list_ex control_char s"

text \<open>\<^verbatim>\<open>ENVIRONMENT_KEY_RE\<close>, \<^verbatim>\<open>USERNAME_RE\<close> (an optional trailing dollar sign) and
  \<^verbatim>\<open>JOB_ID_RE\<close>.\<close>

definition environment_key :: "string \<Rightarrow> bool" where
  "environment_key s \<longleftrightarrow> s \<noteq> [] \<and> (ascii_letter (hd s) \<or> hd s = CHR ''_'')
     \<and> list_all word_char (tl s) \<and> length s \<le> 64"

definition plain_username :: "string \<Rightarrow> bool" where
  "plain_username s \<longleftrightarrow> s \<noteq> [] \<and> (ascii_letter (hd s) \<or> hd s = CHR ''_'')
     \<and> list_all (\<lambda>c. word_char c \<or> c = CHR ''.'' \<or> c = CHR ''-'') (tl s) \<and> length s \<le> 32"

definition linux_username :: "string \<Rightarrow> bool" where
  "linux_username s \<longleftrightarrow> plain_username s \<or> s \<noteq> [] \<and> last s = CHR ''$'' \<and> plain_username (butlast s)"

definition job_id_ok :: "string \<Rightarrow> bool" where
  "job_id_ok s \<longleftrightarrow>
     (case py_split CHR ''-'' s of
        [a, b, c, d, e] \<Rightarrow> map length [a, b, c, d, e] = [8, 4, 4, 4, 12]
          \<and> list_all hex_char (a @ b @ c @ d @ e) \<and> char_in [(49, 53)] (hd c)
          \<and> hd d \<in> set ''89abAB''
      | _ \<Rightarrow> False)"

definition env_ok :: "cron_env \<Rightarrow> bool" where
  "env_ok v \<longleftrightarrow> environment_key (ev_name v) \<and> len_between 0 2048 (ev_value v) \<and> no_control (ev_value v)"

text \<open>\<open>Path(s)\<close> is absolute and has no parent part.\<close>

definition absolute_path :: "string \<Rightarrow> bool" where
  "absolute_path s \<longleftrightarrow> s \<noteq> [] \<and> hd s = CHR ''/'' \<and> ''..'' \<notin> set (py_split CHR ''/'' s)"

definition normal_workdir :: "string option \<Rightarrow> string option" where
  "normal_workdir w = (case w of None \<Rightarrow> None | Some s \<Rightarrow> if py_strip s = [] then None else Some (py_strip s))"

text \<open>\<^verbatim>\<open>CronJobDefinition\<close>: the length limits are on the values as given, the rest on the
  stripped ones.\<close>

definition lengths_ok :: "cron_definition \<Rightarrow> bool" where
  "lengths_ok d \<longleftrightarrow> len_between 1 120 (cd_name d) \<and> len_between 0 1000 (cd_description d)
     \<and> len_between 1 32 (cd_user d) \<and> len_between 1 160 (cd_schedule d)
     \<and> len_between 1 4096 (cd_command d)
     \<and> (case cd_workdir d of None \<Rightarrow> True | Some w \<Rightarrow> len_between 0 1000 w)
     \<and> len_between 0 64 (cd_environment d)
     \<and> (case cd_timeout d of None \<Rightarrow> True | Some t \<Rightarrow> 1 \<le> t \<and> int t \<le> 604800)"

definition normal_definition :: "cron_definition \<Rightarrow> cron_definition" where
  "normal_definition d = d\<lparr>cd_name := py_strip (cd_name d),
     cd_description := py_strip (cd_description d), cd_user := py_strip (cd_user d),
     cd_schedule := py_join CHR '' '' (py_split_ws (py_strip (cd_schedule d))),
     cd_command := py_strip (cd_command d), cd_workdir := normal_workdir (cd_workdir d)\<rparr>"

definition values_ok :: "'a cron_definition_scheme \<Rightarrow> bool" where
  "values_ok d \<longleftrightarrow> no_control (cd_name d) \<and> no_control (cd_description d)
     \<and> linux_username (cd_user d) \<and> (case parse_cron (cd_schedule d) of Inl _ \<Rightarrow> False | Inr _ \<Rightarrow> True)
     \<and> cd_command d \<noteq> [] \<and> no_control (cd_command d)
     \<and> (case cd_workdir d of None \<Rightarrow> True | Some w \<Rightarrow> no_control w \<and> absolute_path w)
     \<and> list_all env_ok (cd_environment d) \<and> distinct (map ev_name (cd_environment d))"

definition validate_model :: "cron_definition \<Rightarrow> cron_definition res" where
  "validate_model d =
     (if lengths_ok d \<and> values_ok (normal_definition d) then Inr (normal_definition d)
      else Inl (ValueError ''invalid cron job definition''))"

section \<open>Rendering\<close>

fun escape_percent_from :: "bool \<Rightarrow> string \<Rightarrow> string" where
  "escape_percent_from escaped [] = []"
| "escape_percent_from escaped (c # cs) =
     (if c = CHR ''%'' \<and> \<not> escaped then [CHR 92] else []) @ c
       # escape_percent_from (c = CHR 92 \<and> \<not> escaped) cs"

definition escape_percent :: "string \<Rightarrow> string" where
  "escape_percent s = escape_percent_from False s"

text \<open>\<open>shlex.quote\<close>.\<close>

definition rendered_command :: "'a cron_definition_scheme \<Rightarrow> string" where
  "rendered_command j =
     (let inner = (case cd_workdir j of
              Some w \<Rightarrow> if w = [] then cd_command j else ''cd -- '' @ shell_quote w @ '' && '' @ cd_command j
            | None \<Rightarrow> cd_command j);
          runner = ''/bin/sh -c '' @ shell_quote inner;
          timed = (case cd_timeout j of
              Some (Suc t) \<Rightarrow> ''/usr/bin/timeout --signal=TERM '' @ show_nat (Suc t) @ ''s '' @ runner
            | _ \<Rightarrow> runner);
          assignments = join_with '' '' (map (\<lambda>v. ev_name v @ ''='' @ shell_quote (ev_value v)) (cd_environment j))
      in escape_percent (if cd_environment j = [] then timed else ''/usr/bin/env '' @ assignments @ '' '' @ timed))"

definition line_feed :: string where "line_feed = [CHR 10]"

definition managed_header :: string where
  "managed_header = ''# Managed by WebNAS Cron Manager. Manual changes may be replaced.''"
definition job_marker :: string where "job_marker = ''# WebNAS Cron Job''"

definition entry_line :: "cron_job \<Rightarrow> string" where
  "entry_line j = cd_schedule j @ '' '' @ cd_user j @ '' '' @ rendered_command j"

definition safe_name :: "string \<Rightarrow> string" where
  "safe_name s = map (\<lambda>c. if c = CHR 13 \<or> c = CHR 10 then CHR '' '' else c) s"

definition render_entry :: "cron_job \<Rightarrow> string" where
  "render_entry j = job_marker @ line_feed @ ''# id: '' @ cj_id j @ line_feed
     @ ''# name: '' @ safe_name (cd_name j) @ line_feed
     @ ''# enabled: '' @ (if cd_enabled j then ''true'' else ''false'') @ line_feed
     @ (if cd_enabled j then '''' else ''# disabled: '') @ entry_line j"

definition render_config :: "cron_job list \<Rightarrow> string" where
  "render_config jobs =
     (let entries = join_with (line_feed @ line_feed) (map render_entry (sort_key cj_id jobs))
      in managed_header @ line_feed @ ''SHELL=/bin/sh'' @ line_feed
        @ ''PATH=/usr/local/sbin:/usr/local/bin:/usr/sbin:/usr/bin:/sbin:/bin''
        @ (if entries = [] then [] else line_feed @ line_feed @ entries) @ line_feed)"

section \<open>Reading\<close>

text \<open>\<open>s.split(None, n)\<close>.\<close>

fun split_ws_max :: "nat \<Rightarrow> string \<Rightarrow> string list" where
  "split_ws_max n s =
     (let t = dropWhile is_space s in
      if t = [] then []
      else (case n of 0 \<Rightarrow> [t]
            | Suc m \<Rightarrow> takeWhile (\<lambda>c. \<not> is_space c) t
                       # split_ws_max m (dropWhile (\<lambda>c. \<not> is_space c) t)))"

declare split_ws_max.simps [simp del]

text \<open>Schedule, user (empty in a user's crontab) and command of a line.\<close>

definition split_cron_line :: "string \<Rightarrow> bool \<Rightarrow> (string \<times> string \<times> string) res" where
  "split_cron_line line system =
     (let stripped = py_strip line in
      if stripped = [] \<or> hd stripped = CHR ''#'' then Inl (ValueError ''not a cron entry'')
      else if hd stripped = CHR ''@''
      then let parts = split_ws_max (if system then 2 else 1) stripped in
        if length parts \<noteq> (if system then 3 else 2) then Inl (ValueError ''invalid cron macro entry'')
        else rbind (parse_cron (parts ! 0)) (\<lambda>_.
          Inr (parts ! 0, if system then parts ! 1 else [], if system then parts ! 2 else parts ! 1))
      else let parts = split_ws_max (if system then 6 else 5) stripped in
        if length parts \<noteq> (if system then 7 else 6) then Inl (ValueError ''invalid cron entry'')
        else rbind (parse_cron (py_join CHR '' '' (take 5 parts))) (\<lambda>_.
          Inr (py_join CHR '' '' (take 5 parts), if system then parts ! 5 else [],
               if system then parts ! 6 else parts ! 5)))"

record managed_entry =
  me_id :: string
  me_name :: string
  me_enabled :: bool
  me_entry :: string

definition id_line :: "string \<Rightarrow> string option" where
  "id_line l = (case strip_prefix ''# id: '' l of
     Some v \<Rightarrow> if length v = 36 \<and> list_all (\<lambda>c. char_in [(48, 57), (97, 102), (45, 45)] c) v
       then Some v else None
   | None \<Rightarrow> None)"

definition enabled_line :: "string \<Rightarrow> bool option" where
  "enabled_line l = (if l = ''# enabled: true'' then Some True
     else if l = ''# enabled: false'' then Some False else None)"

definition parse_entry :: "string \<Rightarrow> string \<Rightarrow> string \<Rightarrow> string \<Rightarrow> managed_entry res" where
  "parse_entry l1 l2 l3 l4 =
     (case (id_line l1, strip_prefix ''# name: '' l2, enabled_line l3) of
        (Some i, Some n, Some enabled) \<Rightarrow>
          if enabled \<and> prefix ''# disabled: '' l4
          then Inl (ValueError ''managed cron enabled marker does not match its entry'')
          else if \<not> enabled \<and> \<not> prefix ''# disabled: '' l4
          then Inl (ValueError ''disabled managed cron entry is not commented'')
          else let entry = (if enabled then l4 else drop (length ''# disabled: '') l4)
            in rbind (split_cron_line entry True) (\<lambda>_.
                 Inr \<lparr>me_id = i, me_name = n, me_enabled = enabled, me_entry = entry\<rparr>)
      | _ \<Rightarrow> Inl (ValueError ''managed cron metadata is invalid''))"

fun parse_lines :: "string list \<Rightarrow> managed_entry list res" where
  "parse_lines [] = Inr []"
| "parse_lines (l # ls) =
     (if l \<noteq> job_marker then parse_lines ls
      else (case ls of
        l1 # l2 # l3 # l4 # rest \<Rightarrow>
          rbind (parse_entry l1 l2 l3 l4) (\<lambda>m. rbind (parse_lines rest) (\<lambda>ms. Inr (m # ms)))
      | _ \<Rightarrow> Inl (ValueError ''managed cron marker is incomplete'')))"

definition parse_managed_config :: "string \<Rightarrow> managed_entry list res" where
  "parse_managed_config content =
     (if \<not> prefix (managed_header @ line_feed) content
      then Inl (ValueError ''managed cron file header is missing'')
      else rbind (parse_lines (py_splitlines content)) (\<lambda>ms.
        if \<not> distinct (map me_id ms) then Inl (ValueError ''managed cron file contains duplicate ids'')
        else Inr ms))"

section \<open>Characters and words\<close>

lemma space_chars:
  "word_char c \<Longrightarrow> \<not> is_space c"
  "line_break c \<Longrightarrow> is_space c"
  "is_digit c \<Longrightarrow> \<not> is_space c"
  by (auto simp: word_char_def ascii_letter_def char_in_def is_digit_def is_space_def line_break_def Let_def)

lemma line_break_control: "line_break c \<Longrightarrow> \<not> control_char c \<Longrightarrow> of_char c = (133 :: nat)"
  by (auto simp: char_in_def line_break_def control_char_def)

lemma plain_username_word: "plain_username t \<Longrightarrow> t \<noteq> [] \<and> (\<forall>c \<in> set t. \<not> is_space c)"
proof -
  assume t: "plain_username t"
  then have "list_all (\<lambda>c. word_char c \<or> c = CHR ''.'' \<or> c = CHR ''-'') t"
    by (cases t) (auto simp: plain_username_def word_char_def)
  moreover have "\<not> is_space CHR ''.''" "\<not> is_space CHR ''-''" by (simp_all add: is_space_def)
  ultimately show ?thesis
    using t space_chars(1) by (auto simp: list_all_iff plain_username_def)
qed

lemma username_word: "linux_username s \<Longrightarrow> s \<noteq> [] \<and> (\<forall>c \<in> set s. \<not> is_space c)"
proof -
  assume u: "linux_username s"
  show ?thesis
  proof (cases "plain_username s")
    case False
    with u have b: "s \<noteq> []" "last s = CHR ''$''" "plain_username (butlast s)"
      by (simp_all add: linux_username_def)
    then have "s = butlast s @ [CHR ''$'']" using append_butlast_last_id [of s] by simp
    then obtain t where t: "s = t @ [CHR ''$'']" "plain_username t" using b(3) by blast
    moreover have "\<not> is_space CHR ''$''" by (simp add: is_space_def)
    ultimately show ?thesis using plain_username_word [of t] by auto
  qed (rule plain_username_word)
qed

section \<open>Lines\<close>

definition unlines :: "string list \<Rightarrow> string" where
  "unlines ls = concat (map (\<lambda>l. l @ line_feed) ls)"

lemma unlines_simps [simp]:
  "unlines [] = []" "unlines (l # ls) = l @ line_feed @ unlines ls" "unlines (ls @ ms) = unlines ls @ unlines ms"
  by (simp_all add: unlines_def)

lemma splitlines_line:
  "\<forall>c \<in> set l. \<not> line_break c \<Longrightarrow> splitlines_from w (l @ line_feed @ t) = (w @ l) # splitlines_from [] t"
  by (induction l arbitrary: w) (simp_all add: splitlines_plain splitlines_feed line_feed_def)

lemma splitlines_unlines: "\<forall>l \<in> set ls. \<forall>c \<in> set l. \<not> line_break c \<Longrightarrow> py_splitlines (unlines ls) = ls"
  unfolding py_splitlines_def
  by (induction ls) (simp_all add: splitlines_line)

definition entry_lines :: "cron_job \<Rightarrow> string list" where
  "entry_lines j = [job_marker, ''# id: '' @ cj_id j, ''# name: '' @ safe_name (cd_name j),
     ''# enabled: '' @ (if cd_enabled j then ''true'' else ''false''),
     (if cd_enabled j then '''' else ''# disabled: '') @ entry_line j]"

definition config_lines :: "cron_job list \<Rightarrow> string list" where
  "config_lines jobs = [managed_header, ''SHELL=/bin/sh'',
     ''PATH=/usr/local/sbin:/usr/local/bin:/usr/sbin:/usr/bin:/sbin:/bin'']
     @ concat (map (\<lambda>j. [] # entry_lines j) (sort_key cj_id jobs))"

lemma render_entry_unlines: "render_entry j @ line_feed = unlines (entry_lines j)"
  by (simp add: render_entry_def entry_lines_def)

lemma join_entries:
  "js \<noteq> [] \<Longrightarrow> line_feed @ join_with (line_feed @ line_feed) (map render_entry js) @ line_feed
     = unlines (concat (map (\<lambda>j. [] # entry_lines j) js))"
proof (induction js)
  case (Cons j js)
  then show ?case
    by (cases js) (simp_all add: render_entry_unlines [symmetric])
qed simp

lemma join_entries_Nil: "join_with (line_feed @ line_feed) (map render_entry js) = [] \<longleftrightarrow> js = []"
  by (cases js; cases "tl js") (auto simp: render_entry_def job_marker_def)

lemma render_config_unlines: "render_config jobs = unlines (config_lines jobs)"
proof (cases "sort_key cj_id jobs = []")
  case True
  then show ?thesis by (simp add: render_config_def config_lines_def Let_def)
next
  case False
  then show ?thesis
    by (simp add: render_config_def config_lines_def Let_def join_entries_Nil join_entries [symmetric]
        del: concat.simps list.map)
qed

section \<open>The head of a schedule\<close>

lemma map_of_Nil_number: "cron_number v [] lo hi = Inr n \<Longrightarrow> v \<noteq> [] \<and> is_digit (hd v)"
  by (cases v) (auto simp: cron_number_def split: if_splits)

lemma partition_head: "py_partition c s = (h, f, t) \<Longrightarrow> h \<noteq> [] \<Longrightarrow> s \<noteq> [] \<and> hd h = hd s"
  by (cases s) (auto split: if_splits prod.splits)

definition number_head :: "string \<Rightarrow> bool" where
  "number_head v \<longleftrightarrow> v \<noteq> [] \<and> (hd v = CHR ''*'' \<or> is_digit (hd v))"

lemma part_bounds_head: "part_bounds sep base [] lo hi = Inr ab \<Longrightarrow> number_head base"
  by (auto simp: part_bounds_def number_head_def rbind_Inr_iff dest!: map_of_Nil_number partition_head
      split: if_splits prod.splits bool.splits)

lemma part_values_head: "part_values part [] lo hi = Inr vs \<Longrightarrow> number_head part"
  by (auto simp: part_values_def rbind_Inr_iff number_head_def dest!: part_bounds_head partition_head
      split: if_splits prod.splits)

lemma split_head: "\<exists>w ws. py_split c s = w # ws \<and> (w \<noteq> [] \<longrightarrow> s \<noteq> [] \<and> hd w = hd s)"
  by (cases s) (auto split: list.splits)

lemma parse_field_head: "parse_field v lo hi [] wd = Inr f \<Longrightarrow> number_head v"
proof -
  assume "parse_field v lo hi [] wd = Inr f"
  then obtain vs where vs: "field_values v [] lo hi = Inr vs"
    using parse_field_Inr by blast
  obtain w ws where w: "py_split CHR '','' v = w # ws" "w \<noteq> [] \<Longrightarrow> v \<noteq> [] \<and> hd w = hd v"
    using split_head [of "CHR '',''" v] by blast
  have "number_head w"
    using vs by (auto simp: field_values_def w(1) rbind_Inr_iff intro: part_values_head)
  then show ?thesis using w(2) by (auto simp: number_head_def)
qed

lemma lower_space: "ascii_lower [c] = [d] \<Longrightarrow> is_space d \<longleftrightarrow> is_space c"
  by (auto simp: ascii_lower_def is_space_def Let_def split: if_splits)

lemma lower_at: "ascii_lower [c] = ''@'' \<Longrightarrow> c = CHR ''@''"
  by (auto simp: ascii_lower_def split: if_splits dest: arg_cong [of _ _ "of_char :: char \<Rightarrow> nat"])

lemma lower_cases: obtains d where "ascii_lower [c] = [d]"
  using length_ascii_lower [of "[c]"] by (cases "ascii_lower [c]") auto

lemma split_ws_from_lower:
  "split_ws_from (ascii_lower w) (ascii_lower s) = map ascii_lower (split_ws_from w s)"
proof (induction s arbitrary: w)
  case Nil
  then show ?case by (auto simp: ascii_lower_def)
next
  case (Cons c s)
  obtain d where d: "ascii_lower [c] = [d]" by (rule lower_cases)
  have w: "ascii_lower w = [] \<longleftrightarrow> w = []" by (simp add: ascii_lower_def)
  show ?case
    using Cons.IH [of "w @ [c]"] Cons.IH [of "[]"] lower_space [OF d] w
    by (auto simp: ascii_lower_Cons [of c s] ascii_lower_append d)
qed

lemma split_ws_lower: "py_split_ws (ascii_lower s) = map ascii_lower (py_split_ws s)"
  using split_ws_from_lower [of "[]" s] by (simp add: py_split_ws_def)

text \<open>A schedule the parser accepts is a macro of one word or five words, the first with a digit
  or a star in front.\<close>

lemma schedule_shape:
  assumes "parse_cron s = Inr e"
  shows "(\<exists>w. py_split_ws s = [w] \<and> hd w = CHR ''@'')
    \<or> length (py_split_ws s) = 5 \<and> hd (hd (py_split_ws s)) \<notin> {CHR ''@'', CHR ''#''}"
proof -
  let ?ws = "py_split_ws s"
  have ok: "words_ok (map ascii_lower ?ws)"
    unfolding split_ws_lower [symmetric] by simp
  have words: "py_split_ws (normalize_schedule s) = map ascii_lower ?ws"
    unfolding normalize_schedule_def split_ws_lower split_ws_strip
    by (rule split_join_words [OF ok])
  have ne: "w \<noteq> []" if "w \<in> set ?ws" for w
    using py_split_ws_words [OF that] by simp
  have macro: "\<exists>w. ?ws = [w] \<and> hd w = CHR ''@''"
    if "py_split_ws (normalize_schedule s) = [m]" "hd m = CHR ''@''" for m
  proof -
    have "map ascii_lower ?ws = [m]" using that(1) unfolding words .
    then obtain w where w: "?ws = [w]" "ascii_lower w = m" by auto
    then obtain c t where "w = c # t" using ne [of w] by (cases w) auto
    with w(2) that(2) obtain d where "ascii_lower [c] = [d]" "d = CHR ''@''"
      using lower_cases [of c] by (metis append_Cons ascii_lower_Cons list.sel(1))
    then show ?thesis using lower_at [of c] w(1) \<open>w = c # t\<close> by simp
  qed
  from assms show ?thesis
  proof (rule parse_cron_cases)
    assume "normalize_schedule s = ''@reboot''"
    then show ?thesis using macro [of "''@reboot''"] by (simp add: py_split_ws_def is_space_def)
  next
    fix f0 f1 f2 f3 f4 x
    assume split: "py_split_ws (case map_of cron_aliases (normalize_schedule s) of Some t \<Rightarrow> t
         | None \<Rightarrow> normalize_schedule s) = [f0, f1, f2, f3, f4]"
      and f0: "parse_field f0 0 59 [] False = Inr (cx_minute x)"
    show ?thesis
    proof (cases "map_of cron_aliases (normalize_schedule s)")
      case None
      then have ws: "map ascii_lower ?ws = [f0, f1, f2, f3, f4]" using split words by simp
      then obtain w vs where w: "?ws = w # vs" "ascii_lower w = f0" by auto
      then obtain c t where c: "w = c # t" using ne [of w] by (cases w) auto
      obtain d where d: "ascii_lower [c] = [d]" by (rule lower_cases)
      have "hd f0 = d" using w(2) d by (auto simp: c ascii_lower_Cons [of c t])
      then have "d = CHR ''*'' \<or> is_digit d"
        using parse_field_head [OF f0] by (simp add: number_head_def)
      moreover have "ascii_lower ''@'' = ''@''" "ascii_lower ''#'' = ''#''"
        by (simp_all add: ascii_lower_def)
      ultimately have "c \<noteq> CHR ''@''" "c \<noteq> CHR ''#''"
        using d by (auto simp: is_digit_def)
      moreover have "length ?ws = 5" using arg_cong [OF ws, of length] by simp
      ultimately show ?thesis using w(1) c by simp
    next
      case (Some t)
      then have "py_split_ws (normalize_schedule s) = [normalize_schedule s]"
          "hd (normalize_schedule s) = CHR ''@''"
        using alias_words [OF Some] by (auto simp: cron_aliases_def split: if_splits)
      then show ?thesis using macro by blast
    qed
  qed
qed

section \<open>The entry of a job\<close>

lemma split_ws_max_word:
  assumes "w \<noteq> []" and "\<forall>c \<in> set w. \<not> is_space c"
  shows "split_ws_max (Suc n) (w @ CHR '' '' # s) = w # split_ws_max n (CHR '' '' # s)"
    and "split_ws_max n (CHR '' '' # s) = split_ws_max n s"
proof -
  have sp: "is_space CHR '' ''" by (simp add: is_space_def)
  have "dropWhile is_space (w @ CHR '' '' # s) = w @ CHR '' '' # s"
    using assms by (cases w) auto
  moreover have "takeWhile (\<lambda>c. \<not> is_space c) (w @ CHR '' '' # s) = w"
    and "dropWhile (\<lambda>c. \<not> is_space c) (w @ CHR '' '' # s) = CHR '' '' # s"
    using assms(2) sp by (simp_all add: takeWhile_append2 dropWhile_append2)
  ultimately show "split_ws_max (Suc n) (w @ CHR '' '' # s) = w # split_ws_max n (CHR '' '' # s)"
    by (simp add: split_ws_max.simps [of "Suc n"] Let_def)
  show "split_ws_max n (CHR '' '' # s) = split_ws_max n s"
    by (simp add: split_ws_max.simps [of n] sp)
qed

lemma split_ws_max_rest: "s \<noteq> [] \<Longrightarrow> \<not> is_space (hd s) \<Longrightarrow> split_ws_max 0 s = [s]"
  by (cases s) (simp_all add: split_ws_max.simps [of 0])

lemma split_ws_max_line:
  assumes "words_ok ws" and "ws \<noteq> []" and "s \<noteq> []" and "\<not> is_space (hd s)"
  shows "split_ws_max (length ws) (py_join CHR '' '' ws @ CHR '' '' # s) = ws @ [s]"
  using assms(1,2)
proof (induction "CHR '' ''" ws rule: py_join.induct)
  case (2 w)
  then show ?case
    using split_ws_max_word [of w 0 s] split_ws_max_rest [OF assms(3,4)] by (simp add: words_ok_def)
next
  case (3 w v ws)
  then have w: "w \<noteq> []" "\<forall>c \<in> set w. \<not> is_space c" and vs: "words_ok (v # ws)"
    by (simp_all add: words_ok_def)
  from 3(1) [OF vs] split_ws_max_word [OF w] show ?case by simp
qed simp

lemma strip_id: "s \<noteq> [] \<Longrightarrow> \<not> is_space (hd s) \<Longrightarrow> \<not> is_space (last s) \<Longrightarrow> py_strip s = s"
proof -
  assume s: "s \<noteq> []" "\<not> is_space (hd s)" "\<not> is_space (last s)"
  have "dropWhile is_space s = s" using s by (cases s) auto
  moreover have "dropWhile is_space (rev s) = rev s"
    using s by (cases "rev s") (auto simp: last_rev hd_rev)
  ultimately show ?thesis by (simp add: py_strip_def)
qed

lemma escape_percent_chars: "set (escape_percent_from e s) \<subseteq> insert (CHR 92) (set s)"
  by (induction s arbitrary: e) auto

lemma escape_percent_last:
  "s \<noteq> [] \<Longrightarrow> escape_percent_from e s \<noteq> [] \<and> last (escape_percent_from e s) = last s"
proof (induction s arbitrary: e)
  case (Cons c s)
  then show ?case by (cases "s = []") auto
qed simp

lemma shell_quote_chars: "set (shell_quote s) \<subseteq> set s \<union> {CHR 39, CHR 34}"
  by (auto simp: shell_quote_def split: if_splits)

lemma shell_quote_last: "shell_quote s \<noteq> [] \<and> \<not> is_space (last (shell_quote s))"
proof -
  have "\<not> is_space c" if "shell_safe c" for c
    using that space_chars(1) by (auto simp: shell_safe_def is_space_def)
  moreover have "shell_safe (last s)" if "s \<noteq> []" "list_all shell_safe s"
    using that by (simp add: list_all_iff)
  moreover have "\<not> is_space (CHR 39)" by (simp add: is_space_def)
  ultimately show ?thesis by (auto simp: shell_quote_def)
qed

text \<open>A line without line breaks; U+0085 is the one break the validators let through.\<close>

definition plain_line :: "string \<Rightarrow> bool" where
  "plain_line s \<longleftrightarrow> (\<forall>c \<in> set s. \<not> line_break c)"

definition nel_free :: "string \<Rightarrow> bool" where
  "nel_free s \<longleftrightarrow> CHR 0x85 \<notin> set s"

definition lower_id :: "string \<Rightarrow> bool" where
  "lower_id i \<longleftrightarrow> length i = 36 \<and> list_all (char_in [(48, 57), (97, 102), (45, 45)]) i"

definition job_writable :: "cron_job \<Rightarrow> bool" where
  "job_writable j \<longleftrightarrow> values_ok j \<and> cd_schedule j = py_join CHR '' '' (py_split_ws (cd_schedule j))
     \<and> lower_id (cj_id j) \<and> nel_free (cd_name j) \<and> nel_free (cd_command j)
     \<and> (case cd_workdir j of None \<Rightarrow> True | Some w \<Rightarrow> nel_free w)
     \<and> list_all (\<lambda>v. nel_free (ev_value v)) (cd_environment j)"

lemma plain_line_simps [simp]:
  "plain_line []" "plain_line (c # s) \<longleftrightarrow> \<not> line_break c \<and> plain_line s"
  "plain_line (s @ t) \<longleftrightarrow> plain_line s \<and> plain_line t"
  by (auto simp: plain_line_def)

lemma char_133: "of_char c = (133 :: nat) \<Longrightarrow> c = CHR 0x85"
proof -
  assume "of_char c = (133 :: nat)"
  then have "of_char c = (of_char CHR 0x85 :: nat)" by simp
  then show ?thesis by (rule injD [OF inj_of_char])
qed

lemma plain_line_no_control: "no_control s \<Longrightarrow> nel_free s \<Longrightarrow> plain_line s"
  using line_break_control char_133 by (fastforce simp: plain_line_def no_control_def nel_free_def list_ex_iff)

lemma plain_line_words: "\<forall>c \<in> set s. \<not> is_space c \<Longrightarrow> plain_line s"
  using space_chars(2) by (auto simp: plain_line_def)

lemma plain_line_subset: "plain_line s \<Longrightarrow> set t \<subseteq> X \<union> set s \<Longrightarrow> \<forall>c \<in> X. \<not> line_break c \<Longrightarrow> plain_line t"
  by (auto simp: plain_line_def)

lemma plain_line_quote: "plain_line s \<Longrightarrow> plain_line (shell_quote s)"
  by (rule plain_line_subset [where X = "{CHR 39, CHR 34}"])
     (use shell_quote_chars [of s] in \<open>auto simp: line_break_def char_in_def\<close>)

lemma plain_line_escape: "plain_line s \<Longrightarrow> plain_line (escape_percent s)"
  unfolding escape_percent_def
  by (rule plain_line_subset [where X = "{CHR 92}"])
     (use escape_percent_chars [of False s] in \<open>auto simp: line_break_def char_in_def\<close>)

lemma plain_line_show: "plain_line (show_nat n)"
  by (rule plain_line_words) (auto dest: show_nat_digits space_chars(3))

lemma plain_line_key: "environment_key s \<Longrightarrow> plain_line s"
proof (rule plain_line_words, rule ballI)
  fix c assume "environment_key s" and "c \<in> set s"
  then have "word_char c"
    by (cases s) (auto simp: environment_key_def word_char_def list_all_iff)
  then show "\<not> is_space c" by (rule space_chars(1))
qed

lemma plain_line_join: "plain_line sep \<Longrightarrow> \<forall>w \<in> set ws. plain_line w \<Longrightarrow> plain_line (join_with sep ws)"
  by (induction sep ws rule: join_with.induct) auto

lemma breaks [simp]: "\<not> line_break (Char b0 b1 b2 b3 b4 True b6 False)" "\<not> line_break (Char b0 b1 b2 b3 b4 b5 True False)"
  by (auto simp: line_break_def char_in_def)

text \<open>What is quoted last ends the command.\<close>

definition quoted_command :: "'a cron_definition_scheme \<Rightarrow> string" where
  "quoted_command j = (case cd_workdir j of
     Some w \<Rightarrow> if w = [] then cd_command j else ''cd -- '' @ shell_quote w @ '' && '' @ cd_command j
   | None \<Rightarrow> cd_command j)"

definition timeout_prefix :: "'a cron_definition_scheme \<Rightarrow> string" where
  "timeout_prefix j = (case cd_timeout j of
     Some (Suc t) \<Rightarrow> ''/usr/bin/timeout --signal=TERM '' @ show_nat (Suc t) @ ''s '' | _ \<Rightarrow> [])"

definition env_prefix :: "'a cron_definition_scheme \<Rightarrow> string" where
  "env_prefix j = (if cd_environment j = [] then [] else ''/usr/bin/env ''
     @ join_with '' '' (map (\<lambda>v. ev_name v @ ''='' @ shell_quote (ev_value v)) (cd_environment j)) @ '' '')"

definition unescaped_command :: "'a cron_definition_scheme \<Rightarrow> string" where
  "unescaped_command j = env_prefix j @ timeout_prefix j @ ''/bin/sh -c '' @ shell_quote (quoted_command j)"

lemma rendered_command_alt: "rendered_command j = escape_percent (unescaped_command j)"
  by (simp add: rendered_command_def unescaped_command_def env_prefix_def timeout_prefix_def
      quoted_command_def Let_def split: option.splits nat.splits)

lemma unescaped_command_head: "\<exists>t. unescaped_command j = CHR ''/'' # t"
  by (simp add: unescaped_command_def env_prefix_def timeout_prefix_def split: option.splits nat.splits)

lemma unescaped_command_plain:
  assumes "job_writable j"
  shows "plain_line (unescaped_command j)"
proof -
  have "plain_line (cd_command j)"
    using assms by (auto simp: job_writable_def values_ok_def intro: plain_line_no_control)
  moreover have "plain_line w" if "cd_workdir j = Some w" for w
    using assms that by (auto simp: job_writable_def values_ok_def intro: plain_line_no_control)
  ultimately have "plain_line (shell_quote (quoted_command j))"
    by (intro plain_line_quote) (auto simp: quoted_command_def plain_line_quote split: option.splits)
  moreover have "plain_line (ev_name v @ ''='' @ shell_quote (ev_value v))" if "v \<in> set (cd_environment j)" for v
  proof -
    have "environment_key (ev_name v)" "no_control (ev_value v)" "nel_free (ev_value v)"
      using assms that by (auto simp: job_writable_def values_ok_def env_ok_def list_all_iff)
    then show ?thesis by (simp add: plain_line_key plain_line_quote plain_line_no_control)
  qed
  then have "plain_line (env_prefix j)"
    unfolding env_prefix_def by (auto intro!: plain_line_join)
  moreover have "plain_line (timeout_prefix j)"
    by (simp add: timeout_prefix_def plain_line_show split: option.splits nat.splits)
  ultimately show ?thesis by (simp add: unescaped_command_def)
qed

lemma rendered_command_facts:
  "rendered_command j \<noteq> []" "\<not> is_space (hd (rendered_command j))" "\<not> is_space (last (rendered_command j))"
  "job_writable j \<Longrightarrow> plain_line (rendered_command j)"
proof -
  obtain t where t: "unescaped_command j = CHR ''/'' # t" using unescaped_command_head by blast
  have slash: "\<not> is_space CHR ''/''" by (simp add: is_space_def)
  show "rendered_command j \<noteq> []" "\<not> is_space (hd (rendered_command j))"
    by (simp_all add: rendered_command_alt escape_percent_def t slash)
  have "last (rendered_command j) = last (unescaped_command j)"
    unfolding rendered_command_alt escape_percent_def by (rule escape_percent_last [THEN conjunct2]) (simp add: t)
  then show "\<not> is_space (last (rendered_command j))"
    using shell_quote_last [of "quoted_command j"] by (simp add: unescaped_command_def)
  show "job_writable j \<Longrightarrow> plain_line (rendered_command j)"
    unfolding rendered_command_alt by (intro plain_line_escape unescaped_command_plain)
qed

section \<open>Reading a written file\<close>

lemma values_ok_facts:
  assumes "job_writable j"
  shows "\<exists>e. parse_cron (cd_schedule j) = Inr e" and "cd_user j \<noteq> []"
    and "\<forall>c \<in> set (cd_user j). \<not> is_space c"
  using assms username_word [of "cd_user j"]
  by (auto simp: job_writable_def values_ok_def split: sum.splits)

lemma split_entry_line:
  assumes j: "job_writable j"
  shows "split_cron_line (entry_line j) True = Inr (cd_schedule j, cd_user j, rendered_command j)"
    and "hd (entry_line j) \<noteq> CHR ''#''"
proof -
  let ?s = "cd_schedule j" and ?u = "cd_user j" and ?c = "rendered_command j"
  define ws where "ws = py_split_ws ?s"
  obtain e where e: "parse_cron ?s = Inr e" using values_ok_facts(1) [OF j] by blast
  have s: "?s = py_join CHR '' '' ws" and ok: "words_ok ws"
    using j by (simp_all add: job_writable_def ws_def)
  have shape: "(\<exists>w. ws = [w] \<and> hd w = CHR ''@'') \<or> length ws = 5 \<and> hd (hd ws) \<notin> {CHR ''@'', CHR ''#''}"
    using schedule_shape [OF e] by (simp add: ws_def)
  then have ne: "ws \<noteq> []" by auto
  have "words_ok (ws @ [?u])"
    using ok values_ok_facts(2,3) [OF j] by (auto simp: words_ok_def)
  then have split: "split_ws_max (length ws + 1) (py_join CHR '' '' (ws @ [?u]) @ CHR '' '' # ?c) = ws @ [?u, ?c]"
    using split_ws_max_line [of "ws @ [?u]" ?c] rendered_command_facts(1,2) by simp
  have join: "py_join CHR '' '' (ws @ [?u]) = ?s @ CHR '' '' # ?u"
    unfolding s using ne by (induction "CHR '' ''" ws rule: py_join.induct) auto
  then have line: "entry_line j = py_join CHR '' '' (ws @ [?u]) @ CHR '' '' # ?c"
    by (simp add: entry_line_def)
  have head: "hd (entry_line j) = hd (hd ws)" "\<not> is_space (hd (hd ws))" "?s \<noteq> []"
    using ok ne by (cases ws; cases "hd ws"; cases "tl ws"; simp add: entry_line_def s words_ok_def)+
  have strip: "py_strip (entry_line j) = entry_line j"
    using head rendered_command_facts(1,3) [of j] by (intro strip_id) (simp_all add: entry_line_def)
  have nonempty: "entry_line j \<noteq> []" by (simp add: entry_line_def)
  show "hd (entry_line j) \<noteq> CHR ''#''"
    using head(1) shape by auto
  from shape show "split_cron_line (entry_line j) True = Inr (?s, ?u, ?c)"
  proof
    assume "\<exists>w. ws = [w] \<and> hd w = CHR ''@''"
    then obtain w where w: "ws = [w]" "hd w = CHR ''@''" by blast
    have "split_ws_max 2 (entry_line j) = [?s, ?u, ?c]"
      using split by (simp add: line w(1) s numeral_2_eq_2)
    then show ?thesis
      using nonempty head(1) w e by (simp add: split_cron_line_def strip Let_def)
  next
    assume five: "length ws = 5 \<and> hd (hd ws) \<notin> {CHR ''@'', CHR ''#''}"
    then have parts: "split_ws_max 6 (entry_line j) = ws @ [?u, ?c]"
      using split by (simp add: line)
    then show ?thesis
      using nonempty head(1) five e s by (simp add: split_cron_line_def strip Let_def nth_append)
  qed
qed

definition entry_of :: "cron_job \<Rightarrow> managed_entry" where
  "entry_of j = \<lparr>me_id = cj_id j, me_name = cd_name j, me_enabled = cd_enabled j, me_entry = entry_line j\<rparr>"

lemma safe_name_plain: "plain_line s \<Longrightarrow> safe_name s = s"
  by (induction s) (auto simp: safe_name_def line_break_def char_in_def)

lemma writable_name: "job_writable j \<Longrightarrow> plain_line (cd_name j)"
  by (auto simp: job_writable_def values_ok_def intro: plain_line_no_control)

lemma id_line_written: "lower_id i \<Longrightarrow> id_line (''# id: '' @ i) = Some i"
  by (simp add: id_line_def strip_prefix_def lower_id_def)

lemma enabled_line_written: "enabled_line (''# enabled: '' @ (if b then ''true'' else ''false'')) = Some b"
  by (simp add: enabled_line_def)

lemma parse_entry_written:
  assumes "job_writable j"
  shows "parse_entry (''# id: '' @ cj_id j) (''# name: '' @ safe_name (cd_name j))
    (''# enabled: '' @ (if cd_enabled j then ''true'' else ''false''))
    ((if cd_enabled j then '''' else ''# disabled: '') @ entry_line j) = Inr (entry_of j)"
proof -
  have "\<not> prefix ''# disabled: '' (entry_line j)"
    using split_entry_line(2) [OF assms] by (cases "entry_line j") auto
  moreover have "lower_id (cj_id j)" using assms by (simp add: job_writable_def)
  ultimately show ?thesis
    unfolding parse_entry_def id_line_written [OF \<open>lower_id (cj_id j)\<close>] enabled_line_written
    by (simp add: strip_prefix_def split_entry_line(1) [OF assms] entry_of_def
        safe_name_plain [OF writable_name [OF assms]])
qed

lemma parse_lines_entry:
  "parse_entry a b c d = Inr m \<Longrightarrow>
     parse_lines ([] # [job_marker, a, b, c, d] @ rest) = rbind (parse_lines rest) (\<lambda>ms. Inr (m # ms))"
  by (simp add: job_marker_def)

lemmas parse_lines_written = parse_lines_entry [OF parse_entry_written, folded entry_lines_def]

lemma parse_written_lines:
  "\<forall>j \<in> set js. job_writable j \<Longrightarrow>
     parse_lines (concat (map (\<lambda>j. [] # entry_lines j) js)) = Inr (map entry_of js)"
proof (induction js)
  case (Cons j js)
  have "concat (map (\<lambda>j. [] # entry_lines j) (j # js))
      = [] # entry_lines j @ concat (map (\<lambda>j. [] # entry_lines j) js)" by simp
  with Cons show ?case by (simp only: parse_lines_written list.set_intros) simp
qed simp

lemma entry_lines_plain:
  assumes "job_writable j" and "l \<in> set (entry_lines j)"
  shows "plain_line l"
proof -
  have "plain_line (cd_schedule j)"
  proof -
    have "set (py_join CHR '' '' ws) \<subseteq> insert CHR '' '' (\<Union> (set ` set ws))" for ws
      by (induction "CHR '' ''" ws rule: py_join.induct) auto
    moreover have "plain_line w" if "w \<in> set (py_split_ws (cd_schedule j))" for w
      using py_split_ws_words [OF that] by (intro plain_line_words) simp
    ultimately have "plain_line (py_join CHR '' '' (py_split_ws (cd_schedule j)))"
      using breaks(2) by (fastforce simp: plain_line_def)
    then show ?thesis using assms(1) by (simp add: job_writable_def)
  qed
  moreover have "plain_line (cj_id j)"
    using assms(1)
    by (intro plain_line_words) (auto simp: job_writable_def lower_id_def list_all_iff char_in_def is_space_def Let_def)
  moreover have "plain_line (cd_user j)"
    using values_ok_facts(3) [OF assms(1)] by (rule plain_line_words)
  ultimately show ?thesis
    using assms writable_name [OF assms(1)] rendered_command_facts(4) [OF assms(1)]
    by (auto simp: entry_lines_def entry_line_def job_marker_def safe_name_plain)
qed

lemma parse_rendered:
  assumes "\<forall>j \<in> set jobs. job_writable j" and "distinct (map cj_id jobs)"
  shows "parse_managed_config (render_config jobs) = Inr (map entry_of (sort_key cj_id jobs))"
proof -
  let ?js = "sort_key cj_id jobs"
  have js: "\<forall>j \<in> set ?js. job_writable j" using assms(1) by simp
  have "\<forall>l \<in> set (config_lines jobs). \<forall>c \<in> set l. \<not> line_break c"
    using assms(1) entry_lines_plain
    by (auto simp: config_lines_def managed_header_def simp flip: plain_line_def)
  then have lines: "py_splitlines (render_config jobs) = config_lines jobs"
    by (simp add: render_config_unlines splitlines_unlines)
  have "parse_lines (config_lines jobs) = Inr (map entry_of ?js)"
    using parse_written_lines [OF js] by (simp add: config_lines_def managed_header_def job_marker_def)
  moreover have "distinct (map cj_id ?js)"
    using assms(2) by (metis distinct_map distinct_sort set_sort)
  moreover have "prefix (managed_header @ line_feed) (render_config jobs)"
    by (simp add: render_config_def Let_def)
  ultimately show ?thesis
    by (simp add: parse_managed_config_def lines comp_def entry_of_def)
qed


definition demo_cron_job :: "string \<Rightarrow> cron_job" where
  "demo_cron_job name = \<lparr>cd_name = name, cd_description = [], cd_user = ''root'', cd_schedule = ''@daily'',
     cd_command = ''date +%F'', cd_workdir = Some ''/srv'', cd_environment = [\<lparr>ev_name = ''A'', ev_value = ''b c''\<rparr>],
     cd_timeout = Some 30, cd_enabled = False,
     cj_id = ''00000000-0000-4000-8000-000000000001'', cj_source = Src_webnas, cj_status = Cron_disabled,
     cj_read_only = False, cj_created_at = None, cj_updated_at = None, cj_created_by = [],
     cj_updated_by = [], cj_next_run = None, cj_source_label = ''WebNAS''\<rparr>"

lemma demo_cron_job_writable: "job_writable (demo_cron_job ''n'')"
  by code_simp


text \<open>What the validator accepts can be written, if it holds no U+0085.\<close>

lemma validated_definition:
  assumes "validate_model d = Inr d'"
  shows "values_ok d'" and "cd_schedule d' = py_join CHR '' '' (py_split_ws (cd_schedule d'))"
proof -
  from assms have d': "d' = normal_definition d" "values_ok d'"
    by (auto simp: validate_model_def split: if_splits)
  then show "values_ok d'" by simp
  show "cd_schedule d' = py_join CHR '' '' (py_split_ws (cd_schedule d'))"
    by (simp add: d'(1) normal_definition_def split_join_words)
qed

text \<open>A name with U+0085 passes the validator, and the file with it does not parse.\<close>

lemma nel_name_breaks_config:
  "values_ok (demo_cron_job [CHR ''a'', CHR 0x85, CHR ''b''])
   \<and> parse_managed_config (render_config [demo_cron_job [CHR ''a'', CHR 0x85, CHR ''b'']])
       = Inl (ValueError ''managed cron metadata is invalid'')"
  by code_simp

end
