(* ===== verification/Cron_Service.thy ===== *)
theory Cron_Service
  imports Cron_Config "HOL-Library.Product_Lexorder"
begin

text \<open>
  The cron manager, \<^verbatim>\<open>modules/cron/repository.py\<close>, \<^verbatim>\<open>AtomicCronWriter\<close> of
  \<^verbatim>\<open>system.py\<close> and \<^verbatim>\<open>modules/cron/service.py\<close>: the job table, the managed
  file, and the operations that change both. The service lock makes every operation one step. What
  the operating system answers is the record \<open>cron_world\<close>, with the stages at which a system
  call may fail; restoring the previous file is assumed to succeed.
\<close>

section \<open>State\<close>

record cron_row = cron_definition +
  cr_id :: string
  cr_created_at :: time
  cr_updated_at :: time
  cr_created_by :: string
  cr_updated_by :: string

record cron_event =
  ch_job_id :: string
  ch_action :: string
  ch_actor :: string
  ch_details :: "(string \<times> string) list"
  ch_at :: time

record cron_state =
  cs_rows :: "cron_row list"
  cs_history :: "cron_event list"
  cs_file :: "string option"
  cs_backups :: "string list"
  cs_activity :: "(string \<times> string \<times> string) list"

record cron_world =
  cw_user_exists :: "string \<Rightarrow> bool"
  cw_is_dir :: "string \<Rightarrow> bool"
  cw_timeout_installed :: bool
  cw_zone :: time_zone
  cw_now :: int
  cw_time :: time
  cw_uuid :: string
  cw_external :: "cron_job list"
  cw_backup_fails :: bool
  cw_write_fails :: bool
  cw_verify_fails :: bool
  cw_database_fails :: bool
  cw_readback_fails :: bool

section \<open>Constructing jobs\<close>

definition new_job ::
  "cron_definition \<Rightarrow> string \<Rightarrow> time option \<Rightarrow> time option \<Rightarrow> string \<Rightarrow> string \<Rightarrow> cron_job" where
  "new_job d i created updated creator updater = cron_definition.extend d
     (cron_job.fields i Src_webnas (if cd_enabled d then Cron_enabled else Cron_disabled) False
        created updated creator updater None ''WebNAS'')"

text \<open>The validators of \<^verbatim>\<open>CronJob\<close> and \<^verbatim>\<open>CronJobCreate\<close>.\<close>

definition construct_job ::
  "cron_definition \<Rightarrow> string \<Rightarrow> time option \<Rightarrow> time option \<Rightarrow> string \<Rightarrow> string \<Rightarrow> cron_job res" where
  "construct_job d i created updated creator updater =
     rbind (validate_model d) (\<lambda>d'.
       if job_id_ok i \<or> prefix ''external-'' i then Inr (new_job d' i created updated creator updater)
       else Inl (ValueError ''invalid cron job id''))"

definition construct_create :: "cron_definition \<Rightarrow> string option \<Rightarrow> cron_definition res" where
  "construct_create d i =
     rbind (validate_model d) (\<lambda>d'.
       case i of Some v \<Rightarrow> if job_id_ok v then Inr d' else Inl (ValueError ''invalid cron job id'')
       | None \<Rightarrow> Inr d')"

section \<open>The job table\<close>

text \<open>Environment entries that do not validate are dropped on reading.\<close>

definition row_job :: "cron_row \<Rightarrow> cron_job res" where
  "row_job r = construct_job
     ((cron_definition.truncate r)\<lparr>cd_environment := filter env_ok (cd_environment r)\<rparr>)
     (cr_id r) (Some (cr_created_at r)) (Some (cr_updated_at r)) (cr_created_by r) (cr_updated_by r)"

definition cron_repo_list :: "cron_state \<Rightarrow> cron_job list res" where
  "cron_repo_list s = rmap row_job (sort_key (\<lambda>r. (ascii_lower (cd_name r), cr_id r)) (cs_rows s))"

definition cron_repo_get :: "string \<Rightarrow> cron_state \<Rightarrow> cron_job option res" where
  "cron_repo_get i s = (case find (\<lambda>r. cr_id r = i) (cs_rows s) of
     None \<Rightarrow> Inr None | Some r \<Rightarrow> rbind (row_job r) (\<lambda>j. Inr (Some j)))"

definition cron_repo_read :: "string \<Rightarrow> cron_state \<Rightarrow> cron_job res" where
  "cron_repo_read i s = rbind (cron_repo_get i s) (\<lambda>found.
     case found of Some j \<Rightarrow> Inr j
     | None \<Rightarrow> Inl (RuntimeError ''cron job could not be read''))"

definition add_history ::
  "cron_world \<Rightarrow> string \<Rightarrow> string \<Rightarrow> string \<Rightarrow> (string \<times> string) list \<Rightarrow> cron_state \<Rightarrow> cron_state" where
  "add_history w i action actor details s = s\<lparr>cs_history := cs_history s @
     [\<lparr>ch_job_id = i, ch_action = action, ch_actor = actor,
       ch_details = filter (\<lambda>(k, _). k \<notin> {''command'', ''environment'', ''password'', ''pam_password''}) details,
       ch_at = cw_time w\<rparr>]\<rparr>"

definition definition_details :: "cron_definition \<Rightarrow> (string \<times> string) list" where
  "definition_details d = [(''name'', cd_name d), (''user'', cd_user d), (''schedule'', cd_schedule d)]"

text \<open>A failing transaction leaves the tables as they were.\<close>

definition database_error :: "py_exn" where
  "database_error = RuntimeError ''database is locked''"

type_synonym cron_write = "cron_state \<Rightarrow> cron_job option res \<times> cron_state"

definition cron_repo_create :: "cron_world \<Rightarrow> string \<Rightarrow> cron_definition \<Rightarrow> string \<Rightarrow> cron_write" where
  "cron_repo_create w i d actor s =
     (if i = [] then (Inl (ValueError ''cron job id is required''), s)
      else if cw_database_fails w then (Inl database_error, s)
      else (case insert_row cr_id ''cron_jobs.id'' (cron_definition.extend d
               (cron_row.fields i (cw_time w) (cw_time w) actor actor)) (cs_rows s) of
        Inl e \<Rightarrow> (Inl e, s)
      | Inr rows \<Rightarrow>
          let s' = add_history w i ''cron.job.created'' actor (definition_details d) (s\<lparr>cs_rows := rows\<rparr>)
          in (rbind (cron_repo_read i s') (\<lambda>j. Inr (Some j)), s')))"

definition cron_repo_update ::
  "cron_world \<Rightarrow> string \<Rightarrow> cron_definition \<Rightarrow> string \<Rightarrow> string \<Rightarrow> cron_write" where
  "cron_repo_update w i d actor action s =
     (if cw_database_fails w then (Inl database_error, s)
      else if \<not> list_ex (\<lambda>r. cr_id r = i) (cs_rows s) then (Inl (KeyError i), s)
      else let s' = add_history w i action actor (definition_details d)
             (s\<lparr>cs_rows := upd_rows (\<lambda>r. cr_id r = i) (\<lambda>r. cron_definition.extend d
               (cron_row.fields i (cr_created_at r) (cw_time w) (cr_created_by r) actor)) (cs_rows s)\<rparr>)
           in (rbind (cron_repo_read i s') (\<lambda>j. Inr (Some j)), s'))"

definition cron_repo_delete :: "cron_world \<Rightarrow> string \<Rightarrow> string \<Rightarrow> string \<Rightarrow> cron_write" where
  "cron_repo_delete w i actor name s =
     (if cw_database_fails w then (Inl database_error, s)
      else if \<not> list_ex (\<lambda>r. cr_id r = i) (cs_rows s) then (Inl (KeyError i), s)
      else (Inr None, add_history w i ''cron.job.deleted'' actor [(''name'', name)]
             (s\<lparr>cs_rows := del_rows (\<lambda>r. cr_id r = i) (cs_rows s)\<rparr>)))"

text \<open>Newest first, at most 1000.\<close>

definition cron_repo_history :: "string \<Rightarrow> nat \<Rightarrow> cron_state \<Rightarrow> cron_event list" where
  "cron_repo_history i limit s = take (min (max limit 1) 1000)
     (sort_key (\<lambda>e. - ch_at e) (rev (filter (\<lambda>e. ch_job_id e = i) (cs_history s))))"

section \<open>The managed file\<close>

definition restore_file :: "string option \<Rightarrow> cron_state \<Rightarrow> cron_state" where
  "restore_file snapshot s = s\<lparr>cs_file := snapshot\<rparr>"

text \<open>\<^verbatim>\<open>AtomicCronWriter.apply\<close>: the snapshot, or an error with the file restored.\<close>

definition writer_apply :: "cron_world \<Rightarrow> string \<Rightarrow> cron_state \<Rightarrow> string option res \<times> cron_state" where
  "writer_apply w content s =
     (case parse_managed_config content of
        Inl e \<Rightarrow> (Inl e, s)
      | Inr _ \<Rightarrow>
          let snapshot = cs_file s in
          if snapshot \<noteq> None \<and> cw_backup_fails w then (Inl (OSError ''backup''), s)
          else let s1 = (case snapshot of None \<Rightarrow> s
                 | Some old \<Rightarrow> s\<lparr>cs_backups := take 20 (old # cs_backups s)\<rparr>)
          in if cw_write_fails w then (Inl (OSError ''write''), restore_file snapshot s1)
          else let s2 = s1\<lparr>cs_file := Some content\<rparr>
          in if cw_verify_fails w
             then (Inl (RuntimeError ''managed cron file verification failed''), restore_file snapshot s2)
             else (Inr snapshot, s2))"

definition config_valid :: "cron_world \<Rightarrow> cron_state \<Rightarrow> bool res" where
  "config_valid w s = rbind (cron_repo_list s) (\<lambda>jobs.
     case cs_file s of
       None \<Rightarrow> Inr (jobs = [])
     | Some content \<Rightarrow>
         if cw_readback_fails w then Inr False
         else (case parse_managed_config content of
           Inl _ \<Rightarrow> Inr False
         | Inr parsed \<Rightarrow> Inr (content = render_config jobs \<and> set (map me_id parsed) = set (map cj_id jobs))))"

text \<open>\<^verbatim>\<open>_apply_candidate\<close>: the file first, then the table, then the check of both.\<close>

definition apply_candidate ::
  "cron_world \<Rightarrow> cron_job list \<Rightarrow> cron_write \<Rightarrow> cron_write" where
  "apply_candidate w jobs op s =
     (case writer_apply w (render_config jobs) s of
        (Inl e, s1) \<Rightarrow> (Inl e, s1)
      | (Inr snapshot, s1) \<Rightarrow>
          (case op s1 of
             (Inl e, s2) \<Rightarrow> (Inl e, restore_file snapshot s2)
           | (Inr result, s2) \<Rightarrow>
               (case config_valid w s2 of
                  Inr True \<Rightarrow> (Inr result, s2)
                | Inr False \<Rightarrow> (Inl (RuntimeError ''cron database and managed configuration do not match''),
                    restore_file snapshot s2)
                | Inl e \<Rightarrow> (Inl e, restore_file snapshot s2))))"

section \<open>Operations\<close>

definition sensitive_env_markers :: "string list" where
  "sensitive_env_markers = [''password'', ''passwd'', ''token'', ''secret'', ''credential'', ''private_key'']"

definition public_job :: "cron_world \<Rightarrow> cron_job \<Rightarrow> cron_job res" where
  "public_job w j =
     rbind (if cd_enabled j then next_occurrence (cw_zone w) (cd_schedule j) (cw_now w) 5 else Inr None)
       (\<lambda>following. Inr (j\<lparr>cj_next_run := following\<rparr>))"

record cron_validation =
  cv_normalized :: string
  cv_next_run :: "(int \<times> bool) option"
  cv_entry :: string
  cv_warnings :: "string list"

definition definition_warnings :: "cron_world \<Rightarrow> cron_definition \<Rightarrow> string list" where
  "definition_warnings w d =
     (case cd_workdir d of
        Some p \<Rightarrow> if p \<noteq> [] \<and> \<not> cw_is_dir w p then [''The working directory does not currently exist''] else []
      | None \<Rightarrow> [])
   @ (case cd_timeout d of
        Some (Suc t) \<Rightarrow> if cw_timeout_installed w then []
          else [''/usr/bin/timeout is unavailable; the job cannot run with a timeout'']
      | _ \<Rightarrow> [])
   @ (if list_ex (\<lambda>v. list_ex (\<lambda>m. sublist m (ascii_lower (ev_name v))) sensitive_env_markers) (cd_environment d)
      then [''Environment contains a secret-like variable; cron stores environment values as plain text'']
      else [])"

definition validate_definition ::
  "cron_world \<Rightarrow> cron_definition \<Rightarrow> (cron_validation \<times> cron_definition) res" where
  "validate_definition w definition0 =
     rbind (validate_model definition0) (\<lambda>d.
     rbind (parse_cron (cd_schedule d)) (\<lambda>_.
       if \<not> cw_user_exists w (cd_user d) then Inl (ValueError (''Linux user does not exist: '' @ cd_user d))
       else rbind (construct_job d (cw_uuid w) None None [] []) (\<lambda>preview.
            rbind (next_occurrence (cw_zone w) (cd_schedule d) (cw_now w) 5) (\<lambda>following.
              Inr (\<lparr>cv_normalized = cd_schedule d, cv_next_run = following,
                     cv_entry = render_entry preview, cv_warnings = definition_warnings w d\<rparr>, d)))))"

text \<open>The read-only part of an operation, then the part that writes.\<close>

definition planned :: "'p res \<Rightarrow> ('p \<Rightarrow> cron_state \<Rightarrow> 'a res \<times> cron_state) \<Rightarrow> cron_state \<Rightarrow> 'a res \<times> cron_state" where
  "planned p f s = (case p of Inl e \<Rightarrow> (Inl e, s) | Inr x \<Rightarrow> f x s)"

definition audit_cron :: "string \<Rightarrow> string \<Rightarrow> string \<Rightarrow> cron_state \<Rightarrow> cron_state" where
  "audit_cron action actor i s = s\<lparr>cs_activity := cs_activity s @ [(action, actor, i)]\<rparr>"

text \<open>Audit of the outcome, and the public form of the job.\<close>

definition published :: "cron_world \<Rightarrow> string \<Rightarrow> string \<Rightarrow> cron_job option res \<times> cron_state \<Rightarrow> cron_job res \<times> cron_state" where
  "published w action actor outcome =
     (case outcome of
        (Inr (Some j), s) \<Rightarrow> (public_job w j, audit_cron action actor (cj_id j) s)
      | (Inr None, s) \<Rightarrow> (Inl (RuntimeError ''AssertionError''), s)
      | (Inl e, s) \<Rightarrow> (Inl e, s))"

text \<open>\<open>payload.id or str(uuid4())\<close>.\<close>

definition chosen_id :: "cron_world \<Rightarrow> string option \<Rightarrow> string" where
  "chosen_id w given = (case given of Some (c # cs) \<Rightarrow> c # cs | _ \<Rightarrow> cw_uuid w)"

definition cron_create ::
  "cron_world \<Rightarrow> cron_definition \<Rightarrow> string option \<Rightarrow> string \<Rightarrow> cron_state \<Rightarrow> cron_job res \<times> cron_state" where
  "cron_create w payload given actor s =
     planned (rbind (validate_model payload) (\<lambda>d.
              rbind (validate_definition w d) (\<lambda>_.
              let i = chosen_id w given in
              rbind (construct_create d (Some i)) (\<lambda>created.
              rbind (construct_job d i None None [] []) (\<lambda>candidate.
              rbind (cron_repo_list s) (\<lambda>jobs.
                if list_ex (\<lambda>j. cj_id j = i) jobs then Inl (ValueError ''cron job id already exists'')
                else Inr (jobs @ [candidate], i, created)))))))
       (\<lambda>(jobs, i, created) s. published w ''cron.job.created'' actor
          (apply_candidate w jobs (cron_repo_create w i created actor) s)) s"

definition cron_update ::
  "cron_world \<Rightarrow> string \<Rightarrow> cron_definition \<Rightarrow> string \<Rightarrow> string \<Rightarrow> cron_state \<Rightarrow> cron_job res \<times> cron_state" where
  "cron_update w i payload actor action s =
     planned (rbind (validate_definition w payload) (\<lambda>_.
              rbind (cron_repo_get i s) (\<lambda>found.
                case found of
                  None \<Rightarrow> if list_ex (\<lambda>j. cj_id j = i) (cw_external w) then Inl (PermissionError i)
                          else Inl (KeyError i)
                | Some existing \<Rightarrow>
                    rbind (construct_job payload i (cj_created_at existing) None (cj_created_by existing) actor)
                      (\<lambda>candidate.
                    rbind (cron_repo_list s) (\<lambda>jobs.
                      Inr (map (\<lambda>j. if cj_id j = i then candidate else j) jobs))))))
       (\<lambda>jobs s. published w action actor (apply_candidate w jobs (cron_repo_update w i payload actor action) s)) s"

text \<open>
  \<^verbatim>\<open>get\<close>: an id that is neither a UUID nor an external one names no row and no external
  job, so the lookup itself answers as the check before it would.
\<close>

definition cron_get :: "cron_world \<Rightarrow> string \<Rightarrow> bool \<Rightarrow> cron_state \<Rightarrow> cron_job res" where
  "cron_get w i include_external s =
     rbind (cron_repo_get i s) (\<lambda>found.
       case found of
         Some j \<Rightarrow> public_job w j
       | None \<Rightarrow>
           (case (if include_external then find (\<lambda>j. cj_id j = i) (cw_external w) else None) of
              Some j \<Rightarrow> Inr j | None \<Rightarrow> Inl (KeyError i)))"

definition cron_get_writable :: "cron_world \<Rightarrow> string \<Rightarrow> cron_state \<Rightarrow> cron_job res" where
  "cron_get_writable w i s = rbind (cron_get w i True s) (\<lambda>j.
     if cj_read_only j then Inl (PermissionError i) else Inr j)"

definition cron_set_enabled ::
  "cron_world \<Rightarrow> string \<Rightarrow> bool \<Rightarrow> string \<Rightarrow> cron_state \<Rightarrow> cron_job res \<times> cron_state" where
  "cron_set_enabled w i enabled actor s =
     planned (rbind (cron_get_writable w i s) (\<lambda>j.
                validate_model ((cron_definition.truncate j)\<lparr>cd_enabled := enabled\<rparr>)))
       (\<lambda>payload. cron_update w i payload actor
          (if enabled then ''cron.job.enabled'' else ''cron.job.disabled'')) s"

definition cron_delete :: "cron_world \<Rightarrow> string \<Rightarrow> string \<Rightarrow> cron_state \<Rightarrow> unit res \<times> cron_state" where
  "cron_delete w i actor s =
     planned (rbind (cron_get_writable w i s) (\<lambda>j.
              rbind (cron_repo_list s) (\<lambda>jobs. Inr (j, filter (\<lambda>k. cj_id k \<noteq> i) jobs))))
       (\<lambda>(j, jobs) s. case apply_candidate w jobs (cron_repo_delete w i actor (cd_name j)) s of
          (Inl e, s') \<Rightarrow> (Inl e, s')
        | (Inr _, s') \<Rightarrow> (Inr (), audit_cron ''cron.job.deleted'' actor (cj_id j) s')) s"

definition cron_duplicate ::
  "cron_world \<Rightarrow> string \<Rightarrow> string option \<Rightarrow> string \<Rightarrow> cron_state \<Rightarrow> cron_job res \<times> cron_state" where
  "cron_duplicate w i new_id actor s =
     planned (rbind (cron_get_writable w i s) (\<lambda>j.
                construct_create ((cron_definition.truncate j)
                  \<lparr>cd_name := take 120 (cd_name j @ '' (copy)''), cd_enabled := False\<rparr>) new_id))
       (\<lambda>payload. cron_create w payload new_id actor) s"

section \<open>Queries\<close>

definition managed_jobs :: "cron_world \<Rightarrow> cron_state \<Rightarrow> cron_job list res" where
  "managed_jobs w s = rbind (cron_repo_list s) (rmap (public_job w))"

record cron_counts =
  db_active :: nat
  db_inactive :: nat
  db_errors :: nat
  db_recently_run :: nat
  db_total :: nat

text \<open>\<open>last_run_at\<close> is never set, so no job counts as recently run.\<close>

definition cron_dashboard :: "cron_world \<Rightarrow> cron_state \<Rightarrow> cron_counts res" where
  "cron_dashboard w s =
     rbind (managed_jobs w s) (\<lambda>jobs.
     rbind (config_valid w s) (\<lambda>valid.
       Inr \<lparr>db_active = length (filter cd_enabled jobs),
         db_inactive = length (filter (\<lambda>j. \<not> cd_enabled j) jobs),
         db_errors = (if valid then 0 else 1), db_recently_run = 0, db_total = length jobs\<rparr>))"

definition cron_history :: "cron_world \<Rightarrow> string \<Rightarrow> nat \<Rightarrow> cron_state \<Rightarrow> cron_event list res" where
  "cron_history w i limit s = rbind (cron_get w i True s) (\<lambda>j.
     Inr (if cj_read_only j then [] else cron_repo_history i limit s))"

end
