(* ===== verification/Cron_Invariants.thy ===== *)
theory Cron_Invariants
  imports Cron_Service
begin

text \<open>
  The cron manager keeps its table and its file together: the requests as a step relation, the
  invariant of the reachable states, and the result that every request either takes effect in
  both or in neither. The last part shows the limits of it.
\<close>

section \<open>Validated definitions\<close>

lemma strip_ends: "py_strip s \<noteq> [] \<Longrightarrow> \<not> is_space (hd (py_strip s)) \<and> \<not> is_space (last (py_strip s))"
proof -
  let ?u = "dropWhile is_space (rev (dropWhile is_space s))"
  assume ne: "py_strip s \<noteq> []"
  then have u: "?u \<noteq> []" by (simp add: py_strip_def)
  then have "\<not> is_space (hd ?u)" by (rule hd_dropWhile)
  then have "\<not> is_space (last (py_strip s))"
    using u by (simp add: py_strip_def last_rev)
  moreover have "\<not> is_space (hd (py_strip s))"
  proof -
    have d: "dropWhile is_space s \<noteq> []"
    proof
      assume "dropWhile is_space s = []"
      then have "?u = []" by (simp only: rev.simps dropWhile.simps)
      with u show False ..
    qed
    have "last ?u = last (rev (dropWhile is_space s))"
      using u by (metis last_appendR takeWhile_dropWhile_id)
    then have "hd (py_strip s) = hd (dropWhile is_space s)"
      using u d by (simp add: py_strip_def hd_rev last_rev)
    then show ?thesis using hd_dropWhile [OF d] by simp
  qed
  ultimately show ?thesis by simp
qed

lemma strip_idem [simp]: "py_strip (py_strip s) = py_strip s"
proof (cases "py_strip s = []")
  case True
  have "py_strip [] = []" by (simp add: py_strip_def)
  with True show ?thesis by simp
next
  case False
  then show ?thesis using strip_ends [OF False] by (intro strip_id) auto
qed

lemma set_strip: "set (py_strip s) \<subseteq> set s"
  by (auto simp: py_strip_def dest!: set_dropWhileD)

lemma normal_definition_idem: "normal_definition (normal_definition d) = normal_definition d"
  by (simp add: normal_definition_def split_ws_strip split_join_words normal_workdir_def split: option.splits)

lemma validate_model_Inr:
  "validate_model d = Inr d' \<longleftrightarrow> lengths_ok d \<and> values_ok (normal_definition d) \<and> d' = normal_definition d"
  by (auto simp: validate_model_def)

lemma validated_twice: "validate_model d0 = Inr d \<Longrightarrow> validate_model d = Inr d' \<Longrightarrow> d' = d"
  by (auto simp: validate_model_Inr normal_definition_idem)

text \<open>Definitions whose texts hold no U+0085.\<close>

definition definition_plain :: "'a cron_definition_scheme \<Rightarrow> bool" where
  "definition_plain d \<longleftrightarrow> nel_free (cd_name d) \<and> nel_free (cd_command d)
     \<and> (case cd_workdir d of None \<Rightarrow> True | Some w \<Rightarrow> nel_free w)
     \<and> list_all (\<lambda>v. nel_free (ev_value v)) (cd_environment d)"

lemma nel_free_strip: "nel_free s \<Longrightarrow> nel_free (py_strip s)"
  using set_strip by (auto simp: nel_free_def)

lemma definition_plain_validated: "validate_model d = Inr d' \<Longrightarrow> definition_plain d \<Longrightarrow> definition_plain d'"
  by (auto simp: validate_model_Inr definition_plain_def normal_definition_def normal_workdir_def nel_free_strip
      split: option.splits)

definition stored_ok :: "cron_definition \<Rightarrow> bool" where
  "stored_ok d \<longleftrightarrow> validate_model d = Inr d \<and> definition_plain d"

lemma stored_validated:
  "validate_model d0 = Inr d \<Longrightarrow> definition_plain d0 \<Longrightarrow> validate_model d = Inr d' \<Longrightarrow> stored_ok d"
  using validated_twice definition_plain_validated by (auto simp: stored_ok_def)

lemma truncate_new_job [simp]: "cron_definition.truncate (new_job d i a b c e) = d"
  and new_job_id [simp]: "cj_id (new_job d i a b c e) = i"
  by (simp_all add: new_job_def cron_definition.defs cron_job.defs)

lemma writable_new_job:
  assumes "stored_ok d" and "lower_id i"
  shows "job_writable (new_job d i a b c e)"
proof -
  have "values_ok d" and "cd_schedule d = py_join CHR '' '' (py_split_ws (cd_schedule d))"
    using assms(1) validated_definition [of d d] by (simp_all add: stored_ok_def)
  then show ?thesis
    using assms
    by (simp add: job_writable_def stored_ok_def definition_plain_def new_job_def cron_definition.defs
        cron_job.defs values_ok_def)
qed

lemma construct_stored:
  "stored_ok d \<Longrightarrow> construct_job d i a b c e = Inr j \<Longrightarrow> j = new_job d i a b c e"
  by (auto simp: construct_job_def stored_ok_def split: if_splits)

section \<open>The file depends on ids and entries\<close>

definition core :: "cron_job \<Rightarrow> string \<times> string" where
  "core j = (cj_id j, render_entry j)"

lemma new_job_fields [simp]:
  "cd_name (new_job d i a b c e) = cd_name d" "cd_user (new_job d i a b c e) = cd_user d"
  "cd_schedule (new_job d i a b c e) = cd_schedule d" "cd_command (new_job d i a b c e) = cd_command d"
  "cd_workdir (new_job d i a b c e) = cd_workdir d" "cd_timeout (new_job d i a b c e) = cd_timeout d"
  "cd_environment (new_job d i a b c e) = cd_environment d" "cd_enabled (new_job d i a b c e) = cd_enabled d"
  by (simp_all add: new_job_def cron_definition.defs cron_job.defs)

lemma rendered_command_new_job: "rendered_command (new_job d i a b c e) = rendered_command d"
  unfolding rendered_command_def new_job_fields by simp

lemma core_new_job: "core (new_job d i a b c e) = core (new_job d i a' b' c' e')"
  by (simp add: core_def render_entry_def entry_line_def rendered_command_new_job)

lemma assoc_unique:
  "map fst ps = map fst qs \<Longrightarrow> distinct (map fst ps) \<Longrightarrow> set ps = set qs \<Longrightarrow> ps = qs"
proof (rule nth_equalityI)
  fix i
  assume keys: "map fst ps = map fst qs" "distinct (map fst ps)" "set ps = set qs" and i: "i < length ps"
  then have len: "length ps = length qs" by (metis length_map)
  have "fst (ps ! i) = fst (qs ! i)" using keys(1) i len by (metis nth_map)
  moreover have "ps ! i \<in> set ps" "qs ! i \<in> set ps" using keys(3) i len by (metis nth_mem)+
  ultimately show "ps ! i = qs ! i"
    using keys(2) by (metis eq_key_imp_eq_value prod.collapse)
qed (metis length_map)

lemma render_config_core:
  assumes "distinct (map cj_id js)" and "distinct (map cj_id ks)" and "set (map core js) = set (map core ks)"
  shows "render_config js = render_config ks"
proof -
  let ?ps = "\<lambda>js. map core (sort_key cj_id js)"
  have fst: "map fst (?ps js) = map cj_id (sort_key cj_id js)" for js
    by (simp add: core_def comp_def)
  have sorted: "sorted (map fst (?ps js))" for js unfolding fst by simp
  have distinct: "distinct (map fst (?ps js))" if "distinct (map cj_id js)" for js
    unfolding fst using that by (metis distinct_map distinct_sort set_sort)
  have set: "set (?ps js) = set (?ps ks)" using assms(3) by simp
  then have "set (map fst (?ps js)) = set (map fst (?ps ks))" by (metis set_map)
  then have "map fst (?ps js) = map fst (?ps ks)"
    using sorted distinct assms(1,2) by (intro sorted_distinct_set_unique)
  then have "?ps js = ?ps ks"
    using distinct [OF assms(1)] set by (rule assoc_unique)
  then have "map snd (?ps js) = map snd (?ps ks)" by simp
  then have "map render_entry (sort_key cj_id js) = map render_entry (sort_key cj_id ks)"
    by (simp add: core_def comp_def)
  then show ?thesis by (simp add: render_config_def)
qed

section \<open>The table\<close>

definition row_view :: "cron_row \<Rightarrow> cron_job" where
  "row_view r = new_job (cron_definition.truncate r) (cr_id r) (Some (cr_created_at r))
     (Some (cr_updated_at r)) (cr_created_by r) (cr_updated_by r)"

definition row_valid :: "cron_row \<Rightarrow> bool" where
  "row_valid r \<longleftrightarrow> stored_ok (cron_definition.truncate r) \<and> job_id_ok (cr_id r) \<and> lower_id (cr_id r)"

definition rows_valid :: "cron_row list \<Rightarrow> bool" where
  "rows_valid rows \<longleftrightarrow> (\<forall>r \<in> set rows. row_valid r) \<and> distinct (map cr_id rows)"

definition sorted_rows :: "cron_row list \<Rightarrow> cron_row list" where
  "sorted_rows rows = sort_key (\<lambda>r. (ascii_lower (cd_name r), cr_id r)) rows"

definition jobs_of :: "cron_row list \<Rightarrow> cron_job list" where
  "jobs_of rows = map row_view (sorted_rows rows)"

lemma row_view_id [simp]: "cj_id (row_view r) = cr_id r"
  by (simp add: row_view_def)

lemma row_job_valid: "row_valid r \<Longrightarrow> row_job r = Inr (row_view r)"
proof -
  assume r: "row_valid r"
  let ?d = "cron_definition.truncate r"
  have v: "validate_model ?d = Inr ?d" using r by (simp add: row_valid_def stored_ok_def)
  have "list_all env_ok (cd_environment ?d)"
    using validated_definition(1) [OF v] by (simp add: values_ok_def)
  then have "filter env_ok (cd_environment r) = cd_environment r"
    by (simp add: list_all_iff filter_id_conv cron_definition.defs)
  then have "?d\<lparr>cd_environment := filter env_ok (cd_environment r)\<rparr> = ?d"
    by (simp add: cron_definition.defs)
  then show ?thesis
    using r v by (simp add: row_job_def construct_job_def row_valid_def row_view_def)
qed

lemma cron_repo_list_valid: "rows_valid (cs_rows s) \<Longrightarrow> cron_repo_list s = Inr (jobs_of (cs_rows s))"
  unfolding cron_repo_list_def jobs_of_def sorted_rows_def
  by (rule rmap_map) (simp add: rows_valid_def row_job_valid)

lemma jobs_of_facts:
  assumes "rows_valid rows"
  shows "\<forall>j \<in> set (jobs_of rows). job_writable j" and "distinct (map cj_id (jobs_of rows))"
    and "set (jobs_of rows) = row_view ` set rows"
proof -
  show set: "set (jobs_of rows) = row_view ` set rows" by (simp add: jobs_of_def sorted_rows_def)
  show "\<forall>j \<in> set (jobs_of rows). job_writable j"
    using assms by (auto simp: set rows_valid_def row_valid_def row_view_def intro!: writable_new_job)
  have "map cj_id (jobs_of rows) = map cr_id (sorted_rows rows)" by (simp add: jobs_of_def)
  then show "distinct (map cj_id (jobs_of rows))"
    using assms by (simp add: rows_valid_def sorted_rows_def distinct_map)
qed

lemma jobs_of_ids: "cj_id ` set (jobs_of rows) = cr_id ` set rows"
  by (auto simp: jobs_of_def sorted_rows_def image_iff)

lemma cron_repo_get_valid:
  "rows_valid (cs_rows s) \<Longrightarrow> cron_repo_get i s = Inr (map_option row_view (find (\<lambda>r. cr_id r = i) (cs_rows s)))"
  by (auto simp: cron_repo_get_def rows_valid_def row_job_valid dest!: find_Some_D split: option.splits)

lemma cron_repo_read_valid:
  "rows_valid (cs_rows s) \<Longrightarrow> r \<in> set (cs_rows s) \<Longrightarrow> cron_repo_read (cr_id r) s = Inr (row_view r)"
  using find_keyed [of cr_id "cs_rows s" "cr_id r" r]
  by (simp add: cron_repo_read_def cron_repo_get_valid rows_valid_def keyed_def)

section \<open>The three writes of the table\<close>

text \<open>
  The contract of a write: whatever the file holds, it either fails without changing anything, or
  leaves exactly the given rows, with a result that satisfies \<open>good\<close>.
\<close>

definition writes_rows ::
  "cron_write \<Rightarrow> cron_row list \<Rightarrow> cron_row list \<Rightarrow> (cron_job option \<Rightarrow> bool) \<Rightarrow> bool" where
  "writes_rows op rows rows' good \<longleftrightarrow> (\<forall>s. cs_rows s = rows \<longrightarrow>
     (\<exists>e. op s = (Inl e, s))
   \<or> (\<exists>x s'. op s = (Inr x, s') \<and> cs_file s' = cs_file s \<and> cs_rows s' = rows' \<and> good x))"

definition stored_in :: "cron_row list \<Rightarrow> cron_job option \<Rightarrow> bool" where
  "stored_in rows x \<longleftrightarrow> (\<exists>r \<in> set rows. x = Some (row_view r))"

lemma writes_rowsD:
  assumes "writes_rows op rows rows' good" and "cs_rows s = rows"
  obtains e where "op s = (Inl e, s)"
  | x s' where "op s = (Inr x, s')" "cs_file s' = cs_file s" "cs_rows s' = rows'" "good x"
  using assms unfolding writes_rows_def by blast

lemma add_history_frame [simp]:
  "cs_rows (add_history w i a b c s) = cs_rows s" "cs_file (add_history w i a b c s) = cs_file s"
  by (simp_all add: add_history_def)

definition new_row :: "cron_definition \<Rightarrow> string \<Rightarrow> time \<Rightarrow> time \<Rightarrow> string \<Rightarrow> string \<Rightarrow> cron_row" where
  "new_row d i created updated creator updater =
     cron_definition.extend d (cron_row.fields i created updated creator updater)"

lemma new_row_simps [simp]:
  "cron_definition.truncate (new_row d i a b c e) = d" "cr_id (new_row d i a b c e) = i"
  by (simp_all add: new_row_def cron_definition.defs cron_row.defs)

lemma writes_create:
  assumes "rows_valid (rows @ [new_row d i (cw_time w) (cw_time w) actor actor])"
  defines "rows' \<equiv> rows @ [new_row d i (cw_time w) (cw_time w) actor actor]"
  shows "writes_rows (cron_repo_create w i d actor) rows rows' (stored_in rows')"
  unfolding writes_rows_def
proof (intro allI impI)
  fix s :: cron_state assume s: "cs_rows s = rows"
  let ?r = "new_row d i (cw_time w) (cw_time w) actor actor"
  define s' where "s' = add_history w i ''cron.job.created'' actor (definition_details d) (s\<lparr>cs_rows := rows @ [?r]\<rparr>)"
  have "cr_id ?r \<notin> cr_id ` set rows" using assms by (auto simp: rows_valid_def)
  then have ins: "insert_row cr_id ''cron_jobs.id'' ?r rows = Inr (rows @ [?r])"
    by (simp add: insert_row_Inr_iff)
  have "cron_repo_read i s' = Inr (row_view ?r)"
    using cron_repo_read_valid [of s' ?r] assms by (simp add: s'_def)
  then show "(\<exists>e. cron_repo_create w i d actor s = (Inl e, s))
    \<or> (\<exists>x s'. cron_repo_create w i d actor s = (Inr x, s') \<and> cs_file s' = cs_file s \<and> cs_rows s' = rows'
          \<and> stored_in rows' x)"
    using ins s by (simp add: cron_repo_create_def s'_def new_row_def Let_def stored_in_def rows'_def)
qed

definition updated_rows :: "cron_world \<Rightarrow> string \<Rightarrow> cron_definition \<Rightarrow> string \<Rightarrow> cron_row list \<Rightarrow> cron_row list" where
  "updated_rows w i d actor rows = upd_rows (\<lambda>r. cr_id r = i)
     (\<lambda>r. new_row d i (cr_created_at r) (cw_time w) (cr_created_by r) actor) rows"

lemma writes_update:
  assumes "rows_valid (updated_rows w i d actor rows)"
  shows "writes_rows (cron_repo_update w i d actor action) rows (updated_rows w i d actor rows)
    (stored_in (updated_rows w i d actor rows))"
  unfolding writes_rows_def
proof (intro allI impI)
  fix s :: cron_state assume s: "cs_rows s = rows"
  let ?rows = "updated_rows w i d actor rows"
  define s' where "s' = add_history w i action actor (definition_details d) (s\<lparr>cs_rows := ?rows\<rparr>)"
  have read: "\<exists>r \<in> set ?rows. cron_repo_read i s' = Inr (row_view r)" if ex: "list_ex (\<lambda>r. cr_id r = i) rows"
  proof -
    obtain r where "r \<in> set rows" "cr_id r = i" using ex by (auto simp: list_ex_iff)
    then have "new_row d i (cr_created_at r) (cw_time w) (cr_created_by r) actor \<in> set ?rows"
      by (auto simp: updated_rows_def set_upd_rows image_iff)
    then show ?thesis
      using assms cron_repo_read_valid [of s' "new_row d i (cr_created_at r) (cw_time w) (cr_created_by r) actor"]
      by (force simp: s'_def)
  qed
  show "(\<exists>e. cron_repo_update w i d actor action s = (Inl e, s))
    \<or> (\<exists>x s'. cron_repo_update w i d actor action s = (Inr x, s') \<and> cs_file s' = cs_file s \<and> cs_rows s' = ?rows
          \<and> stored_in ?rows x)"
  proof (cases "cw_database_fails w \<or> \<not> list_ex (\<lambda>r. cr_id r = i) rows")
    case True
    then show ?thesis using s by (auto simp: cron_repo_update_def)
  next
    case False
    then obtain r where r: "r \<in> set ?rows" "cron_repo_read i s' = Inr (row_view r)" using read by blast
    have "cron_repo_update w i d actor action s = (Inr (Some (row_view r)), s')"
      using False s r(2) by (simp add: cron_repo_update_def s'_def updated_rows_def new_row_def Let_def)
    moreover have "stored_in ?rows (Some (row_view r))" using r(1) by (auto simp: stored_in_def)
    ultimately show ?thesis by (simp add: s'_def)
  qed
qed

lemma writes_delete: "writes_rows (cron_repo_delete w i actor name) rows (del_rows (\<lambda>r. cr_id r = i) rows) (\<lambda>x. x = None)"
  by (auto simp: writes_rows_def cron_repo_delete_def)

section \<open>Both or neither\<close>

definition in_sync :: "cron_state \<Rightarrow> bool" where
  "in_sync s \<longleftrightarrow> cs_file s = Some (render_config (jobs_of (cs_rows s))) \<or> cs_file s = None \<and> cs_rows s = []"

lemma in_sync_valid:
  assumes "rows_valid (cs_rows s)" and "in_sync s" and "\<not> cw_readback_fails w"
  shows "config_valid w s = Inr True"
proof -
  have "jobs_of [] = []" by (simp add: jobs_of_def sorted_rows_def)
  then show ?thesis
    using assms parse_rendered [OF jobs_of_facts(1,2) [OF assms(1)]] cron_repo_list_valid [OF assms(1)]
    by (auto simp: in_sync_def config_valid_def entry_of_def image_comp comp_def)
qed

lemma writer_apply_cases:
  obtains e s' where "writer_apply w content s = (Inl e, s')" "cs_rows s' = cs_rows s" "cs_file s' = cs_file s"
  | s' where "writer_apply w content s = (Inr (cs_file s), s')" "cs_rows s' = cs_rows s" "cs_file s' = Some content"
proof (cases "parse_managed_config content")
  case (Inl e)
  then show thesis using that(1) by (simp add: writer_apply_def)
next
  case (Inr ms)
  define s1 where "s1 = (case cs_file s of None \<Rightarrow> s | Some old \<Rightarrow> s\<lparr>cs_backups := take 20 (old # cs_backups s)\<rparr>)"
  have s1: "cs_rows s1 = cs_rows s" "cs_file s1 = cs_file s"
    by (simp_all add: s1_def split: option.splits)
  have run: "writer_apply w content s =
      (if cs_file s \<noteq> None \<and> cw_backup_fails w then (Inl (OSError ''backup''), s)
       else if cw_write_fails w then (Inl (OSError ''write''), restore_file (cs_file s) s1)
       else if cw_verify_fails w
       then (Inl (RuntimeError ''managed cron file verification failed''),
             restore_file (cs_file s) (s1\<lparr>cs_file := Some content\<rparr>))
       else (Inr (cs_file s), s1\<lparr>cs_file := Some content\<rparr>))"
    by (simp add: writer_apply_def Inr Let_def s1_def)
  consider "cs_file s \<noteq> None \<and> cw_backup_fails w \<or> cw_write_fails w \<or> cw_verify_fails w"
    | "\<not> (cs_file s \<noteq> None \<and> cw_backup_fails w)" "\<not> cw_write_fails w" "\<not> cw_verify_fails w" by blast
  then show thesis
  proof cases
    case 1
    then have "\<exists>e s'. writer_apply w content s = (Inl e, s') \<and> cs_rows s' = cs_rows s \<and> cs_file s' = cs_file s"
      by (auto simp: run s1 restore_file_def)
    with that(1) show thesis by blast
  next
    case 2
    then show thesis by (intro that(2) [of "s1\<lparr>cs_file := Some content\<rparr>"]) (simp_all add: run s1)
  qed
qed

lemma apply_candidate_sync:
  assumes op: "writes_rows op (cs_rows s) rows good" and rows: "rows_valid rows"
    and jobs: "render_config jobs = render_config (jobs_of rows)"
    and w: "\<not> cw_readback_fails w"
  obtains e s' where "apply_candidate w jobs op s = (Inl e, s')" "cs_rows s' = cs_rows s" "cs_file s' = cs_file s"
  | x s' where "apply_candidate w jobs op s = (Inr x, s')" "cs_rows s' = rows" "in_sync s'" "good x"
proof (rule writer_apply_cases [of w "render_config jobs" s])
  fix e s'
  assume "writer_apply w (render_config jobs) s = (Inl e, s')" "cs_rows s' = cs_rows s" "cs_file s' = cs_file s"
  then show thesis using that(1) by (simp add: apply_candidate_def)
next
  fix s1
  assume s1: "writer_apply w (render_config jobs) s = (Inr (cs_file s), s1)" "cs_rows s1 = cs_rows s"
    "cs_file s1 = Some (render_config jobs)"
  show thesis
    using op s1(2)
  proof (rule writes_rowsD)
    fix e assume "op s1 = (Inl e, s1)"
    then show thesis using that(1) s1 by (simp add: apply_candidate_def restore_file_def)
  next
    fix x s2 assume s2: "op s1 = (Inr x, s2)" "cs_file s2 = cs_file s1" "cs_rows s2 = rows" "good x"
    then have sync: "in_sync s2" using s1(3) jobs by (simp add: in_sync_def)
    have "config_valid w s2 = Inr True"
      using in_sync_valid [OF _ sync w] rows s2(3) by simp
    then show thesis using that(2) s1 s2 sync by (simp add: apply_candidate_def)
  qed
qed

section \<open>Requests\<close>

datatype cron_request =
    Create_cron cron_definition "string option"
  | Update_cron string cron_definition
  | Set_cron_enabled string bool
  | Delete_cron string
  | Duplicate_cron string "string option"

definition forget :: "'a res \<times> cron_state \<Rightarrow> unit res \<times> cron_state" where
  "forget p = (case p of (Inl e, s) \<Rightarrow> (Inl e, s) | (Inr _, s) \<Rightarrow> (Inr (), s))"

text \<open>The request bodies are validated when the payload models are constructed from them.\<close>

fun cron_apply :: "cron_world \<Rightarrow> string \<Rightarrow> cron_request \<Rightarrow> cron_state \<Rightarrow> unit res \<times> cron_state" where
  "cron_apply w actor (Create_cron d i) s =
     forget (planned (construct_create d i) (\<lambda>d'. cron_create w d' i actor) s)"
| "cron_apply w actor (Update_cron i d) s =
     forget (planned (validate_model d) (\<lambda>d'. cron_update w i d' actor ''cron.job.updated'') s)"
| "cron_apply w actor (Set_cron_enabled i b) s = forget (cron_set_enabled w i b actor s)"
| "cron_apply w actor (Delete_cron i) s = forget (cron_delete w i actor s)"
| "cron_apply w actor (Duplicate_cron i i') s = forget (cron_duplicate w i i' actor s)"

text \<open>
  The requests considered: ids in the lower-case form of \<open>str(UUID(..))\<close> and \<open>uuid4\<close>, texts
  without U+0085, and external jobs read-only, as \<^verbatim>\<open>parse_external_config\<close> marks them.
\<close>

definition uuid_text :: "string \<Rightarrow> bool" where
  "uuid_text i \<longleftrightarrow> job_id_ok i \<and> lower_id i"

fun request_ok :: "cron_request \<Rightarrow> bool" where
  "request_ok (Create_cron d i) \<longleftrightarrow> definition_plain d \<and> (case i of None \<Rightarrow> True | Some v \<Rightarrow> uuid_text v)"
| "request_ok (Update_cron i d) \<longleftrightarrow> definition_plain d"
| "request_ok (Set_cron_enabled i b) \<longleftrightarrow> True"
| "request_ok (Delete_cron i) \<longleftrightarrow> True"
| "request_ok (Duplicate_cron i i') \<longleftrightarrow> (case i' of None \<Rightarrow> True | Some v \<Rightarrow> uuid_text v)"

definition world_ok :: "cron_world \<Rightarrow> bool" where
  "world_ok w \<longleftrightarrow> uuid_text (cw_uuid w) \<and> list_all cj_read_only (cw_external w) \<and> \<not> cw_readback_fails w"

definition cron_init :: "cron_state \<Rightarrow> bool" where
  "cron_init s \<longleftrightarrow> cs_rows s = [] \<and> cs_history s = [] \<and> cs_file s = None \<and> cs_backups s = []
     \<and> cs_activity s = []"

inductive cron_step :: "cron_state \<Rightarrow> cron_state \<Rightarrow> bool" where
  cron_step: "world_ok w \<Longrightarrow> request_ok req \<Longrightarrow> cron_apply w actor req s = (r, t) \<Longrightarrow> cron_step s t"

inductive_cases cron_stepE: "cron_step s t"

definition cron_inv :: "cron_state \<Rightarrow> bool" where
  "cron_inv s \<longleftrightarrow> rows_valid (cs_rows s) \<and> in_sync s"

text \<open>What an operation may do in a good state.\<close>

definition both_or_neither ::
  "cron_state \<Rightarrow> (cron_row list \<Rightarrow> bool) \<Rightarrow> 'a res \<times> cron_state \<Rightarrow> bool" where
  "both_or_neither s eff p \<longleftrightarrow> cron_inv (snd p)
     \<and> (case fst p of
          Inl e \<Rightarrow> cs_rows (snd p) = cs_rows s \<and> cs_file (snd p) = cs_file s
        | Inr x \<Rightarrow> eff (cs_rows (snd p)))"

lemma both_refl: "cron_inv s \<Longrightarrow> both_or_neither s eff (Inl e, s)"
  by (simp add: both_or_neither_def)

lemma both_frame: "cron_inv s \<Longrightarrow> cs_rows s' = cs_rows s \<Longrightarrow> cs_file s' = cs_file s \<Longrightarrow> both_or_neither s eff (Inl e, s')"
  by (simp add: both_or_neither_def cron_inv_def in_sync_def)

lemma both_planned:
  "cron_inv s \<Longrightarrow> (\<And>x. p = Inr x \<Longrightarrow> both_or_neither s eff (f x s))
    \<Longrightarrow> both_or_neither s eff (planned p f s)"
  by (cases p) (simp_all add: planned_def both_refl)

lemma both_forget: "both_or_neither s eff (forget p) \<longleftrightarrow> both_or_neither s eff p"
  by (cases p; cases "fst p") (auto simp: forget_def both_or_neither_def)

lemma public_job_runs: "job_writable j \<Longrightarrow> \<exists>k. public_job w j = Inr k"
proof -
  assume "job_writable j"
  then obtain e where "parse_cron (cd_schedule j) = Inr e" using values_ok_facts(1) by blast
  then show ?thesis
    by (cases "ce_fields e") (simp_all add: public_job_def next_occurrence_def Let_def)
qed

text \<open>A write of valid rows, published or audited.\<close>

lemma both_published:
  assumes inv: "cron_inv s" and op: "writes_rows op (cs_rows s) rows (stored_in rows)" and rows: "rows_valid rows"
    and jobs: "render_config jobs = render_config (jobs_of rows)" and w: "\<not> cw_readback_fails w"
    and eff: "eff rows"
  shows "both_or_neither s eff (published w action actor (apply_candidate w jobs op s))"
proof (rule apply_candidate_sync [OF op rows jobs w])
  fix e s' assume "apply_candidate w jobs op s = (Inl e, s')" "cs_rows s' = cs_rows s" "cs_file s' = cs_file s"
  then show ?thesis using both_frame [OF inv] by (simp add: published_def)
next
  fix x s' assume s': "apply_candidate w jobs op s = (Inr x, s')" "cs_rows s' = rows" "in_sync s'" "stored_in rows x"
  then obtain r where r: "r \<in> set rows" "x = Some (row_view r)" by (auto simp: stored_in_def)
  have "job_writable (row_view r)"
    using jobs_of_facts(1,3) [OF rows] r(1) by simp
  then obtain k where "public_job w (row_view r) = Inr k" using public_job_runs by blast
  then show ?thesis
    using s' rows r(2) eff by (simp add: published_def both_or_neither_def cron_inv_def in_sync_def audit_cron_def)
qed

lemma stored_rows:
  assumes "rows_valid rows"
  shows "r \<in> set rows \<Longrightarrow> stored_ok (cron_definition.truncate r)"
    and "r \<in> set rows \<Longrightarrow> uuid_text (cr_id r)"
  using assms by (auto simp: rows_valid_def row_valid_def uuid_text_def)

lemma core_row_view: "cron_definition.truncate r = d \<Longrightarrow> cr_id r = i \<Longrightarrow> core (row_view r) = core (new_job d i a b c e)"
  using core_new_job unfolding row_view_def by blast

lemma validate_definition_Inr: "validate_definition w d = Inr y \<Longrightarrow> \<exists>d'. validate_model d = Inr d'"
  by (auto simp: validate_definition_def rbind_Inr_iff)

lemma both_create:
  assumes inv: "cron_inv s" and w: "world_ok w" and d: "definition_plain d" "\<forall>v. given = Some v \<longrightarrow> uuid_text v"
  shows "both_or_neither s (\<lambda>rows. rows = cs_rows s @
    [new_row (normal_definition d) (chosen_id w given) (cw_time w) (cw_time w) actor actor]) (cron_create w d given actor s)"
  unfolding cron_create_def
proof (rule both_planned [OF inv])
  fix plan
  let ?i = "chosen_id w given"
  let ?row = "\<lambda>d. new_row d ?i (cw_time w) (cw_time w) actor actor"
  have rows: "rows_valid (cs_rows s)" using inv by (simp add: cron_inv_def)
  assume "rbind (validate_model d) (\<lambda>d.
      rbind (validate_definition w d) (\<lambda>_.
      let i = ?i in
      rbind (construct_create d (Some i)) (\<lambda>created.
      rbind (construct_job d i None None [] []) (\<lambda>candidate.
      rbind (cron_repo_list s) (\<lambda>jobs.
        if list_ex (\<lambda>j. cj_id j = i) jobs then Inl (ValueError ''cron job id already exists'')
        else Inr (jobs @ [candidate], i, created)))))) = Inr plan"
  then obtain d1 d2 created candidate where v: "validate_model d = Inr d1" "validate_model d1 = Inr d2"
      "construct_create d1 (Some ?i) = Inr created" "construct_job d1 ?i None None [] [] = Inr candidate"
      "plan = (jobs_of (cs_rows s) @ [candidate], ?i, created)" "\<forall>j \<in> set (jobs_of (cs_rows s)). cj_id j \<noteq> ?i"
    using cron_repo_list_valid [OF rows]
    by (auto simp: rbind_Inr_iff Let_def list_ex_iff dest!: validate_definition_Inr split: if_splits)
  have stored: "stored_ok d1" by (rule stored_validated [OF v(1) d(1) v(2)])
  then have created: "created = d1" and candidate: "candidate = new_job d1 ?i None None [] []"
    using v(3,4) construct_stored by (auto simp: construct_create_def stored_ok_def split: if_splits)
  have "uuid_text ?i"
    using d(2) w by (auto simp: world_ok_def chosen_id_def split: option.splits list.splits)
  then have row: "row_valid (?row d1)" using stored by (simp add: row_valid_def uuid_text_def)
  have fresh: "?i \<notin> cr_id ` set (cs_rows s)" using v(6) by (auto simp flip: jobs_of_ids)
  then have rows': "rows_valid (cs_rows s @ [?row d1])"
    using rows row by (auto simp: rows_valid_def)
  have "render_config (jobs_of (cs_rows s) @ [candidate]) = render_config (jobs_of (cs_rows s @ [?row d1]))"
  proof (rule render_config_core)
    show "distinct (map cj_id (jobs_of (cs_rows s) @ [candidate]))"
      using jobs_of_facts(2) [OF rows] v(6) by (auto simp: candidate)
    show "distinct (map cj_id (jobs_of (cs_rows s @ [?row d1])))" by (rule jobs_of_facts(2) [OF rows'])
    show "set (map core (jobs_of (cs_rows s) @ [candidate])) = set (map core (jobs_of (cs_rows s @ [?row d1])))"
      using core_row_view [of "?row d1" d1 ?i]
      by (simp add: jobs_of_facts(3) [OF rows] jobs_of_facts(3) [OF rows'] candidate image_Un)
  qed
  moreover have "d1 = normal_definition d" using v(1) by (simp add: validate_model_Inr)
  ultimately show "both_or_neither s (\<lambda>rows. rows = cs_rows s @
      [new_row (normal_definition d) (chosen_id w given) (cw_time w) (cw_time w) actor actor]) ((\<lambda>(jobs, i, created) s. published w ''cron.job.created'' actor
      (apply_candidate w jobs (cron_repo_create w i created actor) s)) plan s)"
    using both_published [OF inv writes_create [OF rows'] rows'] w
    unfolding v(5) created by (simp add: world_ok_def)
qed

lemma both_update:
  assumes inv: "cron_inv s" and w: "world_ok w" and d: "validate_model d0 = Inr d" "definition_plain d0"
  shows "both_or_neither s (\<lambda>rows. rows = updated_rows w i d actor (cs_rows s)) (cron_update w i d actor action s)"
  unfolding cron_update_def
proof (rule both_planned [OF inv])
  fix plan
  let ?rows = "cs_rows s"
  have rows: "rows_valid ?rows" using inv by (simp add: cron_inv_def)
  assume "rbind (validate_definition w d) (\<lambda>_. rbind (cron_repo_get i s) (\<lambda>found.
      case found of
        None \<Rightarrow> if list_ex (\<lambda>j. cj_id j = i) (cw_external w) then Inl (PermissionError i) else Inl (KeyError i)
      | Some existing \<Rightarrow>
          rbind (construct_job d i (cj_created_at existing) None (cj_created_by existing) actor) (\<lambda>candidate.
          rbind (cron_repo_list s) (\<lambda>jobs. Inr (map (\<lambda>j. if cj_id j = i then candidate else j) jobs))))) = Inr plan"
  then obtain y found where y: "validate_definition w d = Inr y" "cron_repo_get i s = Inr found"
    and rest: "(case found of
        None \<Rightarrow> if list_ex (\<lambda>j. cj_id j = i) (cw_external w) then Inl (PermissionError i) else Inl (KeyError i)
      | Some existing \<Rightarrow>
          rbind (construct_job d i (cj_created_at existing) None (cj_created_by existing) actor) (\<lambda>candidate.
          rbind (cron_repo_list s) (\<lambda>jobs. Inr (map (\<lambda>j. if cj_id j = i then candidate else j) jobs)))) = Inr plan"
    unfolding rbind_Inr_iff by blast
  obtain d2 where v1: "validate_model d = Inr d2" using validate_definition_Inr [OF y(1)] by blast
  obtain existing where existing: "found = Some existing"
    using rest by (cases found) (auto split: if_splits)
  then obtain old where old: "find (\<lambda>r. cr_id r = i) ?rows = Some old"
    using y(2) cron_repo_get_valid [OF rows, of i] by auto
  obtain candidate where
      "construct_job d i (cj_created_at existing) None (cj_created_by existing) actor = Inr candidate"
      "plan = map (\<lambda>j. if cj_id j = i then candidate else j) (jobs_of ?rows)"
    using rest unfolding existing option.case rbind_Inr_iff cron_repo_list_valid [OF rows] by blast
  note v = v1 old this
  have stored: "stored_ok d" by (rule stored_validated [OF d v(1)])
  then have candidate: "candidate = new_job d i (cj_created_at existing) None (cj_created_by existing) actor"
    using v(3) construct_stored by blast
  have "uuid_text i" using stored_rows(2) [OF rows] find_Some_D [OF v(2)] by blast
  let ?new = "\<lambda>r. new_row d i (cr_created_at r) (cw_time w) (cr_created_by r) actor"
  let ?upd = "\<lambda>r. if cr_id r = i then ?new r else r"
  have new: "updated_rows w i d actor ?rows = map ?upd ?rows"
    by (simp add: updated_rows_def upd_rows_def)
  have "map cr_id (map ?upd ?rows) = map cr_id ?rows" by simp
  then have rows': "rows_valid (map ?upd ?rows)"
    using rows stored \<open>uuid_text i\<close> unfolding rows_valid_def
    by (auto simp: row_valid_def uuid_text_def simp del: map_map)
  have "render_config plan = render_config (jobs_of (map ?upd ?rows))"
  proof (rule render_config_core)
    have ids: "map cj_id plan = map cj_id (jobs_of ?rows)"
      by (auto simp: v(4) candidate)
    show "distinct (map cj_id plan)" unfolding ids by (rule jobs_of_facts(2) [OF rows])
    show "distinct (map cj_id (jobs_of (map ?upd ?rows)))" by (rule jobs_of_facts(2) [OF rows'])
    have "core (if cr_id r = i then candidate else row_view r) = core (row_view (?upd r))" for r
      using core_row_view [of "?new r" d i] by (simp add: candidate)
    then show "set (map core plan) = set (map core (jobs_of (map ?upd ?rows)))"
      by (simp add: v(4) jobs_of_facts(3) [OF rows] jobs_of_facts(3) [OF rows'] image_image del: if_image_distrib)
  qed
  from both_published [OF inv writes_update [of w i d actor ?rows, unfolded new, OF rows'] rows' this] w
  show "both_or_neither s (\<lambda>rows. rows = updated_rows w i d actor ?rows) (published w action actor (apply_candidate w plan (cron_repo_update w i d actor action) s))"
    by (simp add: world_ok_def new)
qed

lemma both_delete:
  assumes inv: "cron_inv s" and w: "world_ok w"
  shows "both_or_neither s (\<lambda>rows. rows = del_rows (\<lambda>r. cr_id r = i) (cs_rows s)) (cron_delete w i actor s)"
  unfolding cron_delete_def
proof (rule both_planned [OF inv])
  fix plan
  let ?rows = "cs_rows s" and ?del = "del_rows (\<lambda>r. cr_id r = i) (cs_rows s)"
  have rows: "rows_valid ?rows" using inv by (simp add: cron_inv_def)
  then have rows': "rows_valid ?del"
    using keyed_del_rows [of cr_id ?rows "\<lambda>r. cr_id r = i"] by (simp add: rows_valid_def keyed_def)
  assume "rbind (cron_get_writable w i s) (\<lambda>j. rbind (cron_repo_list s) (\<lambda>jobs.
      Inr (j, filter (\<lambda>k. cj_id k \<noteq> i) jobs))) = Inr plan"
  then obtain j where plan: "plan = (j, filter (\<lambda>k. cj_id k \<noteq> i) (jobs_of ?rows))"
    using cron_repo_list_valid [OF rows] by (auto simp: rbind_Inr_iff)
  let ?jobs = "filter (\<lambda>k. cj_id k \<noteq> i) (jobs_of ?rows)"
  have same: "render_config ?jobs = render_config (jobs_of ?del)"
  proof (rule render_config_core)
    show "distinct (map cj_id ?jobs)" using jobs_of_facts(2) [OF rows] by (rule distinct_map_filter)
    show "distinct (map cj_id (jobs_of ?del))" by (rule jobs_of_facts(2) [OF rows'])
    have "set ?jobs = set (jobs_of ?del)"
      by (auto simp: jobs_of_facts(3) [OF rows] jobs_of_facts(3) [OF rows'])
    then show "set (map core ?jobs) = set (map core (jobs_of ?del))" by simp
  qed
  have "both_or_neither s (\<lambda>rows. rows = ?del) (case apply_candidate w ?jobs (cron_repo_delete w i actor (cd_name j)) s of
      (Inl e, s') \<Rightarrow> (Inl e, s')
    | (Inr _, s') \<Rightarrow> (Inr (), audit_cron ''cron.job.deleted'' actor (cj_id j) s'))"
  proof (rule apply_candidate_sync [OF writes_delete rows' same, of w w actor "cd_name j"])
    show "\<not> cw_readback_fails w" using w by (simp add: world_ok_def)
  next
    fix e s' assume "apply_candidate w ?jobs (cron_repo_delete w i actor (cd_name j)) s = (Inl e, s')"
        "cs_rows s' = cs_rows s" "cs_file s' = cs_file s"
    then show ?thesis using both_frame [OF inv] by simp
  next
    fix x s' assume "apply_candidate w ?jobs (cron_repo_delete w i actor (cd_name j)) s = (Inr x, s')"
        "cs_rows s' = ?del" "in_sync s'"
    then show ?thesis
      using rows' by (simp add: both_or_neither_def cron_inv_def in_sync_def audit_cron_def)
  qed
  then show "both_or_neither s (\<lambda>rows. rows = ?del) ((\<lambda>(j, jobs) s. case apply_candidate w jobs (cron_repo_delete w i actor (cd_name j)) s of
      (Inl e, s') \<Rightarrow> (Inl e, s')
    | (Inr _, s') \<Rightarrow> (Inr (), audit_cron ''cron.job.deleted'' actor (cj_id j) s')) plan s)"
    by (simp add: plan)
qed

text \<open>The job an operation may change is a row of the table.\<close>

lemma writable_row:
  assumes inv: "cron_inv s" and w: "world_ok w" and j: "cron_get_writable w i s = Inr j"
  shows "\<exists>r \<in> set (cs_rows s). cr_id r = i \<and> cron_definition.truncate j = cron_definition.truncate r
    \<and> definition_plain (cron_definition.truncate r)"
proof -
  have rows: "rows_valid (cs_rows s)" using inv by (simp add: cron_inv_def)
  have k: "cron_get w i True s = Inr j" "\<not> cj_read_only j"
    using j by (auto simp: cron_get_writable_def rbind_Inr_iff split: if_splits)
  show ?thesis
  proof (cases "find (\<lambda>r. cr_id r = i) (cs_rows s)")
    case None
    then have "find (\<lambda>j. cj_id j = i) (cw_external w) = Some j"
      using k(1) cron_repo_get_valid [OF rows, of i] by (auto simp: cron_get_def split: option.splits)
    then have "cj_read_only j"
      using w by (auto simp: world_ok_def list_all_iff dest: find_Some_D)
    with k(2) show ?thesis by simp
  next
    case (Some r)
    then have "public_job w (row_view r) = Inr j"
      using k(1) cron_repo_get_valid [OF rows, of i] by (simp add: cron_get_def)
    then have "cron_definition.truncate j = cron_definition.truncate (row_view r)"
      by (auto simp: public_job_def rbind_Inr_iff cron_definition.defs)
    then have "cron_definition.truncate j = cron_definition.truncate r" by (simp add: row_view_def)
    then show ?thesis
      using stored_rows(1) [OF rows] find_Some_D [OF Some] by (auto simp: stored_ok_def)
  qed
qed

definition switched :: "bool \<Rightarrow> cron_row \<Rightarrow> cron_definition" where
  "switched b r = (cron_definition.truncate r)\<lparr>cd_enabled := b\<rparr>"

definition copied :: "cron_row \<Rightarrow> cron_definition" where
  "copied r = normal_definition ((cron_definition.truncate r)
     \<lparr>cd_name := take 120 (cd_name r @ '' (copy)''), cd_enabled := False\<rparr>)"

lemma both_weaken: "both_or_neither s eff p \<Longrightarrow> (\<And>rows. eff rows \<Longrightarrow> eff' rows) \<Longrightarrow> both_or_neither s eff' p"
  by (auto simp: both_or_neither_def split: sum.splits)

lemma normal_enabled: "normal_definition (d\<lparr>cd_enabled := b\<rparr>) = (normal_definition d)\<lparr>cd_enabled := b\<rparr>"
  by (simp add: normal_definition_def)

lemma both_set_enabled:
  assumes inv: "cron_inv s" and w: "world_ok w"
  shows "both_or_neither s (\<lambda>rows. \<exists>r \<in> set (cs_rows s). cr_id r = i
    \<and> rows = updated_rows w i (switched b r) actor (cs_rows s)) (cron_set_enabled w i b actor s)"
  unfolding cron_set_enabled_def
proof (rule both_planned [OF inv])
  fix payload
  assume "rbind (cron_get_writable w i s) (\<lambda>j. validate_model ((cron_definition.truncate j)\<lparr>cd_enabled := b\<rparr>))
      = Inr payload"
  then obtain j where j: "cron_get_writable w i s = Inr j"
      "validate_model ((cron_definition.truncate j)\<lparr>cd_enabled := b\<rparr>) = Inr payload"
    by (auto simp: rbind_Inr_iff)
  obtain r where r: "r \<in> set (cs_rows s)" "cr_id r = i" "cron_definition.truncate j = cron_definition.truncate r"
      "definition_plain (cron_definition.truncate r)"
    using writable_row [OF inv w j(1)] by blast
  have v: "validate_model (switched b r) = Inr payload" using j(2) r(3) by (simp add: switched_def)
  have "rows_valid (cs_rows s)" using inv by (simp add: cron_inv_def)
  then have "validate_model (cron_definition.truncate r) = Inr (cron_definition.truncate r)"
    using stored_rows(1) r(1) by (simp add: stored_ok_def)
  then have "normal_definition (cron_definition.truncate r) = cron_definition.truncate r"
    by (simp add: validate_model_Inr)
  then have "normal_definition (switched b r) = switched b r"
    by (simp add: switched_def normal_enabled)
  then have "payload = switched b r" using v by (simp add: validate_model_Inr)
  moreover have "definition_plain (switched b r)"
    using r(4) by (simp add: definition_plain_def switched_def)
  ultimately have "both_or_neither s (\<lambda>rows. rows = updated_rows w i (switched b r) actor (cs_rows s))
      (cron_update w i payload actor (if b then ''cron.job.enabled'' else ''cron.job.disabled'') s)"
    using both_update [OF inv w v] by simp
  then show "both_or_neither s (\<lambda>rows. \<exists>r \<in> set (cs_rows s). cr_id r = i
      \<and> rows = updated_rows w i (switched b r) actor (cs_rows s))
      (cron_update w i payload actor (if b then ''cron.job.enabled'' else ''cron.job.disabled'') s)"
    by (rule both_weaken) (use r(1,2) in blast)
qed

lemma construct_create_Inr: "construct_create d i = Inr d' \<Longrightarrow> validate_model d = Inr d'"
  by (auto simp: construct_create_def rbind_Inr_iff split: option.splits if_splits)

lemma validate_normal: "validate_model d = Inr d' \<Longrightarrow> d' = normal_definition d \<and> normal_definition d' = d'"
  by (simp add: validate_model_Inr normal_definition_idem)

lemma both_duplicate:
  assumes inv: "cron_inv s" and w: "world_ok w" and i': "\<forall>v. i' = Some v \<longrightarrow> uuid_text v"
  shows "both_or_neither s (\<lambda>rows. \<exists>r \<in> set (cs_rows s). cr_id r = i \<and> rows = cs_rows s @
    [new_row (copied r) (chosen_id w i') (cw_time w) (cw_time w) actor actor]) (cron_duplicate w i i' actor s)"
  unfolding cron_duplicate_def
proof (rule both_planned [OF inv])
  fix payload
  let ?copy = "\<lambda>j. (cron_definition.truncate j)\<lparr>cd_name := take 120 (cd_name j @ '' (copy)''), cd_enabled := False\<rparr>"
  assume "rbind (cron_get_writable w i s) (\<lambda>j. construct_create (?copy j) i') = Inr payload"
  then obtain j where j: "cron_get_writable w i s = Inr j" "construct_create (?copy j) i' = Inr payload"
    by (auto simp: rbind_Inr_iff)
  obtain r where r: "r \<in> set (cs_rows s)" "cr_id r = i" "cron_definition.truncate j = cron_definition.truncate r"
      "definition_plain (cron_definition.truncate r)"
    using writable_row [OF inv w j(1)] by blast
  have "cd_name j = cd_name r" using arg_cong [OF r(3), of cd_name] by (simp add: cron_definition.defs)
  then have copy: "?copy j = ?copy r" using r(3) by simp
  have "nel_free (cd_name r @ '' (copy)'')"
    using r(4) by (simp add: definition_plain_def nel_free_def cron_definition.defs)
  then have "nel_free (take 120 (cd_name r @ '' (copy)''))"
    by (auto simp: nel_free_def dest: in_set_takeD)
  then have "definition_plain (?copy j)" using r(4) unfolding copy by (simp add: definition_plain_def)
  note payload = definition_plain_validated [OF construct_create_Inr [OF j(2)] this]
    validate_normal [OF construct_create_Inr [OF j(2)], unfolded copy, folded copied_def]
  have "both_or_neither s (\<lambda>rows. rows = cs_rows s @
      [new_row (copied r) (chosen_id w i') (cw_time w) (cw_time w) actor actor]) (cron_create w payload i' actor s)"
    using both_create [OF inv w payload(1) i', of actor] payload(2) by (simp add: copied_def normal_definition_idem)
  then show "both_or_neither s (\<lambda>rows. \<exists>r \<in> set (cs_rows s). cr_id r = i \<and> rows = cs_rows s @
      [new_row (copied r) (chosen_id w i') (cw_time w) (cw_time w) actor actor]) (cron_create w payload i' actor s)"
    by (rule both_weaken) (use r(1,2) in blast)
qed

text \<open>The rows a successful request leaves.\<close>

fun request_effect :: "cron_world \<Rightarrow> string \<Rightarrow> cron_request \<Rightarrow> cron_row list \<Rightarrow> cron_row list \<Rightarrow> bool" where
  "request_effect w actor (Create_cron d i) rows rows' \<longleftrightarrow> rows' = rows @
     [new_row (normal_definition d) (chosen_id w i) (cw_time w) (cw_time w) actor actor]"
| "request_effect w actor (Update_cron i d) rows rows' \<longleftrightarrow>
     rows' = updated_rows w i (normal_definition d) actor rows"
| "request_effect w actor (Set_cron_enabled i b) rows rows' \<longleftrightarrow>
     (\<exists>r \<in> set rows. cr_id r = i \<and> rows' = updated_rows w i (switched b r) actor rows)"
| "request_effect w actor (Delete_cron i) rows rows' \<longleftrightarrow> rows' = del_rows (\<lambda>r. cr_id r = i) rows"
| "request_effect w actor (Duplicate_cron i i') rows rows' \<longleftrightarrow>
     (\<exists>r \<in> set rows. cr_id r = i \<and> rows' = rows @
        [new_row (copied r) (chosen_id w i') (cw_time w) (cw_time w) actor actor])"

lemma both_request:
  assumes inv: "cron_inv s" and w: "world_ok w" and req: "request_ok req"
  shows "both_or_neither s (request_effect w actor req (cs_rows s)) (cron_apply w actor req s)"
proof (cases req)
  case (Create_cron d i)
  have "both_or_neither s (\<lambda>rows. rows = cs_rows s @
      [new_row (normal_definition d) (chosen_id w i) (cw_time w) (cw_time w) actor actor])
      (planned (construct_create d i) (\<lambda>d'. cron_create w d' i actor) s)"
  proof (rule both_planned [OF inv])
    fix d' assume "construct_create d i = Inr d'"
    then have v: "validate_model d = Inr d'" by (rule construct_create_Inr)
    have "definition_plain d'" "\<forall>v. i = Some v \<longrightarrow> uuid_text v"
      using req Create_cron definition_plain_validated [OF v] by auto
    from both_create [OF inv w this, of actor] validate_normal [OF v] normal_definition_idem
    show "both_or_neither s (\<lambda>rows. rows = cs_rows s @
        [new_row (normal_definition d) (chosen_id w i) (cw_time w) (cw_time w) actor actor]) (cron_create w d' i actor s)"
      by simp
  qed
  then show ?thesis
    unfolding Create_cron cron_apply.simps both_forget by (rule both_weaken) simp
next
  case (Update_cron i d)
  have "both_or_neither s (\<lambda>rows. rows = updated_rows w i (normal_definition d) actor (cs_rows s))
      (planned (validate_model d) (\<lambda>d'. cron_update w i d' actor ''cron.job.updated'') s)"
  proof (rule both_planned [OF inv])
    fix d' assume v: "validate_model d = Inr d'"
    with both_update [OF inv w v] validate_normal [OF v] req Update_cron
    show "both_or_neither s (\<lambda>rows. rows = updated_rows w i (normal_definition d) actor (cs_rows s))
        (cron_update w i d' actor ''cron.job.updated'' s)" by simp
  qed
  then show ?thesis
    unfolding Update_cron cron_apply.simps both_forget by (rule both_weaken) simp
next
  case (Set_cron_enabled i b)
  then show ?thesis
    unfolding Set_cron_enabled cron_apply.simps both_forget
    by (intro both_weaken [OF both_set_enabled [OF inv w]]) simp
next
  case (Delete_cron i)
  then show ?thesis
    unfolding Delete_cron cron_apply.simps both_forget
    by (intro both_weaken [OF both_delete [OF inv w]]) simp
next
  case (Duplicate_cron i i')
  then show ?thesis
    using req unfolding Duplicate_cron cron_apply.simps both_forget
    by (intro both_weaken [OF both_duplicate [OF inv w]]) auto
qed

lemma cron_inv_step: "cron_inv s \<Longrightarrow> cron_step s t \<Longrightarrow> cron_inv t"
  using both_request by (auto simp: both_or_neither_def elim!: cron_stepE) (metis snd_conv)

interpretation cron: machine_invariant cron_init cron_step cron_inv
proof
  show "cron_inv s" if "cron_init s" for s
    using that by (simp add: cron_init_def cron_inv_def rows_valid_def in_sync_def)
qed (rule cron_inv_step)


section \<open>A run, and the limit of the guarantee\<close>

definition demo_cron_world :: cron_world where
  "demo_cron_world = \<lparr>cw_user_exists = (\<lambda>u. u = ''root''), cw_is_dir = (\<lambda>p. True), cw_timeout_installed = True,
     cw_zone = utc_zone, cw_now = 63763210000, cw_time = 0, cw_uuid = ''00000000-0000-4000-8000-000000000002'',
     cw_external = [], cw_backup_fails = False, cw_write_fails = False, cw_verify_fails = False,
     cw_database_fails = False, cw_readback_fails = False\<rparr>"

definition empty_cron :: cron_state where
  "empty_cron = \<lparr>cs_rows = [], cs_history = [], cs_file = None, cs_backups = [], cs_activity = []\<rparr>"

definition demo_definition :: "string \<Rightarrow> cron_definition" where
  "demo_definition command = \<lparr>cd_name = ''n'', cd_description = [], cd_user = ''root'', cd_schedule = '' @Reboot '',
     cd_command = command, cd_workdir = None, cd_environment = [], cd_timeout = None, cd_enabled = True\<rparr>"

definition demo_create :: cron_request where
  "demo_create = Create_cron (demo_definition ''true'') None"

lemma demo_cron_ok: "world_ok demo_cron_world" "request_ok demo_create"
  by code_simp+


lemma demo_create_succeeds: "fst (cron_apply demo_cron_world ''admin'' demo_create empty_cron) = Inr ()"
  by code_simp


text \<open>
  The check comes after the commit, and when it refuses only the file is restored: the request
  fails, and the job stays in the table without a line in the file. It refuses when the file cannot
  be read back, and also for a command with U+0085, which the validator and the first reading of
  the file let through: its second line counts as the entry of another job.
\<close>

lemma failed_create_stays_in_table:
  "case cron_apply (demo_cron_world\<lparr>cw_readback_fails := True\<rparr>) ''admin'' demo_create empty_cron of
     (r, t) \<Rightarrow> r = Inl (RuntimeError ''cron database and managed configuration do not match'')
       \<and> length (cs_rows t) = 1 \<and> cs_file t = None"
  by code_simp

definition smuggled_command :: string where
  "smuggled_command = ''x'' @ [CHR 0x85] @ ''# WebNAS Cron Job'' @ [CHR 0x85]
     @ ''# id: 00000000-0000-4000-8000-00000000000f'' @ [CHR 0x85] @ ''# name: y'' @ [CHR 0x85]
     @ ''# enabled: true'' @ [CHR 0x85] @ ''@reboot root true''"

lemma smuggled_job_in_config:
  "case parse_managed_config (render_config
       [new_job (demo_definition smuggled_command) ''00000000-0000-4000-8000-000000000001'' None None [] []]) of
     Inr ms \<Rightarrow> map me_id ms = [''00000000-0000-4000-8000-000000000001'', ''00000000-0000-4000-8000-00000000000f'']
   | Inl _ \<Rightarrow> False"
  by code_simp

end
