(* ===== verification/Json_Text.thy ===== *)
theory Json_Text
  imports Json_Value Python_Text
begin

text \<open>
  Texts of JSON values: \<^verbatim>\<open>json.dumps\<close> with its separators, on the first 256 code points,
  and the base64 encoding the file worker receives. \<^verbatim>\<open>repr\<close> of a float is an argument.
\<close>

text \<open>\<^verbatim>\<open>str\<close> of an integer.\<close>

definition show_int :: "int \<Rightarrow> string" where
  "show_int i = (if i < 0 then CHR ''-'' # show_nat (nat (- i)) else show_nat (nat i))"

section \<open>json.dumps\<close>

definition hex_digit :: "nat \<Rightarrow> char" where
  "hex_digit n = (if n < 10 then char_of (48 + n) else char_of (87 + n))"

definition json_escape :: "char \<Rightarrow> string" where
  "json_escape c =
     (if c = CHR 34 \<or> c = CHR 92 then [CHR 92, c]
      else if c = CHR 10 then [CHR 92, CHR ''n'']
      else if c = CHR 13 then [CHR 92, CHR ''r'']
      else if c = CHR 9 then [CHR 92, CHR ''t'']
      else if c = CHR 8 then [CHR 92, CHR ''b'']
      else if c = CHR 12 then [CHR 92, CHR ''f'']
      else let n = of_char c :: nat in
        if n < 32 \<or> 128 \<le> n then CHR 92 # ''u00'' @ [hex_digit (n div 16), hex_digit (n mod 16)] else [c])"

definition json_string :: "string \<Rightarrow> string" where
  "json_string s = CHR 34 # concat (map json_escape s) @ [CHR 34]"

fun json_dumps :: "(real \<Rightarrow> string) \<Rightarrow> string \<Rightarrow> string \<Rightarrow> json \<Rightarrow> string" where
  "json_dumps repr item_sep key_sep JNull = ''null''"
| "json_dumps repr item_sep key_sep (JBool b) = (if b then ''true'' else ''false'')"
| "json_dumps repr item_sep key_sep (JInt i) = show_int i"
| "json_dumps repr item_sep key_sep (JFloat r) = repr r"
| "json_dumps repr item_sep key_sep (JStr s) = json_string s"
| "json_dumps repr item_sep key_sep (JList vs) =
     ''['' @ join_with item_sep (map (json_dumps repr item_sep key_sep) vs) @ '']''"
| "json_dumps repr item_sep key_sep (JObj kvs) =
     ''{'' @ join_with item_sep (map (\<lambda>kv. json_string (fst kv) @ key_sep
       @ json_dumps repr item_sep key_sep (snd kv)) kvs) @ ''}''"

section \<open>Base64\<close>

definition base64_char :: "nat \<Rightarrow> char" where
  "base64_char n =
     (if n < 26 then char_of (65 + n) else if n < 52 then char_of (71 + n)
      else if n < 62 then char_of (n - 4) else if n = 62 then CHR ''+'' else CHR ''/'')"

fun base64 :: "string \<Rightarrow> string" where
  "base64 (a # b # c # cs) =
     (let n = of_char a * 65536 + of_char b * 256 + of_char c :: nat in
       base64_char (n div 262144) # base64_char (n div 4096 mod 64)
         # base64_char (n div 64 mod 64) # base64_char (n mod 64) # base64 cs)"
| "base64 [a, b] =
     (let n = of_char a * 1024 + of_char b * 4 :: nat in
       [base64_char (n div 4096), base64_char (n div 64 mod 64), base64_char (n mod 64), CHR ''=''])"
| "base64 [a] =
     (let n = of_char a * 16 :: nat in [base64_char (n div 64), base64_char (n mod 64), CHR ''='', CHR ''=''])"
| "base64 [] = []"

lemma base64_examples:
  "base64 ''Man'' = ''TWFu''" "base64 ''Ma'' = ''TWE=''" "base64 ''M'' = ''TQ==''"
  by (simp_all add: base64_char_def Let_def char_of_eq_iff take_bit_eq_mod)

lemma json_dumps_example:
  "json_dumps repr '','' '':'' (JObj [(''op'', JStr ''list''), (''n'', JInt (- 2))])
     = ''{'' @ [CHR 34] @ ''op'' @ [CHR 34] @ '':'' @ [CHR 34] @ ''list'' @ [CHR 34] @ '',''
       @ [CHR 34] @ ''n'' @ [CHR 34] @ '':-2}''"
  by (simp add: json_string_def json_escape_def show_int_def show_nat.simps [of 2] Let_def char_of_eq_iff take_bit_eq_mod)

end
