(* ===== verification/Posix_Path.thy ===== *)
theory Posix_Path
  imports Python_Text
begin

text \<open>
  \<^verbatim>\<open>pathlib\<close> on Posix systems: a path as its root and components, the name, suffix and
  parent of a path, and the test that a path lies below another.
\<close>

section \<open>Posix paths\<close>

text \<open>\<^verbatim>\<open>PurePosixPath\<close>: the root (a leading \<open>//\<close> is kept apart) and the components.\<close>

definition path_root :: "string \<Rightarrow> string" where
  "path_root s = (if \<not> prefix ''/'' s then []
     else if prefix ''//'' s \<and> \<not> prefix ''///'' s then ''//'' else ''/'')"

definition path_comps :: "string \<Rightarrow> string list" where
  "path_comps s = filter (\<lambda>w. w \<noteq> [] \<and> w \<noteq> ''.'') (py_split CHR ''/'' s)"

definition path_parts :: "string \<Rightarrow> string list" where
  "path_parts s = (if path_root s = [] then [] else [path_root s]) @ path_comps s"

definition path_text :: "string \<Rightarrow> string list \<Rightarrow> string" where
  "path_text r comps = (if r = [] \<and> comps = [] then ''.'' else r @ join_with ''/'' comps)"

definition path_posix :: "string \<Rightarrow> string" where
  "path_posix s = path_text (path_root s) (path_comps s)"

definition path_name :: "string \<Rightarrow> string" where
  "path_name s = (if path_comps s = [] then [] else last (path_comps s))"

definition path_parent :: "string \<Rightarrow> string" where
  "path_parent s = path_text (path_root s) (butlast (path_comps s))"

text \<open>The file name suffix: from the last dot on, unless that dot starts or ends the name.\<close>

definition path_suffix :: "string \<Rightarrow> string" where
  "path_suffix s = (let n = path_name s; ext = takeWhile (\<lambda>c. c \<noteq> CHR ''.'') (rev n)
     in if CHR ''.'' \<notin> set n \<or> ext = [] \<or> length ext + 1 = length n then [] else CHR ''.'' # rev ext)"

definition path_stem :: "string \<Rightarrow> string" where
  "path_stem s = take (length (path_name s) - length (path_suffix s)) (path_name s)"

text \<open>\<^verbatim>\<open>path / name\<close> for a plain name.\<close>

definition path_child :: "string \<Rightarrow> string \<Rightarrow> string" where
  "path_child r name = path_text (path_root r) (path_comps r @ [name])"

text \<open>\<^verbatim>\<open>candidate == root or candidate.is_relative_to(root)\<close>.\<close>

definition path_under :: "string \<Rightarrow> string \<Rightarrow> bool" where
  "path_under r s \<longleftrightarrow> prefix (path_parts r) (path_parts s)"

end
