(* ===== verification/Path_Policy.thy ===== *)
theory Path_Policy
  imports Posix_Path
begin

text \<open>
  Which paths a user may reach: the guards of \<^verbatim>\<open>proxmox_guard.py\<close> and
  \<^verbatim>\<open>path_policy.py\<close>. The record \<open>path_world\<close> holds the configuration and what the
  system answers: \<open>pw_real\<close> is \<^verbatim>\<open>Path(p).expanduser().resolve()\<close>, \<open>pw_home\<close> the home
  directory of an account, \<open>pw_mounts\<close> and \<open>pw_disks\<close> the mount points another component
  shows the user, or its exception.
\<close>

section \<open>The guard\<close>

record path_world =
  pw_safe_mode :: bool
  pw_detect :: bool
  pw_is_proxmox :: bool
  pw_protected :: "string list"
  pw_home_only :: bool
  pw_roots :: "string list"
  pw_real :: "string \<Rightarrow> string res"
  pw_absolute :: "string \<Rightarrow> string"
  pw_home :: "string \<Rightarrow> string res"
  pw_mounts :: "string \<Rightarrow> string list res"
  pw_disks :: "string \<Rightarrow> string list res"

definition system_roots :: "string list" where
  "system_roots = [''/'', ''/etc'', ''/var'', ''/var/lib'', ''/mnt'', ''/mnt/pve'', ''/root'', ''/boot'',
     ''/dev'', ''/proc'', ''/sys'', ''/run'', ''/usr'', ''/lib'', ''/lib64'', ''/bin'', ''/sbin'']"

definition safe_mode_active :: "path_world \<Rightarrow> bool" where
  "safe_mode_active w \<longleftrightarrow> pw_safe_mode w \<and> (\<not> pw_detect w \<or> pw_is_proxmox w)"

definition blocked :: py_exn where
  "blocked = HTTPException 403 ''Operation blocked by Proxmox Safe Mode''"

text \<open>A path matches a system root when it is below it; the root of the tree matches only itself.\<close>

definition matches_root :: "string \<Rightarrow> string \<Rightarrow> bool" where
  "matches_root item r = (if path_parts r = [''/''] then path_parts item = [''/''] else path_under r item)"

definition real_or_absolute :: "path_world \<Rightarrow> string \<Rightarrow> string res" where
  "real_or_absolute w p = (case pw_real w p of
     Inl e \<Rightarrow> if is_os_error e then Inr (pw_absolute w p) else Inl e | Inr q \<Rightarrow> Inr q)"

definition path_is_protected :: "path_world \<Rightarrow> bool \<Rightarrow> string \<Rightarrow> bool res" where
  "path_is_protected w include_parent p =
     (if \<not> safe_mode_active w then Inr False
      else rbind (real_or_absolute w p) (\<lambda>candidate.
        rbind (rmap (pw_real w) (pw_protected w)) (\<lambda>configured.
        rbind (rmap (pw_real w) system_roots) (\<lambda>tops.
        Inr (list_ex (\<lambda>item. list_ex (\<lambda>q. path_under q item) configured \<or> list_ex (matches_root item) tops)
          (candidate # (if include_parent then [path_parent candidate] else [])))))))"

definition assert_path_allowed :: "path_world \<Rightarrow> bool \<Rightarrow> string \<Rightarrow> unit res" where
  "assert_path_allowed w include_parent p = rbind (path_is_protected w include_parent p) (\<lambda>b.
     if b then Inl blocked else Inr ())"

text \<open>On a Proxmox host the configured roots stay below the home directory or the user's share.\<close>

definition root_allowed :: "string list \<Rightarrow> string \<Rightarrow> string \<Rightarrow> string \<Rightarrow> bool" where
  "root_allowed tops home share r \<longleftrightarrow>
     \<not> list_ex (matches_root r) tops \<and> (path_under home r \<or> path_under share r)"

definition validate_allowed_roots :: "path_world \<Rightarrow> string \<Rightarrow> string list \<Rightarrow> string list res" where
  "validate_allowed_roots w user roots =
     (if \<not> safe_mode_active w \<or> \<not> pw_home_only w then Inr roots
      else rbind (pw_home w user) (\<lambda>h. rbind (pw_real w h) (\<lambda>home.
        rbind (pw_real w (''/srv/webnas-shares/'' @ user)) (\<lambda>share.
        rbind (rmap (pw_real w) system_roots) (\<lambda>tops.
        rbind (rfold (\<lambda>r u. rbind (pw_real w r) (\<lambda>q.
            if root_allowed tops home share q then Inr () else Inl blocked)) roots ()) (\<lambda>u. Inr roots))))))"

section \<open>The roots of a user\<close>

text \<open>\<^verbatim>\<open>root.replace("{username}", username)\<close>.\<close>

fun replace_username :: "string \<Rightarrow> string \<Rightarrow> string" where
  "replace_username user [] = []"
| "replace_username user (c # cs) =
     (if prefix ''{username}'' (c # cs) then user @ replace_username user (drop 9 cs)
      else c # replace_username user cs)"

fun dedupe :: "string list \<Rightarrow> string list" where
  "dedupe [] = []"
| "dedupe (p # ps) = p # filter (\<lambda>q. path_parts q \<noteq> path_parts p) (dedupe ps)"

definition configured_roots :: "path_world \<Rightarrow> string \<Rightarrow> string list res" where
  "configured_roots w user =
     (if pw_roots w \<noteq> [] then rmap (\<lambda>r. pw_real w (replace_username user r)) (pw_roots w)
      else rbind (pw_home w user) (\<lambda>h. rbind (pw_real w h) (\<lambda>q. Inr [q])))"

text \<open>Mounts and disks that cannot be listed are left out with a warning.\<close>

definition allowed_roots :: "path_world \<Rightarrow> string \<Rightarrow> string list res" where
  "allowed_roots w user = rbind (configured_roots w user) (\<lambda>roots.
     rbind (validate_allowed_roots w user roots) (\<lambda>valid.
     Inr (dedupe (valid @ (case pw_mounts w user of Inl e \<Rightarrow> [] | Inr ms \<Rightarrow> ms)
       @ (case pw_disks w user of Inl e \<Rightarrow> [] | Inr ds \<Rightarrow> ds)))))"

fun first_root :: "path_world \<Rightarrow> string list \<Rightarrow> string \<Rightarrow> string res" where
  "first_root w [] candidate = Inl (HTTPException 403 ''Path is outside allowed roots'')"
| "first_root w (r # rs) candidate =
     (if path_under r candidate then rbind (assert_path_allowed w True candidate) (\<lambda>u. Inr candidate)
      else first_root w rs candidate)"

definition requested_path :: "path_world \<Rightarrow> string \<Rightarrow> string \<Rightarrow> string res" where
  "requested_path w base requested =
     (if requested = [] then Inr base
      else pw_real w (if prefix ''/'' requested then requested else base @ ''/'' @ requested))"

definition resolve_user_path :: "path_world \<Rightarrow> string \<Rightarrow> string \<Rightarrow> string res" where
  "resolve_user_path w user requested = rbind (allowed_roots w user) (\<lambda>roots.
     rbind (requested_path w (hd roots) requested) (\<lambda>candidate. first_root w roots candidate))"

definition ensure_parent_allowed :: "path_world \<Rightarrow> (string \<Rightarrow> bool) \<Rightarrow> string \<Rightarrow> string \<Rightarrow> string res" where
  "ensure_parent_allowed w is_dir user requested = rbind (resolve_user_path w user requested) (\<lambda>path.
     if is_dir path then Inr path
     else rbind (resolve_user_path w user (path_parent path)) (\<lambda>q. Inr path))"

section \<open>What a user reaches\<close>

lemma rmap_Inr_set: "rmap f xs = Inr ys \<Longrightarrow> y \<in> set ys \<longleftrightarrow> (\<exists>x \<in> set xs. f x = Inr y)"
proof (induction xs arbitrary: ys)
  case (Cons x xs)
  then obtain z zs where z: "f x = Inr z" "rmap f xs = Inr zs" "ys = z # zs" by (auto simp: rbind_Inr_iff)
  then show ?case using Cons.IH [OF z(2)] by auto
qed simp

lemma first_root_Inr:
  "first_root w roots c = Inr q \<longleftrightarrow>
     q = c \<and> list_ex (\<lambda>r. path_under r c) roots \<and> assert_path_allowed w True c = Inr ()"
  by (induction w roots c rule: first_root.induct) (auto simp: rbind_Inr_iff)

lemma resolve_user_path_Inr:
  "resolve_user_path w user requested = Inr q \<longleftrightarrow>
     (\<exists>roots. allowed_roots w user = Inr roots \<and> requested_path w (hd roots) requested = Inr q
        \<and> list_ex (\<lambda>r. path_under r q) roots \<and> assert_path_allowed w True q = Inr ())"
  by (auto simp: resolve_user_path_def rbind_Inr_iff first_root_Inr)

text \<open>Neither a path nor its directory lies in a protected place.\<close>

definition clear_of :: "path_world \<Rightarrow> string \<Rightarrow> bool" where
  "clear_of w p \<longleftrightarrow>
     (\<forall>c \<in> set (pw_protected w). \<forall>t. pw_real w c = Inr t \<longrightarrow> \<not> path_under t p)
     \<and> (\<forall>s \<in> set system_roots. \<forall>t. pw_real w s = Inr t \<longrightarrow> \<not> matches_root p t)"

lemma assert_path_clear:
  assumes "assert_path_allowed w True p = Inr ()" and "safe_mode_active w" and "pw_real w p = Inr p"
  shows "clear_of w p \<and> clear_of w (path_parent p)"
proof -
  obtain cs ss where r: "rmap (pw_real w) (pw_protected w) = Inr cs" "rmap (pw_real w) system_roots = Inr ss"
    "\<not> list_ex (\<lambda>item. list_ex (\<lambda>q. path_under q item) cs \<or> list_ex (matches_root item) ss) [p, path_parent p]"
    using assms by (auto simp: assert_path_allowed_def path_is_protected_def real_or_absolute_def rbind_Inr_iff
        split: if_splits)
  then show ?thesis
    by (fastforce simp: clear_of_def list_ex_iff rmap_Inr_set [OF r(1)] rmap_Inr_set [OF r(2)])
qed

text \<open>
  C21. Every path a file operation is given for a user lies below one of the user's roots, and while
  the Proxmox safe mode is active neither it nor its directory lies in a protected path or a system
  root. The path is assumed resolved, as \<^verbatim>\<open>resolve()\<close> leaves it. The parent of a
  destination that is no directory satisfies the same.
\<close>

theorem user_path_confined:
  assumes "ensure_parent_allowed w is_dir user requested = Inr q" and "\<And>p t. pw_real w p = Inr t \<Longrightarrow> pw_real w t = Inr t"
    and "\<And>roots. allowed_roots w user = Inr roots \<Longrightarrow> pw_real w (hd roots) = Inr (hd roots)"
  shows "\<exists>roots. allowed_roots w user = Inr roots \<and> list_ex (\<lambda>r. path_under r q) roots
    \<and> (safe_mode_active w \<longrightarrow> clear_of w q \<and> clear_of w (path_parent q))
    \<and> (\<not> is_dir q \<longrightarrow> (\<exists>p. resolve_user_path w user (path_parent q) = Inr p
         \<and> list_ex (\<lambda>r. path_under r p) roots \<and> (safe_mode_active w \<longrightarrow> clear_of w p)))"
proof -
  have sound: "\<exists>roots. allowed_roots w user = Inr roots \<and> list_ex (\<lambda>r. path_under r t) roots
      \<and> (safe_mode_active w \<longrightarrow> clear_of w t \<and> clear_of w (path_parent t))"
    if t: "resolve_user_path w user req = Inr t" for req t
  proof -
    from t obtain roots where r: "allowed_roots w user = Inr roots" "requested_path w (hd roots) req = Inr t"
      "list_ex (\<lambda>r. path_under r t) roots" "assert_path_allowed w True t = Inr ()"
      by (auto simp: resolve_user_path_Inr)
    have "pw_real w t = Inr t"
      using r(2) assms(2,3) r(1) by (auto simp: requested_path_def split: if_splits)
    then show ?thesis using r assert_path_clear by blast
  qed
  have q: "resolve_user_path w user requested = Inr q"
    and p: "\<not> is_dir q \<Longrightarrow> \<exists>p. resolve_user_path w user (path_parent q) = Inr p"
    using assms(1) by (auto simp: ensure_parent_allowed_def rbind_Inr_iff split: if_splits)
  obtain roots where roots: "allowed_roots w user = Inr roots" "list_ex (\<lambda>r. path_under r q) roots"
    "safe_mode_active w \<longrightarrow> clear_of w q \<and> clear_of w (path_parent q)" using sound [OF q] by blast
  show ?thesis
  proof (intro exI [of _ roots] conjI impI)
    assume "\<not> is_dir q"
    then obtain p where "resolve_user_path w user (path_parent q) = Inr p" using p by blast
    with sound [OF this] roots(1) show "\<exists>p. resolve_user_path w user (path_parent q) = Inr p
        \<and> list_ex (\<lambda>r. path_under r p) roots \<and> (safe_mode_active w \<longrightarrow> clear_of w p)" by auto
  qed (use roots in auto)
qed

text \<open>
  The managed mounts are below \<open>/mnt\<close>, which is a system root: while the safe mode is active a user
  reaches no path below it, although \<^verbatim>\<open>allowed_roots\<close> adds the mounts after the guard.
\<close>

lemma managed_mounts_blocked:
  assumes "safe_mode_active w" and "pw_real w ''/mnt'' = Inr ''/mnt''" and "path_under ''/mnt'' q"
    and "pw_real w q = Inr q"
  shows "resolve_user_path w user requested \<noteq> Inr q"
proof
  assume "resolve_user_path w user requested = Inr q"
  then have "clear_of w q" using assms assert_path_clear by (auto simp: resolve_user_path_Inr)
  moreover have "\<not> path_parts ''/mnt'' = [''/'']"
    by (simp add: path_parts_def path_root_def path_comps_def)
  ultimately show False using assms(2,3) by (auto simp: clear_of_def system_roots_def matches_root_def)
qed

text \<open>A Proxmox host with a user home and a mount of the user.\<close>

definition demo_paths :: path_world where
  "demo_paths = \<lparr>pw_safe_mode = True, pw_detect = True, pw_is_proxmox = True, pw_protected = [''/etc/pve''],
     pw_home_only = True, pw_roots = [], pw_real = Inr, pw_absolute = (\<lambda>p. p),
     pw_home = (\<lambda>u. Inr (''/home/'' @ u)), pw_mounts = (\<lambda>u. Inr [''/mnt/webnas/mnt/media'']),
     pw_disks = (\<lambda>u. Inl (RuntimeError ''unavailable''))\<rparr>"

lemma demo_paths_run:
  "ensure_parent_allowed demo_paths (\<lambda>p. False) ''ann'' ''/home/ann/notes/a.txt'' = Inr ''/home/ann/notes/a.txt''"
  "allowed_roots demo_paths ''ann'' = Inr [''/home/ann'', ''/mnt/webnas/mnt/media'']"
  "resolve_user_path demo_paths ''ann'' ''/mnt/webnas/mnt/media/a.txt'' = Inl blocked"
  by code_simp+

theorem user_path_confined_witness:
  "\<exists>roots. allowed_roots demo_paths ''ann'' = Inr roots
     \<and> list_ex (\<lambda>r. path_under r ''/home/ann/notes/a.txt'') roots \<and> clear_of demo_paths ''/home/ann/notes/a.txt''"
proof -
  have "safe_mode_active demo_paths" by (simp add: safe_mode_active_def demo_paths_def)
  moreover have "pw_real demo_paths = Inr" by (simp add: demo_paths_def)
  ultimately show ?thesis
    using user_path_confined [OF demo_paths_run(1)] by auto
qed

end
