(* ===== verification/Broker_Base.thy ===== *)
theory Broker_Base
  imports Steps Json_Text Path_Policy "HOL-Library.Char_ord" "HOL-Library.List_Lexorder"
begin

text \<open>
  The privileged broker: requests and responses of \<^verbatim>\<open>privileged_broker/protocol.py\<close> and
  the shared policy of \<^verbatim>\<open>policy.py\<close>. A policy is a step over the list of effects the broker
  has caused: commands run without a shell, directories made, permissions changed, files
  installed or removed. What the system answers to an effect, and what it says about paths and
  tools, is the record \<open>broker_env\<close>; the answer may depend on everything done before.
  \<^verbatim>\<open>redact_text\<close> is a function of that record.
\<close>

section \<open>Requests, responses, effects\<close>

datatype broker_op =
    Op_systemd | Op_account | Op_ownership | Op_managed_file | Op_power | Op_update_service
  | Op_package | Op_module_hook | Op_samba_account | Op_mount | Op_mount_unit | Op_quota
  | Op_storage_probe | Op_docker | Op_docker_graceful_stop | Op_firewall | Op_ntp | Op_routing
  | Op_session | Op_file_worker | Op_pam_auth

type_synonym payload = "(string \<times> json) list"

record broker_request =
  bq_id :: string
  bq_actor :: string
  bq_op :: broker_op
  bq_payload :: payload

record broker_response =
  bp_id :: string
  bp_ok :: bool
  bp_exit_code :: int
  bp_stdout :: string
  bp_stderr :: string
  bp_error :: "string option"

datatype host_effect =
    Ran "string list" "string option" real
  | Made_dir string int
  | Set_mode string int
  | Set_owner string int int
  | Installed string string int
  | Wrote string string
  | Removed string
  | Fetched string

record command_result =
  cm_code :: int
  cm_out :: string
  cm_err :: string

record broker_settings =
  bs_data_dir :: string
  bs_log_dir :: string
  bs_temp_dir :: string
  bs_services :: "string list"
  bs_allowed_roots :: "string list"

record broker_env =
  be_which :: "string \<Rightarrow> string option"
  be_resolve :: "string \<Rightarrow> string res"
  be_settings :: "broker_settings res"
  be_answer :: "host_effect list \<Rightarrow> host_effect \<Rightarrow> command_result res"
  be_redact :: "int \<Rightarrow> string \<Rightarrow> string"
  be_str :: "json \<Rightarrow> string"
  be_is_dir :: "string \<Rightarrow> bool"
  be_is_file :: "string \<Rightarrow> bool"
  be_modules_dir :: string
  be_python :: string
  be_file_size :: "string \<Rightarrow> int"
  be_yaml :: "string \<Rightarrow> json option"
  be_account :: "string \<Rightarrow> (int \<times> int) option"
  be_group :: "string \<Rightarrow> int option"
  be_lstat :: "host_effect list \<Rightarrow> string \<Rightarrow> (bool \<times> int) res"
  be_paths :: path_world
  be_service_user :: string
  be_now_ms :: int
  be_float :: "real \<Rightarrow> string"

type_synonym 'a broker = "(host_effect list, 'a) step"

definition perform :: "broker_env \<Rightarrow> host_effect \<Rightarrow> command_result broker" where
  "perform env e h = (be_answer env h e, h @ [e])"

definition success :: command_result where
  "success = \<lparr>cm_code = 0, cm_out = [], cm_err = []\<rparr>"

definition deny :: "string \<Rightarrow> 'a broker" where
  "deny msg = step_raise (PolicyError msg)"

definition ensure :: "bool \<Rightarrow> string \<Rightarrow> unit broker" where
  "ensure b msg = (if b then step_return () else deny msg)"

definition step_then :: "('s, 'a) step \<Rightarrow> ('s, 'b) step \<Rightarrow> ('s, 'b) step" where
  "step_then f g = step_bind f (\<lambda>_. g)"

section \<open>The request envelope\<close>

definition lower_hex :: "char \<Rightarrow> bool" where
  "lower_hex = char_in [(48, 57), (97, 102)]"

definition request_id_ok :: "string \<Rightarrow> bool" where
  "request_id_ok s \<longleftrightarrow> len_between 32 32 s \<and> list_all lower_hex s"

definition actor_ok :: "string \<Rightarrow> bool" where
  "actor_ok s \<longleftrightarrow> len_between 1 128 s \<and> list_all (\<lambda>c. word_char c \<or> c \<in> set ''.@-'') s"

definition operations :: "(string \<times> broker_op) list" where
  "operations =
     [(''systemd'', Op_systemd), (''account'', Op_account), (''ownership'', Op_ownership),
      (''managed_file'', Op_managed_file), (''power'', Op_power),
      (''update_service'', Op_update_service), (''package'', Op_package),
      (''module_hook'', Op_module_hook), (''samba_account'', Op_samba_account),
      (''mount'', Op_mount), (''mount_unit'', Op_mount_unit), (''quota'', Op_quota),
      (''storage_probe'', Op_storage_probe), (''docker'', Op_docker),
      (''docker_graceful_stop'', Op_docker_graceful_stop), (''firewall'', Op_firewall),
      (''ntp'', Op_ntp), (''routing'', Op_routing), (''session'', Op_session),
      (''file_worker'', Op_file_worker), (''pam_auth'', Op_pam_auth)]"

definition extra_keys :: "payload \<Rightarrow> string list \<Rightarrow> string list" where
  "extra_keys p allowed = filter (\<lambda>k. k \<notin> set allowed) (map fst p)"

definition parse_request :: "json \<Rightarrow> broker_request option" where
  "parse_request v =
     (case v of JObj kvs \<Rightarrow>
        if extra_keys kvs [''version'', ''request_id'', ''actor'', ''operation'', ''payload''] \<noteq> []
          \<or> (case map_of kvs ''version'' of None \<Rightarrow> False | Some n \<Rightarrow> n \<noteq> JInt 1) then None
        else (case (map_of kvs ''request_id'', map_of kvs ''actor'', map_of kvs ''operation'') of
          (Some (JStr i), Some (JStr a), Some (JStr opname)) \<Rightarrow>
            (case (map_of operations opname, map_of kvs ''payload'') of
               (Some p, None) \<Rightarrow> if request_id_ok i \<and> actor_ok a
                 then Some \<lparr>bq_id = i, bq_actor = a, bq_op = p, bq_payload = []\<rparr> else None
             | (Some p, Some (JObj pl)) \<Rightarrow> if request_id_ok i \<and> actor_ok a
                 then Some \<lparr>bq_id = i, bq_actor = a, bq_op = p, bq_payload = pl\<rparr> else None
             | _ \<Rightarrow> None)
        | _ \<Rightarrow> None)
      | _ \<Rightarrow> None)"

section \<open>Shared validators\<close>

definition system_dirs :: "string list" where
  "system_dirs = [''/usr/sbin'', ''/usr/bin'', ''/sbin'', ''/bin'']"

definition resolve_tool :: "broker_env \<Rightarrow> string \<Rightarrow> string broker" where
  "resolve_tool env name =
     (if CHR ''/'' \<in> set name \<or> prefix ''.'' name then deny ''executable paths are not accepted''
      else (case be_which env name of
        None \<Rightarrow> deny (''required privileged tool is unavailable: '' @ name)
      | Some found \<Rightarrow> if found = [] then deny (''required privileged tool is unavailable: '' @ name)
          else step_bind (step_res (be_resolve env found)) (\<lambda>candidate.
            if path_name candidate \<noteq> name \<or> path_parent candidate \<notin> set system_dirs
            then deny ''privileged tool resolved outside the fixed system path''
            else step_return candidate)))"

definition control :: "char \<Rightarrow> bool" where
  "control c \<longleftrightarrow> of_char c < (32 :: nat)"

definition str_value :: "json option \<Rightarrow> string option" where
  "str_value v = (case v of Some (JStr s) \<Rightarrow> Some s | _ \<Rightarrow> None)"

definition policy_text :: "int \<Rightarrow> payload \<Rightarrow> string \<Rightarrow> string broker" where
  "policy_text limit p key =
     (case str_value (map_of p key) of
        None \<Rightarrow> deny (''invalid '' @ key)
      | Some s \<Rightarrow> if s = [] \<or> limit < int (length s)
            \<or> list_ex (\<lambda>c. control c \<and> c \<noteq> CHR 9 \<and> c \<noteq> CHR 10) s
          then deny (''invalid '' @ key) else step_return s)"

definition name_ok :: "string \<Rightarrow> bool" where
  "name_ok s = (case s of [] \<Rightarrow> False
     | c # cs \<Rightarrow> char_in [(95, 95), (97, 122)] c
         \<and> (let body = (if cs \<noteq> [] \<and> last cs = CHR ''$'' then butlast cs else cs)
            in len_between 0 31 body
               \<and> list_all (\<lambda>x. char_in [(95, 95), (97, 122)] x \<or> is_digit x \<or> x = CHR ''-'') body))"

definition unit_chars :: "char \<Rightarrow> bool" where
  "unit_chars c \<longleftrightarrow> word_char c \<or> c \<in> set ''.@:-''"

definition unit_ok :: "string \<Rightarrow> bool" where
  "unit_ok s \<longleftrightarrow> list_all unit_chars s
     \<and> (len_between 1 128 s
        \<or> suffix ''.service'' s \<and> len_between 1 128 (take (length s - 8) s))"

definition package_ok :: "string \<Rightarrow> bool" where
  "package_ok s = (case s of [] \<Rightarrow> False
     | c # cs \<Rightarrow> (ascii_letter c \<or> is_digit c) \<and> len_between 0 191 cs
         \<and> list_all (\<lambda>x. word_char x \<or> x \<in> set ''+.:@~=-'') cs)"

definition update_unit_ok :: "string \<Rightarrow> bool" where
  "update_unit_ok s = (case strip_prefix ''webnas-self-update-'' s of None \<Rightarrow> False
     | Some r \<Rightarrow> suffix ''.service'' r \<and> (let n = take (length r - 8) r in
         len_between 1 20 n \<and> list_all is_digit n))"

definition protected_users :: "string list" where
  "protected_users =
     [''root'', ''daemon'', ''bin'', ''sys'', ''sync'', ''games'', ''man'', ''lp'', ''mail'',
      ''news'', ''uucp'', ''proxy'', ''www-data'', ''backup'', ''nobody'', ''systemd-network'',
      ''systemd-resolve'', ''messagebus'', ''pve'', ''pvedaemon'', ''pveproxy'', ''webnas'']"

definition protected_groups :: "string list" where
  "protected_groups =
     [''root'', ''daemon'', ''sudo'', ''wheel'', ''shadow'', ''adm'', ''www-data'', ''backup'',
      ''pve'', ''pveadmin'', ''pveproxy'', ''pve-cluster'', ''webnas'']"

definition protected_units :: "string list" where
  "protected_units =
     [''pveproxy.service'', ''pvedaemon.service'', ''pve-cluster.service'', ''corosync.service'',
      ''networking.service'', ''ssh.service'', ''sshd.service'', ''systemd-logind.service'',
      ''dbus.service'', ''systemd-journald.service'']"

definition fixed_units :: "string list" where
  "fixed_units =
     [''nginx.service'', ''smbd.service'', ''nmbd.service'', ''samba.service'', ''winbind.service'',
      ''kea-dhcp4-server.service'', ''kea-dhcp4.service'', ''isc-dhcp-server.service'',
      ''dhcpd.service'', ''firewalld.service'', ''nftables.service'']"

datatype principal_kind = Kind_user | Kind_group

fun protected_names :: "principal_kind \<Rightarrow> string list" where
  "protected_names Kind_user = protected_users"
| "protected_names Kind_group = protected_groups"

fun kind_text :: "principal_kind \<Rightarrow> string" where
  "kind_text Kind_user = ''user''"
| "kind_text Kind_group = ''group''"

text \<open>A name a request may change.\<close>

definition name_allowed :: "principal_kind \<Rightarrow> string \<Rightarrow> bool" where
  "name_allowed kind s \<longleftrightarrow> name_ok s \<and> s \<notin> set (protected_names kind) \<and> \<not> prefix ''pve'' s"

definition policy_name :: "principal_kind \<Rightarrow> string \<Rightarrow> string broker" where
  "policy_name kind s =
     (if \<not> name_ok s then deny (''invalid '' @ kind_text kind @ '' name'')
      else if s \<in> set (protected_names kind) \<or> prefix ''pve'' s
        then deny (''protected '' @ kind_text kind @ '' cannot be modified'')
      else step_return s)"

definition with_service :: "string \<Rightarrow> string" where
  "with_service u = (if suffix ''.service'' u then u else u @ ''.service'')"

definition configured_units :: "broker_env \<Rightarrow> string list" where
  "configured_units env = (case be_settings env of Inl e \<Rightarrow> []
     | Inr c \<Rightarrow> map with_service (filter unit_ok (bs_services c)))"

definition unit_allowed :: "broker_env \<Rightarrow> string \<Rightarrow> string broker" where
  "unit_allowed env u =
     (if \<not> unit_ok u then deny ''invalid systemd unit''
      else let n = with_service u in
        if n \<in> set protected_units \<or> prefix ''pve'' n then deny ''protected systemd unit''
        else if n \<in> set fixed_units \<or> n \<in> set (configured_units env) \<or> n = ''webnas.service''
          then step_return n
        else if prefix ''webnas-backend-'' n \<or> update_unit_ok n then step_return n
        else deny ''systemd unit is not allowlisted'')"

fun first_under :: "broker_env \<Rightarrow> string list \<Rightarrow> string \<Rightarrow> string broker" where
  "first_under env [] candidate = deny ''path is outside privileged broker roots''"
| "first_under env (r # rs) candidate = step_bind (step_res (be_resolve env r)) (\<lambda>top.
     if path_under top candidate then step_return candidate else first_under env rs candidate)"

definition safe_path :: "broker_env \<Rightarrow> string list \<Rightarrow> string \<Rightarrow> string broker" where
  "safe_path env roots raw =
     (if \<not> prefix ''/'' raw \<or> CHR 0x00 \<in> set raw then deny ''path must be absolute''
      else if ''..'' \<in> set (path_parts raw) then deny ''path traversal is not allowed''
      else step_bind (step_res (be_resolve env (path_posix raw))) (first_under env roots))"

section \<open>Payload values\<close>

text \<open>\<^verbatim>\<open>payload.get(key)\<close>, with \<^verbatim>\<open>None\<close> for an absent key and for a null.\<close>

definition get_value :: "payload \<Rightarrow> string \<Rightarrow> json option" where
  "get_value p k = (case map_of p k of Some JNull \<Rightarrow> None | v \<Rightarrow> v)"

definition payload_keys :: "string list \<Rightarrow> payload \<Rightarrow> unit broker" where
  "payload_keys allowed p = ensure (extra_keys p allowed = [])
     (''unsupported parameters: '' @ join_with '', '' (sort (extra_keys p allowed)))"

definition keys_are :: "payload \<Rightarrow> string list \<Rightarrow> bool" where
  "keys_are p ks \<longleftrightarrow> extra_keys p ks = [] \<and> list_all (\<lambda>k. k \<in> set (map fst p)) ks"

definition token_ok :: "int \<Rightarrow> string \<Rightarrow> bool" where
  "token_ok limit s \<longleftrightarrow> len_between 1 limit s \<and> \<not> list_ex control s"

definition policy_token :: "int \<Rightarrow> string \<Rightarrow> json option \<Rightarrow> string broker" where
  "policy_token limit label v = (case str_value v of
     Some s \<Rightarrow> if token_ok limit s then step_return s else deny (''invalid '' @ label)
   | None \<Rightarrow> deny (''invalid '' @ label))"

text \<open>\<^verbatim>\<open>payload.get("args") or []\<close>; a list whose items are texts that pass a test.\<close>

definition args_value :: "payload \<Rightarrow> json" where
  "args_value p = (case map_of p ''args'' of
     Some v \<Rightarrow> if json_truthy v then v else JList [] | None \<Rightarrow> JList [])"

definition list_value :: "json \<Rightarrow> json list option" where
  "list_value v = (case v of JList xs \<Rightarrow> Some xs | _ \<Rightarrow> None)"

fun str_items :: "(string \<Rightarrow> bool) \<Rightarrow> json list \<Rightarrow> string list option" where
  "str_items ok [] = Some []"
| "str_items ok (JStr s # vs) = (if ok s then map_option ((#) s) (str_items ok vs) else None)"
| "str_items ok (_ # vs) = None"

definition item_ok :: "int \<Rightarrow> string \<Rightarrow> bool" where
  "item_ok limit s \<longleftrightarrow> int (length s) \<le> limit \<and> CHR 0x00 \<notin> set s"

text \<open>\<^verbatim>\<open>isinstance(x, int)\<close> holds of truth values too; \<^verbatim>\<open>str\<close> tells them apart.\<close>

definition int_value :: "json \<Rightarrow> int option" where
  "int_value v = (case v of JInt i \<Rightarrow> Some i | JBool b \<Rightarrow> Some (if b then 1 else 0) | _ \<Rightarrow> None)"

definition timeout_value :: "payload \<Rightarrow> real \<Rightarrow> real \<Rightarrow> real option" where
  "timeout_value p standard limit =
     (case map_of p ''timeout'' of None \<Rightarrow> Some standard
      | Some v \<Rightarrow> (case json_number v of
          Some t \<Rightarrow> if 1 \<le> t \<and> t \<le> limit then Some t else None | None \<Rightarrow> None))"

text \<open>\<^verbatim>\<open>str(payload.get(key) or "")\<close>.\<close>

definition str_or_empty :: "broker_env \<Rightarrow> payload \<Rightarrow> string \<Rightarrow> string" where
  "str_or_empty env p key = (case map_of p key of None \<Rightarrow> []
     | Some v \<Rightarrow> if \<not> json_truthy v then [] else (case v of JStr s \<Rightarrow> s | _ \<Rightarrow> be_str env v))"

definition json_str :: "broker_env \<Rightarrow> json \<Rightarrow> string" where
  "json_str env v = (case v of JStr s \<Rightarrow> s | _ \<Rightarrow> be_str env v)"

text \<open>\<^verbatim>\<open>for x in v\<close>.\<close>

definition iter_value :: "json \<Rightarrow> json list res" where
  "iter_value v = (case v of JList xs \<Rightarrow> Inr xs | JStr s \<Rightarrow> Inr (map (\<lambda>c. JStr [c]) s)
     | JObj kvs \<Rightarrow> Inr (map (\<lambda>kv. JStr (fst kv)) kvs) | _ \<Rightarrow> Inl TypeError)"

fun each_check :: "('a \<Rightarrow> unit broker) \<Rightarrow> 'a list \<Rightarrow> unit broker" where
  "each_check f [] = step_return ()"
| "each_check f (x # xs) = step_then (f x) (each_check f xs)"

section \<open>Answering a request\<close>

definition max_output :: int where
  "max_output = 262144"

definition failure_response :: "broker_request \<Rightarrow> bool \<Rightarrow> string \<Rightarrow> broker_response" where
  "failure_response rq policy msg =
     \<lparr>bp_id = bq_id rq, bp_ok = False, bp_exit_code = (if policy then 126 else 127), bp_stdout = [],
      bp_stderr = msg, bp_error = Some (if policy then ''POLICY_DENIED'' else ''EXECUTION_FAILED'')\<rparr>"

definition result_response ::
  "(string \<Rightarrow> string) \<Rightarrow> broker_request \<Rightarrow> command_result \<Rightarrow> broker_response" where
  "result_response trim rq r =
     \<lparr>bp_id = bq_id rq, bp_ok = (cm_code r = 0), bp_exit_code = cm_code r, bp_stdout = trim (cm_out r),
      bp_stderr = trim (cm_err r), bp_error = (if cm_code r = 0 then None else Some ''COMMAND_FAILED'')\<rparr>"

text \<open>A policy refusal and the caught exceptions become responses; others propagate.\<close>

definition respond ::
  "broker_request \<Rightarrow> (py_exn \<Rightarrow> string) \<Rightarrow> (py_exn \<Rightarrow> bool) \<Rightarrow> (string \<Rightarrow> string)
     \<Rightarrow> command_result broker \<Rightarrow> broker_response broker" where
  "respond rq message caught trim action h =
     (case action h of
        (Inr r, h') \<Rightarrow> (Inr (result_response trim rq r), h')
      | (Inl e, h') \<Rightarrow>
          if is_policy_error e then (Inr (failure_response rq True (message e)), h')
          else if caught e then (Inr (failure_response rq False (message e)), h')
          else (Inl e, h'))"

definition redacted_message :: "broker_env \<Rightarrow> py_exn \<Rightarrow> string" where
  "redacted_message env e = be_redact env 2000 (exn_message e)"

section \<open>Units, power and managed files\<close>

definition systemd_actions :: "string list" where
  "systemd_actions = [''start'', ''stop'', ''restart'', ''reload'', ''enable'', ''disable'',
     ''is-active'', ''is-enabled'', ''show'', ''daemon-reload'']"

definition property_ok :: "string \<Rightarrow> bool" where
  "property_ok s = (case s of [] \<Rightarrow> False
     | c # cs \<Rightarrow> ascii_letter c \<and> len_between 0 63 cs \<and> list_all (\<lambda>x. ascii_letter x \<or> is_digit x) cs)"

definition show_properties :: "payload \<Rightarrow> string list broker" where
  "show_properties p =
     (let v = (case map_of p ''properties'' of
         Some w \<Rightarrow> if json_truthy w then w else JList [] | None \<Rightarrow> JList [])
      in case list_value v of None \<Rightarrow> deny ''invalid systemd properties''
       | Some xs \<Rightarrow> if 24 < length xs then deny ''invalid systemd properties''
           else (case str_items property_ok xs of None \<Rightarrow> deny ''invalid systemd properties''
             | Some ps \<Rightarrow> step_return ps))"

definition run_systemd :: "broker_env \<Rightarrow> payload \<Rightarrow> command_result broker" where
  "run_systemd env p =
     step_bind (policy_text 32 p ''action'') (\<lambda>action.
     if action \<notin> set systemd_actions then deny ''unsupported systemd action''
     else step_bind (resolve_tool env ''systemctl'') (\<lambda>exe.
       if action = ''daemon-reload'' then
         if \<not> keys_are p [''action''] then deny ''daemon-reload does not accept a unit''
         else perform env (Ran [exe, ''daemon-reload''] None 60)
       else step_bind (policy_text 128 p ''unit'') (\<lambda>raw.
         step_bind (unit_allowed env raw) (\<lambda>unit.
         if extra_keys p [''action'', ''unit'', ''properties''] \<noteq> []
           then deny ''unsupported systemd parameters''
         else if action = ''show'' then step_bind (show_properties p) (\<lambda>ps.
           perform env (Ran ([exe, ''show'', unit]
             @ (if ps = [] then [] else [''--property='' @ join_with '','' ps])) None 15))
         else perform env (Ran [exe, action, unit] None 120)))))"

definition run_power :: "broker_env \<Rightarrow> payload \<Rightarrow> command_result broker" where
  "run_power env p =
     step_bind (policy_text 16 p ''action'') (\<lambda>action.
     if action \<notin> {''poweroff'', ''reboot''} \<or> \<not> keys_are p [''action'']
       then deny ''unsupported power operation''
     else step_bind (resolve_tool env ''systemctl'') (\<lambda>exe.
       perform env (Ran [exe, action] None 30)))"

definition managed_files :: "(string \<times> string) list" where
  "managed_files =
     [(''samba_main'', ''/etc/samba/smb.conf''),
      (''samba_shares'', ''/etc/samba/algen-shares.conf''),
      (''dhcp_kea'', ''/etc/kea/kea-dhcp4.conf''),
      (''dhcp_isc'', ''/etc/dhcp/dhcpd.conf''),
      (''dhcp_isc_interfaces'', ''/etc/default/isc-dhcp-server'')]"

text \<open>The length of the UTF-8 encoding, on the first 256 code points.\<close>

definition utf8_length :: "string \<Rightarrow> nat" where
  "utf8_length s = length s + length (filter (\<lambda>c. 128 \<le> (of_char c :: nat)) s)"

text \<open>A written file replaces its target in one step: the temporary file is in the same directory.\<close>

definition install_file :: "broker_env \<Rightarrow> string \<Rightarrow> string \<Rightarrow> int \<Rightarrow> command_result broker" where
  "install_file env target content mode =
     step_then (perform env (Made_dir (path_parent target) 511))
       (perform env (Installed target content mode))"

definition run_managed_file :: "broker_env \<Rightarrow> payload \<Rightarrow> command_result broker" where
  "run_managed_file env p =
     step_bind (policy_text 64 p ''target'') (\<lambda>key.
     case map_of managed_files key of None \<Rightarrow> deny ''unknown managed file target''
     | Some target \<Rightarrow>
       (case str_value (map_of p ''content'') of None \<Rightarrow> deny ''invalid managed file content''
        | Some content \<Rightarrow>
          if 2097152 < int (utf8_length content) \<or> CHR 0x00 \<in> set content
            then deny ''invalid managed file content''
          else (case int_value (case map_of p ''mode'' of None \<Rightarrow> JInt 384 | Some v \<Rightarrow> v) of
              None \<Rightarrow> deny ''invalid managed file mode''
            | Some mode \<Rightarrow> if mode \<notin> {384, 416, 420} then deny ''invalid managed file mode''
                else step_then (install_file env target content mode) (step_return success))))"

text \<open>
  \<^verbatim>\<open>dispatch\<close>. Its branches for accounts, ownership and packages are superseded: the
  dispatcher of \<^verbatim>\<open>extended_policy.py\<close> never passes those operations on.
\<close>

definition base_action :: "broker_env \<Rightarrow> broker_request \<Rightarrow> command_result broker" where
  "base_action env rq = (case bq_op rq of
       Op_systemd \<Rightarrow> run_systemd env (bq_payload rq)
     | Op_managed_file \<Rightarrow> run_managed_file env (bq_payload rq)
     | Op_power \<Rightarrow> run_power env (bq_payload rq)
     | _ \<Rightarrow> deny ''operation is not enabled'')"

definition dispatch_base :: "broker_env \<Rightarrow> broker_request \<Rightarrow> broker_response broker" where
  "dispatch_base env rq = respond rq (redacted_message env)
     (\<lambda>e. is_os_error e \<or> is_subprocess_error e) (be_redact env max_output) (base_action env rq)"

end
