(* ===== verification/Broker_Rules.thy ===== *)
theory Broker_Rules
  imports Broker_Base
begin

text \<open>
  Rules for the policies of the broker: what a step may return, that validators cause no effect,
  and which effects a step emits.
\<close>

section \<open>Equations of the steps\<close>

lemma step_bind_return [simp]: "step_bind (step_return x) g = g x"
  by (simp add: fun_eq_iff step_bind_def step_return_def)

lemma step_then_return [simp]: "step_then (step_return x) g = g"
  by (simp add: step_then_def)

lemma step_bind_deny [simp]: "step_bind (deny m) g = deny m"
  by (simp add: fun_eq_iff step_bind_def deny_def step_raise_def)

lemma step_then_deny [simp]: "step_then (deny m) g = deny m"
  by (simp add: step_then_def)

lemma step_bind_res [simp]:
  "step_bind (step_res (Inr x)) g = g x"
  "step_bind (step_res (Inl e)) g = step_raise e"
  by (simp_all add: fun_eq_iff step_bind_def step_res_def step_raise_def)

lemma step_bind_if: "step_bind (if b then f else f') g = (if b then step_bind f g else step_bind f' g)"
  by simp

lemma step_then_assoc: "step_then (step_then a b) c = step_then a (step_then b c)"
  by (auto simp: fun_eq_iff step_then_def step_bind_def split: prod.splits sum.splits)

section \<open>Returned values\<close>

definition returns :: "'a broker \<Rightarrow> 'a \<Rightarrow> bool" where
  "returns m x \<longleftrightarrow> (\<exists>h h'. m h = (Inr x, h'))"

lemma returns_simps [simp]:
  "returns (step_return x) y \<longleftrightarrow> y = x"
  "\<not> returns (deny m) y"
  "\<not> returns (step_raise e) y"
  "returns (step_res r) y \<longleftrightarrow> r = Inr y"
  by (auto simp: returns_def step_return_def deny_def step_raise_def step_res_def)

lemma returns_bind: "returns (step_bind f g) y \<Longrightarrow> \<exists>x. returns f x \<and> returns (g x) y"
  by (auto simp: returns_def res_iff)

lemma returns_then: "returns (step_then f g) y \<Longrightarrow> (\<exists>x. returns f x) \<and> returns g y"
  unfolding step_then_def by (drule returns_bind) auto

lemma returns_if: "returns (if b then f else g) y \<longleftrightarrow> (b \<and> returns f y \<or> \<not> b \<and> returns g y)"
  by simp

lemma returns_ensure [simp]: "returns (ensure b m) y \<longleftrightarrow> b"
  by (simp add: ensure_def)

lemma returns_ensured [simp]: "returns (if b then deny m else f) y \<longleftrightarrow> \<not> b \<and> returns f y"
  "returns (if b then f else deny m) y \<longleftrightarrow> b \<and> returns f y"
  by auto

section \<open>Emitted effects\<close>

text \<open>
  \<open>emits Q m\<close>: from every history the step appends effects that, with its result, satisfy \<open>Q\<close>.
\<close>

definition emits :: "('a res \<Rightarrow> host_effect list \<Rightarrow> bool) \<Rightarrow> 'a broker \<Rightarrow> bool" where
  "emits Q m \<longleftrightarrow> (\<forall>h r h'. m h = (r, h') \<longrightarrow> (\<exists>es. h' = h @ es \<and> Q r es))"

abbreviation quiet :: "'a broker \<Rightarrow> bool" where
  "quiet m \<equiv> emits (\<lambda>r es. es = []) m"

named_theorems emit_rules \<open>the effects of steps\<close>

lemma emitsD: "emits Q m \<Longrightarrow> m h = (r, h') \<Longrightarrow> \<exists>es. h' = h @ es \<and> Q r es"
  by (simp add: emits_def)

lemma emits_weaken: "emits Q m \<Longrightarrow> (\<And>r es. Q r es \<Longrightarrow> R r es) \<Longrightarrow> emits R m"
  unfolding emits_def by meson

lemma emits_return [emit_rules]: "Q (Inr x) [] \<Longrightarrow> emits Q (step_return x)"
  by (simp add: emits_def step_return_def)

lemma emits_raise [emit_rules]: "Q (Inl e) [] \<Longrightarrow> emits Q (step_raise e)"
  by (simp add: emits_def step_raise_def)

lemma emits_deny [emit_rules]: "Q (Inl (PolicyError m)) [] \<Longrightarrow> emits Q (deny m)"
  by (simp add: emits_def deny_def step_raise_def)

lemma emits_res [emit_rules]: "Q r [] \<Longrightarrow> emits Q (step_res r)"
  by (simp add: emits_def step_res_def)

lemma emits_perform: "(\<And>h. Q (be_answer env h e) [e]) \<Longrightarrow> emits Q (perform env e)"
  by (simp add: emits_def perform_def)

lemma quiet_bind [emit_rules]:
  "quiet f \<Longrightarrow> (\<And>x. returns f x \<Longrightarrow> quiet (g x)) \<Longrightarrow> quiet (step_bind f g)"
  by (fastforce simp: emits_def step_bind_def returns_def split: prod.splits sum.splits)

lemma quiet_then [emit_rules]: "quiet f \<Longrightarrow> quiet g \<Longrightarrow> quiet (step_then f g)"
  unfolding step_then_def by (rule quiet_bind)

lemma quiet_ensure [emit_rules]: "quiet (ensure b m)"
  by (simp add: ensure_def emits_return emits_deny)

text \<open>After quiet checks the effects are those of the rest, a raised check leaves none.\<close>

definition raises :: "'a broker \<Rightarrow> py_exn \<Rightarrow> bool" where
  "raises m e \<longleftrightarrow> (\<exists>h h'. m h = (Inl e, h'))"

lemma emits_bind:
  assumes "quiet f" and "\<And>e. raises f e \<Longrightarrow> Q (Inl e) []" and "\<And>x. returns f x \<Longrightarrow> emits Q (g x)"
  shows "emits Q (step_bind f g)"
  unfolding emits_def
proof (intro allI impI)
  fix h r h' assume run: "step_bind f g h = (r, h')"
  obtain q u where f: "f h = (q, u)" by fastforce
  have "u = h" using assms(1) f by (fastforce simp: emits_def)
  show "\<exists>es. h' = h @ es \<and> Q r es"
  proof (cases q)
    case (Inl e)
    then show ?thesis using run f \<open>u = h\<close> assms(2) by (auto simp: step_bind_def raises_def)
  next
    case (Inr x)
    then have "returns f x" using f by (auto simp: returns_def)
    moreover have "g x h = (r, h')" using run f Inr \<open>u = h\<close> by (simp add: step_bind_def)
    ultimately show ?thesis using assms(3) by (blast dest: emitsD)
  qed
qed

lemma emits_then:
  assumes "quiet f" and "\<And>e. raises f e \<Longrightarrow> Q (Inl e) []" and "(\<exists>x. returns f x) \<Longrightarrow> emits Q g"
  shows "emits Q (step_then f g)"
  unfolding step_then_def using assms by (auto intro: emits_bind)

text \<open>Effects that each satisfy \<open>P\<close>.\<close>

abbreviation each_effect :: "(host_effect \<Rightarrow> bool) \<Rightarrow> 'a broker \<Rightarrow> bool" where
  "each_effect P \<equiv> emits (\<lambda>r es. list_all P es)"

lemma each_bind:
  assumes "each_effect P f" and "\<And>x. returns f x \<Longrightarrow> each_effect P (g x)"
  shows "each_effect P (step_bind f g)"
  unfolding emits_def
proof (intro allI impI)
  fix h r h' assume run: "step_bind f g h = (r, h')"
  obtain q u where f: "f h = (q, u)" by fastforce
  then obtain es where u: "u = h @ es" "list_all P es" using assms(1) by (blast dest: emitsD)
  show "\<exists>es. h' = h @ es \<and> list_all P es"
  proof (cases q)
    case (Inl e)
    then show ?thesis using run f u by (auto simp: step_bind_def)
  next
    case (Inr x)
    then have "returns f x" using f by (auto simp: returns_def)
    moreover have "g x u = (r, h')" using run f Inr by (simp add: step_bind_def)
    ultimately obtain es' where "h' = u @ es'" "list_all P es'"
      using assms(2) by (blast dest: emitsD)
    with u show ?thesis by auto
  qed
qed

lemma each_then: "each_effect P f \<Longrightarrow> each_effect P g \<Longrightarrow> each_effect P (step_then f g)"
  unfolding step_then_def by (rule each_bind)

lemma each_quiet: "quiet f \<Longrightarrow> each_effect P f"
  by (erule emits_weaken) simp

lemma emits_respond:
  "emits Q (respond rq msg caught trim m) \<longleftrightarrow>
     emits (\<lambda>r es. Q (fst (respond rq msg caught trim (\<lambda>_. (r, [])) [])) es) m"
proof -
  have "respond rq msg caught trim m h
      = (fst (respond rq msg caught trim (\<lambda>_. (fst (m h), [])) []), snd (m h))" for h
    by (auto simp: respond_def split: prod.splits sum.splits)
  then show ?thesis by (fastforce simp: emits_def prod_eq_iff)
qed

section \<open>Validators\<close>

lemma policy_name_alt: "policy_name kind s = (if name_allowed kind s then step_return s
    else deny (if name_ok s then ''protected '' @ kind_text kind @ '' cannot be modified''
               else ''invalid '' @ kind_text kind @ '' name''))"
  by (auto simp: policy_name_def name_allowed_def)

lemma returns_policy_name [simp]: "returns (policy_name kind s) t \<longleftrightarrow> name_allowed kind s \<and> t = s"
  by (auto simp: policy_name_alt)

lemma returns_policy_token [simp]:
  "returns (policy_token n l v) s \<longleftrightarrow> v = Some (JStr s) \<and> token_ok n s"
  by (auto simp: policy_token_def str_value_def split: option.splits json.splits)

lemma returns_payload_keys [simp]: "returns (payload_keys ks p) u \<longleftrightarrow> extra_keys p ks = []"
  by (simp add: payload_keys_def)

lemma returns_policy_text:
  "returns (policy_text n p k) s \<Longrightarrow> map_of p k = Some (JStr s) \<and> s \<noteq> [] \<and> int (length s) \<le> n"
  by (auto simp: policy_text_def str_value_def split: option.splits json.splits if_splits)

text \<open>The executable of a tool lies in one of the fixed directories and has the tool's name.\<close>

definition tool_path :: "broker_env \<Rightarrow> string \<Rightarrow> string \<Rightarrow> bool" where
  "tool_path env name exe \<longleftrightarrow> returns (resolve_tool env name) exe"

lemma tool_path_fixed:
  "tool_path env name exe \<Longrightarrow> path_name exe = name \<and> path_parent exe \<in> set system_dirs"
  unfolding tool_path_def resolve_tool_def
  by (auto split: if_splits option.splits dest!: returns_bind)

lemma resolve_tool_state: "resolve_tool env name h = (r, h') \<Longrightarrow> resolve_tool env name k = (r, k)"
  by (auto simp: resolve_tool_def step_bind_def step_res_def deny_def step_raise_def step_return_def
      split: if_splits option.splits sum.splits prod.splits)

lemma resolve_tool_path: "tool_path env name exe \<Longrightarrow> resolve_tool env name = step_return exe"
  by (auto simp: tool_path_def returns_def fun_eq_iff step_return_def dest: resolve_tool_state)

lemma quiet_validators [emit_rules]:
  "quiet (policy_name kind s)" "quiet (policy_token n l v)" "quiet (payload_keys ks p)"
  "quiet (policy_text n p k)" "quiet (resolve_tool env name)"
  by (auto simp: policy_name_def policy_token_def payload_keys_def policy_text_def resolve_tool_def
      split: option.splits intro!: emit_rules)

lemma quiet_each_check [emit_rules]: "(\<And>x. x \<in> set xs \<Longrightarrow> quiet (f x)) \<Longrightarrow> quiet (each_check f xs)"
  by (induction xs) (auto intro!: emit_rules)

lemma returns_each_check: "returns (each_check f xs) u \<Longrightarrow> \<forall>x \<in> set xs. \<exists>v. returns (f x) v"
  by (induction xs) (auto dest!: returns_then)

lemma quiet_first_under [emit_rules]: "quiet (first_under env rs c)"
  by (induction env rs c rule: first_under.induct) (auto intro!: emit_rules)

lemma quiet_safe_path [emit_rules]: "quiet (safe_path env roots raw)"
  by (auto simp: safe_path_def intro!: emit_rules)

lemma returns_first_under:
  "returns (first_under env rs c) s \<Longrightarrow>
     s = c \<and> (\<exists>r \<in> set rs. \<exists>t. be_resolve env r = Inr t \<and> path_under t c)"
  by (induction env rs c rule: first_under.induct) (auto dest!: returns_bind split: if_splits)

text \<open>Below one of the roots, all paths being resolved.\<close>

definition below :: "broker_env \<Rightarrow> string list \<Rightarrow> string \<Rightarrow> bool" where
  "below env roots s \<longleftrightarrow> (\<exists>r \<in> set roots. \<exists>t. be_resolve env r = Inr t \<and> path_under t s)"

lemma returns_safe_path:
  "returns (safe_path env roots raw) s \<Longrightarrow>
     be_resolve env (path_posix raw) = Inr s \<and> below env roots s"
  by (auto simp: safe_path_def below_def dest!: returns_bind returns_first_under split: if_splits)

lemma str_items_JStr: "list_all ok ss \<Longrightarrow> str_items ok (map JStr ss) = Some ss"
  by (induction ss) auto

lemma args_value_list: "map_of p ''args'' = Some (JList vs) \<Longrightarrow> args_value p = JList vs"
  by (simp add: args_value_def)

text \<open>A system whose tools are all installed, for examples.\<close>

definition demo_broker :: broker_env where
  "demo_broker = \<lparr>be_which = (\<lambda>name. Some (''/usr/sbin/'' @ name)), be_resolve = Inr,
     be_settings = Inr \<lparr>bs_data_dir = ''/var/lib/webnas'', bs_log_dir = ''/var/log/webnas'',
       bs_temp_dir = ''/var/tmp/webnas'', bs_services = [''grafana''], bs_allowed_roots = []\<rparr>,
     be_answer = (\<lambda>h e. Inr success), be_redact = (\<lambda>n s. s), be_str = (\<lambda>v. []),
     be_is_dir = (\<lambda>p. True), be_is_file = (\<lambda>p. True), be_modules_dir = ''/opt/webnas/app/modules'',
     be_python = ''/opt/webnas/venv/bin/python'', be_file_size = (\<lambda>p. 0), be_yaml = (\<lambda>p. None),
     be_account = (\<lambda>u. Some (1000, 1000)), be_group = (\<lambda>g. Some 1000), be_lstat = (\<lambda>h p. Inr (True, 1)),
     be_paths = demo_paths, be_service_user = ''webnas'', be_now_ms = 0,
     be_float = (\<lambda>r. [])\<rparr>"

end
