(* ===== verification/Broker_Account.thy ===== *)
theory Broker_Account
  imports Broker_Rules
begin

text \<open>
  The account policy, \<^verbatim>\<open>privileged_broker/account_policy.py\<close>, and the typed commands it
  stands for: a request either runs the rendering of one well-formed typed command, or nothing.
\<close>

section \<open>The policy\<close>

definition account_tools :: "string list" where
  "account_tools = [''useradd'', ''usermod'', ''userdel'', ''groupadd'', ''groupmod'', ''groupdel'',
     ''gpasswd'', ''chpasswd'', ''chage'', ''passwd'']"

definition safe_shells :: "string list" where
  "safe_shells =
     [''/bin/bash'', ''/bin/sh'', ''/bin/dash'', ''/bin/false'', ''/usr/bin/bash'', ''/usr/bin/sh'',
      ''/usr/bin/dash'', ''/usr/bin/zsh'', ''/usr/bin/fish'', ''/usr/bin/false'',
      ''/usr/sbin/nologin'', ''/sbin/nologin'']"

definition readable_user :: "string \<Rightarrow> string broker" where
  "readable_user v = step_bind (policy_token 64 ''user'' (Some (JStr v))) (\<lambda>u.
     if name_ok u then step_return u else deny ''invalid user name'')"

fun each_name :: "principal_kind \<Rightarrow> string list \<Rightarrow> unit broker" where
  "each_name kind [] = step_return ()"
| "each_name kind (n # ns) = step_then (policy_name kind n) (each_name kind ns)"

definition csv_names :: "principal_kind \<Rightarrow> string \<Rightarrow> unit broker" where
  "csv_names kind v =
     (if [] \<in> set (py_split CHR '','' v) then deny (''invalid '' @ kind_text kind @ '' list'')
      else each_name kind (py_split CHR '','' v))"

definition value_flags :: "string list" where
  "value_flags = [''--shell'', ''--comment'', ''--groups'']"

definition option_value :: "string \<Rightarrow> string \<Rightarrow> unit broker" where
  "option_value flag v = step_bind (policy_token 256 flag (Some (JStr v))) (\<lambda>w.
     if flag = ''--shell'' \<and> w \<notin> set safe_shells then deny ''unsupported login shell''
     else if flag = ''--groups'' then csv_names Kind_group w else step_return ())"

fun useradd_options :: "string list \<Rightarrow> unit broker" where
  "useradd_options [] = step_return ()"
| "useradd_options [flag] = (if flag \<in> {''--user-group'', ''--create-home''} then step_return ()
     else deny ''unsupported useradd option'')"
| "useradd_options (flag # v # rest) =
     (if flag \<in> {''--user-group'', ''--create-home''} then useradd_options (v # rest)
      else if flag \<in> set value_flags then step_then (option_value flag v) (useradd_options rest)
      else deny ''unsupported useradd option'')"

fun usermod_options :: "bool \<Rightarrow> string list \<Rightarrow> unit broker" where
  "usermod_options seen [] = step_return ()"
| "usermod_options seen [flag] =
     (if flag \<in> {''--lock'', ''--unlock''} then ensure (\<not> seen) ''conflicting user lock option''
      else if flag = ''--append'' then step_return () else deny ''unsupported usermod option'')"
| "usermod_options seen (flag # v # rest) =
     (if flag \<in> {''--lock'', ''--unlock''}
        then if seen then deny ''conflicting user lock option'' else usermod_options True (v # rest)
      else if flag = ''--append'' then usermod_options seen (v # rest)
      else if flag \<in> set value_flags then step_then (option_value flag v) (usermod_options seen rest)
      else deny ''unsupported usermod option'')"

definition run_tool ::
  "broker_env \<Rightarrow> string \<Rightarrow> string list \<Rightarrow> string option \<Rightarrow> real \<Rightarrow> command_result broker" where
  "run_tool env tool args input limit =
     step_bind (resolve_tool env tool) (\<lambda>exe. perform env (Ran (exe # args) input limit))"

definition one_line :: "string \<Rightarrow> bool" where
  "one_line s = (case py_splitlines s of [l] \<Rightarrow> True | _ \<Rightarrow> False)"

definition run_chpasswd :: "broker_env \<Rightarrow> string list \<Rightarrow> json option \<Rightarrow> command_result broker" where
  "run_chpasswd env args input =
     (case str_value input of None \<Rightarrow> deny ''chpasswd requires one credential record''
      | Some record_text \<Rightarrow>
        if args \<noteq> [] \<or> 4096 < int (length record_text) \<or> \<not> one_line record_text
          \<or> CHR '':'' \<notin> set record_text
        then deny ''chpasswd requires one credential record''
        else (case py_partition CHR '':'' (rstrip_char CHR 10 record_text) of (username, _, password) \<Rightarrow>
          step_then (policy_name Kind_user username)
            (if password = [] \<or> list_ex (\<lambda>c. c = CHR 13 \<or> c = CHR 10) password
             then deny ''invalid password''
             else run_tool env ''chpasswd'' [] (Some record_text) 60)))"

definition run_named :: "broker_env \<Rightarrow> string \<Rightarrow> string list \<Rightarrow> command_result broker" where
  "run_named env tool args =
     (if tool = ''useradd'' then
        if args = [] then deny ''useradd target is required''
        else step_bind (policy_name Kind_user (last args)) (\<lambda>u.
          step_then (useradd_options (butlast args)) (run_tool env tool (butlast args @ [u]) None 60))
      else if tool = ''usermod'' then
        if args = [] then deny ''usermod target is required''
        else step_bind (policy_name Kind_user (last args)) (\<lambda>u.
          step_then (usermod_options False (butlast args))
            (if butlast args = [] then deny ''usermod requires a change''
             else run_tool env tool (butlast args @ [u]) None 60))
      else if tool = ''userdel'' then
        (case args of
           [u] \<Rightarrow> step_then (policy_name Kind_user u) (run_tool env tool [u] None 60)
         | [f, u] \<Rightarrow> if f = ''--remove''
             then step_then (policy_name Kind_user u) (run_tool env tool [''--remove'', u] None 60)
             else deny ''unsupported userdel arguments''
         | _ \<Rightarrow> deny ''unsupported userdel arguments'')
      else if tool = ''chage'' then
        (case args of
           [f, d, u] \<Rightarrow> if f = ''-d'' \<and> d \<in> {''0'', ''-1''}
             then step_then (policy_name Kind_user u) (run_tool env tool [''-d'', d, u] None 60)
             else deny ''unsupported chage arguments''
         | _ \<Rightarrow> deny ''unsupported chage arguments'')
      else if tool = ''gpasswd'' then
        (case args of
           [f, u, g] \<Rightarrow> if f = ''--delete''
             then step_then (policy_name Kind_user u) (step_then (policy_name Kind_group g)
               (run_tool env tool [''--delete'', u, g] None 60))
             else deny ''unsupported gpasswd arguments''
         | _ \<Rightarrow> deny ''unsupported gpasswd arguments'')
      else if tool = ''groupadd'' then
        (case args of
           [g] \<Rightarrow> step_then (policy_name Kind_group g) (run_tool env tool [g] None 60)
         | [f, g] \<Rightarrow> if f = ''--system''
             then step_then (policy_name Kind_group g) (run_tool env tool [''--system'', g] None 60)
             else deny ''unsupported groupadd arguments''
         | _ \<Rightarrow> deny ''unsupported groupadd arguments'')
      else if tool = ''groupmod'' then
        (case args of
           [f, n, g] \<Rightarrow> if f = ''--new-name''
             then step_then (policy_name Kind_group n) (step_then (policy_name Kind_group g)
               (run_tool env tool [''--new-name'', n, g] None 60))
             else deny ''unsupported groupmod arguments''
         | _ \<Rightarrow> deny ''unsupported groupmod arguments'')
      else if tool = ''groupdel'' then
        (case args of
           [g] \<Rightarrow> step_then (policy_name Kind_group g) (run_tool env tool [g] None 60)
         | _ \<Rightarrow> deny ''unsupported groupdel arguments'')
      else deny ''account operation is not enabled'')"

definition asks_status :: "string list \<Rightarrow> string list \<Rightarrow> bool" where
  "asks_status flags args = (case args of [f, u] \<Rightarrow> f \<in> set flags | _ \<Rightarrow> False)"

definition run_account_tool ::
  "broker_env \<Rightarrow> string \<Rightarrow> string list \<Rightarrow> json option \<Rightarrow> command_result broker" where
  "run_account_tool env tool args input =
     (if tool = ''passwd'' \<and> input = None \<and> asks_status [''-S'', ''--status''] args
        then step_bind (readable_user (args ! 1)) (\<lambda>u. run_tool env ''passwd'' [''-S'', u] None 60)
      else if tool = ''chage'' \<and> input = None \<and> asks_status [''-l'', ''--list''] args
        then step_bind (readable_user (args ! 1)) (\<lambda>u. run_tool env ''chage'' [''-l'', u] None 60)
      else if tool = ''chpasswd'' then run_chpasswd env args input
      else if input \<noteq> None then deny ''stdin is not accepted for this account operation''
      else run_named env tool args)"

definition run_account :: "broker_env \<Rightarrow> payload \<Rightarrow> command_result broker" where
  "run_account env p =
     step_then (payload_keys [''tool'', ''args'', ''stdin''] p)
     (step_bind (policy_token 16 ''account tool'' (map_of p ''tool'')) (\<lambda>tool.
       case list_value (args_value p) of None \<Rightarrow> deny ''unsupported account operation''
       | Some vs \<Rightarrow> if tool \<notin> set account_tools \<or> 24 < length vs then deny ''unsupported account operation''
           else (case str_items (item_ok 512) vs of None \<Rightarrow> deny ''invalid account arguments''
             | Some args \<Rightarrow> run_account_tool env tool args (get_value p ''stdin''))))"

text \<open>\<^verbatim>\<open>text[-n:]\<close>.\<close>

definition last_chars :: "int \<Rightarrow> string \<Rightarrow> string" where
  "last_chars n s = drop (nat (int (length s) - n)) s"

definition dispatch_account :: "broker_env \<Rightarrow> broker_request \<Rightarrow> broker_response broker" where
  "dispatch_account env rq =
     (if bq_op rq \<noteq> Op_account
      then step_return (failure_response rq True ''unsupported account policy operation'')
      else respond rq (\<lambda>e. take 2000 (exn_message e)) (\<lambda>e. is_os_error e \<or> is_runtime_error e)
        (last_chars max_output) (run_account env (bq_payload rq)))"

lemma one_line_iff: "one_line s \<longleftrightarrow> (\<exists>l. py_splitlines s = [l])"
  by (auto simp: one_line_def split: list.splits)

lemma asks_status_iff: "asks_status flags args \<longleftrightarrow> (\<exists>f u. args = [f, u] \<and> f \<in> set flags)"
  by (auto simp: asks_status_def split: list.splits)

section \<open>Typed commands\<close>

datatype account_option =
    With_user_group | With_home | With_shell string | With_comment string
  | With_groups "string list" | With_append | With_lock bool

datatype account_command =
    Show_password string
  | Show_aging string
  | Set_password string string string
  | Create_user "account_option list" string
  | Change_user "account_option list" string
  | Delete_user bool string
  | Expire_password bool string
  | Leave_group string string
  | Create_group bool string
  | Rename_group string string
  | Delete_group string

fun option_words :: "account_option \<Rightarrow> string list" where
  "option_words With_user_group = [''--user-group'']"
| "option_words With_home = [''--create-home'']"
| "option_words (With_shell s) = [''--shell'', s]"
| "option_words (With_comment s) = [''--comment'', s]"
| "option_words (With_groups gs) = [''--groups'', py_join CHR '','' gs]"
| "option_words With_append = [''--append'']"
| "option_words (With_lock b) = [if b then ''--lock'' else ''--unlock'']"

fun command_tool :: "account_command \<Rightarrow> string" where
  "command_tool (Show_password u) = ''passwd''"
| "command_tool (Show_aging u) = ''chage''"
| "command_tool (Set_password u pw e) = ''chpasswd''"
| "command_tool (Create_user os u) = ''useradd''"
| "command_tool (Change_user os u) = ''usermod''"
| "command_tool (Delete_user r u) = ''userdel''"
| "command_tool (Expire_password b u) = ''chage''"
| "command_tool (Leave_group u g) = ''gpasswd''"
| "command_tool (Create_group b g) = ''groupadd''"
| "command_tool (Rename_group n g) = ''groupmod''"
| "command_tool (Delete_group g) = ''groupdel''"

fun command_words :: "account_command \<Rightarrow> string list" where
  "command_words (Show_password u) = [''-S'', u]"
| "command_words (Show_aging u) = [''-l'', u]"
| "command_words (Set_password u pw e) = []"
| "command_words (Create_user os u) = concat (map option_words os) @ [u]"
| "command_words (Change_user os u) = concat (map option_words os) @ [u]"
| "command_words (Delete_user r u) = (if r then [''--remove''] else []) @ [u]"
| "command_words (Expire_password b u) = [''-d'', if b then ''0'' else ''-1'', u]"
| "command_words (Leave_group u g) = [''--delete'', u, g]"
| "command_words (Create_group b g) = (if b then [''--system''] else []) @ [g]"
| "command_words (Rename_group n g) = [''--new-name'', n, g]"
| "command_words (Delete_group g) = [g]"

fun command_input :: "account_command \<Rightarrow> string option" where
  "command_input (Set_password u pw e) = Some (u @ '':'' @ pw @ e)"
| "command_input _ = None"

fun option_ok :: "account_option \<Rightarrow> bool" where
  "option_ok (With_shell s) = (s \<in> set safe_shells)"
| "option_ok (With_comment s) = token_ok 256 s"
| "option_ok (With_groups gs) =
     (gs \<noteq> [] \<and> list_all (name_allowed Kind_group) gs \<and> len_between 1 256 (py_join CHR '','' gs))"
| "option_ok _ = True"

fun create_option :: "account_option \<Rightarrow> bool" where
  "create_option With_append = False"
| "create_option (With_lock b) = False"
| "create_option _ = True"

fun change_option :: "account_option \<Rightarrow> bool" where
  "change_option With_user_group = False"
| "change_option With_home = False"
| "change_option _ = True"

definition locks :: "account_option list \<Rightarrow> nat" where
  "locks os = length (filter (\<lambda>x. x \<in> {With_lock True, With_lock False}) os)"

fun command_ok :: "account_command \<Rightarrow> bool" where
  "command_ok (Show_password u) = name_ok u"
| "command_ok (Show_aging u) = name_ok u"
| "command_ok (Set_password u pw e) =
     (name_allowed Kind_user u \<and> pw \<noteq> [] \<and> CHR 13 \<notin> set pw \<and> CHR 10 \<notin> set pw
      \<and> line_text (butlast pw) \<and> (e = [] \<or> e = [CHR 10] \<and> line_text pw)
      \<and> len_between 0 4096 (u @ '':'' @ pw @ e))"
| "command_ok (Create_user os u) =
     (name_allowed Kind_user u \<and> list_all option_ok os \<and> list_all create_option os)"
| "command_ok (Change_user os u) =
     (name_allowed Kind_user u \<and> os \<noteq> [] \<and> list_all option_ok os \<and> list_all change_option os
      \<and> locks os \<le> 1)"
| "command_ok (Delete_user r u) = name_allowed Kind_user u"
| "command_ok (Expire_password b u) = name_allowed Kind_user u"
| "command_ok (Leave_group u g) = (name_allowed Kind_user u \<and> name_allowed Kind_group g)"
| "command_ok (Create_group b g) = name_allowed Kind_group g"
| "command_ok (Rename_group n g) = (name_allowed Kind_group n \<and> name_allowed Kind_group g)"
| "command_ok (Delete_group g) = name_allowed Kind_group g"

section \<open>Requests and typed commands\<close>

text \<open>What an account request may cause: nothing, or one well-formed typed command.\<close>

definition account_effects :: "broker_env \<Rightarrow> host_effect list \<Rightarrow> bool" where
  "account_effects env es \<longleftrightarrow> es = [] \<or>
     (\<exists>c exe. command_ok c \<and> tool_path env (command_tool c) exe
        \<and> es = [Ran (exe # command_words c) (command_input c) 60])"

abbreviation account_step :: "broker_env \<Rightarrow> 'a broker \<Rightarrow> bool" where
  "account_step env \<equiv> emits (\<lambda>r es. account_effects env es)"

lemma account_effects_Nil [simp]: "account_effects env []"
  by (simp add: account_effects_def)

lemma account_deny [simp]: "account_step env (deny m)"
  by (simp add: emits_deny)

lemma account_bind:
  "quiet f \<Longrightarrow> (\<And>x. returns f x \<Longrightarrow> account_step env (g x)) \<Longrightarrow> account_step env (step_bind f g)"
  by (rule emits_bind) auto

lemma account_then:
  "quiet f \<Longrightarrow> ((\<exists>x. returns f x) \<Longrightarrow> account_step env g) \<Longrightarrow> account_step env (step_then f g)"
  by (rule emits_then) auto

lemma account_run:
  assumes "command_ok c" and "tool = command_tool c" and "args = command_words c"
    and "input = command_input c"
  shows "account_step env (run_tool env tool args input 60)"
  unfolding run_tool_def
proof (rule account_bind)
  show "quiet (resolve_tool env tool)" by (rule emit_rules)
  fix exe assume "returns (resolve_tool env tool) exe"
  then show "account_step env (perform env (Ran (exe # args) input 60))"
    using assms by (auto simp: account_effects_def tool_path_def intro!: emits_perform)
qed

lemma name_ok_chars:
  assumes "name_ok s"
  shows "s \<noteq> []" and "c \<in> set s \<Longrightarrow> char_in [(95, 95), (97, 122)] c \<or> is_digit c \<or> c = CHR ''-'' \<or> c = CHR ''$''"
proof -
  have "c \<in> set cs \<Longrightarrow> c \<in> set (butlast cs) \<or> c = last cs" for cs :: string
    by (cases cs rule: rev_cases) auto
  then show "c \<in> set s \<Longrightarrow> char_in [(95, 95), (97, 122)] c \<or> is_digit c \<or> c = CHR ''-'' \<or> c = CHR ''$''"
    using assms by (fastforce simp: name_ok_def list_all_iff Let_def split: list.splits if_splits)
  show "s \<noteq> []" using assms by (auto simp: name_ok_def)
qed

lemma name_no_comma:
  assumes "name_ok s"
  shows "CHR '','' \<notin> set s" "CHR '':'' \<notin> set s" "s \<noteq> []" "line_text s"
  using name_ok_chars [OF assms]
  by (fastforce simp: char_in_def is_digit_def line_text_def line_break_def list_ex_iff)+

lemma quiet_each_name [emit_rules]: "quiet (each_name kind ns)"
  by (induction ns) (auto intro!: emit_rules)

lemma returns_each_name [simp]: "returns (each_name kind ns) u \<longleftrightarrow> list_all (name_allowed kind) ns"
  by (induction ns) (auto simp: policy_name_alt)

lemma quiet_csv_names [emit_rules]: "quiet (csv_names kind v)"
  by (auto simp: csv_names_def intro!: emit_rules)

lemma returns_csv_names:
  "returns (csv_names kind v) u \<longleftrightarrow> list_all (name_allowed kind) (py_split CHR '','' v)"
  by (auto simp: csv_names_def list_all_iff name_allowed_def dest: name_no_comma)

lemma quiet_option_value [emit_rules]: "quiet (option_value flag v)"
  by (auto simp: option_value_def intro!: emit_rules)

lemma option_value_typed:
  assumes "returns (option_value flag v) u" and "flag \<in> set value_flags"
  shows "\<exists>x. option_ok x \<and> create_option x \<and> change_option x
    \<and> locks [x] = 0 \<and> option_words x = [flag, v]"
proof -
  have v: "token_ok 256 v" "flag = ''--shell'' \<Longrightarrow> v \<in> set safe_shells"
    "flag = ''--groups'' \<Longrightarrow> list_all (name_allowed Kind_group) (py_split CHR '','' v)"
    using assms(1) by (auto simp: option_value_def returns_csv_names dest!: returns_bind split: if_splits)
  consider "flag = ''--shell''" | "flag = ''--comment''" | "flag = ''--groups''"
    using assms(2) by (auto simp: value_flags_def)
  then show ?thesis
  proof cases
    case 1
    then show ?thesis using v by (intro exI [of _ "With_shell v"]) (simp add: locks_def)
  next
    case 2
    then show ?thesis using v by (intro exI [of _ "With_comment v"]) (simp add: locks_def)
  next
    case 3
    then show ?thesis using v
      by (intro exI [of _ "With_groups (py_split CHR '','' v)"]) (simp add: locks_def py_join_split token_ok_def)
  qed
qed

lemma useradd_options_step:
  "flag \<in> {''--user-group'', ''--create-home''} \<Longrightarrow> useradd_options (flag # ws) = useradd_options ws"
  by (cases ws) auto

lemma quiet_useradd_options [emit_rules]: "quiet (useradd_options ws)"
  by (induction ws rule: useradd_options.induct) (auto intro!: emit_rules)

lemma quiet_usermod_options [emit_rules]: "quiet (usermod_options seen ws)"
  by (induction seen ws rule: usermod_options.induct) (auto intro!: emit_rules)

lemma useradd_typed:
  "returns (useradd_options ws) u \<Longrightarrow>
     \<exists>os. ws = concat (map option_words os) \<and> list_all option_ok os \<and> list_all create_option os"
proof (induction ws rule: useradd_options.induct)
  case 1
  show ?case by (rule exI [of _ "[]"]) simp
next
  case (2 flag)
  then have "flag = ''--user-group'' \<or> flag = ''--create-home''" by (auto split: if_splits)
  then show ?case
    by (intro exI [of _ "[if flag = ''--user-group'' then With_user_group else With_home]"]) auto
next
  case (3 flag v rest)
  show ?case
  proof (cases "flag \<in> {''--user-group'', ''--create-home''}")
    case True
    then obtain os where os: "v # rest = concat (map option_words os)" "list_all option_ok os" "list_all create_option os"
      using 3 by (metis useradd_options.simps(3))
    then show ?thesis using True
      by (intro exI [of _ "(if flag = ''--user-group'' then With_user_group else With_home) # os"]) auto
  next
    case False
    then have val: "flag \<in> set value_flags" "returns (option_value flag v) ()" "returns (useradd_options rest) u"
      using "3.prems" by (auto split: if_splits dest: returns_then)
    obtain os where os: "rest = concat (map option_words os)" "list_all option_ok os" "list_all create_option os"
      using "3.IH"(2) [OF False val(1,3)] by blast
    obtain x where x: "option_ok x" "create_option x" "option_words x = [flag, v]"
      using option_value_typed [OF val(2,1)] by blast
    show ?thesis using os x by (intro exI [of _ "x # os"]) simp
  qed
qed

lemma locks_Cons: "locks (x # os) = locks [x] + locks os"
  by (simp add: locks_def)

lemma locks_lock [simp]: "locks [With_lock b] = 1" "locks [With_append] = 0" "locks [] = 0"
  by (cases b) (simp_all add: locks_def)

lemma usermod_typed:
  "returns (usermod_options seen ws) u \<Longrightarrow>
     \<exists>os. ws = concat (map option_words os) \<and> list_all option_ok os \<and> list_all change_option os
        \<and> locks os + (if seen then 1 else 0) \<le> 1"
proof (induction seen ws rule: usermod_options.induct)
  case (1 seen)
  show ?case by (rule exI [of _ "[]"]) simp
next
  case (2 seen flag)
  then consider "flag = ''--lock''" "\<not> seen" | "flag = ''--unlock''" "\<not> seen" | "flag = ''--append''"
    by (auto split: if_splits)
  then show ?case
    by cases (rule exI [of _ "[With_lock True]"], simp, rule exI [of _ "[With_lock False]"], simp,
        rule exI [of _ "[With_append]"], simp)
next
  case (3 seen flag v rest)
  consider (lock) "flag \<in> {''--lock'', ''--unlock''}" | (append) "flag = ''--append''"
    | (val) "flag \<notin> {''--lock'', ''--unlock''}" "flag \<noteq> ''--append''" by blast
  then show ?case
  proof cases
    case lock
    then have "\<not> seen" "returns (usermod_options True (v # rest)) u"
      using "3.prems" by (auto split: if_splits)
    then obtain os where os: "v # rest = concat (map option_words os)" "list_all option_ok os"
      "list_all change_option os" "locks os + 1 \<le> 1"
      using "3.IH"(1) lock by auto
    show ?thesis using os lock \<open>\<not> seen\<close>
      by (intro exI [of _ "With_lock (flag = ''--lock'') # os"]) (auto simp: locks_Cons [of _ os])
  next
    case append
    then have "returns (usermod_options seen (v # rest)) u"
      using "3.prems" by (auto split: if_splits)
    then obtain os where os: "v # rest = concat (map option_words os)" "list_all option_ok os"
      "list_all change_option os" "locks os + (if seen then 1 else 0) \<le> 1"
      using "3.IH"(2) append by auto
    show ?thesis using os append
      by (intro exI [of _ "With_append # os"]) (auto simp: locks_Cons [of _ os])
  next
    case val
    then have v: "flag \<in> set value_flags" "returns (option_value flag v) ()" "returns (usermod_options seen rest) u"
      using "3.prems" by (auto split: if_splits dest: returns_then)
    obtain os where os: "rest = concat (map option_words os)" "list_all option_ok os" "list_all change_option os"
      "locks os + (if seen then 1 else 0) \<le> 1"
      using "3.IH"(3) [OF val v(1,3)] by blast
    obtain x where x: "option_ok x" "change_option x" "option_words x = [flag, v]" "locks [x] = 0"
      using option_value_typed [OF v(2,1)] by blast
    show ?thesis using os x by (intro exI [of _ "x # os"]) (auto simp: locks_Cons [of _ os])
  qed
qed

lemma line_text_append: "line_text (s @ t) \<longleftrightarrow> line_text s \<and> line_text t"
  by (auto simp: line_text_def)

lemma line_text_no_feed: "line_text s \<Longrightarrow> CHR 10 \<notin> set s \<and> CHR 13 \<notin> set s"
  by (auto simp: line_text_def list_ex_iff line_break_def char_in_def)

lemma rstrip_text: "CHR 10 \<notin> set s \<Longrightarrow> rstrip_char CHR 10 s = s"
  by (rule rstrip_char_id) (metis last_in_set)

lemma rstrip_char_tail: "\<exists>t. s = rstrip_char c s @ t \<and> set t \<subseteq> {c}"
proof (intro exI conjI)
  show "s = rstrip_char c s @ rev (takeWhile (\<lambda>x. x = c) (rev s))"
    unfolding rstrip_char_def by (metis rev_append rev_rev_ident takeWhile_dropWhile_id)
  show "set (rev (takeWhile (\<lambda>x. x = c) (rev s))) \<subseteq> {c}" by (auto dest: set_takeWhileD)
qed

text \<open>A credential record that passes the checks.\<close>

lemma record_typed:
  assumes one: "py_splitlines s = [l]" and colon: "CHR '':'' \<in> set s"
    and part: "py_partition CHR '':'' (rstrip_char CHR 10 s) = (u, f, pw)"
    and name: "name_allowed Kind_user u" and pw: "pw \<noteq> []" "CHR 13 \<notin> set pw" "CHR 10 \<notin> set pw"
  shows "\<exists>e. s = u @ '':'' @ pw @ e \<and> line_text (butlast pw) \<and> (e = [] \<or> e = [CHR 10] \<and> line_text pw)"
proof -
  obtain t where t: "s = rstrip_char CHR 10 s @ t" "set t \<subseteq> {CHR 10}"
    using rstrip_char_tail by blast
  have "CHR '':'' \<notin> set t" using t(2) by auto
  moreover have "CHR '':'' \<in> set (rstrip_char CHR 10 s @ t)" using colon t(1) by simp
  ultimately have "CHR '':'' \<in> set (rstrip_char CHR 10 s)" by simp
  then have parts: "rstrip_char CHR 10 s = u @ CHR '':'' # pw" using partition_found [OF part] by simp
  obtain b where b: "s = l @ b" "line_text l"
    "b = [] \<or> (\<exists>x. b = [x] \<and> line_break x) \<or> b = [CHR 13, CHR 10]"
    using splitlines_one [of "[]" s l] one by (auto simp: py_splitlines_def)
  show ?thesis
  proof (cases "b = [] \<or> b = [CHR 10]")
    case True
    moreover have "l = [] \<or> last l \<noteq> CHR 10" using line_text_no_feed [OF b(2)] by (metis last_in_set)
    ultimately have "rstrip_char CHR 10 s = l"
      using b(1) line_text_no_feed [OF b(2)] by (auto simp: rstrip_text rstrip_char_snoc rstrip_char_snoc [of "[]", simplified])
    then have l: "l = u @ CHR '':'' # pw" using parts by simp
    then have "line_text pw" using b(2) line_text_append [of "u @ '':''" pw] by simp
    moreover have "line_text (butlast pw)"
      using calculation by (auto simp: line_text_def list_ex_iff dest: in_set_butlastD)
    ultimately show ?thesis using l b(1) True by (intro exI [of _ b]) auto
  next
    case False
    then consider x where "b = [x]" "x \<noteq> CHR 10" | "b = [CHR 13, CHR 10]" using b(3) by auto
    then show ?thesis
    proof cases
      case 1
      then have s: "l @ [x] = u @ CHR '':'' # pw"
        using parts b(1) rstrip_char_id [of s "CHR 10"] by simp
      then have "l = u @ CHR '':'' # butlast pw"
        using pw(1) by (cases pw rule: rev_cases) auto
      then have "line_text (butlast pw)" using b(2) line_text_append [of "u @ '':''" "butlast pw"] by simp
      then show ?thesis using s b(1) 1 by (intro exI [of _ "[]"]) simp
    next
      case 2
      then have "rstrip_char CHR 10 s = l @ [CHR 13]"
        using b(1) rstrip_char_snoc [of "l @ [CHR 13]" "CHR 10"] by simp
      then have "last pw = CHR 13" "pw \<noteq> []" using parts pw(1) by (metis append_is_Nil_conv last_ConsR last_appendR last_snoc list.distinct(1))+
      then show ?thesis using pw(2) by (metis last_in_set)
    qed
  qed
qed

lemma account_chpasswd: "account_step env (run_chpasswd env args input)"
proof (cases "str_value input")
  case (Some s)
  obtain u f pw where part: "py_partition CHR '':'' (rstrip_char CHR 10 s) = (u, f, pw)"
    by (cases "py_partition CHR '':'' (rstrip_char CHR 10 s)") auto
  show ?thesis
  proof (cases "args \<noteq> [] \<or> 4096 < int (length s) \<or> \<not> one_line s \<or> CHR '':'' \<notin> set s")
    case False
    then obtain l where one: "py_splitlines s = [l]" "CHR '':'' \<in> set s" "int (length s) \<le> 4096" by (auto simp: one_line_iff)
    have "account_step env (if pw = [] \<or> list_ex (\<lambda>c. c = CHR 13 \<or> c = CHR 10) pw
        then deny ''invalid password'' else run_tool env ''chpasswd'' [] (Some s) 60)"
      if name: "name_allowed Kind_user u"
    proof (cases "pw = [] \<or> list_ex (\<lambda>c. c = CHR 13 \<or> c = CHR 10) pw")
      case False
      then have pw: "pw \<noteq> []" "CHR 13 \<notin> set pw" "CHR 10 \<notin> set pw" by (auto simp: list_ex_iff)
      obtain e where e: "s = u @ '':'' @ pw @ e" "line_text (butlast pw)" "e = [] \<or> e = [CHR 10] \<and> line_text pw"
        using record_typed [OF one(1,2) part name pw] by blast
      then have "command_ok (Set_password u pw e)"
        using one(3) pw name by (simp add: len_between_def)
      then have "account_step env (run_tool env ''chpasswd'' [] (Some s) 60)"
        by (rule account_run) (simp_all add: e)
      then show ?thesis using False by simp
    qed simp
    then have "account_step env (step_then (policy_name Kind_user u)
        (if pw = [] \<or> list_ex (\<lambda>c. c = CHR 13 \<or> c = CHR 10) pw then deny ''invalid password''
         else run_tool env ''chpasswd'' [] (Some s) 60))"
      by (intro account_then emit_rules) auto
    then show ?thesis using False Some by (simp add: run_chpasswd_def part)
  qed (use Some in \<open>auto simp: run_chpasswd_def\<close>)
qed (simp add: run_chpasswd_def)

lemma account_useradd: "account_step env (step_bind (policy_name Kind_user u) (\<lambda>u.
    step_then (useradd_options os) (run_tool env tool (os @ [u]) None 60)))"
  if tool: "tool = ''useradd''"
proof (intro account_bind account_then emit_rules)
  fix v assume "returns (policy_name Kind_user u) v" "\<exists>x. returns (useradd_options os) x"
  then obtain xs where "name_allowed Kind_user v" "os = concat (map option_words xs)"
    "list_all option_ok xs" "list_all create_option xs" using useradd_typed by fastforce
  then show "account_step env (run_tool env tool (os @ [v]) None 60)"
    using tool by (intro account_run [of "Create_user xs v"]) simp_all
qed

lemma account_usermod: "account_step env (step_bind (policy_name Kind_user u) (\<lambda>u.
    step_then (usermod_options False os) (if os = [] then deny ''usermod requires a change''
      else run_tool env tool (os @ [u]) None 60)))"
  if tool: "tool = ''usermod''"
proof (intro account_bind account_then emit_rules)
  fix v assume v: "returns (policy_name Kind_user u) v" "\<exists>x. returns (usermod_options False os) x"
  show "account_step env (if os = [] then deny ''usermod requires a change''
      else run_tool env tool (os @ [v]) None 60)"
  proof (cases "os = []")
    case False
    obtain xs where "name_allowed Kind_user v" "os = concat (map option_words xs)"
      "list_all option_ok xs" "list_all change_option xs" "locks xs \<le> 1" using usermod_typed v by fastforce
    moreover from this have "xs \<noteq> []" using False by auto
    ultimately have "account_step env (run_tool env tool (os @ [v]) None 60)"
      using tool by (intro account_run [of "Change_user xs v"]) simp_all
    then show ?thesis using False by simp
  qed simp
qed

lemma account_one: "(name_allowed k n \<Longrightarrow> account_step env g) \<Longrightarrow> account_step env (step_then (policy_name k n) g)"
  by (intro account_then emit_rules) auto

lemma account_if:
  "(b \<Longrightarrow> account_step env f) \<Longrightarrow> (\<not> b \<Longrightarrow> account_step env g) \<Longrightarrow> account_step env (if b then f else g)"
  by simp

lemma account_list:
  "(args = [] \<Longrightarrow> account_step env f) \<Longrightarrow> (\<And>x xs. args = x # xs \<Longrightarrow> account_step env (g x xs))
     \<Longrightarrow> account_step env (case args of [] \<Rightarrow> f | x # xs \<Rightarrow> g x xs)"
  by (cases args) simp_all

lemmas account_runs =
  account_run [of "Delete_user False u" for u] account_run [of "Delete_user True u" for u]
  account_run [of "Expire_password True u" for u] account_run [of "Expire_password False u" for u]
  account_run [of "Leave_group u g" for u g] account_run [of "Create_group False g" for g]
  account_run [of "Create_group True g" for g] account_run [of "Rename_group n g" for n g]
  account_run [of "Delete_group g" for g]

lemma account_named: "account_step env (run_named env tool args)"
  unfolding run_named_def
  by (intro account_if account_list account_deny account_one account_useradd account_usermod;
      (elim conjE insertE emptyE)?; (assumption | rule account_runs; simp; fail)?)

lemma account_readable: "account_step env (step_bind (readable_user w) (\<lambda>u. run_tool env t (f u) None 60))"
  if "\<And>u. name_ok u \<Longrightarrow> account_step env (run_tool env t (f u) None 60)"
proof (rule account_bind)
  show "quiet (readable_user w)" by (auto simp: readable_user_def intro!: emit_rules)
  fix u assume "returns (readable_user w) u"
  then have "name_ok u" by (auto simp: readable_user_def dest!: returns_bind)
  then show "account_step env (run_tool env t (f u) None 60)" by (rule that)
qed

lemma account_tool: "account_step env (run_account_tool env tool args input)"
  unfolding run_account_tool_def
  by (intro account_if account_deny account_named account_chpasswd account_readable
      account_run [of "Show_password u" for u] account_run [of "Show_aging u" for u]; simp)

lemma account_sound: "account_step env (run_account env p)"
  unfolding run_account_def
  by (auto intro!: account_then account_bind emit_rules account_if account_tool split: option.splits)

section \<open>Every typed command is accepted\<close>

definition command_payload :: "account_command \<Rightarrow> payload" where
  "command_payload c = [(''tool'', JStr (command_tool c)), (''args'', JList (map JStr (command_words c)))]
     @ (case command_input c of None \<Rightarrow> [] | Some s \<Rightarrow> [(''stdin'', JStr s)])"

lemma policy_name_ok: "name_allowed kind s \<Longrightarrow> policy_name kind s = step_return s"
  by (simp add: policy_name_alt)

lemma policy_token_ok: "token_ok n s \<Longrightarrow> policy_token n l (Some (JStr s)) = step_return s"
  by (simp add: policy_token_def str_value_def)

lemma each_name_ok: "list_all (name_allowed kind) ns \<Longrightarrow> each_name kind ns = step_return ()"
  by (induction ns) (auto simp: policy_name_ok)

lemma allowed_name_ok: "name_allowed kind s \<Longrightarrow> name_ok s"
  by (simp add: name_allowed_def)

lemma name_ok_token: assumes "name_ok s" shows "token_ok 64 s"
proof -
  have "int (length s) \<le> 33"
  proof (cases s)
    case (Cons c cs)
    then show ?thesis using assms
      by (cases "cs \<noteq> [] \<and> last cs = CHR ''$''") (auto simp: name_ok_def len_between_def)
  qed simp
  moreover have "\<not> list_ex control s"
    using name_ok_chars(2) [OF assms] by (fastforce simp: list_ex_iff control_def char_in_def is_digit_def)
  ultimately show ?thesis using name_ok_chars(1) [OF assms] by (cases s) (simp_all add: token_ok_def len_between_def)
qed

lemma token_item: "token_ok n s \<Longrightarrow> n \<le> 512 \<Longrightarrow> item_ok 512 s"
  by (auto simp: token_ok_def item_ok_def len_between_def list_ex_iff control_def)

lemma name_item: "name_ok s \<Longrightarrow> item_ok 512 s"
  by (rule token_item [OF name_ok_token]) simp_all

lemma groups_token:
  assumes "list_all (name_allowed kind) gs" and "len_between 1 256 (py_join CHR '','' gs)"
  shows "token_ok 256 (py_join CHR '','' gs)"
proof -
  have "\<not> control x" if x: "x \<in> set (py_join CHR '','' gs)" for x
  proof (cases "x = CHR '',''")
    case False
    then obtain g where "g \<in> set gs" "x \<in> set g" using set_py_join [of "CHR '',''" gs] x by auto
    moreover from this have "token_ok 64 g"
      using assms(1) by (auto simp: list_all_iff intro: name_ok_token allowed_name_ok)
    ultimately show ?thesis by (auto simp: token_ok_def list_ex_iff)
  qed (simp add: control_def)
  then show ?thesis using assms(2) by (auto simp: token_ok_def list_ex_iff)
qed

lemma shell_token: "list_all (token_ok 256) safe_shells"
  by (simp add: safe_shells_def token_ok_def len_between_def control_def)

lemma option_value_ok:
  "s \<in> set safe_shells \<Longrightarrow> option_value ''--shell'' s = step_return ()"
  "token_ok 256 s \<Longrightarrow> option_value ''--comment'' s = step_return ()"
  "gs \<noteq> [] \<Longrightarrow> list_all (name_allowed Kind_group) gs \<Longrightarrow> len_between 1 256 (py_join CHR '','' gs) \<Longrightarrow>
     option_value ''--groups'' (py_join CHR '','' gs) = step_return ()"
proof -
  assume gs: "gs \<noteq> []" "list_all (name_allowed Kind_group) gs" "len_between 1 256 (py_join CHR '','' gs)"
  have "py_split CHR '','' (py_join CHR '','' gs) = gs"
    using gs by (intro py_split_join) (auto simp: list_all_iff dest: allowed_name_ok name_no_comma)
  moreover have "[] \<notin> set gs" using gs(2) by (auto simp: list_all_iff dest: allowed_name_ok name_no_comma)
  ultimately show "option_value ''--groups'' (py_join CHR '','' gs) = step_return ()"
    using gs by (simp add: option_value_def policy_token_ok groups_token csv_names_def each_name_ok)
next
  show "s \<in> set safe_shells \<Longrightarrow> option_value ''--shell'' s = step_return ()"
    using shell_token by (auto simp: option_value_def policy_token_ok list_all_iff)
qed (simp add: option_value_def policy_token_ok)

lemma useradd_options_typed:
  "list_all option_ok os \<Longrightarrow> list_all create_option os \<Longrightarrow>
     useradd_options (concat (map option_words os)) = step_return ()"
proof (induction os)
  case (Cons x os)
  then show ?case
    by (cases x) (auto simp: useradd_options_step option_value_ok value_flags_def)
qed simp

lemma usermod_options_step:
  "usermod_options seen (''--append'' # ws) = usermod_options seen ws"
  "flag \<in> {''--lock'', ''--unlock''} \<Longrightarrow> usermod_options False (flag # ws) = usermod_options True ws"
  by (cases ws; auto simp: ensure_def)+

lemma usermod_options_typed:
  "list_all option_ok os \<Longrightarrow> list_all change_option os \<Longrightarrow> locks os + (if seen then 1 else 0) \<le> 1 \<Longrightarrow>
     usermod_options seen (concat (map option_words os)) = step_return ()"
proof (induction os arbitrary: seen)
  case (Cons x os)
  note rest = locks_Cons [of x os]
  show ?case
  proof (cases x)
    case (With_lock b)
    then have "\<not> seen" using Cons.prems(3) rest by (cases seen) auto
    then show ?thesis using Cons With_lock rest by (simp add: usermod_options_step)
  qed (use Cons rest in \<open>auto simp: usermod_options_step option_value_ok value_flags_def locks_def\<close>)
qed simp

lemma record_ok:
  assumes "command_ok (Set_password u pw e)"
  shows "\<exists>l. py_splitlines (u @ CHR '':'' # pw @ e) = [l]"
    and "py_partition CHR '':'' (rstrip_char CHR 10 (u @ CHR '':'' # pw @ e)) = (u, True, pw)"
proof -
  have u: "CHR '':'' \<notin> set u" "line_text u" using assms by (auto dest: allowed_name_ok name_no_comma)
  have pw: "pw \<noteq> []" "CHR 10 \<notin> set pw" "line_text (butlast pw)" "e = [] \<or> e = [CHR 10] \<and> line_text pw"
    using assms by auto
  have colon: "line_text (CHR '':'' # m) \<longleftrightarrow> line_text m" for m
    by (simp add: line_text_def line_break_def char_in_def)
  have last: "last (u @ CHR '':'' # pw) \<noteq> CHR 10" using pw by (simp add: last_in_set) (metis last_in_set)
  show "\<exists>l. py_splitlines (u @ CHR '':'' # pw @ e) = [l]"
  proof (cases "e = []")
    case True
    have "line_text (u @ CHR '':'' # butlast pw)" using u pw by (simp add: line_text_append colon)
    moreover have "u @ CHR '':'' # pw @ e = (u @ CHR '':'' # butlast pw) @ [last pw]" using True pw by simp
    ultimately show ?thesis by (simp only: py_splitlines_def splitlines_text) simp
  next
    case False
    then have "line_text (u @ CHR '':'' # pw)" using u pw by (simp add: line_text_append colon)
    moreover have "u @ CHR '':'' # pw @ e = (u @ CHR '':'' # pw) @ [CHR 10]" using False pw by simp
    ultimately show ?thesis by (simp only: py_splitlines_def splitlines_text) (simp add: line_break_def char_in_def)
  qed
  have "rstrip_char CHR 10 (u @ CHR '':'' # pw @ e) = u @ CHR '':'' # pw"
  proof (cases "e = []")
    case True
    then show ?thesis using last rstrip_char_id [of "u @ CHR '':'' # pw" "CHR 10"] by simp
  next
    case False
    then show ?thesis using last pw rstrip_char_snoc [of "u @ CHR '':'' # pw" "CHR 10"] by simp
  qed
  then show "py_partition CHR '':'' (rstrip_char CHR 10 (u @ CHR '':'' # pw @ e)) = (u, True, pw)"
    using u by (simp add: partition_at)
qed

lemma account_words_ok: "command_ok c \<Longrightarrow> list_all (item_ok 512) (command_words c)"
proof -
  have opt: "option_ok x \<Longrightarrow> list_all (item_ok 512) (option_words x)" for x
  proof (cases x)
    case (With_groups gs)
    assume "option_ok x"
    then have "item_ok 512 (py_join CHR '','' gs)"
      using With_groups token_item [OF groups_token, of Kind_group gs] by simp
    then show ?thesis using With_groups by (simp add: item_ok_def)
  next
    case (With_shell s)
    assume "option_ok x"
    then have "token_ok 256 s" using With_shell shell_token by (simp add: list_all_iff)
    then show ?thesis using With_shell token_item [of 256 s] by (simp add: item_ok_def)
  qed (auto simp: item_ok_def dest: token_item [unfolded item_ok_def])
  have opts: "list_all option_ok os \<Longrightarrow> list_all (item_ok 512) (concat (map option_words os))" for os
    using opt by (induction os) auto
  show "command_ok c \<Longrightarrow> list_all (item_ok 512) (command_words c)"
    using opts by (cases c) (auto simp: name_item allowed_name_ok, simp_all add: item_ok_def)
qed

lemma run_tool_path: "tool_path env tool exe \<Longrightarrow> run_tool env tool args input t = perform env (Ran (exe # args) input t)"
  by (simp add: run_tool_def resolve_tool_path)

lemma account_tool_runs:
  assumes "command_ok c" and "tool_path env (command_tool c) exe"
  shows "run_account_tool env (command_tool c) (command_words c) (map_option JStr (command_input c))
    = perform env (Ran (exe # command_words c) (command_input c) 60)"
proof (cases c)
  case (Set_password u pw e)
  have len: "int (length (u @ CHR '':'' # pw @ e)) \<le> 4096" using assms Set_password by (simp add: len_between_def)
  have pw: "name_allowed Kind_user u" "pw \<noteq> []" "CHR 13 \<notin> set pw" "CHR 10 \<notin> set pw"
    using assms Set_password by auto
  note ok = record_ok [OF assms(1) [unfolded Set_password]]
  show ?thesis
    using Set_password ok len pw assms(2)
    by (auto simp: run_account_tool_def asks_status_iff run_chpasswd_def one_line_iff str_value_def policy_name_ok run_tool_path list_ex_iff)
next
  case (Change_user os u)
  then have "concat (map option_words os) \<noteq> []"
    using assms(1) by (cases os; cases "hd os") auto
  then show ?thesis using Change_user assms usermod_options_typed [of os False]
    by (auto simp: run_account_tool_def asks_status_iff run_named_def policy_name_ok run_tool_path)
qed (use assms in \<open>auto simp: run_account_tool_def asks_status_iff run_named_def policy_name_ok run_tool_path readable_user_def
    policy_token_ok name_ok_token useradd_options_typed\<close>)

lemma command_tool_known: "command_tool c \<in> set account_tools \<and> token_ok 16 (command_tool c)"
  by (cases c) (simp_all add: account_tools_def token_ok_def len_between_def control_def)

lemma account_complete:
  assumes "command_ok c" and "length (command_words c) \<le> 24" and "tool_path env (command_tool c) exe"
  shows "run_account env (command_payload c) = perform env (Ran (exe # command_words c) (command_input c) 60)"
proof -
  define p where "p = command_payload c"
  have "extra_keys p [''tool'', ''args'', ''stdin''] = []" "map_of p ''tool'' = Some (JStr (command_tool c))"
    "map_of p ''args'' = Some (JList (map JStr (command_words c)))"
    "get_value p ''stdin'' = map_option JStr (command_input c)"
    by (auto simp: p_def command_payload_def extra_keys_def get_value_def split: option.splits)
  then show ?thesis
    unfolding p_def [symmetric]
    using assms account_words_ok [OF assms(1)] command_tool_known [of c]
    by (simp add: run_account_def payload_keys_def ensure_def policy_token_ok args_value_list list_value_def
        str_items_JStr account_tool_runs)
qed

section \<open>Properties\<close>

text \<open>
  C3. Account requests are exactly the typed account commands. Whatever an account request holds,
  it causes nothing or runs the rendering of one well-formed command: it never names a protected
  user or group except to show its state, never an unlisted shell, a second credential record or
  both lock options. Conversely the request of every well-formed command of at most 24 words runs
  that command, when its tool is installed.
\<close>

theorem account_policy_exact:
  "(\<exists>es. snd (dispatch_account env rq h) = h @ es \<and> account_effects env es)
   \<and> (command_ok c \<and> length (command_words c) \<le> 24 \<and> tool_path env (command_tool c) exe
      \<and> bq_op rq = Op_account \<and> bq_payload rq = command_payload c \<longrightarrow>
        snd (dispatch_account env rq h) = h @ [Ran (exe # command_words c) (command_input c) 60])"
proof -
  have snd_respond: "snd (respond rq f g t m h) = snd (m h)" for f g t m
    by (simp add: respond_def split: prod.splits sum.splits)
  have "\<exists>es. snd (dispatch_account env rq h) = h @ es \<and> account_effects env es"
    using emitsD [OF account_sound [of env "bq_payload rq"], of h]
    by (cases "run_account env (bq_payload rq) h") (auto simp: dispatch_account_def snd_respond step_return_def)
  then show ?thesis
    using account_complete [of c env exe] by (auto simp: dispatch_account_def snd_respond perform_def)
qed

lemma demo_useradd: "tool_path demo_broker ''useradd'' ''/usr/sbin/useradd''"
  by (simp add: tool_path_def resolve_tool_def demo_broker_def path_name_def path_parent_def path_comps_def
      path_root_def path_text_def system_dirs_def)

theorem account_policy_exact_witness:
  "snd (dispatch_account demo_broker \<lparr>bq_id = [], bq_actor = ''admin'', bq_op = Op_account, bq_payload =
      [(''tool'', JStr ''useradd''), (''args'', JList [JStr ''--shell'', JStr ''/bin/sh'', JStr ''ann''])]\<rparr> [])
     = [Ran [''/usr/sbin/useradd'', ''--shell'', ''/bin/sh'', ''ann''] None 60]"
proof -
  have c: "command_ok (Create_user [With_shell ''/bin/sh''] ''ann'')"
    by (simp add: name_allowed_def name_ok_def char_in_def len_between_def safe_shells_def
        protected_users_def is_digit_def)
  define rq where "rq = \<lparr>bq_id = [], bq_actor = ''admin'', bq_op = Op_account, bq_payload =
      [(''tool'', JStr ''useradd''), (''args'', JList [JStr ''--shell'', JStr ''/bin/sh'', JStr ''ann''])]\<rparr>"
  have "bq_op rq = Op_account" "bq_payload rq = command_payload (Create_user [With_shell ''/bin/sh''] ''ann'')"
    by (simp_all add: rq_def command_payload_def)
  then show ?thesis
    using account_policy_exact [of demo_broker rq "[]" "Create_user [With_shell ''/bin/sh''] ''ann''"
        "''/usr/sbin/useradd''"] c demo_useradd
    unfolding rq_def by simp
qed

end
