(* ===== verification/Broker_Services.thy ===== *)
theory Broker_Services
  imports Broker_Rules
begin

text \<open>
  The policies of \<^verbatim>\<open>privileged_broker/extended_policy.py\<close>: ownership and modes below the
  data roots, quotas, packages, module hooks, Samba accounts, mounts and mount units. Its account,
  storage probe and update functions are superseded by policies of their own.
\<close>

section \<open>Ownership and quotas\<close>

definition filesystem_roots :: "broker_env \<Rightarrow> string list" where
  "filesystem_roots env = [''/home'', ''/mnt/webnas'']
     @ (case be_settings env of Inl e \<Rightarrow> [] | Inr c \<Rightarrow> [bs_data_dir c, bs_log_dir c, bs_temp_dir c])"

definition check_owner :: "string \<Rightarrow> string \<Rightarrow> unit broker" where
  "check_owner owner grp =
     step_then (if owner = [] then step_return [] else policy_name Kind_user owner)
       (if grp = [] then step_return () else step_then (policy_name Kind_group grp) (step_return ()))"

definition owner_spec :: "string \<Rightarrow> string \<Rightarrow> string" where
  "owner_spec owner grp = (if grp = [] then owner else owner @ '':'' @ grp)"

definition run_on_path ::
  "broker_env \<Rightarrow> string \<Rightarrow> (string \<Rightarrow> string list) \<Rightarrow> string \<Rightarrow> command_result broker" where
  "run_on_path env tool args path = step_bind (resolve_tool env tool) (\<lambda>exe.
     perform env (Ran (exe # args path) None 60))"

definition run_ownership :: "broker_env \<Rightarrow> payload \<Rightarrow> command_result broker" where
  "run_ownership env p =
     step_then (payload_keys [''action'', ''path'', ''owner'', ''group'', ''mode''] p)
     (step_bind (policy_token 16 ''filesystem action'' (map_of p ''action'')) (\<lambda>action.
      step_bind (policy_token 4096 ''path'' (map_of p ''path'')) (\<lambda>raw.
      step_bind (safe_path env (filesystem_roots env) raw) (\<lambda>path.
      let owner = str_or_empty env p ''owner''; grp = str_or_empty env p ''group'';
          give = run_on_path env ''chown'' (\<lambda>q. [owner_spec owner grp, q]) path
      in if action = ''mkdir'' then
           (case int_value (case map_of p ''mode'' of None \<Rightarrow> JInt 488 | Some v \<Rightarrow> v) of
              None \<Rightarrow> deny ''invalid directory mode''
            | Some mode \<Rightarrow> if mode < 448 \<or> 509 < mode then deny ''invalid directory mode''
                else step_then (perform env (Made_dir path mode)) (step_then (perform env (Set_mode path mode))
                  (if owner = [] \<and> grp = [] then step_return success
                   else step_then (check_owner owner grp) (step_bind give (\<lambda>r.
                     if cm_code r \<noteq> 0 then step_return r else step_return success)))))
         else if action = ''chmod'' then
           (case int_value (case map_of p ''mode'' of None \<Rightarrow> JNull | Some v \<Rightarrow> v) of
              None \<Rightarrow> deny ''invalid permission mode''
            | Some mode \<Rightarrow> if mode < 384 \<or> 509 < mode then deny ''invalid permission mode''
                else step_then (perform env (Set_mode path mode)) (step_return success))
         else if action = ''chown'' then
           if owner = [] \<and> grp = [] then deny ''owner or group is required''
           else step_then (check_owner owner grp) give
         else deny ''unsupported filesystem action''))))"

definition int_text :: "json \<Rightarrow> string" where
  "int_text v = (case v of JBool b \<Rightarrow> (if b then ''True'' else ''False'') | JInt i \<Rightarrow> show_int i | _ \<Rightarrow> [])"

definition quota_values :: "payload \<Rightarrow> (json \<times> json) option" where
  "quota_values p =
     (case (map_of p ''soft_blocks'', map_of p ''hard_blocks'') of
        (Some s, Some h) \<Rightarrow> (case (int_value s, int_value h) of
            (Some soft, Some hard) \<Rightarrow>
              if soft < 0 \<or> hard < soft \<or> 9223372036854775807 < hard then None else Some (s, h)
          | _ \<Rightarrow> None)
      | _ \<Rightarrow> None)"

definition run_quota :: "broker_env \<Rightarrow> payload \<Rightarrow> command_result broker" where
  "run_quota env p =
     step_then (payload_keys [''username'', ''soft_blocks'', ''hard_blocks'', ''mountpoint''] p)
     (step_bind (policy_token 512 ''username'' (map_of p ''username'')) (\<lambda>raw.
      step_bind (policy_name Kind_user raw) (\<lambda>user.
      case quota_values p of None \<Rightarrow> deny ''invalid quota''
      | Some (soft, hard) \<Rightarrow>
        step_bind (policy_token 4096 ''mountpoint'' (map_of p ''mountpoint'')) (\<lambda>point.
          if path_root point = [] \<or> ''..'' \<in> set (path_parts point)
            \<or> (case path_comps point of [] \<Rightarrow> False | c # cs \<Rightarrow> c \<in> {''proc'', ''sys'', ''dev''})
          then deny ''invalid quota mountpoint''
          else step_bind (resolve_tool env ''setquota'') (\<lambda>exe. perform env
            (Ran [exe, ''-u'', user, int_text soft, int_text hard, ''0'', ''0'', path_posix point] None 60))))))"

section \<open>Packages\<close>

definition package_tools :: "string list" where
  "package_tools = [''apt-get'', ''dnf'', ''yum'', ''zypper'', ''pacman'', ''apk'', ''dpkg'', ''rpm'']"

definition data_roots :: "broker_env \<Rightarrow> string list" where
  "data_roots env = (case be_settings env of Inl e \<Rightarrow> [] | Inr c \<Rightarrow> [bs_data_dir c])"

definition package_path :: "broker_env \<Rightarrow> string \<Rightarrow> string broker" where
  "package_path env = safe_path env ([''/run/webnas-package-center'', ''/var/lib/webnas''] @ data_roots env)"

definition package_token :: "string \<Rightarrow> string broker" where
  "package_token v = (if package_ok v then step_return v else deny ''invalid package token'')"

text \<open>Words after the operation: listed flags are kept, other flags refused, packages checked.\<close>

fun checked_words :: "string list \<Rightarrow> string \<Rightarrow> string list \<Rightarrow> string list broker" where
  "checked_words flags msg [] = step_return []"
| "checked_words flags msg (w # ws) =
     (if w \<in> set flags then step_bind (checked_words flags msg ws) (\<lambda>vs. step_return (w # vs))
      else if prefix ''-'' w then deny msg
      else step_bind (package_token w) (\<lambda>v.
        step_bind (checked_words flags msg ws) (\<lambda>vs. step_return (v # vs))))"

fun package_words :: "string list \<Rightarrow> string list broker" where
  "package_words [] = step_return []"
| "package_words (w # ws) = step_bind (package_token w) (\<lambda>v.
     step_bind (package_words ws) (\<lambda>vs. step_return (v # vs)))"

definition apt_option :: "broker_env \<Rightarrow> string \<Rightarrow> string broker" where
  "apt_option env opt =
     (if opt = ''Dpkg::Options::=--force-overwrite'' then step_return opt
      else (case strip_prefix ''Dir::Etc::sourcelist='' opt of
          Some v \<Rightarrow> step_bind (package_path env v) (\<lambda>q. step_return (''Dir::Etc::sourcelist='' @ q))
        | None \<Rightarrow> (case strip_prefix ''Dir::Etc::sourceparts='' opt of
              Some v \<Rightarrow> step_bind (package_path env v) (\<lambda>q. step_return (''Dir::Etc::sourceparts='' @ q))
            | None \<Rightarrow> deny ''unsupported apt option'')))"

fun apt_options :: "broker_env \<Rightarrow> string list \<Rightarrow> (string list \<times> string list) broker" where
  "apt_options env [] = step_return ([], [])"
| "apt_options env [w] = (if w = ''-o'' then deny ''incomplete apt option'' else step_return ([], [w]))"
| "apt_options env (w # v # ws) =
     (if w = ''-o'' then step_bind (apt_option env v) (\<lambda>opt. step_bind (apt_options env ws) (\<lambda>r.
        step_return (''-o'' # opt # fst r, snd r)))
      else step_return ([], w # v # ws))"

definition apt_words :: "broker_env \<Rightarrow> string list \<Rightarrow> string list broker" where
  "apt_words env args = step_bind (apt_options env args) (\<lambda>r.
     case snd r of [] \<Rightarrow> deny ''unsupported apt operation''
     | command # rest \<Rightarrow>
         if command \<notin> {''update'', ''install'', ''remove'', ''purge''} then deny ''unsupported apt operation''
         else if command = ''update'' then
           if rest \<noteq> [] then deny ''apt update does not accept extra arguments''
           else step_return (fst r @ [command])
         else step_bind (checked_words [''-y'', ''--reinstall'', ''--no-install-recommends'']
             ''unsupported apt flag'' rest) (\<lambda>vs.
           if list_all (prefix ''-'') rest then deny ''package list is required''
           else step_return (fst r @ command # vs)))"

definition operation_words ::
  "string list \<Rightarrow> string \<Rightarrow> (string list \<Rightarrow> string list broker) \<Rightarrow> string list \<Rightarrow> string list broker" where
  "operation_words commands msg check args =
     (case args of [] \<Rightarrow> deny msg
      | c # ws \<Rightarrow> if c \<notin> set commands then deny msg
          else step_bind (check ws) (\<lambda>vs. step_return (c # vs)))"

definition zypper_words :: "string list \<Rightarrow> string list broker" where
  "zypper_words args =
     (let plain = operation_words [''install'', ''remove''] ''unsupported zypper operation''
          (checked_words [''--force''] ''unsupported zypper flag'')
      in case args of
           w # ws \<Rightarrow> if w = ''--non-interactive'' then step_bind (plain ws) (\<lambda>vs. step_return (w # vs))
             else plain args
         | [] \<Rightarrow> plain [])"

definition file_words :: "broker_env \<Rightarrow> string \<Rightarrow> string \<Rightarrow> string list \<Rightarrow> string list broker" where
  "file_words env flag msg args = (case args of
       [f, v] \<Rightarrow> if f = flag then step_bind (package_path env v) (\<lambda>q. step_return [flag, q]) else deny msg
     | _ \<Rightarrow> deny msg)"

definition package_command :: "broker_env \<Rightarrow> string \<Rightarrow> string list \<Rightarrow> string list broker" where
  "package_command env tool args =
     (if tool = ''apt-get'' then apt_words env args
      else if tool \<in> {''dnf'', ''yum''} then operation_words [''install'', ''reinstall'', ''remove'']
        ''unsupported rpm package operation'' (checked_words [''-y''] ''unsupported package flag'') args
      else if tool = ''zypper'' then zypper_words args
      else if tool = ''pacman'' then operation_words [''-S'', ''-R''] ''unsupported pacman operation''
        (checked_words [''--noconfirm'', ''--needed''] ''unsupported pacman flag'') args
      else if tool = ''apk'' then operation_words [''add'', ''del'', ''fix''] ''unsupported apk operation''
        package_words args
      else if tool = ''dpkg'' then file_words env ''--install'' ''unsupported dpkg operation'' args
      else if tool = ''rpm'' then file_words env ''-Uvh'' ''unsupported rpm operation'' args
      else deny ''package operation is not enabled'')"

definition run_package :: "broker_env \<Rightarrow> payload \<Rightarrow> command_result broker" where
  "run_package env p =
     step_then (payload_keys [''tool'', ''args'', ''timeout''] p)
     (step_bind (policy_token 16 ''package manager'' (map_of p ''tool'')) (\<lambda>tool.
      case list_value (args_value p) of None \<Rightarrow> deny ''unsupported package manager''
      | Some vs \<Rightarrow> if tool \<notin> set package_tools \<or> 256 < length vs then deny ''unsupported package manager''
          else (case str_items (item_ok 4096) vs of None \<Rightarrow> deny ''invalid package arguments''
            | Some args \<Rightarrow> (case timeout_value p 1800 3600 of None \<Rightarrow> deny ''invalid package timeout''
                | Some limit \<Rightarrow> step_bind (package_command env tool args) (\<lambda>ws.
                    step_bind (resolve_tool env tool) (\<lambda>exe. perform env (Ran (exe # ws) None limit)))))))"

section \<open>Module hooks\<close>

definition hook_module_ok :: "string \<Rightarrow> bool" where
  "hook_module_ok s = (case s of [] \<Rightarrow> False
     | c # cs \<Rightarrow> char_in [(48, 57), (97, 122)] c \<and> len_between 0 63 cs
         \<and> list_all (\<lambda>x. char_in [(48, 57), (97, 122)] x \<or> x \<in> set ''._-'') cs)"

text \<open>The identifier \<^verbatim>\<open>package_center/models.py\<close> accepts.\<close>

definition module_id_ok :: "string \<Rightarrow> bool" where
  "module_id_ok s = (case s of [] \<Rightarrow> False
     | c # cs \<Rightarrow> char_in [(97, 122)] c \<and> len_between 1 63 cs
         \<and> list_all (\<lambda>x. char_in [(48, 57), (97, 122)] x \<or> x \<in> set ''_-'') cs)"

definition module_directory :: "broker_env \<Rightarrow> string \<Rightarrow> string broker" where
  "module_directory env i =
     (if \<not> module_id_ok i then step_raise (HTTPException 400 ''Invalid module identifier'')
      else step_bind (step_res (be_resolve env (be_modules_dir env))) (\<lambda>top.
        step_bind (step_res (be_resolve env (top @ ''/'' @ i))) (\<lambda>candidate.
        if \<not> path_under top candidate
          then step_raise (HTTPException 400 ''Module path escapes the module directory'')
        else if \<not> be_is_dir env candidate then step_raise (HTTPException 404 ''Module not found'')
        else step_return candidate)))"

definition hook_actions :: "string list" where
  "hook_actions = [''prepare'', ''install'', ''update'', ''uninstall'', ''rollback'', ''health'']"

fun first_script :: "broker_env \<Rightarrow> string \<Rightarrow> string list \<Rightarrow> string option broker" where
  "first_script env base [] = step_return None"
| "first_script env base (ext # exts) =
     step_bind (step_res (be_resolve env (base @ ext))) (\<lambda>candidate.
     step_bind (step_res (be_resolve env (path_parent base))) (\<lambda>top.
     if \<not> path_under top candidate then step_raise (HTTPException 422 ''Module script escapes its directory'')
     else if be_is_file env candidate then step_return (Some candidate)
     else first_script env base exts))"

definition module_script :: "broker_env \<Rightarrow> string \<Rightarrow> string \<Rightarrow> string option broker" where
  "module_script env i action =
     (if action \<notin> set hook_actions then step_raise (HTTPException 400 ''Unsupported module script action'')
      else step_bind (module_directory env i) (\<lambda>directory.
        first_script env (directory @ ''/'' @ action) [''.py'', ''.sh'']))"

definition run_module_hook :: "broker_env \<Rightarrow> payload \<Rightarrow> command_result broker" where
  "run_module_hook env p =
     step_then (payload_keys [''module_id'', ''action''] p)
     (step_bind (policy_token 64 ''module id'' (map_of p ''module_id'')) (\<lambda>i.
      step_bind (policy_token 16 ''hook action'' (map_of p ''action'')) (\<lambda>action.
      if \<not> hook_module_ok i \<or> action \<notin> set hook_actions then deny ''unsupported module hook''
      else step_bind (module_script env i action) (\<lambda>script.
        case script of None \<Rightarrow> step_return success
        | Some s \<Rightarrow> step_bind (step_res (be_resolve env s)) (\<lambda>resolved.
            step_bind (step_res (be_resolve env (be_modules_dir env))) (\<lambda>top.
            if \<not> path_under top resolved \<or> path_suffix resolved \<notin> {''.py'', ''.sh''}
              then deny ''module hook resolved outside the trusted module tree''
            else step_bind (if path_suffix resolved = ''.py'' then step_return (be_python env)
                            else resolve_tool env ''bash'') (\<lambda>exe.
              perform env (Ran [exe, resolved] None
                (if action \<in> {''prepare'', ''rollback'', ''health''} then 1800 else 300)))))))))"

section \<open>Samba accounts\<close>

definition run_samba_account :: "broker_env \<Rightarrow> payload \<Rightarrow> command_result broker" where
  "run_samba_account env p =
     step_then (payload_keys [''action'', ''username'', ''password''] p)
     (step_bind (policy_token 16 ''Samba account action'' (map_of p ''action'')) (\<lambda>action.
      step_bind (policy_token 64 ''username'' (map_of p ''username'')) (\<lambda>raw.
      step_bind (policy_name Kind_user raw) (\<lambda>user.
      step_bind (resolve_tool env ''smbpasswd'') (\<lambda>exe.
      if action = ''set'' then
        (case str_value (map_of p ''password'') of None \<Rightarrow> deny ''invalid Samba password''
         | Some pw \<Rightarrow> if pw = [] \<or> 1024 < int (length pw) \<or> list_ex (\<lambda>c. c = CHR 13 \<or> c = CHR 10) pw
             then deny ''invalid Samba password''
             else perform env (Ran [exe, ''-s'', ''-a'', user] (Some (pw @ [CHR 10] @ pw @ [CHR 10])) 60))
      else if action = ''enable'' then perform env (Ran [exe, ''-e'', user] None 60)
      else if action = ''disable'' then perform env (Ran [exe, ''-d'', user] None 60)
      else deny ''unsupported Samba account action'')))))"

section \<open>Mounts\<close>

definition mount_root :: "broker_env \<Rightarrow> bool \<Rightarrow> string \<Rightarrow> string broker" where
  "mount_root env allow_home path = safe_path env (''/mnt/webnas'' # (if allow_home then [''/home''] else [])) path"

definition simple_options :: "string list" where
  "simple_options =
     [''nosuid'', ''nodev'', ''_netdev'', ''nofail'', ''ro'', ''rw'', ''noexec'', ''async'', ''atime'',
      ''dirsync'', ''hard'', ''intr'', ''noac'', ''noatime'', ''nodiratime'', ''noserverino'',
      ''serverino'', ''soft'', ''sync'', ''guest'', ''forceuid'', ''forcegid'', ''allow_other'',
      ''default_permissions'']"

definition mount_option_keys :: "string list" where
  "mount_option_keys =
     [''nosuid'', ''nodev'', ''_netdev'', ''nofail'', ''ro'', ''rw'', ''noexec'', ''ac'', ''actimeo'',
      ''async'', ''atime'', ''cache'', ''dirsync'', ''hard'', ''intr'', ''iocharset'', ''lookupcache'',
      ''noac'', ''noatime'', ''nodiratime'', ''noserverino'', ''retrans'', ''rsize'', ''serverino'',
      ''soft'', ''sync'', ''timeo'', ''wsize'', ''credentials'', ''username'', ''password'', ''domain'',
      ''guest'', ''file_mode'', ''dir_mode'', ''vers'', ''uid'', ''gid'', ''forceuid'', ''forcegid'',
      ''ServerAliveInterval'', ''StrictHostKeyChecking'', ''port'', ''allow_other'',
      ''default_permissions'', ''conf'']"

definition numeric_options :: "string list" where
  "numeric_options = [''uid'', ''gid'', ''port'', ''file_mode'', ''dir_mode'', ''ServerAliveInterval'',
     ''timeo'', ''retrans'', ''rsize'', ''wsize'', ''actimeo'']"

definition option_text_ok :: "string \<Rightarrow> bool" where
  "option_text_ok s \<longleftrightarrow> len_between 0 512 s \<and> list_all (\<lambda>c. word_char c \<or> c \<in> set ''.:/@+ -'') s"

definition mount_option :: "broker_env \<Rightarrow> string \<Rightarrow> string broker" where
  "mount_option env opt =
     (if \<not> token_ok 4096 opt then deny ''invalid mount option''
      else (case py_partition CHR ''='' opt of (key, sep, v) \<Rightarrow>
        if key \<notin> set mount_option_keys then deny ''unsupported mount option''
        else if \<not> sep then
          if key \<notin> set simple_options then deny ''mount option requires a value'' else step_return key
        else if key \<in> {''credentials'', ''conf''} then
          step_bind (safe_path env (''/var/lib/webnas'' # data_roots env) v) (\<lambda>q. step_return (key @ ''='' @ q))
        else if key \<in> set numeric_options then
          if len_between 1 12 v \<and> list_all is_digit v then step_return opt else deny ''invalid numeric mount option''
        else if key = ''StrictHostKeyChecking'' then
          if v = ''accept-new'' then step_return opt else deny ''unsupported SSH host-key policy''
        else if key = ''password'' then
          if v = [] then step_return opt else deny ''inline mount passwords are forbidden''
        else if option_text_ok v then step_return opt else deny ''invalid mount option value''))"

fun mount_options :: "broker_env \<Rightarrow> string list \<Rightarrow> string list broker" where
  "mount_options env [] = step_return []"
| "mount_options env (w # ws) = step_bind (mount_option env w) (\<lambda>v.
     step_bind (mount_options env ws) (\<lambda>vs. step_return (v # vs)))"

definition validated_mount_options :: "broker_env \<Rightarrow> string \<Rightarrow> string broker" where
  "validated_mount_options env raw =
     (if 16384 < int (length raw) then deny ''invalid mount option list''
      else step_bind (mount_options env (filter (\<lambda>w. w \<noteq> []) (py_split CHR '','' raw))) (\<lambda>opts.
        if ''nosuid'' \<notin> set opts \<or> ''nodev'' \<notin> set opts
        then deny ''mandatory mount safety options are missing''
        else step_return (py_join CHR '','' opts)))"

definition mount_words :: "broker_env \<Rightarrow> string \<Rightarrow> string list \<Rightarrow> string list broker" where
  "mount_words env tool args =
     (if tool = ''umount'' then
        (case args of [t] \<Rightarrow> step_bind (mount_root env True t) (\<lambda>q. step_return [q])
         | _ \<Rightarrow> deny ''unsupported umount arguments'')
      else if tool = ''mount'' then
        (case args of [f, fs, f', opts, remote, t] \<Rightarrow>
            if f \<noteq> ''-t'' \<or> f' \<noteq> ''-o'' \<or> fs \<notin> {''cifs'', ''nfs'', ''davfs''} then deny ''unsupported mount command''
            else step_bind (validated_mount_options env opts) (\<lambda>os.
              step_bind (policy_token 4096 ''mount remote'' (Some (JStr remote))) (\<lambda>r.
              step_bind (mount_root env False t) (\<lambda>q. step_return [''-t'', fs, ''-o'', os, r, q])))
         | _ \<Rightarrow> deny ''unsupported mount command'')
      else if tool = ''sshfs'' then
        (case args of [remote, t, f, opts] \<Rightarrow>
            if f \<noteq> ''-o'' then deny ''unsupported sshfs command''
            else step_bind (policy_token 4096 ''SSHFS remote'' (Some (JStr remote))) (\<lambda>r.
              step_bind (mount_root env False t) (\<lambda>q.
              step_bind (validated_mount_options env opts) (\<lambda>os. step_return [r, q, ''-o'', os])))
         | _ \<Rightarrow> deny ''unsupported sshfs command'')
      else deny ''unsupported mount tool'')"

definition run_mount :: "broker_env \<Rightarrow> payload \<Rightarrow> command_result broker" where
  "run_mount env p =
     step_then (payload_keys [''tool'', ''args'', ''timeout''] p)
     (step_bind (policy_token 16 ''mount tool'' (map_of p ''tool'')) (\<lambda>tool.
      case list_value (args_value p) of None \<Rightarrow> deny ''invalid mount arguments''
      | Some vs \<Rightarrow> (case str_items (item_ok 16384) vs of None \<Rightarrow> deny ''invalid mount arguments''
          | Some args \<Rightarrow> (case timeout_value p 180 300 of None \<Rightarrow> deny ''invalid mount timeout''
              | Some limit \<Rightarrow> step_bind (mount_words env tool args) (\<lambda>ws.
                  step_bind (resolve_tool env tool) (\<lambda>exe. perform env (Ran (exe # ws) None limit)))))))"

section \<open>Mount units\<close>

definition unit_stem_char :: "char \<Rightarrow> bool" where
  "unit_stem_char c \<longleftrightarrow> word_char c \<or> c \<in> set ''.-'' \<or> c = CHR 92"

definition mount_unit_name :: "string \<Rightarrow> bool" where
  "mount_unit_name s \<longleftrightarrow>
     list_ex (\<lambda>ext. suffix ext s \<and> len_between 1 240 (take (length s - length ext) s)
       \<and> list_all unit_stem_char (take (length s - length ext) s)) [''.mount'', ''.automount'']"

definition systemd_escape :: "broker_env \<Rightarrow> string \<Rightarrow> string \<Rightarrow> string broker" where
  "systemd_escape env path kind =
     step_bind (resolve_tool env ''systemd-escape'') (\<lambda>exe.
     step_bind (perform env (Ran [exe, ''--path'', ''--suffix='' @ kind, path] None 15)) (\<lambda>r.
     if cm_code r \<noteq> 0 then deny ''systemd-escape failed''
     else if mount_unit_name (py_strip (cm_out r)) then step_return (py_strip (cm_out r))
     else deny ''invalid generated mount unit name''))"

definition unit_path :: "string \<Rightarrow> string" where
  "unit_path name = ''/etc/systemd/system/'' @ name"

definition unlines_unit :: "string list \<Rightarrow> string" where
  "unlines_unit ls = join_with [CHR 10] (ls @ [[]])"

definition mount_unit_text :: "string \<Rightarrow> string \<Rightarrow> string \<Rightarrow> string \<Rightarrow> string" where
  "mount_unit_text remote point fs opts = unlines_unit
     [''[Unit]'', ''Description=WebNAS network mount'', ''After=network-online.target'',
      ''Wants=network-online.target'', [], ''[Mount]'', ''What='' @ remote, ''Where='' @ point,
      ''Type='' @ fs, ''Options='' @ opts, ''TimeoutSec=120'', [], ''[Install]'',
      ''WantedBy=multi-user.target'']"

definition automount_unit_text :: "string \<Rightarrow> string" where
  "automount_unit_text point = unlines_unit
     [''[Unit]'', ''Description=WebNAS network automount'', ''After=network-online.target'', [],
      ''[Automount]'', ''Where='' @ point, ''TimeoutIdleSec=300'', [], ''[Install]'',
      ''WantedBy=multi-user.target'']"

fun remove_units :: "broker_env \<Rightarrow> string \<Rightarrow> string list \<Rightarrow> unit broker" where
  "remove_units env systemctl [] = step_return ()"
| "remove_units env systemctl (n # ns) =
     (if mount_unit_name n then
        step_then (perform env (Ran [systemctl, ''disable'', ''--now'', n] None 60))
          (step_then (perform env (Removed (unit_path n))) (remove_units env systemctl ns))
      else remove_units env systemctl ns)"

definition mount_id_ok :: "string \<Rightarrow> bool" where
  "mount_id_ok s \<longleftrightarrow> len_between 32 32 s \<and> list_all lower_hex s"

definition write_mount_unit ::
  "broker_env \<Rightarrow> string \<Rightarrow> string \<Rightarrow> string \<Rightarrow> string \<Rightarrow> string \<Rightarrow> bool \<Rightarrow> command_result broker" where
  "write_mount_unit env systemctl point mount_name automount_name content auto =
     step_then (perform env (Installed (unit_path mount_name) content 420))
     (step_then (perform env (if auto
         then Installed (unit_path automount_name) (automount_unit_text point) 420
         else Removed (unit_path automount_name)))
     (step_bind (perform env (Ran [systemctl, ''daemon-reload''] None 60)) (\<lambda>r.
      if cm_code r \<noteq> 0 then step_return r
      else perform env (Ran [systemctl, ''enable'', if auto then automount_name else mount_name] None 60))))"

definition automount_value :: "payload \<Rightarrow> bool option" where
  "automount_value p = (case map_of p ''automount'' of Some (JBool b) \<Rightarrow> Some b | _ \<Rightarrow> None)"

definition apply_mount_unit ::
  "broker_env \<Rightarrow> payload \<Rightarrow> string \<Rightarrow> string \<Rightarrow> string \<Rightarrow> string \<Rightarrow> command_result broker" where
  "apply_mount_unit env p systemctl point mount_name automount_name =
     step_bind (policy_token 4096 ''mount remote'' (map_of p ''remote'')) (\<lambda>remote.
     step_bind (policy_token 32 ''filesystem type'' (map_of p ''fs_type'')) (\<lambda>fs.
     if fs \<notin> {''cifs'', ''nfs'', ''davfs'', ''fuse.sshfs''} then deny ''unsupported mount filesystem''
     else step_bind (policy_token 16384 ''mount options'' (map_of p ''options'')) (\<lambda>raw.
       step_bind (validated_mount_options env raw) (\<lambda>opts.
       case automount_value p of None \<Rightarrow> deny ''invalid automount flag''
       | Some auto \<Rightarrow> write_mount_unit env systemctl point mount_name automount_name
           (mount_unit_text remote point fs opts) auto))))"

definition run_mount_unit :: "broker_env \<Rightarrow> payload \<Rightarrow> command_result broker" where
  "run_mount_unit env p =
     step_then (payload_keys [''action'', ''mount_id'', ''mount_point'', ''remote'', ''fs_type'',
       ''options'', ''automount''] p)
     (step_bind (policy_token 16 ''mount unit action'' (map_of p ''action'')) (\<lambda>action.
      step_bind (policy_token 32 ''mount id'' (map_of p ''mount_id'')) (\<lambda>i.
      if \<not> mount_id_ok i then deny ''invalid mount id''
      else step_bind (policy_token 4096 ''mount point'' (map_of p ''mount_point'')) (\<lambda>raw.
        step_bind (mount_root env True raw) (\<lambda>point.
        step_bind (systemd_escape env point ''mount'') (\<lambda>mount_name.
        step_bind (systemd_escape env point ''automount'') (\<lambda>automount_name.
        step_then (perform env (Made_dir ''/etc/systemd/system'' 511))
        (step_bind (resolve_tool env ''systemctl'') (\<lambda>systemctl.
          if action = ''remove'' then
            step_then (remove_units env systemctl
                [mount_name, automount_name, ''webnas-mount-'' @ i @ ''.mount'', ''webnas-mount-'' @ i @ ''.automount''])
              (perform env (Ran [systemctl, ''daemon-reload''] None 60))
          else if action \<noteq> ''apply'' then deny ''unsupported mount unit action''
          else apply_mount_unit env p systemctl point mount_name automount_name)))))))))"

end
