(* ===== verification/Broker_Devices.thy ===== *)
theory Broker_Devices
  imports Broker_Rules
begin

text \<open>
  Storage probes and the dpkg repair of \<^verbatim>\<open>storage_policy.py\<close> with the rules of
  \<^verbatim>\<open>storage_probe_rules.py\<close>, the firewall commands of \<^verbatim>\<open>firewall_policy.py\<close>
  and the graceful stop of \<^verbatim>\<open>docker_stop_policy.py\<close>.
\<close>

section \<open>Storage probes\<close>

definition probe_tools :: "string list" where
  "probe_tools = [''smartctl'', ''nvme'', ''pvs'', ''vgs'', ''lvs'', ''swapon'', ''zpool'', ''zfs'', ''btrfs'']"

definition report_args :: "string \<Rightarrow> string list" where
  "report_args columns = [''--reportformat'', ''json'', ''--units'', ''b'', ''--nosuffix'', ''-o'', columns]"

definition pvs_args :: "string list" where
  "pvs_args = report_args ''pv_name,vg_name,pv_size,pv_free,pv_attr''"

definition vgs_args :: "string list" where
  "vgs_args = report_args ''vg_name,vg_size,vg_free,pv_count,lv_count,vg_attr''"

definition lvs_args :: "string list" where
  "lvs_args = report_args
     ''lv_name,vg_name,lv_path,lv_size,lv_attr,pool_lv,origin,data_percent,metadata_percent''"

definition swapon_args :: "string list" where
  "swapon_args = [''--show'', ''--bytes'', ''--noheadings'', ''--raw'', ''--output'', ''NAME,TYPE,SIZE,USED,PRIO'']"

definition zpool_list_args :: "string list" where
  "zpool_list_args = [''list'', ''-H'', ''-p'', ''-o'', ''name,health,size,alloc,free'']"

definition zfs_list_args :: "string list" where
  "zfs_list_args = [''list'', ''-H'', ''-p'', ''-o'', ''name,type,used,avail,refer,mountpoint'']"

definition safe_device_path :: "string \<Rightarrow> bool" where
  "safe_device_path s \<longleftrightarrow> int (length s) \<le> 256
     \<and> (case strip_prefix ''/dev/'' s of None \<Rightarrow> False
        | Some r \<Rightarrow> r \<noteq> [] \<and> list_all (\<lambda>c. word_char c \<or> c \<in> set ''./+:-'') r)
     \<and> (case path_parts s of r # d # e # es \<Rightarrow> d = ''dev'' | _ \<Rightarrow> False)
     \<and> ''..'' \<notin> set (path_parts s)"

definition safe_mount_path :: "string \<Rightarrow> bool" where
  "safe_mount_path s \<longleftrightarrow> prefix ''/'' s \<and> int (length s) \<le> 4096 \<and> \<not> list_ex control s
     \<and> ''..'' \<notin> set (path_parts s)"

definition pool_ok :: "string \<Rightarrow> bool" where
  "pool_ok s = (case s of [] \<Rightarrow> False
     | c # cs \<Rightarrow> (ascii_letter c \<or> is_digit c) \<and> len_between 0 127 cs
         \<and> list_all (\<lambda>x. word_char x \<or> x \<in> set ''.:-'') cs)"

definition btrfs_commands :: "string list list" where
  "btrfs_commands = [[''device'', ''stats'', ''-c''], [''filesystem'', ''show'', ''--raw''],
     [''filesystem'', ''usage'', ''-b''], [''scrub'', ''status'', ''-R'']]"

definition probe_allowed :: "string \<Rightarrow> string list \<Rightarrow> bool" where
  "probe_allowed tool args =
     (if tool = ''smartctl'' then (case args of [a, b, d] \<Rightarrow> [a, b] = [''-a'', ''-j''] \<and> safe_device_path d | _ \<Rightarrow> False)
      else if tool = ''nvme'' then
        (case args of [a, b, c, d] \<Rightarrow> [a, b, c] = [''smart-log'', ''-o'', ''json''] \<and> safe_device_path d | _ \<Rightarrow> False)
      else if tool = ''pvs'' then args = pvs_args
      else if tool = ''vgs'' then args = vgs_args
      else if tool = ''lvs'' then args = lvs_args
      else if tool = ''swapon'' then args = swapon_args
      else if tool = ''zpool'' then args = zpool_list_args
        \<or> (case args of [a, b, p] \<Rightarrow> [a, b] = [''status'', ''-P''] \<and> pool_ok p | _ \<Rightarrow> False)
      else if tool = ''zfs'' then args = zfs_list_args
      else if tool = ''btrfs'' then
        (case args of [a, b, c, m] \<Rightarrow> safe_mount_path m \<and> [a, b, c] \<in> set btrfs_commands | _ \<Rightarrow> False)
      else False)"

definition strict_timeout :: "payload \<Rightarrow> real \<Rightarrow> real \<Rightarrow> real option" where
  "strict_timeout p standard limit =
     (case map_of p ''timeout'' of Some (JBool b) \<Rightarrow> None | _ \<Rightarrow> timeout_value p standard limit)"

definition run_storage_probe :: "broker_env \<Rightarrow> payload \<Rightarrow> command_result broker" where
  "run_storage_probe env p =
     step_then (payload_keys [''tool'', ''args'', ''timeout''] p)
     (case str_value (map_of p ''tool'') of None \<Rightarrow> deny ''storage probe tool is not allowlisted''
      | Some tool \<Rightarrow> if tool \<notin> set probe_tools then deny ''storage probe tool is not allowlisted''
          else (case list_value (args_value p) of None \<Rightarrow> deny ''invalid storage probe arguments''
            | Some vs \<Rightarrow> (case str_items (item_ok 4096) vs of None \<Rightarrow> deny ''invalid storage probe arguments''
                | Some args \<Rightarrow> if \<not> probe_allowed tool args then deny ''unsupported storage probe arguments''
                    else (case strict_timeout p 12 30 of None \<Rightarrow> deny ''invalid storage probe timeout''
                      | Some limit \<Rightarrow> step_bind (resolve_tool env tool) (\<lambda>exe.
                          perform env (Ran (exe # args) None limit))))))"

definition is_dpkg_repair :: "payload \<Rightarrow> bool" where
  "is_dpkg_repair p \<longleftrightarrow> map_of p ''tool'' = Some (JStr ''dpkg'')
     \<and> map_of p ''args'' = Some (JList [JStr ''--configure'', JStr ''-a''])"

definition run_dpkg_repair :: "broker_env \<Rightarrow> payload \<Rightarrow> command_result broker" where
  "run_dpkg_repair env p =
     (if extra_keys p [''tool'', ''args'', ''timeout''] \<noteq> [] then deny ''unsupported dpkg recovery parameters''
      else if \<not> is_dpkg_repair p then deny ''unsupported dpkg recovery operation''
      else (case strict_timeout p 1800 3600 of None \<Rightarrow> deny ''invalid package timeout''
        | Some limit \<Rightarrow> step_bind (resolve_tool env ''dpkg'') (\<lambda>exe.
            perform env (Ran [exe, ''--configure'', ''-a''] None limit))))"

section \<open>Firewall\<close>

definition backends :: "(string \<times> string) list" where
  "backends = [(''ufw'', ''ufw''), (''firewalld'', ''firewall-cmd''), (''nftables'', ''nft'')]"

definition safe_token :: "string \<Rightarrow> bool" where
  "safe_token s \<longleftrightarrow> s \<noteq> [] \<and> list_all (\<lambda>c. word_char c \<or> c \<in> set ''./:@,+-=[]{};'') s"

definition zone_ok :: "string \<Rightarrow> bool" where
  "zone_ok s \<longleftrightarrow> len_between 1 64 s \<and> list_all (\<lambda>c. word_char c \<or> c \<in> set ''.-'') s"

definition interface_ok :: "string \<Rightarrow> bool" where
  "interface_ok s \<longleftrightarrow> len_between 1 32 s \<and> list_all (\<lambda>c. word_char c \<or> c \<in> set ''.:@-'') s"

definition firewall_item :: "string \<Rightarrow> bool" where
  "firewall_item s \<longleftrightarrow> len_between 1 2048 s \<and> CHR 0x00 \<notin> set s \<and> CHR 10 \<notin> set s \<and> CHR 13 \<notin> set s"

definition clean_args :: "payload \<Rightarrow> string list broker" where
  "clean_args p = (case map_of p ''args'' of
       Some (JList vs) \<Rightarrow> if 48 < length vs then deny ''invalid firewall arguments''
         else (case str_items firewall_item vs of None \<Rightarrow> deny ''invalid firewall argument''
           | Some args \<Rightarrow> step_return args)
     | _ \<Rightarrow> deny ''invalid firewall arguments'')"

definition ufw_keywords :: "string list" where
  "ufw_keywords = [''allow'', ''deny'', ''reject'', ''in'', ''out'', ''on'', ''proto'', ''tcp'', ''udp'',
     ''from'', ''to'', ''any'', ''port'', ''comment'']"

fun ufw_tokens :: "bool \<Rightarrow> string list \<Rightarrow> unit broker" where
  "ufw_tokens commented [] = step_return ()"
| "ufw_tokens commented (w # ws) =
     (if w \<in> set ufw_keywords then ufw_tokens (w = ''comment'') ws
      else if commented then
        if 120 < int (length w) then deny ''ufw comment is too long'' else ufw_tokens (w = ''comment'') ws
      else if \<not> safe_token w then deny ''invalid ufw token''
      else ufw_tokens (w = ''comment'') ws)"

text \<open>\<^verbatim>\<open>isdigit\<close> lets superscripts through, which \<^verbatim>\<open>int\<close> refuses.\<close>

definition ufw_delete :: "string list \<Rightarrow> bool res" where
  "ufw_delete args = (case args of
       [f, d, n] \<Rightarrow> if [f, d] = [''--force'', ''delete''] \<and> py_isdigit n
         then rbind (py_int n) (\<lambda>k. Inr (1 \<le> int k \<and> int k \<le> 100000)) else Inr False
     | _ \<Rightarrow> Inr False)"

definition ufw_fixed :: "string list list" where
  "ufw_fixed = [[''status''], [''status'', ''numbered''], [''status'', ''verbose''],
     [''--force'', ''enable''], [''disable''], [''reload'']]"

definition validate_ufw :: "string list \<Rightarrow> unit broker" where
  "validate_ufw args =
     (if args \<in> set ufw_fixed then step_return ()
      else step_bind (step_res (ufw_delete args)) (\<lambda>del.
        if del then step_return ()
        else (case args of [] \<Rightarrow> deny ''unsupported ufw operation''
          | w # ws \<Rightarrow> if w \<notin> {''allow'', ''deny'', ''reject''} then deny ''unsupported ufw operation''
              else if 24 < length args then deny ''ufw rule is too complex''
              else ufw_tokens False args)))"

definition zone_option :: "string \<Rightarrow> bool" where
  "zone_option w = (case strip_prefix ''--zone='' w of None \<Rightarrow> False | Some z \<Rightarrow> zone_ok z)"

definition rich_rule_ok :: "string \<Rightarrow> bool" where
  "rich_rule_ok r \<longleftrightarrow> prefix ''rule '' r \<and> int (length r) \<le> 1800 \<and> \<not> list_ex (\<lambda>c. c \<in> {CHR 13, CHR 10, CHR 0x00}) r"

definition rich_rule :: "string \<Rightarrow> string option" where
  "rich_rule w = (case strip_prefix ''--add-rich-rule='' w of Some r \<Rightarrow> Some r
     | None \<Rightarrow> strip_prefix ''--remove-rich-rule='' w)"

definition validate_firewalld :: "string list \<Rightarrow> unit broker" where
  "validate_firewalld args =
     (if args = [''--state''] \<or> args = [''--reload''] then step_return ()
      else (case args of
         [z, l] \<Rightarrow> if l = ''--list-rich-rules'' \<and> zone_option z then step_return ()
           else deny ''unsupported firewalld operation''
       | [f, z, w] \<Rightarrow> if f = ''--permanent'' \<and> zone_option z then
             (case rich_rule w of None \<Rightarrow> deny ''unsupported firewalld operation''
              | Some r \<Rightarrow> if \<not> rich_rule_ok r then deny ''invalid firewalld rich rule''
                  else if list_all (\<lambda>c. word_char c \<or> c \<in> set ''./:@-= '' \<or> c = CHR 34) r then step_return ()
                  else deny ''unsupported firewalld rich rule token'')
           else deny ''unsupported firewalld operation''
       | _ \<Rightarrow> deny ''unsupported firewalld operation''))"

fun nft_tokens :: "bool \<Rightarrow> string list \<Rightarrow> unit broker" where
  "nft_tokens commented [] = step_return ()"
| "nft_tokens commented (w # ws) =
     (if commented then
        if 120 < int (length w) \<or> list_ex control w then deny ''invalid nftables comment''
        else nft_tokens (w = ''comment'') ws
      else if \<not> safe_token w \<and> \<not> interface_ok w then deny ''invalid nftables token''
      else nft_tokens (w = ''comment'') ws)"

definition validate_nft :: "string list \<Rightarrow> unit broker" where
  "validate_nft args =
     (if args = [''-j'', ''list'', ''ruleset''] \<or> args = [''list'', ''ruleset''] then step_return ()
      else if args = [''add'', ''table'', ''inet'', ''webnas''] then step_return ()
      else if take 4 args \<in> {[''add'', ''chain'', ''inet'', ''webnas''], [''add'', ''rule'', ''inet'', ''webnas'']} then
        (case drop 4 args of [] \<Rightarrow> deny ''nftables changes are limited to WebNAS input/output chains''
         | c # ws \<Rightarrow> if c \<notin> {''input'', ''output''} then deny ''nftables changes are limited to WebNAS input/output chains''
             else nft_tokens False ws)
      else (case args of
          [a, b, c, d, e, f, n] \<Rightarrow> if [a, b, c, d] = [''delete'', ''rule'', ''inet'', ''webnas'']
              \<and> e \<in> {''input'', ''output''} \<and> f = ''handle'' \<and> py_isdigit n then step_return ()
            else deny ''unsupported nftables operation''
        | _ \<Rightarrow> deny ''unsupported nftables operation''))"

definition validate_firewall :: "string \<Rightarrow> string list \<Rightarrow> unit broker" where
  "validate_firewall backend args =
     (if backend = ''ufw'' then validate_ufw args
      else if backend = ''firewalld'' then validate_firewalld args else validate_nft args)"

text \<open>A backend that is a list or an object is not hashable: the membership test raises.\<close>

definition backend_value :: "payload \<Rightarrow> (string \<times> string) broker" where
  "backend_value p = (case map_of p ''backend'' of
       Some v \<Rightarrow> if \<not> hashable v then step_raise TypeError
         else (case str_value (Some v) of None \<Rightarrow> deny ''unsupported firewall backend''
           | Some b \<Rightarrow> (case map_of backends b of None \<Rightarrow> deny ''unsupported firewall backend''
               | Some t \<Rightarrow> step_return (b, t)))
     | None \<Rightarrow> deny ''unsupported firewall backend'')"

definition run_firewall :: "broker_env \<Rightarrow> payload \<Rightarrow> command_result broker" where
  "run_firewall env p =
     (if extra_keys p [''backend'', ''args'', ''timeout''] \<noteq> [] then deny ''unsupported firewall parameters''
      else step_bind (backend_value p) (\<lambda>b.
        step_bind (clean_args p) (\<lambda>args.
        case timeout_value p 15 30 of None \<Rightarrow> deny ''invalid firewall timeout''
        | Some limit \<Rightarrow> step_then (validate_firewall (fst b) args)
            (step_bind (resolve_tool env (snd b)) (\<lambda>exe. perform env (Ran (exe # args) None limit))))))"

definition dispatch_firewall :: "broker_env \<Rightarrow> broker_request \<Rightarrow> broker_response broker" where
  "dispatch_firewall env rq =
     (if bq_op rq \<noteq> Op_firewall then step_return (failure_response rq True ''unsupported firewall policy operation'')
      else respond rq (\<lambda>e. if is_policy_error e then take 1000 (exn_message e) else take 1000 (exn_type e))
        (\<lambda>e. is_os_error e \<or> is_runtime_error e \<or> is_subprocess_error e) (take (nat max_output))
        (run_firewall env (bq_payload rq)))"

section \<open>Graceful container stop\<close>

definition container_ok :: "string \<Rightarrow> bool" where
  "container_ok s = (case s of [] \<Rightarrow> False
     | c # cs \<Rightarrow> (ascii_letter c \<or> is_digit c) \<and> len_between 0 127 cs
         \<and> list_all (\<lambda>x. word_char x \<or> x \<in> set ''.-'') cs)"

definition run_docker_stop :: "broker_env \<Rightarrow> payload \<Rightarrow> command_result broker" where
  "run_docker_stop env p =
     (if \<not> keys_are p [''container''] then deny ''graceful Docker stop accepts only a container name''
      else (case str_value (map_of p ''container'') of None \<Rightarrow> deny ''invalid Docker container name''
        | Some c \<Rightarrow> if \<not> container_ok c then deny ''invalid Docker container name''
            else step_bind (resolve_tool env ''docker'') (\<lambda>exe.
              perform env (Ran [exe, ''stop'', ''--time'', ''-1'', c] None 86400))))"

end
