(* ===== verification/Broker_Infra.thy ===== *)
theory Broker_Infra
  imports Broker_Rules
begin

text \<open>
  Time synchronisation, routing and login sessions, \<^verbatim>\<open>infrastructure_policy.py\<close>, and the
  PAM check of \<^verbatim>\<open>authentication_policy.py\<close>. Its \<^verbatim>\<open>InfrastructurePolicyError\<close> is
  modelled as a policy error; the PAM library is an argument.
\<close>

section \<open>Results\<close>

text \<open>Exit code, output, error output and the error code reported with them.\<close>

type_synonym infra_result = "int \<times> string \<times> string \<times> string option"

definition infra_response :: "broker_env \<Rightarrow> broker_request \<Rightarrow> infra_result \<Rightarrow> broker_response" where
  "infra_response env rq r = (case r of (code, out, err, error) \<Rightarrow>
     \<lparr>bp_id = bq_id rq, bp_ok = (code = 0), bp_exit_code = code, bp_stdout = be_redact env max_output out,
      bp_stderr = be_redact env max_output err, bp_error = error\<rparr>)"

definition run_infra :: "broker_env \<Rightarrow> string \<Rightarrow> string list \<Rightarrow> real \<Rightarrow> command_result broker" where
  "run_infra env tool args limit = step_bind (resolve_tool env tool) (\<lambda>exe.
     perform env (Ran (exe # args) None limit))"

definition reported :: "string \<Rightarrow> command_result \<Rightarrow> infra_result" where
  "reported failed r = (cm_code r, cm_out r, cm_err r, if cm_code r \<noteq> 0 then Some failed else None)"

definition run_reported :: "broker_env \<Rightarrow> string \<Rightarrow> string list \<Rightarrow> real \<Rightarrow> string \<Rightarrow> infra_result broker" where
  "run_reported env tool args limit failed =
     step_bind (run_infra env tool args limit) (\<lambda>r. step_return (reported failed r))"

section \<open>Time synchronisation\<close>

definition ntp_targets :: "(string \<times> string) list" where
  "ntp_targets =
     [(''chrony_debian'', ''/etc/chrony/chrony.conf''), (''chrony_rhel'', ''/etc/chrony.conf''),
      (''chrony_debian_webnas'', ''/etc/chrony/conf.d/webnas.conf''),
      (''chrony_rhel_webnas'', ''/etc/chrony.d/webnas.conf''),
      (''timesyncd'', ''/etc/systemd/timesyncd.conf''), (''ntpd'', ''/etc/ntp.conf'')]"

definition ntp_units :: "string list" where
  "ntp_units = [''chrony'', ''chronyd'', ''systemd-timesyncd'', ''ntp'', ''ntpd'']"

definition service_actions :: "string list" where
  "service_actions = [''start'', ''stop'', ''restart'', ''reload'', ''enable'', ''disable'']"

definition atomic_write :: "broker_env \<Rightarrow> string \<Rightarrow> string \<Rightarrow> unit broker" where
  "atomic_write env target content =
     (if 524288 < int (utf8_length content) \<or> CHR 0x00 \<in> set content
      then deny ''invalid NTP configuration content''
      else step_then (install_file env target content 420) (step_return ()))"

record port_status =
  po_backend :: string
  po_status :: string
  po_managed :: bool

definition port_text :: "port_status \<Rightarrow> string" where
  "port_text s = ''{'' @ [CHR 34] @ ''backend'' @ [CHR 34] @ '':'' @ [CHR 34] @ po_backend s @ [CHR 34] @ '',''
     @ [CHR 34] @ ''status'' @ [CHR 34] @ '':'' @ [CHR 34] @ po_status s @ [CHR 34] @ '',''
     @ [CHR 34] @ ''managed_by_webnas'' @ [CHR 34] @ '':'' @ (if po_managed s then ''true'' else ''false'') @ ''}''"

definition available :: "broker_env \<Rightarrow> string \<Rightarrow> bool" where
  "available env tool = (case be_which env tool of None \<Rightarrow> False | Some q \<Rightarrow> q \<noteq> [])"

definition open_text :: "bool \<Rightarrow> string" where
  "open_text b = (if b then ''open'' else ''blocked'')"

text \<open>A word character of a Python regular expression, on the first 256 code points.\<close>

definition re_word :: "char \<Rightarrow> bool" where
  "re_word c \<longleftrightarrow> word_char c
     \<or> char_in [(170, 170), (178, 179), (181, 181), (185, 186), (188, 190), (192, 214), (216, 246), (248, 255)] c"

text \<open>\<^verbatim>\<open>.*\baccept\b\<close> after a word character, within the line.\<close>

fun accept_follows :: "bool \<Rightarrow> string \<Rightarrow> bool" where
  "accept_follows word [] = False"
| "accept_follows word (c # cs) =
     (\<not> word \<and> (case strip_prefix ''accept'' (c # cs) of None \<Rightarrow> False
        | Some r \<Rightarrow> r = [] \<or> \<not> re_word (hd r))
      \<or> c \<noteq> CHR 10 \<and> accept_follows (re_word c) cs)"

definition spaced :: "(string \<Rightarrow> bool) \<Rightarrow> string \<Rightarrow> bool" where
  "spaced f s \<longleftrightarrow> takeWhile is_space s \<noteq> [] \<and> f (dropWhile is_space s)"

definition after :: "string \<Rightarrow> (string \<Rightarrow> bool) \<Rightarrow> string \<Rightarrow> bool" where
  "after w f s = (case strip_prefix w s of None \<Rightarrow> False | Some r \<Rightarrow> f r)"

text \<open>\<^verbatim>\<open>udp\s+dport\s+123\b.*\baccept\b\<close>.\<close>

definition nft_open :: "string \<Rightarrow> bool" where
  "nft_open out = list_ex (after ''udp'' (spaced (after ''dport'' (spaced (after ''123''
     (\<lambda>r. (r = [] \<or> \<not> re_word (hd r)) \<and> accept_follows True r)))))) (suffixes out)"

definition nft_status :: "broker_env \<Rightarrow> port_status broker" where
  "nft_status env =
     (let unknown = \<lparr>po_backend = ''none'', po_status = ''unknown'', po_managed = False\<rparr> in
      if \<not> available env ''nft'' then step_return unknown
      else step_bind (run_infra env ''nft'' [''list'', ''ruleset''] 15) (\<lambda>r.
        if cm_code r \<noteq> 0 then step_return unknown
        else step_return \<lparr>po_backend = ''nftables'', po_status = open_text (nft_open (cm_out r)),
          po_managed = sublist ''webnas-ntp'' (cm_out r)\<rparr>))"

definition ufw_status :: "broker_env \<Rightarrow> port_status broker" where
  "ufw_status env =
     (if \<not> available env ''ufw'' then nft_status env
      else step_bind (run_infra env ''ufw'' [''status''] 10) (\<lambda>r.
        if cm_code r \<noteq> 0 then nft_status env
        else step_return \<lparr>po_backend = ''ufw'', po_status = open_text
            (list_ex (\<lambda>l. sublist ''123/udp'' l \<and> sublist ''ALLOW'' l) (py_splitlines (cm_out r))),
          po_managed = sublist ''WebNAS NTP'' (cm_out r)\<rparr>))"

definition firewall_status :: "broker_env \<Rightarrow> port_status broker" where
  "firewall_status env =
     (if \<not> available env ''firewall-cmd'' then ufw_status env
      else step_bind (run_infra env ''firewall-cmd'' [''--state''] 10) (\<lambda>r.
        if cm_code r \<noteq> 0 then ufw_status env
        else step_bind (run_infra env ''firewall-cmd'' [''--query-port=123/udp''] 10) (\<lambda>q.
          step_return \<lparr>po_backend = ''firewalld'',
            po_status = open_text (cm_code q = 0 \<and> py_strip (cm_out q) = ''yes''), po_managed = False\<rparr>)))"

definition ntp_firewall_open :: "broker_env \<Rightarrow> infra_result broker" where
  "ntp_firewall_open env = step_bind (firewall_status env) (\<lambda>s.
     if po_status s = ''open'' then step_return (0, port_text s, [], None)
     else if po_backend s = ''firewalld'' then
       step_bind (run_infra env ''firewall-cmd'' [''--permanent'', ''--add-port=123/udp''] 30) (\<lambda>r.
         if cm_code r \<noteq> 0 then step_return (reported ''NTP_FIREWALL_FAILED'' r)
         else step_bind (run_infra env ''firewall-cmd'' [''--reload''] 30) (\<lambda>q.
           step_return (reported ''NTP_FIREWALL_FAILED''
             \<lparr>cm_code = cm_code q, cm_out = cm_out r @ cm_out q, cm_err = cm_err r @ cm_err q\<rparr>)))
     else if po_backend s = ''ufw'' then
       run_reported env ''ufw'' [''allow'', ''123/udp'', ''comment'', ''WebNAS NTP''] 30 ''NTP_FIREWALL_FAILED''
     else if po_backend s = ''nftables'' then
       step_return (2, [], ''nftables ruleset is unmanaged; WebNAS will not modify an unknown chain automatically'',
         Some ''NTP_FIREWALL_MANUAL_REQUIRED'')
     else step_return (2, [], ''no supported firewall backend detected'', Some ''NTP_FIREWALL_UNAVAILABLE''))"

definition timezone_ok :: "string \<Rightarrow> bool" where
  "timezone_ok s \<longleftrightarrow> s = ''UTC''
     \<or> 2 \<le> length (py_split CHR ''/'' s)
       \<and> list_all (\<lambda>w. w \<noteq> [] \<and> list_all (\<lambda>c. word_char c \<or> c \<in> set ''+.-'') w) (py_split CHR ''/'' s)"

definition zone_directory :: string where
  "zone_directory = ''/usr/share/zoneinfo''"

definition set_timezone :: "broker_env \<Rightarrow> string \<Rightarrow> infra_result broker" where
  "set_timezone env tz =
     (if \<not> timezone_ok tz \<or> sublist ''..'' tz then deny ''invalid timezone''
      else step_bind (step_res (be_resolve env zone_directory)) (\<lambda>zones.
        step_bind (step_res (be_resolve env (zones @ ''/'' @ tz))) (\<lambda>file.
        if tz \<noteq> ''UTC'' \<and> (\<not> path_under zones file \<or> \<not> be_is_file env file)
        then deny ''timezone is not installed''
        else run_reported env ''timedatectl'' [''set-timezone'', tz] 30 ''NTP_TIMEZONE_FAILED'')))"

definition run_ntp :: "broker_env \<Rightarrow> payload \<Rightarrow> infra_result broker" where
  "run_ntp env p =
     (let action = str_value (map_of p ''action''); unit = str_or_empty env p ''unit'' in
      if action = Some ''write_config'' then
        if \<not> keys_are p [''action'', ''target'', ''content''] then deny ''unsupported NTP write parameters''
        else (case (map_of ntp_targets (str_or_empty env p ''target''), str_value (map_of p ''content'')) of
            (Some target, Some content) \<Rightarrow> step_then (atomic_write env target content) (step_return (0, [], [], None))
          | _ \<Rightarrow> deny ''invalid NTP managed file'')
      else if action = Some ''service'' then
        if \<not> keys_are p [''action'', ''service_action'', ''unit''] then deny ''unsupported NTP service parameters''
        else if str_or_empty env p ''service_action'' \<notin> set service_actions \<or> unit \<notin> set ntp_units
          then deny ''NTP service action is not allowlisted''
        else run_reported env ''systemctl'' [str_or_empty env p ''service_action'', unit] 120 ''NTP_SERVICE_FAILED''
      else if action = Some ''resync'' then
        if \<not> keys_are p [''action'', ''backend'', ''unit''] then deny ''unsupported NTP resync parameters''
        else if str_or_empty env p ''backend'' = ''chrony'' then
          run_reported env ''chronyc'' [''makestep''] 60 ''NTP_RESYNC_FAILED''
        else if str_or_empty env p ''backend'' \<in> {''systemd-timesyncd'', ''ntpd''} \<and> unit \<in> set ntp_units then
          run_reported env ''systemctl'' [''restart'', unit] 120 ''NTP_RESYNC_FAILED''
        else deny ''NTP resync backend is not allowlisted''
      else if action = Some ''timezone'' then
        if \<not> keys_are p [''action'', ''timezone''] then deny ''unsupported NTP timezone parameters''
        else set_timezone env (str_or_empty env p ''timezone'')
      else if action = Some ''firewall_status'' then
        if \<not> keys_are p [''action''] then deny ''unsupported NTP firewall status parameters''
        else step_bind (firewall_status env) (\<lambda>s. step_return (0, port_text s, [], None))
      else if action = Some ''firewall_open'' then
        if \<not> keys_are p [''action''] then deny ''unsupported NTP firewall parameters''
        else ntp_firewall_open env
      else deny ''unsupported NTP operation'')"

section \<open>Routing\<close>

definition ip_token :: "string \<Rightarrow> bool" where
  "ip_token s \<longleftrightarrow> len_between 1 128 s \<and> list_all (\<lambda>c. word_char c \<or> c \<in> set ''.:/@+-'') s"

definition validate_ip_args :: "payload \<Rightarrow> string list broker" where
  "validate_ip_args p = (case map_of p ''args'' of
       Some (JList vs) \<Rightarrow>
         (case str_items (\<lambda>s. True) vs of None \<Rightarrow> deny ''invalid iproute2 arguments''
          | Some args \<Rightarrow> if length args < 4 \<or> 40 < length args then deny ''invalid iproute2 arguments''
              else if args ! 0 \<notin> {''-4'', ''-6''} \<or> args ! 1 \<notin> {''route'', ''rule''}
                then deny ''unsupported iproute2 family/object''
              else if args ! 1 = ''route'' \<and> args ! 2 \<notin> {''replace'', ''delete''}
                then deny ''unsupported route mutation''
              else if args ! 1 = ''rule'' \<and> args ! 2 \<notin> {''add'', ''delete''}
                then deny ''unsupported policy rule mutation''
              else if list_ex (\<lambda>t. prefix ''-'' t \<or> \<not> ip_token t) (drop 3 args) then deny ''unsafe iproute2 token''
              else step_return args)
     | _ \<Rightarrow> deny ''invalid iproute2 arguments'')"

text \<open>A membership test in a set raises on a value that is not hashable.\<close>

definition text_in :: "string list \<Rightarrow> json option \<Rightarrow> string option broker" where
  "text_in names v = (case v of None \<Rightarrow> step_return None
     | Some w \<Rightarrow> if \<not> hashable w then step_raise TypeError
         else step_return (case w of JStr s \<Rightarrow> if s \<in> set names then Some s else None | _ \<Rightarrow> None))"

definition nmcli_property :: "string \<Rightarrow> string \<Rightarrow> string" where
  "nmcli_property action family =
     (if action = ''nmcli_add_route'' then ''+'' else if action = ''nmcli_remove_route'' then ''-'' else [])
     @ family @ ''.routes''"

definition run_nmcli :: "broker_env \<Rightarrow> payload \<Rightarrow> string \<Rightarrow> infra_result broker" where
  "run_nmcli env p action =
     (if \<not> keys_are p [''action'', ''connection'', ''family'', ''routes'']
        then deny ''unsupported NetworkManager parameters''
      else (case str_value (map_of p ''connection'') of None \<Rightarrow> deny ''invalid NetworkManager connection''
        | Some connection \<Rightarrow>
          if connection = [] \<or> 256 < int (length connection) \<or> CHR 0x00 \<in> set connection
            then deny ''invalid NetworkManager connection''
          else step_bind (text_in [''ipv4'', ''ipv6''] (map_of p ''family'')) (\<lambda>family.
            case (family, str_value (map_of p ''routes'')) of
              (Some fam, Some routes) \<Rightarrow>
                if 8192 < int (length routes) \<or> CHR 0x00 \<in> set routes then deny ''invalid NetworkManager route data''
                else run_reported env ''nmcli'' [''connection'', ''modify'', connection, nmcli_property action fam, routes]
                  60 ''NETWORKMANAGER_ROUTE_FAILED''
            | _ \<Rightarrow> deny ''invalid NetworkManager route data'')))"

definition run_routing :: "broker_env \<Rightarrow> payload \<Rightarrow> infra_result broker" where
  "run_routing env p =
     (if str_value (map_of p ''action'') = Some ''ip'' then
        if \<not> keys_are p [''action'', ''args''] then deny ''unsupported routing parameters''
        else step_bind (validate_ip_args p) (\<lambda>args. run_reported env ''ip'' args 60 ''ROUTING_COMMAND_FAILED'')
      else step_bind (text_in [''nmcli_add_route'', ''nmcli_remove_route'', ''nmcli_set_routes''] (map_of p ''action''))
        (\<lambda>action. case action of None \<Rightarrow> deny ''unsupported routing operation'' | Some a \<Rightarrow> run_nmcli env p a))"

section \<open>Login sessions\<close>

definition session_id_ok :: "string \<Rightarrow> bool" where
  "session_id_ok s \<longleftrightarrow> len_between 1 128 s \<and> list_all (\<lambda>c. word_char c \<or> c \<in> set ''.:-'') s"

definition run_session :: "broker_env \<Rightarrow> payload \<Rightarrow> infra_result broker" where
  "run_session env p =
     (if \<not> keys_are p [''action'', ''session_id''] \<or> map_of p ''action'' \<noteq> Some (JStr ''terminate'')
        then deny ''unsupported session operation''
      else if \<not> session_id_ok (str_or_empty env p ''session_id'') then deny ''invalid login session id''
      else run_reported env ''loginctl'' [''terminate-session'', str_or_empty env p ''session_id''] 30
        ''SESSION_TERMINATE_FAILED'')"

definition infra_action :: "broker_env \<Rightarrow> broker_request \<Rightarrow> infra_result broker" where
  "infra_action env rq = (case bq_op rq of
       Op_ntp \<Rightarrow> run_ntp env (bq_payload rq)
     | Op_routing \<Rightarrow> run_routing env (bq_payload rq)
     | Op_session \<Rightarrow> run_session env (bq_payload rq)
     | _ \<Rightarrow> deny ''unsupported infrastructure operation'')"

definition dispatch_infrastructure :: "broker_env \<Rightarrow> broker_request \<Rightarrow> broker_response broker" where
  "dispatch_infrastructure env rq h =
     (case infra_action env rq h of
        (Inr r, h') \<Rightarrow> (Inr (infra_response env rq r), h')
      | (Inl e, h') \<Rightarrow>
          if is_policy_error e then (Inr (infra_response env rq (126, [], exn_message e, Some ''POLICY_DENIED'')), h')
          else if is_subprocess_error e
            then (Inr (infra_response env rq (124, [], ''privileged operation timed out'', Some ''TIMEOUT'')), h')
          else if is_os_error e then (Inr (infra_response env rq (126, [], exn_type e, Some ''OS_ERROR'')), h')
          else (Inl e, h'))"

section \<open>PAM authentication\<close>

definition pam_fields :: "payload \<Rightarrow> (string \<times> string) res" where
  "pam_fields p =
     (if \<not> keys_are p [''username'', ''password'', ''service'']
        then Inl (ValueError ''unsupported PAM authentication parameters'')
      else (case str_value (map_of p ''username'') of None \<Rightarrow> Inl (ValueError ''invalid PAM username'')
        | Some u \<Rightarrow>
          if \<not> len_between 1 256 u
            \<or> list_ex (\<lambda>c. c \<in> {CHR 0x00, CHR '':'', CHR ''/'', CHR 92, CHR 10, CHR 13}) u
            then Inl (ValueError ''invalid PAM username'')
          else (case str_value (map_of p ''password'') of None \<Rightarrow> Inl (ValueError ''invalid PAM password'')
            | Some pw \<Rightarrow> if \<not> len_between 1 8192 pw \<or> CHR 0x00 \<in> set pw then Inl (ValueError ''invalid PAM password'')
                else if map_of p ''service'' \<noteq> Some (JStr ''webnas'') then Inl (ValueError ''unsupported PAM service'')
                else Inr (u, pw))))"

definition pam_response :: "broker_request \<Rightarrow> int \<Rightarrow> string option \<Rightarrow> string \<Rightarrow> broker_response" where
  "pam_response rq code error msg = \<lparr>bp_id = bq_id rq, bp_ok = (error = None), bp_exit_code = code,
     bp_stdout = [], bp_stderr = msg, bp_error = error\<rparr>"

text \<open>\<open>pam u pw\<close> is the library's answer under the service \<^verbatim>\<open>webnas\<close>, or its exception.\<close>

definition dispatch_authentication ::
  "(string \<Rightarrow> string \<Rightarrow> bool res) \<Rightarrow> broker_env \<Rightarrow> broker_request \<Rightarrow> broker_response" where
  "dispatch_authentication pam env rq =
     (if bq_op rq \<noteq> Op_pam_auth
      then pam_response rq 126 (Some ''POLICY_DENIED'') ''unsupported authentication operation''
      else (case pam_fields (bq_payload rq) of
        Inl e \<Rightarrow> pam_response rq 126 (Some ''POLICY_DENIED'') (exn_message e)
      | Inr (u, pw) \<Rightarrow>
          if \<not> be_is_file env ''/etc/pam.d/webnas''
          then pam_response rq 127 (Some ''PAM_UNAVAILABLE'') ''PAM authentication is not configured for WebNAS''
          else (case pam u pw of
              Inl e \<Rightarrow> pam_response rq 127 (Some ''PAM_UNAVAILABLE'') ''PAM authentication service is unavailable''
            | Inr ok \<Rightarrow> if ok then pam_response rq 0 None []
                else pam_response rq 1 (Some ''PAM_INVALID_CREDENTIALS'') ''Invalid username or password'')))"

end
