(* ===== verification/Broker_Docker.thy ===== *)
theory Broker_Docker
  imports Broker_Rules
begin

text \<open>
  The container policy, \<^verbatim>\<open>privileged_broker/docker_policy.py\<close>: which argument lists of
  \<^verbatim>\<open>docker\<close> and \<^verbatim>\<open>docker-compose\<close> the broker runs. Parsed Compose files are JSON
  values given by the environment; address parsing of \<^verbatim>\<open>ipaddress\<close> is an argument.
\<close>

section \<open>Tokens\<close>

definition alnum :: "char \<Rightarrow> bool" where
  "alnum c \<longleftrightarrow> ascii_letter c \<or> is_digit c"

definition head_tail :: "(char \<Rightarrow> bool) \<Rightarrow> int \<Rightarrow> string \<Rightarrow> bool" where
  "head_tail p n s = (case s of [] \<Rightarrow> False | c # cs \<Rightarrow> alnum c \<and> len_between 0 n cs \<and> list_all p cs)"

definition image_ok :: "string \<Rightarrow> bool" where
  "image_ok = head_tail (\<lambda>c. alnum c \<or> c \<in> set ''._/:@-'') 254"

definition identifier_ok :: "string \<Rightarrow> bool" where
  "identifier_ok = head_tail (\<lambda>c. alnum c \<or> c \<in> set ''_.:@/+,-'') 255"

definition slug_ok :: "string \<Rightarrow> bool" where
  "slug_ok = head_tail (\<lambda>c. alnum c \<or> c \<in> set ''_.-'') 127"

definition port_number :: "string \<Rightarrow> bool" where
  "port_number s = (case s of [] \<Rightarrow> False
     | c # cs \<Rightarrow> is_digit c \<and> c \<noteq> CHR ''0'' \<and> len_between 0 4 cs \<and> list_all is_digit cs)"

definition port_range :: "string \<Rightarrow> bool" where
  "port_range s = (case py_split CHR ''-'' s of [a] \<Rightarrow> port_number a
     | [a, b] \<Rightarrow> port_number a \<and> port_number b | _ \<Rightarrow> False)"

definition strip_protocol :: "string \<Rightarrow> string" where
  "strip_protocol s = (if suffix ''/tcp'' s \<or> suffix ''/udp'' s then take (length s - 4) s else s)"

definition port_ok :: "string \<Rightarrow> bool" where
  "port_ok s = (case rev (py_split CHR '':'' (strip_protocol s)) of
       c # h # rest \<Rightarrow> port_range c \<and> port_range h
         \<and> (rest = [] \<or> (let a = py_join CHR '':'' (rev rest) in
              a \<noteq> [] \<and> list_all (\<lambda>x. is_digit x \<or> x \<in> set ''.:[]'') a))
     | _ \<Rightarrow> False)"

definition duration_ok :: "string \<Rightarrow> bool" where
  "duration_ok s \<longleftrightarrow> s = ''0s'' \<or> (case s of [] \<Rightarrow> False
     | c # cs \<Rightarrow> is_digit c \<and> c \<noteq> CHR ''0'' \<and> cs \<noteq> [] \<and> last cs \<in> set ''smhd''
         \<and> len_between 0 7 (butlast cs) \<and> list_all is_digit (butlast cs))"

definition numeric_user :: "string \<Rightarrow> bool" where
  "numeric_user s = (let n = (\<lambda>w. len_between 1 10 w \<and> list_all is_digit w) in
     case py_split CHR '':'' s of [a] \<Rightarrow> n a | [a, b] \<Rightarrow> n a \<and> n b | _ \<Rightarrow> False)"

definition docker_identifier :: "string \<Rightarrow> string \<Rightarrow> unit broker" where
  "docker_identifier label s = ensure (identifier_ok s) (''invalid Docker '' @ label)"

definition docker_image :: "string \<Rightarrow> unit broker" where
  "docker_image s = ensure (image_ok s) ''invalid Docker image reference''"

section \<open>Paths\<close>

definition docker_data_root :: "broker_env \<Rightarrow> string" where
  "docker_data_root env = (case be_settings env of Inl e \<Rightarrow> ''/var/lib/webnas''
     | Inr c \<Rightarrow> (case be_resolve env (bs_data_dir c) of Inl e \<Rightarrow> ''/var/lib/webnas'' | Inr q \<Rightarrow> q))"

fun resolve_all :: "broker_env \<Rightarrow> string list \<Rightarrow> string list broker" where
  "resolve_all env [] = step_return []"
| "resolve_all env (r # rs) = step_bind (step_res (be_resolve env r)) (\<lambda>q.
     step_bind (resolve_all env rs) (\<lambda>qs. step_return (q # qs)))"

definition bind_roots :: "broker_env \<Rightarrow> string list broker" where
  "bind_roots env = step_bind (resolve_all env (filter (\<lambda>r. path_root r \<noteq> [])
       (case be_settings env of Inl e \<Rightarrow> [] | Inr c \<Rightarrow> bs_allowed_roots c))) (\<lambda>qs.
     step_return ([''/srv'', ''/mnt'', ''/media'', docker_data_root env] @ qs))"

definition in_roots :: "string list \<Rightarrow> string \<Rightarrow> bool" where
  "in_roots roots q \<longleftrightarrow> list_ex (\<lambda>r. path_under r q) roots"

definition data_path :: "broker_env \<Rightarrow> string \<Rightarrow> string \<Rightarrow> string broker" where
  "data_path env label v =
     (let msg = ''Docker '' @ label @ '' must stay inside the WebNAS data directory'' in
      if path_root v = [] then deny msg
      else step_bind (step_res (be_resolve env v)) (\<lambda>q.
        if in_roots [docker_data_root env] q then step_return (path_posix v) else deny msg))"

definition bind_source :: "broker_env \<Rightarrow> string \<Rightarrow> unit broker" where
  "bind_source env v =
     (let msg = ''Docker bind mount is outside approved data roots'' in
      if path_root v = [] then deny msg
      else step_bind (step_res (be_resolve env v)) (\<lambda>q.
        if path_parts q = path_parts ''/var/run/docker.sock'' then deny msg
        else step_bind (bind_roots env) (\<lambda>roots. ensure (in_roots roots q) msg)))"

section \<open>Mounts and container creation\<close>

text \<open>
  The fields of a mount: a dictionary in which a later value for a key replaces the earlier one,
  and the words without a value.
\<close>

fun mount_fields :: "string list \<Rightarrow> (string \<times> string) list \<times> string list" where
  "mount_fields [] = ([], [])"
| "mount_fields (w # ws) =
     (case (py_partition CHR ''='' w, mount_fields ws) of
        ((k, sep, v), (fs, flags)) \<Rightarrow>
          if sep then (if k \<in> set (map fst fs) then fs else (k, v) # fs, flags)
          else (fs, if w = [] then flags else w # flags))"

definition field_text :: "(string \<times> string) list \<Rightarrow> string \<Rightarrow> string" where
  "field_text fs k = (case map_of fs k of None \<Rightarrow> [] | Some v \<Rightarrow> v)"

definition first_field :: "(string \<times> string) list \<Rightarrow> string list \<Rightarrow> string" where
  "first_field fs ks = (case filter (\<lambda>v. v \<noteq> []) (map (field_text fs) ks) of [] \<Rightarrow> [] | v # vs \<Rightarrow> v)"

definition check_mount :: "broker_env \<Rightarrow> string \<Rightarrow> unit broker" where
  "check_mount env value =
     (case mount_fields (py_split CHR '','' value) of (fs, flags) \<Rightarrow>
      let kind = field_text fs ''type''; target = first_field fs [''dst'', ''destination'', ''target''];
          source = first_field fs [''src'', ''source'']
      in if kind \<notin> {''bind'', ''volume'', ''tmpfs''} \<or> \<not> prefix ''/'' target \<or> ''..'' \<in> set (path_parts target)
           then deny ''invalid Docker mount''
         else step_then
           (if kind = ''bind'' then bind_source env source
            else if kind = ''volume'' then docker_identifier ''volume'' source
            else ensure (source = []) ''tmpfs mount cannot specify a host source'')
           (if \<not> list_all (\<lambda>kv. fst kv \<in> set [''type'', ''src'', ''source'', ''dst'', ''destination'',
                ''target'', ''tmpfs-size'']) fs
            then deny ''unsupported Docker mount option''
            else ensure (list_all (\<lambda>w. w \<in> {''readonly'', ''ro''}) flags) ''unsupported Docker mount flag''))"

definition run_bool_flags :: "string list" where
  "run_bool_flags = [''-d'', ''--init'', ''--read-only'', ''--oom-kill-disable'']"

definition run_risky_flags :: "string list" where
  "run_risky_flags = [''--privileged'', ''--device'', ''--cap-add'', ''--cap-drop'', ''--pid'', ''--ipc'',
     ''-v'', ''--volume'']"

definition run_value_flags :: "string list" where
  "run_value_flags =
     [''--name'', ''--restart'', ''--network'', ''--label'', ''--env-file'', ''--network-alias'',
      ''--hostname'', ''--entrypoint'', ''--workdir'', ''--user'', ''--publish'', ''--mount'', ''--cpus'',
      ''--cpu-shares'', ''--cpuset-cpus'', ''--cpu-period'', ''--cpu-quota'', ''--memory'',
      ''--memory-swap'', ''--memory-reservation'', ''--memory-swappiness'', ''--shm-size'',
      ''--pids-limit'', ''--blkio-weight'', ''--oom-score-adj'', ''--ulimit'', ''--health-cmd'',
      ''--health-interval'', ''--health-timeout'', ''--health-retries'', ''--health-start-period'']"

definition run_value :: "broker_env \<Rightarrow> string \<Rightarrow> string \<Rightarrow> unit broker" where
  "run_value env item v =
     (if item = ''--network'' then
        if v = ''none'' then deny ''Docker none network mode is not permitted'' else docker_identifier ''network'' v
      else if item = ''--env-file'' then step_then (data_path env ''environment file'' v) (step_return ())
      else if item = ''--mount'' then check_mount env v
      else if item = ''--publish'' then ensure (port_ok v) ''invalid Docker port mapping''
      else if item = ''--user'' then
        ensure (numeric_user v) ''Docker container user must be a numeric UID or UID:GID''
      else if item \<in> {''--name'', ''--network-alias''} then docker_identifier (drop 2 item) v
      else step_return ())"

fun run_options :: "broker_env \<Rightarrow> string list \<Rightarrow> unit broker" where
  "run_options env [] = deny ''Docker image is required''"
| "run_options env (item # rest) =
     (if \<not> prefix ''-'' item then step_then (docker_image item)
        (ensure (rest = []) ''Docker container commands after the image are not permitted'')
      else if item \<in> set run_bool_flags then run_options env rest
      else if item \<in> set run_risky_flags then deny ''high-risk Docker runtime option is not permitted''
      else (case rest of [] \<Rightarrow> deny (''unsupported Docker runtime option: '' @ item)
        | v # vs \<Rightarrow> if item \<notin> set run_value_flags then deny (''unsupported Docker runtime option: '' @ item)
            else step_then (run_value env item v) (run_options env vs)))"

definition validate_run :: "broker_env \<Rightarrow> string list \<Rightarrow> unit broker" where
  "validate_run env args = (case args of [] \<Rightarrow> deny ''invalid Docker container creation command''
     | c # rest \<Rightarrow> if c \<notin> {''run'', ''create''} then deny ''invalid Docker container creation command''
         else run_options env rest)"

section \<open>Compose files\<close>

definition system_networks :: "string list" where
  "system_networks = [''host'', ''none'']"

definition compose_service_fields :: "string list" where
  "compose_service_fields =
     [''image'', ''container_name'', ''hostname'', ''restart'', ''ports'', ''volumes'', ''environment'',
      ''networks'', ''depends_on'', ''labels'', ''read_only'', ''tmpfs'', ''init'', ''mem_limit'', ''cpus'',
      ''pids_limit'', ''working_dir'', ''user'']"

definition or_empty_list :: "payload \<Rightarrow> string \<Rightarrow> json" where
  "or_empty_list kvs k = (case map_of kvs k of Some v \<Rightarrow> if json_truthy v then v else JList [] | None \<Rightarrow> JList [])"

definition check_volume :: "broker_env \<Rightarrow> json \<Rightarrow> unit broker" where
  "check_volume env raw =
     (let source = fst (py_partition CHR '':'' (json_str env raw)) in
      if prefix ''/'' source then bind_source env source else docker_identifier ''volume'' source)"

definition check_service :: "broker_env \<Rightarrow> string \<times> json \<Rightarrow> unit broker" where
  "check_service env kv =
     (case snd kv of JObj fs \<Rightarrow>
        if \<not> slug_ok (fst kv) \<or> extra_keys fs compose_service_fields \<noteq> []
          then deny ''Docker Compose service contains unsupported fields''
        else step_then (docker_image (str_or_empty env fs ''image''))
          (step_bind (step_res (iter_value (or_empty_list fs ''ports''))) (\<lambda>ports.
           step_then (each_check (\<lambda>v. ensure (port_ok (json_str env v)) ''invalid Docker port mapping'') ports)
          (step_bind (step_res (iter_value (or_empty_list fs ''volumes''))) (\<lambda>volumes.
           step_then (each_check (check_volume env) volumes)
          (let user = str_or_empty env fs ''user'' in
           ensure (user = [] \<or> numeric_user user) ''Docker Compose container user must be numeric'')))))
      | _ \<Rightarrow> deny ''Docker Compose service contains unsupported fields'')"

definition check_definition :: "broker_env \<Rightarrow> string \<Rightarrow> string \<times> json \<Rightarrow> unit broker" where
  "check_definition env section_name kv =
     (if \<not> slug_ok (fst kv) \<or> fst kv \<in> set system_networks
        then deny (''invalid Docker Compose '' @ section_name @ '' name'')
      else (case snd kv of
          JNull \<Rightarrow> step_return ()
        | JObj fs \<Rightarrow>
            if extra_keys fs [''name'', ''driver'', ''internal'', ''labels'', ''ipam'', ''external''] \<noteq> []
              then deny (''unsupported Docker Compose '' @ section_name @ '' definition'')
            else if section_name = ''networks'' \<and> str_or_empty env fs ''name'' \<in> set system_networks
              then deny ''Docker Compose cannot attach services to host/none networks''
            else (case get_value fs ''driver'' of None \<Rightarrow> step_return ()
              | Some v \<Rightarrow> if \<not> hashable v then step_raise TypeError
                  else ensure (v \<in> {JStr ''bridge'', JStr ''local''})
                    ''unsupported Docker Compose network/volume driver'')
        | _ \<Rightarrow> deny (''unsupported Docker Compose '' @ section_name @ '' definition'')))"

definition check_section :: "broker_env \<Rightarrow> payload \<Rightarrow> string \<Rightarrow> unit broker" where
  "check_section env kvs name =
     (case map_of kvs name of None \<Rightarrow> step_return ()
      | Some v \<Rightarrow> if \<not> json_truthy v then step_return ()
          else (case v of JObj ds \<Rightarrow> each_check (check_definition env name) ds
            | _ \<Rightarrow> deny (''Docker Compose '' @ name @ '' must be a mapping'')))"

definition check_document :: "broker_env \<Rightarrow> json \<Rightarrow> unit broker" where
  "check_document env doc =
     (case doc of JObj kvs \<Rightarrow>
        if extra_keys kvs [''name'', ''version'', ''services'', ''networks'', ''volumes''] \<noteq> []
          then deny ''Docker Compose file contains unsupported root fields''
        else (case map_of kvs ''services'' of
            Some (JObj services) \<Rightarrow>
              if services = [] then deny ''Docker Compose services are required''
              else step_then (each_check (check_service env) services)
                (step_then (check_section env kvs ''networks'') (check_section env kvs ''volumes''))
          | _ \<Rightarrow> deny ''Docker Compose services are required'')
      | _ \<Rightarrow> deny ''Docker Compose file contains unsupported root fields'')"

definition validate_compose_file :: "broker_env \<Rightarrow> string \<Rightarrow> unit broker" where
  "validate_compose_file env v =
     step_bind (data_path env ''Compose file'' v) (\<lambda>q.
     if \<not> be_is_file env q \<or> 524288 < be_file_size env q
       then deny ''Docker Compose file is missing or too large''
     else (case be_yaml env q of None \<Rightarrow> deny ''Docker Compose file is invalid''
       | Some doc \<Rightarrow> check_document env doc))"

section \<open>Compose commands\<close>

text \<open>The options before the subcommand: the last Compose file named, and what follows.\<close>

fun compose_options :: "broker_env \<Rightarrow> string \<Rightarrow> string list \<Rightarrow> (string \<times> string list) broker" where
  "compose_options env file_name [] = step_return (file_name, [])"
| "compose_options env file_name (opt # rest) =
     (if \<not> prefix ''-'' opt then step_return (file_name, opt # rest)
      else (case rest of [] \<Rightarrow> deny (''unsupported Docker Compose option: '' @ opt)
        | v # vs \<Rightarrow>
          if opt = ''--ansi'' \<and> v = ''never'' then compose_options env file_name vs
          else if opt \<in> {''--env-file'', ''-f''} then
            step_then (data_path env ''Compose input'' v)
              (compose_options env (if opt = ''-f'' then v else file_name) vs)
          else if opt = ''-p'' then
            step_then (docker_identifier ''Compose project'' v) (compose_options env file_name vs)
          else deny (''unsupported Docker Compose option: '' @ opt)))"

fun compose_logs :: "string list \<Rightarrow> unit broker" where
  "compose_logs [] = step_return ()"
| "compose_logs (w # ws) =
     (if \<not> prefix ''-'' w then
        if ws \<noteq> [] then deny ''only one Docker Compose log service is permitted'' else docker_identifier ''service'' w
      else if w \<in> {''--no-color'', ''--timestamps''} then compose_logs ws
      else (case ws of [] \<Rightarrow> deny ''unsupported Docker Compose logs option''
        | v # vs \<Rightarrow> if w \<notin> {''--tail'', ''--since''} then deny ''unsupported Docker Compose logs option''
            else if w = ''--tail'' \<and> \<not> py_isdigit v then deny ''invalid Docker Compose log tail''
            else compose_logs vs))"

definition check_scale :: "string \<Rightarrow> unit broker" where
  "check_scale item = (case py_partition CHR ''='' item of (name, sep, replicas) \<Rightarrow>
     if \<not> sep \<or> \<not> py_isdigit replicas then deny ''invalid Docker Compose scale value''
     else step_bind (step_res (py_int replicas)) (\<lambda>n.
       if 1000 < int n then deny ''invalid Docker Compose scale value''
       else docker_identifier ''service'' name))"

definition compose_subcommands :: "string list" where
  "compose_subcommands = [''config'', ''ps'', ''logs'', ''up'', ''down'', ''start'', ''stop'', ''restart'',
     ''pull'', ''scale'']"

definition compose_tail :: "string \<Rightarrow> string list \<Rightarrow> unit broker" where
  "compose_tail command rest =
     (if command = ''config'' then
        ensure (rest = [] \<or> rest = [''--quiet'']) ''unsupported Docker Compose config options''
      else if command = ''ps'' then
        ensure (rest = [] \<or> rest = [''--format'', ''json'']) ''unsupported Docker Compose ps options''
      else if command = ''logs'' then compose_logs rest
      else if command = ''scale'' then
        if rest = [] then deny ''Docker Compose scale requires at least one service'' else each_check check_scale rest
      else each_check (docker_identifier ''service'')
        (if command = ''up'' then dropWhile (\<lambda>w. w \<in> {''-d'', ''--force-recreate''}) rest
         else if command = ''down'' then (case rest of w # ws \<Rightarrow> if w = ''--volumes'' then ws else rest | [] \<Rightarrow> [])
         else rest))"

definition validate_compose :: "broker_env \<Rightarrow> string list \<Rightarrow> unit broker" where
  "validate_compose env args0 =
     (let args = (case args0 of w # ws \<Rightarrow> if w = ''compose'' then ws else args0 | [] \<Rightarrow> []) in
      case args of [] \<Rightarrow> deny ''Docker Compose command is required''
      | w # ws \<Rightarrow>
        if w = ''version'' then ensure (ws = [] \<or> ws = [''--short'']) ''unsupported Docker Compose version options''
        else step_bind (compose_options env [] args) (\<lambda>r.
          case snd r of [] \<Rightarrow> deny ''Docker Compose subcommand is required''
          | command # rest \<Rightarrow>
            if command \<notin> set compose_subcommands then deny ''unsupported Docker Compose subcommand''
            else if command \<noteq> ''config'' \<and> fst r = []
              then deny ''managed Docker Compose operations require an explicit Compose file''
            else step_then (if fst r = [] then step_return () else validate_compose_file env (fst r))
              (compose_tail command rest)))"

section \<open>Plain commands\<close>

text \<open>
  The loops over options: words of \<open>singles\<close> stand alone, words of \<open>pairs\<close> take the next word.
  With \<open>keep\<close> the loop stops before the last word; it may also step over it.
\<close>

fun flag_loop :: "bool \<Rightarrow> string list \<Rightarrow> string list \<Rightarrow> string \<Rightarrow> string list \<Rightarrow> string list broker" where
  "flag_loop keep singles pairs msg [] = step_return []"
| "flag_loop keep singles pairs msg [w] =
     (if keep then step_return [w] else if w \<in> set singles then step_return [] else deny msg)"
| "flag_loop keep singles pairs msg (w # v # ws) =
     (if w \<in> set singles then flag_loop keep singles pairs msg (v # ws)
      else if w \<in> set pairs then flag_loop keep singles pairs msg ws
      else deny msg)"

definition only_flags :: "string list \<Rightarrow> string list \<Rightarrow> string \<Rightarrow> string list \<Rightarrow> unit broker" where
  "only_flags singles pairs msg args = step_then (flag_loop False singles pairs msg args) (step_return ())"

fun skip_pairs :: "string \<Rightarrow> string list \<Rightarrow> string list" where
  "skip_pairs flag (w # v # ws) = (if w = flag then skip_pairs flag ws else w # v # ws)"
| "skip_pairs flag ws = ws"

text \<open>The one word of a list, checked.\<close>

definition one_word :: "string \<Rightarrow> (string \<Rightarrow> unit broker) \<Rightarrow> string list \<Rightarrow> unit broker" where
  "one_word msg check ws = (case ws of [w] \<Rightarrow> check w | _ \<Rightarrow> deny msg)"

definition int_between :: "nat \<Rightarrow> nat \<Rightarrow> string \<Rightarrow> bool broker" where
  "int_between lo hi s = (if \<not> py_isdigit s then step_return False
     else step_bind (step_res (py_int s)) (\<lambda>n. step_return (lo \<le> n \<and> n \<le> hi)))"

definition json_format :: "string list" where
  "json_format = [''--format'', ''{{json .}}'']"

definition stats_words :: "string list \<Rightarrow> string list" where
  "stats_words args =
     (let a = (case args of w # ws \<Rightarrow> if w = ''--no-stream'' then ws else args | [] \<Rightarrow> [])
      in case a of w # v # ws \<Rightarrow> if w = ''--format'' then ws else a | _ \<Rightarrow> a)"

definition validate_simple :: "string \<Rightarrow> string list \<Rightarrow> unit broker" where
  "validate_simple command args =
     (if command = ''version'' then ensure (args \<in> {[], json_format}) ''unsupported Docker version options''
      else if command = ''info'' then ensure (args \<in> {[], json_format}) ''unsupported Docker info options''
      else if command = ''ps'' then
        only_flags [''-a'', ''--no-trunc'', ''--size''] [''--format'', ''--filter''] ''unsupported Docker ps option'' args
      else if command \<in> {''start'', ''pause'', ''unpause''} then
        one_word (''Docker '' @ command @ '' requires one container'') (docker_identifier ''container'') args
      else if command \<in> {''stop'', ''restart''} then
        (let msg = ''unsupported Docker '' @ command @ '' options'' in
         case args of [f, n, c] \<Rightarrow> if f \<noteq> ''--time'' then deny msg
             else step_bind (int_between 1 300 n) (\<lambda>ok. if ok then docker_identifier ''container'' c else deny msg)
         | _ \<Rightarrow> deny msg)
      else if command = ''kill'' then
        (case args of [f, s, c] \<Rightarrow> if f = ''--signal''
               \<and> s \<in> {''KILL'', ''TERM'', ''HUP'', ''INT'', ''QUIT'', ''USR1'', ''USR2''}
             then docker_identifier ''container'' c else deny ''unsupported Docker kill options''
         | _ \<Rightarrow> deny ''unsupported Docker kill options'')
      else if command = ''rename'' then
        (case args of [a, b] \<Rightarrow> step_then (docker_identifier ''container'' a) (docker_identifier ''container'' b)
         | _ \<Rightarrow> deny ''Docker rename requires source and destination'')
      else if command = ''rm'' then
        one_word ''Docker rm requires one container'' (docker_identifier ''container'')
          (case args of w # ws \<Rightarrow> if w \<in> {''--force'', ''-f''} then ws else args | [] \<Rightarrow> [])
      else if command = ''inspect'' then
        if args = [] \<or> 500 < length args then deny ''invalid Docker inspect request''
        else each_check (docker_identifier ''object'') args
      else if command = ''top'' then
        (case args of [c, f, v] \<Rightarrow> if f = ''-eo'' then docker_identifier ''container'' c
             else deny ''unsupported Docker top options''
         | _ \<Rightarrow> deny ''unsupported Docker top options'')
      else if command = ''logs'' then
        if args = [] then deny ''Docker logs target is required''
        else step_then (flag_loop True [''--timestamps''] [''--tail'', ''--since'', ''--until'']
          ''unsupported Docker logs option'' args) (docker_identifier ''container'' (last args))
      else if command = ''stats'' then
        (case stats_words args of [] \<Rightarrow> step_return () | [c] \<Rightarrow> docker_identifier ''container'' c
         | _ \<Rightarrow> deny ''Docker stats accepts at most one container'')
      else if command = ''events'' then
        (case args of [a, s, b, u, f, v] \<Rightarrow>
             if [a, b, f] \<noteq> [''--since'', ''--until'', ''--format''] then deny ''unsupported Docker events options''
             else ensure (duration_ok s \<and> duration_ok u) ''invalid Docker events duration''
         | _ \<Rightarrow> deny ''unsupported Docker events options'')
      else if command = ''search'' then
        (case args of [f, n, g, v, w] \<Rightarrow>
             if f \<noteq> ''--limit'' \<or> \<not> py_isdigit n \<or> g \<noteq> ''--format'' then deny ''unsupported Docker search options''
             else step_bind (int_between 1 100 n) (\<lambda>ok. ensure ok ''Docker search limit is out of range'')
         | _ \<Rightarrow> deny ''unsupported Docker search options'')
      else if command = ''pull'' then
        (case args of [i] \<Rightarrow> docker_image i
         | [f, pl, i] \<Rightarrow> if f = ''--platform'' \<and> pl \<in> {''linux/amd64'', ''linux/arm64'', ''linux/arm/v7''}
             then docker_image i else deny ''unsupported Docker pull options''
         | _ \<Rightarrow> deny ''unsupported Docker pull options'')
      else if command = ''update'' then
        if args = [] then deny ''Docker update target is required''
        else step_bind (flag_loop True [] [''--cpu-shares'', ''--memory'', ''--memory-swap'', ''--restart'']
          ''unsupported Docker update option'' args)
          (one_word ''invalid Docker update arguments'' (docker_identifier ''container''))
      else if command = ''logout'' then
        one_word ''Docker logout requires one registry'' (docker_identifier ''registry'') args
      else if command = ''login'' then
        (case args of [r, f, u, s] \<Rightarrow> if f = ''--username'' \<and> s = ''--password-stdin''
             then docker_identifier ''registry'' r else deny ''Docker login must use password-stdin''
         | _ \<Rightarrow> deny ''Docker login must use password-stdin'')
      else deny ''Docker command is not allowlisted'')"

section \<open>Command families\<close>

definition check_data :: "broker_env \<Rightarrow> string \<Rightarrow> string \<Rightarrow> unit broker" where
  "check_data env label v = step_then (data_path env label v) (step_return ())"

definition drop_force :: "string list \<Rightarrow> string list" where
  "drop_force ws = (case ws of w # vs \<Rightarrow> if w = ''--force'' then vs else ws | [] \<Rightarrow> [])"

definition validate_container :: "broker_env \<Rightarrow> string \<Rightarrow> string list \<Rightarrow> unit broker" where
  "validate_container env action ws =
     (if action = ''inspect'' then
        if ws = [] \<or> 500 < length ws then deny ''invalid Docker container inspect request''
        else each_check (docker_identifier ''container'') ws
      else if action = ''export'' then
        (case ws of [f, q, c] \<Rightarrow> if f = ''--output''
             then step_then (check_data env ''container export'' q) (docker_identifier ''container'' c)
             else deny ''unsupported Docker container export options''
         | _ \<Rightarrow> deny ''unsupported Docker container export options'')
      else if action = ''import'' then
        (case ws of [q, i] \<Rightarrow> step_then (check_data env ''container import'' q) (docker_image i)
         | _ \<Rightarrow> deny ''Docker container import requires archive and image'')
      else deny ''unsupported Docker container command'')"

definition validate_image :: "broker_env \<Rightarrow> string \<Rightarrow> string list \<Rightarrow> unit broker" where
  "validate_image env action ws =
     (if action = ''ls'' then
        only_flags [''--digests'', ''--no-trunc''] [''--filter'', ''--format''] ''unsupported Docker image ls option'' ws
      else if action = ''inspect'' then
        (case (case ws of f # v # vs \<Rightarrow> if f = ''--format'' then vs else ws | _ \<Rightarrow> ws) of
           [] \<Rightarrow> deny ''Docker image inspect target is required'' | v # vs \<Rightarrow> each_check docker_image (v # vs))
      else if action = ''rm'' then one_word ''Docker image rm requires one image'' docker_image (drop_force ws)
      else if action = ''prune'' then ensure (ws = [''--force'']) ''unsupported Docker image prune options''
      else if action = ''save'' then
        (case ws of [f, q, i] \<Rightarrow> if f = ''--output''
             then step_then (check_data env ''image archive'' q) (docker_image i)
             else deny ''unsupported Docker image save options''
         | _ \<Rightarrow> deny ''unsupported Docker image save options'')
      else if action = ''load'' then
        (case ws of [f, q] \<Rightarrow> if f = ''--input'' then check_data env ''image archive'' q
             else deny ''unsupported Docker image load options''
         | _ \<Rightarrow> deny ''unsupported Docker image load options'')
      else if action = ''import'' then
        (case skip_pairs ''--change'' ws of
           [q, i] \<Rightarrow> step_then (check_data env ''image import'' q) (docker_image i)
         | _ \<Rightarrow> deny ''invalid Docker image import request'')
      else deny ''unsupported Docker image command'')"

definition validate_volume :: "string \<Rightarrow> string list \<Rightarrow> unit broker" where
  "validate_volume action ws =
     (if action = ''ls'' then only_flags [] [''--format'', ''--filter''] ''unsupported Docker volume ls option'' ws
      else if action = ''inspect'' then
        one_word ''Docker volume inspect requires one volume'' (docker_identifier ''volume'') ws
      else if action = ''create'' then
        one_word ''invalid Docker volume create request'' (docker_identifier ''volume'') (skip_pairs ''--label'' ws)
      else if action = ''rm'' then
        one_word ''Docker volume rm requires one volume'' (docker_identifier ''volume'') (drop_force ws)
      else if action = ''prune'' then ensure (ws = [''--force'']) ''unsupported Docker volume prune options''
      else deny ''unsupported Docker volume command'')"

text \<open>\<open>network_ok\<close> and \<open>address_ok\<close>: the library parses the text as a network or an address.\<close>

fun network_create_options ::
  "(string \<Rightarrow> bool) \<Rightarrow> (string \<Rightarrow> bool) \<Rightarrow> string list \<Rightarrow> string list broker" where
  "network_create_options network_ok address_ok [] = step_return []"
| "network_create_options network_ok address_ok [w] = step_return [w]"
| "network_create_options network_ok address_ok (opt # v # ws) =
     (if opt \<in> {''--internal'', ''--ipv6''} then network_create_options network_ok address_ok (v # ws)
      else if opt \<notin> {''--driver'', ''--opt'', ''--subnet'', ''--ip-range'', ''--gateway'', ''--label''}
        then deny ''unsupported Docker network create option''
      else if opt = ''--driver'' \<and> v \<noteq> ''bridge''
        then deny ''only the Docker bridge network driver is permitted''
      else if opt = ''--opt'' \<and> v \<noteq> ''com.docker.network.bridge.enable_ip_masquerade=false''
        then deny ''unsupported Docker network option''
      else if opt \<in> {''--subnet'', ''--ip-range''} \<and> \<not> network_ok v then deny ''invalid Docker network range''
      else if opt = ''--gateway'' \<and> \<not> address_ok v then deny ''invalid Docker network gateway''
      else network_create_options network_ok address_ok ws)"

definition validate_network ::
  "(string \<Rightarrow> bool) \<Rightarrow> (string \<Rightarrow> bool) \<Rightarrow> string \<Rightarrow> string list \<Rightarrow> unit broker" where
  "validate_network network_ok address_ok action ws =
     (if action = ''ls'' then
        only_flags [''--no-trunc''] [''--format'', ''--filter''] ''unsupported Docker network ls option'' ws
      else if action = ''inspect'' then
        if ws = [] \<or> 500 < length ws then deny ''invalid Docker network inspect request''
        else each_check (docker_identifier ''network'') ws
      else if action = ''create'' then
        step_bind (network_create_options network_ok address_ok ws) (\<lambda>r.
          one_word ''Docker network name is required'' (\<lambda>n. step_then (docker_identifier ''network'' n)
            (ensure (n \<notin> set system_networks) ''protected Docker network name'')) r)
      else if action = ''rm'' then
        (case ws of [n] \<Rightarrow> if n \<in> set system_networks then deny ''invalid Docker network removal''
             else docker_identifier ''network'' n
         | _ \<Rightarrow> deny ''invalid Docker network removal'')
      else if action = ''prune'' then ensure (ws = [''--force'']) ''unsupported Docker network prune options''
      else if action \<in> {''connect'', ''disconnect''} then
        (case (if action = ''disconnect'' then drop_force ws else ws) of
           [n, c] \<Rightarrow> if n \<in> set system_networks then deny ''invalid Docker network connection request''
             else step_then (docker_identifier ''network'' n) (docker_identifier ''container'' c)
         | _ \<Rightarrow> deny ''invalid Docker network connection request'')
      else deny ''unsupported Docker network command'')"

definition validate_family ::
  "broker_env \<Rightarrow> (string \<Rightarrow> bool) \<Rightarrow> (string \<Rightarrow> bool) \<Rightarrow> string \<Rightarrow> string list \<Rightarrow> unit broker" where
  "validate_family env network_ok address_ok family args =
     (if family = ''system'' then ensure (args = ''df'' # json_format) ''unsupported Docker system command''
      else if family = ''builder'' then ensure (args = [''prune'', ''--force'']) ''unsupported Docker builder command''
      else (case args of [] \<Rightarrow> deny (''Docker '' @ family @ '' subcommand is required'')
        | action # ws \<Rightarrow>
            if family = ''container'' then validate_container env action ws
            else if family = ''image'' then validate_image env action ws
            else if family = ''volume'' then validate_volume action ws
            else if family = ''network'' then validate_network network_ok address_ok action ws
            else deny ''Docker command family is not allowlisted''))"

section \<open>The policy\<close>

definition validate_docker ::
  "broker_env \<Rightarrow> (string \<Rightarrow> bool) \<Rightarrow> (string \<Rightarrow> bool) \<Rightarrow> string \<Rightarrow> string list \<Rightarrow> unit broker" where
  "validate_docker env network_ok address_ok tool args =
     (if tool = ''docker-compose'' \<or> hd args = ''compose'' then validate_compose env args
      else if hd args \<in> {''run'', ''create''} then validate_run env args
      else if hd args \<in> {''container'', ''image'', ''volume'', ''network'', ''system'', ''builder''}
        then validate_family env network_ok address_ok (hd args) (tl args)
      else validate_simple (hd args) (tl args))"

definition stdin_value :: "payload \<Rightarrow> string option option" where
  "stdin_value p = (case get_value p ''stdin'' of None \<Rightarrow> Some None
     | Some v \<Rightarrow> (case str_value (Some v) of None \<Rightarrow> None
         | Some s \<Rightarrow> if 65536 < int (utf8_length s) \<or> CHR 0x00 \<in> set s then None else Some (Some s)))"

definition docker_timeout :: "payload \<Rightarrow> real option" where
  "docker_timeout p = (case map_of p ''timeout'' of Some (JBool b) \<Rightarrow> None | _ \<Rightarrow> timeout_value p 60 3600)"

definition run_docker ::
  "broker_env \<Rightarrow> (string \<Rightarrow> bool) \<Rightarrow> (string \<Rightarrow> bool) \<Rightarrow> payload \<Rightarrow> command_result broker" where
  "run_docker env network_ok address_ok p =
     step_then (payload_keys [''tool'', ''args'', ''stdin'', ''timeout''] p)
     (step_bind (policy_token 32 ''Docker tool'' (map_of p ''tool'')) (\<lambda>tool.
      if tool \<notin> {''docker'', ''docker-compose''} then deny ''Docker broker accepts only docker or docker-compose''
      else (case list_value (args_value p) of None \<Rightarrow> deny ''invalid Docker argument list''
        | Some vs \<Rightarrow> if vs = [] \<or> 512 < length vs then deny ''invalid Docker argument list''
            else (case str_items (token_ok 4096) vs of None \<Rightarrow> deny ''invalid Docker argument''
              | Some args \<Rightarrow> (case stdin_value p of None \<Rightarrow> deny ''invalid Docker standard input''
                  | Some input \<Rightarrow> (case docker_timeout p of None \<Rightarrow> deny ''invalid Docker timeout''
                      | Some limit \<Rightarrow> step_then (validate_docker env network_ok address_ok tool args)
                          (if input \<noteq> None
                             \<and> \<not> (tool = ''docker'' \<and> hd args = ''login'' \<and> last args = ''--password-stdin'')
                           then deny ''Docker standard input is accepted only for registry login''
                           else step_bind (resolve_tool env tool) (\<lambda>exe.
                             perform env (Ran (exe # args) input limit)))))))))"

end
