(* ===== verification/Broker_Update.thy ===== *)
theory Broker_Update
  imports Broker_Account
begin

text \<open>
  The update of the panel, \<^verbatim>\<open>privileged_broker/update_policy.py\<close>: the installer is fetched
  from one address, kept with the runner script in a fresh directory, and the runner is started as
  a transient unit.
\<close>

definition installer_url :: string where
  "installer_url =
     ''https://raw.githubusercontent.com/chmajster/Algen-server-web-explorer-panel/main/install/install.sh''"

definition max_installer :: int where
  "max_installer = 2097152"

text \<open>\<^verbatim>\<open>None\<close> when the revision is refused.\<close>

definition update_revision :: "payload \<Rightarrow> string option option" where
  "update_revision p = (case get_value p ''revision'' of None \<Rightarrow> Some None
     | Some v \<Rightarrow> (case str_value (Some v) of None \<Rightarrow> None
         | Some s \<Rightarrow> if len_between 40 40 s \<and> list_all lower_hex s then Some (Some s) else None))"

definition flag_value :: "payload \<Rightarrow> string \<Rightarrow> json" where
  "flag_value p k = (case map_of p k of None \<Rightarrow> JBool False | Some v \<Rightarrow> v)"

section \<open>The runner script\<close>

definition dquoted :: "string \<Rightarrow> string" where
  "dquoted s = [CHR 34] @ s @ [CHR 34]"

definition squoted :: "string \<Rightarrow> string" where
  "squoted s = [CHR 39] @ s @ [CHR 39]"

definition json_field :: "string \<Rightarrow> string \<Rightarrow> string" where
  "json_field name v = dquoted name @ '':'' @ v"

definition progress_line :: "string list \<Rightarrow> string \<Rightarrow> string list \<Rightarrow> string \<Rightarrow> string" where
  "progress_line values unit_name args target =
     ''printf '' @ squoted (''{'' @ join_with '','' (map (\<lambda>(k, v). json_field k v)
         (zip [''running'', ''exit_code'', ''started_at'', ''finished_at'', ''pid''] values
          @ [(''unit'', dquoted unit_name)])) @ ''}'' @ [CHR 92] @ ''n'')
     @ '' '' @ join_with '' '' (map dquoted args) @ '' > '' @ target @ ''.tmp''"

definition publish_lines :: "string \<Rightarrow> string \<Rightarrow> string list" where
  "publish_lines owner target =
     [''chown '' @ owner @ '' '' @ target @ ''.tmp'', ''chmod 0640 '' @ target @ ''.tmp'',
      ''mv -f -- '' @ target @ ''.tmp '' @ target]"

definition installer_command :: "string \<Rightarrow> string \<Rightarrow> string option \<Rightarrow> bool \<Rightarrow> bool \<Rightarrow> string list" where
  "installer_command bash installer revision config audit =
     [bash, installer, ''--existing-action'', ''update'', ''--yes'']
     @ (case revision of None \<Rightarrow> [] | Some r \<Rightarrow> [''--revision'', r])
     @ (if config then [''--update-config''] else []) @ (if audit then [''--npm-audit-fix''] else [])"

definition runner_text :: "string list \<Rightarrow> string \<Rightarrow> string \<Rightarrow> string \<Rightarrow> string \<Rightarrow> string" where
  "runner_text command unit_name owner log_path progress =
     (let lg = shell_quote log_path; target = shell_quote progress in
      join_with [CHR 10] (
        [''#!/usr/bin/env bash'', ''set +e'', ''touch '' @ lg, ''chown '' @ owner @ '' '' @ lg,
         ''chmod 0640 '' @ lg, ''exec >> '' @ lg @ '' 2>&1'',
         ''printf '' @ squoted ([CHR 92] @ ''n=== WebNAS update started (%s) ==='' @ [CHR 92] @ ''n'')
           @ '' '' @ shell_quote unit_name,
         progress_line [''true'', ''null'', ''%s'', ''null'', ''%s''] unit_name [''$(date +%s)'', ''$$''] target]
        @ publish_lines owner target
        @ [join_with '' '' (map shell_quote command), ''rc=$?'',
           progress_line [''false'', ''%s'', ''null'', ''%s'', ''%s''] unit_name
             [''$rc'', ''$(date +%s)'', ''$$''] target]
        @ publish_lines owner target @ [''exit '' @ dquoted ''$rc'', []]))"

section \<open>The update\<close>

definition fetch_installer :: "broker_env \<Rightarrow> string broker" where
  "fetch_installer env h =
     (case perform env (Fetched installer_url) h of
        (Inl e, h') \<Rightarrow> (Inl (if is_os_error e
            then RuntimeError ''could not download the trusted WebNAS installer'' else e), h')
      | (Inr r, h') \<Rightarrow>
          if max_installer < int (length (cm_out r)) \<or> \<not> prefix ''#!/usr/bin/env bash'' (cm_out r)
          then deny ''downloaded WebNAS installer is invalid'' h' else step_return (cm_out r) h')"

definition webnas_owner :: "broker_env \<Rightarrow> string broker" where
  "webnas_owner env =
     (case be_account env ''webnas'' of None \<Rightarrow> step_raise (KeyError ''webnas'')
      | Some (uid, g) \<Rightarrow> (case be_group env ''webnas'' of
            None \<Rightarrow> step_raise (RuntimeError ''webnas group is unavailable'')
          | Some gid \<Rightarrow> step_return (show_int uid @ '':'' @ show_int gid)))"

definition update_unit :: "broker_env \<Rightarrow> string" where
  "update_unit env = ''webnas-self-update-'' @ show_int (be_now_ms env) @ ''.service''"

definition update_directory :: "broker_env \<Rightarrow> string" where
  "update_directory env =
     path_child ''/run/webnas-update'' (''webnas-self-update-'' @ show_int (be_now_ms env))"

definition write_script :: "broker_env \<Rightarrow> string \<Rightarrow> string \<Rightarrow> unit broker" where
  "write_script env path content =
     step_then (perform env (Wrote path content)) (step_then (perform env (Set_mode path 448)) (step_return ()))"

definition update_reply :: "broker_env \<Rightarrow> string \<Rightarrow> command_result" where
  "update_reply env log_path = \<lparr>cm_code = 0, cm_out = json_dumps (be_float env) '', '' '': ''
     (JObj [(''unit'', JStr (update_unit env)), (''pid'', JNull), (''log'', JStr log_path)]), cm_err = []\<rparr>"

definition start_unit :: "broker_env \<Rightarrow> string \<Rightarrow> string \<Rightarrow> command_result broker" where
  "start_unit env runner log_path =
     step_bind (resolve_tool env ''systemd-run'') (\<lambda>exe. step_bind (resolve_tool env ''bash'') (\<lambda>bash.
     step_bind (perform env (Ran [exe, ''--system'', ''--no-ask-password'', ''--unit'', update_unit env,
         ''--collect'', ''--no-block'', ''--property=Type=exec'', ''--property=TimeoutStopSec=infinity'',
         ''--'', bash, runner] None 30)) (\<lambda>r.
     step_return (if cm_code r \<noteq> 0 then r else update_reply env log_path))))"

definition start_update :: "broker_env \<Rightarrow> string option \<Rightarrow> bool \<Rightarrow> bool \<Rightarrow> command_result broker" where
  "start_update env revision config audit =
     step_bind (step_res (be_settings env)) (\<lambda>cfg.
     let settings = path_child (bs_data_dir cfg) ''settings''; logs = path_posix (bs_log_dir cfg);
         log_path = path_child logs ''update.log''; dir = update_directory env;
         installer = path_child dir ''install.sh''; runner = path_child dir ''runner.sh''
     in step_then (perform env (Made_dir settings 511)) (step_then (perform env (Made_dir logs 511))
        (if \<not> update_unit_ok (update_unit env) then deny ''invalid update unit''
         else step_then (perform env (Made_dir dir 448))
          (step_bind (fetch_installer env) (\<lambda>content. step_then (write_script env installer content)
          (step_bind (webnas_owner env) (\<lambda>owner. step_bind (resolve_tool env ''bash'') (\<lambda>bash.
           step_then (write_script env runner (runner_text
               (installer_command bash installer revision config audit) (update_unit env) owner log_path
               (path_child settings ''update_progress.json'')))
             (start_unit env runner log_path)))))))))"

definition run_update :: "broker_env \<Rightarrow> payload \<Rightarrow> command_result broker" where
  "run_update env p =
     step_then (payload_keys [''update_config'', ''npm_audit_fix'', ''revision''] p)
     (case update_revision p of None \<Rightarrow> deny ''invalid recovery revision''
      | Some revision \<Rightarrow>
          if revision \<noteq> None \<and> (json_truthy (flag_value p ''update_config'') \<or> json_truthy (flag_value p ''npm_audit_fix''))
          then deny ''recovery must preserve configuration and dependencies''
          else (case (flag_value p ''update_config'', flag_value p ''npm_audit_fix'') of
              (JBool config, JBool audit) \<Rightarrow> start_update env revision config audit
            | _ \<Rightarrow> deny ''invalid update options''))"

definition dispatch_update :: "broker_env \<Rightarrow> broker_request \<Rightarrow> broker_response broker" where
  "dispatch_update env rq =
     (if bq_op rq \<noteq> Op_update_service
      then step_return (failure_response rq True ''unsupported update policy operation'')
      else respond rq (\<lambda>e. take 2000 (exn_message e)) (\<lambda>e. is_os_error e \<or> is_runtime_error e)
        (last_chars max_output) (run_update env (bq_payload rq)))"

end
