(* ===== verification/Broker_Worker.thy ===== *)
theory Broker_Worker
  imports Broker_Rules
begin

text \<open>
  File operations on behalf of a user, \<^verbatim>\<open>privileged_broker/file_worker_policy.py\<close>: the
  request is checked against the paths the user reaches and handed to the worker process, and the
  temporary file of an upload is removed in every case. The order in which the source checks the
  paths of a request is that of a set, here \<open>path\<close>, \<open>src\<close>, \<open>dst\<close>; it only selects the message.
\<close>

section \<open>Checked requests\<close>

definition file_keys :: "(string \<times> string list) list" where
  "file_keys =
     [(''list'', [''path'', ''paginate'', ''sort'', ''direction'', ''page'', ''page_size'',
         ''folders_first'', ''filter'', ''show_hidden'']),
      (''stat'', [''path'']), (''mkdir'', [''path'']), (''create'', [''path'']),
      (''copy'', [''src'', ''dst'']), (''move'', [''src'', ''dst'']), (''rename'', [''src'', ''dst'']),
      (''delete'', [''path'']), (''trash'', [''path'']), (''chmod'', [''path'', ''mode'']),
      (''import_upload'', [''tmp'', ''dst'']), (''export_download'', [''src'', ''tmp'']),
      (''preview'', [''path'', ''limit'']), (''read_text'', [''path'']),
      (''write_text'', [''path'', ''content'', ''expected_mtime_ns'']),
      (''search'', [''path'', ''query'', ''limit'', ''max_entries'', ''timeout_seconds'', ''match_mode'',
         ''item_type'', ''case_sensitive'', ''show_hidden'', ''include_summary''])]"

definition path_keys :: "string list" where
  "path_keys = [''path'', ''src'', ''dst'']"

definition temp_suffixes :: "(string \<times> string) list" where
  "temp_suffixes = [(''import_upload'', ''.upload''), (''export_download'', ''.download'')]"

record file_request =
  fw_user :: string
  fw_op :: string
  fw_payload :: payload
  fw_uid :: int
  fw_gid :: int
  fw_temp :: "string option"

definition raw_path :: "json \<Rightarrow> string option" where
  "raw_path v = (case str_value (Some v) of None \<Rightarrow> None
     | Some s \<Rightarrow> if s = [] \<or> CHR 0x00 \<in> set s then None else Some s)"

definition is_http_error :: "py_exn \<Rightarrow> bool" where
  "is_http_error e = (case e of HTTPException n m \<Rightarrow> True | _ \<Rightarrow> False)"

definition check_path :: "broker_env \<Rightarrow> string \<Rightarrow> payload \<Rightarrow> string \<Rightarrow> unit broker" where
  "check_path env user p key =
     (case map_of p key of None \<Rightarrow> step_return ()
      | Some v \<Rightarrow> (case raw_path v of None \<Rightarrow> deny (''invalid '' @ key)
          | Some raw \<Rightarrow> (case resolve_user_path (be_paths env) user raw of
                Inl e \<Rightarrow> if is_http_error e
                  then deny (key @ '' is outside the user'' @ [CHR 39] @ ''s allowed roots'') else step_raise e
              | Inr q \<Rightarrow> step_bind (step_res (be_resolve env raw)) (\<lambda>real.
                  ensure (path_parts q = path_parts real) (''invalid '' @ key)))))"

definition valid_temp :: "broker_env \<Rightarrow> payload \<Rightarrow> string \<Rightarrow> string broker" where
  "valid_temp env p ext =
     (case (case map_of p ''tmp'' of None \<Rightarrow> None | Some v \<Rightarrow> raw_path v) of
        None \<Rightarrow> deny ''invalid temporary file path''
      | Some raw \<Rightarrow> step_bind (step_res (be_settings env)) (\<lambda>cfg.
          step_bind (step_res (be_resolve env (bs_temp_dir cfg))) (\<lambda>top.
          if \<not> prefix ''/'' raw then deny ''temporary file is outside the WebNAS temporary directory''
          else step_bind (step_res (be_resolve env (path_parent raw))) (\<lambda>parent.
            if path_parts parent \<noteq> path_parts top
              then deny ''temporary file is outside the WebNAS temporary directory''
            else if path_suffix raw \<noteq> ext \<or> \<not> len_between 32 32 (path_stem raw) \<or> \<not> list_all lower_hex (path_stem raw)
              then deny ''invalid WebNAS temporary file name''
            else step_return (path_posix raw)))))"

definition request_temp :: "broker_env \<Rightarrow> string \<Rightarrow> payload \<Rightarrow> string option broker" where
  "request_temp env action p =
     (case map_of temp_suffixes action of
        Some ext \<Rightarrow> step_bind (valid_temp env p ext) (\<lambda>t. step_return (Some t))
      | None \<Rightarrow> if map_of p ''tmp'' \<noteq> None then deny ''temporary file is not valid for this operation''
          else step_return None)"

definition validate_file_request :: "broker_env \<Rightarrow> broker_request \<Rightarrow> file_request broker" where
  "validate_file_request env rq =
     (let q = bq_payload rq; extra = extra_keys q [''username'', ''op'', ''payload''] in
      if extra \<noteq> [] then deny (''unsupported file worker parameters: '' @ join_with '', '' (sort extra))
      else (case str_value (map_of q ''username'') of
          None \<Rightarrow> deny ''file worker actor does not match target user''
        | Some user \<Rightarrow> if user = [] \<or> user \<noteq> bq_actor rq then deny ''file worker actor does not match target user''
            else (case str_value (map_of q ''op'') of None \<Rightarrow> deny ''file worker operation is not allowlisted''
              | Some action \<Rightarrow> (case map_of file_keys action of None \<Rightarrow> deny ''file worker operation is not allowlisted''
                | Some allowed \<Rightarrow> (case map_of q ''payload'' of
                    Some (JObj p) \<Rightarrow>
                      if extra_keys p allowed \<noteq> [] then deny (''unsupported '' @ action @ '' parameters: ''
                        @ join_with '', '' (sort (extra_keys p allowed)))
                      else (case be_account env user of None \<Rightarrow> deny ''file worker target user does not exist''
                        | Some (uid, gid) \<Rightarrow> step_then (each_check (check_path env user p) path_keys)
                            (step_bind (request_temp env action p) (\<lambda>temp. step_return
                              \<lparr>fw_user = user, fw_op = action, fw_payload = p, fw_uid = uid, fw_gid = gid, fw_temp = temp\<rparr>)))
                  | _ \<Rightarrow> deny ''file worker payload must be an object'')))))"

section \<open>The worker\<close>

definition take_over :: "broker_env \<Rightarrow> string \<Rightarrow> int \<Rightarrow> int \<Rightarrow> unit broker" where
  "take_over env path uid gid =
     step_then (perform env (Set_owner path uid gid)) (step_then (perform env (Set_mode path 384)) (step_return ()))"

definition missing_file :: "py_exn \<Rightarrow> bool" where
  "missing_file e = (case e of FileNotFoundError m \<Rightarrow> True | _ \<Rightarrow> False)"

text \<open>A look at the file system as the steps so far have left it.\<close>

definition look_at :: "broker_env \<Rightarrow> string \<Rightarrow> ((bool \<times> int) res \<Rightarrow> 'a broker) \<Rightarrow> 'a broker" where
  "look_at env path f h = f (be_lstat env h path) h"

definition prepare_upload :: "broker_env \<Rightarrow> string \<Rightarrow> int \<Rightarrow> int \<Rightarrow> unit broker" where
  "prepare_upload env path uid gid = look_at env path (\<lambda>details. case details of
       Inl e \<Rightarrow> if missing_file e then deny ''upload temporary file does not exist'' else step_raise e
     | Inr (regular, links) \<Rightarrow> if \<not> regular \<or> links \<noteq> 1
         then deny ''upload temporary path is not a standalone regular file'' else take_over env path uid gid)"

definition make_download_readable :: "broker_env \<Rightarrow> string \<Rightarrow> unit broker" where
  "make_download_readable env path = look_at env path (\<lambda>details. case details of
       Inl e \<Rightarrow> step_raise e
     | Inr (regular, links) \<Rightarrow> if \<not> regular \<or> links \<noteq> 1
         then deny ''download temporary path is not a standalone regular file''
         else (case be_account env (be_service_user env) of
             None \<Rightarrow> step_raise (KeyError (be_service_user env))
           | Some (uid, gid) \<Rightarrow> take_over env path uid gid))"

definition worker_command :: "broker_env \<Rightarrow> string list" where
  "worker_command env = [be_python env, ''-m'', ''app.worker'', ''--user'', ''-'', ''--op'', ''-'', ''--payload'', ''-'']"

definition worker_envelope :: "broker_env \<Rightarrow> file_request \<Rightarrow> string" where
  "worker_envelope env f = base64 (json_dumps (be_float env) '','' '':''
     (JObj [(''user'', JStr (fw_user f)), (''op'', JStr (fw_op f)), (''payload'', JObj (fw_payload f))]))"

definition worker_timeout :: "string \<Rightarrow> real" where
  "worker_timeout action = (if action = ''search'' then 30 else 3600)"

definition worker_reply :: "broker_request \<Rightarrow> command_result \<Rightarrow> broker_response" where
  "worker_reply rq r =
     \<lparr>bp_id = bq_id rq, bp_ok = (cm_code r = 0), bp_exit_code = cm_code r, bp_stdout = cm_out r,
      bp_stderr = cm_err r, bp_error = (if cm_code r = 0 then None else Some ''FILE_WORKER_FAILED'')\<rparr>"

definition run_worker :: "broker_env \<Rightarrow> broker_request \<Rightarrow> file_request \<Rightarrow> broker_response broker" where
  "run_worker env rq f =
     step_bind (perform env (Ran (worker_command env) (Some (worker_envelope env f)) (worker_timeout (fw_op f)))) (\<lambda>r.
     if cm_code r \<noteq> 0 then step_return (worker_reply rq r)
     else (case (if fw_op f = ''export_download'' then fw_temp f else None) of
         None \<Rightarrow> step_return (worker_reply rq r)
       | Some temp \<Rightarrow> step_then (make_download_readable env temp) (step_return (worker_reply rq r))))"

text \<open>The exceptions the policy answers itself.\<close>

definition answered :: "broker_request \<Rightarrow> broker_response broker \<Rightarrow> broker_response broker" where
  "answered rq m h = (case m h of
       (Inr r, h') \<Rightarrow> (Inr r, h')
     | (Inl e, h') \<Rightarrow>
         if is_policy_error e then (Inr (failure_response rq True (take 2000 (exn_message e))), h')
         else if is_os_error e \<or> is_runtime_error e \<or> is_subprocess_error e
           then (Inr (failure_response rq False (exn_type e)), h')
         else (Inl e, h'))"

text \<open>\<^verbatim>\<open>finally\<close>: the file is unlinked, a failure of that to be ignored.\<close>

definition with_cleanup :: "broker_env \<Rightarrow> string \<Rightarrow> 'a broker \<Rightarrow> 'a broker" where
  "with_cleanup env path m h =
     (case m h of (r, h') \<Rightarrow> (case perform env (Removed path) h' of
        (Inl e, h'') \<Rightarrow> if is_os_error e then (r, h'') else (Inl e, h'')
      | (Inr c, h'') \<Rightarrow> (r, h'')))"

definition serve_file :: "broker_env \<Rightarrow> broker_request \<Rightarrow> file_request \<Rightarrow> broker_response broker" where
  "serve_file env rq f =
     (case (if fw_op f = ''import_upload'' then fw_temp f else None) of
        None \<Rightarrow> answered rq (run_worker env rq f)
      | Some temp \<Rightarrow> with_cleanup env temp (answered rq
          (step_then (prepare_upload env temp (fw_uid f) (fw_gid f)) (run_worker env rq f))))"

definition dispatch_file_worker :: "broker_env \<Rightarrow> broker_request \<Rightarrow> broker_response broker" where
  "dispatch_file_worker env rq h =
     (case validate_file_request env rq h of
        (Inr f, h') \<Rightarrow> serve_file env rq f h'
      | (Inl e, h') \<Rightarrow> answered rq (step_raise e) h')"

end
