(* ===== verification/Broker_Server.thy ===== *)
theory Broker_Server
  imports Broker_Account Broker_Services Broker_Devices Broker_Infra Broker_Docker Broker_Update Broker_Worker
begin

text \<open>
  The dispatchers of \<^verbatim>\<open>extended_policy.py\<close> and \<^verbatim>\<open>storage_policy.py\<close> and the
  connections of \<^verbatim>\<open>server.py\<close>: the peer is checked, one frame is read, decoded and
  validated, the request is routed to its policy and one frame is sent back. The parameters of the
  record \<open>server\<close> are the libraries: the JSON decoder, the serialisation of a response, the PAM
  library and the parsers of IP networks and addresses.
\<close>

section \<open>Dispatchers\<close>

record server =
  sv_env :: broker_env
  sv_pam :: "string \<Rightarrow> string \<Rightarrow> bool res"
  sv_network_ok :: "string \<Rightarrow> bool"
  sv_address_ok :: "string \<Rightarrow> bool"
  sv_decode :: "string \<Rightarrow> json res"
  sv_encode :: "broker_response \<Rightarrow> string"
  sv_expected_uid :: int

definition policy_caught :: "py_exn \<Rightarrow> bool" where
  "policy_caught e \<longleftrightarrow> is_os_error e \<or> is_runtime_error e \<or> is_subprocess_error e"

definition respond_redacted ::
  "broker_env \<Rightarrow> broker_request \<Rightarrow> command_result broker \<Rightarrow> broker_response broker" where
  "respond_redacted env rq = respond rq (redacted_message env) policy_caught (be_redact env max_output)"

definition custom_operations :: "broker_op list" where
  "custom_operations =
     [Op_ownership, Op_package, Op_module_hook, Op_samba_account, Op_mount, Op_mount_unit, Op_quota]"

definition extended_action :: "broker_env \<Rightarrow> broker_request \<Rightarrow> command_result broker" where
  "extended_action env rq = (let p = bq_payload rq in case bq_op rq of
       Op_ownership \<Rightarrow> run_ownership env p
     | Op_package \<Rightarrow> run_package env p
     | Op_module_hook \<Rightarrow> run_module_hook env p
     | Op_samba_account \<Rightarrow> run_samba_account env p
     | Op_mount \<Rightarrow> run_mount env p
     | Op_mount_unit \<Rightarrow> run_mount_unit env p
     | Op_quota \<Rightarrow> run_quota env p
     | _ \<Rightarrow> deny ''operation is not enabled'')"

definition extended_dispatch :: "broker_env \<Rightarrow> broker_request \<Rightarrow> broker_response broker" where
  "extended_dispatch env rq =
     (if bq_op rq = Op_firewall then dispatch_firewall env rq
      else if bq_op rq \<notin> set custom_operations then dispatch_base env rq
      else respond_redacted env rq (extended_action env rq))"

definition standard_dispatch :: "server \<Rightarrow> broker_request \<Rightarrow> broker_response broker" where
  "standard_dispatch sv rq =
     (let env = sv_env sv; p = bq_payload rq in
      if bq_op rq = Op_file_worker then dispatch_file_worker env rq
      else if bq_op rq = Op_docker
        then respond_redacted env rq (run_docker env (sv_network_ok sv) (sv_address_ok sv) p)
      else if bq_op rq = Op_docker_graceful_stop then respond_redacted env rq (run_docker_stop env p)
      else if bq_op rq = Op_package \<and> is_dpkg_repair p then respond_redacted env rq (run_dpkg_repair env p)
      else if bq_op rq \<noteq> Op_storage_probe then extended_dispatch env rq
      else respond_redacted env rq (run_storage_probe env p))"

definition server_dispatch :: "server \<Rightarrow> broker_request \<Rightarrow> broker_response broker" where
  "server_dispatch sv rq =
     (if bq_op rq = Op_account then dispatch_account (sv_env sv) rq
      else if bq_op rq = Op_update_service then dispatch_update (sv_env sv) rq
      else if bq_op rq = Op_pam_auth
        then step_return (dispatch_authentication (sv_pam sv) (sv_env sv) rq)
      else if bq_op rq \<in> {Op_ntp, Op_routing, Op_session} then dispatch_infrastructure (sv_env sv) rq
      else standard_dispatch sv rq)"

section \<open>Frames\<close>

definition max_frame :: int where
  "max_frame = 33554432"

definition finish_frame :: "string \<Rightarrow> string res" where
  "finish_frame raw =
     (if CHR 10 \<notin> set raw then Inl (ValueError ''request frame is incomplete'')
      else Inr (takeWhile (\<lambda>c. c \<noteq> CHR 10) raw))"

text \<open>What \<^verbatim>\<open>recv\<close> returns in turn; an empty chunk, or no more of them, is the end of the stream.\<close>

fun receive_frame :: "string \<Rightarrow> string res list \<Rightarrow> string res" where
  "receive_frame raw [] = finish_frame raw"
| "receive_frame raw (Inl e # cs) = Inl e"
| "receive_frame raw (Inr c # cs) =
     (if c = [] then finish_frame raw
      else if max_frame < int (length (raw @ c)) then Inl (ValueError ''request frame is too large'')
      else if CHR 10 \<in> set c then finish_frame (raw @ c)
      else receive_frame (raw @ c) cs)"

definition encode_frame :: "server \<Rightarrow> broker_response \<Rightarrow> string res" where
  "encode_frame sv r = (let frame = sv_encode sv r @ [CHR 10] in
     if max_frame < int (length frame) then Inl (ValueError ''broker frame is too large'') else Inr frame)"

section \<open>Connections\<close>

record connection =
  cn_uid :: "int res"
  cn_chunks :: "string res list"
  cn_send :: "string \<Rightarrow> unit res"

definition zero_id :: string where
  "zero_id = replicate 32 CHR ''0''"

definition error_response :: "broker_env \<Rightarrow> string \<Rightarrow> string \<Rightarrow> string \<Rightarrow> broker_response" where
  "error_response env i code msg =
     \<lparr>bp_id = (if len_between 32 32 i then i else zero_id), bp_ok = False, bp_exit_code = 126, bp_stdout = [],
      bp_stderr = be_redact env 2000 msg, bp_error = Some code\<rparr>"

definition known_id :: "json \<Rightarrow> string" where
  "known_id v = (case obj_get v ''request_id'' of Some (JStr i) \<Rightarrow> i | _ \<Rightarrow> zero_id)"

text \<open>\<^verbatim>\<open>json.loads(raw.decode())\<close>: a decoding error is a \<^verbatim>\<open>ValueError\<close> with the class as text.\<close>

definition is_value_error :: "py_exn \<Rightarrow> bool" where
  "is_value_error e = (case e of ValueError m \<Rightarrow> True | PolicyError m \<Rightarrow> True | _ \<Rightarrow> False)"

text \<open>The request id known so far, and the response or the exception raised.\<close>

definition answer_connection ::
  "server \<Rightarrow> connection \<Rightarrow> host_effect list \<Rightarrow> (string \<times> broker_response res) \<times> host_effect list" where
  "answer_connection sv cn h =
     (let invalid = (\<lambda>i m. Inr (error_response (sv_env sv) i ''INVALID_REQUEST'' m)) in
      case cn_uid cn of Inl e \<Rightarrow> ((zero_id, Inl e), h)
      | Inr uid \<Rightarrow> if uid \<noteq> sv_expected_uid sv
          then ((zero_id, Inr (error_response (sv_env sv) zero_id ''UNAUTHORIZED_PEER'' ''caller uid is not authorized'')), h)
          else (case receive_frame [] (cn_chunks cn) of Inl e \<Rightarrow> ((zero_id, Inl e), h)
            | Inr raw \<Rightarrow> (case sv_decode sv raw of
                Inl e \<Rightarrow> if is_value_error e then ((zero_id, invalid zero_id (exn_message e)), h) else ((zero_id, Inl e), h)
              | Inr v \<Rightarrow> (case parse_request v of
                    None \<Rightarrow> ((known_id v, invalid (known_id v) ''ValidationError''), h)
                  | Some rq \<Rightarrow> (case server_dispatch sv rq h of (r, h') \<Rightarrow> ((known_id v, r), h'))))))"

definition deliver :: "server \<Rightarrow> connection \<Rightarrow> broker_response \<Rightarrow> broker_response res" where
  "deliver sv cn r = rbind (encode_frame sv r) (\<lambda>frame. rbind (cn_send cn frame) (\<lambda>u. Inr r))"

definition protocol_error :: "py_exn \<Rightarrow> bool" where
  "protocol_error e \<longleftrightarrow> is_os_error e \<or> is_value_error e \<or> is_runtime_error e"

text \<open>The response sent, if one was sent.\<close>

definition handle_connection ::
  "server \<Rightarrow> connection \<Rightarrow> host_effect list \<Rightarrow> broker_response option \<times> host_effect list" where
  "handle_connection sv cn h =
     (case answer_connection sv cn h of ((i, r), h') \<Rightarrow>
       (case rbind r (deliver sv cn) of
          Inr sent \<Rightarrow> (Some sent, h')
        | Inl e \<Rightarrow>
            if protocol_error e then
              (case deliver sv cn (error_response (sv_env sv) i ''PROTOCOL_ERROR'' (exn_type e)) of
                 Inr sent \<Rightarrow> (Some sent, h') | Inl e' \<Rightarrow> (None, h'))
            else (None, h')))"

end
