(* ===== verification/Broker_Confinement.thy ===== *)
theory Broker_Confinement
  imports Broker_Server
begin

text \<open>
  What the broker can be made to do: for every operation the tools it may run with which
  arguments, and the files and directories it may change. Every effect of every request is one of
  these.
\<close>

section \<open>Rules\<close>

named_theorems each_rules \<open>effects of composed steps\<close>
named_theorems emit_cases \<open>effects of case distinctions\<close>

lemma each_leaf [each_rules]:
  "each_effect P (step_return x)" "each_effect P (step_raise e)" "each_effect P (deny m)"
  "each_effect P (step_res r)" "each_effect P (ensure b m)"
  by (simp_all add: emits_return emits_raise emits_deny emits_res ensure_def)

lemma each_perform [each_rules]: "P e \<Longrightarrow> each_effect P (perform env e)"
  by (rule emits_perform) simp

lemma emits_if [each_rules, emit_cases]:
  "(b \<Longrightarrow> emits Q f) \<Longrightarrow> (\<not> b \<Longrightarrow> emits Q g) \<Longrightarrow> emits Q (if b then f else g)"
  by simp

lemma emits_option [each_rules, emit_cases]:
  "(x = None \<Longrightarrow> emits Q f) \<Longrightarrow> (\<And>y. x = Some y \<Longrightarrow> emits Q (g y))
     \<Longrightarrow> emits Q (case x of None \<Rightarrow> f | Some y \<Rightarrow> g y)"
  by (cases x) simp_all

lemma emits_list [each_rules, emit_cases]:
  "(xs = [] \<Longrightarrow> emits Q f) \<Longrightarrow> (\<And>y ys. xs = y # ys \<Longrightarrow> emits Q (g y ys))
     \<Longrightarrow> emits Q (case xs of [] \<Rightarrow> f | y # ys \<Rightarrow> g y ys)"
  by (cases xs) simp_all

lemma emits_prod [each_rules, emit_cases]:
  "(\<And>a b. x = (a, b) \<Longrightarrow> emits Q (g a b)) \<Longrightarrow> emits Q (case x of (a, b) \<Rightarrow> g a b)"
  by (cases x) simp

lemma each_perform_then [each_rules]:
  "P e \<Longrightarrow> each_effect P m \<Longrightarrow> each_effect P (step_then (perform env e) m)"
  by (rule each_then) (rule each_perform)

lemma each_perform_bind [each_rules]:
  "P e \<Longrightarrow> (\<And>r. each_effect P (g r)) \<Longrightarrow> each_effect P (step_bind (perform env e) g)"
  by (rule each_bind) (rule each_perform)

lemma each_tool [each_rules]:
  "(\<And>exe. tool_path env t exe \<Longrightarrow> each_effect P (g exe))
     \<Longrightarrow> each_effect P (step_bind (resolve_tool env t) g)"
  by (rule each_bind) (auto simp: tool_path_def intro: each_quiet quiet_validators)

lemma each_checked:
  "quiet f \<Longrightarrow> (\<And>x. returns f x \<Longrightarrow> each_effect P (g x)) \<Longrightarrow> each_effect P (step_bind f g)"
  by (rule each_bind) (auto intro: each_quiet)

lemma each_checked_then:
  "quiet f \<Longrightarrow> (\<And>x. returns f x \<Longrightarrow> each_effect P g) \<Longrightarrow> each_effect P (step_then f g)"
  unfolding step_then_def by (rule each_checked)

lemma each_respond [each_rules]: "each_effect P m \<Longrightarrow> each_effect P (respond rq msg caught trim m)"
  by (simp add: emits_respond)

section \<open>The policy\<close>

fun own_tools :: "broker_op \<Rightarrow> string list" where
  "own_tools Op_systemd = [''systemctl'']"
| "own_tools Op_power = [''systemctl'']"
| "own_tools Op_account = account_tools"
| "own_tools Op_ownership = [''chown'']"
| "own_tools Op_quota = [''setquota'']"
| "own_tools Op_package = package_tools"
| "own_tools Op_samba_account = [''smbpasswd'']"
| "own_tools Op_mount = [''mount'', ''umount'', ''sshfs'']"
| "own_tools Op_mount_unit = [''systemctl'', ''systemd-escape'']"
| "own_tools Op_storage_probe = probe_tools"
| "own_tools Op_docker = [''docker'', ''docker-compose'']"
| "own_tools Op_docker_graceful_stop = [''docker'']"
| "own_tools Op_firewall = [''ufw'', ''firewall-cmd'', ''nft'']"
| "own_tools Op_ntp = [''systemctl'', ''chronyc'', ''timedatectl'', ''firewall-cmd'', ''ufw'', ''nft'']"
| "own_tools Op_routing = [''ip'', ''nmcli'']"
| "own_tools Op_session = [''loginctl'']"
| "own_tools Op_update_service = [''systemd-run'']"
| "own_tools _ = []"

text \<open>A unit a request may name, mount options that forbid set-user-id files and devices.\<close>

definition unit_permitted :: "broker_env \<Rightarrow> string \<Rightarrow> bool" where
  "unit_permitted env u \<longleftrightarrow> u \<notin> set protected_units \<and> \<not> prefix ''pve'' u
     \<and> (u \<in> set fixed_units \<or> u \<in> set (configured_units env) \<or> prefix ''webnas'' u)"

definition hardened :: "string \<Rightarrow> bool" where
  "hardened os \<longleftrightarrow> {''nosuid'', ''nodev''} \<subseteq> set (py_split CHR '','' os)"

definition owner_ok :: "string \<Rightarrow> bool" where
  "owner_ok spec \<longleftrightarrow> (\<exists>u g. spec = owner_spec u g \<and> (u = [] \<or> name_allowed Kind_user u)
     \<and> (g = [] \<or> name_allowed Kind_group g))"

definition package_flags :: "string list" where
  "package_flags = [''-o'', ''-y'', ''--reinstall'', ''--no-install-recommends'', ''--non-interactive'',
     ''--force'', ''-S'', ''-R'', ''--noconfirm'', ''--needed'', ''--install'', ''-Uvh'', ''--configure'', ''-a'']"

definition package_roots :: "broker_env \<Rightarrow> string list" where
  "package_roots env = [''/run/webnas-package-center'', ''/var/lib/webnas''] @ data_roots env"

text \<open>Package commands: no option but the listed ones, and files below the package roots.\<close>

definition package_word :: "broker_env \<Rightarrow> string \<Rightarrow> bool" where
  "package_word env w \<longleftrightarrow> (prefix ''-'' w \<longrightarrow> w \<in> set package_flags \<or> below env (package_roots env) w)"

fun arguments_ok :: "broker_env \<Rightarrow> broker_op \<Rightarrow> string \<Rightarrow> string list \<Rightarrow> bool" where
  "arguments_ok env Op_systemd t ws = (ws = [''daemon-reload'']
     \<or> (\<exists>a u vs. ws = a # u # vs \<and> a \<in> set systemd_actions \<and> unit_permitted env u
          \<and> (vs = [] \<or> (\<exists>w. vs = [''--property='' @ w]))))"
| "arguments_ok env Op_power t ws = (ws \<in> {[''poweroff''], [''reboot'']})"
| "arguments_ok env Op_account t ws = (\<exists>c. command_ok c \<and> t = command_tool c \<and> ws = command_words c)"
| "arguments_ok env Op_ownership t ws =
     (\<exists>spec path. ws = [spec, path] \<and> owner_ok spec \<and> below env (filesystem_roots env) path)"
| "arguments_ok env Op_quota t ws = (\<exists>u vs. ws = ''-u'' # u # vs \<and> name_allowed Kind_user u)"
| "arguments_ok env Op_package t ws = list_all (package_word env) ws"
| "arguments_ok env Op_samba_account t ws = (ws \<noteq> [] \<and> name_allowed Kind_user (last ws))"
| "arguments_ok env Op_mount t ws =
     (if t = ''umount'' then \<exists>q. ws = [q] \<and> below env [''/mnt/webnas'', ''/home''] q
      else \<exists>os q. hardened os \<and> below env [''/mnt/webnas''] q
        \<and> ((\<exists>fs r. ws = [''-t'', fs, ''-o'', os, r, q]) \<or> (\<exists>r. ws = [r, q, ''-o'', os])))"
| "arguments_ok env Op_mount_unit t ws = (t = ''systemctl'' \<longrightarrow> ws = [''daemon-reload'']
     \<or> ws \<noteq> [] \<and> hd ws \<in> {''enable'', ''disable''} \<and> mount_unit_name (last ws))"
| "arguments_ok env Op_storage_probe t ws = probe_allowed t ws"
| "arguments_ok env Op_docker_graceful_stop t ws =
     (\<exists>c. ws = [''stop'', ''--time'', ''-1'', c] \<and> container_ok c)"
| "arguments_ok env Op_ntp t ws = (t = ''systemctl'' \<longrightarrow>
     (\<exists>a u. ws = [a, u] \<and> a \<in> set service_actions \<and> u \<in> set ntp_units))"
| "arguments_ok env Op_routing t ws = (t = ''ip'' \<longrightarrow> \<not> list_ex (prefix ''-'') (drop 3 ws))"
| "arguments_ok env Op_session t ws = (\<exists>i. ws = [''terminate-session'', i] \<and> session_id_ok i)"
| "arguments_ok env Op_update_service t ws =
     (list_ex ((=) (update_unit env)) ws \<and> ws \<noteq> [] \<and> last ws = path_child (update_directory env) ''runner.sh'')"
| "arguments_ok env _ t ws = True"

definition hook_ok :: "broker_env \<Rightarrow> string list \<Rightarrow> bool" where
  "hook_ok env argv \<longleftrightarrow> (\<exists>exe s dir. argv = [exe, s] \<and> (exe = be_python env \<or> tool_path env ''bash'' exe)
     \<and> path_suffix s \<in> {''.py'', ''.sh''} \<and> be_resolve env (be_modules_dir env) = Inr dir \<and> path_under dir s)"

definition command_confined :: "broker_env \<Rightarrow> broker_op \<Rightarrow> string list \<Rightarrow> bool" where
  "command_confined env p argv \<longleftrightarrow>
     (\<exists>t exe ws. argv = exe # ws \<and> t \<in> set (own_tools p) \<and> tool_path env t exe \<and> arguments_ok env p t ws)
     \<or> p = Op_module_hook \<and> hook_ok env argv \<or> p = Op_file_worker \<and> argv = worker_command env"

text \<open>The temporary file of an upload or download: a fixed name form in the temporary directory.\<close>

definition temp_file :: "broker_env \<Rightarrow> string \<Rightarrow> bool" where
  "temp_file env q \<longleftrightarrow> (\<exists>raw ext cfg d. q = path_posix raw \<and> ext \<in> {''.upload'', ''.download''}
     \<and> be_settings env = Inr cfg \<and> be_resolve env (bs_temp_dir cfg) = Inr d
     \<and> (\<exists>d'. be_resolve env (path_parent raw) = Inr d' \<and> path_parts d' = path_parts d)
     \<and> path_suffix raw = ext \<and> len_between 32 32 (path_stem raw) \<and> list_all lower_hex (path_stem raw))"

definition update_script :: "broker_env \<Rightarrow> string \<Rightarrow> bool" where
  "update_script env q \<longleftrightarrow> q \<in> path_child (update_directory env) ` {''install.sh'', ''runner.sh''}"

definition installed_ok :: "broker_op \<Rightarrow> string \<Rightarrow> int \<Rightarrow> bool" where
  "installed_ok p target mode \<longleftrightarrow>
     p = Op_managed_file \<and> target \<in> snd ` set managed_files \<and> mode \<in> {384, 416, 420}
     \<or> p = Op_ntp \<and> target \<in> snd ` set ntp_targets \<and> mode = 420
     \<or> p = Op_mount_unit \<and> (\<exists>n. mount_unit_name n \<and> target = unit_path n) \<and> mode = 420"

definition made_ok :: "broker_env \<Rightarrow> broker_op \<Rightarrow> string \<Rightarrow> int \<Rightarrow> bool" where
  "made_ok env p d mode \<longleftrightarrow>
     p = Op_ownership \<and> below env (filesystem_roots env) d \<and> 448 \<le> mode \<and> mode \<le> 509
     \<or> p = Op_managed_file \<and> d \<in> path_parent ` snd ` set managed_files
     \<or> p = Op_ntp \<and> d \<in> path_parent ` snd ` set ntp_targets
     \<or> p = Op_mount_unit \<and> d = ''/etc/systemd/system''
     \<or> p = Op_update_service \<and> (d = update_directory env \<and> mode = 448
          \<or> (\<exists>cfg. be_settings env = Inr cfg \<and> d \<in> {path_child (bs_data_dir cfg) ''settings'', path_posix (bs_log_dir cfg)}))"

fun confined :: "broker_env \<Rightarrow> broker_op \<Rightarrow> host_effect \<Rightarrow> bool" where
  "confined env p (Ran argv input limit) = (command_confined env p argv \<and> 1 \<le> limit \<and> limit \<le> 86400)"
| "confined env p (Made_dir d mode) = made_ok env p d mode"
| "confined env p (Set_mode q mode) =
     (p = Op_ownership \<and> below env (filesystem_roots env) q \<and> 384 \<le> mode \<and> mode \<le> 509
      \<or> p = Op_update_service \<and> update_script env q \<and> mode = 448
      \<or> p = Op_file_worker \<and> temp_file env q \<and> mode = 384)"
| "confined env p (Set_owner q u g) = (p = Op_file_worker \<and> temp_file env q)"
| "confined env p (Installed q content mode) = installed_ok p q mode"
| "confined env p (Wrote q content) = (p = Op_update_service \<and> update_script env q)"
| "confined env p (Removed q) = (p = Op_mount_unit \<and> (\<exists>n. mount_unit_name n \<and> q = unit_path n)
      \<or> p = Op_file_worker \<and> temp_file env q)"
| "confined env p (Fetched url) = (p = Op_update_service \<and> url = installer_url)"

declare confined.simps(1) [simp del]

lemma confined_run:
  "t \<in> set (own_tools p) \<Longrightarrow> tool_path env t exe \<Longrightarrow> arguments_ok env p t ws \<Longrightarrow> 1 \<le> limit \<Longrightarrow> limit \<le> 86400
     \<Longrightarrow> confined env p (Ran (exe # ws) input limit)"
  by (auto simp: command_confined_def confined.simps(1))

section \<open>Confined policies\<close>

abbreviation stays :: "broker_env \<Rightarrow> broker_op \<Rightarrow> 'a broker \<Rightarrow> bool" where
  "stays env p \<equiv> each_effect (confined env p)"

lemma returns_unit_allowed: "returns (unit_allowed env raw) u \<Longrightarrow> unit_permitted env u"
  by (auto simp: unit_allowed_def unit_permitted_def Let_def update_unit_ok_def strip_prefix_def
      split: if_splits option.splits elim: prefix_order.trans)
     (auto simp: prefix_def)

lemma quiet_unit_allowed [emit_rules]: "quiet (unit_allowed env u)"
  by (auto simp: unit_allowed_def Let_def intro!: emit_rules)

lemma quiet_show_properties [emit_rules]: "quiet (show_properties p)"
  by (auto simp: show_properties_def Let_def split: option.splits intro!: emit_rules)

lemma stays_systemd: "stays env Op_systemd (run_systemd env p)"
  unfolding run_systemd_def
  by (intro each_rules each_checked each_checked_then)
     (auto intro!: emit_rules confined_run dest: returns_unit_allowed)

lemma stays_power: "stays env Op_power (run_power env p)"
  unfolding run_power_def
  by (intro each_rules each_checked) (auto intro!: emit_rules confined_run)

lemma stays_install:
  "made_ok env p (path_parent target) 511 \<Longrightarrow> installed_ok p target mode
     \<Longrightarrow> stays env p (install_file env target content mode)"
  unfolding install_file_def by (intro each_rules) auto

lemma stays_managed_file: "stays env Op_managed_file (run_managed_file env p)"
  unfolding run_managed_file_def
  by (intro each_rules each_checked each_then stays_install emit_rules)
     (auto simp: made_ok_def installed_ok_def dest!: map_of_SomeD intro!: rev_image_eqI)

lemma quiet_check_owner [emit_rules]: "quiet (check_owner u g)"
  by (auto simp: check_owner_def intro!: emit_rules)

lemma returns_check_owner: "returns (check_owner u g) x \<Longrightarrow> owner_ok (owner_spec u g)"
  unfolding owner_ok_def
  by (intro exI [of _ u] exI [of _ g])
     (auto simp: check_owner_def split: if_splits dest!: returns_then)

lemma stays_chown:
  "owner_ok (owner_spec u g) \<Longrightarrow> below env (filesystem_roots env) path
     \<Longrightarrow> stays env Op_ownership (run_on_path env ''chown'' (\<lambda>q. [owner_spec u g, q]) path)"
  unfolding run_on_path_def by (intro each_rules) (auto intro!: confined_run)

lemma stays_ownership: "stays env Op_ownership (run_ownership env p)"
  unfolding run_ownership_def Let_def
  by (intro each_rules each_checked each_checked_then each_bind stays_chown emit_rules)
     (auto simp: made_ok_def dest!: returns_safe_path dest: returns_check_owner)

lemma stays_quota: "stays env Op_quota (run_quota env p)"
  unfolding run_quota_def
  by (intro each_rules each_checked each_checked_then emit_rules) (auto intro!: confined_run)

lemma stays_samba: "stays env Op_samba_account (run_samba_account env p)"
  unfolding run_samba_account_def
  by (intro each_rules each_checked each_checked_then emit_rules) (auto intro!: confined_run)

lemma quiet_module_script [emit_rules]: "quiet (module_script env i action)"
proof -
  have "quiet (first_script env base exts)" for base exts
    by (induction env base exts rule: first_script.induct) (auto intro!: emit_rules)
  then show ?thesis by (auto simp: module_script_def module_directory_def Let_def intro!: emit_rules)
qed

lemma stays_hook: "stays env Op_module_hook (run_module_hook env p)"
  unfolding run_module_hook_def
  by (intro each_rules each_checked each_checked_then emit_rules)
     (auto simp: command_confined_def hook_ok_def confined.simps(1) tool_path_def split: if_splits intro!: emit_rules)

lemma package_word_fixed [simp]:
  "package_word env ''update''" "package_word env ''install''" "package_word env ''remove''"
  "package_word env ''purge''" "package_word env ''reinstall''" "package_word env ''-S''"
  "package_word env ''-R''" "package_word env ''add''" "package_word env ''del''"
  "package_word env ''fix''" "package_word env ''--install''" "package_word env ''-Uvh''"
  "package_word env ''--non-interactive''" "package_word env ''-o''"
  by (simp_all add: package_word_def package_flags_def)

lemma returns_package_token [simp]: "returns (package_token v) w \<longleftrightarrow> package_ok v \<and> w = v"
  by (auto simp: package_token_def)

lemma package_ok_word: "package_ok v \<Longrightarrow> package_word env v"
  by (auto simp: package_ok_def package_word_def ascii_letter_def char_in_def is_digit_def split: list.splits)

lemma quiet_package [emit_rules]:
  "quiet (package_token v)" "quiet (package_path env v)" "quiet (apt_option env v)"
  by (auto simp: package_token_def package_path_def apt_option_def split: option.splits intro!: emit_rules)

lemma quiet_words [emit_rules]:
  "quiet (checked_words flags msg ws)" "quiet (package_words ws)" "quiet (apt_options env ws)"
proof -
  show "quiet (checked_words flags msg ws)" by (induction ws) (auto intro!: emit_rules)
  show "quiet (package_words ws)" by (induction ws) (auto intro!: emit_rules)
  show "quiet (apt_options env ws)"
    by (induction env ws rule: apt_options.induct) (auto intro!: emit_rules)
qed

lemma quiet_operation_words: "(\<And>vs. quiet (check vs)) \<Longrightarrow> quiet (operation_words cs msg check ws)"
  unfolding operation_words_def by (intro emit_cases emit_rules) simp_all

lemma quiet_package_command [emit_rules]: "quiet (package_command env tool args)"
  unfolding package_command_def apt_words_def zypper_words_def file_words_def Let_def
  by (intro emit_cases emit_rules quiet_operation_words) simp_all

lemma returns_package_path: "returns (package_path env v) q \<Longrightarrow> package_word env q"
  by (auto simp: package_path_def package_word_def package_roots_def dest!: returns_safe_path)

lemma returns_checked_words:
  "returns (checked_words flags msg ws) vs \<Longrightarrow> set flags \<subseteq> set package_flags \<Longrightarrow> list_all (package_word env) vs"
proof (induction ws arbitrary: vs)
  case (Cons w ws)
  then show ?case
    by (auto split: if_splits dest!: returns_bind simp: package_ok_word) (auto simp: package_word_def)
qed simp

lemma returns_package_words: "returns (package_words ws) vs \<Longrightarrow> list_all (package_word env) vs"
  by (induction ws arbitrary: vs) (auto dest!: returns_bind simp: package_ok_word)

lemma returns_apt_option: "returns (apt_option env v) w \<Longrightarrow> package_word env w"
  by (auto simp: apt_option_def package_word_def split: if_splits option.splits dest!: returns_bind)

lemma returns_apt_options: "returns (apt_options env ws) r \<Longrightarrow> list_all (package_word env) (fst r)"
proof (induction env ws arbitrary: r rule: apt_options.induct)
  case (3 env w v ws)
  then show ?case by (auto split: if_splits dest!: returns_bind dest: returns_apt_option)
qed (auto split: if_splits)

lemma returns_apt_words: "returns (apt_words env ws) us \<Longrightarrow> list_all (package_word env) us"
  unfolding apt_words_def
  by (fastforce simp: package_flags_def split: list.splits if_splits dest!: returns_bind
      dest: returns_apt_options returns_checked_words)

lemma returns_operation_words:
  assumes "returns (operation_words cs msg check ws) vs" and "list_all (package_word env) cs"
    and "\<And>us us'. returns (check us) us' \<Longrightarrow> list_all (package_word env) us'"
  shows "list_all (package_word env) vs"
  using assms by (auto simp: operation_words_def list_all_iff split: list.splits if_splits dest!: returns_bind)

lemma returns_checked_operation:
  "returns (operation_words cs msg (checked_words flags m) ws) vs \<Longrightarrow> list_all (package_word env) cs
     \<Longrightarrow> set flags \<subseteq> set package_flags \<Longrightarrow> list_all (package_word env) vs"
  by (erule returns_operation_words) (auto elim: returns_checked_words)

lemma returns_zypper_words: "returns (zypper_words args) vs \<Longrightarrow> list_all (package_word env) vs"
  unfolding zypper_words_def Let_def
  by (cases args) (auto split: if_splits dest!: returns_bind elim!: returns_checked_operation simp: package_flags_def)

lemma returns_file_words:
  "returns (file_words env flag msg args) vs \<Longrightarrow> package_word env flag \<Longrightarrow> list_all (package_word env) vs"
  by (auto simp: file_words_def split: list.splits if_splits dest!: returns_bind dest: returns_package_path)

lemma returns_package_command:
  assumes "returns (package_command env tool args) vs"
  shows "list_all (package_word env) vs"
proof -
  have flags: "set [''-y''] \<subseteq> set package_flags" "set [''--noconfirm'', ''--needed''] \<subseteq> set package_flags"
    by (simp_all add: package_flags_def)
  show ?thesis
    using assms unfolding package_command_def returns_if
    by (elim disjE conjE)
       (simp_all add: returns_apt_words returns_zypper_words returns_file_words returns_checked_operation [OF _ _ flags(1)]
          returns_checked_operation [OF _ _ flags(2)] returns_operation_words [OF _ _ returns_package_words])
qed

lemma stays_package: "stays env Op_package (run_package env p)"
  unfolding run_package_def
  by (intro each_rules each_checked each_checked_then emit_rules)
     (auto intro!: confined_run simp: timeout_value_def dest!: returns_package_command
       split: option.splits if_splits)

section \<open>Confined mounts\<close>

lemma quiet_mount_root [emit_rules]: "quiet (mount_root env home q)"
  by (auto simp: mount_root_def intro!: emit_rules)

lemma quiet_mount_option [emit_rules]: "quiet (mount_option env w)"
  unfolding mount_option_def by (intro emit_cases emit_rules) simp_all

lemma quiet_mount_options [emit_rules]: "quiet (mount_options env ws)" "quiet (validated_mount_options env raw)"
proof -
  show "quiet (mount_options env ws)" for ws by (induction ws) (auto intro!: emit_rules)
  then show "quiet (validated_mount_options env raw)"
    unfolding validated_mount_options_def by (intro emit_cases emit_rules) simp_all
qed

lemma quiet_mount_words [emit_rules]: "quiet (mount_words env t args)"
  unfolding mount_words_def by (intro emit_cases emit_rules) simp_all

text \<open>A joined list of options keeps every option that holds no separator.\<close>

lemma py_split_join_mem: "w \<in> set ws \<Longrightarrow> c \<notin> set w \<Longrightarrow> w \<in> set (py_split c (py_join c ws))"
  by (induction c ws rule: py_join.induct) (auto simp: py_split_append py_split_single)

lemma returns_mount_root:
  "returns (mount_root env home raw) q \<Longrightarrow> below env (''/mnt/webnas'' # (if home then [''/home''] else [])) q"
  by (auto simp: mount_root_def dest!: returns_safe_path)

lemma returns_mount_options:
  "returns (validated_mount_options env raw) os \<Longrightarrow> hardened os"
  by (auto simp: validated_mount_options_def hardened_def split: if_splits dest!: returns_bind
      intro!: py_split_join_mem)

lemma returns_umount_words:
  "returns (mount_words env ''umount'' args) ws \<Longrightarrow> arguments_ok env Op_mount ''umount'' ws"
  by (simp add: mount_words_def split: list.splits) (auto dest!: returns_bind returns_mount_root)

lemma returns_mount_words:
  "returns (mount_words env ''mount'' args) ws \<Longrightarrow> arguments_ok env Op_mount ''mount'' ws"
  by (simp add: mount_words_def split: list.splits)
     (auto dest!: returns_bind returns_mount_root returns_mount_options)

lemma returns_sshfs_words:
  "returns (mount_words env ''sshfs'' args) ws \<Longrightarrow> arguments_ok env Op_mount ''sshfs'' ws"
  by (simp add: mount_words_def split: list.splits)
     (auto dest!: returns_bind returns_mount_root returns_mount_options)

lemma returns_mount_tool: "returns (mount_words env t args) ws \<Longrightarrow> t \<in> {''mount'', ''umount'', ''sshfs''}"
  by (auto simp: mount_words_def split: if_splits)

lemma returns_mount_command:
  assumes "returns (mount_words env t args) ws"
  shows "t \<in> set (own_tools Op_mount) \<and> arguments_ok env Op_mount t ws"
  using assms returns_mount_tool [OF assms] returns_umount_words returns_mount_words returns_sshfs_words
  by auto

lemma stays_mount: "stays env Op_mount (run_mount env p)"
  unfolding run_mount_def
  by (intro each_rules each_checked each_checked_then emit_rules)
     (auto intro!: confined_run simp: timeout_value_def dest: returns_mount_command simp del: arguments_ok.simps own_tools.simps
       split: option.splits if_splits)

text \<open>Mount units: only generated units are written, enabled, disabled and removed.\<close>

lemma stays_unit_command:
  assumes "tool_path env ''systemctl'' exe"
  shows "confined env Op_mount_unit (Ran [exe, ''daemon-reload''] None 60)"
    "mount_unit_name n \<Longrightarrow> confined env Op_mount_unit (Ran [exe, ''enable'', n] None 60)"
    "mount_unit_name n \<Longrightarrow> confined env Op_mount_unit (Ran [exe, ''disable'', ''--now'', n] None 60)"
  using assms by (auto intro: confined_run)

lemma stays_escape: "stays env Op_mount_unit (systemd_escape env path kind)"
  unfolding systemd_escape_def by (intro each_rules) (auto intro!: confined_run)

lemma returns_escape: "returns (systemd_escape env path kind) n \<Longrightarrow> mount_unit_name n"
  by (auto simp: systemd_escape_def split: if_splits dest!: returns_bind)

lemma stays_remove_units:
  "tool_path env ''systemctl'' exe \<Longrightarrow> stays env Op_mount_unit (remove_units env exe ns)"
  by (induction ns) (auto simp: stays_unit_command intro!: each_rules)

lemma stays_write_unit:
  "tool_path env ''systemctl'' exe \<Longrightarrow> mount_unit_name m \<Longrightarrow> mount_unit_name a
     \<Longrightarrow> stays env Op_mount_unit (write_mount_unit env exe point m a content auto)"
  unfolding write_mount_unit_def
  by (intro each_rules) (auto simp: installed_ok_def stays_unit_command)

lemma stays_apply_unit:
  "tool_path env ''systemctl'' exe \<Longrightarrow> mount_unit_name m \<Longrightarrow> mount_unit_name a
     \<Longrightarrow> stays env Op_mount_unit (apply_mount_unit env p exe point m a)"
  unfolding apply_mount_unit_def by (intro each_rules each_checked emit_rules stays_write_unit)

lemma stays_mount_unit: "stays env Op_mount_unit (run_mount_unit env p)"
  unfolding run_mount_unit_def
  apply (rule each_checked_then, rule emit_rules)
  apply (rule each_checked, rule emit_rules)+
  apply (rule each_rules)
   apply (rule each_rules)
  apply (rule each_checked, rule emit_rules)+
  apply (rule each_bind [OF stays_escape])+
  apply (rule each_rules)
  by (auto simp: made_ok_def stays_unit_command intro!: each_rules each_then stays_remove_units stays_apply_unit
      dest: returns_escape)

section \<open>Confined probes, firewalls and infrastructure\<close>

lemma strict_timeout_bounds:
  "strict_timeout p a b = Some t \<Longrightarrow> 1 \<le> a \<Longrightarrow> a \<le> b \<Longrightarrow> 1 \<le> t \<and> t \<le> b"
  by (auto simp: strict_timeout_def timeout_value_def split: option.splits json.splits if_splits)

lemma timeout_value_bounds:
  "timeout_value p a b = Some t \<Longrightarrow> 1 \<le> a \<Longrightarrow> a \<le> b \<Longrightarrow> 1 \<le> t \<and> t \<le> b"
  by (auto simp: timeout_value_def split: option.splits if_splits)

lemma stays_probe: "stays env Op_storage_probe (run_storage_probe env p)"
  unfolding run_storage_probe_def
  by (intro each_rules each_checked_then emit_rules)
     (auto intro!: confined_run dest!: strict_timeout_bounds)

lemma stays_dpkg_repair: "stays env Op_package (run_dpkg_repair env p)"
  unfolding run_dpkg_repair_def
  by (intro each_rules)
     (auto intro!: confined_run [where t = "''dpkg''"] dest!: strict_timeout_bounds simp: package_tools_def package_word_def package_flags_def)

lemma quiet_firewall [emit_rules]:
  "quiet (backend_value p)" "quiet (clean_args p)" "quiet (validate_firewall b args)"
proof -
  have ufw: "quiet (ufw_tokens c ws)" and nft: "quiet (nft_tokens c ws)" for c ws
    by (induction ws arbitrary: c) (auto intro!: emit_rules)
  show "quiet (validate_firewall b args)"
    unfolding validate_firewall_def validate_ufw_def validate_firewalld_def validate_nft_def
    by (intro emit_cases emit_rules ufw nft) simp_all
  show "quiet (backend_value p)" "quiet (clean_args p)"
    by (auto simp: backend_value_def clean_args_def split: option.splits json.splits intro!: emit_rules)
qed

lemma returns_backend_value: "returns (backend_value p) b \<Longrightarrow> snd b \<in> set (own_tools Op_firewall)"
  by (auto simp: backend_value_def backends_def split: option.splits if_splits)

lemma stays_firewall: "stays env Op_firewall (run_firewall env p)"
  unfolding run_firewall_def
  by (intro each_rules each_checked each_checked_then emit_rules)
     (rule confined_run, auto dest: returns_backend_value dest!: timeout_value_bounds simp del: own_tools.simps)

lemma stays_docker_stop: "stays env Op_docker_graceful_stop (run_docker_stop env p)"
  unfolding run_docker_stop_def by (intro each_rules) (auto intro!: confined_run)

lemma stays_infra:
  "t \<in> set (own_tools p) \<Longrightarrow> arguments_ok env p t ws \<Longrightarrow> 1 \<le> limit \<Longrightarrow> limit \<le> 86400
     \<Longrightarrow> stays env p (run_infra env t ws limit)"
  "t \<in> set (own_tools p) \<Longrightarrow> arguments_ok env p t ws \<Longrightarrow> 1 \<le> limit \<Longrightarrow> limit \<le> 86400
     \<Longrightarrow> stays env p (run_reported env t ws limit failed)"
proof -
  show run: "stays env p (run_infra env t ws limit)"
    if "t \<in> set (own_tools p)" "arguments_ok env p t ws" "1 \<le> limit" "limit \<le> 86400"
    unfolding run_infra_def using that by (intro each_rules) (auto intro!: confined_run)
  show "stays env p (run_reported env t ws limit failed)"
    if "t \<in> set (own_tools p)" "arguments_ok env p t ws" "1 \<le> limit" "limit \<le> 86400"
    unfolding run_reported_def by (rule each_bind [OF run [OF that]]) (rule each_rules)
qed

lemma stays_firewall_status: "stays env Op_ntp (firewall_status env)"
proof -
  have nft: "stays env Op_ntp (nft_status env)"
    unfolding nft_status_def Let_def by (intro each_rules each_bind stays_infra) auto
  have ufw: "stays env Op_ntp (ufw_status env)"
    unfolding ufw_status_def by (intro each_rules each_bind stays_infra nft) auto
  show ?thesis unfolding firewall_status_def by (intro each_rules each_bind stays_infra ufw) auto
qed

lemma stays_firewall_open: "stays env Op_ntp (ntp_firewall_open env)"
  unfolding ntp_firewall_open_def
  by (intro each_rules each_bind stays_firewall_status stays_infra) auto

lemma stays_timezone: "stays env Op_ntp (set_timezone env tz)"
  unfolding set_timezone_def
  by (intro each_rules each_checked emit_rules stays_infra) auto

lemma stays_ntp_write:
  "map_of ntp_targets key = Some target \<Longrightarrow> stays env Op_ntp (atomic_write env target content)"
  unfolding atomic_write_def
  by (intro each_rules each_then stays_install)
     (auto simp: made_ok_def installed_ok_def dest!: map_of_SomeD intro!: rev_image_eqI)

lemma stays_ntp: "stays env Op_ntp (run_ntp env p)"
  unfolding run_ntp_def Let_def
  by (intro each_rules each_then each_bind stays_infra stays_firewall_status stays_firewall_open stays_timezone
      stays_ntp_write) (auto simp: service_actions_def)

lemma returns_ip_args: "returns (validate_ip_args p) args \<Longrightarrow> arguments_ok env Op_routing ''ip'' args"
  by (auto simp: validate_ip_args_def list_ex_iff split: option.splits json.splits if_splits)

lemma quiet_routing [emit_rules]: "quiet (validate_ip_args p)" "quiet (text_in names v)"
  by (auto simp: validate_ip_args_def text_in_def split: option.splits json.splits intro!: emit_rules)

lemma stays_routing: "stays env Op_routing (run_routing env p)"
proof -
  have "stays env Op_routing (run_nmcli env p action)" for action
    unfolding run_nmcli_def by (intro each_rules each_checked emit_rules stays_infra) auto
  then show ?thesis
    unfolding run_routing_def
    by (intro each_rules each_checked emit_rules stays_infra) (auto dest: returns_ip_args)
qed

lemma stays_session: "stays env Op_session (run_session env p)"
  unfolding run_session_def by (intro each_rules stays_infra) auto

section \<open>Confined containers, updates and file operations\<close>

lemma quiet_docker_paths [emit_rules]:
  "quiet (docker_identifier label v)" "quiet (docker_image v)" "quiet (data_path env label v)"
  "quiet (bind_source env v)" "quiet (check_data env label v)" "quiet (int_between a b v)"
proof -
  have "quiet (resolve_all env rs)" for rs by (induction rs) (auto intro!: emit_rules)
  then have "quiet (bind_roots env)" unfolding bind_roots_def by (intro emit_rules) simp_all
  then show "quiet (bind_source env v)"
    unfolding bind_source_def Let_def by (intro emit_cases emit_rules) simp_all
  show data: "quiet (data_path env label v)"
    unfolding data_path_def Let_def by (intro emit_cases emit_rules) simp_all
  show "quiet (check_data env label v)" unfolding check_data_def by (intro emit_rules data) simp
  show "quiet (docker_identifier label v)" "quiet (docker_image v)" "quiet (int_between a b v)"
    by (auto simp: docker_identifier_def docker_image_def int_between_def intro!: emit_rules)
qed

lemma quiet_validate_run [emit_rules]: "quiet (validate_run env args)"
proof -
  have mount: "quiet (check_mount env v)" for env v
    unfolding check_mount_def Let_def by (intro emit_cases emit_rules) simp_all
  have setting: "quiet (run_value env item v)" for env item v
    unfolding run_value_def by (intro emit_cases emit_rules mount) simp_all
  have "quiet (run_options env ws)" for ws
    by (induction env ws rule: run_options.induct) (auto split: list.splits intro!: emit_rules setting)
  then show ?thesis unfolding validate_run_def by (intro emit_cases emit_rules) simp_all
qed

lemma quiet_check_document [emit_rules]: "quiet (check_document env doc)"
proof -
  have volume: "quiet (check_volume env v)" for v
    unfolding check_volume_def Let_def by (intro emit_cases emit_rules)
  have service: "quiet (check_service env kv)" for kv
    unfolding check_service_def Let_def by (cases "snd kv") (auto intro!: emit_rules volume)
  have definition': "quiet (check_definition env name kv)" for name kv
    unfolding check_definition_def by (cases "snd kv") (auto split: option.splits intro!: emit_rules)
  have "quiet (check_section env kvs name)" for kvs name
    unfolding check_section_def
    by (auto split: option.splits json.splits intro!: emit_rules definition')
  then show ?thesis
    unfolding check_document_def by (cases doc) (auto split: option.splits json.splits intro!: emit_rules service)
qed

lemma quiet_validate_compose [emit_rules]: "quiet (validate_compose env args)"
proof -
  have compose_file: "quiet (validate_compose_file env v)" for v
    unfolding validate_compose_file_def by (intro emit_cases emit_rules) simp_all
  have options: "quiet (compose_options env v ws)" for v ws
    by (induction env v ws rule: compose_options.induct) (auto split: list.splits intro!: emit_rules)
  have logs: "quiet (compose_logs ws)" for ws
    by (induction ws rule: compose_logs.induct) (auto split: list.splits intro!: emit_rules)
  have scale: "quiet (check_scale item)" for item
    unfolding check_scale_def by (intro emit_cases emit_rules) simp_all
  have "quiet (compose_tail command ws)" for command ws
    unfolding compose_tail_def by (intro emit_cases emit_rules logs scale) simp_all
  then show ?thesis
    unfolding validate_compose_def Let_def by (intro emit_cases emit_rules options compose_file) simp_all
qed

lemma quiet_flag_loop [emit_rules]: "quiet (flag_loop keep singles pairs msg ws)" "quiet (only_flags singles pairs msg ws)"
proof -
  show "quiet (flag_loop keep singles pairs msg ws)" for keep
    by (induction keep singles pairs msg ws rule: flag_loop.induct) (auto intro!: emit_rules)
  then show "quiet (only_flags singles pairs msg ws)" unfolding only_flags_def by (intro emit_rules) simp_all
qed

lemma quiet_one_word: "(\<And>w. quiet (check w)) \<Longrightarrow> quiet (one_word msg check ws)"
  unfolding one_word_def by (intro emit_cases emit_rules) simp_all

lemma quiet_validate_docker [emit_rules]: "quiet (validate_docker env network_ok address_ok tool args)"
proof -
  have simple: "quiet (validate_simple command ws)" for command ws
    unfolding validate_simple_def Let_def by (intro emit_cases emit_rules quiet_one_word) simp_all
  have options: "quiet (network_create_options network_ok address_ok ws)" for ws
    by (induction network_ok address_ok ws rule: network_create_options.induct) (auto intro!: emit_rules)
  have network: "quiet (validate_network network_ok address_ok action ws)" for action ws
    unfolding validate_network_def by (intro emit_cases emit_rules quiet_one_word options) simp_all
  have "quiet (validate_family env network_ok address_ok family ws)" for family ws
    unfolding validate_family_def validate_container_def validate_image_def validate_volume_def
    by (intro emit_cases emit_rules quiet_one_word network) simp_all
  then show ?thesis
    unfolding validate_docker_def by (intro emit_cases emit_rules simple) simp_all
qed

lemma docker_timeout_bounds: "docker_timeout p = Some t \<Longrightarrow> 1 \<le> t \<and> t \<le> 3600"
  by (auto simp: docker_timeout_def timeout_value_def split: option.splits json.splits if_splits)

lemma confined_docker:
  "tool \<in> {''docker'', ''docker-compose''} \<Longrightarrow> tool_path env tool exe \<Longrightarrow> docker_timeout p = Some limit
     \<Longrightarrow> confined env Op_docker (Ran (exe # ws) input limit)"
  using docker_timeout_bounds [of p limit] by (auto intro: confined_run)

lemma stays_docker: "stays env Op_docker (run_docker env network_ok address_ok p)"
  unfolding run_docker_def
  by (intro each_rules each_checked each_checked_then emit_rules) (auto intro: confined_docker)

lemma stays_scripts:
  "update_script env q \<Longrightarrow> stays env Op_update_service (write_script env q content)"
  unfolding write_script_def by (intro each_rules) auto

lemma stays_fetch: "stays env Op_update_service (fetch_installer env)"
  by (auto simp: emits_def fetch_installer_def perform_def deny_def step_raise_def step_return_def
      split: sum.splits if_splits)

lemma quiet_webnas_owner [emit_rules]: "quiet (webnas_owner env)"
  unfolding webnas_owner_def by (intro emit_cases emit_rules) simp_all

lemma stays_update: "stays env Op_update_service (run_update env p)"
proof -
  have unit: "stays env Op_update_service (start_unit env (path_child (update_directory env) ''runner.sh'') log_path)"
    for log_path unfolding start_unit_def by (intro each_rules) (auto intro!: confined_run)
  have start: "stays env Op_update_service (start_update env revision config audit)" for revision config audit
    unfolding start_update_def Let_def
    by (rule each_checked, rule emit_rules)
       (auto simp: made_ok_def update_script_def
         intro!: each_rules each_then each_bind [OF stays_fetch] each_checked emit_rules stays_scripts unit)
  show ?thesis
    unfolding run_update_def
    by (intro each_checked_then each_rules emit_rules)
       (auto intro!: each_rules start split: json.splits)
qed

lemma quiet_file_request [emit_rules]: "quiet (validate_file_request env rq)"
proof -
  have "quiet (check_path env user p key)" for user p key
    unfolding check_path_def by (auto split: option.splits sum.splits intro!: emit_rules)
  moreover have "quiet (request_temp env action p)" for action p
    unfolding request_temp_def valid_temp_def by (intro emit_cases emit_rules) simp_all
  ultimately show ?thesis
    unfolding validate_file_request_def Let_def
    by (auto split: option.splits json.splits intro!: emit_rules)
qed

lemma returns_valid_temp:
  assumes "returns (valid_temp env p ext) t" and "ext \<in> {''.upload'', ''.download''}"
  shows "temp_file env t"
proof -
  obtain raw cfg where t: "t = path_posix raw" and cfg: "be_settings env = Inr cfg"
    and "\<exists>d. be_resolve env (bs_temp_dir cfg) = Inr d
      \<and> (\<exists>d'. be_resolve env (path_parent raw) = Inr d' \<and> path_parts d' = path_parts d)"
    and "path_suffix raw = ext" "len_between 32 32 (path_stem raw)" "list_all lower_hex (path_stem raw)"
    using assms(1) by (auto simp: valid_temp_def split: option.splits if_splits dest!: returns_bind)
  then show ?thesis
    unfolding temp_file_def using assms(2)
    by (elim exE conjE, intro exI conjI) assumption+
qed

lemma returns_file_request:
  "returns (validate_file_request env rq) f \<Longrightarrow> fw_temp f = Some t \<Longrightarrow> temp_file env t"
  by (auto simp: validate_file_request_def Let_def request_temp_def temp_suffixes_def
      split: option.splits json.splits if_splits dest!: returns_bind returns_then returns_valid_temp)

lemma stays_answered: "each_effect P m \<Longrightarrow> each_effect P (answered rq m)"
  by (fastforce simp: emits_def answered_def split: prod.splits sum.splits if_splits)

lemma stays_cleanup: "each_effect P m \<Longrightarrow> P (Removed q) \<Longrightarrow> each_effect P (with_cleanup env q m)"
  by (fastforce simp: emits_def with_cleanup_def perform_def split: prod.splits sum.splits if_splits)

lemma stays_take_over: "temp_file env q \<Longrightarrow> stays env Op_file_worker (take_over env q uid gid)"
  unfolding take_over_def by (intro each_rules) auto

lemma each_look_at: "(\<And>r. each_effect P (f r)) \<Longrightarrow> each_effect P (look_at env q f)"
  by (simp add: emits_def look_at_def)

lemma stays_upload: "temp_file env q \<Longrightarrow> stays env Op_file_worker (prepare_upload env q uid gid)"
  unfolding prepare_upload_def
  by (rule each_look_at) (auto split: sum.splits intro!: each_rules stays_take_over)

lemma stays_download: "temp_file env q \<Longrightarrow> stays env Op_file_worker (make_download_readable env q)"
  unfolding make_download_readable_def
  by (rule each_look_at) (auto split: sum.splits option.splits intro!: each_rules stays_take_over)

lemma stays_worker:
  "(\<And>t. fw_temp f = Some t \<Longrightarrow> temp_file env t) \<Longrightarrow> stays env Op_file_worker (serve_file env rq f)"
proof -
  assume temp: "\<And>t. fw_temp f = Some t \<Longrightarrow> temp_file env t"
  have "stays env Op_file_worker (run_worker env rq f)"
    unfolding run_worker_def
    by (auto simp: confined.simps(1) command_confined_def worker_timeout_def temp
        split: option.splits intro!: each_rules each_then stays_download)
  then show ?thesis
    by (auto simp: serve_file_def temp split: option.splits
        intro!: stays_cleanup stays_answered each_then stays_upload)
qed

lemma stays_file_worker: "stays env Op_file_worker (dispatch_file_worker env rq)"
  unfolding emits_def
proof (intro allI impI)
  fix h r h' assume run: "dispatch_file_worker env rq h = (r, h')"
  obtain q u where v: "validate_file_request env rq h = (q, u)" by fastforce
  then have "u = h" using quiet_file_request by (fastforce simp: emits_def)
  have "temp_file env t" if "q = Inr f" "fw_temp f = Some t" for f t
    using returns_file_request [of env rq f t] that v by (auto simp: returns_def)
  then have "stays env Op_file_worker (case q of Inl e \<Rightarrow> answered rq (step_raise e) | Inr f \<Rightarrow> serve_file env rq f)"
    by (auto split: sum.splits intro!: stays_answered each_rules stays_worker)
  then show "\<exists>es. h' = h @ es \<and> list_all (confined env Op_file_worker) es"
    using run v \<open>u = h\<close> by (auto simp: dispatch_file_worker_def emits_def split: sum.splits)
qed

section \<open>Every request\<close>

lemma stays_account: "stays env Op_account (run_account env p)"
proof (rule emits_weaken [OF account_sound])
  fix r es assume "account_effects env es"
  then consider "es = []" | c exe where "command_ok c" "tool_path env (command_tool c) exe"
    "es = [Ran (exe # command_words c) (command_input c) 60]" by (auto simp: account_effects_def)
  then show "list_all (confined env Op_account) es"
    by cases (simp_all, rule confined_run, auto simp: command_tool_known)
qed

lemma stays_infrastructure:
  "stays env p (infra_action env rq) \<Longrightarrow> stays env p (dispatch_infrastructure env rq)"
  by (fastforce simp: emits_def dispatch_infrastructure_def split: prod.splits sum.splits if_splits)

lemmas stays_policies =
  stays_systemd stays_power stays_managed_file stays_ownership stays_quota stays_package stays_hook
  stays_samba stays_mount stays_mount_unit stays_probe stays_dpkg_repair stays_firewall
  stays_docker_stop stays_docker stays_ntp stays_routing stays_session stays_update stays_file_worker
  stays_account

lemma stays_base: "stays env (bq_op rq) (dispatch_base env rq)"
  by (cases "bq_op rq") (auto simp: dispatch_base_def base_action_def intro!: each_rules stays_policies)

lemma stays_extended: "stays env (bq_op rq) (extended_dispatch env rq)"
  using stays_base [of env rq]
  by (cases "bq_op rq")
     (auto simp: extended_dispatch_def extended_action_def custom_operations_def Let_def respond_redacted_def
        dispatch_firewall_def intro!: each_rules stays_policies)

lemma stays_standard: "stays (sv_env sv) (bq_op rq) (standard_dispatch sv rq)"
  using stays_extended [of "sv_env sv" rq]
  by (cases "bq_op rq")
     (auto simp: standard_dispatch_def Let_def respond_redacted_def intro!: each_rules stays_policies)

lemma stays_server: "stays (sv_env sv) (bq_op rq) (server_dispatch sv rq)"
  using stays_standard [of sv rq]
  by (cases "bq_op rq")
     (auto simp: server_dispatch_def dispatch_account_def dispatch_update_def infra_action_def
        intro!: each_rules stays_policies stays_infrastructure)

text \<open>
  C14. Whatever a connection sends, the broker changes nothing unless the peer has the expected uid
  and the frame is a valid request; then every command, directory, file and permission change is one
  the operation of the request permits (\<open>confined\<close>): the operation's own tools from the fixed
  directories, units that are not protected, accounts that are not protected, mounts below the
  managed root without set-user-id files and devices, files of the fixed lists.
\<close>

theorem broker_effects_confined:
  assumes "handle_connection sv cn h = (r, h')"
  shows "\<exists>es. h' = h @ es \<and> (es = [] \<or> cn_uid cn = Inr (sv_expected_uid sv)
    \<and> (\<exists>raw v rq. receive_frame [] (cn_chunks cn) = Inr raw \<and> sv_decode sv raw = Inr v
         \<and> parse_request v = Some rq \<and> list_all (confined (sv_env sv) (bq_op rq)) es))"
proof -
  obtain i q where answer: "answer_connection sv cn h = ((i, q), h')"
    using assms by (auto simp: handle_connection_def split: prod.splits sum.splits if_splits)
  show ?thesis
  proof (cases "h' = h")
    case False
    then obtain raw v rq where req: "cn_uid cn = Inr (sv_expected_uid sv)" "receive_frame [] (cn_chunks cn) = Inr raw"
      "sv_decode sv raw = Inr v" "parse_request v = Some rq" "server_dispatch sv rq h = (q, h')"
      using answer by (auto simp: answer_connection_def Let_def split: prod.splits sum.splits if_splits option.splits)
    then show ?thesis using emitsD [OF stays_server req(5)] by blast
  qed simp
qed

text \<open>A restart of a web server, requested by the panel and by another user of the system.\<close>

definition demo_payload :: payload where
  "demo_payload = [(''action'', JStr ''restart''), (''unit'', JStr ''nginx'')]"

definition demo_document :: json where
  "demo_document = JObj [(''request_id'', JStr zero_id), (''actor'', JStr ''ann''),
     (''operation'', JStr ''systemd''), (''payload'', JObj demo_payload)]"

definition demo_server :: server where
  "demo_server = \<lparr>sv_env = demo_broker, sv_pam = (\<lambda>u pw. Inr True), sv_network_ok = (\<lambda>s. True),
     sv_address_ok = (\<lambda>s. True), sv_decode = (\<lambda>raw. if raw = ''{}'' then Inr demo_document
       else Inl (ValueError ''JSONDecodeError'')), sv_encode = bp_stdout, sv_expected_uid = 990\<rparr>"

definition demo_connection :: connection where
  "demo_connection = \<lparr>cn_uid = Inr 990, cn_chunks = [Inr ''{}'', Inr [CHR 10]], cn_send = (\<lambda>frame. Inr ())\<rparr>"

lemma demo_restart:
  "handle_connection demo_server demo_connection [] =
     (Some \<lparr>bp_id = zero_id, bp_ok = True, bp_exit_code = 0, bp_stdout = [], bp_stderr = [], bp_error = None\<rparr>,
      [Ran [''/usr/sbin/systemctl'', ''restart'', ''nginx.service''] None 120])"
  "handle_connection demo_server (demo_connection\<lparr>cn_uid := Inr 33\<rparr>) [] =
     (Some \<lparr>bp_id = zero_id, bp_ok = False, bp_exit_code = 126, bp_stdout = [],
        bp_stderr = ''caller uid is not authorized'', bp_error = Some ''UNAUTHORIZED_PEER''\<rparr>, [])"
  by code_simp+

theorem broker_effects_confined_witness:
  "confined demo_broker Op_systemd (Ran [''/usr/sbin/systemctl'', ''restart'', ''nginx.service''] None 120)"
proof -
  have doc: "parse_request demo_document = Some \<lparr>bq_id = zero_id, bq_actor = ''ann'', bq_op = Op_systemd,
    bq_payload = demo_payload\<rparr>" by code_simp
  have frame: "receive_frame [] (cn_chunks demo_connection) = Inr ''{}''" by code_simp
  show ?thesis
    using broker_effects_confined [OF demo_restart(1)] doc frame by (auto simp: demo_server_def)
qed

end
