(* ===== verification/Broker_Answers.thy ===== *)
theory Broker_Answers
  imports Broker_Confinement
begin

text \<open>
  What the broker answers: which requests are refused before anything is done, and which exceptions
  leave a dispatcher, so that the peer gets no answer at all.
\<close>

section \<open>Raised exceptions\<close>

definition throws :: "(py_exn \<Rightarrow> bool) \<Rightarrow> 'a broker \<Rightarrow> bool" where
  "throws E m \<longleftrightarrow> (\<forall>h e h'. m h = (Inl e, h') \<longrightarrow> E e)"

named_theorems throw_rules \<open>the exceptions of steps\<close>

lemma throwsD: "throws E m \<Longrightarrow> m h = (Inl e, h') \<Longrightarrow> E e"
  unfolding throws_def by blast

lemma throws_weaken: "throws E m \<Longrightarrow> (\<And>e. E e \<Longrightarrow> F e) \<Longrightarrow> throws F m"
  unfolding throws_def by blast

lemma throws_return [throw_rules]: "throws E (step_return x)"
  by (simp add: throws_def step_return_def)

lemma throws_raise: "E e \<Longrightarrow> throws E (step_raise e)"
  by (simp add: throws_def step_raise_def)

lemma throws_res: "(\<And>e. r = Inl e \<Longrightarrow> E e) \<Longrightarrow> throws E (step_res r)"
  by (auto simp: throws_def step_res_def)

lemma throws_bind [throw_rules]:
  "throws E f \<Longrightarrow> (\<And>x. returns f x \<Longrightarrow> throws E (g x)) \<Longrightarrow> throws E (step_bind f g)"
  by (fastforce simp: throws_def step_bind_def returns_def split: prod.splits sum.splits)

lemma throws_then [throw_rules]: "throws E f \<Longrightarrow> throws E g \<Longrightarrow> throws E (step_then f g)"
  unfolding step_then_def by (rule throws_bind)

lemma throws_cases [throw_rules]:
  "(b \<Longrightarrow> throws E f) \<Longrightarrow> (\<not> b \<Longrightarrow> throws E g) \<Longrightarrow> throws E (if b then f else g)"
  "(x = None \<Longrightarrow> throws E f) \<Longrightarrow> (\<And>y. x = Some y \<Longrightarrow> throws E (k y))
     \<Longrightarrow> throws E (case x of None \<Rightarrow> f | Some y \<Rightarrow> k y)"
  "(xs = [] \<Longrightarrow> throws E f) \<Longrightarrow> (\<And>z zs. xs = z # zs \<Longrightarrow> throws E (l z zs))
     \<Longrightarrow> throws E (case xs of [] \<Rightarrow> f | z # zs \<Rightarrow> l z zs)"
  "(\<And>a c. q = (a, c) \<Longrightarrow> throws E (p a c)) \<Longrightarrow> throws E (case q of (a, c) \<Rightarrow> p a c)"
  by (auto split: option.splits list.splits prod.splits)

lemma throws_respond:
  "throws E m \<Longrightarrow> throws (\<lambda>e. E e \<and> \<not> is_policy_error e \<and> \<not> caught e) (respond rq msg caught trim m)"
  by (auto simp: throws_def respond_def split: prod.splits sum.splits if_splits)

section \<open>A system that raises what it documents\<close>

text \<open>
  Commands fail with an \<^verbatim>\<open>OSError\<close> or time out; resolving a path raises an \<^verbatim>\<open>OSError\<close>
  or, for a loop of links, a \<^verbatim>\<open>RuntimeError\<close>; an unreadable configuration is a
  \<^verbatim>\<open>ValueError\<close>; an unknown account is a \<^verbatim>\<open>KeyError\<close>.
\<close>

definition orderly :: "broker_env \<Rightarrow> bool" where
  "orderly env \<longleftrightarrow>
     (\<forall>h e x. be_answer env h e = Inl x \<longrightarrow> is_os_error x
        \<or> is_subprocess_error x \<and> (\<exists>argv input limit. e = Ran argv input limit))
     \<and> (\<forall>p x. be_resolve env p = Inl x \<longrightarrow> is_os_error x \<or> is_runtime_error x)
     \<and> (\<forall>h p x. be_lstat env h p = Inl x \<longrightarrow> is_os_error x)
     \<and> (\<forall>x. be_settings env = Inl x \<longrightarrow> is_os_error x \<or> is_runtime_error x \<or> (\<exists>m. x = ValueError m))
     \<and> (\<forall>p x. pw_real (be_paths env) p = Inl x \<longrightarrow> is_os_error x \<or> is_runtime_error x)
     \<and> (\<forall>u x. pw_home (be_paths env) u = Inl x \<longrightarrow> (\<exists>m. x = KeyError m))"

text \<open>Then checking a user's path fails only in these ways.\<close>

definition fails :: "(py_exn \<Rightarrow> bool) \<Rightarrow> 'a res \<Rightarrow> bool" where
  "fails E r \<longleftrightarrow> (\<forall>e. r = Inl e \<longrightarrow> E e)"

lemma fails_simps [simp]: "fails E (Inr x)" "fails E (Inl e) = E e"
  by (simp_all add: fails_def)

lemma fails_rbind: "fails E r \<Longrightarrow> (\<And>x. r = Inr x \<Longrightarrow> fails E (f x)) \<Longrightarrow> fails E (rbind r f)"
  by (cases r) (auto simp: fails_def)

lemma fails_rmap: "(\<And>x. fails E (f x)) \<Longrightarrow> fails E (rmap f xs)"
  by (induction xs) (auto intro!: fails_rbind)

lemma fails_rfold: "(\<And>x a. fails E (f x a)) \<Longrightarrow> fails E (rfold f xs a)"
  by (induction xs arbitrary: a) (auto intro!: fails_rbind)

lemma fails_if: "(b \<Longrightarrow> fails E r) \<Longrightarrow> (\<not> b \<Longrightarrow> fails E s) \<Longrightarrow> fails E (if b then r else s)"
  by simp

lemma user_path_fails:
  assumes "\<And>p. fails E (pw_real w p)" and "\<And>u. fails E (pw_home w u)" and "\<And>n m. E (HTTPException n m)"
  shows "fails E (resolve_user_path w user p)"
proof -
  have real: "fails E (real_or_absolute w q)" for q
    using assms(1) [of q] by (auto simp: real_or_absolute_def split: sum.split)
  have "fails E (assert_path_allowed w b q)" for b q
    unfolding assert_path_allowed_def path_is_protected_def blocked_def
    by (intro fails_rbind fails_if real fails_rmap assms) (simp_all add: assms)
  then have first: "fails E (first_root w rs q)" for rs q
    by (induction rs) (auto intro!: fails_rbind simp: assms)
  have roots: "fails E (configured_roots w user)" "fails E (validate_allowed_roots w user rs)" for rs
    unfolding configured_roots_def validate_allowed_roots_def blocked_def
    by (intro fails_rbind fails_if fails_rmap fails_rfold assms; simp add: assms)+
  have "fails E (allowed_roots w user)" unfolding allowed_roots_def by (intro fails_rbind roots) simp
  moreover have "fails E (requested_path w base p)" for base
    unfolding requested_path_def by (intro fails_if assms) simp
  ultimately show ?thesis unfolding resolve_user_path_def by (intro fails_rbind first)
qed

lemma orderly_user_path:
  assumes "orderly env"
  shows "fails (\<lambda>e. is_os_error e \<or> is_runtime_error e \<or> is_http_error e \<or> (\<exists>m. e = KeyError m))
    (resolve_user_path (be_paths env) user p)"
  by (rule user_path_fails) (use assms in \<open>auto simp: orderly_def fails_def is_http_error_def\<close>)

text \<open>What the policies raise themselves and what they mean to answer.\<close>

definition ordinary :: "py_exn \<Rightarrow> bool" where
  "ordinary e \<longleftrightarrow> is_policy_error e \<or> is_os_error e \<or> is_runtime_error e \<or> is_subprocess_error e
     \<or> (\<exists>m. e = ValueError m)"

lemma ordinary_simps [simp]: "ordinary (PolicyError m)" "ordinary (RuntimeError m)" "ordinary (ValueError m)"
  by (simp_all add: ordinary_def)

abbreviation tame :: "'a broker \<Rightarrow> bool" where
  "tame \<equiv> throws ordinary"

lemma tame_deny [throw_rules]: "tame (deny m)" "tame (ensure b m)"
  by (simp_all add: deny_def ensure_def throws_raise throws_return)

lemma tame_perform: "orderly env \<Longrightarrow> tame (perform env e)"
  by (auto simp: orderly_def throws_def perform_def ordinary_def)

lemma tame_resolve: "orderly env \<Longrightarrow> tame (step_res (be_resolve env p))"
  by (rule throws_res) (auto simp: orderly_def ordinary_def)

lemma tame_settings: "orderly env \<Longrightarrow> tame (step_res (be_settings env))"
  by (rule throws_res) (auto simp: orderly_def ordinary_def)

lemma tame_tool: "orderly env \<Longrightarrow> tame (resolve_tool env name)"
  unfolding resolve_tool_def by (intro throw_rules tame_resolve)

lemma tame_validators [throw_rules]:
  "tame (policy_name kind s)" "tame (policy_token n l v)" "tame (payload_keys ks p)" "tame (policy_text n p k)"
  "tame (show_properties p)" "tame (unit_allowed env u)" "tame (check_owner a b)"
  unfolding policy_name_def policy_token_def payload_keys_def policy_text_def show_properties_def
    unit_allowed_def check_owner_def Let_def
  by (intro throw_rules)+

lemma tame_each_check: "(\<And>x. x \<in> set xs \<Longrightarrow> throws E (f x)) \<Longrightarrow> throws E (each_check f xs)"
  by (induction xs) (auto intro!: throws_return throws_then)

lemma tame_safe_path: "orderly env \<Longrightarrow> tame (safe_path env roots raw)"
proof -
  assume ok: "orderly env"
  have "tame (first_under env rs c)" for rs c
    by (induction rs) (auto intro!: throw_rules tame_resolve ok)
  then show ?thesis unfolding safe_path_def by (intro throw_rules tame_resolve ok)
qed

section \<open>The policies raise what they document\<close>

lemma tame_base:
  assumes "orderly env"
  shows "tame (run_systemd env p)" "tame (run_power env p)" "tame (run_managed_file env p)"
    "tame (install_file env t c m)"
proof -
  note ok = assms
  show install: "tame (install_file env t c m)" for t c m
    unfolding install_file_def by (intro throw_rules tame_perform ok)
  show "tame (run_systemd env p)" unfolding run_systemd_def by (intro throw_rules tame_tool tame_perform ok)
  show "tame (run_power env p)" unfolding run_power_def by (intro throw_rules tame_tool tame_perform ok)
  show "tame (run_managed_file env p)" unfolding run_managed_file_def by (intro throw_rules install)
qed

lemma tame_account:
  assumes "orderly env"
  shows "tame (run_account env p)"
proof -
  note ok = assms
  have run: "tame (run_tool env t args input limit)" for t args input limit
    unfolding run_tool_def by (intro throw_rules tame_tool tame_perform ok)
  have names: "tame (each_name kind ns)" for kind ns by (induction ns) (auto intro!: throw_rules)
  have "tame (option_value flag v)" for flag v
    unfolding option_value_def csv_names_def by (intro throw_rules names)
  note one = this
  have add: "tame (useradd_options ws)" for ws
    by (induction ws rule: useradd_options.induct) (auto intro!: throw_rules one)
  have mod: "tame (usermod_options seen ws)" for seen ws
    by (induction seen ws rule: usermod_options.induct) (auto intro!: throw_rules one)
  have "tame (run_named env t args)" for t args
    unfolding run_named_def by (intro throw_rules run add mod)
  moreover have "tame (run_chpasswd env args input)" for args input
    unfolding run_chpasswd_def by (intro throw_rules run)
  ultimately show ?thesis
    unfolding run_account_def run_account_tool_def readable_user_def by (intro throw_rules run)
qed

lemma tame_files:
  assumes "orderly env"
  shows "tame (run_ownership env p)" "tame (run_quota env p)" "tame (run_samba_account env p)"
proof -
  note ok = assms
  have "tame (run_on_path env t f path)" for t f path
    unfolding run_on_path_def by (intro throw_rules tame_tool tame_perform ok)
  then show "tame (run_ownership env p)"
    unfolding run_ownership_def Let_def by (intro throw_rules tame_safe_path tame_perform ok)
  show "tame (run_quota env p)" "tame (run_samba_account env p)"
    unfolding run_quota_def run_samba_account_def by (intro throw_rules tame_tool tame_perform ok)+
qed

lemma tame_package:
  assumes "orderly env"
  shows "tame (run_package env p)" "tame (run_dpkg_repair env p)"
proof -
  note ok = assms
  have token: "tame (package_token v)" for v unfolding package_token_def by (intro throw_rules)
  have path: "tame (package_path env v)" if "orderly env" for env v
    unfolding package_path_def by (intro tame_safe_path that)
  have option: "tame (apt_option env v)" if "orderly env" for env v
    unfolding apt_option_def by (intro throw_rules path that)
  have words: "tame (checked_words flags msg ws)" "tame (package_words ws)" for flags msg ws
    by (induction ws) (auto intro!: throw_rules token)
  have options: "tame (apt_options env ws)" if "orderly env" for env ws
    using that by (induction env ws rule: apt_options.induct) (auto intro!: throw_rules option)
  have plain: "tame (operation_words cs msg check ws)" if "\<And>vs. tame (check vs)" for cs msg check ws
    unfolding operation_words_def by (intro throw_rules that)
  have "tame (package_command env t args)" for t args
    unfolding package_command_def apt_words_def zypper_words_def file_words_def Let_def
    by (intro throw_rules options words path plain ok)
  then show "tame (run_package env p)" unfolding run_package_def by (intro throw_rules tame_tool tame_perform ok)
  show "tame (run_dpkg_repair env p)" unfolding run_dpkg_repair_def by (intro throw_rules tame_tool tame_perform ok)
qed

lemma tame_mount:
  assumes "orderly env"
  shows "tame (run_mount env p)" "tame (run_mount_unit env p)"
proof -
  note ok = assms
  have top: "tame (mount_root env home q)" for home q
    unfolding mount_root_def by (intro tame_safe_path ok)
  have option: "tame (mount_option env w)" if "orderly env" for env w
    unfolding mount_option_def by (intro throw_rules tame_safe_path that)
  have "tame (mount_options env ws)" for ws
    by (induction ws) (auto intro!: throw_rules option ok)
  then have options: "tame (validated_mount_options env raw)" for raw
    unfolding validated_mount_options_def by (intro throw_rules)
  have "tame (mount_words env t args)" for t args
    unfolding mount_words_def by (intro throw_rules top options)
  then show "tame (run_mount env p)" unfolding run_mount_def by (intro throw_rules tame_tool tame_perform ok)
  have escape: "tame (systemd_escape env q kind)" for q kind
    unfolding systemd_escape_def by (intro throw_rules tame_tool tame_perform ok)
  have remove: "tame (remove_units env exe ns)" for exe ns
    by (induction ns) (auto intro!: throw_rules tame_perform ok)
  have "tame (apply_mount_unit env p exe point m a)" for exe point m a
    unfolding apply_mount_unit_def write_mount_unit_def by (intro throw_rules options tame_perform ok)
  then show "tame (run_mount_unit env p)"
    unfolding run_mount_unit_def by (intro throw_rules top escape remove tame_tool tame_perform ok)
qed

lemma tame_devices:
  assumes "orderly env"
  shows "tame (run_storage_probe env p)" "tame (run_docker_stop env p)"
    "throws (\<lambda>e. ordinary e \<or> e = TypeError) (run_firewall env p)"
proof -
  note ok = assms
  show "tame (run_storage_probe env p)" "tame (run_docker_stop env p)"
    unfolding run_storage_probe_def run_docker_stop_def by (intro throw_rules tame_tool tame_perform ok)+
  let ?E = "\<lambda>e. ordinary e \<or> e = TypeError"
  have tame: "throws ?E m" if "tame m" for m :: "'b broker" using that by (rule throws_weaken) simp
  have ufw: "tame (ufw_tokens c ws)" and nft: "tame (nft_tokens c ws)" for c ws
    by (induction ws arbitrary: c) (auto intro!: throw_rules)
  have "tame (step_res (ufw_delete args))" for args
    by (rule throws_res)
       (auto simp: ufw_delete_def py_int_def ordinary_def rbind_Inl_iff split: list.splits if_splits option.splits)
  then have "tame (validate_firewall b args)" for b args
    unfolding validate_firewall_def validate_ufw_def validate_firewalld_def validate_nft_def
    by (intro throw_rules ufw nft)
  note rest = tame [OF this] tame [OF tame_tool [OF ok]] tame [OF tame_perform [OF ok]]
  have items: "tame (clean_args p)"
    by (auto simp: clean_args_def split: option.splits json.splits intro!: throw_rules)
  have backend: "throws ?E (backend_value p)"
    unfolding backend_value_def by (intro throws_cases throws_raise throws_return tame [OF tame_deny(1)]) simp
  show "throws ?E (run_firewall env p)"
    unfolding run_firewall_def
    by (intro throws_bind throws_then throws_cases backend rest tame [OF items] tame [OF tame_deny(1)])
qed

lemma tame_infra:
  assumes "orderly env"
  shows "throws (\<lambda>e. ordinary e \<or> bq_op rq = Op_routing \<and> e = TypeError) (infra_action env rq)"
proof -
  note ok = assms
  let ?E = "\<lambda>e. ordinary e \<or> e = TypeError"
  have widen: "throws ?E m" if "tame m" for m :: "'b broker" using that by (rule throws_weaken) simp
  have run: "tame (run_infra env t ws limit)" for t ws limit
    unfolding run_infra_def by (intro throw_rules tame_tool tame_perform ok)
  then have report: "tame (run_reported env t ws limit failed)" for t ws limit failed
    unfolding run_reported_def by (intro throw_rules)
  have status: "tame (firewall_status env)"
    unfolding firewall_status_def ufw_status_def nft_status_def Let_def by (intro throw_rules run)
  then have "tame (ntp_firewall_open env)"
    unfolding ntp_firewall_open_def by (intro throw_rules run report)
  moreover have "tame (set_timezone env tz)" for tz
    unfolding set_timezone_def by (intro throw_rules tame_resolve report ok)
  moreover have "tame (atomic_write env target content)" for target content
    unfolding atomic_write_def by (intro throw_rules tame_base(4) ok)
  ultimately have ntp: "tame (run_ntp env p)" for p
    unfolding run_ntp_def Let_def by (intro throw_rules status report)
  have session: "tame (run_session env p)" for p unfolding run_session_def by (intro throw_rules report)
  have ip: "tame (validate_ip_args p)" for p
    by (auto simp: validate_ip_args_def split: option.splits json.splits intro!: throw_rules)
  have names: "throws ?E (text_in names v)" for names v
    unfolding text_in_def by (intro throws_cases throws_raise throws_return) simp
  moreover have "throws ?E (run_nmcli env p action)" for p action
    unfolding run_nmcli_def by (intro throws_bind throws_cases names report [THEN widen] tame_deny [THEN widen])
  ultimately have routing: "throws ?E (run_routing env p)" for p
    unfolding run_routing_def
    by (intro throws_bind throws_cases names ip [THEN widen] report [THEN widen] tame_deny [THEN widen])
  show ?thesis
    using routing by (cases "bq_op rq")
      (auto simp: infra_action_def intro: throws_weaken [OF ntp] throws_weaken [OF session] throws_weaken [OF tame_deny(1)])
qed

lemma tame_hook:
  assumes "orderly env"
  shows "throws (\<lambda>e. ordinary e \<or> is_http_error e) (run_module_hook env p)"
proof -
  note ok = assms
  let ?E = "\<lambda>e. ordinary e \<or> is_http_error e"
  have widen: "throws ?E m" if "tame m" for m :: "'b broker" using that by (rule throws_weaken) simp
  have http: "throws ?E (step_raise (HTTPException n m))" for n m
    by (rule throws_raise) (simp add: is_http_error_def)
  have first: "throws ?E (first_script env base exts)" if "orderly env" for env base exts
    using that by (induction env base exts rule: first_script.induct)
      (auto intro!: throws_return throws_bind http widen [OF tame_resolve])
  note leaves = tame_deny [THEN widen] tame_validators [THEN widen] tame_tool [OF ok, THEN widen]
    tame_perform [OF ok, THEN widen] tame_resolve [OF ok, THEN widen]
  have "throws ?E (module_script env i action)" for i action
    unfolding module_script_def module_directory_def
    by (intro throws_bind throws_cases throws_return http first ok leaves)
  then show ?thesis
    unfolding run_module_hook_def by (intro throws_bind throws_then throws_cases throws_return leaves)
qed

lemma tame_update:
  assumes "orderly env"
  shows "throws (\<lambda>e. ordinary e \<or> (\<exists>m. e = KeyError m)) (run_update env p)"
proof -
  note ok = assms
  let ?E = "\<lambda>e. ordinary e \<or> (\<exists>m. e = KeyError m)"
  have widen: "throws ?E m" if "tame m" for m :: "'b broker" using that by (rule throws_weaken) simp
  have fetch: "tame (fetch_installer env)"
    unfolding throws_def fetch_installer_def
    using tame_perform [OF ok, of "Fetched installer_url"]
    by (auto simp: throws_def deny_def step_raise_def step_return_def split: prod.splits sum.splits if_splits)
  have owner: "throws ?E (webnas_owner env)"
    unfolding webnas_owner_def by (intro throws_cases throws_raise throws_return) simp_all
  have script: "tame (write_script env q content)" for q content
    unfolding write_script_def by (intro throw_rules tame_perform ok)
  have unit: "tame (start_unit env runner log_path)" for runner log_path
    unfolding start_unit_def by (intro throw_rules tame_tool tame_perform ok)
  note leaves = tame_deny [THEN widen] tame_validators [THEN widen] tame_tool [OF ok, THEN widen]
    tame_perform [OF ok, THEN widen] tame_settings [OF ok, THEN widen]
    unit [THEN widen] script [THEN widen] fetch [THEN widen] owner
  have "throws ?E (start_update env r c a)" for r c a
    unfolding start_update_def Let_def by (intro throws_bind throws_then throws_cases leaves)
  then show ?thesis
    unfolding run_update_def
    by (auto split: option.splits json.splits intro!: throws_then throws_cases leaves)
qed

lemma throws_obj [throw_rules]:
  "(\<And>d. v = JObj d \<Longrightarrow> throws E (f d)) \<Longrightarrow> throws E g \<Longrightarrow> throws E (case v of JObj d \<Rightarrow> f d | _ \<Rightarrow> g)"
  by (cases v) auto

text \<open>The Docker policy raises a \<^verbatim>\<open>TypeError\<close> on values that cannot be hashed or iterated over.\<close>

definition docker_exn :: "py_exn \<Rightarrow> bool" where
  "docker_exn e \<longleftrightarrow> ordinary e \<or> e = TypeError"

lemma docker_widen: "tame m \<Longrightarrow> throws docker_exn m"
  by (erule throws_weaken) (simp add: docker_exn_def)

lemma tame_docker_names [throw_rules]:
  "tame (docker_identifier label v)" "tame (docker_image v)" "tame (step_res (py_int n))" "tame (int_between a b n)"
proof -
  show number: "tame (step_res (py_int n))"
    by (rule throws_res) (auto simp: py_int_def split: if_splits)
  show "tame (int_between a b n)" unfolding int_between_def by (intro throw_rules number)
  show "tame (docker_identifier label v)" "tame (docker_image v)"
    by (simp_all add: docker_identifier_def docker_image_def tame_deny)
qed

lemma tame_docker_paths:
  assumes "orderly env"
  shows "tame (bind_source env v)" "tame (data_path env label v)" "tame (check_data env label v)"
proof -
  note resolve = tame_resolve [OF assms]
  have "tame (resolve_all env rs)" for rs by (induction rs) (auto intro!: throw_rules resolve)
  then have "tame (bind_roots env)" unfolding bind_roots_def by (intro throw_rules)
  then show "tame (bind_source env v)" unfolding bind_source_def Let_def by (intro throw_rules resolve)
  show data: "tame (data_path env label v)" unfolding data_path_def Let_def by (intro throw_rules resolve)
  show "tame (check_data env label v)" unfolding check_data_def by (intro throw_rules data)
qed

lemma tame_validate_run:
  assumes "orderly env"
  shows "tame (validate_run env args)"
proof -
  note paths = tame_docker_paths [OF assms]
  have mount: "tame (check_mount env v)" for v
    unfolding check_mount_def Let_def by (intro throw_rules paths)
  have setting: "tame (run_value env item v)" for item v
    unfolding run_value_def by (intro throw_rules mount paths)
  have "tame (run_options env ws)" for ws
  proof (induction ws rule: induct_list012)
    case (3 item v ws)
    then show ?case unfolding run_options.simps(2) [of env item] list.case by (intro throw_rules setting)
  qed (simp_all only: run_options.simps list.case, (intro throw_rules)+)
  then show ?thesis unfolding validate_run_def by (intro throw_rules)
qed

lemma throws_check_document:
  assumes "orderly env"
  shows "throws docker_exn (check_document env doc)"
proof -
  note leaves = throws_return throws_bind throws_then throws_cases throws_obj tame_each_check
    tame_deny [THEN docker_widen] tame_docker_names [THEN docker_widen]
  have "throws docker_exn (check_definition env name kv)" for name kv
    unfolding check_definition_def
    by (cases "snd kv") (auto intro!: leaves throws_raise simp: docker_exn_def split: option.splits)
  then have parts: "throws docker_exn (check_section env kvs name)" for kvs name
    unfolding check_section_def by (intro leaves)
  have items: "throws docker_exn (step_res (iter_value v))" for v
    by (rule throws_res) (auto simp: iter_value_def docker_exn_def split: json.splits)
  have "tame (check_volume env v)" for v
    unfolding check_volume_def Let_def by (intro throw_rules tame_docker_paths assms)
  then have "throws docker_exn (check_service env kv)" for kv
    unfolding check_service_def Let_def by (intro leaves items docker_widen)
  note service = this
  show ?thesis
    unfolding check_document_def by (intro leaves service parts)
qed

lemma throws_validate_compose:
  assumes "orderly env"
  shows "throws docker_exn (validate_compose env args)"
proof -
  note paths = tame_docker_paths [OF assms]
  have compose_file: "throws docker_exn (validate_compose_file env v)" for v
    unfolding validate_compose_file_def
    by (intro throws_bind throws_cases throws_check_document assms paths(2) [THEN docker_widen]
        tame_deny [THEN docker_widen])
  have options: "tame (compose_options env v ws)" for v ws
    by (induction ws arbitrary: v rule: induct_list012) (auto intro!: throw_rules paths)
  have logs: "tame (compose_logs ws)" for ws
    by (induction ws rule: compose_logs.induct) (auto split: list.splits intro!: throw_rules)
  have scale: "tame (check_scale item)" for item
    unfolding check_scale_def by (intro throw_rules)
  have tail: "tame (compose_tail command ws)" for command ws
    unfolding compose_tail_def by (intro throw_rules logs scale tame_each_check)
  show ?thesis
    unfolding validate_compose_def Let_def
    by (intro throws_bind throws_then throws_cases throws_return compose_file options [THEN docker_widen]
        tail [THEN docker_widen] tame_deny [THEN docker_widen])
qed

lemma tame_docker_commands:
  assumes "orderly env"
  shows "tame (validate_simple command ws)" "tame (validate_family env network_ok address_ok name ws)"
proof -
  have flags: "tame (flag_loop keep singles pairs msg ws)" for keep singles pairs msg ws
    by (induction keep singles pairs msg ws rule: flag_loop.induct) (auto intro!: throw_rules)
  have only: "tame (only_flags singles pairs msg ws)" for singles pairs msg ws
    unfolding only_flags_def by (intro throw_rules flags)
  have word: "tame (one_word msg check ws)" if "\<And>w. tame (check w)" for msg check ws
    unfolding one_word_def by (intro throw_rules that)
  have create: "tame (network_create_options network_ok address_ok ws)" for ws
    by (induction network_ok address_ok ws rule: network_create_options.induct) (auto intro!: throw_rules)
  show "tame (validate_simple command ws)"
    unfolding validate_simple_def Let_def by (intro throw_rules only flags word tame_each_check)
  show "tame (validate_family env network_ok address_ok name ws)"
    unfolding validate_family_def validate_container_def validate_image_def validate_volume_def validate_network_def
    by (intro throw_rules only word tame_docker_paths assms create tame_each_check)
qed

lemma throws_docker:
  assumes "orderly env"
  shows "throws docker_exn (run_docker env network_ok address_ok p)"
proof -
  have "throws docker_exn (validate_docker env network_ok address_ok tool args)" for tool args
    unfolding validate_docker_def
    by (intro throws_cases throws_validate_compose tame_validate_run [OF assms, THEN docker_widen]
        tame_docker_commands [OF assms, THEN docker_widen] assms)
  then show ?thesis
    unfolding run_docker_def
    by (intro throws_bind throws_then throws_cases tame_deny [THEN docker_widen] tame_validators [THEN docker_widen]
        tame_tool [OF assms, THEN docker_widen] tame_perform [OF assms, THEN docker_widen])
qed

definition worker_exn :: "py_exn \<Rightarrow> bool" where
  "worker_exn e \<longleftrightarrow> ordinary e \<or> (\<exists>m. e = KeyError m)"

lemma worker_widen: "tame m \<Longrightarrow> throws worker_exn m"
  by (erule throws_weaken) (simp add: worker_exn_def)

lemma throws_file_request:
  assumes "orderly env"
  shows "throws worker_exn (validate_file_request env rq)"
proof -
  note leaves = throws_return throws_bind throws_then throws_cases throws_obj tame_each_check
    tame_deny [THEN worker_widen] tame_resolve [OF assms, THEN worker_widen] tame_settings [OF assms, THEN worker_widen]
  have path: "throws worker_exn (check_path env user p key)" for user p key
  proof (cases "\<exists>v raw. map_of p key = Some v \<and> raw_path v = Some raw")
    case True
    then obtain v raw where v: "map_of p key = Some v" "raw_path v = Some raw" by blast
    show ?thesis
    proof (cases "resolve_user_path (be_paths env) user raw")
      case (Inl e)
      then have "is_os_error e \<or> is_runtime_error e \<or> is_http_error e \<or> (\<exists>m. e = KeyError m)"
        using orderly_user_path [OF assms, of user raw] by (simp add: fails_def)
      then have "is_http_error e \<or> worker_exn e"
        by (auto simp: worker_exn_def ordinary_def)
      then show ?thesis using v Inl by (auto simp: check_path_def intro!: leaves throws_raise)
    next
      case (Inr q)
      then show ?thesis using v by (auto simp: check_path_def intro!: leaves)
    qed
  next
    case False
    then show ?thesis by (auto simp: check_path_def split: option.splits intro!: leaves)
  qed
  have temp: "throws worker_exn (request_temp env action p)" for action p
    unfolding request_temp_def valid_temp_def by (intro leaves)
  show ?thesis unfolding validate_file_request_def Let_def by (intro leaves path temp)
qed

lemma throws_answered:
  "throws worker_exn m \<Longrightarrow> throws (\<lambda>e. (\<exists>k. e = ValueError k) \<or> (\<exists>k. e = KeyError k)) (answered rq m)"
  by (auto simp: throws_def answered_def worker_exn_def ordinary_def split: prod.splits sum.splits if_splits)

lemma throws_cleanup:
  assumes "orderly env" and "throws E m"
  shows "throws E (with_cleanup env q m)"
proof -
  have "is_os_error e" if "be_answer env h (Removed q) = Inl e" for h e
    using assms(1) that by (auto simp: orderly_def)
  then show ?thesis
    using assms(2) by (fastforce simp: throws_def with_cleanup_def perform_def split: prod.splits sum.splits if_splits)
qed

lemma throws_look_at:
  assumes "\<And>h. throws E (f (be_lstat env h q))"
  shows "throws E (look_at env q f)"
  using assms by (auto simp: throws_def look_at_def)

lemma throws_serve_file:
  assumes "orderly env"
  shows "throws (\<lambda>e. (\<exists>k. e = ValueError k) \<or> (\<exists>k. e = KeyError k)) (serve_file env rq f)"
proof -
  note perform = tame_perform [OF assms, THEN worker_widen]
  have over: "throws worker_exn (take_over env q uid gid)" for q uid gid
    unfolding take_over_def by (intro throws_then throws_return perform)
  have look: "ordinary e" if "be_lstat env h q = Inl e" for h q e
    using assms that by (auto simp: orderly_def ordinary_def)
  have upload: "throws worker_exn (prepare_upload env q uid gid)" for q uid gid
    unfolding prepare_upload_def
    by (rule throws_look_at) (auto split: sum.splits dest: look
        intro!: throws_cases throws_raise over tame_deny [THEN worker_widen] simp: worker_exn_def)
  have download: "throws worker_exn (make_download_readable env q)" for q
    unfolding make_download_readable_def
    by (rule throws_look_at) (auto split: sum.splits option.splits dest: look
        intro!: throws_cases throws_raise over tame_deny [THEN worker_widen] simp: worker_exn_def)
  have "throws worker_exn (run_worker env rq f)"
    unfolding run_worker_def by (intro throws_bind throws_then throws_cases throws_return perform download)
  then show ?thesis
    unfolding serve_file_def
    by (intro throws_cases throws_cleanup throws_answered throws_then upload assms)
qed

lemma throws_file_worker:
  assumes "orderly env"
  shows "throws (\<lambda>e. (\<exists>k. e = ValueError k) \<or> (\<exists>k. e = KeyError k)) (dispatch_file_worker env rq)"
  unfolding throws_def
proof (intro allI impI)
  fix h e h' assume run: "dispatch_file_worker env rq h = (Inl e, h')"
  show "(\<exists>k. e = ValueError k) \<or> (\<exists>k. e = KeyError k)"
  proof (cases "validate_file_request env rq h")
    case (Pair r u)
    show ?thesis
    proof (cases r)
      case (Inl x)
      then have "worker_exn x" using throws_file_request [OF assms] Pair throwsD by blast
      then show ?thesis
        using run Pair Inl throwsD [OF throws_answered [OF throws_raise]] by (auto simp: dispatch_file_worker_def)
    next
      case (Inr f)
      then show ?thesis
        using run Pair throwsD [OF throws_serve_file [OF assms]] by (auto simp: dispatch_file_worker_def)
    qed
  qed
qed

section \<open>Requests without an answer\<close>

text \<open>
  The exceptions that no dispatcher and not the connection handler catches, by operation: the
  \<^verbatim>\<open>HTTPException\<close> of an unknown module, the \<^verbatim>\<open>TypeError\<close> of an unhashable value
  looked up in a set, the \<^verbatim>\<open>TimeoutExpired\<close> of an account or update command, the
  \<^verbatim>\<open>KeyError\<close> of an account that does not exist.
\<close>

definition silent :: "broker_op \<Rightarrow> py_exn \<Rightarrow> bool" where
  "silent op e \<longleftrightarrow> op = Op_module_hook \<and> is_http_error e
     \<or> op \<in> {Op_firewall, Op_routing, Op_docker} \<and> e = TypeError
     \<or> op \<in> {Op_account, Op_update_service} \<and> is_subprocess_error e
     \<or> op \<in> {Op_update_service, Op_file_worker} \<and> (\<exists>m. e = KeyError m)"

abbreviation leaves :: "broker_request \<Rightarrow> py_exn \<Rightarrow> bool" where
  "leaves rq e \<equiv> protocol_error e \<or> silent (bq_op rq) e"

lemma throws_responded:
  assumes "throws E m" and "\<And>e. E e \<Longrightarrow> \<not> is_policy_error e \<Longrightarrow> \<not> caught e \<Longrightarrow> F e"
  shows "throws F (respond rq msg caught trim m)"
  using throws_respond [OF assms(1)] by (rule throws_weaken) (auto intro: assms(2))

lemma throws_redacted:
  assumes "throws (\<lambda>e. ordinary e \<or> silent (bq_op rq) e) m"
  shows "throws (leaves rq) (respond_redacted env rq m)"
  unfolding respond_redacted_def
  by (rule throws_responded [OF assms]) (auto simp: ordinary_def policy_caught_def protocol_error_def is_value_error_def)

lemma throws_tame_redacted: "tame m \<Longrightarrow> throws (leaves rq) (respond_redacted env rq m)"
  by (rule throws_redacted) (auto elim: throws_weaken)

lemma throws_base:
  assumes "orderly env"
  shows "throws (leaves rq) (dispatch_base env rq)"
proof -
  have "tame (base_action env rq)"
    by (auto simp: base_action_def intro!: tame_base tame_deny assms split: broker_op.splits)
  then show ?thesis
    unfolding dispatch_base_def
    by (rule throws_responded) (auto simp: ordinary_def protocol_error_def is_value_error_def)
qed

lemma throws_extended:
  assumes "orderly env"
  shows "throws (leaves rq) (extended_dispatch env rq)"
proof (cases "bq_op rq = Op_firewall")
  case True
  have "throws (leaves rq) (dispatch_firewall env rq)"
    unfolding dispatch_firewall_def
    by (rule throws_cases(1), rule throws_return, rule throws_responded [OF tame_devices(3) [OF assms]])
       (auto simp: True ordinary_def protocol_error_def is_value_error_def silent_def)
  then show ?thesis using True by (simp add: extended_dispatch_def)
next
  case False
  have "throws (\<lambda>e. ordinary e \<or> silent (bq_op rq) e) (extended_action env rq)"
    by (cases "bq_op rq") (auto simp: extended_action_def silent_def elim!: throws_weaken
        intro: throws_weaken [OF tame_files(1) [OF assms]] throws_weaken [OF tame_files(2) [OF assms]]
          throws_weaken [OF tame_files(3) [OF assms]] throws_weaken [OF tame_package(1) [OF assms]]
          throws_weaken [OF tame_mount(1) [OF assms]] throws_weaken [OF tame_mount(2) [OF assms]]
          throws_weaken [OF tame_hook [OF assms]] throws_weaken [OF tame_deny(1)])
  then show ?thesis
    using False throws_base [OF assms] throws_redacted by (auto simp: extended_dispatch_def)
qed

lemma throws_dispatch:
  assumes ok: "orderly (sv_env sv)"
  shows "throws (leaves rq) (server_dispatch sv rq)"
proof -
  have pam: "throws (leaves rq) (step_return x)" for x :: broker_response by (rule throws_return)
  have account: "throws (leaves rq) (dispatch_account (sv_env sv) rq)" if "bq_op rq = Op_account"
    unfolding dispatch_account_def
    by (rule throws_cases(1), rule throws_return, rule throws_responded [OF tame_account [OF ok]])
       (auto simp: that ordinary_def protocol_error_def is_value_error_def silent_def)
  have update: "throws (leaves rq) (dispatch_update (sv_env sv) rq)" if "bq_op rq = Op_update_service"
    unfolding dispatch_update_def
    by (rule throws_cases(1), rule throws_return, rule throws_responded [OF tame_update [OF ok]])
       (auto simp: that ordinary_def protocol_error_def is_value_error_def silent_def)
  have infra: "throws (leaves rq) (dispatch_infrastructure (sv_env sv) rq)"
    using tame_infra [OF ok, of rq]
    by (fastforce simp: throws_def dispatch_infrastructure_def ordinary_def protocol_error_def is_value_error_def
        silent_def split: prod.splits sum.splits if_splits)
  have worker: "throws (leaves rq) (dispatch_file_worker (sv_env sv) rq)" if "bq_op rq = Op_file_worker"
    by (rule throws_weaken [OF throws_file_worker [OF ok]])
       (auto simp: that protocol_error_def is_value_error_def silent_def)
  have docker: "throws (\<lambda>e. ordinary e \<or> silent (bq_op rq) e) (run_docker (sv_env sv) n a p)"
    if "bq_op rq = Op_docker" for n a p
    by (rule throws_weaken [OF throws_docker [OF ok]]) (auto simp: that docker_exn_def silent_def)
  have "throws (leaves rq) (standard_dispatch sv rq)"
    unfolding standard_dispatch_def Let_def
    by (intro throws_cases worker throws_redacted [OF docker] throws_tame_redacted throws_extended tame_devices
        tame_package ok)
  then show ?thesis
    unfolding server_dispatch_def by (intro throws_cases account update pam infra)
qed

section \<open>Connections\<close>

lemma silent_unanswered: "silent op e \<Longrightarrow> \<not> protocol_error e"
  by (cases e) (auto simp: silent_def is_http_error_def protocol_error_def is_value_error_def)

lemma received_error: "receive_frame raw cs = Inl e \<Longrightarrow> Inl e \<in> set cs \<or> is_value_error e"
  by (induction raw cs rule: receive_frame.induct) (auto simp: finish_frame_def is_value_error_def split: if_splits)


text \<open>Removing a group on a host where every command times out.\<close>

definition slow_answer :: "host_effect list \<Rightarrow> host_effect \<Rightarrow> command_result res" where
  "slow_answer h e = (case e of Ran argv input limit \<Rightarrow> Inl (SubprocessError ''timed out'') | _ \<Rightarrow> Inr success)"

definition slow_document :: json where
  "slow_document = JObj [(''request_id'', JStr zero_id), (''actor'', JStr ''ann''), (''operation'', JStr ''account''),
     (''payload'', JObj [(''tool'', JStr ''groupdel''), (''args'', JList [JStr ''media''])])]"

definition slow_server :: server where
  "slow_server = demo_server\<lparr>sv_env := demo_broker\<lparr>be_answer := slow_answer\<rparr>,
     sv_decode := (\<lambda>raw. Inr slow_document), sv_encode := (\<lambda>r. [])\<rparr>"

lemma slow_unanswered:
  "handle_connection slow_server demo_connection [] =
     (None, [Ran [''/usr/sbin/groupdel'', ''media''] None 60])"
  by code_simp


section \<open>Refused requests\<close>

text \<open>
  A step is clean when it raises a refusal only before its first effect; it is firm when it never
  raises one.
\<close>

abbreviation clean :: "'a broker \<Rightarrow> bool" where
  "clean \<equiv> emits (\<lambda>r es. (\<exists>m. r = Inl (PolicyError m)) \<longrightarrow> es = [])"

abbreviation firm :: "'a broker \<Rightarrow> bool" where
  "firm \<equiv> emits (\<lambda>r es. \<forall>m. r \<noteq> Inl (PolicyError m))"

definition unrefusing :: "broker_env \<Rightarrow> bool" where
  "unrefusing env \<longleftrightarrow> (\<forall>h e m. be_answer env h e \<noteq> Inl (PolicyError m))"

named_theorems clean_rules \<open>steps that refuse first\<close>

lemma clean_quiet: "quiet m \<Longrightarrow> clean m"
  by (erule emits_weaken) simp

lemma clean_leaf [clean_rules]: "clean (deny m)" "clean (step_return x)" "clean (step_raise e)"
  by (rule clean_quiet, rule emit_rules, simp)+

lemma clean_checked [clean_rules]:
  "quiet f \<Longrightarrow> (\<And>x. returns f x \<Longrightarrow> clean (g x)) \<Longrightarrow> clean (step_bind f g)"
  by (rule emits_bind) auto

lemma clean_checked_then [clean_rules]: "quiet f \<Longrightarrow> clean g \<Longrightarrow> clean (step_then f g)"
  by (rule emits_then) auto

lemma clean_firm: "firm m \<Longrightarrow> clean m"
  by (erule emits_weaken) auto

lemma firm_bind: "firm f \<Longrightarrow> (\<And>x. firm (g x)) \<Longrightarrow> firm (step_bind f g)"
  unfolding emits_def step_bind_def by (fastforce split: prod.splits sum.splits)

lemma firm_then: "firm f \<Longrightarrow> firm g \<Longrightarrow> firm (step_then f g)"
  unfolding step_then_def by (rule firm_bind)

lemma firm_perform: "unrefusing env \<Longrightarrow> firm (perform env e)"
  by (rule emits_perform) (simp add: unrefusing_def)

lemma firm_return: "firm (step_return x)"
  by (rule emits_return) simp

lemmas clean_perform = firm_perform [THEN clean_firm]

lemma clean_tool: "unrefusing env \<Longrightarrow> clean (run_tool env t args input limit)"
  unfolding run_tool_def by (intro clean_rules emit_rules clean_perform)

lemma clean_base:
  assumes "unrefusing env"
  shows "clean (base_action env rq)"
proof -
  note run = clean_perform [OF assms] firm_perform [OF assms]
  have "firm (install_file env t c m)" for t c m
    unfolding install_file_def by (intro firm_then run)
  then have install: "clean (step_then (install_file env t c m) (step_return success))" for t c m
    by (intro clean_firm firm_then firm_return)
  have "clean (run_systemd env p)" "clean (run_power env p)" "clean (run_managed_file env p)" for p
    unfolding run_systemd_def run_power_def run_managed_file_def
    by (intro emit_cases install clean_rules emit_rules run)+
  then show ?thesis by (cases "bq_op rq") (simp_all add: base_action_def clean_leaf)
qed

lemma clean_account:
  assumes "unrefusing env"
  shows "clean (run_account env p)"
proof -
  note run = clean_tool [OF assms]
  have named: "clean (run_named env t args)" and "clean (run_chpasswd env args input)" for t args input
    unfolding run_named_def run_chpasswd_def by (intro emit_cases clean_rules emit_rules run)+
  then show ?thesis
    unfolding run_account_def run_account_tool_def readable_user_def
    by (intro emit_cases clean_rules emit_rules run) simp_all
qed

lemma clean_custom:
  assumes "unrefusing env"
  shows "map_of p ''action'' \<noteq> Some (JStr ''mkdir'') \<Longrightarrow> clean (run_ownership env p)"
    "clean (run_quota env p)" "clean (run_samba_account env p)" "clean (run_package env p)"
    "clean (run_dpkg_repair env p)" "clean (run_module_hook env p)" "clean (run_mount env p)"
proof -
  note run = clean_perform [OF assms]
  have give: "clean (run_on_path env t f path)" for t f path
    unfolding run_on_path_def by (intro clean_rules emit_rules run)
  have mode: "clean (step_then (perform env e) (step_return success))" for e
    by (intro clean_firm firm_then firm_perform firm_return assms)
  show "clean (run_ownership env p)" if other: "map_of p ''action'' \<noteq> Some (JStr ''mkdir'')"
  proof -
    have no: "False" if "returns (policy_token 16 ''filesystem action'' (map_of p ''action'')) a" "a = ''mkdir''" for a
      using that other by (auto simp: policy_token_def str_value_def split: option.splits json.splits if_splits)
    show ?thesis
      unfolding run_ownership_def Let_def
      by (intro emit_cases clean_rules emit_rules give mode; (drule no, assumption, erule FalseE)?)
  qed
  show "clean (run_quota env p)" "clean (run_samba_account env p)" "clean (run_package env p)"
    "clean (run_dpkg_repair env p)" "clean (run_module_hook env p)" "clean (run_mount env p)"
    unfolding run_quota_def run_samba_account_def run_package_def run_dpkg_repair_def run_module_hook_def run_mount_def
    by (intro emit_cases clean_rules emit_rules run; simp)+
qed

lemma clean_devices:
  assumes "unrefusing env"
  shows "clean (run_storage_probe env p)" "clean (run_docker_stop env p)" "clean (run_firewall env p)"
    "clean (run_docker env network_ok address_ok p)"
proof -
  note run = clean_perform [OF assms]
  show "clean (run_storage_probe env p)" "clean (run_docker_stop env p)" "clean (run_firewall env p)"
    "clean (run_docker env network_ok address_ok p)"
    unfolding run_storage_probe_def run_docker_stop_def run_firewall_def run_docker_def
    by (intro emit_cases clean_rules emit_rules run; simp)+
qed

text \<open>What a refusal of a response is, and which requests are refused before their first effect.\<close>

definition refused :: "broker_response \<Rightarrow> bool" where
  "refused r \<longleftrightarrow> bp_error r = Some ''POLICY_DENIED''"

definition refuses_first :: "broker_request \<Rightarrow> bool" where
  "refuses_first rq \<longleftrightarrow> bq_op rq \<notin> {Op_mount_unit, Op_ntp, Op_update_service, Op_file_worker}
     \<and> (bq_op rq = Op_ownership \<longrightarrow> map_of (bq_payload rq) ''action'' \<noteq> Some (JStr ''mkdir''))"

abbreviation refusal_clean :: "broker_response broker \<Rightarrow> bool" where
  "refusal_clean \<equiv> emits (\<lambda>r es. (\<exists>p. r = Inr p \<and> refused p) \<longrightarrow> es = [])"

lemma refusal_clean_respond: "clean m \<Longrightarrow> refusal_clean (respond rq msg caught trim m)"
  unfolding emits_respond
  by (erule emits_weaken)
     (auto simp: respond_def refused_def result_response_def failure_response_def
        split: sum.splits if_splits elim!: is_policy_error.elims)

lemma refusal_clean_leaf: "refusal_clean (step_return x)"
  by (rule emits_return) simp

lemma emits_map:
  "emits (\<lambda>r es. Q (map_sum id f r) es) m \<Longrightarrow> emits Q (step_bind m (\<lambda>x. step_return (f x)))"
  unfolding emits_def step_bind_def step_return_def by (fastforce split: prod.splits sum.splits)

lemma refusal_clean_infra:
  assumes ok: "unrefusing env" and op: "bq_op rq \<noteq> Op_ntp"
  shows "refusal_clean (dispatch_infrastructure env rq)"
proof -
  let ?Q = "\<lambda>r es. (\<exists>m. r = Inl (PolicyError m)) \<longrightarrow> es = []"
  let ?R = "\<lambda>(r :: infra_result res) es. ?Q r es \<and> (\<forall>x. r = Inr x \<longrightarrow> snd (snd (snd x)) \<noteq> Some ''POLICY_DENIED'')"
  have checked: "emits ?R (step_bind f g)" if "quiet f" "\<And>x. returns f x \<Longrightarrow> emits ?R (g x)"
    for f :: "'b broker" and g by (rule emits_bind) (use that in auto)
  have deny: "emits ?R (deny m)" for m by (rule emits_deny) simp
  have run: "emits ?R (run_reported env t ws limit failed)" if "failed \<noteq> ''POLICY_DENIED''" for t ws limit failed
  proof -
    have "clean (run_infra env t ws limit)"
      unfolding run_infra_def by (intro clean_rules emit_rules clean_perform ok)
    then have "emits (\<lambda>r es. ?R (map_sum id (reported failed) r) es) (run_infra env t ws limit)"
    proof (rule emits_weaken)
      fix r :: "command_result res" and es :: "host_effect list"
      assume "?Q r es"
      then show "?R (map_sum id (reported failed) r) es" using that by (cases r) (simp_all add: reported_def)
    qed
    then show ?thesis unfolding run_reported_def by (rule emits_map)
  qed
  have nmcli: "emits ?R (run_nmcli env p action)" for p action
    unfolding run_nmcli_def by (intro emit_cases checked emit_rules run deny) (simp_all (no_asm))
  have "emits ?R (run_routing env p)" for p
    unfolding run_routing_def by (intro emit_cases checked emit_rules run deny nmcli) (simp_all (no_asm))
  moreover have "emits ?R (run_session env p)" for p
    unfolding run_session_def by (intro emit_cases run deny) (simp_all (no_asm))
  ultimately have action: "emits ?R (infra_action env rq)"
    using op deny by (cases "bq_op rq") (simp_all add: infra_action_def)
  show ?thesis
    unfolding emits_def
  proof (intro allI impI)
    fix h r h' assume run: "dispatch_infrastructure env rq h = (r, h')"
    obtain q u where q: "infra_action env rq h = (q, u)" by fastforce
    then obtain es where es: "u = h @ es" "?R q es" using emitsD [OF action q] by (elim exE conjE) (rule that, assumption, intro conjI)
    then show "\<exists>es. h' = h @ es \<and> ((\<exists>p. r = Inr p \<and> refused p) \<longrightarrow> es = [])"
      using run q by (intro exI [of _ es])
        (auto simp: dispatch_infrastructure_def infra_response_def refused_def
           split: sum.splits if_splits elim!: is_policy_error.elims)
  qed
qed

lemma refusal_clean_extended:
  assumes "unrefusing env" and "refuses_first rq"
  shows "refusal_clean (extended_dispatch env rq)"
proof -
  have base: "refusal_clean (dispatch_base env rq)"
    unfolding dispatch_base_def by (intro refusal_clean_respond clean_base assms)
  have "clean (extended_action env rq)"
    using clean_custom [OF assms(1), of "bq_payload rq"] assms(2)
    by (cases "bq_op rq") (simp_all add: extended_action_def refuses_first_def clean_leaf)
  then show ?thesis
    unfolding extended_dispatch_def dispatch_firewall_def respond_redacted_def
    by (intro emit_cases refusal_clean_respond refusal_clean_leaf clean_devices assms base)
qed

lemma refusal_clean_server:
  assumes "unrefusing (sv_env sv)" and "refuses_first rq"
  shows "refusal_clean (server_dispatch sv rq)"
proof -
  have "refusal_clean (standard_dispatch sv rq)"
    using assms(2) unfolding standard_dispatch_def Let_def respond_redacted_def
    by (intro emit_cases refusal_clean_respond clean_devices clean_custom refusal_clean_extended assms)
       (simp add: refuses_first_def)
  moreover have "refusal_clean (dispatch_account (sv_env sv) rq)"
    unfolding dispatch_account_def
    by (intro emit_cases refusal_clean_respond refusal_clean_leaf clean_account assms)
  ultimately show ?thesis
    using assms(2) unfolding server_dispatch_def
    by (intro emit_cases refusal_clean_leaf refusal_clean_infra assms) (auto simp: refuses_first_def)
qed

text \<open>
  C23. A request the broker answers with a refusal has changed nothing: its arguments are checked
  before the first command, directory or file. Exempt are mount units, time settings, updates and
  file operations, which ask the host before they refuse, and the creation of a directory, which is
  refused for its owner only once the directory is there.
\<close>

theorem refused_changes_nothing:
  assumes "server_dispatch sv rq h = (Inr r, h')" and "refused r"
    and "refuses_first rq" and "unrefusing (sv_env sv)"
  shows "h' = h"
  using emitsD [OF refusal_clean_server [OF assms(4,3)] assms(1)] assms(2) by auto

text \<open>Stopping a protected unit, and a directory that stays after its owner is refused.\<close>

definition refused_request :: broker_request where
  "refused_request = \<lparr>bq_id = zero_id, bq_actor = ''ann'', bq_op = Op_systemd,
     bq_payload = [(''action'', JStr ''stop''), (''unit'', JStr ''ssh'')]\<rparr>"

definition late_request :: broker_request where
  "late_request = \<lparr>bq_id = zero_id, bq_actor = ''ann'', bq_op = Op_ownership, bq_payload =
     [(''action'', JStr ''mkdir''), (''path'', JStr ''/mnt/webnas/media''), (''owner'', JStr ''root'')]\<rparr>"

lemma refused_run:
  "map_sum id refused (fst (server_dispatch demo_server refused_request [])) = Inr True"
  "map_sum id refused (fst (server_dispatch demo_server late_request [])) = Inr True"
  "snd (server_dispatch demo_server late_request []) =
     [Made_dir ''/mnt/webnas/media'' 488, Set_mode ''/mnt/webnas/media'' 488]"
  by code_simp+

theorem refused_changes_nothing_witness: "snd (server_dispatch demo_server refused_request []) = []"
proof -
  obtain r h' where run: "server_dispatch demo_server refused_request [] = (Inr r, h')" "refused r"
    using refused_run(1) by (cases "server_dispatch demo_server refused_request []") (auto simp: map_sum_def split: sum.splits)
  moreover have "unrefusing (sv_env demo_server)"
    by (simp add: unrefusing_def demo_server_def demo_broker_def)
  ultimately show ?thesis
    using refused_changes_nothing [OF run] by (simp add: refuses_first_def refused_request_def)
qed

end
