(* ===== verification/Uploads.thy ===== *)
theory Uploads
  imports Path_Policy Update_Coordination Json_Text Steps "HOL-Library.Multiset"
begin

text \<open>
  Chunked uploads, \<^verbatim>\<open>uploads.py\<close>: a table of sessions, each with a temporary file that
  receives the chunks in order; when the declared size is reached the session leaves the table and
  the file is handed to the file worker of the user. A section under the lock, the completion of a
  session and the removal of its file are steps of their own, so that requests interleave. What the
  system answers is the record \<open>upload_env\<close>, which may differ from step to step.
\<close>

section \<open>Sessions\<close>

record upload_session =
  ul_username :: string
  ul_destination :: string
  ul_temporary :: string
  ul_size :: int
  ul_received :: int
  ul_created_at :: real

text \<open>
  \<open>up_files\<close> is the content of the temporary directory, \<open>up_imports\<close> what the worker was given: the
  user, the destination and the content of the temporary file at that moment.
\<close>

record uploads =
  up_sessions :: "(string \<times> upload_session) list"
  up_files :: "string \<Rightarrow> string option"
  up_cleaned :: bool
  up_imports :: "(string \<times> string \<times> string option) list"

text \<open>
  \<open>ue_write\<close> is \<^verbatim>\<open>assert_write_allowed\<close>, \<open>ue_worker\<close> the launch of the worker in
  \<^verbatim>\<open>run_user_op\<close>, \<open>ue_request\<close> the content of the update request file. \<open>ue_append\<close> is
  \<open>None\<close> when a chunk is written, else the number of its bytes written before the error.
  \<open>ue_sweep\<close> holds for the orphans that are removed before an error ends the sweep.
\<close>

record upload_env =
  ue_limit_mb :: int
  ue_paths :: path_world
  ue_write :: "string \<Rightarrow> unit res"
  ue_text :: text_env
  ue_request :: "json option"
  ue_temp_dir :: string
  ue_sweep :: "string \<Rightarrow> bool"
  ue_append :: "nat option"
  ue_account :: "string \<Rightarrow> (int \<times> int) option"
  ue_chown :: "string \<Rightarrow> int \<times> int \<Rightarrow> unit res"
  ue_chmod :: "string \<Rightarrow> unit res"
  ue_worker :: "string \<Rightarrow> string \<Rightarrow> string \<Rightarrow> unit res"

definition max_chunk :: int where
  "max_chunk = 4194304"

definition set_session :: "string \<Rightarrow> upload_session \<Rightarrow> (string \<times> upload_session) list \<Rightarrow> (string \<times> upload_session) list" where
  "set_session i s ss = map (\<lambda>(j, t). if j = i then (j, s) else (j, t)) ss"

definition pop_session :: "string \<Rightarrow> (string \<times> upload_session) list \<Rightarrow> (string \<times> upload_session) list" where
  "pop_session i ss = filter (\<lambda>(j, t). j \<noteq> i) ss"

section \<open>Cleaning up\<close>

definition is_orphan :: "string \<Rightarrow> string list \<Rightarrow> string \<Rightarrow> bool" where
  "is_orphan dir known p \<longleftrightarrow>
     path_parts (path_parent p) = path_parts dir \<and> suffix ''.upload'' (path_name p) \<and> p \<notin> set known"

definition sweep_orphans :: "upload_env \<Rightarrow> string list \<Rightarrow> uploads \<Rightarrow> uploads" where
  "sweep_orphans env known st = st\<lparr>up_files := (\<lambda>p.
     if is_orphan (ue_temp_dir env) known p \<and> ue_sweep env p then None else up_files st p)\<rparr>"

definition mark_cleaned :: "uploads \<Rightarrow> string list option \<times> uploads" where
  "mark_cleaned st = (if up_cleaned st then (None, st)
     else (Some (map (ul_temporary \<circ> snd) (up_sessions st)), st\<lparr>up_cleaned := True\<rparr>))"

definition cleanup_orphans_once :: "upload_env \<Rightarrow> uploads \<Rightarrow> uploads" where
  "cleanup_orphans_once env st = (case mark_cleaned st of
     (None, st') \<Rightarrow> st' | (Some known, st') \<Rightarrow> sweep_orphans env known st')"

definition unlink :: "string \<Rightarrow> uploads \<Rightarrow> uploads" where
  "unlink p st = st\<lparr>up_files := (up_files st)(p := None)\<rparr>"

definition session_expired :: "real \<Rightarrow> upload_session \<Rightarrow> bool" where
  "session_expired now s \<longleftrightarrow> ul_created_at s < now - 86400"

definition cleanup_expired :: "real \<Rightarrow> uploads \<Rightarrow> uploads" where
  "cleanup_expired now st =
     fold (\<lambda>(i, s). unlink (ul_temporary s)) (filter (session_expired now \<circ> snd) (up_sessions st))
       (st\<lparr>up_sessions := filter (Not \<circ> session_expired now \<circ> snd) (up_sessions st)\<rparr>)"

section \<open>Requests\<close>

definition upload_target :: "upload_env \<Rightarrow> string \<Rightarrow> string \<Rightarrow> string \<Rightarrow> string res" where
  "upload_target env user dir filename = rbind (resolve_user_path (ue_paths env) user dir) (\<lambda>directory.
     let name = path_name (if filename = [] then ''upload.bin'' else filename)
     in resolve_user_path (ue_paths env) user
          (if name = [] then path_posix directory else path_child directory name))"

text \<open>What \<^verbatim>\<open>start_upload\<close> checks: the destination, or the exception.\<close>

definition check_start :: "upload_env \<Rightarrow> string \<Rightarrow> string \<Rightarrow> string \<Rightarrow> int \<Rightarrow> string res" where
  "check_start env user dir filename amount =
     (if amount < 0 \<or> ue_limit_mb env * 1024 * 1024 < amount then Inl (HTTPException 413 ''Upload is too large'')
      else rbind (upload_target env user dir filename) (\<lambda>dest.
        rbind (assert_path_allowed (ue_paths env) True dest) (\<lambda>_.
        rbind (ue_write env dest) (\<lambda>_.
        rbind (operation_admission (ue_text env) (ue_request env)) (\<lambda>_. Inr dest)))))"

text \<open>\<open>touch(exist_ok=False)\<close> and the new session; \<open>token\<close> and \<open>i\<close> are the two fresh \<^verbatim>\<open>uuid4\<close>s.\<close>

definition register_upload ::
  "upload_env \<Rightarrow> real \<Rightarrow> string \<Rightarrow> string \<Rightarrow> string \<Rightarrow> string \<Rightarrow> int \<Rightarrow> (uploads, upload_session) step" where
  "register_upload env now token i user dest amount st =
     (let temp = path_child (ue_temp_dir env) (token @ ''.upload'');
          s = \<lparr>ul_username = user, ul_destination = dest, ul_temporary = temp, ul_size = amount,
               ul_received = 0, ul_created_at = now\<rparr>
      in if up_files st temp \<noteq> None then (Inl (OSError ''File exists''), st)
         else (Inr s, st\<lparr>up_files := (up_files st)(temp := Some []),
           up_sessions := (if amount = 0 then up_sessions st else up_sessions st @ [(i, s)])\<rparr>))"

definition start_section ::
  "upload_env \<Rightarrow> real \<Rightarrow> string \<Rightarrow> string \<Rightarrow> string \<Rightarrow> string \<Rightarrow> string \<Rightarrow> int \<Rightarrow> (uploads, upload_session) step" where
  "start_section env now token i user dir filename amount st =
     (let st' = cleanup_expired now (cleanup_orphans_once env st) in
      case check_start env user dir filename amount of
        Inl e \<Rightarrow> (Inl e, st')
      | Inr dest \<Rightarrow> register_upload env now token i user dest amount st')"

text \<open>\<^verbatim>\<open>_complete\<close>: with the checks of \<^verbatim>\<open>run_user_op\<close> before the worker starts.\<close>

definition complete_upload :: "upload_env \<Rightarrow> upload_session \<Rightarrow> (uploads, unit) step" where
  "complete_upload env s st =
     (let temp = ul_temporary s; user = ul_username s; dest = ul_destination s;
          ready = rbind (case ue_account env user of None \<Rightarrow> Inl (KeyError ''getpwnam'') | Some a \<Rightarrow> Inr a) (\<lambda>account.
            rbind (ue_chown env temp account) (\<lambda>_. rbind (ue_chmod env temp) (\<lambda>_.
            rbind (assert_path_allowed (ue_paths env) True dest) (\<lambda>_. ue_write env dest))))
      in case ready of
           Inl e \<Rightarrow> (Inl e, unlink temp st)
         | Inr u \<Rightarrow> (ue_worker env user temp dest,
             unlink temp (st\<lparr>up_imports := up_imports st @ [(user, dest, up_files st temp)]\<rparr>)))"

record upload_reply =
  ur_upload_id :: string
  ur_offset :: int
  ur_total :: int
  ur_path :: string
  ur_completed :: bool

definition start_upload ::
  "upload_env \<Rightarrow> real \<Rightarrow> string \<Rightarrow> string \<Rightarrow> string \<Rightarrow> string \<Rightarrow> string \<Rightarrow> int \<Rightarrow> (uploads, upload_reply) step" where
  "start_upload env now token i user dir filename amount =
     step_bind (start_section env now token i user dir filename amount) (\<lambda>s.
     step_bind (if amount = 0 then complete_upload env s else step_return ()) (\<lambda>_.
     step_return \<lparr>ur_upload_id = i, ur_offset = 0, ur_total = amount, ur_path = ul_destination s,
       ur_completed = (amount = 0)\<rparr>))"

definition owned_session :: "string \<Rightarrow> string \<Rightarrow> (string \<times> upload_session) list \<Rightarrow> upload_session res" where
  "owned_session user i ss = (case map_of ss i of
       None \<Rightarrow> Inl (HTTPException 404 ''Upload session not found'')
     | Some s \<Rightarrow> if ul_username s \<noteq> user
         then Inl (HTTPException 403 ''Upload session belongs to another user'') else Inr s)"

text \<open>\<^verbatim>\<open>open("ab")\<close> makes the file when it is gone.\<close>

definition append_bytes :: "string \<Rightarrow> string \<Rightarrow> uploads \<Rightarrow> uploads" where
  "append_bytes p bs st = st\<lparr>up_files := (up_files st)(p := Some (case up_files st p of None \<Rightarrow> bs | Some c \<Rightarrow> c @ bs))\<rparr>"

text \<open>The section of \<^verbatim>\<open>append_upload\<close> under the lock: the session after it.\<close>

definition append_section ::
  "upload_env \<Rightarrow> string \<Rightarrow> string \<Rightarrow> int \<Rightarrow> string \<Rightarrow> (uploads, upload_session) step" where
  "append_section env user i offset chunk st =
     (case owned_session user i (up_sessions st) of Inl e \<Rightarrow> (Inl e, st)
      | Inr s \<Rightarrow>
        if offset \<noteq> ul_received s
          then (Inl (HTTPException 409 (''Upload offset mismatch; expected '' @ show_int (ul_received s))), st)
        else if ul_size s < ul_received s + int (length chunk)
          then (Inl (HTTPException 413 ''Upload exceeds declared size''), st)
        else (case ue_append env of
            Some n \<Rightarrow> (Inl (OSError ''No space left on device''), append_bytes (ul_temporary s) (take n chunk) st)
          | None \<Rightarrow>
              let s' = s\<lparr>ul_received := ul_received s + int (length chunk)\<rparr>;
                  st' = append_bytes (ul_temporary s) chunk st
              in (Inr s', st'\<lparr>up_sessions := (if ul_received s' = ul_size s then pop_session i else set_session i s')
                    (up_sessions st)\<rparr>)))"

definition append_upload ::
  "upload_env \<Rightarrow> string \<Rightarrow> string \<Rightarrow> int \<Rightarrow> string \<Rightarrow> (uploads, upload_reply) step" where
  "append_upload env user i offset chunk st =
     (let st' = cleanup_orphans_once env st in
      if max_chunk < int (length chunk) then (Inl (HTTPException 413 ''Upload chunk is too large''), st')
      else step_bind (append_section env user i offset chunk) (\<lambda>s.
        step_bind (if ul_received s = ul_size s then complete_upload env s else step_return ()) (\<lambda>_.
        step_return \<lparr>ur_upload_id = i, ur_offset = ul_received s, ur_total = ul_size s, ur_path = ul_destination s,
          ur_completed = (ul_received s = ul_size s)\<rparr>)) st')"

definition cancel_upload :: "upload_env \<Rightarrow> string \<Rightarrow> string \<Rightarrow> (uploads, unit) step" where
  "cancel_upload env user i st =
     (let st' = cleanup_orphans_once env st in
      case owned_session user i (up_sessions st') of
        Inl e \<Rightarrow> (Inl e, st')
      | Inr s \<Rightarrow> (Inr (), unlink (ul_temporary s) (st'\<lparr>up_sessions := pop_session i (up_sessions st')\<rparr>)))"

text \<open>The running uploads as the registry of operations gets them.\<close>

record upload_item =
  ui_id :: string
  ui_type :: string
  ui_status :: string
  ui_created_at :: real
  ui_finished_at :: "real option"
  ui_progress :: int
  ui_description :: string
  ui_user_id :: string

definition upload_item :: "string \<times> upload_session \<Rightarrow> upload_item" where
  "upload_item q = (case q of (i, s) \<Rightarrow>
     \<lparr>ui_id = i, ui_type = ''upload'', ui_status = ''running'', ui_created_at = ul_created_at s, ui_finished_at = None,
      ui_progress = (if ul_size s = 0 then 100 else int (round_div (nat (ul_received s) * 100) (nat (ul_size s)))),
      ui_description = path_name (ul_destination s), ui_user_id = ul_username s\<rparr>)"

definition active_uploads :: "upload_env \<Rightarrow> real \<Rightarrow> uploads \<Rightarrow> upload_item list \<times> uploads" where
  "active_uploads env now st = (let st' = cleanup_expired now (cleanup_orphans_once env st)
     in (map upload_item (up_sessions st'), st'))"

section \<open>Interleaved requests\<close>

text \<open>
  Beside the program's state: the sessions taken from the table that are still to be completed, and
  for every upload id given out what was declared and which chunks were accepted, with the user who
  sent them and the offset they named.
\<close>

record upload_log =
  lg_user :: string
  lg_destination :: string
  lg_size :: int
  lg_chunks :: "(string \<times> int \<times> string) list"

record upload_run =
  rn_uploads :: uploads
  rn_pending :: "(string \<times> upload_session) list"
  rn_log :: "string \<Rightarrow> upload_log option"

definition logged_bytes :: "upload_log \<Rightarrow> string" where
  "logged_bytes l = concat (map (snd \<circ> snd) (lg_chunks l))"

definition log_chunk :: "string \<Rightarrow> int \<Rightarrow> string \<Rightarrow> upload_log \<Rightarrow> upload_log" where
  "log_chunk user offset chunk l = l\<lparr>lg_chunks := lg_chunks l @ [(user, offset, chunk)]\<rparr>"

inductive upload_init :: "upload_run \<Rightarrow> bool" where
  "upload_init \<lparr>rn_uploads = \<lparr>up_sessions = [], up_files = leftover, up_cleaned = False, up_imports = []\<rparr>,
     rn_pending = [], rn_log = (\<lambda>i. None)\<rparr>"

inductive upload_step :: "upload_run \<Rightarrow> upload_run \<Rightarrow> bool" where
  step_start: "rn_log r i = None
    \<Longrightarrow> start_section env now token i user dir filename amount (rn_uploads r) = (Inr s, st)
    \<Longrightarrow> upload_step r \<lparr>rn_uploads = st, rn_pending = (if amount = 0 then rn_pending r @ [(i, s)] else rn_pending r),
          rn_log = (rn_log r)(i \<mapsto> \<lparr>lg_user = user, lg_destination = ul_destination s, lg_size = amount, lg_chunks = []\<rparr>)\<rparr>"
| step_start_refused: "start_section env now token i user dir filename amount (rn_uploads r) = (Inl e, st)
    \<Longrightarrow> upload_step r (r\<lparr>rn_uploads := st\<rparr>)"
| step_append: "append_section env user i offset chunk (cleanup_orphans_once env (rn_uploads r)) = (Inr s, st)
    \<Longrightarrow> upload_step r \<lparr>rn_uploads = st,
          rn_pending = (if ul_received s = ul_size s then rn_pending r @ [(i, s)] else rn_pending r),
          rn_log = (rn_log r)(i := map_option (log_chunk user offset chunk) (rn_log r i))\<rparr>"
| step_append_refused: "append_section env user i offset chunk (cleanup_orphans_once env (rn_uploads r)) = (Inl e, st)
    \<Longrightarrow> ue_append env \<in> {None, Some 0} \<Longrightarrow> upload_step r (r\<lparr>rn_uploads := st\<rparr>)"
| step_cancel: "cancel_upload env user i (rn_uploads r) = (q, st) \<Longrightarrow> upload_step r (r\<lparr>rn_uploads := st\<rparr>)"
| step_list: "active_uploads env now (rn_uploads r) = (q, st) \<Longrightarrow> upload_step r (r\<lparr>rn_uploads := st\<rparr>)"
| step_complete: "(i, s) \<in> set (rn_pending r) \<Longrightarrow> complete_upload env s (rn_uploads r) = (q, st)
    \<Longrightarrow> upload_step r (r\<lparr>rn_uploads := st, rn_pending := pop_session i (rn_pending r)\<rparr>)"

text \<open>Chunks in order without gap or overlap from an offset on.\<close>

fun contiguous :: "int \<Rightarrow> (string \<times> int \<times> string) list \<Rightarrow> bool" where
  "contiguous n [] = True"
| "contiguous n ((u, k, c) # cs) \<longleftrightarrow> k = n \<and> contiguous (n + int (length c)) cs"

definition log_ok :: "upload_log \<Rightarrow> bool" where
  "log_ok l \<longleftrightarrow> contiguous 0 (lg_chunks l) \<and> (\<forall>(u, k, c) \<in> set (lg_chunks l). u = lg_user l)
     \<and> (\<exists>w req. resolve_user_path w (lg_user l) req = Inr (lg_destination l))"

definition session_matches :: "(string \<Rightarrow> string option) \<Rightarrow> upload_session \<Rightarrow> upload_log \<Rightarrow> bool" where
  "session_matches files s l \<longleftrightarrow> lg_user l = ul_username s \<and> lg_destination l = ul_destination s
     \<and> lg_size l = ul_size s \<and> files (ul_temporary s) = Some (logged_bytes l)
     \<and> ul_received s = int (length (logged_bytes l))"

definition import_matches :: "(string \<Rightarrow> upload_log option) \<Rightarrow> string \<times> string \<times> string option \<Rightarrow> bool" where
  "import_matches L imp \<longleftrightarrow> (\<exists>i l. L i = Some l \<and> imp = (lg_user l, lg_destination l, Some (logged_bytes l))
     \<and> int (length (logged_bytes l)) = lg_size l)"

definition uploads_ok :: "uploads \<Rightarrow> (string \<times> upload_session) list \<Rightarrow> (string \<Rightarrow> upload_log option) \<Rightarrow> bool" where
  "uploads_ok st pend L \<longleftrightarrow>
     (\<not> up_cleaned st \<longrightarrow> up_sessions st = [] \<and> pend = [])
     \<and> distinct (map fst (up_sessions st @ pend)) \<and> distinct (map (ul_temporary \<circ> snd) (up_sessions st @ pend))
     \<and> (\<forall>(i, s) \<in> set (up_sessions st @ pend). \<exists>l. L i = Some l \<and> session_matches (up_files st) s l)
     \<and> (\<forall>(i, s) \<in> set (up_sessions st). ul_received s < ul_size s)
     \<and> (\<forall>(i, s) \<in> set pend. ul_received s = ul_size s)
     \<and> (\<forall>i l. L i = Some l \<longrightarrow> log_ok l)
     \<and> (\<forall>imp \<in> set (up_imports st). import_matches L imp)"

definition upload_inv :: "upload_run \<Rightarrow> bool" where
  "upload_inv r \<longleftrightarrow> uploads_ok (rn_uploads r) (rn_pending r) (rn_log r)"

text \<open>Leaving out sessions keeps the invariant when the files of the others stay.\<close>

lemma uploads_ok_shrink:
  assumes "uploads_ok st pend L" and "up_sessions st' = filter P (up_sessions st)" and "pend' = filter Q pend"
    and "\<And>i s. (i, s) \<in> set (up_sessions st') \<union> set pend' \<Longrightarrow> up_files st' (ul_temporary s) = up_files st (ul_temporary s)"
    and "up_cleaned st \<Longrightarrow> up_cleaned st'" and "up_imports st' = up_imports st"
  shows "uploads_ok st' pend' L"
proof -
  have sub: "set (up_sessions st' @ pend') \<subseteq> set (up_sessions st @ pend)" using assms(2,3) by auto
  have dist: "distinct (map f (up_sessions st' @ pend'))"
    if "distinct (map f (up_sessions st @ pend))" for f :: "string \<times> upload_session \<Rightarrow> string"
    using that by (auto simp: assms(2,3) distinct_map_filter dest: inj_on_subset)
  have match: "\<exists>l. L i = Some l \<and> session_matches (up_files st') s l" if "(i, s) \<in> set (up_sessions st' @ pend')" for i s
  proof -
    have "(i, s) \<in> set (up_sessions st @ pend)" using sub that by blast
    then obtain l where l: "L i = Some l" "session_matches (up_files st) s l"
      using assms(1) unfolding uploads_ok_def by blast
    have "up_files st' (ul_temporary s) = up_files st (ul_temporary s)" using assms(4) that by simp
    with l show ?thesis by (auto simp: session_matches_def)
  qed
  note ok = assms(1) [unfolded uploads_ok_def]
  show ?thesis
    unfolding uploads_ok_def
  proof (intro conjI)
    show "\<not> up_cleaned st' \<longrightarrow> up_sessions st' = [] \<and> pend' = []" using ok assms(2,3,5) by auto
    show "distinct (map fst (up_sessions st' @ pend'))" "distinct (map (ul_temporary \<circ> snd) (up_sessions st' @ pend'))"
      using ok dist by blast+
    show "\<forall>(i, s) \<in> set (up_sessions st' @ pend'). \<exists>l. L i = Some l \<and> session_matches (up_files st') s l"
      using match by blast
    show "\<forall>(i, s) \<in> set (up_sessions st'). ul_received s < ul_size s" using ok assms(2) by auto
    show "\<forall>(i, s) \<in> set pend'. ul_received s = ul_size s" using ok assms(3) by auto
    show "\<forall>i l. L i = Some l \<longrightarrow> log_ok l" using ok by blast
    show "\<forall>imp \<in> set (up_imports st'). import_matches L imp" using ok assms(6) by simp
  qed
qed

lemma uploads_ok_temporaries:
  assumes "uploads_ok st pend L" and "(i, s) \<in> set (up_sessions st @ pend)" and "(j, t) \<in> set (up_sessions st @ pend)"
    and "ul_temporary s = ul_temporary t"
  shows "(i, s) = (j, t)"
proof -
  have "inj_on (ul_temporary \<circ> snd) (set (up_sessions st @ pend))"
    using assms(1) unfolding uploads_ok_def distinct_map by blast
  then show ?thesis using assms(2-4) unfolding inj_on_def by (metis comp_apply snd_conv)
qed

lemma uploads_okD:
  assumes "uploads_ok st pend L"
  shows "(i, s) \<in> set (up_sessions st @ pend) \<Longrightarrow> \<exists>l. L i = Some l \<and> session_matches (up_files st) s l"
    and "(i, s) \<in> set (up_sessions st) \<Longrightarrow> ul_received s < ul_size s"
    and "(i, s) \<in> set pend \<Longrightarrow> ul_received s = ul_size s"
    and "fst ` set (up_sessions st) \<inter> fst ` set pend = {}"
  using assms unfolding uploads_ok_def by (blast, blast, blast, simp)

lemma uploads_ok_ids:
  assumes "uploads_ok st pend L" and "(i, s) \<in> set (up_sessions st @ pend)" and "(i, t) \<in> set (up_sessions st @ pend)"
  shows "s = t"
  using assms unfolding uploads_ok_def by (meson eq_key_imp_eq_value)

lemma cleanup_orphans_ok:
  assumes "uploads_ok st pend L"
  shows "uploads_ok (cleanup_orphans_once env st) pend L" and "up_cleaned (cleanup_orphans_once env st)"
    and "up_sessions (cleanup_orphans_once env st) = up_sessions st"
proof -
  show "up_cleaned (cleanup_orphans_once env st)" "up_sessions (cleanup_orphans_once env st) = up_sessions st"
    by (auto simp: cleanup_orphans_once_def mark_cleaned_def sweep_orphans_def)
  show "uploads_ok (cleanup_orphans_once env st) pend L"
  proof (rule uploads_ok_shrink [OF assms, where P = "\<lambda>_. True" and Q = "\<lambda>_. True"])
    fix i s assume "(i, s) \<in> set (up_sessions (cleanup_orphans_once env st)) \<union> set pend"
    then show "up_files (cleanup_orphans_once env st) (ul_temporary s) = up_files st (ul_temporary s)"
      using assms by (auto simp: cleanup_orphans_once_def mark_cleaned_def sweep_orphans_def uploads_ok_def split: if_splits)
  qed (auto simp: cleanup_orphans_once_def mark_cleaned_def sweep_orphans_def)
qed

lemma unlink_fold:
  "up_files (fold (\<lambda>(i, s). unlink (ul_temporary s)) ss st) p =
     (if p \<in> ul_temporary ` snd ` set ss then None else up_files st p)"
  "up_sessions (fold (\<lambda>(i, s). unlink (ul_temporary s)) ss st) = up_sessions st"
  "up_cleaned (fold (\<lambda>(i, s). unlink (ul_temporary s)) ss st) = up_cleaned st"
  "up_imports (fold (\<lambda>(i, s). unlink (ul_temporary s)) ss st) = up_imports st"
  by (induction ss arbitrary: st) (auto simp: unlink_def)

lemma cleanup_expired_ok:
  assumes "uploads_ok st pend L"
  shows "uploads_ok (cleanup_expired now st) pend L" and "up_cleaned (cleanup_expired now st) = up_cleaned st"
proof -
  show "up_cleaned (cleanup_expired now st) = up_cleaned st" by (simp add: cleanup_expired_def unlink_fold)
  show "uploads_ok (cleanup_expired now st) pend L"
  proof (rule uploads_ok_shrink [OF assms, where P = "Not \<circ> session_expired now \<circ> snd" and Q = "\<lambda>_. True"])
    fix i s assume rest: "(i, s) \<in> set (up_sessions (cleanup_expired now st)) \<union> set pend"
    have "ul_temporary s \<noteq> ul_temporary t" if t: "(j, t) \<in> set (up_sessions st)" "session_expired now t" for j t
    proof
      assume "ul_temporary s = ul_temporary t"
      moreover have "(i, s) \<in> set (up_sessions st @ pend)" using rest by (auto simp: cleanup_expired_def unlink_fold)
      ultimately have "(i, s) = (j, t)" using uploads_ok_temporaries [OF assms] t(1) by (metis Un_iff set_append)
      then have "(j, t) \<in> set (up_sessions st) \<inter> set pend" using rest t by (auto simp: cleanup_expired_def unlink_fold)
      then show False using assms t(1) by (auto simp: uploads_ok_def)
    qed
    then have "ul_temporary s \<notin> ul_temporary ` snd ` set (filter (session_expired now \<circ> snd) (up_sessions st))"
      by fastforce
    then show "up_files (cleanup_expired now st) (ul_temporary s) = up_files st (ul_temporary s)"
      unfolding cleanup_expired_def by (simp only: unlink_fold if_False) simp
  qed (auto simp: cleanup_expired_def unlink_fold)
qed

lemma pop_session_ok:
  assumes "uploads_ok st pend L" and "(i, s) \<in> set (up_sessions st @ pend)"
  shows "uploads_ok (unlink (ul_temporary s) (st\<lparr>up_sessions := pop_session i (up_sessions st)\<rparr>)) (pop_session i pend) L"
proof (rule uploads_ok_shrink [OF assms(1), where P = "\<lambda>(j, t). j \<noteq> i" and Q = "\<lambda>(j, t). j \<noteq> i"])
  fix j t assume "(j, t) \<in> set (up_sessions (unlink (ul_temporary s) (st\<lparr>up_sessions := pop_session i (up_sessions st)\<rparr>)))
      \<union> set (pop_session i pend)"
  then have "(j, t) \<in> set (up_sessions st @ pend)" "j \<noteq> i" by (auto simp: unlink_def pop_session_def)
  then have "ul_temporary t \<noteq> ul_temporary s" using uploads_ok_temporaries [OF assms(1) _ assms(2)] by blast
  then show "up_files (unlink (ul_temporary s) (st\<lparr>up_sessions := pop_session i (up_sessions st)\<rparr>)) (ul_temporary t)
      = up_files st (ul_temporary t)" by (simp add: unlink_def)
qed (simp_all add: unlink_def pop_session_def)

lemma pop_session_absent: "i \<notin> fst ` set ss \<Longrightarrow> pop_session i ss = ss"
  by (induction ss) (auto simp: pop_session_def)

lemma import_kept:
  "import_matches L imp \<Longrightarrow> (\<And>l. L i = Some l \<Longrightarrow> int (length (logged_bytes l)) \<noteq> lg_size l)
     \<Longrightarrow> import_matches (L(i := x)) imp"
  unfolding import_matches_def by (metis fun_upd_other)

lemma log_ok_new: "resolve_user_path w user req = Inr dest
    \<Longrightarrow> log_ok \<lparr>lg_user = user, lg_destination = dest, lg_size = n, lg_chunks = []\<rparr>"
  by (auto simp: log_ok_def)

lemma contiguous_snoc:
  "contiguous n (cs @ [(u, k, c)]) \<longleftrightarrow> contiguous n cs \<and> k = n + int (length (concat (map (snd \<circ> snd) cs)))"
  by (induction n cs rule: contiguous.induct) auto

lemma log_ok_chunk:
  assumes "log_ok l" and "user = lg_user l" and "offset = int (length (logged_bytes l))"
  shows "log_ok (log_chunk user offset chunk l)"
  using assms by (auto simp: log_ok_def log_chunk_def logged_bytes_def contiguous_snoc)

text \<open>One new or advanced session, with its log, beside the old ones.\<close>

lemma uploads_ok_update:
  assumes ok: "uploads_ok st pend L"
    and dist: "distinct (map fst (up_sessions st' @ pend'))" "distinct (map (ul_temporary \<circ> snd) (up_sessions st' @ pend'))"
    and members: "\<And>j t. (j, t) \<in> set (up_sessions st' @ pend') \<Longrightarrow>
      (j, t) = (i, s) \<or> j \<noteq> i \<and> (j, t) \<in> set (up_sessions st @ pend)"
    and others: "\<And>j t. (j, t) \<in> set (up_sessions st @ pend) \<Longrightarrow> j \<noteq> i \<Longrightarrow> ul_temporary t \<noteq> ul_temporary s"
    and files: "up_files st' = (up_files st)(ul_temporary s := c)"
    and l: "session_matches (up_files st') s l" "log_ok l"
    and open_upload: "\<And>m. L i = Some m \<Longrightarrow> int (length (logged_bytes m)) \<noteq> lg_size m"
    and bounds: "\<forall>(j, t) \<in> set (up_sessions st'). ul_received t < ul_size t" "\<forall>(j, t) \<in> set pend'. ul_received t = ul_size t"
    and rest: "up_cleaned st'" "up_imports st' = up_imports st"
  shows "uploads_ok st' pend' (L(i \<mapsto> l))"
  unfolding uploads_ok_def
proof (intro conjI dist bounds)
  note ok' = ok [unfolded uploads_ok_def]
  show "\<not> up_cleaned st' \<longrightarrow> up_sessions st' = [] \<and> pend' = []" using rest by simp
  show "\<forall>j m. (L(i \<mapsto> l)) j = Some m \<longrightarrow> log_ok m" using ok' l(2) by auto
  show "\<forall>imp \<in> set (up_imports st'). import_matches (L(i \<mapsto> l)) imp"
    using ok' open_upload by (auto simp: rest intro: import_kept)
  show "\<forall>(j, t) \<in> set (up_sessions st' @ pend'). \<exists>m. (L(i \<mapsto> l)) j = Some m \<and> session_matches (up_files st') t m"
  proof (intro ballI, clarify)
    fix j t assume "(j, t) \<in> set (up_sessions st' @ pend')"
    then consider "j = i" "t = s" | "j \<noteq> i" "(j, t) \<in> set (up_sessions st @ pend)" using members by blast
    then show "\<exists>m. (L(i \<mapsto> l)) j = Some m \<and> session_matches (up_files st') t m"
    proof cases
      case 2
      then obtain m where "L j = Some m" "session_matches (up_files st) t m" using uploads_okD(1) [OF ok] by blast
      then show ?thesis using 2 others [OF 2(2,1)] by (simp add: session_matches_def files)
    qed (use l(1) in simp)
  qed
qed

lemma register_ok:
  assumes ok: "uploads_ok st pend L" and "up_cleaned st" and new: "L i = None"
    and run: "register_upload env now token i user dest amount st = (Inr s, st')" and amount: "0 \<le> amount"
    and dest: "resolve_user_path w user req = Inr dest"
  shows "uploads_ok st' (if amount = 0 then pend @ [(i, s)] else pend)
    (L(i \<mapsto> \<lparr>lg_user = user, lg_destination = ul_destination s, lg_size = amount, lg_chunks = []\<rparr>))"
proof (rule uploads_ok_update [OF ok, where s = s and c = "Some []"])
  let ?old = "up_sessions st @ pend" and ?pend = "if amount = 0 then pend @ [(i, s)] else pend"
  have s: "ul_destination s = dest" "ul_username s = user" "ul_size s = amount" "ul_received s = 0"
    and free: "up_files st (ul_temporary s) = None"
    and st': "up_sessions st' = (if amount = 0 then up_sessions st else up_sessions st @ [(i, s)])"
      "up_files st' = (up_files st)(ul_temporary s := Some [])" "up_cleaned st' = up_cleaned st"
      "up_imports st' = up_imports st"
    using run by (auto simp: register_upload_def Let_def split: if_splits)
  have id: "i \<notin> fst ` set ?old" using uploads_okD(1) [OF ok] new by fastforce
  have temp: "ul_temporary s \<notin> (ul_temporary \<circ> snd) ` set ?old"
    using uploads_okD(1) [OF ok] free by (fastforce simp: session_matches_def)
  have dist: "distinct (map f (up_sessions st' @ ?pend))"
    if "f (i, s) \<notin> f ` set ?old" "distinct (map f ?old)" for f :: "string \<times> upload_session \<Rightarrow> string"
    using that by (auto simp: st')
  have "distinct (map fst ?old)" "distinct (map (ul_temporary \<circ> snd) ?old)" using ok unfolding uploads_ok_def by blast+
  moreover have "(ul_temporary \<circ> snd) (i, s) \<notin> (ul_temporary \<circ> snd) ` set ?old" "fst (i, s) \<notin> fst ` set ?old"
    using id temp by auto
  ultimately show "distinct (map fst (up_sessions st' @ ?pend))"
    "distinct (map (ul_temporary \<circ> snd) (up_sessions st' @ ?pend))" by (blast intro: dist)+
  show "up_files st' = (up_files st)(ul_temporary s := Some [])" "up_imports st' = up_imports st" by (fact st')+
  show "up_cleaned st'" using assms(2) st' by simp
  show "session_matches (up_files st') s \<lparr>lg_user = user, lg_destination = ul_destination s, lg_size = amount, lg_chunks = []\<rparr>"
    by (simp add: session_matches_def s st' logged_bytes_def)
  show "log_ok \<lparr>lg_user = user, lg_destination = ul_destination s, lg_size = amount, lg_chunks = []\<rparr>"
    using log_ok_new [OF dest] by (simp add: s)
  show "\<forall>(j, t) \<in> set (up_sessions st'). ul_received t < ul_size t" "\<forall>(j, t) \<in> set ?pend. ul_received t = ul_size t"
    using uploads_okD(2,3) [OF ok] s amount by (auto simp: st' split: if_splits)
  show "(j, t) = (i, s) \<or> j \<noteq> i \<and> (j, t) \<in> set ?old" if "(j, t) \<in> set (up_sessions st' @ ?pend)" for j t
    using that id by (force simp: st' split: if_splits)
  show "ul_temporary t \<noteq> ul_temporary s" if "(j, t) \<in> set ?old" for j t
    using that temp by force
qed (simp add: new)

text \<open>An accepted chunk replaces the session of its id by the advanced one.\<close>

lemma mset_replaced:
  assumes "distinct (map fst ss)" and "map_of ss i = Some s"
  shows "mset (pop_session i ss @ [(i, s)]) = mset ss"
  using assms
proof (induction ss)
  case (Cons q ss)
  then show ?case
  proof (cases "fst q = i")
    case True
    then have "pop_session i ss = ss" using Cons.prems(1) by (intro pop_session_absent) auto
    then show ?thesis using True Cons.prems(2) by (cases q) (simp add: pop_session_def)
  next
    case False
    then show ?thesis using Cons by (cases q) (auto simp: pop_session_def)
  qed
qed simp

lemma map_set_session:
  assumes "f (i, s') = f (i, s)" and "distinct (map fst ss)" and "map_of ss i = Some s"
  shows "map f (set_session i s' ss) = map f ss"
proof -
  have "t = s" if "(i, t) \<in> set ss" for t
    using assms(2,3) that by (simp add: map_of_is_SomeI [OF assms(2)])
  then show ?thesis using assms(1) by (auto simp: set_session_def)
qed

lemma append_section_Inr:
  assumes "append_section env user i offset chunk st = (Inr s', st')"
  obtains s where "map_of (up_sessions st) i = Some s" "ul_username s = user" "offset = ul_received s"
    "ul_received s + int (length chunk) \<le> ul_size s" "s' = s\<lparr>ul_received := ul_received s + int (length chunk)\<rparr>"
    "up_sessions st' = (if ul_received s' = ul_size s' then pop_session i (up_sessions st)
       else set_session i s' (up_sessions st))"
    "up_files st' = (up_files st)(ul_temporary s := Some (case up_files st (ul_temporary s) of None \<Rightarrow> chunk | Some c \<Rightarrow> c @ chunk))"
    "up_cleaned st' = up_cleaned st" "up_imports st' = up_imports st"
  using assms by (auto simp: append_section_def owned_session_def append_bytes_def Let_def
      split: option.splits if_splits)

lemma mset_advanced:
  assumes "f (i, s') = f (i, s)" and "distinct (map fst ss)" and "map_of ss i = Some s"
    and "ss' = (if finished then pop_session i ss else set_session i s' ss)"
  shows "mset (map f (ss' @ (if finished then pend @ [(i, s')] else pend))) = mset (map f (ss @ pend))"
proof (cases finished)
  case True
  have "mset (map f (pop_session i ss @ [(i, s)])) = mset (map f ss)"
    using mset_replaced [OF assms(2,3)] by (metis mset_map)
  then show ?thesis using True assms(1) by (simp add: assms(4))
next
  case False
  then show ?thesis using map_set_session [OF assms(1-3)] by (simp add: assms(4))
qed

lemma append_ok:
  assumes ok: "uploads_ok st pend L" and run: "append_section env user i offset chunk st = (Inr s', st')"
  shows "uploads_ok st' (if ul_received s' = ul_size s' then pend @ [(i, s')] else pend)
    (L(i := map_option (log_chunk user offset chunk) (L i)))"
proof -
  let ?old = "up_sessions st @ pend" and ?pend = "if ul_received s' = ul_size s' then pend @ [(i, s')] else pend"
  obtain s where s: "map_of (up_sessions st) i = Some s" "ul_username s = user" "offset = ul_received s"
    "ul_received s + int (length chunk) \<le> ul_size s" "s' = s\<lparr>ul_received := ul_received s + int (length chunk)\<rparr>"
    and st': "up_sessions st' = (if ul_received s' = ul_size s' then pop_session i (up_sessions st)
        else set_session i s' (up_sessions st))"
      "up_files st' = (up_files st)(ul_temporary s := Some (case up_files st (ul_temporary s) of None \<Rightarrow> chunk | Some c \<Rightarrow> c @ chunk))"
      "up_cleaned st' = up_cleaned st" "up_imports st' = up_imports st"
    by (rule append_section_Inr [OF run])
  have here: "(i, s) \<in> set (up_sessions st)" by (rule map_of_SomeD [OF s(1)])
  then have here': "(i, s) \<in> set ?old" by simp
  obtain l where l: "L i = Some l" "session_matches (up_files st) s l" using uploads_okD(1) [OF ok here'] by blast
  have keys: "distinct (map fst (up_sessions st))" using ok by (simp add: uploads_ok_def)
  note perm = mset_eq_imp_distinct_iff [OF mset_advanced [OF _ keys s(1) st'(1), where pend = pend]]
  have "uploads_ok st' ?pend (L(i \<mapsto> log_chunk user offset chunk l))"
  proof (rule uploads_ok_update [OF ok, where s = s'])
    show "distinct (map fst (up_sessions st' @ ?pend))" "distinct (map (ul_temporary \<circ> snd) (up_sessions st' @ ?pend))"
      using perm [of fst] perm [of "ul_temporary \<circ> snd"] ok by (simp_all add: uploads_ok_def s(5) comp_def)
    show "up_files st' = (up_files st)(ul_temporary s' := Some (logged_bytes l @ chunk))" "up_imports st' = up_imports st"
      using l(2) by (simp_all add: st' s(5) session_matches_def)
    show "up_cleaned st'" using ok s(1) by (auto simp: st' uploads_ok_def)
    show "session_matches (up_files st') s' (log_chunk user offset chunk l)"
      using l(2) by (simp add: session_matches_def s(5) st' log_chunk_def logged_bytes_def)
    show "log_ok (log_chunk user offset chunk l)"
      using ok l s(2,3) by (intro log_ok_chunk) (auto simp: session_matches_def uploads_ok_def)
    show "\<forall>(j, t) \<in> set (up_sessions st'). ul_received t < ul_size t" "\<forall>(j, t) \<in> set ?pend. ul_received t = ul_size t"
      using uploads_okD(2,3) [OF ok] s(4) by (auto simp: st' s(5) pop_session_def set_session_def split: if_splits)
    show "int (length (logged_bytes m)) \<noteq> lg_size m" if "L i = Some m" for m
      using uploads_okD(2) [OF ok here] l that by (simp add: session_matches_def)
    fix j t
    have "i \<notin> fst ` set pend" using uploads_okD(4) [OF ok] here by force
    then show "(j, t) \<in> set (up_sessions st' @ ?pend) \<Longrightarrow> (j, t) = (i, s') \<or> j \<noteq> i \<and> (j, t) \<in> set ?old"
      by (force simp: st' pop_session_def set_session_def split: if_splits)
    show "(j, t) \<in> set ?old \<Longrightarrow> j \<noteq> i \<Longrightarrow> ul_temporary t \<noteq> ul_temporary s'"
      using uploads_ok_temporaries [OF ok _ here', of j t] by (auto simp: s(5))
  qed
  then show ?thesis using l(1) by simp
qed

lemma append_refused_ok:
  assumes ok: "uploads_ok st pend L" and run: "append_section env user i offset chunk st = (Inl e, st')"
    and "ue_append env \<in> {None, Some 0}"
  shows "uploads_ok st' pend L"
proof -
  have "st' = st"
  proof (cases "ue_append env")
    case (Some n)
    have "append_bytes (ul_temporary s) [] st = st" if here: "map_of (up_sessions st) i = Some s" for s
    proof -
      have "(i, s) \<in> set (up_sessions st @ pend)" using map_of_SomeD [OF here] by simp
      then obtain l where "session_matches (up_files st) s l" using uploads_okD(1) [OF ok] by blast
      then show ?thesis by (simp add: append_bytes_def session_matches_def fun_upd_idem)
    qed
    then show ?thesis
      using run assms(3) Some by (auto simp: append_section_def owned_session_def split: option.splits if_splits)
  next
    case None
    then show ?thesis
      using run by (auto simp: append_section_def owned_session_def Let_def split: option.splits if_splits)
  qed
  then show ?thesis using ok by simp
qed

lemma complete_ok:
  assumes ok: "uploads_ok st pend L" and here: "(i, s) \<in> set pend"
    and run: "complete_upload env s st = (q, st')"
  shows "uploads_ok st' (pop_session i pend) L"
proof -
  have here': "(i, s) \<in> set (up_sessions st @ pend)" using here by simp
  obtain l where l: "L i = Some l" "session_matches (up_files st) s l" "ul_received s = ul_size s"
    using uploads_okD(1) [OF ok here'] uploads_okD(3) [OF ok here] by blast
  have "i \<notin> fst ` set (up_sessions st)" using uploads_okD(4) [OF ok] here by force
  then have pop: "uploads_ok (unlink (ul_temporary s) st) (pop_session i pend) L"
    using pop_session_ok [OF ok here'] by (simp add: pop_session_absent)
  let ?imp = "(ul_username s, ul_destination s, up_files st (ul_temporary s))"
  have "import_matches L ?imp"
    using l unfolding import_matches_def session_matches_def by (intro exI [of _ i] exI [of _ l]) simp
  then have "uploads_ok (unlink (ul_temporary s) (st\<lparr>up_imports := up_imports st @ [?imp]\<rparr>)) (pop_session i pend) L"
    using pop unfolding uploads_ok_def by (simp add: unlink_def)
  moreover have "st' \<in> {unlink (ul_temporary s) st, unlink (ul_temporary s) (st\<lparr>up_imports := up_imports st @ [?imp]\<rparr>)}"
    using run by (auto simp: complete_upload_def Let_def split: sum.splits)
  ultimately show ?thesis using pop by blast
qed

lemma check_start_Inr:
  "check_start env user dir filename amount = Inr dest \<Longrightarrow>
     0 \<le> amount \<and> (\<exists>req. resolve_user_path (ue_paths env) user req = Inr dest)"
  by (auto simp: check_start_def upload_target_def Let_def rbind_Inr_iff split: if_splits)

lemma cancel_ok:
  assumes "uploads_ok st pend L" and "cancel_upload env user i st = (q, st')"
  shows "uploads_ok st' pend L"
proof -
  let ?st = "cleanup_orphans_once env st"
  have ok: "uploads_ok ?st pend L" by (rule cleanup_orphans_ok [OF assms(1)])
  show ?thesis
  proof (cases "owned_session user i (up_sessions ?st)")
    case (Inl e)
    then show ?thesis using assms(2) ok by (simp add: cancel_upload_def Let_def)
  next
    case (Inr s)
    then have here: "(i, s) \<in> set (up_sessions ?st)"
      by (auto simp: owned_session_def split: option.splits if_splits dest: map_of_SomeD)
    then have "i \<notin> fst ` set pend" using uploads_okD(4) [OF ok] by force
    then show ?thesis
      using assms(2) Inr pop_session_ok [OF ok, of i s] here
      by (auto simp: cancel_upload_def Let_def pop_session_absent)
  qed
qed

lemma upload_inv_step: "upload_inv r \<Longrightarrow> upload_step r r' \<Longrightarrow> upload_inv r'"
proof (erule upload_step.cases)
  fix r0 env now token i user dir filename amount s st
  assume inv: "upload_inv r" and r: "r = r0" "rn_log r0 i = None"
    and run: "start_section env now token i user dir filename amount (rn_uploads r0) = (Inr s, st)"
    and r': "r' = \<lparr>rn_uploads = st, rn_pending = (if amount = 0 then rn_pending r0 @ [(i, s)] else rn_pending r0),
      rn_log = (rn_log r0)(i \<mapsto> \<lparr>lg_user = user, lg_destination = ul_destination s, lg_size = amount, lg_chunks = []\<rparr>)\<rparr>"
  let ?st = "cleanup_expired now (cleanup_orphans_once env (rn_uploads r0))"
  obtain dest where dest: "check_start env user dir filename amount = Inr dest"
    "register_upload env now token i user dest amount ?st = (Inr s, st)"
    using run by (auto simp: start_section_def Let_def split: sum.splits)
  have ok: "uploads_ok ?st (rn_pending r0) (rn_log r0)" "up_cleaned ?st"
    using inv cleanup_orphans_ok cleanup_expired_ok unfolding upload_inv_def r by metis+
  obtain req where "0 \<le> amount" "resolve_user_path (ue_paths env) user req = Inr dest"
    using check_start_Inr [OF dest(1)] by blast
  then show "upload_inv r'"
    using register_ok [OF ok r(2) dest(2)] by (simp add: upload_inv_def r')
next
  fix env now token i user dir filename amount r0 e st
  assume "upload_inv r" "r = r0"
    "start_section env now token i user dir filename amount (rn_uploads r0) = (Inl e, st)" "r' = r0\<lparr>rn_uploads := st\<rparr>"
  moreover have "st = cleanup_expired now (cleanup_orphans_once env (rn_uploads r0))"
    using calculation(3) by (auto simp: start_section_def register_upload_def Let_def split: sum.splits if_splits)
  ultimately show "upload_inv r'"
    using cleanup_orphans_ok(1) cleanup_expired_ok(1) by (simp add: upload_inv_def)
next
  fix env user i offset chunk r0 s st
  assume "upload_inv r" "r = r0"
    "append_section env user i offset chunk (cleanup_orphans_once env (rn_uploads r0)) = (Inr s, st)"
    "r' = \<lparr>rn_uploads = st, rn_pending = (if ul_received s = ul_size s then rn_pending r0 @ [(i, s)] else rn_pending r0),
       rn_log = (rn_log r0)(i := map_option (log_chunk user offset chunk) (rn_log r0 i))\<rparr>"
  then show "upload_inv r'"
    using append_ok [OF cleanup_orphans_ok(1)] by (simp add: upload_inv_def)
qed (auto simp: upload_inv_def active_uploads_def Let_def
    intro: append_refused_ok cancel_ok complete_ok cleanup_orphans_ok cleanup_expired_ok)

lemma upload_inv_init: "upload_init r \<Longrightarrow> upload_inv r"
  by (erule upload_init.cases) (simp add: upload_inv_def uploads_ok_def)

interpretation upload_machine: machine_invariant upload_init upload_step upload_inv
  by unfold_locales (fact upload_inv_init upload_inv_step)+

section \<open>What reaches the worker\<close>

text \<open>The log of an upload id only grows, by accepted chunks.\<close>

lemma upload_log_kept:
  "upload_step r r' \<Longrightarrow> rn_log r i = Some l \<Longrightarrow> \<exists>m. rn_log r' i = Some m \<and> prefix (lg_chunks l) (lg_chunks m)
     \<and> lg_user m = lg_user l \<and> lg_destination m = lg_destination l \<and> lg_size m = lg_size l"
  by (erule upload_step.cases) (auto simp: log_chunk_def)


text \<open>An upload of six bytes in two chunks, next to a leftover of an earlier process.\<close>

definition demo_uploads :: upload_env where
  "demo_uploads = \<lparr>ue_limit_mb = 20, ue_paths = demo_paths, ue_write = (\<lambda>p. Inr ()), ue_text = demo_env,
     ue_request = None, ue_temp_dir = ''/var/tmp/webnas'', ue_sweep = (\<lambda>p. True), ue_append = None,
     ue_account = (\<lambda>u. Some (1000, 1000)), ue_chown = (\<lambda>p a. Inr ()), ue_chmod = (\<lambda>p. Inr ()),
     ue_worker = (\<lambda>u t d. Inr ())\<rparr>"

definition no_uploads :: uploads where
  "no_uploads = \<lparr>up_sessions = [], up_files = (\<lambda>p. None)(''/var/tmp/webnas/old.upload'' := Some ''xyz''),
     up_cleaned = False, up_imports = []\<rparr>"

definition demo_session :: "int \<Rightarrow> upload_session" where
  "demo_session n = \<lparr>ul_username = ''ann'', ul_destination = ''/home/ann/notes/report.txt'',
     ul_temporary = ''/var/tmp/webnas/t1.upload'', ul_size = 6, ul_received = n, ul_created_at = 1\<rparr>"

definition demo_start :: "(uploads, upload_session) step" where
  "demo_start = start_section demo_uploads 1 ''t1'' ''u1'' ''ann'' ''/home/ann/notes'' ''report.txt'' 6"

definition demo_append :: "int \<Rightarrow> string \<Rightarrow> (uploads, upload_session) step" where
  "demo_append offset chunk st =
     append_section demo_uploads ''ann'' ''u1'' offset chunk (cleanup_orphans_once demo_uploads st)"

definition demo_states :: "uploads list" where
  "demo_states = (let s1 = snd (demo_start no_uploads); s2 = snd (demo_append 0 ''abc'' s1);
     s3 = snd (demo_append 3 ''def'' s2) in [s1, s2, s3, snd (complete_upload demo_uploads (demo_session 6) s3)])"

lemma demo_upload_run:
  "fst (demo_start no_uploads) = Inr (demo_session 0)"
  "fst (demo_append 0 ''abc'' (demo_states ! 0)) = Inr (demo_session 3)"
  "fst (demo_append 3 ''def'' (demo_states ! 1)) = Inr (demo_session 6)"
  "up_imports (demo_states ! 3) = [(''ann'', ''/home/ann/notes/report.txt'', Some ''abcdef'')]"
  "up_files (demo_states ! 0) ''/var/tmp/webnas/old.upload'' = None"
  by code_simp+

lemma demo_upload_reached:
  "\<exists>L. reaches upload_init upload_step \<lparr>rn_uploads = demo_states ! 3, rn_pending = [], rn_log = L\<rparr>"
proof -
  let ?run = "\<lambda>st pend L. \<lparr>rn_uploads = st, rn_pending = pend, rn_log = L\<rparr>"
  let ?S = "demo_states"
  have step: "f st = (Inr s, snd (f st))" if "fst (f st) = Inr s" for f :: "(uploads, upload_session) step" and st s
    using that by (metis prod.collapse)
  have states: "?S ! 0 = snd (demo_start no_uploads)" "?S ! 1 = snd (demo_append 0 ''abc'' (?S ! 0))"
    "?S ! 2 = snd (demo_append 3 ''def'' (?S ! 1))" "?S ! 3 = snd (complete_upload demo_uploads (demo_session 6) (?S ! 2))"
    by (simp_all add: demo_states_def Let_def)
  have "reaches upload_init upload_step (?run no_uploads [] (\<lambda>i. None))"
    unfolding no_uploads_def by (intro reaches_init upload_init.intros)
  moreover have "\<exists>L. upload_step (?run no_uploads [] (\<lambda>i. None)) (?run (?S ! 0) [] L)"
    using step_start [of "?run no_uploads [] (\<lambda>i. None)" "''u1''" demo_uploads 1 "''t1''" "''ann''" "''/home/ann/notes''"
        "''report.txt''" 6 "demo_session 0" "?S ! 0"] step [of demo_start, OF demo_upload_run(1)]
    by (auto simp: states(1) demo_start_def)
  moreover have "\<exists>L'. upload_step (?run (?S ! 0) [] L) (?run (?S ! 1) [] L')" for L
  proof -
    have "append_section demo_uploads ''ann'' ''u1'' 0 ''abc'' (cleanup_orphans_once demo_uploads
        (rn_uploads (?run (?S ! 0) [] L))) = (Inr (demo_session 3), ?S ! 1)"
      using step [of "demo_append 0 ''abc''", OF demo_upload_run(2)]
      by (simp add: states(2) demo_append_def del: One_nat_def)
    from step_append [OF this] show ?thesis by (auto simp: demo_session_def simp del: One_nat_def)
  qed
  moreover have "\<exists>L'. upload_step (?run (?S ! 1) [] L) (?run (?S ! 2) [(''u1'', demo_session 6)] L')" for L
  proof -
    have "append_section demo_uploads ''ann'' ''u1'' 3 ''def'' (cleanup_orphans_once demo_uploads
        (rn_uploads (?run (?S ! 1) [] L))) = (Inr (demo_session 6), ?S ! 2)"
      using step [of "demo_append 3 ''def''", OF demo_upload_run(3)]
      by (simp add: states(3) demo_append_def del: One_nat_def)
    from step_append [OF this] show ?thesis by (auto simp: demo_session_def simp del: One_nat_def)
  qed
  moreover have "\<exists>L'. upload_step (?run (?S ! 2) [(''u1'', demo_session 6)] L) (?run (?S ! 3) [] L')" for L
    using step_complete [of "''u1''" "demo_session 6" "?run (?S ! 2) [(''u1'', demo_session 6)] L" demo_uploads]
    by (auto simp: states(4) pop_session_def) (metis prod.collapse)
  ultimately show ?thesis by (meson reaches_step)
qed


section \<open>Its limits\<close>

text \<open>
  A chunk of which only a part is written stays in the file: when it is sent again the worker gets
  eight bytes for an upload of six. And the sweep of orphans, run by a first request while another
  one has started an upload and sent its first chunk, removes that upload's file: the worker gets
  the last three bytes only.
\<close>

definition rest_sent :: "uploads \<Rightarrow> (string \<times> string \<times> string option) list" where
  "rest_sent st = up_imports (snd (append_upload demo_uploads ''ann'' ''u1'' 3 ''def'' st))"

lemma partial_write_kept:
  "rest_sent (snd (append_upload demo_uploads ''ann'' ''u1'' 0 ''abc''
       (snd (append_upload (demo_uploads\<lparr>ue_append := Some 2\<rparr>) ''ann'' ''u1'' 0 ''abc'' (demo_states ! 0)))))
     = [(''ann'', ''/home/ann/notes/report.txt'', Some ''ababcdef'')]"
  by code_simp

lemma sweep_races_with_start:
  assumes "mark_cleaned no_uploads = (Some known, marked)"
  shows "rest_sent (sweep_orphans demo_uploads known (snd (demo_append 0 ''abc'' (snd (demo_start marked)))))
     = [(''ann'', ''/home/ann/notes/report.txt'', Some ''def'')]"
proof -
  have "known = []" "marked = no_uploads\<lparr>up_cleaned := True\<rparr>"
    using assms by (auto simp: mark_cleaned_def no_uploads_def)
  moreover have "rest_sent (sweep_orphans demo_uploads [] (snd (demo_append 0 ''abc''
       (snd (demo_start (no_uploads\<lparr>up_cleaned := True\<rparr>))))))
     = [(''ann'', ''/home/ann/notes/report.txt'', Some ''def'')]" by code_simp
  ultimately show ?thesis by simp
qed

end
