(* ===== verification/Network_Mounts.thy ===== *)
theory Network_Mounts
  imports Broker_Services Permissions
begin

text \<open>
  Network mounts, \<^verbatim>\<open>network_mounts.py\<close>: how the panel validates a definition, the options and
  the command it derives from it, and the request \<^verbatim>\<open>broker_command\<close> of
  \<^verbatim>\<open>privileged_broker/runtime.py\<close> makes of that command. The broker checks the command again
  by its own rules; the last part compares the two. The record \<open>mount_world\<close> holds what the file
  system, the account database and Python's Unicode and URL functions answer. The configuration of a
  mount has every key, as \<^verbatim>\<open>safe_config\<close> stores it.
\<close>

section \<open>Definitions of mounts\<close>

record mount_payload =
  mp_name :: string
  mp_type :: string
  mp_host :: string
  mp_share :: "string option"
  mp_export_path :: "string option"
  mp_remote_path :: "string option"
  mp_username :: "string option"
  mp_domain :: "string option"
  mp_smb_version :: string
  mp_nfs_version :: string
  mp_ssh_port :: int
  mp_ssh_auth :: string
  mp_read_only :: bool
  mp_persistent :: bool
  mp_automount :: bool
  mp_uid :: "string option"
  mp_gid :: "string option"
  mp_file_mode :: string
  mp_dir_mode :: string
  mp_noexec :: bool
  mp_advanced_options :: "string list"
  mp_allowed_users :: "string list"
  mp_allowed_groups :: "string list"
  mp_force_empty :: bool

record mount_config =
  mc_domain :: string
  mc_username :: string
  mc_smb_version :: string
  mc_nfs_version :: string
  mc_ssh_port :: int
  mc_ssh_auth :: string
  mc_uid :: string
  mc_gid :: string
  mc_file_mode :: string
  mc_dir_mode :: string
  mc_noexec :: bool
  mc_automount :: bool
  mc_advanced_options :: "string list"
  mc_has_secret :: bool

record network_mount =
  mt_id :: string
  mt_name :: string
  mt_normalized :: string
  mt_type :: string
  mt_host :: string
  mt_remote :: string
  mt_point :: string
  mt_owner :: string
  mt_read_only :: bool
  mt_persistent :: bool
  mt_config :: mount_config

datatype point_state = Point_absent | Point_not_dir | Point_empty | Point_filled

record split_url =
  sp_scheme :: string
  sp_netloc :: string
  sp_path :: string
  sp_query :: string
  sp_hostname :: "string option"
  sp_username :: "string option"
  sp_password :: "string option"

text \<open>
  \<open>mw_plain\<close>: no part of the path is a link and it resolves to a child of the base; \<open>mw_conflict\<close> is
  \<^verbatim>\<open>_proxmox_storage_conflicts\<close>; \<open>mw_credentials\<close> and \<open>mw_davfs\<close> are the files of an id.
\<close>

record mount_world =
  mw_nfkc :: "string \<Rightarrow> string"
  mw_casefold :: "string \<Rightarrow> string"
  mw_isalnum :: "char \<Rightarrow> bool"
  mw_urlsplit :: "string \<Rightarrow> split_url res"
  mw_plain :: "string \<Rightarrow> bool"
  mw_conflict :: "string \<Rightarrow> bool"
  mw_state :: "string \<Rightarrow> point_state"
  mw_credentials :: "string \<Rightarrow> string"
  mw_davfs :: "string \<Rightarrow> string"
  mw_is_file :: "string \<Rightarrow> bool"
  mw_exists :: "string \<Rightarrow> bool"
  mw_account :: "string \<Rightarrow> (int \<times> int) option"

section \<open>Validation\<close>

definition http_unless :: "bool \<Rightarrow> nat \<Rightarrow> string \<Rightarrow> unit res" where
  "http_unless b n code = (if b then Inr () else Inl (HTTPException n code))"

definition mount_base :: string where
  "mount_base = ''/mnt/webnas/mnt''"

definition name_valid :: "mount_world \<Rightarrow> string \<Rightarrow> bool" where
  "name_valid w name \<longleftrightarrow> mw_nfkc w name = name \<and> name \<noteq> [] \<and> py_strip name = name
     \<and> last name \<notin> {CHR ''.'', CHR '' ''} \<and> length name \<le> 63 \<and> \<not> sublist ''..'' name
     \<and> list_all (\<lambda>c. c \<notin> {CHR ''/'', CHR 92, CHR 0x00} \<and> \<not> char_in [(0, 31), (127, 159)] c) name
     \<and> mw_isalnum w (hd name) \<and> list_all (\<lambda>c. mw_isalnum w c \<or> c \<in> set ''_.-'') name"

definition normalize_mount_name :: "mount_world \<Rightarrow> string \<Rightarrow> string res" where
  "normalize_mount_name w name =
     rbind (http_unless (name_valid w name) 422 ''invalid_name'') (\<lambda>_. Inr (mw_casefold w (mw_nfkc w name)))"

definition default_mount_point :: "mount_world \<Rightarrow> string \<Rightarrow> string res" where
  "default_mount_point w name = rbind (normalize_mount_name w name) (\<lambda>_.
     let point = path_child mount_base name in
     rbind (http_unless (path_parent point = mount_base) 422 ''invalid_mount_point'') (\<lambda>_. Inr point))"

definition validate_mount_point :: "mount_world \<Rightarrow> string \<Rightarrow> bool \<Rightarrow> string \<Rightarrow> string res" where
  "validate_mount_point w point existing_ok name =
     rbind (default_mount_point w name) (\<lambda>expected.
     rbind (http_unless (point = expected \<and> path_parent point = mount_base \<and> mw_plain w point) 403 ''unsafe_mount_point'') (\<lambda>_.
     rbind (http_unless (\<not> mw_conflict w point) 403 ''proxmox_conflict'') (\<lambda>_.
     rbind (http_unless (mw_state w point \<noteq> Point_not_dir) 409 ''mount_point_conflict'') (\<lambda>_.
     rbind (http_unless (mw_state w point \<noteq> Point_filled \<or> existing_ok) 409 ''mount_point_not_empty'') (\<lambda>_.
     Inr point)))))"

definition starts_then :: "(char \<Rightarrow> bool) \<Rightarrow> (char \<Rightarrow> bool) \<Rightarrow> int \<Rightarrow> string \<Rightarrow> bool" where
  "starts_then first rest n s = (case s of [] \<Rightarrow> False
     | c # cs \<Rightarrow> first c \<and> int (length cs) \<le> n \<and> list_all rest cs)"

definition host_ok :: "string \<Rightarrow> bool" where
  "host_ok = starts_then (\<lambda>c. ascii_letter c \<or> is_digit c) (\<lambda>c. word_char c \<or> c \<in> set ''.:-'') 252"

definition share_ok :: "string \<Rightarrow> bool" where
  "share_ok = starts_then (\<lambda>c. word_char c \<or> c = CHR ''$'') (\<lambda>c. word_char c \<or> c \<in> set ''. $-'') 127"

text \<open>\<^verbatim>\<open>USER_RE\<close>: a dollar sign may end the name.\<close>

definition remote_user_ok :: "string \<Rightarrow> bool" where
  "remote_user_ok s \<longleftrightarrow>
     (let ok = starts_then (\<lambda>c. ascii_letter c \<or> c = CHR ''_'') (\<lambda>c. word_char c \<or> c \<in> set ''.@-'') 63
      in ok s \<or> s \<noteq> [] \<and> last s = CHR ''$'' \<and> ok (butlast s))"

definition mode_ok :: "string \<Rightarrow> bool" where
  "mode_ok s \<longleftrightarrow>
     (let octal = (\<lambda>t. len_between 3 4 t \<and> list_all (char_in [(48, 55)]) t)
      in octal s \<or> s \<noteq> [] \<and> hd s = CHR ''0'' \<and> octal (tl s))"

definition id_ok :: "string \<Rightarrow> bool" where
  "id_ok s \<longleftrightarrow> len_between 1 64 s \<and> list_all (\<lambda>c. word_char c \<or> c \<in> set ''.-'') s"

definition safe_option :: "string \<Rightarrow> bool" where
  "safe_option s \<longleftrightarrow> (case py_partition CHR ''='' s of (key, sep, v) \<Rightarrow>
     key \<noteq> [] \<and> list_all (\<lambda>c. word_char c \<or> c \<in> set ''.-'') key
     \<and> (sep \<longrightarrow> v \<noteq> [] \<and> list_all (\<lambda>c. word_char c \<or> c \<in> set ''.:/@+-'') v))"

definition allowed_option_keys :: "string list" where
  "allowed_option_keys =
     [''ac'', ''actimeo'', ''async'', ''atime'', ''cache'', ''dirsync'', ''hard'', ''intr'', ''iocharset'',
      ''lookupcache'', ''noac'', ''noatime'', ''nodiratime'', ''noserverino'', ''retrans'', ''rsize'',
      ''serverino'', ''soft'', ''sync'', ''timeo'', ''wsize'']"

definition blocked_option_keys :: "string list" where
  "blocked_option_keys =
     [''allow_other'', ''allow_root'', ''credentials'', ''dev'', ''exec'', ''group'', ''owner'', ''pass'',
      ''passwd'', ''password'', ''suid'', ''user'', ''username'', ''users'']"

definition option_key :: "string \<Rightarrow> string" where
  "option_key s = ascii_lower (fst (py_partition CHR ''='' s))"

definition advanced_ok :: "string \<Rightarrow> bool" where
  "advanced_ok s \<longleftrightarrow> option_key s \<notin> set blocked_option_keys \<and> option_key s \<in> set allowed_option_keys \<and> safe_option s"

definition validate_options :: "string list \<Rightarrow> string list res" where
  "validate_options raw = (let opts = filter (\<lambda>s. s \<noteq> []) (map py_strip raw) in
     rbind (http_unless (list_all advanced_ok opts) 422 ''blocked_option'') (\<lambda>_. Inr (dict_fromkeys opts)))"

definition opt_text :: "string option \<Rightarrow> string" where
  "opt_text v = (case v of None \<Rightarrow> [] | Some s \<Rightarrow> s)"

definition safe_url :: "mount_world \<Rightarrow> string \<Rightarrow> string res" where
  "safe_url w v = rbind (mw_urlsplit w v) (\<lambda>u.
     rbind (http_unless (sp_scheme u \<in> {''http'', ''https''} \<and> opt_text (sp_hostname u) \<noteq> []
       \<and> opt_text (sp_username u) = [] \<and> opt_text (sp_password u) = []) 422 ''invalid_url'') (\<lambda>_.
     Inr (sp_scheme u @ ''://'' @ sp_netloc u @ (if sp_path u = [] then ''/'' else sp_path u)
       @ (if sp_query u = [] then [] else ''?'' @ sp_query u))))"

definition line_safe :: "string \<Rightarrow> bool" where
  "line_safe s \<longleftrightarrow> prefix ''/'' s \<and> list_all (\<lambda>c. c \<notin> {CHR 13, CHR 10, CHR 0x00}) s"

definition remote_for :: "mount_world \<Rightarrow> mount_payload \<Rightarrow> string res" where
  "remote_for w p =
     (if mp_type p = ''smb'' then
        rbind (http_unless (share_ok (opt_text (mp_share p))) 422 ''invalid_share'') (\<lambda>_.
        Inr (''//'' @ mp_host p @ ''/'' @ opt_text (mp_share p)))
      else if mp_type p = ''nfs'' then
        rbind (http_unless (line_safe (opt_text (mp_export_path p))) 422 ''invalid_export'') (\<lambda>_.
        Inr (mp_host p @ '':'' @ opt_text (mp_export_path p)))
      else if mp_type p = ''sshfs'' then
        rbind (http_unless (mp_ssh_auth p = ''key'') 422 ''unsafe_auth'') (\<lambda>_.
        rbind (http_unless (remote_user_ok (opt_text (mp_username p))) 422 ''invalid_username'') (\<lambda>_.
        rbind (http_unless (line_safe (opt_text (mp_remote_path p))) 422 ''invalid_remote_path'') (\<lambda>_.
        rbind (http_unless (1 \<le> mp_ssh_port p \<and> mp_ssh_port p \<le> 65535) 422 ''invalid_port'') (\<lambda>_.
        Inr (opt_text (mp_username p) @ ''@'' @ mp_host p @ '':'' @ opt_text (mp_remote_path p))))))
      else if mp_type p = ''webdav'' \<and> opt_text (mp_remote_path p) \<noteq> [] then safe_url w (opt_text (mp_remote_path p))
      else Inl (HTTPException 422 ''unsupported_protocol''))"

text \<open>\<open>existing\<close> is the mount that is updated, \<open>rows\<close> the table.\<close>

definition validate_payload ::
  "mount_world \<Rightarrow> network_mount list \<Rightarrow> string option \<Rightarrow> mount_payload \<Rightarrow> (string \<times> string \<times> string list) res" where
  "validate_payload w rows existing p =
     rbind (normalize_mount_name w (mp_name p)) (\<lambda>normalized.
     rbind (http_unless (mp_type p \<in> {''smb'', ''nfs'', ''sshfs'', ''webdav''}) 422 ''unsupported_protocol'') (\<lambda>_.
     rbind (http_unless (host_ok (mp_host p)) 422 ''invalid_host'') (\<lambda>_.
     rbind (http_unless (mp_smb_version p \<in> {''auto'', ''2.1'', ''3.0'', ''3.1.1''}
       \<and> mp_nfs_version p \<in> {''auto'', ''3'', ''4'', ''4.1'', ''4.2''}) 422 ''invalid_version'') (\<lambda>_.
     rbind (http_unless (mode_ok (mp_file_mode p) \<and> mode_ok (mp_dir_mode p)) 422 ''invalid_mode'') (\<lambda>_.
     rbind (http_unless (list_all remote_user_ok (mp_allowed_users p) \<and> list_all remote_user_ok (mp_allowed_groups p))
       422 ''invalid_access_entry'') (\<lambda>_.
     rbind (http_unless (opt_text (mp_uid p) = [] \<or> id_ok (opt_text (mp_uid p))) 422 ''invalid_uid'') (\<lambda>_.
     rbind (http_unless (opt_text (mp_gid p) = [] \<or> id_ok (opt_text (mp_gid p))) 422 ''invalid_gid'') (\<lambda>_.
     rbind (default_mount_point w (mp_name p)) (\<lambda>calculated.
     let same = (case existing of None \<Rightarrow> False
       | Some i \<Rightarrow> list_ex (\<lambda>m. mt_id m = i \<and> mt_point m = calculated) rows) in
     rbind (validate_mount_point w calculated (mp_force_empty p \<or> same) (mp_name p)) (\<lambda>point.
     rbind (validate_options (mp_advanced_options p)) (\<lambda>opts.
     rbind (remote_for w p) (\<lambda>remote.
     rbind (http_unless (\<not> list_ex (\<lambda>m. (mt_normalized m = normalized \<or> mt_point m = point)
         \<and> Some (mt_id m) \<noteq> existing) rows) 409 ''duplicate_mount'') (\<lambda>_.
     Inr (point, remote, opts))))))))))))))"

definition safe_config :: "mount_world \<Rightarrow> mount_payload \<Rightarrow> string list \<Rightarrow> string \<Rightarrow> mount_config" where
  "safe_config w p opts i =
     \<lparr>mc_domain = opt_text (mp_domain p), mc_username = opt_text (mp_username p), mc_smb_version = mp_smb_version p,
      mc_nfs_version = mp_nfs_version p, mc_ssh_port = mp_ssh_port p, mc_ssh_auth = mp_ssh_auth p,
      mc_uid = opt_text (mp_uid p), mc_gid = opt_text (mp_gid p), mc_file_mode = mp_file_mode p,
      mc_dir_mode = mp_dir_mode p, mc_noexec = mp_noexec p, mc_automount = mp_automount p,
      mc_advanced_options = opts, mc_has_secret = mw_exists w (mw_credentials w i)\<rparr>"

text \<open>The row \<^verbatim>\<open>create_mount\<close> inserts.\<close>

definition new_mount ::
  "mount_world \<Rightarrow> network_mount list \<Rightarrow> string \<Rightarrow> string \<Rightarrow> mount_payload \<Rightarrow> network_mount res" where
  "new_mount w rows i owner p = rbind (validate_payload w rows None p) (\<lambda>(point, remote, opts).
     rbind (normalize_mount_name w (mp_name p)) (\<lambda>normalized.
     Inr \<lparr>mt_id = i, mt_name = mp_name p, mt_normalized = normalized, mt_type = mp_type p, mt_host = mp_host p,
       mt_remote = remote, mt_point = point, mt_owner = owner, mt_read_only = mp_read_only p,
       mt_persistent = mp_persistent p, mt_config = safe_config w p opts i\<rparr>))"

section \<open>Options and command\<close>

definition local_identity :: "mount_world \<Rightarrow> network_mount \<Rightarrow> string \<times> string" where
  "local_identity w m = (let uid = mc_uid (mt_config m); gid = mc_gid (mt_config m) in
     if uid \<noteq> [] \<and> gid \<noteq> [] \<or> mt_owner m = [] then (uid, gid)
     else (case mw_account w (mt_owner m) of None \<Rightarrow> (uid, gid)
       | Some (u, g) \<Rightarrow> (if uid = [] then show_int u else uid, if gid = [] then show_int g else gid)))"

definition base_options :: "string list" where
  "base_options = [''nosuid'', ''nodev'', ''_netdev'', ''nofail'']"

definition id_options :: "string \<Rightarrow> string \<Rightarrow> string list \<Rightarrow> string list" where
  "id_options key v extra = (if v = [] then [] else (key @ ''='' @ v) # extra)"

definition smb_login :: "mount_world \<Rightarrow> network_mount \<Rightarrow> string list" where
  "smb_login w m = (let c = mt_config m; file = mw_credentials w (mt_id m) in
     if mw_is_file w file then [''credentials='' @ file]
     else if mc_username c \<noteq> [] \<or> mc_domain c \<noteq> []
       then [''username='' @ mc_username c, ''password=''] @ (if mc_domain c = [] then [] else [''domain='' @ mc_domain c])
     else [''guest''])"

definition type_options :: "mount_world \<Rightarrow> network_mount \<Rightarrow> string list" where
  "type_options w m = (let c = mt_config m; modes = [''file_mode='' @ mc_file_mode c, ''dir_mode='' @ mc_dir_mode c] in
     case local_identity w m of (uid, gid) \<Rightarrow>
       if mt_type m = ''smb'' then smb_login w m @ modes
         @ (if mc_smb_version c = ''auto'' then [] else [''vers='' @ mc_smb_version c])
         @ id_options ''uid'' uid [''forceuid''] @ id_options ''gid'' gid [''forcegid'']
       else if mt_type m = ''nfs'' then (if mc_nfs_version c = ''auto'' then [] else [''vers='' @ mc_nfs_version c])
       else if mt_type m = ''sshfs'' then
         [''ServerAliveInterval=15'', ''StrictHostKeyChecking=accept-new'', ''port='' @ show_int (mc_ssh_port c),
          ''allow_other'', ''default_permissions''] @ id_options ''uid'' uid [] @ id_options ''gid'' gid []
       else if mt_type m = ''webdav'' then
         (if mw_is_file w (mw_davfs w (mt_id m)) then [''conf='' @ mw_davfs w (mt_id m)] else [])
         @ modes @ id_options ''uid'' uid [] @ id_options ''gid'' gid []
       else [])"

definition panel_options :: "mount_world \<Rightarrow> network_mount \<Rightarrow> string list" where
  "panel_options w m = dict_fromkeys (base_options @ [if mt_read_only m then ''ro'' else ''rw'']
     @ (if mc_noexec (mt_config m) then [''noexec''] else []) @ mc_advanced_options (mt_config m) @ type_options w m)"

definition mount_fstype :: "string \<Rightarrow> string" where
  "mount_fstype t = (if t = ''smb'' then ''cifs'' else if t = ''nfs'' then ''nfs'' else ''davfs'')"

definition mount_command :: "mount_world \<Rightarrow> network_mount \<Rightarrow> string list" where
  "mount_command w m = (let opts = py_join CHR '','' (panel_options w m) in
     if mt_type m = ''sshfs'' then [''sshfs'', mt_remote m, mt_point m, ''-o'', opts]
     else [''mount'', ''-t'', mount_fstype (mt_type m), ''-o'', opts, mt_remote m, mt_point m])"

text \<open>\<^verbatim>\<open>broker_command\<close> for the three mount tools.\<close>

definition mount_request :: "string list \<Rightarrow> int \<Rightarrow> payload" where
  "mount_request args limit =
     [(''tool'', JStr (hd args)), (''args'', JList (map JStr (tl args))), (''timeout'', JInt limit)]"

section \<open>What the broker accepts of it\<close>

text \<open>Checks that return a value exactly under a condition, and refuse otherwise.\<close>

definition settles :: "'a broker \<Rightarrow> bool \<Rightarrow> 'a \<Rightarrow> bool" where
  "settles f b x \<longleftrightarrow> (if b then f = step_return x else (\<exists>msg. f = deny msg))"

lemma denied [simp]: "\<exists>msg. deny m = deny msg"
  by blast

lemma settles_bind: "settles f b x \<Longrightarrow> settles (g x) c y \<Longrightarrow> settles (step_bind f g) (b \<and> c) y"
  by (auto simp: settles_def split: if_splits)

lemma settles_then: "settles f b x \<Longrightarrow> settles g c y \<Longrightarrow> settles (step_then f g) (b \<and> c) y"
  unfolding step_then_def by (rule settles_bind)

lemma settles_return: "settles (step_return x) True x"
  by (simp add: settles_def)

lemma settles_ensure: "settles (if b then step_return x else deny msg) b x" "settles (if b then deny msg else step_return x) (\<not> b) x"
  by (auto simp: settles_def)

lemma settles_token: "settles (policy_token n l (Some (JStr s))) (token_ok n s) s"
  by (auto simp: settles_def policy_token_def str_value_def)

definition numeric_text :: "string \<Rightarrow> bool" where
  "numeric_text v \<longleftrightarrow> len_between 1 12 v \<and> list_all is_digit v"

text \<open>An option without a path, as the broker's \<^const>\<open>mount_option\<close> accepts it.\<close>

definition option_fits :: "string \<Rightarrow> bool" where
  "option_fits s \<longleftrightarrow> token_ok 4096 s \<and> (case py_partition CHR ''='' s of (key, sep, v) \<Rightarrow>
     key \<in> set mount_option_keys \<and> (if \<not> sep then key \<in> set simple_options
       else if key \<in> set numeric_options then numeric_text v
       else if key = ''StrictHostKeyChecking'' then v = ''accept-new''
       else if key = ''password'' then v = [] else option_text_ok v))"

lemma settles_option:
  assumes "fst (py_partition CHR ''='' s) \<notin> {''credentials'', ''conf''}"
  shows "settles (mount_option env s) (option_fits s) s"
proof -
  obtain key sep v where p: "py_partition CHR ''='' s = (key, sep, v)" by (metis prod.exhaust)
  then have "key = s" if "\<not> sep" using that partition_whole [of _ s] by auto
  with assms p show ?thesis
    by (cases sep) (simp_all add: settles_def mount_option_def option_fits_def numeric_text_def)
qed

lemma settles_options:
  assumes "\<And>s. s \<in> set ss \<Longrightarrow> settles (mount_option env s) (F s) s"
  shows "settles (mount_options env ss) (list_all F ss) ss"
  using assms
proof (induction ss)
  case (Cons s ss)
  have "settles (step_bind (mount_option env s) (\<lambda>v. step_bind (mount_options env ss) (\<lambda>vs. step_return (v # vs))))
      (F s \<and> list_all F ss \<and> True) (s # ss)"
    using Cons by (intro settles_bind) (auto simp: settles_return)
  then show ?case by simp
qed (simp add: settles_return)

lemma settles_option_text:
  assumes "\<And>s. s \<in> set ss \<Longrightarrow> settles (mount_option env s) (F s) s"
    and "\<And>s. s \<in> set ss \<Longrightarrow> s \<noteq> [] \<and> CHR '','' \<notin> set s" and "{''nosuid'', ''nodev''} \<subseteq> set ss"
  shows "settles (validated_mount_options env (py_join CHR '','' ss))
    (int (length (py_join CHR '','' ss)) \<le> 16384 \<and> list_all F ss) (py_join CHR '','' ss)"
proof -
  have "ss \<noteq> []" using assms(3) by auto
  then have split: "filter (\<lambda>w. w \<noteq> []) (py_split CHR '','' (py_join CHR '','' ss)) = ss"
    using assms(2) by (subst py_split_join) (auto intro: filter_True)
  have "settles (step_bind (mount_options env ss) (\<lambda>os. if ''nosuid'' \<notin> set os \<or> ''nodev'' \<notin> set os
      then deny ''mandatory mount safety options are missing'' else step_return (py_join CHR '','' os)))
    (list_all F ss \<and> True) (py_join CHR '','' ss)"
    using assms(3) by (intro settles_bind [OF settles_options [OF assms(1)]]) (auto simp: settles_def)
  then show ?thesis unfolding validated_mount_options_def split by (auto simp: settles_def split: if_splits)
qed

section \<open>The options of a valid mount\<close>

text \<open>What the validation leaves of a definition.\<close>

definition mount_valid :: "network_mount \<Rightarrow> bool" where
  "mount_valid m \<longleftrightarrow> (let c = mt_config m in mt_type m \<in> {''smb'', ''nfs'', ''sshfs'', ''webdav''}
     \<and> list_all advanced_ok (mc_advanced_options c) \<and> mode_ok (mc_file_mode c) \<and> mode_ok (mc_dir_mode c)
     \<and> mc_smb_version c \<in> {''auto'', ''2.1'', ''3.0'', ''3.1.1''}
     \<and> mc_nfs_version c \<in> {''auto'', ''3'', ''4'', ''4.1'', ''4.2''}
     \<and> (mc_uid c = [] \<or> id_ok (mc_uid c)) \<and> (mc_gid c = [] \<or> id_ok (mc_gid c))
     \<and> (mt_type m = ''sshfs'' \<longrightarrow> 1 \<le> mc_ssh_port c \<and> mc_ssh_port c \<le> 65535))"

lemma http_unless_Inr [simp]: "http_unless b n code = Inr u \<longleftrightarrow> b"
  by (simp add: http_unless_def)

lemma new_mount_valid:
  assumes "new_mount w rows i owner p = Inr m"
  shows "mount_valid m" and "mt_id m = i" and "mt_point m = path_child mount_base (mt_name m)"
    and "name_valid w (mt_name m)" and "mw_plain w (mt_point m)"
proof -
  obtain point remote opts where v: "validate_payload w rows None p = Inr (point, remote, opts)"
    and m: "mt_type m = mp_type p" "mt_config m = safe_config w p opts i" "mt_id m = i" "mt_point m = point"
      "mt_name m = mp_name p"
    using assms by (auto simp: new_mount_def rbind_Inr_iff)
  have opts: "list_all advanced_ok opts" if "validate_options raw = Inr opts" for raw
    using that by (auto simp: validate_options_def Let_def rbind_Inr_iff list_all_iff)
  have "mp_type p \<in> {''smb'', ''nfs'', ''sshfs'', ''webdav''}" "list_all advanced_ok opts"
    "mode_ok (mp_file_mode p)" "mode_ok (mp_dir_mode p)" "mp_smb_version p \<in> {''auto'', ''2.1'', ''3.0'', ''3.1.1''}"
    "mp_nfs_version p \<in> {''auto'', ''3'', ''4'', ''4.1'', ''4.2''}" "opt_text (mp_uid p) = [] \<or> id_ok (opt_text (mp_uid p))"
    "opt_text (mp_gid p) = [] \<or> id_ok (opt_text (mp_gid p))" "remote_for w p = Inr remote"
    using v unfolding validate_payload_def Let_def rbind_Inr_iff http_unless_Inr sum.inject prod.inject
    by (elim exE conjE; simp only: opts)+
  then show "mount_valid m"
    unfolding mount_valid_def Let_def m safe_config_def
    by (auto simp: remote_for_def rbind_Inr_iff split: if_splits)
  show "mt_id m = i" by (fact m)
  show "mt_point m = path_child mount_base (mt_name m)" "name_valid w (mt_name m)" "mw_plain w (mt_point m)"
    using v by (auto simp: m validate_payload_def validate_mount_point_def default_mount_point_def
        normalize_mount_name_def rbind_Inr_iff Let_def)
qed

lemma word_not_comma: "word_char c \<Longrightarrow> c \<noteq> CHR '','' \<and> \<not> control c \<and> c \<noteq> CHR ''=''"
  by (auto simp: word_char_def ascii_letter_def char_in_def is_digit_def control_def)

lemma advanced_plain: "advanced_ok s \<Longrightarrow> s \<noteq> [] \<and> CHR '','' \<notin> set s"
proof -
  assume ok: "advanced_ok s"
  obtain key sep v where p: "py_partition CHR ''='' s = (key, sep, v)" by (metis prod.exhaust)
  have "set s \<subseteq> set key \<union> set v \<union> {CHR ''=''}"
  proof (cases "CHR ''='' \<in> set s")
    case True
    then show ?thesis using partition_found [OF p] by auto
  next
    case False
    then have "\<not> sep" using p by (induction s arbitrary: key v) (auto split: prod.splits if_splits)
    then show ?thesis using p partition_whole [of "CHR ''=''" s key v] by auto
  qed
  moreover have key: "\<forall>c \<in> set key. word_char c \<or> c \<in> set ''.-''" "key \<noteq> []"
    and v: "sep \<longrightarrow> (\<forall>c \<in> set v. word_char c \<or> c \<in> set ''.:/@+-'')"
    using ok p by (simp_all add: advanced_ok_def safe_option_def list_all_iff)
  moreover have "sep \<or> v = []" using p by (induction s arbitrary: key v) (auto split: prod.splits if_splits)
  moreover have "CHR '','' \<notin> set key" using key(1) by (auto simp: word_char_def ascii_letter_def char_in_def is_digit_def)
  moreover have "sep \<longrightarrow> CHR '','' \<notin> set v" using v by (auto simp: word_char_def ascii_letter_def char_in_def is_digit_def)
  moreover have "s \<noteq> []" using p key(2) by auto
  ultimately show "s \<noteq> [] \<and> CHR '','' \<notin> set s" by auto
qed

lemma fits_numeric:
  assumes "key \<in> {''uid'', ''gid'', ''port'', ''file_mode'', ''dir_mode''}"
  shows "option_fits (key @ ''='' @ v) \<longleftrightarrow> numeric_text v"
proof -
  have "py_partition CHR ''='' (key @ CHR ''='' # v) = (key, True, v)"
    using assms by (intro partition_at) auto
  moreover have "token_ok 4096 (key @ CHR ''='' # v)" if "numeric_text v"
  proof -
    have "\<not> control c" if "c \<in> set v" for c
      using \<open>numeric_text v\<close> that by (auto simp: numeric_text_def list_all_iff is_digit_def control_def)
    moreover have "list_all (\<lambda>c. \<not> control c) key" "length key \<le> 9" using assms by (auto simp: control_def)
    ultimately show ?thesis
      using \<open>numeric_text v\<close> by (auto simp: token_ok_def list_ex_iff list_all_iff numeric_text_def len_between_def control_def)
  qed
  moreover have "key \<in> set mount_option_keys" "key \<in> set numeric_options"
    using assms by (auto simp: mount_option_keys_def numeric_options_def)
  ultimately show ?thesis by (auto simp: option_fits_def)
qed

lemma fits_fixed:
  "list_all option_fits [''nosuid'', ''nodev'', ''_netdev'', ''nofail'', ''ro'', ''rw'', ''noexec'', ''guest'',
     ''forceuid'', ''forcegid'', ''allow_other'', ''default_permissions'', ''ServerAliveInterval=15'',
     ''StrictHostKeyChecking=accept-new'', ''vers=2.1'', ''vers=3.0'', ''vers=3.1.1'', ''vers=3'', ''vers=4'',
     ''vers=4.1'', ''vers=4.2'']"
  by code_simp

lemma mode_numeric: "mode_ok s \<Longrightarrow> numeric_text s"
  by (cases s) (auto simp: mode_ok_def numeric_text_def len_between_def char_in_def is_digit_def list_all_iff Let_def)

text \<open>Which options the panel can derive.\<close>

definition path_options :: "mount_world \<Rightarrow> network_mount \<Rightarrow> string list" where
  "path_options w m = map (\<lambda>f. ''credentials='' @ f) (filter (mw_is_file w) [mw_credentials w (mt_id m)])
     @ map (\<lambda>f. ''conf='' @ f) (filter (mw_is_file w) [mw_davfs w (mt_id m)])"

definition identity_used :: "mount_world \<Rightarrow> network_mount \<Rightarrow> string list" where
  "identity_used w m = (if mt_type m = ''nfs'' then [] else filter (\<lambda>v. v \<noteq> []) [fst (local_identity w m), snd (local_identity w m)])"

definition identity_options :: "mount_world \<Rightarrow> network_mount \<Rightarrow> string list" where
  "identity_options w m = (if mt_type m = ''nfs'' then [] else
     id_options ''uid'' (fst (local_identity w m)) [] @ id_options ''gid'' (snd (local_identity w m)) [])"

definition fixed_options :: "string list" where
  "fixed_options = [''nosuid'', ''nodev'', ''_netdev'', ''nofail'', ''ro'', ''rw'', ''noexec'', ''guest'',
     ''forceuid'', ''forcegid'', ''allow_other'', ''default_permissions'', ''ServerAliveInterval=15'',
     ''StrictHostKeyChecking=accept-new'', ''vers=2.1'', ''vers=3.0'', ''vers=3.1.1'', ''vers=3'', ''vers=4'',
     ''vers=4.1'', ''vers=4.2'']"

definition number_options :: "network_mount \<Rightarrow> string list" where
  "number_options m = (let c = mt_config m in [''file_mode='' @ mc_file_mode c, ''dir_mode='' @ mc_dir_mode c]
     @ (if mt_type m = ''sshfs'' then [''port='' @ show_int (mc_ssh_port c)] else []))"

text \<open>A mount of a share with an account has its credentials file: \<^verbatim>\<open>write_credentials\<close> makes it.\<close>

definition has_credentials :: "mount_world \<Rightarrow> network_mount \<Rightarrow> bool" where
  "has_credentials w m \<longleftrightarrow> mt_type m = ''smb'' \<longrightarrow> mw_is_file w (mw_credentials w (mt_id m))
     \<or> mc_username (mt_config m) = [] \<and> mc_domain (mt_config m) = []"

lemma panel_options_set:
  assumes "mount_valid m" and "has_credentials w m"
  shows "set (panel_options w m) \<subseteq> set fixed_options \<union> set (path_options w m) \<union> set (number_options m)
      \<union> set (identity_options w m) \<union> set (mc_advanced_options (mt_config m))"
    and "set (identity_options w m) \<union> set (mc_advanced_options (mt_config m)) \<union> {''nosuid'', ''nodev''}
      \<subseteq> set (panel_options w m)"
proof -
  obtain uid gid where ident: "local_identity w m = (uid, gid)" by (metis prod.exhaust)
  have fixed: "set base_options \<union> {''ro'', ''rw'', ''noexec'', ''guest'', ''forceuid'', ''forcegid'', ''allow_other'',
      ''default_permissions'', ''ServerAliveInterval=15'', ''StrictHostKeyChecking=accept-new''} \<subseteq> set fixed_options"
    by (simp add: fixed_options_def base_options_def)
  have smb_version: "''vers='' @ v \<in> set fixed_options" if "v \<in> {''auto'', ''2.1'', ''3.0'', ''3.1.1''}" "v \<noteq> ''auto''" for v
    using that by (elim insertE emptyE) (simp_all add: fixed_options_def)
  have nfs_version: "''vers='' @ v \<in> set fixed_options" if "v \<in> {''auto'', ''3'', ''4'', ''4.1'', ''4.2''}" "v \<noteq> ''auto''" for v
    using that by (elim insertE emptyE) (simp_all add: fixed_options_def)
  have login: "set (smb_login w m) \<subseteq> set fixed_options \<union> set (path_options w m)" if "mt_type m = ''smb''"
    using assms(2) that fixed by (auto simp: has_credentials_def smb_login_def path_options_def Let_def)
  have ids: "set (id_options key v extra) \<subseteq> set (id_options key v []) \<union> set extra" for key v extra
    by (auto simp: id_options_def)
  have modes: "{''file_mode='' @ mc_file_mode (mt_config m), ''dir_mode='' @ mc_dir_mode (mt_config m)} \<subseteq> set (number_options m)"
    by (simp add: number_options_def Let_def)
  have davfs: "set (if mw_is_file w (mw_davfs w (mt_id m)) then [''conf='' @ mw_davfs w (mt_id m)] else []) \<subseteq> set (path_options w m)"
    by (simp add: path_options_def)
  have port: "''port='' @ show_int (mc_ssh_port (mt_config m)) \<in> set (number_options m)" if "mt_type m = ''sshfs''"
    using that by (simp add: number_options_def Let_def)
  have versions: "mc_smb_version (mt_config m) \<in> {''auto'', ''2.1'', ''3.0'', ''3.1.1''}"
    "mc_nfs_version (mt_config m) \<in> {''auto'', ''3'', ''4'', ''4.1'', ''4.2''}"
    "mt_type m \<in> {''smb'', ''nfs'', ''sshfs'', ''webdav''}"
    using assms(1) unfolding mount_valid_def Let_def by blast+
  have own: "set (type_options w m) \<subseteq> set fixed_options \<union> set (path_options w m) \<union> set (number_options m)
      \<union> set (identity_options w m)"
  proof -
    have smb: ?thesis if "mt_type m = ''smb''"
      using that fixed login [OF that] modes smb_version [OF versions(1)] ids [of "''uid''" uid "[''forceuid'']"]
        ids [of "''gid''" gid "[''forcegid'']"]
      by (simp add: type_options_def ident Let_def identity_options_def) blast
    have nfs: ?thesis if "mt_type m = ''nfs''"
      using that nfs_version [OF versions(2)] by (simp add: type_options_def ident Let_def)
    have ssh: ?thesis if "mt_type m = ''sshfs''"
      using that fixed port [OF that] by (simp add: type_options_def ident Let_def identity_options_def)
    have dav: ?thesis if "mt_type m = ''webdav''"
      using that davfs modes by (simp add: type_options_def ident Let_def identity_options_def) blast
    show ?thesis using versions(3) smb nfs ssh dav by blast
  qed
  then show "set (panel_options w m) \<subseteq> set fixed_options \<union> set (path_options w m) \<union> set (number_options m)
      \<union> set (identity_options w m) \<union> set (mc_advanced_options (mt_config m))"
    using fixed unfolding panel_options_def set_dict_fromkeys set_append by (auto split: if_splits)
  have "set (identity_options w m) \<subseteq> set (type_options w m)"
    using assms(1) by (auto simp: type_options_def identity_options_def id_options_def ident mount_valid_def Let_def)
  then show "set (identity_options w m) \<union> set (mc_advanced_options (mt_config m)) \<union> {''nosuid'', ''nodev''}
      \<subseteq> set (panel_options w m)"
    by (auto simp: panel_options_def base_options_def)
qed

text \<open>The files the panel names are where the broker allows them.\<close>

definition trusted_file :: "broker_env \<Rightarrow> string \<Rightarrow> bool" where
  "trusted_file env f \<longleftrightarrow> safe_path env (''/var/lib/webnas'' # data_roots env) f = step_return f
     \<and> f \<noteq> [] \<and> CHR '','' \<notin> set f \<and> int (length f) \<le> 4000 \<and> list_all (\<lambda>c. \<not> control c) f"

lemma path_option_accepted:
  assumes "trusted_file env f" and "key \<in> {''credentials'', ''conf''}"
  shows "mount_option env (key @ ''='' @ f) = step_return (key @ ''='' @ f)"
proof -
  have "py_partition CHR ''='' (key @ CHR ''='' # f) = (key, True, f)"
    using assms(2) by (intro partition_at) auto
  moreover have "token_ok 4096 (key @ CHR ''='' # f)"
    using assms by (auto simp: trusted_file_def token_ok_def len_between_def list_ex_iff list_all_iff control_def)
  moreover have "key \<in> set mount_option_keys" using assms(2) by (auto simp: mount_option_keys_def)
  ultimately show ?thesis using assms by (auto simp: mount_option_def trusted_file_def)
qed

lemma show_nat_length: "n < 10 ^ k \<Longrightarrow> 0 < k \<Longrightarrow> length (show_nat n) \<le> k"
proof (induction k arbitrary: n)
  case (Suc k)
  then show ?case
  proof (cases "n < 10")
    case False
    then have "n div 10 < 10 ^ k" "0 < k" using Suc.prems by (auto intro: Suc_lessI gr0I)
    then show ?thesis using Suc.IH False by (simp add: show_nat.simps [of n])
  qed (simp add: show_nat.simps [of n])
qed simp

lemma port_numeric: "1 \<le> n \<Longrightarrow> n \<le> 65535 \<Longrightarrow> numeric_text (show_int n)"
proof -
  assume n: "1 \<le> n" "n \<le> 65535"
  then have "length (show_nat (nat n)) \<le> 5" by (intro show_nat_length) auto
  moreover have "show_nat (nat n) \<noteq> []" by (subst show_nat.simps) simp
  ultimately show ?thesis
    using n by (auto simp: numeric_text_def show_int_def len_between_def list_all_iff Suc_le_eq dest: show_nat_digits)
qed

lemma fits_number [simp]:
  "option_fits (''uid='' @ v) \<longleftrightarrow> numeric_text v" "option_fits (''gid='' @ v) \<longleftrightarrow> numeric_text v"
  "option_fits (''port='' @ v) \<longleftrightarrow> numeric_text v" "option_fits (''file_mode='' @ v) \<longleftrightarrow> numeric_text v"
  "option_fits (''dir_mode='' @ v) \<longleftrightarrow> numeric_text v"
  using fits_numeric [of "''uid''" v] fits_numeric [of "''gid''" v] fits_numeric [of "''port''" v]
    fits_numeric [of "''file_mode''" v] fits_numeric [of "''dir_mode''" v] by simp_all

lemma number_options_fit: "mount_valid m \<Longrightarrow> s \<in> set (number_options m) \<Longrightarrow> option_fits s"
proof -
  assume valid: "mount_valid m" and s: "s \<in> set (number_options m)"
  have "numeric_text (mc_file_mode (mt_config m))" "numeric_text (mc_dir_mode (mt_config m))"
    "mt_type m = ''sshfs'' \<longrightarrow> numeric_text (show_int (mc_ssh_port (mt_config m)))"
    using valid mode_numeric port_numeric unfolding mount_valid_def Let_def by blast+
  with s show ?thesis
    unfolding number_options_def Let_def by (auto split: if_splits simp del: append_Cons)
qed

text \<open>
  What the broker asks beyond the panel: values for the options that need one, lower-case keys,
  numeric identities, a remote without control characters, and bounds on lengths.
\<close>

definition mount_fits :: "mount_world \<Rightarrow> network_mount \<Rightarrow> bool" where
  "mount_fits w m \<longleftrightarrow> list_all option_fits (mc_advanced_options (mt_config m))
     \<and> list_all numeric_text (identity_used w m) \<and> token_ok 4096 (mt_remote m)
     \<and> int (length (py_join CHR '','' (panel_options w m))) \<le> 16384"

definition path_option :: "string \<Rightarrow> bool" where
  "path_option s \<longleftrightarrow> fst (py_partition CHR ''='' s) \<in> {''credentials'', ''conf''}"

lemma identity_fits:
  "list_all option_fits (identity_options w m) \<longleftrightarrow> list_all numeric_text (identity_used w m)"
proof -
  have "list_all option_fits (id_options key v []) \<longleftrightarrow> list_all numeric_text (filter (\<lambda>v. v \<noteq> []) [v])"
    if "key \<in> {''uid'', ''gid''}" for key v
    using fits_numeric [of key v] that by (auto simp: id_options_def)
  from this [of "''uid''"] this [of "''gid''"] show ?thesis
    unfolding identity_options_def identity_used_def by (simp split: if_splits)
qed

lemma path_option_at: "CHR ''='' \<notin> set key \<Longrightarrow> path_option (key @ ''='' @ v) \<longleftrightarrow> key \<in> {''credentials'', ''conf''}"
  by (simp add: path_option_def partition_at)

lemma not_path_option:
  "s \<in> set fixed_options \<Longrightarrow> \<not> path_option s" "s \<in> set (number_options m) \<Longrightarrow> \<not> path_option s"
  "s \<in> set (identity_options w m) \<Longrightarrow> \<not> path_option s" "advanced_ok s \<Longrightarrow> \<not> path_option s"
proof -
  have "list_all (\<lambda>s. \<not> path_option s) fixed_options" by code_simp
  then show "s \<in> set fixed_options \<Longrightarrow> \<not> path_option s" by (simp add: list_all_iff)
  have num: "\<not> path_option (key @ ''='' @ v)" if "key \<in> {''file_mode'', ''dir_mode'', ''port'', ''uid'', ''gid''}" for key v
    using that by (subst path_option_at) auto
  show "\<not> path_option s" if "s \<in> set (number_options m)"
    using that num [of "''file_mode''" "mc_file_mode (mt_config m)"] num [of "''dir_mode''" "mc_dir_mode (mt_config m)"]
      num [of "''port''" "show_int (mc_ssh_port (mt_config m))"]
    by (auto simp: number_options_def Let_def split: if_splits)
  show "\<not> path_option s" if "s \<in> set (identity_options w m)"
    using that num [of "''uid''" "fst (local_identity w m)"] num [of "''gid''" "snd (local_identity w m)"]
    by (auto simp: identity_options_def id_options_def split: if_splits)
  have "\<forall>k \<in> {''credentials'', ''conf''}. ascii_lower k \<notin> set allowed_option_keys" by code_simp
  then show "advanced_ok s \<Longrightarrow> \<not> path_option s"
    by (auto simp: advanced_ok_def option_key_def path_option_def)
qed

lemma panel_options_settle:
  assumes valid: "mount_valid m" "has_credentials w m"
    and files: "\<forall>f \<in> {mw_credentials w (mt_id m), mw_davfs w (mt_id m)}. mw_is_file w f \<longrightarrow> trusted_file env f"
    and s: "s \<in> set (panel_options w m)"
  shows "settles (mount_option env s) (path_option s \<or> option_fits s) s"
proof (cases "path_option s")
  case True
  have "\<forall>t \<in> set (mc_advanced_options (mt_config m)). advanced_ok t"
    using valid(1) by (simp add: mount_valid_def Let_def list_all_iff)
  then have "s \<in> set (path_options w m)"
    using s True panel_options_set(1) [OF valid] not_path_option by blast
  then have "mount_option env s = step_return s"
    using files path_option_accepted [of env _ "''credentials''"] path_option_accepted [of env _ "''conf''"]
    by (auto simp: path_options_def split: if_splits)
  then show ?thesis using True by (simp add: settles_def)
next
  case False
  then show ?thesis using settles_option [of s env] by (simp add: path_option_def)
qed

lemma panel_options_fit:
  assumes "mount_valid m" "has_credentials w m"
  shows "list_all (\<lambda>s. path_option s \<or> option_fits s) (panel_options w m)
    \<longleftrightarrow> list_all option_fits (mc_advanced_options (mt_config m)) \<and> list_all numeric_text (identity_used w m)"
    (is "?l \<longleftrightarrow> ?r")
proof
  have advanced: "\<forall>t \<in> set (mc_advanced_options (mt_config m)). advanced_ok t"
    using assms(1) by (simp add: mount_valid_def Let_def list_all_iff)
  show ?r if l: ?l
    unfolding identity_fits [symmetric]
    unfolding list_all_iff
  proof (intro conjI ballI)
    fix s assume s: "s \<in> set (mc_advanced_options (mt_config m))"
    then have "s \<in> set (panel_options w m)" using panel_options_set(2) [OF assms] by (auto simp del: append_Cons)
    then show "option_fits s" using l not_path_option(4) advanced s by (auto simp: list_all_iff)
  next
    fix s assume s: "s \<in> set (identity_options w m)"
    then have "s \<in> set (panel_options w m)" using panel_options_set(2) [OF assms] by (auto simp del: append_Cons)
    then show "option_fits s" using l not_path_option(3) [OF s] by (auto simp: list_all_iff)
  qed
  have path: "path_option s" if "s \<in> set (path_options w m)" for s
    using that path_option_at [of "''credentials''"] path_option_at [of "''conf''"]
    by (auto simp: path_options_def split: if_splits)
  show ?l if r: ?r
    unfolding list_all_iff
  proof
    fix s assume "s \<in> set (panel_options w m)"
    then consider "s \<in> set fixed_options" | "s \<in> set (path_options w m)" | "s \<in> set (number_options m)"
      | "s \<in> set (identity_options w m)" | "s \<in> set (mc_advanced_options (mt_config m))"
      using panel_options_set(1) [OF assms] by blast
    then show "path_option s \<or> option_fits s"
    proof cases
      case 1
      then show ?thesis using fits_fixed unfolding fixed_options_def [symmetric] list_all_iff by simp
    next
      case 4
      then show ?thesis using r identity_fits [of w m] by (simp add: list_all_iff)
    qed (use path number_options_fit [OF assms(1)] r in \<open>simp_all add: list_all_iff\<close>)
  qed
qed

section \<open>The request as a whole\<close>

lemma mount_point_text:
  assumes "name_valid w name"
  shows "path_child mount_base name = ''/mnt/webnas/mnt/'' @ name" and "CHR ''/'' \<notin> set name" and "CHR 0x00 \<notin> set name"
    and "path_comps (''/mnt/webnas/mnt/'' @ name) = [''mnt'', ''webnas'', ''mnt'', name]" and "name \<noteq> ''..''" and "length name \<le> 63"
proof -
  show slash: "CHR ''/'' \<notin> set name" and "CHR 0x00 \<notin> set name" and "length name \<le> 63"
    using assms by (auto simp: name_valid_def list_all_iff)
  show "name \<noteq> ''..''" using assms by (auto simp: name_valid_def)
  have "name \<noteq> []" "name \<noteq> ''.''" using assms by (auto simp: name_valid_def)
  then show "path_comps (''/mnt/webnas/mnt/'' @ name) = [''mnt'', ''webnas'', ''mnt'', name]"
    by (simp add: path_comps_def py_split_single [OF slash])
  show "path_child mount_base name = ''/mnt/webnas/mnt/'' @ name"
    by (simp add: path_child_def mount_base_def path_root_def path_comps_def path_text_def)
qed

lemma mount_root_point:
  assumes valid: "name_valid w name" and top: "be_resolve env ''/mnt/webnas'' = Inr ''/mnt/webnas''"
    and point: "be_resolve env (path_child mount_base name) = Inr (path_child mount_base name)"
  shows "mount_root env False (path_child mount_base name) = step_return (path_child mount_base name)"
proof -
  note p = mount_point_text [OF valid]
  have root: "path_root (''/mnt/webnas/mnt/'' @ name) = ''/''" by (simp add: path_root_def)
  have "path_posix (''/mnt/webnas/mnt/'' @ name) = ''/mnt/webnas/mnt/'' @ name"
    unfolding path_posix_def root p(4) by (simp add: path_text_def)
  moreover have "''..'' \<notin> set (path_parts (''/mnt/webnas/mnt/'' @ name))"
    unfolding path_parts_def root p(4) using p(5) by simp
  moreover have "path_under ''/mnt/webnas'' (''/mnt/webnas/mnt/'' @ name)"
    unfolding path_under_def path_parts_def root p(4) by (simp add: path_root_def path_comps_def)
  ultimately show ?thesis
    using top point p(3) unfolding p(1) mount_root_def safe_path_def by simp
qed

lemma show_int_plain: "CHR '','' \<notin> set (show_int n)"
  by (auto simp: show_int_def is_digit_def dest: show_nat_digits)

lemma local_identity_plain:
  assumes "mount_valid m"
  shows "CHR '','' \<notin> set (fst (local_identity w m)) \<and> CHR '','' \<notin> set (snd (local_identity w m))"
proof -
  have "CHR '','' \<notin> set v" if "v = [] \<or> id_ok v" for v
    using that by (auto simp: id_ok_def list_all_iff dest: word_not_comma)
  then show ?thesis
    using assms show_int_plain by (auto simp: local_identity_def mount_valid_def Let_def split: option.splits)
qed

lemma numeric_plain: "numeric_text v \<Longrightarrow> CHR '','' \<notin> set v"
  by (auto simp: numeric_text_def list_all_iff is_digit_def)

lemma panel_options_plain:
  assumes valid: "mount_valid m" "has_credentials w m"
    and files: "\<forall>f \<in> {mw_credentials w (mt_id m), mw_davfs w (mt_id m)}. mw_is_file w f \<longrightarrow> trusted_file env f"
    and s: "s \<in> set (panel_options w m)"
  shows "s \<noteq> [] \<and> CHR '','' \<notin> set s"
proof -
  have fixed: "list_all (\<lambda>s. s \<noteq> [] \<and> CHR '','' \<notin> set s) fixed_options" by code_simp
  have numbers: "numeric_text (mc_file_mode (mt_config m))" "numeric_text (mc_dir_mode (mt_config m))"
    using valid(1) mode_numeric unfolding mount_valid_def Let_def by blast+
  have advanced: "\<forall>t \<in> set (mc_advanced_options (mt_config m)). advanced_ok t"
    using valid(1) by (simp add: mount_valid_def Let_def list_all_iff)
  consider "s \<in> set fixed_options" | "s \<in> set (path_options w m)" | "s \<in> set (number_options m)"
    | "s \<in> set (identity_options w m)" | "s \<in> set (mc_advanced_options (mt_config m))"
    using panel_options_set(1) [OF valid] s by blast
  then show ?thesis
  proof cases
    case 1
    then show ?thesis using fixed by (simp add: list_all_iff)
  next
    case 2
    then show ?thesis using files by (auto simp: path_options_def trusted_file_def split: if_splits)
  next
    case 3
    then show ?thesis
      using numbers [THEN numeric_plain] show_int_plain by (auto simp: number_options_def Let_def split: if_splits)
  next
    case 4
    then show ?thesis
      using local_identity_plain [OF valid(1), of w] by (auto simp: identity_options_def id_options_def split: if_splits)
  qed (use advanced advanced_plain in blast)
qed

lemma mount_option_token: "mount_option env s = step_return s \<Longrightarrow> token_ok 4096 s"
proof (rule ccontr)
  assume r: "mount_option env s = step_return s" and "\<not> token_ok 4096 s"
  then have "returns (deny ''invalid mount option'') s" by (simp add: mount_option_def)
  then show False by simp
qed

lemma panel_text_settles:
  assumes "mount_valid m" "has_credentials w m"
    and "\<forall>f \<in> {mw_credentials w (mt_id m), mw_davfs w (mt_id m)}. mw_is_file w f \<longrightarrow> trusted_file env f"
  defines "opts \<equiv> py_join CHR '','' (panel_options w m)"
  shows "settles (validated_mount_options env opts) (int (length opts) \<le> 16384
      \<and> list_all option_fits (mc_advanced_options (mt_config m)) \<and> list_all numeric_text (identity_used w m)) opts"
  unfolding opts_def panel_options_fit [OF assms(1,2), symmetric]
  using panel_options_settle [OF assms(1-3)] panel_options_plain [OF assms(1-3)] panel_options_set(2) [OF assms(1,2)]
  by (intro settles_option_text) blast+

lemma panel_text_item:
  assumes "mount_valid m" "has_credentials w m"
    and "\<forall>f \<in> {mw_credentials w (mt_id m), mw_davfs w (mt_id m)}. mw_is_file w f \<longrightarrow> trusted_file env f"
    and fits: "mount_fits w m"
  shows "item_ok 16384 (py_join CHR '','' (panel_options w m))"
proof -
  have "token_ok 4096 s" if s: "s \<in> set (panel_options w m)" for s
  proof -
    have "path_option s \<or> option_fits s"
      using fits panel_options_fit [OF assms(1,2)] s by (auto simp: mount_fits_def list_all_iff)
    then show ?thesis
      using panel_options_settle [OF assms(1-3) s] mount_option_token by (auto simp: settles_def)
  qed
  moreover have "control CHR 0x00" by (simp add: control_def)
  ultimately have "\<forall>s \<in> set (panel_options w m). CHR 0x00 \<notin> set s"
    unfolding token_ok_def list_ex_iff by blast
  then have "CHR 0x00 \<notin> set (py_join CHR '','' (panel_options w m))"
    using set_py_join [of "CHR '',''" "panel_options w m"] by auto
  then show ?thesis using fits by (simp add: item_ok_def mount_fits_def)
qed

lemma mount_words_settle:
  assumes "mount_valid m" "has_credentials w m"
    and "\<forall>f \<in> {mw_credentials w (mt_id m), mw_davfs w (mt_id m)}. mw_is_file w f \<longrightarrow> trusted_file env f"
    and root: "mount_root env False (mt_point m) = step_return (mt_point m)"
  shows "settles (mount_words env (hd (mount_command w m)) (tl (mount_command w m))) (mount_fits w m) (tl (mount_command w m))"
proof -
  let ?opts = "py_join CHR '','' (panel_options w m)"
  note opts = panel_text_settles [OF assms(1-3)]
  note token = settles_token [of 4096 _ "mt_remote m"]
  have point: "settles (mount_root env False (mt_point m)) True (mt_point m)" by (simp add: root settles_def)
  show ?thesis
  proof (cases "mt_type m = ''sshfs''")
    case True
    have "mount_words env ''sshfs'' [mt_remote m, mt_point m, ''-o'', ?opts] =
        step_bind (policy_token 4096 ''SSHFS remote'' (Some (JStr (mt_remote m)))) (\<lambda>r.
          step_bind (mount_root env False (mt_point m)) (\<lambda>q.
          step_bind (validated_mount_options env ?opts) (\<lambda>os. step_return [r, q, ''-o'', os])))"
      by (simp add: mount_words_def)
    then have "settles (mount_words env ''sshfs'' [mt_remote m, mt_point m, ''-o'', ?opts])
        (token_ok 4096 (mt_remote m) \<and> True \<and> (int (length ?opts) \<le> 16384
           \<and> list_all option_fits (mc_advanced_options (mt_config m)) \<and> list_all numeric_text (identity_used w m)) \<and> True)
        [mt_remote m, mt_point m, ''-o'', ?opts]"
      by (simp only:) (intro settles_bind [OF token] settles_bind [OF point] settles_bind [OF opts] settles_return)
    then show ?thesis using True by (simp add: mount_command_def mount_fits_def conj_ac)
  next
    case False
    have "mount_words env ''mount'' [''-t'', mount_fstype (mt_type m), ''-o'', ?opts, mt_remote m, mt_point m] =
        step_bind (validated_mount_options env ?opts) (\<lambda>os.
          step_bind (policy_token 4096 ''mount remote'' (Some (JStr (mt_remote m)))) (\<lambda>r.
          step_bind (mount_root env False (mt_point m)) (\<lambda>q.
          step_return [''-t'', mount_fstype (mt_type m), ''-o'', os, r, q])))"
      by (simp add: mount_words_def mount_fstype_def)
    then have "settles (mount_words env ''mount'' [''-t'', mount_fstype (mt_type m), ''-o'', ?opts, mt_remote m, mt_point m])
        ((int (length ?opts) \<le> 16384 \<and> list_all option_fits (mc_advanced_options (mt_config m))
           \<and> list_all numeric_text (identity_used w m)) \<and> token_ok 4096 (mt_remote m) \<and> True \<and> True)
        [''-t'', mount_fstype (mt_type m), ''-o'', ?opts, mt_remote m, mt_point m]"
      by (simp only:) (intro settles_bind [OF opts] settles_bind [OF token] settles_bind [OF point] settles_return)
    then show ?thesis using False by (simp add: mount_command_def mount_fits_def conj_ac)
  qed
qed

lemma mount_items:
  assumes "mount_fits w m" and "item_ok 16384 (py_join CHR '','' (panel_options w m))" and "item_ok 16384 (mt_point m)"
  shows "list_all (item_ok 16384) (tl (mount_command w m))"
proof -
  have "control CHR 0x00" by (simp add: control_def)
  then have "item_ok 16384 (mt_remote m)"
    using assms(1) by (auto simp: mount_fits_def token_ok_def item_ok_def len_between_def list_ex_iff)
  moreover have "item_ok 16384 ''-t''" "item_ok 16384 ''-o''" "item_ok 16384 (mount_fstype (mt_type m))"
    by (simp_all add: item_ok_def mount_fstype_def)
  ultimately show ?thesis using assms(2,3) by (simp add: mount_command_def Let_def)
qed

lemma str_items_only: "str_items ok (map JStr ss) = Some ts \<Longrightarrow> ts = ss"
  by (induction ss arbitrary: ts) (auto split: if_splits)

lemma run_mount_request:
  assumes "tool \<in> {''mount'', ''sshfs''}" and "args \<noteq> []"
  shows "run_mount env (mount_request (tool # args) 180) =
    (case str_items (item_ok 16384) (map JStr args) of None \<Rightarrow> deny ''invalid mount arguments''
     | Some ws \<Rightarrow> step_bind (mount_words env tool ws) (\<lambda>ws.
         step_bind (resolve_tool env tool) (\<lambda>exe. perform env (Ran (exe # ws) None 180))))"
proof -
  have "policy_token 16 ''mount tool'' (Some (JStr tool)) = step_return tool"
    using assms(1) by (auto simp: policy_token_def str_value_def token_ok_def len_between_def control_def)
  then show ?thesis
    using assms(2)
    by (simp add: run_mount_def mount_request_def payload_keys_def extra_keys_def ensure_def args_value_def
        list_value_def timeout_value_def split: option.splits)
qed


definition demo_mounts :: mount_world where
  "demo_mounts = \<lparr>mw_nfkc = (\<lambda>s. s), mw_casefold = ascii_lower, mw_isalnum = (\<lambda>c. ascii_letter c \<or> is_digit c),
     mw_urlsplit = (\<lambda>s. Inr \<lparr>sp_scheme = [], sp_netloc = [], sp_path = s, sp_query = [], sp_hostname = None,
       sp_username = None, sp_password = None\<rparr>),
     mw_plain = (\<lambda>s. True), mw_conflict = (\<lambda>s. False), mw_state = (\<lambda>s. Point_absent),
     mw_credentials = (\<lambda>i. ''/var/lib/webnas/network-mounts/credentials/'' @ i),
     mw_davfs = (\<lambda>i. ''/var/lib/webnas/network-mounts/davfs/'' @ i), mw_is_file = (\<lambda>s. False), mw_exists = (\<lambda>s. False),
     mw_account = (\<lambda>u. Some (1000, 1000))\<rparr>"

definition demo_mount_payload :: "string list \<Rightarrow> mount_payload" where
  "demo_mount_payload opts = \<lparr>mp_name = ''films'', mp_type = ''sshfs'', mp_host = ''nas.lan'', mp_share = None,
     mp_export_path = None, mp_remote_path = Some ''/srv/films'', mp_username = Some ''ann'', mp_domain = None,
     mp_smb_version = ''auto'', mp_nfs_version = ''auto'', mp_ssh_port = 22, mp_ssh_auth = ''key'',
     mp_read_only = True, mp_persistent = True, mp_automount = False, mp_uid = None, mp_gid = None,
     mp_file_mode = ''0644'', mp_dir_mode = ''0755'', mp_noexec = True, mp_advanced_options = opts,
     mp_allowed_users = [], mp_allowed_groups = [], mp_force_empty = False\<rparr>"

definition demo_mount :: "string list \<Rightarrow> network_mount" where
  "demo_mount opts = (case new_mount demo_mounts [] ''a1'' ''ann'' (demo_mount_payload opts) of Inr m \<Rightarrow> m)"

lemma demo_mount_made:
  "new_mount demo_mounts [] ''a1'' ''ann'' (demo_mount_payload [''noatime'']) = Inr (demo_mount [''noatime''])"
  "new_mount demo_mounts [] ''a1'' ''ann'' (demo_mount_payload [''cache'']) = Inr (demo_mount [''cache''])"
  by code_simp+

lemma demo_mount_fits: "mount_fits demo_mounts (demo_mount [''noatime''])" "\<not> mount_fits demo_mounts (demo_mount [''cache''])"
  by code_simp+


end
