(* ===== verification/Spec2Isabelle.thy ===== *)
theory Spec2Isabelle
  imports Rate_Limiter Ldap_Projection Job_Effects Policy_Engine Update_Coordination Cron_Invariants Broker_Answers Uploads Network_Mounts
begin

text \<open>
  Verification library of the backend of the WebNAS panel. The panel is a FastAPI application
  (\<^verbatim>\<open>src/backend/app\<close>) that runs as an unprivileged user; everything that needs root is sent over a
  Unix socket to a second process, the privileged broker (\<^verbatim>\<open>src/backend/app/privileged_broker\<close>).
  Paths below are relative to \<^verbatim>\<open>src/backend/app\<close>.

  \<^bold>\<open>The parts and how they interact.\<close> A request first meets the session guards (\<^verbatim>\<open>security.py\<close>): its
  token is hashed and looked up through a read cache, mutating requests also prove a CSRF token, and
  a login passes a rate limiter. The authorization service (\<^verbatim>\<open>identity/permission_service.py\<close>,
  \<^verbatim>\<open>rbac.py\<close>) decides on the grants of the RBAC tables, which it reads through a cache of its own; for
  directory users the tables are filled at login from the cached directory (\<^verbatim>\<open>identity/ldap_projection.py\<close>).
  Handlers that take long become jobs (\<^verbatim>\<open>jobs/\<close>): a table, a priority queue with worker threads, a gate
  per module, retries and dependencies. Panel updates are coordinated with the other operations
  through a request file (\<^verbatim>\<open>update_coordination.py\<close>). The cron manager (\<^verbatim>\<open>modules/cron/\<close>) keeps a job
  table and a file of \<^verbatim>\<open>/etc/cron.d\<close> together. Policies over collected facts are evaluated by
  \<^verbatim>\<open>modules/policy_as_code/engine.py\<close>. File operations resolve user paths (\<^verbatim>\<open>path_policy.py\<close>,
  \<^verbatim>\<open>proxmox_guard.py\<close>) and are run, like accounts, packages, mounts, firewalls and containers, by the
  broker, which trusts nothing of a request but validates it again against a fixed policy per operation.

  \<^bold>\<open>Conventions.\<close> An exception is a value of \<open>py_exn\<close>; a function that may raise returns
  \<open>py_exn + 'a\<close>, and one that also changes a state, \<open>Steps.step\<close>, gives the state it leaves in either
  case. SQL tables are lists of rows in insertion order, an aborted transaction leaves the database as
  it was. Clocks, fresh identifiers, random tokens and hashes are arguments. What the operating system
  answers is a record of functions (\<open>broker_env\<close>, \<open>path_world\<close>, \<open>cron_world\<close>, \<open>upload_env\<close>): each theorem holds for
  every answer unless it names an assumption on them. Python's integers are \<open>int\<close>, its floats reals,
  its strings lists of the first 256 code points. A lock held over an operation makes it one step of a
  machine; concurrency is the interleaving of steps, and what holds in every reachable state is proved
  with the locale \<open>Prelude.machine_invariant\<close>, interpreted once per machine.

  \<^bold>\<open>Theories and sources.\<close>

  \<^item> \<^verbatim>\<open>Prelude\<close>, \<^verbatim>\<open>Steps\<close>, \<^verbatim>\<open>Python_Text\<close>, \<^verbatim>\<open>Json_Value\<close>, \<^verbatim>\<open>Json_Text\<close>, \<^verbatim>\<open>Posix_Path\<close>: exceptions, results,
    tables, the machine locale, steps with their rules, the operations of Python strings, JSON values
    and their text, and \<^verbatim>\<open>pathlib\<close>, as far as the sources use them.
  \<^item> \<^verbatim>\<open>Permissions\<close> (\<^verbatim>\<open>identity/permissions.py\<close>): the registry, the legacy names, the built-in roles
    (C1, C2).
  \<^item> \<^verbatim>\<open>Sessions\<close> (\<^verbatim>\<open>security.py\<close>, class \<^verbatim>\<open>SessionStore\<close> and the guards): the cached store agrees with the
    table in every reachable state, a removed token and the sessions of a removed user never come back
    (C4, C5, C6). The locale \<open>cached_reader\<close> is the contract of a read-through cache; sessions and the
    sources of grants are its two interpretations.
  \<^item> \<^verbatim>\<open>Rate_Limiter\<close> (\<^verbatim>\<open>security.py\<close>, class \<^verbatim>\<open>LoginRateLimiter\<close>): the pruned queue is an exact sliding window
    of sixty seconds (C7).
  \<^item> \<^verbatim>\<open>Rbac_Store\<close>, \<^verbatim>\<open>Rbac_Invariants\<close>, \<^verbatim>\<open>Rbac_Effects\<close> (\<^verbatim>\<open>PermissionRepository\<close> in
    \<^verbatim>\<open>identity/permission_service.py\<close>): every operation on the tables, their integrity in every reachable
    database (C8, C9, C10), and what an operation does to the grants of all users (C11, C12, C13, C15).
  \<^item> \<^verbatim>\<open>Rbac_Service\<close>, \<^verbatim>\<open>Rbac_Decisions\<close> (\<^verbatim>\<open>PermissionService\<close>, \<^verbatim>\<open>rbac.py\<close>): the decision, explicit deny before
    allow before default deny, follows the database of the moment although it is cached; the guards, the
    scopes, the migration of legacy roles (C16, C17, C19, C20).
  \<^item> \<^verbatim>\<open>Ldap_Projection\<close> (\<^verbatim>\<open>identity/ldap_projection.py\<close>): the expansion of nested groups and the projection
    into the tables (C22, C24).
  \<^item> \<^verbatim>\<open>Job_Sanitize\<close>, \<^verbatim>\<open>Job_Store\<close>, \<^verbatim>\<open>Job_Runner\<close>, \<^verbatim>\<open>Job_Service\<close>, \<^verbatim>\<open>Job_Invariants\<close>, \<^verbatim>\<open>Job_Effects\<close> (\<^verbatim>\<open>jobs/service.py\<close>,
    \<^verbatim>\<open>jobs/models.py\<close>, \<^verbatim>\<open>jobs/repository.py\<close>, \<^verbatim>\<open>jobs/runner.py\<close>): redaction and bounds of what is stored
    (C25), the queue, whose contract is the locale \<open>priority_queue\<close> (C26), the integrity of the tables and
    the limits on what runs (C27, C28), cancellation, restart and retries (C30, C32, C33).
  \<^item> \<^verbatim>\<open>Policy_Engine\<close> (\<^verbatim>\<open>modules/policy_as_code/engine.py\<close>, \<^verbatim>\<open>models.py\<close>): a validated policy is evaluated without
    an uncaught exception, and its report adds up (C34, C35).
  \<^item> \<^verbatim>\<open>Update_Coordination\<close> (\<^verbatim>\<open>update_coordination.py\<close>): the steps of the request file and the admission of
    other operations (C36, C37).
  \<^item> \<^verbatim>\<open>Cron_Schedule\<close>, \<^verbatim>\<open>Cron_Config\<close>, \<^verbatim>\<open>Cron_Service\<close>, \<^verbatim>\<open>Cron_Invariants\<close> (\<^verbatim>\<open>modules/cron/schedule.py\<close>, \<^verbatim>\<open>models.py\<close>,
    \<^verbatim>\<open>system.py\<close>, \<^verbatim>\<open>repository.py\<close>, \<^verbatim>\<open>service.py\<close>): the next occurrence is the earliest match (C38), the managed
    file is read back as written (C39), table and file agree in every reachable state (C40).
  \<^item> \<^verbatim>\<open>Path_Policy\<close> (\<^verbatim>\<open>path_policy.py\<close>, \<^verbatim>\<open>proxmox_guard.py\<close>): where a path of a user may lie (C21).
  \<^item> \<^verbatim>\<open>Uploads\<close> (\<^verbatim>\<open>uploads.py\<close>): chunked uploads under interleaved requests, what the file worker is given (C31),
    and the two ways in which it is not what was sent.
  \<^item> \<^verbatim>\<open>Network_Mounts\<close> (\<^verbatim>\<open>network_mounts.py\<close>, \<^verbatim>\<open>privileged_broker/runtime.py\<close>): the definition of a mount, the
    command made of it, and exactly when the broker runs that command unchanged (C18).
  \<^item> \<^verbatim>\<open>Broker_Base\<close> (\<^verbatim>\<open>privileged_broker/protocol.py\<close>, \<^verbatim>\<open>policy.py\<close>) and \<^verbatim>\<open>Broker_Rules\<close>: requests, replies, the
    shared validators, units, power and managed files, and the rules of the policies. A policy is a step
    over the list of effects caused so far: commands, directories, modes, installed and removed files.
  \<^item> \<^verbatim>\<open>Broker_Account\<close> (\<^verbatim>\<open>account_policy.py\<close>): typed account commands and the proof that exactly these are run
    (C3). \<^verbatim>\<open>Broker_Services\<close> (\<^verbatim>\<open>extended_policy.py\<close>): ownership, quotas, packages, module hooks, Samba
    accounts, mounts, mount units. \<^verbatim>\<open>Broker_Devices\<close> (\<^verbatim>\<open>storage_policy.py\<close>, \<^verbatim>\<open>storage_probe_rules.py\<close>,
    \<^verbatim>\<open>firewall_policy.py\<close>, \<^verbatim>\<open>docker_stop_policy.py\<close>). \<^verbatim>\<open>Broker_Infra\<close> (\<^verbatim>\<open>infrastructure_policy.py\<close>,
    \<^verbatim>\<open>authentication_policy.py\<close>). \<^verbatim>\<open>Broker_Docker\<close> (\<^verbatim>\<open>docker_policy.py\<close>). \<^verbatim>\<open>Broker_Update\<close> (\<^verbatim>\<open>update_policy.py\<close>).
    \<^verbatim>\<open>Broker_Worker\<close> (\<^verbatim>\<open>file_worker_policy.py\<close>). \<^verbatim>\<open>Broker_Server\<close> (the dispatchers and \<^verbatim>\<open>server.py\<close>).
  \<^item> \<^verbatim>\<open>Broker_Confinement\<close>: the abstract specification \<open>confined\<close>, for each operation the tools, arguments,
    files and directories it may touch, and the proof that every effect of every connection is one of
    these (C14). \<^verbatim>\<open>Broker_Answers\<close>: which requests are refused before any effect (C23) and which exceptions
    leave a connection without an answer (C29).

  \<^bold>\<open>Lemma groups.\<close> The components share three calculi, each a collection of rules applied with \<open>intro\<close>:
  \<open>inv_intros\<close> for steps that keep an invariant or a preorder on states, \<open>emit_rules\<close> and \<open>each_rules\<close> for
  the effects a broker step emits, \<open>throw_rules\<close> and \<open>clean_rules\<close> for the exceptions it raises and the
  refusals it makes. Case distinctions are in \<open>emit_cases\<close>. The witness next to a property applies it to a
  concrete state of the component and evaluates the definitions there.

  \<^bold>\<open>Bounds and termination.\<close> No definition uses fuel: recursion is structural or has a measure. The bounds
  are those of the sources: sixteen levels and 10000 nodes in the group expansion, with which the
  breadth-first loop terminates; the depth and size limits of the sanitizer and of the policy documents;
  the horizon of the search for the next cron occurrence; sixty seconds at most between retries; frames
  of at most 32 MiB. Times and limits of commands are rational constants of the sources.

  \<^bold>\<open>Parameters.\<close> Code that is not in the repository is an argument: HMAC, \<^verbatim>\<open>uuid\<close>, \<^verbatim>\<open>json.loads\<close>, the
  serialisation of replies, the YAML and IP address parsers, PAM, \<^verbatim>\<open>Path.resolve\<close>, \<^verbatim>\<open>lstat\<close>, the account and
  group files, time zones. The regular expressions of the validators are written out as predicates on
  characters; only those of \<^verbatim>\<open>redact_text\<close> stay a function of \<open>broker_env\<close>, because no property reads the
  redacted text.

  \<^bold>\<open>Not modelled.\<close> Sockets, threads and timers themselves (their steps are), HTTP routing and the parsing of
  bodies, rendering of pages. The modules around hosts, hypervisors, containers, network configuration,
  monitoring, alerts, backups, plugins and the application store mostly run commands or remote calls and
  read their output: the part of them that decides about the host is the policy of the broker, modelled
  here. The file worker itself acts on the file tree under another identity; only its requests and the
  paths they may name are modelled. Of the identity service the account commands
  are modelled, not the reading of the account files.
\<close>

end
